(* ===== verification/Rust_Prelude.thy ===== *)
theory Rust_Prelude
  imports Main "HOL-Library.Word"
begin

text \<open>
  The parts of Rust that every component of the development uses.

  A Rust function that can fail returns \<open>Result\<close>, can panic, and can loop for ever; the four
  possibilities are the constructors of \<open>outcome\<close>. A function with effects takes the state of
  everything outside the program (the operating system, the database, the Docker daemon, the
  OpenSSL library) and returns an outcome with the new state: the type \<open>eff\<close>. The operator
  \<open>?\<close> is \<open>and_then\<close>, \<open>map_err\<close> and the \<open>match\<close> on an error are \<open>on_err\<close>, and
  \<open>unwrap\<close> turns an error into a panic.

  The second half holds the calculus the component proofs use: inversion of a successful
  sequence, and the predicate \<open>keeps\<close> (every run of an effect keeps a predicate on the
  outside state, whatever its outcome), closed under the operators above.
\<close>

named_theorems eff_defs \<open>definitions of the effect operators\<close>
named_theorems keeps_intros \<open>introduction rules for the predicate keeps\<close>

type_synonym byte = "8 word"
type_synonym u16 = "16 word"
type_synonym u32 = "32 word"
type_synonym i32 = "32 word"
type_synonym u64 = "64 word"

subsection \<open>Outcomes and effects\<close>

datatype ('e, 'a) outcome = Ok 'a | Err 'e | Panic | Diverge

type_synonym ('w, 'e, 'a) eff = "'w \<Rightarrow> ('e, 'a) outcome \<times> 'w"

definition ret :: "'a \<Rightarrow> ('w, 'e, 'a) eff" where
  "ret a w = (Ok a, w)"

definition throw :: "'e \<Rightarrow> ('w, 'e, 'a) eff" where
  "throw e w = (Err e, w)"

definition panic :: "('w, 'e, 'a) eff" where
  "panic w = (Panic, w)"

definition diverge :: "('w, 'e, 'a) eff" where
  "diverge w = (Diverge, w)"

definition and_then :: "('w, 'e, 'a) eff \<Rightarrow> ('a \<Rightarrow> ('w, 'e, 'b) eff) \<Rightarrow> ('w, 'e, 'b) eff" where
  "and_then m f w =
     (case m w of
        (Ok a, w') \<Rightarrow> f a w'
      | (Err e, w') \<Rightarrow> (Err e, w')
      | (Panic, w') \<Rightarrow> (Panic, w')
      | (Diverge, w') \<Rightarrow> (Diverge, w'))"

definition on_err :: "('w, 'e, 'a) eff \<Rightarrow> ('e \<Rightarrow> ('w, 'f, 'a) eff) \<Rightarrow> ('w, 'f, 'a) eff" where
  "on_err m h w =
     (case m w of
        (Ok a, w') \<Rightarrow> (Ok a, w')
      | (Err e, w') \<Rightarrow> h e w'
      | (Panic, w') \<Rightarrow> (Panic, w')
      | (Diverge, w') \<Rightarrow> (Diverge, w'))"

definition unwrap :: "('w, 'e, 'a) eff \<Rightarrow> ('w, 'f, 'a) eff" where
  "unwrap m = on_err m (\<lambda>_. panic)"

text \<open>
  \<open>attempt\<close> makes a failure a value: it is the \<open>match\<close> on a \<open>Result\<close> whose two arms both
  continue.
\<close>

definition attempt :: "('w, 'e, 'a) eff \<Rightarrow> ('w, 'f, 'e + 'a) eff" where
  "attempt m w =
     (case m w of
        (Ok a, w') \<Rightarrow> (Ok (Inr a), w')
      | (Err e, w') \<Rightarrow> (Ok (Inl e), w')
      | (Panic, w') \<Rightarrow> (Panic, w')
      | (Diverge, w') \<Rightarrow> (Diverge, w'))"

text \<open>\<open>Option::ok_or\<close> and \<open>assert!\<close>.\<close>

definition ok_or :: "'e \<Rightarrow> 'a option \<Rightarrow> ('w, 'e, 'a) eff" where
  "ok_or e x = (case x of Some a \<Rightarrow> ret a | None \<Rightarrow> throw e)"

definition assert_that :: "bool \<Rightarrow> ('w, 'e, unit) eff" where
  "assert_that b = (if b then ret () else panic)"

lemmas eff_op_defs [eff_defs] =
  ret_def throw_def panic_def diverge_def and_then_def on_err_def unwrap_def attempt_def
  ok_or_def assert_that_def

fun is_ok :: "('e, 'a) outcome \<Rightarrow> bool" where
  "is_ok (Ok _) = True"
| "is_ok _ = False"

text \<open>The error values of \<open>std::io\<close>: a kind and the message it carries.\<close>

datatype io_error_kind = InvalidData | WouldBlock | NotConnected | ConnectionAborted | OtherKind

datatype io_error = IoError (io_kind: io_error_kind) (io_msg: string)

subsection \<open>Casts and strings\<close>

text \<open>
  \<open>x as i32\<close> on a \<open>u32\<close> keeps the bits; the two types are the same words, read with
  \<open>unat\<close> or \<open>sint\<close>. A \<open>String\<close> is its bytes.
\<close>

definition starts_with :: "string \<Rightarrow> string \<Rightarrow> bool" where
  "starts_with s p = (take (length p) s = p)"

definition ends_with :: "string \<Rightarrow> string \<Rightarrow> bool" where
  "ends_with s p = (length p \<le> length s \<and> drop (length s - length p) s = p)"

fun find_char :: "char \<Rightarrow> string \<Rightarrow> nat option" where
  "find_char c [] = None"
| "find_char c (x # xs) = (if x = c then Some 0 else map_option Suc (find_char c xs))"

text \<open>\<open>CString::new\<close> refuses a string with an embedded NUL byte.\<close>

definition has_nul :: "string \<Rightarrow> bool" where
  "has_nul s = list_ex (\<lambda>c. c = CHR 0x00) s"

definition cstring_new :: "string \<Rightarrow> string option" where
  "cstring_new s = (if has_nul s then None else Some s)"

text \<open>
  Well-formed UTF-8, as \<open>str::from_utf8\<close> checks it: no overlong form, no surrogate, nothing
  beyond the last code point.
\<close>

definition cont :: "nat \<Rightarrow> bool" where
  "cont b = (0x80 \<le> b \<and> b < 0xC0)"

fun utf8_ok :: "nat list \<Rightarrow> bool" where
  "utf8_ok [] = True"
| "utf8_ok (b # bs) =
     (if b < 0x80 then utf8_ok bs
      else if 0xC2 \<le> b \<and> b < 0xE0 then
        (case bs of c # cs \<Rightarrow> cont c \<and> utf8_ok cs | _ \<Rightarrow> False)
      else if 0xE0 \<le> b \<and> b < 0xF0 then
        (case bs of c # d # ds \<Rightarrow>
             cont c \<and> cont d \<and> (b = 0xE0 \<longrightarrow> 0xA0 \<le> c) \<and> (b = 0xED \<longrightarrow> c < 0xA0) \<and> utf8_ok ds
         | _ \<Rightarrow> False)
      else if 0xF0 \<le> b \<and> b < 0xF5 then
        (case bs of c # d # e # es \<Rightarrow>
             cont c \<and> cont d \<and> cont e \<and> (b = 0xF0 \<longrightarrow> 0x90 \<le> c) \<and> (b = 0xF4 \<longrightarrow> c < 0x90)
             \<and> utf8_ok es
         | _ \<Rightarrow> False)
      else False)"

definition from_utf8 :: "string \<Rightarrow> string option" where
  "from_utf8 s = (if utf8_ok (map of_char s) then Some s else None)"

text \<open>Decimal rendering of unsigned integers, as \<open>format!("{}", n)\<close> gives it.\<close>

fun show_nat :: "nat \<Rightarrow> string" where
  "show_nat n =
     (if n < 10 then [char_of (48 + n)] else show_nat (n div 10) @ [char_of (48 + n mod 10)])"

declare show_nat.simps [simp del]

text \<open>\<open>str::parse::<u32>\<close>: an optional plus sign, then decimal digits, checked for overflow.\<close>

fun parse_digits :: "nat \<Rightarrow> string \<Rightarrow> string + nat" where
  "parse_digits acc [] = Inr acc"
| "parse_digits acc (c # cs) =
     (let d = of_char c - 48 in
      if of_char c < (48 :: nat) \<or> 57 < (of_char c :: nat) then Inl ''invalid digit found in string''
      else if 2 ^ 32 \<le> acc * 10 + d then Inl ''number too large to fit in target type''
      else parse_digits (acc * 10 + d) cs)"

definition parse_u32 :: "string \<Rightarrow> string + u32" where
  "parse_u32 s =
     (let ds = (case s of c # cs \<Rightarrow> if c = CHR ''+'' then cs else s | [] \<Rightarrow> []) in
      if ds = [] then Inl ''cannot parse integer from empty string''
      else map_sum id of_nat (parse_digits 0 ds))"

definition show_int :: "int \<Rightarrow> string" where
  "show_int i = (if i < 0 then ''-'' @ show_nat (nat (- i)) else show_nat (nat i))"

text \<open>Upper-case hexadecimal, padded with zeros on the left: \<open>{:08X}\<close>.\<close>

definition hex_digit :: "nat \<Rightarrow> char" where
  "hex_digit d = (if d < 10 then char_of (48 + d) else char_of (55 + d))"

fun show_hex :: "nat \<Rightarrow> string" where
  "show_hex n = (if n < 16 then [hex_digit n] else show_hex (n div 16) @ [hex_digit (n mod 16)])"

declare show_hex.simps [simp del]

definition pad_left :: "nat \<Rightarrow> char \<Rightarrow> string \<Rightarrow> string" where
  "pad_left k c s = replicate (k - length s) c @ s"

subsection \<open>Sequencing: inversion rules\<close>

lemma eff_simps [simp]:
  "ret a w = (Ok a, w)"
  "throw e w = (Err e, w)"
  "panic w = (Panic, w)"
  "diverge w = (Diverge, w)"
  by (simp_all add: eff_defs)

lemma and_then_ret [simp]: "and_then (ret a) f = f a"
  by (simp add: and_then_def fun_eq_iff)

lemma and_then_throw [simp]: "and_then (throw e) f = throw e"
  by (simp add: and_then_def fun_eq_iff)

lemma and_then_panic [simp]: "and_then panic f = panic"
  by (simp add: and_then_def fun_eq_iff)

text \<open>The simplifier contracts \<open>ret a\<close> to \<open>Pair (Ok a)\<close>; the same rules in that form.\<close>

lemma eff_Pair [simp]:
  "and_then (Pair (Ok a)) f = f a"
  "and_then (Pair (Err e)) f = throw e"
  "and_then (Pair Panic) f = panic"
  "and_then (Pair Diverge) f = diverge"
  "on_err (Pair (Ok a)) h = ret a"
  "on_err (Pair (Err e)) h = h e"
  "on_err (Pair Panic) h = panic"
  "on_err (Pair Diverge) h = diverge"
  "attempt (Pair (Ok a)) = ret (Inr a)"
  "attempt (Pair (Err e)) = ret (Inl e)"
  "attempt (Pair Panic) = panic"
  "attempt (Pair Diverge) = diverge"
  by (simp_all add: and_then_def on_err_def attempt_def fun_eq_iff)

lemma and_then_assoc: "and_then (and_then m f) g = and_then m (\<lambda>a. and_then (f a) g)"
  by (simp add: and_then_def fun_eq_iff split: prod.splits outcome.splits)

lemma and_then_Ok_iff:
  "and_then m f w = (Ok b, w') \<longleftrightarrow> (\<exists>a w1. m w = (Ok a, w1) \<and> f a w1 = (Ok b, w'))"
  by (auto simp: and_then_def split: prod.splits outcome.splits)

lemma and_then_OkE:
  assumes "and_then m f w = (Ok b, w')"
  obtains a w1 where "m w = (Ok a, w1)" "f a w1 = (Ok b, w')"
  using assms by (auto simp: and_then_Ok_iff)

lemma and_then_step:
  "m w = (Ok a, w1) \<Longrightarrow> and_then m f w = f a w1"
  by (simp add: and_then_def)

lemma and_then_stop:
  "m w = (Err e, w1) \<Longrightarrow> and_then m f w = (Err e, w1)"
  "m w = (Panic, w1) \<Longrightarrow> and_then m f w = (Panic, w1)"
  "m w = (Diverge, w1) \<Longrightarrow> and_then m f w = (Diverge, w1)"
  by (simp_all add: and_then_def)

lemma on_err_step:
  "m w = (Ok a, w1) \<Longrightarrow> on_err m h w = (Ok a, w1)"
  "m w = (Err e, w1) \<Longrightarrow> on_err m h w = h e w1"
  "m w = (Panic, w1) \<Longrightarrow> on_err m h w = (Panic, w1)"
  "m w = (Diverge, w1) \<Longrightarrow> on_err m h w = (Diverge, w1)"
  by (simp_all add: on_err_def)

lemma unwrap_Ok_iff [simp]: "unwrap m w = (Ok a, w') \<longleftrightarrow> m w = (Ok a, w')"
  by (auto simp: unwrap_def on_err_def split: prod.splits outcome.splits)

lemma unwrap_never_Err [simp]: "unwrap m w \<noteq> (Err e, w')"
  by (auto simp: unwrap_def on_err_def split: prod.splits outcome.splits)

lemma attempt_Ok_iff [simp]:
  "attempt m w = (Ok (Inr a), w') \<longleftrightarrow> m w = (Ok a, w')"
  "attempt m w = (Ok (Inl e), w') \<longleftrightarrow> m w = (Err e, w')"
  by (auto simp: attempt_def split: prod.splits outcome.splits)

lemma ok_or_simps [simp]:
  "ok_or e (Some a) = ret a"
  "ok_or e None = throw e"
  by (simp_all add: ok_or_def)

lemma assert_that_simps [simp]:
  "assert_that True = ret ()"
  "assert_that False = panic"
  by (simp_all add: assert_that_def)

subsection \<open>What an effect keeps\<close>

definition keeps :: "('w \<Rightarrow> bool) \<Rightarrow> ('w, 'e, 'a) eff \<Rightarrow> bool" where
  "keeps I m \<longleftrightarrow> (\<forall>w. I w \<longrightarrow> I (snd (m w)))"

lemma keepsI: "(\<And>w. I w \<Longrightarrow> I (snd (m w))) \<Longrightarrow> keeps I m"
  by (simp add: keeps_def)

lemma keepsD: "keeps I m \<Longrightarrow> I w \<Longrightarrow> I (snd (m w))"
  by (simp add: keeps_def)

lemma keeps_basic [keeps_intros, simp]:
  "keeps I (ret a)" "keeps I (throw e)" "keeps I panic" "keeps I diverge"
  by (simp_all add: keeps_def)

lemma keeps_Pair [simp]: "keeps I (Pair r)"
  by (simp add: keeps_def)

lemma keeps_and_then [keeps_intros]:
  assumes "keeps I m" "\<And>a. keeps I (f a)"
  shows "keeps I (and_then m f)"
proof (rule keepsI)
  fix w assume "I w"
  with assms(1) have "I (snd (m w))" by (rule keepsD)
  with assms(2) show "I (snd (and_then m f w))"
    by (auto simp: and_then_def keeps_def split: prod.splits outcome.splits)
qed

lemma keeps_on_err [keeps_intros]:
  assumes "keeps I m" "\<And>e. keeps I (h e)"
  shows "keeps I (on_err m h)"
proof (rule keepsI)
  fix w assume "I w"
  with assms(1) have "I (snd (m w))" by (rule keepsD)
  with assms(2) show "I (snd (on_err m h w))"
    by (auto simp: on_err_def keeps_def split: prod.splits outcome.splits)
qed

lemma keeps_unwrap [keeps_intros]: "keeps I m \<Longrightarrow> keeps I (unwrap m)"
  by (simp add: unwrap_def keeps_on_err)

lemma snd_attempt [simp]: "snd (attempt m w) = snd (m w)"
  by (simp add: attempt_def split: prod.split outcome.split)

lemma keeps_attempt [keeps_intros]: "keeps I m \<Longrightarrow> keeps I (attempt m)"
  by (simp add: keeps_def)

lemma keeps_ok_or [keeps_intros]: "keeps I (ok_or e x)"
  by (simp add: ok_or_def split: option.split)

lemma keeps_assert [keeps_intros]: "keeps I (assert_that b)"
  by (simp add: assert_that_def)

lemma keeps_if [keeps_intros]: "keeps I m \<Longrightarrow> keeps I n \<Longrightarrow> keeps I (if b then m else n)"
  by simp

lemma keeps_case_option [keeps_intros]:
  "keeps I m \<Longrightarrow> (\<And>a. keeps I (f a)) \<Longrightarrow> keeps I (case x of None \<Rightarrow> m | Some a \<Rightarrow> f a)"
  by (simp split: option.split)

lemma keeps_case_sum [keeps_intros]:
  "(\<And>a. keeps I (f a)) \<Longrightarrow> (\<And>b. keeps I (g b)) \<Longrightarrow>
   keeps I (case x of Inl a \<Rightarrow> f a | Inr b \<Rightarrow> g b)"
  by (simp split: sum.split)

lemma keeps_case_prod [keeps_intros]:
  "(\<And>a b. keeps I (f a b)) \<Longrightarrow> keeps I (case x of (a, b) \<Rightarrow> f a b)"
  by (simp split: prod.split)

subsection \<open>Postconditions on every outcome\<close>

text \<open>
  \<open>triple P m Q\<close>: from a state with \<open>P\<close>, every run of \<open>m\<close> ends in an outcome and a state
  related by \<open>Q\<close>. A prefix that keeps \<open>P\<close> may be stepped over when \<open>Q\<close> holds for every way of
  stopping in a state with \<open>P\<close>.
\<close>

definition triple :: "('w \<Rightarrow> bool) \<Rightarrow> ('w, 'e, 'a) eff \<Rightarrow> (('e, 'a) outcome \<Rightarrow> 'w \<Rightarrow> bool) \<Rightarrow> bool" where
  "triple P m Q \<longleftrightarrow> (\<forall>w r w'. P w \<longrightarrow> m w = (r, w') \<longrightarrow> Q r w')"

lemma tripleD: "triple P m Q \<Longrightarrow> P w \<Longrightarrow> m w = (r, w') \<Longrightarrow> Q r w'"
  by (auto simp: triple_def)

lemma triple_simps [simp]:
  "triple P (ret a) Q \<longleftrightarrow> (\<forall>w. P w \<longrightarrow> Q (Ok a) w)"
  "triple P (throw e) Q \<longleftrightarrow> (\<forall>w. P w \<longrightarrow> Q (Err e) w)"
  "triple P panic Q \<longleftrightarrow> (\<forall>w. P w \<longrightarrow> Q Panic w)"
  "triple P (Pair r) Q \<longleftrightarrow> (\<forall>w. P w \<longrightarrow> Q r w)"
  by (auto simp: triple_def)

lemma triple_and_then:
  assumes "triple P m (\<lambda>r w. case r of Ok a \<Rightarrow> R a w | Err e \<Rightarrow> Q (Err e) w | Panic \<Rightarrow> Q Panic w
      | Diverge \<Rightarrow> Q Diverge w)"
    and "\<And>a. triple (R a) (f a) Q"
  shows "triple P (and_then m f) Q"
  unfolding triple_def
proof (intro allI impI)
  fix w r w' assume P: "P w" and run: "and_then m f w = (r, w')"
  obtain r1 w1 where m: "m w = (r1, w1)" by fastforce
  from tripleD [OF assms(1) P m] run m assms(2) show "Q r w'"
    by (cases r1) (auto simp: and_then_def dest: tripleD)
qed

lemma triple_if: "triple P m Q \<Longrightarrow> triple P n Q \<Longrightarrow> triple P (if b then m else n) Q"
  by simp

lemma triple_case_sum:
  "(\<And>a. triple P (f a) Q) \<Longrightarrow> (\<And>b. triple P (g b) Q) \<Longrightarrow>
   triple P (case x of Inl a \<Rightarrow> f a | Inr b \<Rightarrow> g b) Q"
  by (simp split: sum.split)

lemma triple_case_prod:
  "(\<And>a b. triple P (f a b) Q) \<Longrightarrow> triple P (case x of (a, b) \<Rightarrow> f a b) Q"
  by (simp split: prod.split)

lemma triple_throw: "(\<And>w. P w \<Longrightarrow> Q (Err e) w) \<Longrightarrow> triple P (throw e) Q"
  by simp

lemma triple_skip:
  assumes "keeps P m" "\<And>a. triple P (f a) Q"
    and "\<And>w e. P w \<Longrightarrow> Q (Err e) w" "\<And>w. P w \<Longrightarrow> Q Panic w" "\<And>w. P w \<Longrightarrow> Q Diverge w"
  shows "triple P (and_then m f) Q"
proof (rule triple_and_then [where R = "\<lambda>_. P"])
  show "triple P m (\<lambda>r w. case r of Ok a \<Rightarrow> P w | Err e \<Rightarrow> Q (Err e) w | Panic \<Rightarrow> Q Panic w
      | Diverge \<Rightarrow> Q Diverge w)"
    using assms(1,3-5) by (auto simp: triple_def keeps_def split: outcome.split)
qed (rule assms(2))

subsection \<open>Strings\<close>

lemma starts_with_iff: "starts_with s p \<longleftrightarrow> (\<exists>t. s = p @ t)"
proof
  assume "starts_with s p"
  then have "s = p @ drop (length p) s"
    by (metis append_take_drop_id starts_with_def)
  then show "\<exists>t. s = p @ t" ..
qed (auto simp: starts_with_def)

lemma ends_with_iff: "ends_with s p \<longleftrightarrow> (\<exists>t. s = t @ p)"
proof
  assume "ends_with s p"
  then have "s = take (length s - length p) s @ p"
    by (metis append_take_drop_id ends_with_def)
  then show "\<exists>t. s = t @ p" ..
qed (auto simp: ends_with_def)

lemma find_char_SomeD:
  "find_char c s = Some n \<Longrightarrow> s = take n s @ c # drop (Suc n) s \<and> c \<notin> set (take n s) \<and> n < length s"
proof (induction s arbitrary: n)
  case (Cons x xs)
  then show ?case by (cases n) (auto split: if_splits)
qed simp

lemma find_char_append: "c \<notin> set p \<Longrightarrow> find_char c (p @ c # q) = Some (length p)"
  by (induction p) auto

lemma find_char_Some_iff:
  "find_char c s = Some n \<longleftrightarrow> (\<exists>pre post. s = pre @ c # post \<and> c \<notin> set pre \<and> length pre = n)"
proof
  assume found: "find_char c s = Some n"
  then have "length (take n s) = n"
    using find_char_SomeD [OF found] by simp
  then show "\<exists>pre post. s = pre @ c # post \<and> c \<notin> set pre \<and> length pre = n"
    using find_char_SomeD [OF found] by blast
qed (auto simp: find_char_append)

lemma find_char_None_iff: "find_char c s = None \<longleftrightarrow> c \<notin> set s"
  by (induction s) auto

lemma of_char_digit: "n < 10 \<Longrightarrow> of_char (char_of (48 + n :: nat)) = 48 + n"
  by simp

lemma parse_digits_append:
  "parse_digits acc (s @ t) = (case parse_digits acc s of Inl e \<Rightarrow> Inl e | Inr n \<Rightarrow> parse_digits n t)"
  by (induction s arbitrary: acc) (auto simp: Let_def)

lemma parse_digits_show_nat: "n < 2 ^ 32 \<Longrightarrow> parse_digits 0 (show_nat n) = Inr n"
proof (induction n rule: show_nat.induct)
  case (1 n)
  show ?case
  proof (cases "n < 10")
    case True
    then show ?thesis by (subst show_nat.simps) (simp add: Let_def)
  next
    case False
    with 1 have "parse_digits 0 (show_nat (n div 10)) = Inr (n div 10)" by simp
    moreover have "n div 10 * 10 + n mod 10 = n" by simp
    ultimately show ?thesis
      using False 1(2) by (subst show_nat.simps) (simp add: parse_digits_append Let_def)
  qed
qed

lemma show_nat_digits: "c \<in> set (show_nat n) \<Longrightarrow> 48 \<le> (of_char c :: nat) \<and> of_char c \<le> (57 :: nat)"
proof (induction n rule: show_nat.induct)
  case (1 n)
  show ?case
  proof (cases "n < 10")
    case True
    with 1(2) show ?thesis by (subst (asm) show_nat.simps) auto
  next
    case False
    moreover have "n mod 10 < 10" by simp
    ultimately show ?thesis using 1 by (subst (asm) show_nat.simps) auto
  qed
qed

lemma show_nat_nonempty [simp]: "show_nat n \<noteq> []"
  by (subst show_nat.simps) simp

lemma parse_u32_show: "parse_u32 (show_nat (unat n)) = Inr n"
proof -
  have "unat n < 2 ^ 32" using unsigned_less [of n, where 'a = nat] by simp
  then have "parse_digits 0 (show_nat (unat n)) = Inr (unat n)" by (rule parse_digits_show_nat)
  moreover obtain c cs where s: "show_nat (unat n) = c # cs"
    by (cases "show_nat (unat n)") auto
  moreover have "c \<noteq> CHR ''+''" using show_nat_digits [of c "unat n"] s by auto
  ultimately show ?thesis by (simp add: parse_u32_def)
qed

lemma has_nul_append [simp]: "has_nul (s @ t) \<longleftrightarrow> has_nul s \<or> has_nul t"
  by (simp add: has_nul_def)

lemma has_nul_iff: "has_nul s \<longleftrightarrow> CHR 0x00 \<in> set s"
  by (auto simp: has_nul_def list_ex_iff)

end
