(* ===== verification/Ossl_Error.thy ===== *)
theory Ossl_Error
  imports Rust_Prelude
begin

unbundle bit_operations_syntax

text \<open>
  The boundary between the openssl crate and the OpenSSL library, and the crate's error values
  (\<open>openssl/src/lib.rs\<close>, \<open>openssl/src/error.rs\<close>, the \<open>ERR_GET_*\<close> functions of
  \<open>openssl-sys\<close>).

  The C library is a parameter of every definition: a function that takes the name of the
  foreign function, its arguments and the outside state, and returns the C return value, the
  values stored through out-pointers, and the new state. The wrappers of the crate are
  definitions over it. The C error queue is part of that state; \<open>ErrorStack::get\<close> empties it,
  and since nothing bounds the loop it is a \<open>partial_function\<close> whose \<open>None\<close> is the outcome
  \<open>Diverge\<close>.
\<close>

subsection \<open>Foreign calls\<close>

datatype cval = CNull | CPtr nat | CInt int | CStr string | CBytes "byte list"

type_synonym cret = "cval \<times> cval list"
type_synonym 'w ffi = "string \<Rightarrow> cval list \<Rightarrow> 'w \<Rightarrow> cret \<times> 'w"

definition ccall :: "'w ffi \<Rightarrow> string \<Rightarrow> cval list \<Rightarrow> ('w, 'e, cret) eff" where
  "ccall F f args w = (case F f args w of (r, w') \<Rightarrow> (Ok r, w'))"

fun c_int :: "cval \<Rightarrow> int" where
  "c_int (CInt i) = i"
| "c_int _ = 0"

fun c_str :: "cval \<Rightarrow> string option" where
  "c_str (CStr s) = Some s"
| "c_str _ = None"

fun c_bytes :: "cval \<Rightarrow> byte list" where
  "c_bytes (CBytes bs) = bs"
| "c_bytes _ = []"

definition out :: "cval list \<Rightarrow> nat \<Rightarrow> cval" where
  "out os i = (if i < length os then os ! i else CNull)"

subsection \<open>Error codes\<close>

definition ERR_TXT_MALLOCED :: int where "ERR_TXT_MALLOCED = 1"
definition ERR_TXT_STRING :: int where "ERR_TXT_STRING = 2"

definition ERR_GET_LIB :: "u64 \<Rightarrow> nat" where
  "ERR_GET_LIB l = unat (drop_bit 24 l AND 0xFF)"

definition ERR_GET_FUNC :: "u64 \<Rightarrow> nat" where
  "ERR_GET_FUNC l = unat (drop_bit 12 l AND 0xFFF)"

definition ERR_GET_REASON :: "u64 \<Rightarrow> nat" where
  "ERR_GET_REASON l = unat (l AND 0xFFF)"

subsection \<open>One error\<close>

record ossl_error =
  err_code :: u64
  err_file :: "string option"
  err_line :: int
  err_data :: "string option"

type_synonym error_stack = "ossl_error list"

definition Error_get :: "'w ffi \<Rightarrow> ('w, error_stack, ossl_error option) eff" where
  "Error_get F =
     and_then (ccall F ''init'' []) (\<lambda>_.
     and_then (ccall F ''ERR_get_error_line_data'' []) (\<lambda>(r, os).
       if c_int r = 0 then ret None
       else
         let flags = c_int (out os 3);
             err = (\<lambda>d. \<lparr>err_code = word_of_int (c_int r), err_file = c_str (out os 0),
                         err_line = c_int (out os 1), err_data = d\<rparr>)
         in if flags AND ERR_TXT_STRING \<noteq> 0 then
              (case c_str (out os 2) of
                 None \<Rightarrow> panic
               | Some bytes \<Rightarrow>
                   (case from_utf8 bytes of
                      None \<Rightarrow> panic
                    | Some d \<Rightarrow> ret (Some (err (Some d)))))
            else ret (Some (err None))))"

text \<open>The three table lookups \<open>library\<close>, \<open>function\<close> and \<open>reason\<close> differ in the table.\<close>

definition error_table :: "'w ffi \<Rightarrow> string \<Rightarrow> ossl_error \<Rightarrow> ('w, 'e, string option) eff" where
  "error_table F table e =
     and_then (ccall F table [CInt (uint (err_code e))]) (\<lambda>(r, _).
       case c_str r of
         None \<Rightarrow> ret None
       | Some bytes \<Rightarrow> (case from_utf8 bytes of None \<Rightarrow> panic | Some s \<Rightarrow> ret (Some s)))"

definition Error_library :: "'w ffi \<Rightarrow> ossl_error \<Rightarrow> ('w, 'e, string option) eff" where
  "Error_library F = error_table F ''ERR_lib_error_string''"

definition Error_function :: "'w ffi \<Rightarrow> ossl_error \<Rightarrow> ('w, 'e, string option) eff" where
  "Error_function F = error_table F ''ERR_func_error_string''"

definition Error_reason :: "'w ffi \<Rightarrow> ossl_error \<Rightarrow> ('w, 'e, string option) eff" where
  "Error_reason F = error_table F ''ERR_reason_error_string''"

definition Error_file :: "ossl_error \<Rightarrow> ('w, 'e, string) eff" where
  "Error_file e =
     (case err_file e of
        None \<Rightarrow> panic
      | Some bytes \<Rightarrow> (case from_utf8 bytes of None \<Rightarrow> panic | Some s \<Rightarrow> ret s))"

definition Error_display :: "'w ffi \<Rightarrow> ossl_error \<Rightarrow> ('w, 'e, string) eff" where
  "Error_display F e =
     (let s0 = ''error:'' @ pad_left 8 CHR ''0'' (show_hex (unat (err_code e))) in
      and_then (Error_library F e) (\<lambda>l.
      let s1 = s0 @ (case l of Some t \<Rightarrow> '':'' @ t
                     | None \<Rightarrow> '':lib('' @ show_nat (ERR_GET_LIB (err_code e)) @ '')'') in
      and_then (Error_function F e) (\<lambda>f.
      let s2 = s1 @ (case f of Some t \<Rightarrow> '':'' @ t
                     | None \<Rightarrow> '':func('' @ show_nat (ERR_GET_FUNC (err_code e)) @ '')'') in
      and_then (Error_reason F e) (\<lambda>r.
      let s3 = s2 @ (case r of Some t \<Rightarrow> '':'' @ t
                     | None \<Rightarrow> '':reason('' @ show_nat (ERR_GET_FUNC (err_code e)) @ '')'') in
      and_then (Error_file e) (\<lambda>fl.
        ret (s3 @ '':'' @ fl @ '':'' @ show_int (err_line e) @ '':'' @
             (case err_data e of None \<Rightarrow> '''' | Some d \<Rightarrow> d)))))))"

subsection \<open>The error stack\<close>

partial_function (option) drain ::
  "'w ffi \<Rightarrow> ossl_error list \<Rightarrow> 'w \<Rightarrow> ((error_stack, error_stack) outcome \<times> 'w) option" where
  "drain F vec w =
     (case Error_get F w of
        (Ok err, w') \<Rightarrow>
          (case err of
             Some e \<Rightarrow> drain F (vec @ [e]) w'
           | None \<Rightarrow> Some (Ok vec, w'))
      | (Err x, w') \<Rightarrow> Some (Err x, w')
      | (Panic, w') \<Rightarrow> Some (Panic, w')
      | (Diverge, w') \<Rightarrow> Some (Diverge, w'))"

definition ErrorStack_get :: "'w ffi \<Rightarrow> ('w, error_stack, error_stack) eff" where
  "ErrorStack_get F w = (case drain F [] w of None \<Rightarrow> (Diverge, w) | Some r \<Rightarrow> r)"

fun display_rest :: "'w ffi \<Rightarrow> bool \<Rightarrow> error_stack \<Rightarrow> ('w, 'e, string) eff" where
  "display_rest F first [] = ret ''''"
| "display_rest F first (e # es) =
     and_then (Error_display F e) (\<lambda>s.
     and_then (display_rest F False es) (\<lambda>t.
       ret ((if first then '''' else '', '') @ s @ t)))"

definition ErrorStack_display :: "'w ffi \<Rightarrow> error_stack \<Rightarrow> ('w, 'e, string) eff" where
  "ErrorStack_display F es = display_rest F True es"

subsection \<open>Return codes\<close>

definition cvt_p :: "'w ffi \<Rightarrow> cval \<Rightarrow> ('w, error_stack, cval) eff" where
  "cvt_p F r = (if r = CNull then and_then (ErrorStack_get F) throw else ret r)"

definition cvt :: "'w ffi \<Rightarrow> cval \<Rightarrow> ('w, error_stack, int) eff" where
  "cvt F r = (if c_int r \<le> 0 then and_then (ErrorStack_get F) throw else ret (c_int r))"

definition cvt_n :: "'w ffi \<Rightarrow> cval \<Rightarrow> ('w, error_stack, int) eff" where
  "cvt_n F r = (if c_int r < 0 then and_then (ErrorStack_get F) throw else ret (c_int r))"

text \<open>The two shapes every wrapper has: a foreign call whose result goes through a check.\<close>

definition call_p :: "'w ffi \<Rightarrow> string \<Rightarrow> cval list \<Rightarrow> ('w, error_stack, cval) eff" where
  "call_p F f args = and_then (ccall F f args) (\<lambda>(r, _). cvt_p F r)"

definition call_i :: "'w ffi \<Rightarrow> string \<Rightarrow> cval list \<Rightarrow> ('w, error_stack, unit) eff" where
  "call_i F f args = and_then (ccall F f args) (\<lambda>(r, _). and_then (cvt F r) (\<lambda>_. ret ()))"

text \<open>\<open>e.to_string()\<close> in a client whose errors are strings.\<close>

definition to_string_err ::
  "'w ffi \<Rightarrow> ('w, error_stack, 'a) eff \<Rightarrow> ('w, string, 'a) eff" where
  "to_string_err F m = on_err m (\<lambda>e. and_then (ErrorStack_display F e) throw)"

lemma ccall_step: "F f args w = (r, w') \<Longrightarrow> ccall F f args w = (Ok r, w')"
  by (simp add: ccall_def)

lemma call_i_step: "F f args w = ((r, os), w') \<Longrightarrow> 0 < c_int r \<Longrightarrow> call_i F f args w = (Ok (), w')"
  by (simp add: call_i_def ccall_def and_then_def cvt_def)

lemma call_p_step: "F f args w = ((r, os), w') \<Longrightarrow> r \<noteq> CNull \<Longrightarrow> call_p F f args w = (Ok r, w')"
  by (simp add: call_p_def ccall_def and_then_def cvt_p_def)

subsection \<open>What foreign calls keep\<close>

text \<open>
  A predicate on the outside state that no foreign call falsifies is kept by everything built
  from foreign calls, the error loop included.
\<close>

definition ffi_keeps :: "('w \<Rightarrow> bool) \<Rightarrow> 'w ffi \<Rightarrow> bool" where
  "ffi_keeps I F \<longleftrightarrow> (\<forall>f args w. I w \<longrightarrow> I (snd (F f args w)))"

lemma keeps_ccall [keeps_intros]:
  assumes "ffi_keeps I F"
  shows "keeps I (ccall F f args)"
proof (rule keepsI)
  fix w assume "I w"
  with assms have "I (snd (F f args w))" by (simp add: ffi_keeps_def)
  then show "I (snd (ccall F f args w))" by (simp add: ccall_def case_prod_beta)
qed

lemma keeps_Error_get [keeps_intros]: "ffi_keeps I F \<Longrightarrow> keeps I (Error_get F)"
  unfolding Error_get_def Let_def by (intro keeps_intros)

lemma drain_keeps:
  fixes F :: "'w ffi"
  assumes F: "keeps I (Error_get F)" and "drain F vec w = Some r" "I w"
  shows "I (snd r)"
proof -
  have "keeps I (Error_get F) \<longrightarrow> I w \<longrightarrow> I (snd r)"
  proof (rule drain.raw_induct
      [where P = "\<lambda>F vec w r. keeps I (Error_get F) \<longrightarrow> I w \<longrightarrow> I (snd r)", OF _ assms(2)])
    fix drain' :: "'w ffi \<Rightarrow> ossl_error list \<Rightarrow> 'w \<Rightarrow> ((error_stack, error_stack) outcome \<times> 'w) option"
      and F vec w r
    assume IH: "\<And>F vec w r. drain' F vec w = Some r \<Longrightarrow> keeps I (Error_get F) \<longrightarrow> I w \<longrightarrow> I (snd r)"
      and step: "(case Error_get F w of
        (Ok err, w') \<Rightarrow> (case err of Some e \<Rightarrow> drain' F (vec @ [e]) w' | None \<Rightarrow> Some (Ok vec, w'))
      | (Err x, w') \<Rightarrow> Some (Err x, w') | (Panic, w') \<Rightarrow> Some (Panic, w')
      | (Diverge, w') \<Rightarrow> Some (Diverge, w')) = Some r"
    show "keeps I (Error_get F) \<longrightarrow> I w \<longrightarrow> I (snd r)"
    proof (intro impI)
      assume F: "keeps I (Error_get F)" and w: "I w"
      obtain o1 w1 where get: "Error_get F w = (o1, w1)" by fastforce
      have "I (snd (Error_get F w))" using F w by (rule keepsD)
      with get have "I w1" by simp
      with step get F show "I (snd r)"
        by (auto split: outcome.splits option.splits dest!: IH)
    qed
  qed
  with assms show ?thesis by simp
qed

lemma Error_get_ErrorStack_get:
  assumes "keeps I (Error_get F)"
  shows "keeps I (ErrorStack_get F)"
proof (rule keepsI)
  fix w assume "I w"
  with assms show "I (snd (ErrorStack_get F w))"
    by (auto simp: ErrorStack_get_def dest: drain_keeps split: option.split)
qed

lemma keeps_ErrorStack_get [keeps_intros]: "ffi_keeps I F \<Longrightarrow> keeps I (ErrorStack_get F)"
  by (intro Error_get_ErrorStack_get keeps_intros)

lemma keeps_checked_calls [keeps_intros]:
  assumes "ffi_keeps I F"
  shows "keeps I (cvt F r)" "keeps I (cvt_p F r)" "keeps I (cvt_n F r)"
    "keeps I (call_p F f args)" "keeps I (call_i F f args)"
  unfolding cvt_def cvt_p_def cvt_n_def call_p_def call_i_def
  by (intro keeps_intros assms)+

lemma keeps_error_table [keeps_intros]: "ffi_keeps I F \<Longrightarrow> keeps I (error_table F t e)"
  unfolding error_table_def by (intro keeps_intros)

lemma keeps_Error_display [keeps_intros]: "ffi_keeps I F \<Longrightarrow> keeps I (Error_display F e)"
  unfolding Error_display_def Let_def Error_library_def Error_function_def Error_reason_def
    Error_file_def
  by (intro keeps_intros)

lemma keeps_display_rest [keeps_intros]: "ffi_keeps I F \<Longrightarrow> keeps I (display_rest F first es)"
  by (induction es arbitrary: first) (auto intro!: keeps_intros)

lemma keeps_to_string_err [keeps_intros]:
  "ffi_keeps I F \<Longrightarrow> keeps I m \<Longrightarrow> keeps I (to_string_err F m)"
  unfolding to_string_err_def ErrorStack_display_def by (intro keeps_intros)

subsection \<open>Draining the queue\<close>

text \<open>
  The documented behaviour of \<open>ERR_get_error_line_data\<close>, against an abstract queue of entries
  (an error code and the four out-values): with an empty queue it returns 0, otherwise it
  returns the oldest entry and removes it. \<open>entry_error\<close> is what \<open>Error::get\<close> makes of an
  entry, \<open>None\<close> where it panics.
\<close>

type_synonym err_entry = "int \<times> cval list"

definition entry_error :: "err_entry \<Rightarrow> ossl_error option" where
  "entry_error en =
     (case en of (c, os) \<Rightarrow>
        let err = (\<lambda>d. \<lparr>err_code = word_of_int c, err_file = c_str (out os 0),
                        err_line = c_int (out os 1), err_data = d\<rparr>)
        in if c_int (out os 3) AND ERR_TXT_STRING = 0 then Some (err None)
           else Option.bind (c_str (out os 2)) (\<lambda>b. map_option (\<lambda>d. err (Some d)) (from_utf8 b)))"

definition err_queue_law :: "'w ffi \<Rightarrow> ('w \<Rightarrow> err_entry list) \<Rightarrow> bool" where
  "err_queue_law F q \<longleftrightarrow>
     (\<forall>w. q (snd (F ''init'' [] w)) = q w) \<and>
     (\<forall>w. let ((r, os), w') = F ''ERR_get_error_line_data'' [] w in
        case q w of
          [] \<Rightarrow> c_int r = 0 \<and> q w' = []
        | en # es \<Rightarrow> c_int r \<noteq> 0 \<and> en = (c_int r, os) \<and> q w' = es)"

lemma Error_get_empty:
  assumes "err_queue_law F q" "q w = []"
  obtains w' where "Error_get F w = (Ok None, w')" "q w' = []"
proof -
  obtain r1 w1 where init: "F ''init'' [] w = (r1, w1)" by fastforce
  obtain r os w2 where pop: "F ''ERR_get_error_line_data'' [] w1 = ((r, os), w2)"
    by (metis prod.exhaust)
  from assms init have "q w1 = []" by (metis err_queue_law_def snd_conv)
  with assms(1) pop have "c_int r = 0" "q w2 = []"
    unfolding err_queue_law_def by (auto simp: Let_def split: prod.splits dest: spec [of _ w1])
  with init pop that [of w2] show ?thesis
    by (simp add: Error_get_def ccall_def and_then_def)
qed

lemma Error_get_pop:
  assumes "err_queue_law F q" "q w = en # es" "entry_error en = Some e"
  obtains w' where "Error_get F w = (Ok (Some e), w')" "q w' = es"
proof -
  obtain r1 w1 where init: "F ''init'' [] w = (r1, w1)" by fastforce
  obtain r os w2 where pop: "F ''ERR_get_error_line_data'' [] w1 = ((r, os), w2)"
    by (metis prod.exhaust)
  from assms init have "q w1 = en # es" by (metis err_queue_law_def snd_conv)
  with assms(1) pop have "c_int r \<noteq> 0" "en = (c_int r, os)" "q w2 = es"
    unfolding err_queue_law_def by (auto simp: Let_def split: prod.splits dest: spec [of _ w1])
  with init pop that [of w2] assms(3) show ?thesis
    by (auto simp: Error_get_def ccall_def and_then_def entry_error_def Let_def
        split: if_splits option.splits bind_splits)
qed

lemma drain_all:
  assumes "err_queue_law F q" "\<forall>en \<in> set (q w). entry_error en \<noteq> None"
  shows "\<exists>w'. drain F vec w = Some (Ok (vec @ map (the \<circ> entry_error) (q w)), w') \<and> q w' = []"
  using assms(2)
proof (induction "q w" arbitrary: vec w)
  case Nil
  then obtain w' where "Error_get F w = (Ok None, w')" "q w' = []"
    using Error_get_empty [OF assms(1)] by metis
  then show ?case by (subst drain.simps) (simp flip: Nil)
next
  case (Cons en es)
  then obtain e where e: "entry_error en = Some e" by (metis list.set_intros(1) option.exhaust)
  with Cons.hyps(2) obtain w' where
    get: "Error_get F w = (Ok (Some e), w')" and q': "q w' = es"
    using Error_get_pop [OF assms(1)] by metis
  have "\<exists>w''. drain F (vec @ [e]) w' = Some (Ok ((vec @ [e]) @ map (the \<circ> entry_error) (q w')), w'') \<and> q w'' = []"
    using Cons q' by (intro Cons.hyps(1)) (auto simp flip: Cons.hyps(2))
  with get e q' show ?case
    by (subst drain.simps) (simp flip: Cons.hyps(2))
qed


text \<open>A library whose whole state is its error queue, for the witnesses below.\<close>

definition queue_lib :: "(nat \<times> cval list) list ffi" where
  "queue_lib f args w =
     (if f = ''ERR_get_error_line_data'' then
        (case w of [] \<Rightarrow> ((CInt 0, []), []) | (c, os) # es \<Rightarrow> ((CInt (int c + 1), os), es))
      else ((CNull, []), w))"

lemma queue_lib_law: "err_queue_law queue_lib (map (\<lambda>(c, os). (int c + 1, os)))"
  by (auto simp: err_queue_law_def queue_lib_def Let_def split: list.split)


subsection \<open>Error codes\<close>

lemma ERR_GET_arith:
  "ERR_GET_LIB c = unat c div 2 ^ 24 mod 2 ^ 8"
  "ERR_GET_FUNC c = unat c div 2 ^ 12 mod 2 ^ 12"
  "ERR_GET_REASON c = unat c mod 2 ^ 12"
proof -
  have masks: "(0xFF :: u64) = mask 8" "(0xFFF :: u64) = mask 12"
    by (simp_all add: mask_eq_exp_minus_1)
  show "ERR_GET_LIB c = unat c div 2 ^ 24 mod 2 ^ 8"
    "ERR_GET_FUNC c = unat c div 2 ^ 12 mod 2 ^ 12"
    "ERR_GET_REASON c = unat c mod 2 ^ 12"
    unfolding ERR_GET_LIB_def ERR_GET_FUNC_def ERR_GET_REASON_def masks
    by (simp_all flip: take_bit_eq_mask
        add: unsigned_take_bit_eq unsigned_drop_bit_eq)
      (use unsigned_less [of c, where 'a = nat] in \<open>simp_all add: take_bit_eq_mod drop_bit_eq_div\<close>)
qed

text \<open>
  An error code is read back from the three numbers the crate extracts from it: library,
  function and reason are exactly the low 32 bits of the packed code, and each is in the range
  of its bit field.
\<close>

lemma ERR_GET_unpack:
  "unat c mod 2 ^ 32 = ERR_GET_LIB c * 2 ^ 24 + ERR_GET_FUNC c * 2 ^ 12 + ERR_GET_REASON c
   \<and> ERR_GET_LIB c < 2 ^ 8 \<and> ERR_GET_FUNC c < 2 ^ 12 \<and> ERR_GET_REASON c < 2 ^ 12"
proof -
  let ?x = "unat c"
  have "?x mod (2 ^ 12 * (2 ^ 12 * 2 ^ 8)) = 2 ^ 12 * (?x div 2 ^ 12 mod (2 ^ 12 * 2 ^ 8)) + ?x mod 2 ^ 12"
    by (rule mod_mult2_eq)
  moreover have "?x div 2 ^ 12 mod (2 ^ 12 * 2 ^ 8) =
      2 ^ 12 * (?x div 2 ^ 12 div 2 ^ 12 mod 2 ^ 8) + ?x div 2 ^ 12 mod 2 ^ 12"
    by (rule mod_mult2_eq)
  moreover have "?x div 2 ^ 12 div 2 ^ 12 = ?x div 2 ^ 24"
    by (simp flip: div_mult2_eq)
  ultimately show ?thesis
    by (simp add: ERR_GET_arith algebra_simps)
qed

subsection \<open>Rendering\<close>

definition err_tables :: "'w ffi \<Rightarrow> (string \<Rightarrow> int \<Rightarrow> cval) \<Rightarrow> bool" where
  "err_tables F tbl \<longleftrightarrow>
     (\<forall>t \<in> {''ERR_lib_error_string'', ''ERR_func_error_string'', ''ERR_reason_error_string''}.
      \<forall>c w. F t [CInt c] w = ((tbl t c, []), w))"

lemma error_table_apply:
  assumes "err_tables F tbl"
    and "t \<in> {''ERR_lib_error_string'', ''ERR_func_error_string'', ''ERR_reason_error_string''}"
    and "tbl t (uint (err_code e)) = CNull"
  shows "error_table F t e = ret None"
  using assms by (auto simp: error_table_def ccall_def and_then_def err_tables_def fun_eq_iff)

text \<open>
  An error whose strings are not loaded is rendered with its numbers; the number printed
  as \<open>reason(..)\<close> is the function number a second time, so the reason code, the low 12 bits,
  is not printed in decimal anywhere.
\<close>

lemma Error_display_numeric:
  assumes "err_tables F tbl" "\<And>t. tbl t (uint (err_code e)) = CNull"
    and "err_file e = Some f" "from_utf8 f = Some f" "err_data e = None"
  shows "Error_display F e w =
    (Ok (''error:'' @ pad_left 8 CHR ''0'' (show_hex (unat (err_code e)))
       @ '':lib('' @ show_nat (ERR_GET_LIB (err_code e)) @ '')''
       @ '':func('' @ show_nat (ERR_GET_FUNC (err_code e)) @ '')''
       @ '':reason('' @ show_nat (ERR_GET_FUNC (err_code e)) @ '')''
       @ '':'' @ f @ '':'' @ show_int (err_line e) @ '':''), w)"
  using assms
  by (simp add: Error_display_def Error_library_def Error_function_def Error_reason_def
      error_table_apply [OF assms(1)] Error_file_def Let_def)

lemma Error_display_numeric_witness:
  "Error_display (\<lambda>f args (w::unit). ((CNull, []), w))
     \<lparr>err_code = 0x0906D06C, err_file = Some ''p.c'', err_line = 7, err_data = None\<rparr> () =
   (Ok ''error:0906D06C:lib(9):func(109):reason(109):p.c:7:'', ())"
proof -
  have tbl: "err_tables (\<lambda>f args (w::unit). ((CNull, []), w)) (\<lambda>_ _. CNull)"
    by (simp add: err_tables_def)
  have nums: "ERR_GET_LIB 0x0906D06C = 9" "ERR_GET_FUNC 0x0906D06C = 109"
    by (simp_all add: ERR_GET_arith)
  show ?thesis
    by (subst Error_display_numeric [OF tbl, where f = "''p.c''"])
      (simp_all add: nums from_utf8_def pad_left_def show_hex.simps show_nat.simps show_int_def
        hex_digit_def char_of_def bit_0)
qed

end
