(* ===== verification/Ossl_X509.thy ===== *)
theory Ossl_X509
  imports Ossl_Error
begin

text \<open>
  The part of the openssl crate that the certificate authority and the client call: big
  numbers, RSA keys, \<open>PKey\<close>, times, memory BIOs, and the builders of \<open>openssl/src/x509/mod.rs\<close>
  (certificates, names, extensions, requests). A wrapper struct holds one C pointer and is that
  pointer here. Every wrapper is the foreign calls it makes, in order, with its assertions and
  its return-code checks; \<open>Drop\<close> (the \<open>*_free\<close> calls at the end of a scope) is not modelled
  in this theory.
\<close>

definition c_int_max :: nat where "c_int_max = 2 ^ 31 - 1"

definition init :: "'w ffi \<Rightarrow> ('w, 'e, unit) eff" where
  "init F = and_then (ccall F ''init'' []) (\<lambda>_. ret ())"

fun c_text :: "cval \<Rightarrow> string" where
  "c_text (CStr s) = s"
| "c_text _ = ''''"

subsection \<open>Memory BIOs\<close>

definition MemBioSlice_new :: "'w ffi \<Rightarrow> byte list \<Rightarrow> ('w, error_stack, cval) eff" where
  "MemBioSlice_new F buf =
     and_then (init F) (\<lambda>_.
     and_then (assert_that (length buf \<le> c_int_max)) (\<lambda>_.
       call_p F ''BIO_new_mem_buf'' [CBytes buf, CInt (int (length buf))]))"

definition MemBio_new :: "'w ffi \<Rightarrow> ('w, error_stack, cval) eff" where
  "MemBio_new F =
     and_then (init F) (\<lambda>_.
     and_then (ccall F ''BIO_s_mem'' []) (\<lambda>(m, _).
       call_p F ''BIO_new'' [m]))"

definition BIO_CTRL_INFO :: int where "BIO_CTRL_INFO = 3"

definition MemBio_get_buf :: "'w ffi \<Rightarrow> cval \<Rightarrow> ('w, 'e, byte list) eff" where
  "MemBio_get_buf F bio =
     and_then (ccall F ''BIO_ctrl'' [bio, CInt BIO_CTRL_INFO, CInt 0]) (\<lambda>(len, os).
       ret (take (nat (c_int len)) (c_bytes (out os 0))))"

text \<open>The macros \<open>to_pem!\<close> and \<open>private_key_to_pem!\<close>.\<close>

definition to_pem :: "'w ffi \<Rightarrow> string \<Rightarrow> cval \<Rightarrow> ('w, error_stack, byte list) eff" where
  "to_pem F write x =
     and_then (MemBio_new F) (\<lambda>bio.
     and_then (call_i F write [bio, x]) (\<lambda>_.
       MemBio_get_buf F bio))"

definition private_key_to_pem :: "'w ffi \<Rightarrow> cval \<Rightarrow> ('w, error_stack, byte list) eff" where
  "private_key_to_pem F key =
     and_then (MemBio_new F) (\<lambda>bio.
     and_then (call_i F ''PEM_write_bio_PKCS8PrivateKey''
        [bio, key, CNull, CNull, CInt (-1), CNull, CNull]) (\<lambda>_.
       MemBio_get_buf F bio))"

subsection \<open>Numbers, times, keys\<close>

definition BigNum_new :: "'w ffi \<Rightarrow> ('w, error_stack, cval) eff" where
  "BigNum_new F = and_then (init F) (\<lambda>_. call_p F ''BN_new'' [])"

definition BigNum_from_u32 :: "'w ffi \<Rightarrow> u32 \<Rightarrow> ('w, error_stack, cval) eff" where
  "BigNum_from_u32 F n =
     and_then (BigNum_new F) (\<lambda>v.
     and_then (call_i F ''BN_set_word'' [v, CInt (uint n)]) (\<lambda>_. ret v))"

definition BigNum_to_asn1_integer :: "'w ffi \<Rightarrow> cval \<Rightarrow> ('w, error_stack, cval) eff" where
  "BigNum_to_asn1_integer F n = call_p F ''BN_to_ASN1_INTEGER'' [n, CNull]"

definition Asn1Time_from_period :: "'w ffi \<Rightarrow> u64 \<Rightarrow> ('w, error_stack, cval) eff" where
  "Asn1Time_from_period F period =
     and_then (init F) (\<lambda>_. call_p F ''X509_gmtime_adj'' [CNull, CInt (sint period)])"

definition Asn1Time_days_from_now :: "'w ffi \<Rightarrow> u32 \<Rightarrow> ('w, error_stack, cval) eff" where
  "Asn1Time_days_from_now F days =
     Asn1Time_from_period F ((ucast days :: u64) * 60 * 60 * 24)"

definition Asn1String_as_utf8 :: "'w ffi \<Rightarrow> cval \<Rightarrow> ('w, error_stack, string) eff" where
  "Asn1String_as_utf8 F s =
     and_then (ccall F ''ASN1_STRING_to_UTF8'' [s]) (\<lambda>(len, os).
       if c_int len < 0 then and_then (ErrorStack_get F) throw
       else ret (c_text (out os 0)))"

definition RSA_F4 :: u32 where "RSA_F4 = 0x10001"
definition EVP_PKEY_RSA :: int where "EVP_PKEY_RSA = 6"

definition Rsa_generate :: "'w ffi \<Rightarrow> u32 \<Rightarrow> ('w, error_stack, cval) eff" where
  "Rsa_generate F bits =
     and_then (init F) (\<lambda>_.
     and_then (call_p F ''RSA_new'' []) (\<lambda>rsa.
     and_then (BigNum_from_u32 F RSA_F4) (\<lambda>e.
     and_then (call_i F ''RSA_generate_key_ex'' [rsa, CInt (sint bits), e, CNull]) (\<lambda>_.
       ret rsa))))"

definition PKey_from_rsa :: "'w ffi \<Rightarrow> cval \<Rightarrow> ('w, error_stack, cval) eff" where
  "PKey_from_rsa F rsa =
     and_then (call_p F ''EVP_PKEY_new'' []) (\<lambda>pkey.
     and_then (call_i F ''EVP_PKEY_assign'' [pkey, CInt EVP_PKEY_RSA, rsa]) (\<lambda>_.
       ret pkey))"

definition MessageDigest_sha256 :: "'w ffi \<Rightarrow> ('w, 'e, cval) eff" where
  "MessageDigest_sha256 F = and_then (ccall F ''EVP_sha256'' []) (\<lambda>(md, _). ret md)"

subsection \<open>Object identifiers\<close>

type_synonym nid = int

definition COMMONNAME :: nid where "COMMONNAME = 13"
definition COUNTRYNAME :: nid where "COUNTRYNAME = 14"
definition STATEORPROVINCENAME :: nid where "STATEORPROVINCENAME = 16"
definition ORGANIZATIONNAME :: nid where "ORGANIZATIONNAME = 17"
definition SUBJECT_KEY_IDENTIFIER :: nid where "SUBJECT_KEY_IDENTIFIER = 82"
definition KEY_USAGE :: nid where "KEY_USAGE = 83"
definition SUBJECT_ALT_NAME :: nid where "SUBJECT_ALT_NAME = 85"
definition ISSUER_ALT_NAME :: nid where "ISSUER_ALT_NAME = 86"
definition BASIC_CONSTRAINTS :: nid where "BASIC_CONSTRAINTS = 87"
definition AUTHORITY_KEY_IDENTIFIER :: nid where "AUTHORITY_KEY_IDENTIFIER = 90"
definition EXT_KEY_USAGE :: nid where "EXT_KEY_USAGE = 126"

lemmas nid_defs =
  COMMONNAME_def COUNTRYNAME_def STATEORPROVINCENAME_def ORGANIZATIONNAME_def
  SUBJECT_KEY_IDENTIFIER_def KEY_USAGE_def SUBJECT_ALT_NAME_def ISSUER_ALT_NAME_def
  BASIC_CONSTRAINTS_def AUTHORITY_KEY_IDENTIFIER_def EXT_KEY_USAGE_def

subsection \<open>Certificates\<close>

definition X509Builder_new :: "'w ffi \<Rightarrow> ('w, error_stack, cval) eff" where
  "X509Builder_new F = and_then (init F) (\<lambda>_. call_p F ''X509_new'' [])"

definition X509Builder_set_not_after :: "'w ffi \<Rightarrow> cval \<Rightarrow> cval \<Rightarrow> ('w, error_stack, unit) eff" where
  "X509Builder_set_not_after F b t = call_i F ''X509_set_notAfter'' [b, t]"

definition X509Builder_set_not_before :: "'w ffi \<Rightarrow> cval \<Rightarrow> cval \<Rightarrow> ('w, error_stack, unit) eff" where
  "X509Builder_set_not_before F b t = call_i F ''X509_set_notBefore'' [b, t]"

definition X509Builder_set_version :: "'w ffi \<Rightarrow> cval \<Rightarrow> int \<Rightarrow> ('w, error_stack, unit) eff" where
  "X509Builder_set_version F b version = call_i F ''X509_set_version'' [b, CInt version]"

definition X509Builder_set_serial_number :: "'w ffi \<Rightarrow> cval \<Rightarrow> cval \<Rightarrow> ('w, error_stack, unit) eff" where
  "X509Builder_set_serial_number F b n = call_i F ''X509_set_serialNumber'' [b, n]"

definition X509Builder_set_issuer_name :: "'w ffi \<Rightarrow> cval \<Rightarrow> cval \<Rightarrow> ('w, error_stack, unit) eff" where
  "X509Builder_set_issuer_name F b n = call_i F ''X509_set_issuer_name'' [b, n]"

definition X509Builder_set_subject_name :: "'w ffi \<Rightarrow> cval \<Rightarrow> cval \<Rightarrow> ('w, error_stack, unit) eff" where
  "X509Builder_set_subject_name F b n = call_i F ''X509_set_subject_name'' [b, n]"

definition X509Builder_set_pubkey :: "'w ffi \<Rightarrow> cval \<Rightarrow> cval \<Rightarrow> ('w, error_stack, unit) eff" where
  "X509Builder_set_pubkey F b k = call_i F ''X509_set_pubkey'' [b, k]"

definition X509Builder_x509v3_context ::
  "'w ffi \<Rightarrow> cval \<Rightarrow> cval option \<Rightarrow> cval option \<Rightarrow> ('w, 'e, cval) eff" where
  "X509Builder_x509v3_context F b issuer conf =
     (let issuer = (case issuer of Some i \<Rightarrow> i | None \<Rightarrow> b); subject = b in
      and_then (ccall F ''X509V3_set_ctx'' [issuer, subject, CNull, CNull, CInt 0]) (\<lambda>(_, os).
      let ctx = out os 0 in
      case conf of
        None \<Rightarrow> ret ctx
      | Some c \<Rightarrow> and_then (ccall F ''X509V3_set_nconf'' [ctx, c]) (\<lambda>(_, os'). ret (out os' 0))))"

definition X509Builder_append_extension :: "'w ffi \<Rightarrow> cval \<Rightarrow> cval \<Rightarrow> ('w, error_stack, unit) eff" where
  "X509Builder_append_extension F b ext = call_i F ''X509_add_ext'' [b, ext, CInt (-1)]"

definition X509Builder_sign :: "'w ffi \<Rightarrow> cval \<Rightarrow> cval \<Rightarrow> cval \<Rightarrow> ('w, error_stack, unit) eff" where
  "X509Builder_sign F b key hash = call_i F ''X509_sign'' [b, key, hash]"

definition X509_to_pem :: "'w ffi \<Rightarrow> cval \<Rightarrow> ('w, error_stack, byte list) eff" where
  "X509_to_pem F = to_pem F ''PEM_write_bio_X509''"

subsection \<open>Extensions\<close>

definition X509Extension_new ::
  "'w ffi \<Rightarrow> cval option \<Rightarrow> cval option \<Rightarrow> string \<Rightarrow> string \<Rightarrow> ('w, error_stack, cval) eff" where
  "X509Extension_new F conf ctx name val =
     (case cstring_new name of
        None \<Rightarrow> panic
      | Some name \<Rightarrow>
          (case cstring_new val of
             None \<Rightarrow> panic
           | Some val \<Rightarrow>
               and_then (init F) (\<lambda>_.
               call_p F ''X509V3_EXT_nconf''
                 [case conf of None \<Rightarrow> CNull | Some c \<Rightarrow> c,
                  case ctx of None \<Rightarrow> CNull | Some c \<Rightarrow> c, CStr name, CStr val])))"

definition X509Extension_new_nid ::
  "'w ffi \<Rightarrow> cval option \<Rightarrow> cval option \<Rightarrow> nid \<Rightarrow> string \<Rightarrow> ('w, error_stack, cval) eff" where
  "X509Extension_new_nid F conf ctx name val =
     (case cstring_new val of
        None \<Rightarrow> panic
      | Some val \<Rightarrow>
          and_then (init F) (\<lambda>_.
          call_p F ''X509V3_EXT_nconf_nid''
            [case conf of None \<Rightarrow> CNull | Some c \<Rightarrow> c,
             case ctx of None \<Rightarrow> CNull | Some c \<Rightarrow> c, CInt name, CStr val]))"

subsection \<open>Names\<close>

definition MBSTRING_UTF8 :: int where "MBSTRING_UTF8 = 0x1000"

definition X509NameBuilder_new :: "'w ffi \<Rightarrow> ('w, error_stack, cval) eff" where
  "X509NameBuilder_new F = and_then (init F) (\<lambda>_. call_p F ''X509_NAME_new'' [])"

definition X509NameBuilder_append_entry_by_text ::
  "'w ffi \<Rightarrow> cval \<Rightarrow> string \<Rightarrow> string \<Rightarrow> ('w, error_stack, unit) eff" where
  "X509NameBuilder_append_entry_by_text F b field val =
     (case cstring_new field of
        None \<Rightarrow> panic
      | Some field \<Rightarrow>
          and_then (assert_that (length val \<le> c_int_max)) (\<lambda>_.
          call_i F ''X509_NAME_add_entry_by_txt''
            [b, CStr field, CInt MBSTRING_UTF8, CStr val, CInt (int (length val)), CInt (-1), CInt 0]))"

definition X509NameBuilder_append_entry_by_nid ::
  "'w ffi \<Rightarrow> cval \<Rightarrow> nid \<Rightarrow> string \<Rightarrow> ('w, error_stack, unit) eff" where
  "X509NameBuilder_append_entry_by_nid F b field val =
     and_then (assert_that (length val \<le> c_int_max)) (\<lambda>_.
     call_i F ''X509_NAME_add_entry_by_NID''
       [b, CInt field, CInt MBSTRING_UTF8, CStr val, CInt (int (length val)), CInt (-1), CInt 0])"

record name_entries =
  ne_name :: cval
  ne_nid :: nid
  ne_loc :: int

definition entries_by_nid :: "cval \<Rightarrow> nid \<Rightarrow> name_entries" where
  "entries_by_nid name n = \<lparr>ne_name = name, ne_nid = n, ne_loc = -1\<rparr>"

definition X509NameEntries_next ::
  "'w ffi \<Rightarrow> name_entries \<Rightarrow> ('w, 'e, cval option \<times> name_entries) eff" where
  "X509NameEntries_next F it =
     and_then (ccall F ''X509_NAME_get_index_by_NID''
        [ne_name it, CInt (ne_nid it), CInt (ne_loc it)]) (\<lambda>(loc, _).
     let it = it\<lparr>ne_loc := c_int loc\<rparr> in
     if ne_loc it = -1 then ret (None, it)
     else
       and_then (ccall F ''X509_NAME_get_entry'' [ne_name it, CInt (ne_loc it)]) (\<lambda>(entry, _).
       and_then (assert_that (entry \<noteq> CNull)) (\<lambda>_.
         ret (Some entry, it))))"

definition X509NameEntry_data :: "'w ffi \<Rightarrow> cval \<Rightarrow> ('w, 'e, cval) eff" where
  "X509NameEntry_data F entry =
     and_then (ccall F ''X509_NAME_ENTRY_get_data'' [entry]) (\<lambda>(d, _). ret d)"

subsection \<open>Requests\<close>

definition X509ReqBuilder_new :: "'w ffi \<Rightarrow> ('w, error_stack, cval) eff" where
  "X509ReqBuilder_new F = and_then (init F) (\<lambda>_. call_p F ''X509_REQ_new'' [])"

definition X509ReqBuilder_set_subject_name :: "'w ffi \<Rightarrow> cval \<Rightarrow> cval \<Rightarrow> ('w, error_stack, unit) eff" where
  "X509ReqBuilder_set_subject_name F b n = call_i F ''X509_REQ_set_subject_name'' [b, n]"

definition X509ReqBuilder_set_pubkey :: "'w ffi \<Rightarrow> cval \<Rightarrow> cval \<Rightarrow> ('w, error_stack, unit) eff" where
  "X509ReqBuilder_set_pubkey F b k = call_i F ''X509_REQ_set_pubkey'' [b, k]"

definition X509ReqBuilder_sign :: "'w ffi \<Rightarrow> cval \<Rightarrow> cval \<Rightarrow> cval \<Rightarrow> ('w, error_stack, unit) eff" where
  "X509ReqBuilder_sign F b key hash = call_i F ''X509_REQ_sign'' [b, key, hash]"

definition X509Req_to_pem :: "'w ffi \<Rightarrow> cval \<Rightarrow> ('w, error_stack, byte list) eff" where
  "X509Req_to_pem F = to_pem F ''PEM_write_bio_X509_REQ''"

definition X509Req_from_pem :: "'w ffi \<Rightarrow> byte list \<Rightarrow> ('w, error_stack, cval) eff" where
  "X509Req_from_pem F buf =
     and_then (MemBioSlice_new F buf) (\<lambda>bio.
       call_p F ''PEM_read_bio_X509_REQ'' [bio, CNull, CNull, CNull])"

definition X509Req_subject_name :: "'w ffi \<Rightarrow> cval \<Rightarrow> ('w, 'e, cval) eff" where
  "X509Req_subject_name F req =
     and_then (ccall F ''X509_REQ_get_subject_name'' [req]) (\<lambda>(name, _).
     and_then (assert_that (name \<noteq> CNull)) (\<lambda>_. ret name))"

definition X509Req_public_key :: "'w ffi \<Rightarrow> cval \<Rightarrow> ('w, error_stack, cval) eff" where
  "X509Req_public_key F req =
     and_then (call_p F ''X509_REQ_get_pubkey'' [req]) (\<lambda>pkey.
     and_then (assert_that (pkey \<noteq> CNull)) (\<lambda>_. ret pkey))"

lemmas ossl_defs =
  init_def MemBioSlice_new_def MemBio_new_def MemBio_get_buf_def to_pem_def private_key_to_pem_def
  BigNum_new_def BigNum_from_u32_def BigNum_to_asn1_integer_def Asn1Time_from_period_def
  Asn1Time_days_from_now_def Asn1String_as_utf8_def Rsa_generate_def PKey_from_rsa_def
  MessageDigest_sha256_def X509Builder_new_def X509Builder_set_not_after_def
  X509Builder_set_not_before_def X509Builder_set_version_def X509Builder_set_serial_number_def
  X509Builder_set_issuer_name_def X509Builder_set_subject_name_def X509Builder_set_pubkey_def
  X509Builder_x509v3_context_def X509Builder_append_extension_def X509Builder_sign_def
  X509_to_pem_def X509Extension_new_def X509Extension_new_nid_def X509NameBuilder_new_def
  X509NameBuilder_append_entry_by_text_def X509NameBuilder_append_entry_by_nid_def
  X509NameEntries_next_def X509NameEntry_data_def X509ReqBuilder_new_def
  X509ReqBuilder_set_subject_name_def X509ReqBuilder_set_pubkey_def X509ReqBuilder_sign_def
  X509Req_to_pem_def X509Req_from_pem_def X509Req_subject_name_def X509Req_public_key_def

subsection \<open>What the wrappers keep\<close>

lemma ossl_keeps [keeps_intros]:
  assumes "ffi_keeps I F"
  shows "keeps I (init F)" "keeps I (MemBioSlice_new F buf)" "keeps I (MemBio_get_buf F bio)"
    "keeps I (private_key_to_pem F key)" "keeps I (BigNum_from_u32 F n)"
    "keeps I (BigNum_to_asn1_integer F b)" "keeps I (Asn1Time_days_from_now F d)"
    "keeps I (Asn1String_as_utf8 F s)" "keeps I (Rsa_generate F bits)" "keeps I (PKey_from_rsa F b)"
    "keeps I (MessageDigest_sha256 F)"
  unfolding ossl_defs by (intro keeps_intros assms)+

lemma ossl_x509_keeps [keeps_intros]:
  assumes "ffi_keeps I F"
  shows "keeps I (X509Builder_new F)" "keeps I (X509Builder_set_not_after F b t)"
    "keeps I (X509Builder_set_not_before F b t)" "keeps I (X509Builder_set_version F b v)"
    "keeps I (X509Builder_set_serial_number F b n)" "keeps I (X509Builder_set_issuer_name F b n)"
    "keeps I (X509Builder_set_subject_name F b n)" "keeps I (X509Builder_set_pubkey F b k)"
    "keeps I (X509Builder_x509v3_context F b iss conf)" "keeps I (X509Builder_append_extension F b e)"
    "keeps I (X509Builder_sign F b k h)" "keeps I (X509_to_pem F b)"
    "keeps I (X509Extension_new F conf ctx nm val)" "keeps I (X509Extension_new_nid F conf ctx i val)"
  unfolding ossl_defs Let_def by (intro keeps_intros assms)+

lemma ossl_name_req_keeps [keeps_intros]:
  assumes "ffi_keeps I F"
  shows "keeps I (X509NameBuilder_new F)" "keeps I (X509NameBuilder_append_entry_by_text F b f v)"
    "keeps I (X509NameBuilder_append_entry_by_nid F b i v)" "keeps I (X509NameEntries_next F it)"
    "keeps I (X509NameEntry_data F en)" "keeps I (X509ReqBuilder_new F)"
    "keeps I (X509ReqBuilder_set_subject_name F b n)" "keeps I (X509ReqBuilder_set_pubkey F b k)"
    "keeps I (X509ReqBuilder_sign F b k h)" "keeps I (X509Req_to_pem F b)"
    "keeps I (X509Req_from_pem F buf)" "keeps I (X509Req_subject_name F req)"
    "keeps I (X509Req_public_key F req)"
  unfolding ossl_defs Let_def by (intro keeps_intros assms)+

subsection \<open>Bounds\<close>

text \<open>
  The period \<open>days * 60 * 60 * 24\<close> that \<open>Asn1Time::days_from_now\<close> passes to OpenSSL is the
  exact number of seconds for every \<open>u32\<close>: on a platform with a 64-bit \<open>c_long\<close> the product
  neither wraps nor turns negative.
\<close>

lemma days_from_now_exact:
  "Asn1Time_days_from_now F days w =
   and_then (init F) (\<lambda>_. call_p F ''X509_gmtime_adj'' [CNull, CInt (int (unat days) * 86400)]) w"
proof -
  let ?p = "(ucast days :: u64) * 60 * 60 * 24"
  have days: "unat days < 2 ^ 32" using unsigned_less [of days, where 'a = nat] by simp
  have "unat ?p = unat days * 86400"
    using days by (simp add: unat_word_ariths unsigned_ucast_eq take_bit_nat_eq_self)
  then have "uint ?p = int (unat days) * 86400"
    by (simp only: uint_nat of_nat_mult of_nat_numeral)
  moreover have "sint ?p = uint ?p"
  proof -
    have "uint ?p < 2 ^ 63" using calculation unsigned_less [of days, where 'a = int] by simp
    moreover have "- (2 ^ 63) \<le> uint ?p"
      by (rule order_trans [OF _ unsigned_greater_eq]) simp
    ultimately have "signed_take_bit 63 (uint ?p) = uint ?p"
      by (intro signed_take_bit_int_eq_self)
    then show ?thesis by (simp only: sint_uint) simp
  qed
  ultimately have "sint ?p = int (unat days) * 86400" by (simp only:)
  then show ?thesis
    by (simp add: Asn1Time_days_from_now_def Asn1Time_from_period_def)
qed

end
