(* ===== verification/Externals.thy ===== *)
theory Externals
  imports Ossl_Error
begin

text \<open>
  The third-party code tolla runs on, as one record of operations that every definition of the
  program takes as its argument: the MongoDB driver and the bson crate, the Docker client
  (shiplift), the file system, the random number and UUID generators, and the OpenSSL library.
  An error of such an operation is the text its \<open>to_string\<close> gives, since that is all the
  program reads of it.

  Nothing is assumed here about what the operations do. The laws a property relies on are the
  named predicates of the theories that use them, each a documented behaviour of the crate.
\<close>

subsection \<open>Values of the bson crate\<close>

datatype bson =
    BString string
  | BI32 i32
  | BI64 "64 word"
  | BBool bool
  | BArray "bson list"
  | BDocument "(string \<times> bson) list"
  | BOther nat

type_synonym document = "(string \<times> bson) list"

definition doc_get :: "document \<Rightarrow> string \<Rightarrow> bson option" where
  "doc_get d k = map_of d k"

subsection \<open>Values of the Docker client\<close>

record container =
  Names :: "string list"
  Image :: string

record create_options =
  opt_image :: string
  opt_env :: "string list"
  opt_name :: string
  opt_volumes_from :: "string list"

subsection \<open>The operations\<close>

text \<open>
  \<open>mongo_find\<close> returns what iterating over the cursor yields: each entry a document or the
  error of fetching it. \<open>docker_id name\<close> is \<open>containers.get(name).id()\<close>. The serializer
  and deserializer of the bson crate, \<open>bson_to\<close> and \<open>bson_from\<close>, work on the tree that the
  derived \<open>Serialize\<close> and \<open>Deserialize\<close> implementations give and take. \<open>hashmap_iter\<close> is the
  order in which iterating over a \<open>HashMap\<close> with these entries meets them.
\<close>

record 'w env =
  mongo_connect :: "string \<Rightarrow> u16 \<Rightarrow> ('w, string, unit) eff"
  mongo_find :: "string \<Rightarrow> ('w, string, (string + document) list) eff"
  mongo_find_one :: "string \<Rightarrow> document \<Rightarrow> ('w, string, document option) eff"
  mongo_insert_one :: "string \<Rightarrow> document \<Rightarrow> ('w, string, unit) eff"
  mongo_delete_one :: "string \<Rightarrow> document \<Rightarrow> ('w, string, unit) eff"
  bson_to :: "bson \<Rightarrow> string + bson"
  bson_from :: "bson \<Rightarrow> string + bson"
  bson_u32 :: "u32 \<Rightarrow> bson"
  url_parse :: "string \<Rightarrow> string + string"
  docker_list :: "('w, string, container list) eff"
  docker_create :: "create_options \<Rightarrow> ('w, string, unit) eff"
  docker_start :: "string \<Rightarrow> ('w, string, unit) eff"
  docker_inspect_ip :: "string \<Rightarrow> ('w, string, string) eff"
  docker_remove :: "string \<Rightarrow> bool \<Rightarrow> ('w, string, unit) eff"
  docker_id :: "string \<Rightarrow> string"
  fs_create_dir_all :: "string \<Rightarrow> ('w, string, unit) eff"
  fs_create :: "string \<Rightarrow> ('w, string, unit) eff"
  fs_write_all :: "string \<Rightarrow> byte list \<Rightarrow> ('w, string, unit) eff"
  rand_u32 :: "'w \<Rightarrow> u32 \<times> 'w"
  uuid_v4 :: "'w \<Rightarrow> string \<times> 'w"
  hashmap_iter :: "(string \<times> byte list) list \<Rightarrow> (string \<times> byte list) list"
  foreign :: "'w ffi"

definition random_u32 :: "'w env \<Rightarrow> ('w, 'e, u32) eff" where
  "random_u32 E w = (case rand_u32 E w of (n, w') \<Rightarrow> (Ok n, w'))"

definition new_v4 :: "'w env \<Rightarrow> ('w, 'e, string) eff" where
  "new_v4 E w = (case uuid_v4 E w of (u, w') \<Rightarrow> (Ok u, w'))"

text \<open>\<open>Result\<close> values of pure functions of those crates, in the monad.\<close>

definition of_result :: "'e + 'a \<Rightarrow> ('w, 'e, 'a) eff" where
  "of_result r = (case r of Inl e \<Rightarrow> throw e | Inr a \<Rightarrow> ret a)"

subsection \<open>Invariance\<close>

text \<open>The parts of the environment that keep a predicate on the outside state.\<close>

definition crypto_keeps :: "('w \<Rightarrow> bool) \<Rightarrow> 'w env \<Rightarrow> bool" where
  "crypto_keeps I E \<longleftrightarrow>
     ffi_keeps I (foreign E) \<and> (\<forall>w. I w \<longrightarrow> I (snd (rand_u32 E w))) \<and> (\<forall>w. I w \<longrightarrow> I (snd (uuid_v4 E w)))"

definition docker_keeps :: "('w \<Rightarrow> bool) \<Rightarrow> 'w env \<Rightarrow> bool" where
  "docker_keeps I E \<longleftrightarrow>
     keeps I (docker_list E) \<and> (\<forall>opts. keeps I (docker_create E opts)) \<and>
     (\<forall>n. keeps I (docker_start E n)) \<and> (\<forall>n. keeps I (docker_inspect_ip E n)) \<and>
     (\<forall>n b. keeps I (docker_remove E n b)) \<and>
     (\<forall>d. keeps I (fs_create_dir_all E d)) \<and> (\<forall>f. keeps I (fs_create E f)) \<and>
     (\<forall>f c. keeps I (fs_write_all E f c))"

lemma crypto_keepsD [keeps_intros]:
  assumes "crypto_keeps I E"
  shows "keeps I (random_u32 E)" "keeps I (new_v4 E)" "ffi_keeps I (foreign E)"
  using assms by (auto simp: crypto_keeps_def keeps_def random_u32_def new_v4_def case_prod_beta)

lemma docker_keepsD [keeps_intros]:
  assumes "docker_keeps I E"
  shows "keeps I (docker_list E)" "keeps I (docker_create E opts)" "keeps I (docker_start E n)"
    "keeps I (docker_inspect_ip E n)" "keeps I (docker_remove E n b)"
    "keeps I (fs_create_dir_all E d)" "keeps I (fs_create E f)" "keeps I (fs_write_all E f c)"
  using assms by (auto simp: docker_keeps_def)

lemma keeps_of_result [keeps_intros]: "keeps I (of_result r)"
  by (simp add: of_result_def split: sum.split)

lemma of_result_simps [simp]:
  "of_result (Inl e) = throw e" "of_result (Inr a) = ret a"
  by (simp_all add: of_result_def)

end
