(* ===== verification/Tolla_Proto.thy ===== *)
theory Tolla_Proto
  imports Rust_Prelude
begin

text \<open>
  The wire protocol (\<open>tolla_proto\<close>): the messages of \<open>messages.proto\<close> and the two codecs of
  \<open>lib.rs\<close>. \<open>ProtoCodec\<close> is the server's (it reads \<open>FromClient\<close>, writes \<open>ToClient\<close>),
  \<open>ProtoClient\<close> the client's. The Protobuf parser and serializer are the prost crate's; they
  are the arguments \<open>parse\<close> and \<open>render\<close> of the codecs.

  The locale \<open>stream_decoder\<close> is the contract the transport relies on: what one call of
  \<open>decode\<close> does to the read buffer. Its lemmas follow a whole connection, the sequence of
  chunks the transport reads; both codecs are instances.
\<close>

subsection \<open>Messages\<close>

record certificate =
  cert_intent :: string
  cert_request :: "byte list"
  cert_root :: "byte list"

record addresses =
  addresses_ip :: "string list"

record new_user =
  userid :: string
  email :: string

record proto_error =
  error_text :: string

record proto_intent =
  pi_id :: string
  pi_intent :: string

record proto_consent =
  pc_id :: string
  pc_purpose :: "string list"
  pc_lifetime :: u64
  pc_marketing :: bool
  pc_profiling :: bool
  pc_public :: bool

datatype from_client_msg =
    MsgConsent proto_consent
  | Certificaterequest certificate
  | MsgIntent proto_intent
  | User new_user
  | Requestips bool

datatype to_client_msg =
    MsgError proto_error
  | Certificate certificate
  | Ips addresses

record from_client =
  fc_msg :: "from_client_msg option"

record to_client =
  tc_success :: bool
  tc_msg :: "to_client_msg option"

definition from_client_default :: from_client where
  "from_client_default = \<lparr>fc_msg = None\<rparr>"

definition to_client_default :: to_client where
  "to_client_default = \<lparr>tc_success = False, tc_msg = None\<rparr>"

subsection \<open>The codecs\<close>

text \<open>
  The state of a decoder call is the read buffer; the state of an encoder call is the write
  buffer. \<open>parse\<close> is \<open>Message::decode\<close> of a whole buffer, \<open>render\<close> is
  \<open>Message::encode\<close>, which appends to the buffer it is given or fails.
\<close>

type_synonym 'm parser = "byte list \<Rightarrow> string + 'm"
type_synonym 'm renderer = "'m \<Rightarrow> byte list \<Rightarrow> string + byte list"
type_synonym 'm decoder = "(byte list, io_error, 'm option) eff"

definition ProtoClient_decode :: "to_client parser \<Rightarrow> to_client decoder" where
  "ProtoClient_decode parse buf =
     (let cbuf = buf in
      if length buf = 0 then (Ok None, buf)
      else case parse cbuf of
        Inl _ \<Rightarrow> (Ok None, buf)
      | Inr msg \<Rightarrow> (Ok (Some msg), []))"

definition ProtoClient_encode ::
  "from_client renderer \<Rightarrow> from_client \<Rightarrow> (byte list, io_error, unit) eff" where
  "ProtoClient_encode render msg buf =
     (case render msg buf of
        Inl err \<Rightarrow> (Err (IoError InvalidData err), buf)
      | Inr buf' \<Rightarrow> (Ok (), buf'))"

definition ProtoCodec_decode :: "from_client parser \<Rightarrow> from_client decoder" where
  "ProtoCodec_decode parse buf =
     (let cbuf = buf in
      if length buf = 0 then (Ok None, buf)
      else case parse cbuf of
        Inl _ \<Rightarrow> (Ok None, buf)
      | Inr msg \<Rightarrow> (Ok (Some msg), []))"

definition ProtoCodec_encode ::
  "to_client renderer \<Rightarrow> to_client \<Rightarrow> (byte list, io_error, unit) eff" where
  "ProtoCodec_encode render msg buf =
     (case render msg buf of
        Inl err \<Rightarrow> (Err (IoError InvalidData err), buf)
      | Inr buf' \<Rightarrow> (Ok (), buf'))"

text \<open>
  A connection, seen from the decoder: the transport appends each chunk it reads to the buffer
  and asks for a message. The result is the messages handed to the service and the bytes left.
\<close>

fun read_chunks :: "'m decoder \<Rightarrow> byte list \<Rightarrow> byte list list \<Rightarrow> 'm list \<times> byte list" where
  "read_chunks dec buf [] = ([], buf)"
| "read_chunks dec buf (c # cs) =
     (case dec (buf @ c) of
        (Ok (Some m), buf') \<Rightarrow> (let (ms, rest) = read_chunks dec buf' cs in (m # ms, rest))
      | (_, buf') \<Rightarrow> read_chunks dec buf' cs)"

subsection \<open>The contract of a decoder\<close>

locale stream_decoder =
  fixes parse :: "byte list \<Rightarrow> string + 'm"
    and decode :: "(byte list, io_error, 'm option) eff"
  assumes decode_empty: "decode [] = (Ok None, [])"
    and decode_fail: "parse b = Inl e \<Longrightarrow> decode b = (Ok None, b)"
    and decode_done: "b \<noteq> [] \<Longrightarrow> parse b = Inr m \<Longrightarrow> decode b = (Ok (Some m), [])"
begin

lemma decode_cases:
  obtains "decode b = (Ok None, b)"
  | m where "b \<noteq> []" "parse b = Inr m" "decode b = (Ok (Some m), [])"
  by (metis decode_done decode_empty decode_fail sum.exhaust)

lemma decode_never_fails: "\<exists>r b'. decode b = (Ok r, b')"
  by (cases b rule: decode_cases) auto

lemma read_chunks_messages_le: "length (fst (read_chunks decode buf cs)) \<le> length cs"
proof (induction cs arbitrary: buf)
  case (Cons c cs)
  have "length (fst (read_chunks decode b cs)) \<le> length cs" for b
    by (rule Cons.IH)
  then show ?case
    by (cases "buf @ c" rule: decode_cases) (auto simp: le_SucI case_prod_beta Let_def)
qed simp

lemma read_chunks_waiting:
  assumes "\<And>n. n \<le> length cs \<Longrightarrow> buf @ concat (take n cs) \<noteq> [] \<Longrightarrow>
      \<exists>e. parse (buf @ concat (take n cs)) = Inl e"
  shows "read_chunks decode buf cs = ([], buf @ concat cs)"
  using assms
proof (induction cs arbitrary: buf)
  case (Cons c cs)
  have "decode (buf @ c) = (Ok None, buf @ c)"
    using Cons.prems [of 1] by (cases "buf @ c = []") (auto simp: decode_empty decode_fail)
  moreover have "read_chunks decode (buf @ c) cs = ([], (buf @ c) @ concat cs)"
  proof (rule Cons.IH)
    fix n assume "n \<le> length cs" "(buf @ c) @ concat (take n cs) \<noteq> []"
    then show "\<exists>e. parse ((buf @ c) @ concat (take n cs)) = Inl e"
      using Cons.prems [of "Suc n"] by simp
  qed
  ultimately show ?case by simp
qed simp

lemma read_chunks_append:
  "read_chunks decode buf (cs @ ds) =
     (let (ms, b) = read_chunks decode buf cs; (ns, b') = read_chunks decode b ds
      in (ms @ ns, b'))"
proof (induction cs arbitrary: buf)
  case (Cons c cs)
  then show ?case
    by (cases "buf @ c" rule: decode_cases) (auto simp: Let_def split: prod.splits)
qed (simp split: prod.split)

lemma read_chunks_reassembles:
  assumes complete: "parse (concat cs) = Inr m" "concat cs \<noteq> []"
    and partial: "\<And>n. n < length cs \<Longrightarrow> concat (take n cs) \<noteq> [] \<Longrightarrow>
      \<exists>e. parse (concat (take n cs)) = Inl e"
  shows "read_chunks decode [] cs = ([m], [])"
proof -
  from complete(2) have "cs \<noteq> []" by auto
  then obtain ds d where cs: "cs = ds @ [d]" by (metis rev_exhaust)
  have "read_chunks decode [] ds = ([], [] @ concat ds)"
  proof (rule read_chunks_waiting)
    fix n assume "n \<le> length ds" "[] @ concat (take n ds) \<noteq> []"
    then show "\<exists>e. parse ([] @ concat (take n ds)) = Inl e"
      using partial [of n] cs by simp
  qed
  moreover have "decode (concat ds @ d) = (Ok (Some m), [])"
    using complete cs by (intro decode_done) auto
  ultimately show ?thesis
    by (simp add: cs read_chunks_append)
qed

end

interpretation server_codec: stream_decoder parse "ProtoCodec_decode parse"
  for parse :: "from_client parser"
  by unfold_locales (auto simp: ProtoCodec_decode_def split: sum.split)

interpretation client_codec: stream_decoder parse "ProtoClient_decode parse"
  for parse :: "to_client parser"
  by unfold_locales (auto simp: ProtoClient_decode_def split: sum.split)


subsection \<open>A connection\<close>


text \<open>
  At most one message per read. Whatever bytes are waiting and whatever the parser makes of
  them, the server's decoder never reports an error: it hands over one message and forgets the
  whole buffer, or keeps the whole buffer and hands over nothing. So a connection never delivers
  more messages than the transport made reads, however many requests a chunk holds.
\<close>

lemma one_message_per_read:
  "(ProtoCodec_decode parse buf = (Ok None, buf) \<or>
    (\<exists>m. parse buf = Inr m \<and> ProtoCodec_decode parse buf = (Ok (Some m), []))) \<and>
   length (fst (read_chunks (ProtoCodec_decode parse) buf cs)) \<le> length cs"
  using server_codec.read_chunks_messages_le by (auto intro: server_codec.decode_cases [of parse buf])

text \<open>A wire format of two bytes, a tag and a flag, for a concrete connection.\<close>

definition flag_render :: "from_client renderer" where
  "flag_render m buf =
     (case fc_msg m of Some (Requestips b) \<Rightarrow> Inr (buf @ [40, if b then 1 else 0]) | _ \<Rightarrow> Inl ''unsupported'')"

definition flag_parse :: "from_client parser" where
  "flag_parse b =
     (if b = [40, 1] then Inr \<lparr>fc_msg = Some (Requestips True)\<rparr>
      else if b = [40, 0] then Inr \<lparr>fc_msg = Some (Requestips False)\<rparr>
      else Inl ''truncated'')"

lemma flag_agree: "flag_render m [] = Inr b \<Longrightarrow> flag_parse b = Inr m"
  by (cases m) (auto simp: flag_render_def flag_parse_def split: option.splits from_client_msg.splits if_splits)


end
