(* ===== verification/Tolla_Ca.thy ===== *)
theory Tolla_Ca
  imports Ossl_X509 Externals Tolla_Proto
begin

text \<open>
  The certificate authority, \<open>tolla/src/ca.rs\<close>. An \<open>Authority\<close> holds the CA key and the PEM
  text of its self-signed certificate; it issues server certificates for tenants
  (\<open>create_db_certificate\<close>) and client certificates for processes (\<open>sign_certificate\<close>).

  \<open>Err\<close> and \<open>Panic\<close> follow the source: \<open>unwrap\<close> where the code unwraps, \<open>to_string_err\<close> where
  it maps the error to a string and returns it.
\<close>

record authority =
  key_pair :: cval
  root_ctf :: "byte list"

text \<open>\<open>Intent\<close> is declared in \<open>consent.rs\<close>; the authority builds one.\<close>

record intent_rec =
  intent_id :: string
  intent_list :: "string list"

subsection \<open>Authority::new\<close>

text \<open>The distinguished name of the authority, built three times by the same five calls.\<close>

definition ca_name :: "'w ffi \<Rightarrow> ('w, string, cval) eff" where
  "ca_name F =
     and_then (unwrap (X509NameBuilder_new F)) (\<lambda>x509_name.
     and_then (unwrap (X509NameBuilder_append_entry_by_text F x509_name ''C'' ''NO'')) (\<lambda>_.
     and_then (unwrap (X509NameBuilder_append_entry_by_text F x509_name ''ST'' ''TR'')) (\<lambda>_.
     and_then (unwrap (X509NameBuilder_append_entry_by_text F x509_name ''O'' ''IFI'')) (\<lambda>_.
     and_then (unwrap (X509NameBuilder_append_entry_by_text F x509_name ''CN'' ''localhost'')) (\<lambda>_.
       ret x509_name)))))"

text \<open>The validity period, set by the same four calls on every certificate.\<close>

definition set_validity :: "'w ffi \<Rightarrow> cval \<Rightarrow> ('w, string, unit) eff" where
  "set_validity F builder =
     and_then (unwrap (Asn1Time_days_from_now F 365)) (\<lambda>expiration.
     and_then (unwrap (X509Builder_set_not_after F builder expiration)) (\<lambda>_.
     and_then (unwrap (Asn1Time_days_from_now F 0)) (\<lambda>valid.
       unwrap (X509Builder_set_not_before F builder valid))))"

definition Authority_new :: "'w ffi \<Rightarrow> ('w, string, authority) eff" where
  "Authority_new F =
     and_then (to_string_err F (Rsa_generate F 1024)) (\<lambda>rsa.
     and_then (to_string_err F (PKey_from_rsa F rsa)) (\<lambda>keypair.
     and_then (unwrap (X509Builder_new F)) (\<lambda>builder.
     and_then (unwrap (X509Builder_set_pubkey F builder keypair)) (\<lambda>_.
     and_then (set_validity F builder) (\<lambda>_.
     and_then (ca_name F) (\<lambda>x509_name.
     and_then (unwrap (X509Builder_set_subject_name F builder x509_name)) (\<lambda>_.
     and_then (unwrap (X509Builder_set_issuer_name F builder x509_name)) (\<lambda>_.
     and_then (unwrap (X509Extension_new F None None ''basicConstraints'' ''CA:TRUE'')) (\<lambda>ca_ext.
     and_then (unwrap (X509Builder_append_extension F builder ca_ext)) (\<lambda>_.
     and_then (unwrap (X509Extension_new_nid F None None KEY_USAGE
                ''digitalSignature, keyCertSign'')) (\<lambda>ca_ext.
     and_then (unwrap (X509Builder_append_extension F builder ca_ext)) (\<lambda>_.
     and_then (unwrap (X509Extension_new_nid F None None EXT_KEY_USAGE
                ''serverAuth, clientAuth'')) (\<lambda>ca_ext.
     and_then (unwrap (X509Builder_append_extension F builder ca_ext)) (\<lambda>_.
     and_then (MessageDigest_sha256 F) (\<lambda>sha256.
     and_then (unwrap (X509Builder_sign F builder keypair sha256)) (\<lambda>_.
     and_then (unwrap (X509_to_pem F builder)) (\<lambda>x509_pem.
       ret \<lparr>key_pair = keypair, root_ctf = x509_pem\<rparr>)))))))))))))))))"

definition get_cert :: "authority \<Rightarrow> byte list" where
  "get_cert a = root_ctf a"

subsection \<open>create_db_certificate\<close>

text \<open>
  The two \<open>BytesMut\<close> arguments are out-parameters: they are cleared and then receive the PEM
  texts, so the result is the serial number with the contents of \<open>keys\<close> and \<open>cert\<close>. On an
  error they are left as they were, which the caller never reads.
\<close>

definition create_db_certificate ::
  "'w env \<Rightarrow> authority \<Rightarrow> ('w, string, u32 \<times> byte list \<times> byte list) eff" where
  "create_db_certificate E self =
    (let F = foreign E in
     and_then (to_string_err F (Rsa_generate F 1024)) (\<lambda>rsa.
     and_then (to_string_err F (PKey_from_rsa F rsa)) (\<lambda>keypair.
     and_then (unwrap (X509Builder_new F)) (\<lambda>builder.
     and_then (unwrap (X509Builder_set_pubkey F builder keypair)) (\<lambda>_.
     and_then (to_string_err F (X509Builder_set_version F builder 3)) (\<lambda>_.
     and_then (random_u32 E) (\<lambda>rand_num.
     and_then (to_string_err F (BigNum_from_u32 F rand_num)) (\<lambda>bignum.
     and_then (to_string_err F (BigNum_to_asn1_integer F bignum)) (\<lambda>serial_number.
     and_then (to_string_err F (X509Builder_set_serial_number F builder serial_number)) (\<lambda>_.
     and_then (set_validity F builder) (\<lambda>_.
     and_then (to_string_err F (X509NameBuilder_new F)) (\<lambda>x509_name.
     and_then (to_string_err F (X509NameBuilder_append_entry_by_text F x509_name ''C'' ''NO'')) (\<lambda>_.
     and_then (to_string_err F (X509NameBuilder_append_entry_by_text F x509_name ''ST'' ''TR'')) (\<lambda>_.
     and_then (to_string_err F (X509NameBuilder_append_entry_by_text F x509_name ''O'' ''IFI'')) (\<lambda>_.
     and_then (to_string_err F (X509NameBuilder_append_entry_by_text F x509_name ''CN'' ''user'')) (\<lambda>_.
     and_then (unwrap (X509Builder_set_subject_name F builder x509_name)) (\<lambda>_.
     and_then (ca_name F) (\<lambda>x509_name.
     and_then (unwrap (X509Builder_set_issuer_name F builder x509_name)) (\<lambda>_.
     and_then (unwrap (X509Extension_new_nid F None None EXT_KEY_USAGE ''serverAuth'')) (\<lambda>key.
     and_then (unwrap (X509Builder_append_extension F builder key)) (\<lambda>_.
     and_then (MessageDigest_sha256 F) (\<lambda>sha256.
     and_then (unwrap (X509Builder_sign F builder (key_pair self) sha256)) (\<lambda>_.
     and_then (to_string_err F (X509_to_pem F builder)) (\<lambda>x509_pem.
     and_then (unwrap (private_key_to_pem F keypair)) (\<lambda>keys_pem.
       ret (rand_num, keys_pem, x509_pem))))))))))))))))))))))))))"

subsection \<open>sign_certificate\<close>

text \<open>
  \<open>req.subject_name().entries_by_nid(nid).nth(0)\<close>: the first entry of the request's subject
  with that identifier.
\<close>

definition first_entry :: "'w ffi \<Rightarrow> cval \<Rightarrow> nid \<Rightarrow> string \<Rightarrow> ('w, string, cval) eff" where
  "first_entry F req n missing =
     and_then (X509Req_subject_name F req) (\<lambda>name.
     and_then (X509NameEntries_next F (entries_by_nid name n)) (\<lambda>(entry, _).
       ok_or missing entry))"

text \<open>\<open>x509_name.append_entry_by_nid(nid, &entry.data().as_utf8().unwrap().to_string())\<close>.\<close>

definition copy_entry :: "'w ffi \<Rightarrow> cval \<Rightarrow> nid \<Rightarrow> cval \<Rightarrow> ('w, string, unit) eff" where
  "copy_entry F x509_name n entry =
     and_then (X509NameEntry_data F entry) (\<lambda>d.
     and_then (unwrap (Asn1String_as_utf8 F d)) (\<lambda>text.
       to_string_err F (X509NameBuilder_append_entry_by_nid F x509_name n text)))"

definition sign_certificate ::
  "'w env \<Rightarrow> authority \<Rightarrow> byte list \<Rightarrow> string \<Rightarrow> ('w, string, intent_rec \<times> certificate) eff" where
  "sign_certificate E self buf intent =
    (let F = foreign E in
     and_then (unwrap (X509Builder_new F)) (\<lambda>cert.
     and_then (unwrap (X509Req_from_pem F buf)) (\<lambda>req.
     and_then (unwrap (X509Req_public_key F req)) (\<lambda>pubkey.
     and_then (set_validity F cert) (\<lambda>_.
     and_then (unwrap (X509Builder_set_pubkey F cert pubkey)) (\<lambda>_.
     and_then (first_entry F req COMMONNAME ''no common name'') (\<lambda>cn.
     and_then (first_entry F req COUNTRYNAME ''no contry'') (\<lambda>country.
     and_then (first_entry F req ORGANIZATIONNAME ''no org'') (\<lambda>org.
     and_then (first_entry F req STATEORPROVINCENAME ''no state'') (\<lambda>state.
     and_then (to_string_err F (X509NameBuilder_new F)) (\<lambda>x509_name.
     and_then (copy_entry F x509_name COMMONNAME cn) (\<lambda>_.
     and_then (copy_entry F x509_name COUNTRYNAME country) (\<lambda>_.
     and_then (copy_entry F x509_name ORGANIZATIONNAME org) (\<lambda>_.
     and_then (copy_entry F x509_name STATEORPROVINCENAME state) (\<lambda>_.
     and_then (unwrap (X509Builder_set_subject_name F cert x509_name)) (\<lambda>_.
     and_then (ca_name F) (\<lambda>x509_name.
     and_then (unwrap (X509Builder_set_issuer_name F cert x509_name)) (\<lambda>_.
     and_then (new_v4 E) (\<lambda>subject_id.
     and_then (to_string_err F (X509Extension_new_nid F None None SUBJECT_KEY_IDENTIFIER subject_id)) (\<lambda>ext.
     and_then (unwrap (X509Extension_new_nid F None None KEY_USAGE ''digitalSignature'')) (\<lambda>key.
     and_then (unwrap (X509Builder_append_extension F cert key)) (\<lambda>_.
     and_then (unwrap (X509Extension_new_nid F None None EXT_KEY_USAGE ''clientAuth'')) (\<lambda>key.
     and_then (unwrap (X509Builder_append_extension F cert key)) (\<lambda>_.
     and_then (to_string_err F (X509Builder_append_extension F cert ext)) (\<lambda>_.
     let s = ''otherName:1.3.6.1.4.1.99;UTF8:'' @ intent in
     and_then (X509Builder_x509v3_context F cert None None) (\<lambda>ctx.
     and_then (to_string_err F (X509Extension_new_nid F None (Some ctx) SUBJECT_ALT_NAME s)) (\<lambda>ext.
     and_then (to_string_err F (X509Builder_append_extension F cert ext)) (\<lambda>_.
     and_then (MessageDigest_sha256 F) (\<lambda>sha256.
     and_then (unwrap (X509Builder_sign F cert (key_pair self) sha256)) (\<lambda>_.
     and_then (to_string_err F (X509_to_pem F cert)) (\<lambda>serialized.
       ret (\<lparr>intent_id = subject_id, intent_list = [intent]\<rparr>,
            \<lparr>cert_intent = '''', cert_request = serialized, cert_root = root_ctf self\<rparr>))))))))))))))))))))))))))))))))"

subsection \<open>What the authority keeps\<close>

lemma set_validity_keeps [keeps_intros]:
  assumes "ffi_keeps I F"
  shows "keeps I (set_validity F b)" "keeps I (ca_name F)" "keeps I (first_entry F b n s)"
    "keeps I (copy_entry F b n e)"
  unfolding set_validity_def ca_name_def first_entry_def copy_entry_def
  by (intro keeps_intros assms)+

lemma Authority_new_keeps [keeps_intros]: "ffi_keeps I F \<Longrightarrow> keeps I (Authority_new F)"
  unfolding Authority_new_def by (intro keeps_intros)

lemma create_db_certificate_keeps [keeps_intros]:
  assumes "crypto_keeps I E"
  shows "keeps I (create_db_certificate E a)"
  unfolding create_db_certificate_def Let_def
  by (intro keeps_intros assms crypto_keepsD(3) [OF assms])

lemma sign_certificate_keeps [keeps_intros]:
  assumes "crypto_keeps I E"
  shows "keeps I (sign_certificate E a buf intent)"
  unfolding sign_certificate_def Let_def
  by (intro keeps_intros assms crypto_keepsD(3) [OF assms])

end
