(* ===== verification/Tolla_Docker.thy ===== *)
theory Tolla_Docker
  imports Externals
begin

text \<open>
  The store manager, \<open>tolla/src/docker.rs\<close>: tenants are Docker containers, and this module
  creates, finds and removes them and writes the files they mount. The struct holds only the
  client of the Docker daemon, which is part of the environment.
\<close>

subsection \<open>Operations\<close>

definition StoreManager_new :: "'w env \<Rightarrow> string \<Rightarrow> ('w, string, unit) eff" where
  "StoreManager_new E host = unwrap (and_then (of_result (url_parse E host)) (\<lambda>_. ret ()))"

text \<open>The loop body only logs: the call that would start the container is commented out.\<close>

fun start_loop :: "string list \<Rightarrow> ('w, string, unit) eff" where
  "start_loop [] = ret ()"
| "start_loop (container_id # ids) = start_loop ids"

definition start_containers :: "'w env \<Rightarrow> string list \<Rightarrow> ('w, string, unit) eff" where
  "start_containers E ids = start_loop ids"

definition container_by_id :: "'w env \<Rightarrow> string \<Rightarrow> ('w, string, container option) eff" where
  "container_by_id E ident =
     and_then (docker_list E) (\<lambda>containers.
     let matches = filter (\<lambda>container. ident \<in> set (Names container)) containers in
     if length matches = 0 then ret None else ret (Some (hd matches)))"

definition verify_container_id :: "'w env \<Rightarrow> string \<Rightarrow> ('w, string, bool) eff" where
  "verify_container_id E ident =
     and_then (container_by_id E ident) (\<lambda>container. ret (container \<noteq> None))"

text \<open>
  \<open>contents\<close> is a \<open>HashMap\<close>; the order in which the loop meets its entries is not specified,
  so the argument is the list of entries in that order.
\<close>

fun write_files :: "'w env \<Rightarrow> string \<Rightarrow> (string \<times> byte list) list \<Rightarrow> ('w, string, unit) eff" where
  "write_files E dirname [] = ret ()"
| "write_files E dirname ((filename, content) # contents) =
     (let path = dirname @ ''/'' @ filename in
      and_then (fs_create E path) (\<lambda>_.
      and_then (fs_write_all E path content) (\<lambda>_.
        write_files E dirname contents)))"

definition new_mountdir ::
  "'w env \<Rightarrow> (string \<times> byte list) list \<Rightarrow> string \<Rightarrow> ('w, string, unit) eff" where
  "new_mountdir E contents dirname =
     and_then (fs_create_dir_all E dirname) (\<lambda>_. write_files E dirname contents)"

definition remove_container :: "'w env \<Rightarrow> string \<Rightarrow> ('w, string, unit) eff" where
  "remove_container E ident = docker_remove E ident True"

definition new_container ::
  "'w env \<Rightarrow> string \<Rightarrow> string \<Rightarrow> string list \<Rightarrow> ('w, string, string \<times> string) eff" where
  "new_container E img name env =
     and_then (docker_create E
        \<lparr>opt_image = img, opt_env = env, opt_name = name, opt_volumes_from = [''tolla'']\<rparr>) (\<lambda>_.
     and_then (docker_start E name) (\<lambda>_.
     let ident = docker_id E name in
     and_then (docker_inspect_ip E name) (\<lambda>ip.
       ret (ident, ip))))"

subsection \<open>Lemmas\<close>

lemma start_loop_ret [simp]: "start_loop ids = ret ()"
  by (induction ids) auto

lemma container_by_id_eq:
  assumes "docker_list E w = (Ok cs, w')"
  shows "container_by_id E ident w = (Ok (find (\<lambda>c. ident \<in> set (Names c)) cs), w')"
proof -
  have "find P cs = (case filter P cs of [] \<Rightarrow> None | c # _ \<Rightarrow> Some c)" for P :: "container \<Rightarrow> bool"
    by (induction cs) auto
  then show ?thesis
    using assms by (auto simp: container_by_id_def and_then_def Let_def split: list.split)
qed

lemma verify_container_id_eq:
  assumes "docker_list E w = (Ok cs, w')"
  shows "verify_container_id E ident w = (Ok (\<exists>c \<in> set cs. ident \<in> set (Names c)), w')"
  using container_by_id_eq [OF assms, of ident]
  by (auto simp: verify_container_id_def and_then_def find_None_iff simp del: not_None_eq)

lemma docker_keeps_ops [keeps_intros]:
  assumes "docker_keeps I E"
  shows "keeps I (verify_container_id E ident)" "keeps I (remove_container E ident)"
    "keeps I (new_container E img name env)"
  unfolding verify_container_id_def container_by_id_def remove_container_def new_container_def Let_def
  by (intro keeps_intros assms)+

lemma write_files_keeps [keeps_intros]: "docker_keeps I E \<Longrightarrow> keeps I (write_files E d fs)"
  by (induction E d fs rule: write_files.induct) (auto simp: Let_def intro!: keeps_intros)

lemma new_mountdir_keeps [keeps_intros]: "docker_keeps I E \<Longrightarrow> keeps I (new_mountdir E fs d)"
  unfolding new_mountdir_def by (intro keeps_intros)

end
