(* ===== verification/Tolla_Consent.thy ===== *)
theory Tolla_Consent
  imports Tolla_Ca Tolla_Docker
begin

text \<open>
  The consent engine, \<open>tolla/src/consent.rs\<close>: who has consented to what, which container
  holds whose data, and which intents have been declared. Its state is in MongoDB (the
  collections \<open>consents\<close>, \<open>intents\<close>, \<open>view\<close> and \<open>views\<close> of the database \<open>test\<close>) and in the
  Docker daemon; the struct itself holds the clients and the certificate authority.
\<close>

subsection \<open>Records and their serialization\<close>

record consent =
  consent_id :: string
  serial_number :: i32
  purpose :: "string list"

record view =
  view_id :: string
  view_ip :: string

text \<open>
  The derived serializers: a struct becomes a document with one entry per field, in order,
  under the field's (renamed) name. The derived deserializers read the fields back by name and
  fail when one is missing or has another type.
\<close>

definition ser_consent :: "consent \<Rightarrow> bson" where
  "ser_consent c = BDocument
     [(''_id'', BString (consent_id c)), (''serial_number'', BI32 (serial_number c)),
      (''purpose'', BArray (map BString (purpose c)))]"

definition ser_intent :: "intent_rec \<Rightarrow> bson" where
  "ser_intent i = BDocument
     [(''_id'', BString (intent_id i)), (''intent'', BArray (map BString (intent_list i)))]"

definition ser_view :: "view \<Rightarrow> bson" where
  "ser_view v = BDocument [(''_id'', BString (view_id v)), (''ip'', BString (view_ip v))]"

definition need :: "document \<Rightarrow> string \<Rightarrow> string + bson" where
  "need d k = (case doc_get d k of None \<Rightarrow> Inl (''missing field '' @ k) | Some b \<Rightarrow> Inr b)"

fun de_string :: "bson \<Rightarrow> string + string" where
  "de_string (BString s) = Inr s"
| "de_string _ = Inl ''invalid type''"

fun de_i32 :: "bson \<Rightarrow> string + i32" where
  "de_i32 (BI32 n) = Inr n"
| "de_i32 _ = Inl ''invalid type''"

fun de_seq :: "bson list \<Rightarrow> string + string list" where
  "de_seq [] = Inr []"
| "de_seq (b # bs) =
     (case de_string b of Inl e \<Rightarrow> Inl e
      | Inr s \<Rightarrow> (case de_seq bs of Inl e \<Rightarrow> Inl e | Inr ss \<Rightarrow> Inr (s # ss)))"

fun de_strings :: "bson \<Rightarrow> string + string list" where
  "de_strings (BArray bs) = de_seq bs"
| "de_strings _ = Inl ''invalid type''"

definition field :: "document \<Rightarrow> string \<Rightarrow> (bson \<Rightarrow> string + 'a) \<Rightarrow> ('a \<Rightarrow> string + 'b) \<Rightarrow> string + 'b" where
  "field d k de f =
     (case need d k of Inl e \<Rightarrow> Inl e
      | Inr b \<Rightarrow> (case de b of Inl e \<Rightarrow> Inl e | Inr a \<Rightarrow> f a))"

fun de_consent :: "bson \<Rightarrow> string + consent" where
  "de_consent (BDocument d) =
     field d ''_id'' de_string (\<lambda>i.
     field d ''serial_number'' de_i32 (\<lambda>n.
     field d ''purpose'' de_strings (\<lambda>p.
       Inr \<lparr>consent_id = i, serial_number = n, purpose = p\<rparr>)))"
| "de_consent _ = Inl ''invalid type''"

fun de_intent :: "bson \<Rightarrow> string + intent_rec" where
  "de_intent (BDocument d) =
     field d ''_id'' de_string (\<lambda>i.
     field d ''intent'' de_strings (\<lambda>p.
       Inr \<lparr>intent_id = i, intent_list = p\<rparr>))"
| "de_intent _ = Inl ''invalid type''"

fun de_view :: "bson \<Rightarrow> string + view" where
  "de_view (BDocument d) =
     field d ''_id'' de_string (\<lambda>i.
     field d ''ip'' de_string (\<lambda>p.
       Inr \<lparr>view_id = i, view_ip = p\<rparr>))"
| "de_view _ = Inl ''invalid type''"

definition from_bson :: "'w env \<Rightarrow> (bson \<Rightarrow> string + 'a) \<Rightarrow> document \<Rightarrow> ('w, string, 'a) eff" where
  "from_bson E de d =
     (case bson_from E (BDocument d) of Inl e \<Rightarrow> throw e | Inr b \<Rightarrow> of_result (de b))"

text \<open>Serialize and, when the result is a document, insert it: \<open>add_consent\<close> and its two kin.\<close>

definition insert_bson :: "'w env \<Rightarrow> string \<Rightarrow> bson \<Rightarrow> ('w, string, unit) eff" where
  "insert_bson E coll b =
     (case bson_to E b of
        Inl err \<Rightarrow> throw err
      | Inr (BDocument document) \<Rightarrow> mongo_insert_one E coll document
      | Inr _ \<Rightarrow> ret ())"

subsection \<open>Consents, intents, views\<close>

definition add_consent :: "'w env \<Rightarrow> consent \<Rightarrow> ('w, string, unit) eff" where
  "add_consent E consent = insert_bson E ''consents'' (ser_consent consent)"

definition add_intent :: "'w env \<Rightarrow> intent_rec \<Rightarrow> ('w, string, unit) eff" where
  "add_intent E intent = insert_bson E ''intents'' (ser_intent intent)"

definition register_view :: "'w env \<Rightarrow> view \<Rightarrow> ('w, string, unit) eff" where
  "register_view E view = insert_bson E ''view'' (ser_view view)"

definition remove_user :: "'w env \<Rightarrow> string \<Rightarrow> ('w, string, unit) eff" where
  "remove_user E user_id =
     and_then (mongo_delete_one E ''consents'' [(''_id'', BString user_id)]) (\<lambda>_.
     and_then (mongo_delete_one E ''view'' [(''_id'', BString user_id)]) (\<lambda>_.
       ret ()))"

definition get_consent :: "'w env \<Rightarrow> string \<Rightarrow> ('w, string, consent) eff" where
  "get_consent E ident =
     and_then (mongo_find_one E ''consents'' [(''_id'', BString ident)]) (\<lambda>c.
       case c of None \<Rightarrow> panic | Some consent_doc \<Rightarrow> from_bson E de_consent consent_doc)"

definition consent_by_serial_num :: "'w env \<Rightarrow> u32 \<Rightarrow> ('w, string, consent) eff" where
  "consent_by_serial_num E serial_num =
     and_then (mongo_find_one E ''consents'' [(''serial_number'', bson_u32 E serial_num)]) (\<lambda>c.
       case c of None \<Rightarrow> panic | Some consent_doc \<Rightarrow> from_bson E de_consent consent_doc)"

definition get_intent :: "'w env \<Rightarrow> string \<Rightarrow> ('w, string, intent_rec) eff" where
  "get_intent E ident =
     and_then (mongo_find_one E ''intents'' [(''_id'', BString ident)]) (\<lambda>c.
       case c of None \<Rightarrow> throw ''what'' | Some intent_doc \<Rightarrow> from_bson E de_intent intent_doc)"

fun ips_loop :: "'w env \<Rightarrow> (string + document) list \<Rightarrow> ('w, string, string list) eff" where
  "ips_loop E [] = ret []"
| "ips_loop E (Inl _ # cursor) = ips_loop E cursor"
| "ips_loop E (Inr item # cursor) =
     and_then (from_bson E de_view item) (\<lambda>view.
     and_then (ips_loop E cursor) (\<lambda>ips. ret (view_ip view # ips)))"

definition get_tenant_ips :: "'w env \<Rightarrow> ('w, string, string list) eff" where
  "get_tenant_ips E = and_then (mongo_find E ''view'') (ips_loop E)"

fun views_loop :: "'w env \<Rightarrow> (string + document) list \<Rightarrow> ('w, string, view list) eff" where
  "views_loop E [] = ret []"
| "views_loop E (Inl _ # cursor) = views_loop E cursor"
| "views_loop E (Inr item # cursor) =
     and_then (from_bson E de_view item) (\<lambda>view.
     and_then (views_loop E cursor) (\<lambda>vec. ret (view # vec)))"

definition get_views :: "'w env \<Rightarrow> ('w, string, view list) eff" where
  "get_views E = and_then (mongo_find E ''views'') (views_loop E)"

fun find_loop :: "'w env \<Rightarrow> string \<Rightarrow> (string + document) list \<Rightarrow> ('w, string, string) eff" where
  "find_loop E ident [] = throw ''could not find it''"
| "find_loop E ident (Inl _ # cursor) = find_loop E ident cursor"
| "find_loop E ident (Inr item # cursor) =
     and_then (from_bson E de_view item) (\<lambda>view.
       if view_id view = ident then ret (view_ip view) else find_loop E ident cursor)"

definition consent_based_view :: "'w env \<Rightarrow> string \<Rightarrow> ('w, string, string) eff" where
  "consent_based_view E ident = and_then (mongo_find E ''views'') (find_loop E ident)"

subsection \<open>Tenants\<close>

definition deboard_user :: "'w env \<Rightarrow> string \<Rightarrow> ('w, string, unit) eff" where
  "deboard_user E user_id =
     and_then (remove_container E user_id) (\<lambda>_.
     and_then (remove_user E user_id) (\<lambda>_. ret ()))"

definition tenant_env :: "string \<Rightarrow> string list" where
  "tenant_env ident =
     [''PEM_FOLDER=/tmp/certificates/'' @ ident, ''LISTEN_ADDR=:8080'', ''DB_ADDR=27017'',
      ''CA_ADDR=8080'']"

definition onboard_user ::
  "'w env \<Rightarrow> authority \<Rightarrow> string \<Rightarrow> string list \<Rightarrow> ('w, string, unit) eff" where
  "onboard_user E a ident purposes =
     and_then (verify_container_id E ident) (\<lambda>exists.
     if exists then throw ''user already exists'' else
     and_then (attempt (consent_based_view E ident)) (\<lambda>view.
     case view of Inr _ \<Rightarrow> throw ''user already exists'' | Inl _ \<Rightarrow>
     and_then (create_db_certificate E a) (\<lambda>(serial, key, certificate).
     let ca_cert = get_cert a;
         files = hashmap_iter E [(''certificate.pem'', certificate), (''keys.pem'', key),
                                 (''CAcert.pem'', ca_cert)];
         absolute_path = ''/tmp/certificates/'' @ ident in
     and_then (new_mountdir E files absolute_path) (\<lambda>_.
     and_then (new_container E ''tenant'' ident (tenant_env ident)) (\<lambda>(i, ip).
     and_then (register_view E \<lparr>view_id = i, view_ip = ip\<rparr>) (\<lambda>_.
     and_then (add_consent E
        \<lparr>consent_id = ident, serial_number = serial, purpose = purposes\<rparr>) (\<lambda>_.
       ret ())))))))"

definition handle_cert_request ::
  "'w env \<Rightarrow> authority \<Rightarrow> certificate \<Rightarrow> ('w, string, certificate) eff" where
  "handle_cert_request E a req =
     and_then (sign_certificate E a (cert_request req) (cert_intent req)) (\<lambda>(intent, cert).
     and_then (add_intent E intent) (\<lambda>_.
       ret cert))"

subsection \<open>Requests of the wire protocol\<close>

text \<open>
  The arms that end in \<open>Ok(())\<close> or an error leave \<open>result\<close>; an error becomes an \<open>Error\<close>
  message in the response, except in the two arms that return it.
\<close>

definition finish_response :: "to_client \<Rightarrow> string + unit \<Rightarrow> to_client" where
  "finish_response response result =
     (case result of
        Inl e \<Rightarrow> response\<lparr>tc_msg := Some (MsgError \<lparr>error_text = e\<rparr>)\<rparr>
      | Inr _ \<Rightarrow> response\<lparr>tc_success := True\<rparr>)"

definition handle_incoming ::
  "'w env \<Rightarrow> authority \<Rightarrow> from_client \<Rightarrow> ('w, string, to_client) eff" where
  "handle_incoming E a msg =
     (case fc_msg msg of
        None \<Rightarrow> throw ''empty message''
      | Some inner \<Rightarrow>
          (let response = to_client_default in
           case inner of
             MsgConsent c \<Rightarrow>
               and_then (attempt (add_consent E
                  \<lparr>consent_id = pc_id c, serial_number = 0, purpose = pc_purpose c\<rparr>)) (\<lambda>result.
                 ret (finish_response response result))
           | MsgIntent i \<Rightarrow>
               and_then (attempt (add_intent E
                  \<lparr>intent_id = pi_id i, intent_list = [pi_intent i]\<rparr>)) (\<lambda>result.
                 ret (finish_response response result))
           | User u \<Rightarrow>
               and_then (attempt (onboard_user E a (userid u) [''static''])) (\<lambda>result.
                 ret (finish_response response result))
           | Certificaterequest r \<Rightarrow>
               and_then (handle_cert_request E a r) (\<lambda>cert.
                 ret (finish_response (response\<lparr>tc_msg := Some (Certificate cert)\<rparr>) (Inr ())))
           | Requestips _ \<Rightarrow>
               and_then (get_tenant_ips E) (\<lambda>ips.
                 ret (finish_response
                   (response\<lparr>tc_msg := Some (Ips \<lparr>addresses_ip = ips\<rparr>)\<rparr>) (Inr ())))))"

subsection \<open>The builder\<close>

record consent_engine_builder =
  address :: "string option"
  port :: "u16 option"
  deamon :: "string option"

definition ConsentEngineBuilder_new :: consent_engine_builder where
  "ConsentEngineBuilder_new = \<lparr>address = None, port = None, deamon = None\<rparr>"

definition with_address :: "consent_engine_builder \<Rightarrow> string \<Rightarrow> consent_engine_builder" where
  "with_address b x = b\<lparr>address := Some x\<rparr>"

definition with_port :: "consent_engine_builder \<Rightarrow> u16 \<Rightarrow> consent_engine_builder" where
  "with_port b x = b\<lparr>port := Some x\<rparr>"

definition with_deamon :: "consent_engine_builder \<Rightarrow> string \<Rightarrow> consent_engine_builder" where
  "with_deamon b x = b\<lparr>deamon := Some x\<rparr>"

text \<open>The built engine is its authority; the two clients are in the environment.\<close>

definition build :: "'w env \<Rightarrow> consent_engine_builder \<Rightarrow> ('w, string, authority) eff" where
  "build E b =
     and_then (ok_or ''address not present'' (address b)) (\<lambda>address.
     and_then (ok_or ''port not present'' (port b)) (\<lambda>port.
     and_then (ok_or ''deamon address not present'' (deamon b)) (\<lambda>deamon_address.
     and_then (StoreManager_new E deamon_address) (\<lambda>_.
     and_then (unwrap (Authority_new (foreign E))) (\<lambda>authority.
     and_then (mongo_connect E address port) (\<lambda>_.
     and_then (get_views E) (\<lambda>views.
     let v = map view_id views in
     and_then (start_containers E v) (\<lambda>_.
       ret authority))))))))"

end
