(* ===== verification/Tolla_Service.thy ===== *)
theory Tolla_Service
  imports Tolla_Consent
begin

text \<open>
  The two front ends of the engine: the HTTP handlers of \<open>tolla/src/endpoints.rs\<close> and the
  service of \<open>tolla/src/register.rs\<close> that answers the wire protocol. Both share one engine
  behind a mutex. A \<open>Mutex\<close> of the standard library is poisoned when a thread panics while it
  holds the lock, and from then on \<open>lock().unwrap()\<close> panics; a thread that never returns keeps
  it for ever. The state of the server is the outside state together with that of the mutex.

  The locale \<open>guarded_handler\<close> is the contract of a handler that reaches the outside only
  through the mutex; every handler is an instance, and a run of any sequence of requests
  inherits what the locale proves.
\<close>

subsection \<open>The mutex\<close>

datatype mutex_state = Unlocked | Poisoned | Held

record 'w server =
  outside :: 'w
  mutex :: mutex_state

definition with_engine :: "('w, 'e, 'a) eff \<Rightarrow> ('w server, 'e, 'a) eff" where
  "with_engine m s =
     (case mutex s of
        Poisoned \<Rightarrow> (Panic, s)
      | Held \<Rightarrow> (Diverge, s)
      | Unlocked \<Rightarrow>
          (case m (outside s) of
             (Panic, w') \<Rightarrow> (Panic, \<lparr>outside = w', mutex = Poisoned\<rparr>)
           | (Diverge, w') \<Rightarrow> (Diverge, \<lparr>outside = w', mutex = Held\<rparr>)
           | (r, w') \<Rightarrow> (r, \<lparr>outside = w', mutex = Unlocked\<rparr>)))"

subsection \<open>HTTP handlers\<close>

datatype status = StatusOk | BadRequest | Forbidden

type_synonym response = "status \<times> string option"

record user =
  user_id :: string
  user_purposes :: "string list"

text \<open>
  What a handler reads of the request: the parameters the router matched, the body, the parsed
  query string. \<open>json\<close> is \<open>serde_json::from_str\<close> at the type \<open>User\<close>.
\<close>

type_synonym params = "string \<Rightarrow> string option"
type_synonym query = "string + (string \<Rightarrow> string list option)"

definition bad_request :: "string \<Rightarrow> response" where
  "bad_request text = (BadRequest, Some text)"

definition QueryHandler_handle :: "'w env \<Rightarrow> params option \<Rightarrow> ('w server, string, response) eff" where
  "QueryHandler_handle E params =
     (case params of
        None \<Rightarrow> panic
      | Some ps \<Rightarrow>
          (let user = (case ps ''user'' of Some u \<Rightarrow> u | None \<Rightarrow> ''/'') in
           and_then (attempt (with_engine (consent_based_view E user))) (\<lambda>r.
             case r of
               Inr ip \<Rightarrow> ret (StatusOk, Some ip)
             | Inl err \<Rightarrow> ret (bad_request err))))"

definition Register_handle ::
  "'w env \<Rightarrow> authority \<Rightarrow> (string \<Rightarrow> string + user) \<Rightarrow> string + string \<Rightarrow>
   ('w server, string, response) eff" where
  "Register_handle E a json body =
     (case body of
        Inl e \<Rightarrow> ret (bad_request e)
      | Inr raw \<Rightarrow>
          (case json raw of
             Inl e \<Rightarrow> ret (bad_request e)
           | Inr deserialized \<Rightarrow>
               and_then (attempt (with_engine
                  (onboard_user E a (user_id deserialized) (user_purposes deserialized)))) (\<lambda>r.
                 case r of
                   Inl err \<Rightarrow> ret (bad_request err)
                 | Inr _ \<Rightarrow> ret (StatusOk, None))))"

definition Remove_handle :: "'w env \<Rightarrow> params option \<Rightarrow> ('w server, string, response) eff" where
  "Remove_handle E params =
     (case params of
        None \<Rightarrow> panic
      | Some ps \<Rightarrow>
          (let user = (case ps ''user'' of Some u \<Rightarrow> u | None \<Rightarrow> ''/'') in
           and_then (attempt (with_engine (deboard_user E user))) (\<lambda>r.
             case r of
               Inl err \<Rightarrow> ret (bad_request err)
             | Inr _ \<Rightarrow> ret (StatusOk, None))))"

definition Lease_handle :: "'w env \<Rightarrow> query \<Rightarrow> ('w server, string, response) eff" where
  "Lease_handle E query =
     (case query of
        Inl err \<Rightarrow> ret (bad_request err)
      | Inr query_params \<Rightarrow>
          (case query_params ''user'' of
             None \<Rightarrow> ret (bad_request ''No user in query'')
           | Some user \<Rightarrow>
               (case query_params ''intent'' of
                  None \<Rightarrow> ret (bad_request ''No intent in query'')
                | Some intent \<Rightarrow>
                    (case user of
                       [] \<Rightarrow> panic
                     | user0 # _ \<Rightarrow>
                         (case parse_u32 user0 of
                            Inl err \<Rightarrow> ret (bad_request err)
                          | Inr serial \<Rightarrow>
                              and_then (attempt (with_engine (consent_by_serial_num E serial))) (\<lambda>r.
                                case r of
                                  Inl err \<Rightarrow> ret (bad_request err)
                                | Inr consent \<Rightarrow>
                                    (case intent of
                                       [] \<Rightarrow> panic
                                     | intent0 # _ \<Rightarrow>
                                         if intent0 \<in> set (purpose consent) then ret (StatusOk, None)
                                         else ret (Forbidden, Some ''Consents did not match''))))))))"

subsection \<open>The wire-protocol service\<close>

definition ProtoService_call ::
  "'w env \<Rightarrow> authority \<Rightarrow> from_client \<Rightarrow> ('w server, io_error, to_client) eff" where
  "ProtoService_call E a req =
     and_then (attempt (with_engine (handle_incoming E a req))) (\<lambda>resp.
       case resp of
         Inr r \<Rightarrow> ret r
       | Inl err \<Rightarrow> throw (IoError InvalidData err))"

subsection \<open>Requests\<close>

text \<open>
  The routes of \<open>run_http\<close> in \<open>src/main.rs\<close>, with the part of the request their handler reads,
  and the wire protocol. Which route a path matches is the router crate's business.
\<close>

datatype request =
    GetUser "params option"
  | PostRegister "string + string"
  | DeleteUser "params option"
  | GetLease query
  | ProtoRequest from_client

datatype reply = HttpReply response | ProtoReply to_client | ProtoFailure io_error

definition serve ::
  "'w env \<Rightarrow> authority \<Rightarrow> (string \<Rightarrow> string + user) \<Rightarrow> request \<Rightarrow> ('w server, string, reply) eff" where
  "serve E a json req =
     (case req of
        GetUser ps \<Rightarrow> and_then (QueryHandler_handle E ps) (\<lambda>r. ret (HttpReply r))
      | PostRegister body \<Rightarrow> and_then (Register_handle E a json body) (\<lambda>r. ret (HttpReply r))
      | DeleteUser ps \<Rightarrow> and_then (Remove_handle E ps) (\<lambda>r. ret (HttpReply r))
      | GetLease query \<Rightarrow> and_then (Lease_handle E query) (\<lambda>r. ret (HttpReply r))
      | ProtoRequest msg \<Rightarrow>
          and_then (attempt (ProtoService_call E a msg)) (\<lambda>r.
            case r of Inr m \<Rightarrow> ret (ProtoReply m) | Inl e \<Rightarrow> ret (ProtoFailure e)))"

text \<open>
  The server answers requests one at a time, in the order in which their threads take the lock.
\<close>

inductive served ::
  "'w env \<Rightarrow> authority \<Rightarrow> (string \<Rightarrow> string + user) \<Rightarrow> 'w server \<Rightarrow> 'w server \<Rightarrow> bool"
  for E a json where
  start: "served E a json s s"
| request: "served E a json s t \<Longrightarrow> serve E a json req t = (r, u) \<Longrightarrow> served E a json s u"

fun serve_all ::
  "'w env \<Rightarrow> authority \<Rightarrow> (string \<Rightarrow> string + user) \<Rightarrow> request list \<Rightarrow> 'w server \<Rightarrow>
   (string, reply) outcome list \<times> 'w server" where
  "serve_all E a json [] s = ([], s)"
| "serve_all E a json (req # reqs) s =
     (case serve E a json req s of
        (r, t) \<Rightarrow> (case serve_all E a json reqs t of (rs, u) \<Rightarrow> (r # rs, u)))"

subsection \<open>The contract of a handler\<close>

locale guarded_handler =
  fixes handle :: "('w server, 'e, 'r) eff"
  assumes blocked: "mutex s \<noteq> Unlocked \<Longrightarrow> snd (handle s) = s"
    and released: "mutex s = Unlocked \<Longrightarrow> fst (handle s) \<noteq> Panic \<Longrightarrow> fst (handle s) \<noteq> Diverge \<Longrightarrow>
      mutex (snd (handle s)) = Unlocked"
begin

lemma lost_for_good: "mutex s \<noteq> Unlocked \<Longrightarrow> mutex (snd (handle s)) = mutex s"
  using blocked by simp

lemma wrap:
  assumes "\<And>x u. snd (g x u) = u"
  shows "guarded_handler (and_then handle g)"
proof
  fix s :: "'w server"
  have same: "snd (and_then handle g s) = snd (handle s)"
    using assms by (auto simp: and_then_def split: prod.split outcome.split)
  then show "mutex s \<noteq> Unlocked \<Longrightarrow> snd (and_then handle g s) = s"
    using blocked by simp
  have "fst (handle s) = Panic \<Longrightarrow> fst (and_then handle g s) = Panic"
    and "fst (handle s) = Diverge \<Longrightarrow> fst (and_then handle g s) = Diverge"
    by (auto simp: and_then_def split: prod.split outcome.split)
  then show "mutex s = Unlocked \<Longrightarrow> fst (and_then handle g s) \<noteq> Panic \<Longrightarrow>
      fst (and_then handle g s) \<noteq> Diverge \<Longrightarrow> mutex (snd (and_then handle g s)) = Unlocked"
    using released [of s] same by auto
qed

lemma guarded_attempt: "guarded_handler (attempt handle)"
proof
  fix s :: "'w server"
  show "mutex s \<noteq> Unlocked \<Longrightarrow> snd (attempt handle s) = s"
    using blocked by simp
  show "mutex s = Unlocked \<Longrightarrow> fst (attempt handle s) \<noteq> Panic \<Longrightarrow>
      fst (attempt handle s) \<noteq> Diverge \<Longrightarrow> mutex (snd (attempt handle s)) = Unlocked"
    using released [of s] by (cases "handle s"; cases "fst (handle s)") (auto simp: attempt_def)
qed

end

interpretation locked: guarded_handler "with_engine m" for m
  by unfold_locales
    (auto simp: with_engine_def split: prod.splits outcome.splits mutex_state.splits)

lemma guarded_pure [simp]:
  "guarded_handler (Pair r)" "guarded_handler (ret x)" "guarded_handler (throw e)"
  "guarded_handler panic"
  by unfold_locales auto

lemma guarded_call:
  "(\<And>x u. snd (g x u) = u) \<Longrightarrow> guarded_handler (and_then (attempt (with_engine m)) g)"
  by (intro guarded_handler.wrap locked.guarded_attempt) 

interpretation query_handler: guarded_handler "QueryHandler_handle E ps" for E ps
  unfolding QueryHandler_handle_def Let_def
  by (auto intro!: guarded_call split: option.split sum.split)

interpretation register_handler: guarded_handler "Register_handle E a json body" for E a json body
  unfolding Register_handle_def
  by (auto intro!: guarded_call split: option.split sum.split)

interpretation remove_handler: guarded_handler "Remove_handle E ps" for E ps
  unfolding Remove_handle_def Let_def
  by (auto intro!: guarded_call split: option.split sum.split)

interpretation lease_handler: guarded_handler "Lease_handle E query" for E query
  unfolding Lease_handle_def
  by (auto intro!: guarded_call split: option.split sum.split list.split)

interpretation proto_service: guarded_handler "ProtoService_call E a req" for E a req
  unfolding ProtoService_call_def
  by (auto intro!: guarded_call split: sum.split)

interpretation server: guarded_handler "serve E a json req" for E a json req
  unfolding serve_def
  by (auto intro!: query_handler.wrap register_handler.wrap remove_handler.wrap lease_handler.wrap
      guarded_handler.wrap [OF proto_service.guarded_attempt] split: request.split sum.split)

end
