(* ===== verification/Consent_Laws.thy ===== *)
theory Consent_Laws
  imports Tolla_Consent
begin

text \<open>
  What the consent engine guarantees, over a database that behaves as MongoDB documents it.
  \<open>db w c\<close> is the content of collection \<open>c\<close> in the outside state \<open>w\<close>; \<open>mongo_law\<close> is the
  contract: reads change nothing and return the content, an insert that succeeds appends the
  document and refuses a second document with the same \<open>_id\<close>, a delete removes the first match,
  an operation that fails leaves the content alone, the serializer of the bson crate is faithful,
  and the other services do not write to the database.
\<close>

subsection \<open>The contract of the database\<close>

definition matches :: "document \<Rightarrow> document \<Rightarrow> bool" where
  "matches q d = list_all (\<lambda>(k, v). doc_get d k = Some v) q"

fun remove_first :: "('a \<Rightarrow> bool) \<Rightarrow> 'a list \<Rightarrow> 'a list" where
  "remove_first P [] = []"
| "remove_first P (x # xs) = (if P x then xs else x # remove_first P xs)"

type_synonym 'w content = "'w \<Rightarrow> string \<Rightarrow> document list"

definition find_law :: "'w env \<Rightarrow> 'w content \<Rightarrow> bool" where
  "find_law E db \<longleftrightarrow>
     (\<forall>c w r w'. mongo_find E c w = (r, w') \<longrightarrow>
        db w' = db w \<and> (\<forall>es. r = Ok es \<longrightarrow> es = map Inr (db w c))) \<and>
     (\<forall>c q w r w'. mongo_find_one E c q w = (r, w') \<longrightarrow>
        db w' = db w \<and> (\<forall>x. r = Ok x \<longrightarrow> x = find (matches q) (db w c))) \<and>
     (\<forall>a p w r w'. mongo_connect E a p w = (r, w') \<longrightarrow> db w' = db w)"

definition insert_law :: "'w env \<Rightarrow> 'w content \<Rightarrow> bool" where
  "insert_law E db \<longleftrightarrow>
     (\<forall>c d w r w'. mongo_insert_one E c d w = (r, w') \<longrightarrow>
        (if r = Ok () then
           (\<forall>d' \<in> set (db w c). doc_get d' ''_id'' \<noteq> doc_get d ''_id'') \<and>
           db w' = (db w)(c := db w c @ [d])
         else db w' = db w))"

definition delete_law :: "'w env \<Rightarrow> 'w content \<Rightarrow> bool" where
  "delete_law E db \<longleftrightarrow>
     (\<forall>c q w r w'. mongo_delete_one E c q w = (r, w') \<longrightarrow>
        db w' = (if r = Ok () then (db w)(c := remove_first (matches q) (db w c)) else db w))"

definition mongo_law :: "'w env \<Rightarrow> 'w content \<Rightarrow> bool" where
  "mongo_law E db \<longleftrightarrow>
     find_law E db \<and> insert_law E db \<and> delete_law E db \<and>
     (\<forall>b. bson_to E b = Inr b) \<and> (\<forall>b. bson_from E b = Inr b) \<and>
     (\<forall>D. crypto_keeps (\<lambda>w. db w = D) E \<and> docker_keeps (\<lambda>w. db w = D) E)"

lemma mongo_law_parts:
  assumes "mongo_law E db"
  shows "find_law E db" "insert_law E db" "delete_law E db"
    "bson_to E b = Inr b" "bson_from E b = Inr b"
    "crypto_keeps (\<lambda>w. db w = D) E" "docker_keeps (\<lambda>w. db w = D) E"
  using assms by (simp_all add: mongo_law_def)

lemma mongo_find_db:
  assumes "mongo_law E db" "mongo_find E c w = (r, w')"
  shows "db w' = db w" "r = Ok es \<Longrightarrow> es = map Inr (db w c)"
  using assms by (auto simp: mongo_law_def find_law_def)

lemma mongo_find_one_db:
  assumes "mongo_law E db" "mongo_find_one E c q w = (r, w')"
  shows "db w' = db w" "r = Ok x \<Longrightarrow> x = find (matches q) (db w c)"
  using assms by (auto simp: mongo_law_def find_law_def)

lemma mongo_insert_db:
  assumes "mongo_law E db" "mongo_insert_one E c d w = (r, w')"
  shows "r = Ok () \<Longrightarrow> db w' = (db w)(c := db w c @ [d])"
    "r = Ok () \<Longrightarrow> d' \<in> set (db w c) \<Longrightarrow> doc_get d' ''_id'' \<noteq> doc_get d ''_id''"
    "r \<noteq> Ok () \<Longrightarrow> db w' = db w"
proof -
  from assms have *: "if r = Ok () then
           (\<forall>d' \<in> set (db w c). doc_get d' ''_id'' \<noteq> doc_get d ''_id'') \<and>
           db w' = (db w)(c := db w c @ [d])
         else db w' = db w"
    unfolding mongo_law_def insert_law_def by blast
  then show "r = Ok () \<Longrightarrow> db w' = (db w)(c := db w c @ [d])"
    "r = Ok () \<Longrightarrow> d' \<in> set (db w c) \<Longrightarrow> doc_get d' ''_id'' \<noteq> doc_get d ''_id''"
    "r \<noteq> Ok () \<Longrightarrow> db w' = db w"
    by auto
qed

lemma mongo_delete_db:
  assumes "mongo_law E db" "mongo_delete_one E c q w = (r, w')"
  shows "r = Ok () \<Longrightarrow> db w' = (db w)(c := remove_first (matches q) (db w c))"
    "r \<noteq> Ok () \<Longrightarrow> db w' = db w"
  using assms unfolding mongo_law_def delete_law_def by auto

subsection \<open>Serialization round trips\<close>

lemma de_seq_map [simp]: "de_seq (map BString ss) = Inr ss"
  by (induction ss) auto

lemma de_ser [simp]:
  "de_consent (ser_consent c) = Inr c"
  "de_intent (ser_intent i) = Inr i"
  "de_view (ser_view v) = Inr v"
  by (simp_all add: ser_consent_def ser_intent_def ser_view_def field_def need_def doc_get_def)

text \<open>
  What the engine stores it can read back: deserializing the serialized form of a consent,
  an intent or a view gives the record, for every content.
\<close>

lemma records_roundtrip:
  "de_consent (ser_consent c) = Inr c \<and> de_intent (ser_intent i) = Inr i \<and> de_view (ser_view v) = Inr v"
  by simp

definition consent_doc :: "consent \<Rightarrow> document" where
  "consent_doc c =
     [(''_id'', BString (consent_id c)), (''serial_number'', BI32 (serial_number c)),
      (''purpose'', BArray (map BString (purpose c)))]"

definition view_doc :: "view \<Rightarrow> document" where
  "view_doc v = [(''_id'', BString (view_id v)), (''ip'', BString (view_ip v))]"

definition intent_doc :: "intent_rec \<Rightarrow> document" where
  "intent_doc i = [(''_id'', BString (intent_id i)), (''intent'', BArray (map BString (intent_list i)))]"

lemma ser_docs:
  "ser_consent c = BDocument (consent_doc c)"
  "ser_view v = BDocument (view_doc v)"
  "ser_intent i = BDocument (intent_doc i)"
  by (simp_all add: ser_consent_def consent_doc_def ser_view_def view_doc_def ser_intent_def
      intent_doc_def)

lemma doc_ids [simp]:
  "doc_get (consent_doc c) ''_id'' = Some (BString (consent_id c))"
  "doc_get (consent_doc c) ''serial_number'' = Some (BI32 (serial_number c))"
  "doc_get (view_doc v) ''_id'' = Some (BString (view_id v))"
  by (simp_all add: consent_doc_def view_doc_def doc_get_def)

lemma add_ops_insert:
  assumes "mongo_law E db"
  shows "add_consent E c = mongo_insert_one E ''consents'' (consent_doc c)"
    "register_view E v = mongo_insert_one E ''view'' (view_doc v)"
    "add_intent E i = mongo_insert_one E ''intents'' (intent_doc i)"
  by (simp_all add: add_consent_def register_view_def add_intent_def insert_bson_def
      mongo_law_parts [OF assms] ser_docs)

lemma from_bson_law:
  assumes "mongo_law E db"
  shows "from_bson E de d = of_result (de (BDocument d))"
  by (simp add: from_bson_def mongo_law_parts [OF assms])

subsection \<open>Operations that leave the database alone\<close>

lemma keeps_db:
  assumes "mongo_law E db"
  shows "keeps (\<lambda>w. db w = D) (mongo_find E c)" "keeps (\<lambda>w. db w = D) (mongo_find_one E c q)"
    "keeps (\<lambda>w. db w = D) (mongo_connect E a p)"
  using mongo_law_parts(1) [OF assms] unfolding keeps_def find_law_def
  by (metis prod.collapse)+

lemma keeps_from_bson [keeps_intros]: "keeps I (from_bson E de d)"
  by (auto simp: from_bson_def intro!: keeps_intros)

lemma ips_loop_keeps [keeps_intros]: "keeps I (ips_loop E es)"
  by (induction E es rule: ips_loop.induct) (auto intro!: keeps_intros)

lemma views_loop_keeps [keeps_intros]: "keeps I (views_loop E es)"
  by (induction E es rule: views_loop.induct) (auto intro!: keeps_intros)

lemma find_loop_keeps [keeps_intros]: "keeps I (find_loop E i es)"
proof (induction es)
  case (Cons x es)
  then show ?case by (cases x) (auto intro!: keeps_intros)
qed simp

lemma queries_keep_db:
  assumes "mongo_law E db"
  shows "keeps (\<lambda>w. db w = D) (get_tenant_ips E)" "keeps (\<lambda>w. db w = D) (get_views E)"
    "keeps (\<lambda>w. db w = D) (consent_based_view E i)" "keeps (\<lambda>w. db w = D) (get_consent E i)"
    "keeps (\<lambda>w. db w = D) (consent_by_serial_num E n)" "keeps (\<lambda>w. db w = D) (get_intent E i)"
  unfolding get_tenant_ips_def get_views_def consent_based_view_def get_consent_def
    consent_by_serial_num_def get_intent_def
  by (intro keeps_intros keeps_db [OF assms])+

lemma services_keep_db:
  assumes "mongo_law E db"
  shows "keeps (\<lambda>w. db w = D) (verify_container_id E i)"
    "keeps (\<lambda>w. db w = D) (create_db_certificate E a)"
    "keeps (\<lambda>w. db w = D) (sign_certificate E a buf s)"
    "keeps (\<lambda>w. db w = D) (new_mountdir E fs d)"
    "keeps (\<lambda>w. db w = D) (new_container E img nm env)"
    "keeps (\<lambda>w. db w = D) (remove_container E i)"
  by (intro keeps_intros mongo_law_parts [OF assms])+

lemma keeps_db_eq:
  assumes "\<And>D. keeps (\<lambda>w. db w = D) m" "m w = (r, w')"
  shows "db w' = db w"
  using keepsD [OF assms(1) [of "db w"], of w] assms(2) by simp

subsection \<open>Onboarding\<close>

lemma onboard_user_OkE:
  assumes "onboard_user E a i ps w = (Ok (), w')"
  obtains w1 w2 w3 w4 w5 w6 e serial key cert ident ip where
    "verify_container_id E i w = (Ok False, w1)"
    "consent_based_view E i w1 = (Err e, w2)"
    "create_db_certificate E a w2 = (Ok (serial, key, cert), w3)"
    "new_mountdir E (hashmap_iter E [(''certificate.pem'', cert), (''keys.pem'', key),
       (''CAcert.pem'', get_cert a)]) (''/tmp/certificates/'' @ i) w3 = (Ok (), w4)"
    "new_container E ''tenant'' i (tenant_env i) w4 = (Ok (ident, ip), w5)"
    "register_view E \<lparr>view_id = ident, view_ip = ip\<rparr> w5 = (Ok (), w6)"
    "add_consent E \<lparr>consent_id = i, serial_number = serial, purpose = ps\<rparr> w6 = (Ok (), w')"
  using assms that
  by (auto simp: onboard_user_def Let_def elim!: and_then_OkE split: if_splits sum.splits)

lemma new_container_id:
  "new_container E img nm env w = (Ok (ident, ip), w') \<Longrightarrow> ident = docker_id E nm"
  by (auto simp: new_container_def Let_def elim!: and_then_OkE)

lemma onboard_services_db:
  assumes law: "mongo_law E db"
    and "verify_container_id E i w = (r1, w1)" "consent_based_view E i w1 = (r2, w2)"
    and "create_db_certificate E a w2 = (r3, w3)" "new_mountdir E fs d w3 = (r4, w4)"
    and "new_container E img nm env w4 = (r5, w5)"
  shows "db w5 = db w"
proof -
  note eqs = keeps_db_eq [OF services_keep_db(1) [OF law] assms(2)]
    keeps_db_eq [OF queries_keep_db(3) [OF law] assms(3)]
    keeps_db_eq [OF services_keep_db(2) [OF law] assms(4)]
    keeps_db_eq [OF services_keep_db(4) [OF law] assms(5)]
    keeps_db_eq [OF services_keep_db(5) [OF law] assms(6)]
  then show ?thesis by simp
qed

lemma onboard_user_adds:
  assumes law: "mongo_law E db" and run: "onboard_user E a i ps w = (Ok (), w')"
  shows "\<exists>serial ip.
    db w' = (db w)(''view'' := db w ''view'' @ [view_doc \<lparr>view_id = docker_id E i, view_ip = ip\<rparr>],
      ''consents'' := db w ''consents'' @
        [consent_doc \<lparr>consent_id = i, serial_number = serial, purpose = ps\<rparr>]) \<and>
    (\<forall>d \<in> set (db w ''consents''). doc_get d ''_id'' \<noteq> Some (BString i))"
proof -
  from run obtain w1 w2 w3 w4 w5 w6 e serial key cert ident ip where steps:
    "verify_container_id E i w = (Ok False, w1)"
    "consent_based_view E i w1 = (Err e, w2)"
    "create_db_certificate E a w2 = (Ok (serial, key, cert), w3)"
    "new_mountdir E (hashmap_iter E [(''certificate.pem'', cert), (''keys.pem'', key),
       (''CAcert.pem'', get_cert a)]) (''/tmp/certificates/'' @ i) w3 = (Ok (), w4)"
    "new_container E ''tenant'' i (tenant_env i) w4 = (Ok (ident, ip), w5)"
    and view: "register_view E \<lparr>view_id = ident, view_ip = ip\<rparr> w5 = (Ok (), w6)"
    and consent: "add_consent E \<lparr>consent_id = i, serial_number = serial, purpose = ps\<rparr> w6 = (Ok (), w')"
    by (rule onboard_user_OkE)
  have db5: "db w5 = db w" using onboard_services_db [OF law steps] .
  note view' = view [unfolded add_ops_insert [OF law]]
  note consent' = consent [unfolded add_ops_insert [OF law]]
  have "db w6 = (db w)(''view'' := db w ''view'' @ [view_doc \<lparr>view_id = ident, view_ip = ip\<rparr>])"
    using mongo_insert_db(1) [OF law view'] db5 by simp
  moreover have "\<forall>d \<in> set (db w6 ''consents''). doc_get d ''_id'' \<noteq> Some (BString i)"
    using mongo_insert_db(2) [OF law consent'] by auto
  ultimately show ?thesis
    using mongo_insert_db(1) [OF law consent'] new_container_id [OF steps(5)]
    by (intro exI [of _ serial] exI [of _ ip]) simp
qed


lemma insert_triple:
  assumes law: "mongo_law E db"
  shows "triple (\<lambda>w. db w = D) (mongo_insert_one E c d)
    (\<lambda>r w. db w = (if r = Ok () then D(c := D c @ [d]) else D))"
  unfolding triple_def using mongo_insert_db [OF law] by auto

lemma onboard_user_triple:
  assumes law: "mongo_law E db"
  shows "triple (\<lambda>w. db w = D) (onboard_user E a i ps)
    (\<lambda>r w. r \<noteq> Ok () \<longrightarrow> db w = D \<or>
       (\<exists>ip. db w = D(''view'' := D ''view'' @ [view_doc \<lparr>view_id = docker_id E i, view_ip = ip\<rparr>])))"
    (is "triple _ _ ?Q")
proof -
  let ?V = "\<lambda>ident ip. D(''view'' := D ''view'' @ [view_doc \<lparr>view_id = ident, view_ip = ip\<rparr>])"
  have consent: "triple (\<lambda>w. \<exists>ip. db w = ?V (docker_id E i) ip)
      (and_then (add_consent E c) (\<lambda>_. ret ())) ?Q" for c
    unfolding triple_def
    using insert_triple [OF law, of _ "''consents''" "consent_doc c"]
    by (auto simp: triple_def add_ops_insert [OF law] and_then_def split: outcome.splits prod.splits)
  have view: "triple (\<lambda>w. db w = D) (register_view E \<lparr>view_id = docker_id E i, view_ip = ip\<rparr>)
      (\<lambda>r w. case r of Ok a \<Rightarrow> \<exists>ip. db w = ?V (docker_id E i) ip | Err e \<Rightarrow> ?Q (Err e) w
        | Panic \<Rightarrow> ?Q Panic w | Diverge \<Rightarrow> ?Q Diverge w)" for ip
    using insert_triple [OF law, of D "''view''" "view_doc \<lparr>view_id = docker_id E i, view_ip = ip\<rparr>"]
    by (auto simp: triple_def add_ops_insert [OF law] split: outcome.splits)
  have container: "triple (\<lambda>w. db w = D) (new_container E ''tenant'' i (tenant_env i))
      (\<lambda>r w. case r of Ok (ident, ip) \<Rightarrow> db w = D \<and> ident = docker_id E i | Err e \<Rightarrow> ?Q (Err e) w
        | Panic \<Rightarrow> ?Q Panic w | Diverge \<Rightarrow> ?Q Diverge w)"
    using keeps_db_eq [OF services_keep_db(5) [OF law]] new_container_id
    by (fastforce simp: triple_def split: outcome.split)
  have tail: "triple (\<lambda>w. db w = D)
      (and_then (new_container E ''tenant'' i (tenant_env i)) (\<lambda>(ident, ip).
       and_then (register_view E \<lparr>view_id = ident, view_ip = ip\<rparr>) (\<lambda>_.
       and_then (add_consent E c) (\<lambda>_. ret ())))) ?Q" for c
  proof (rule triple_and_then [OF container])
    fix x :: "string \<times> string"
    obtain ident ip where x: "x = (ident, ip)" by fastforce
    have "triple (\<lambda>w. db w = D)
        (and_then (register_view E \<lparr>view_id = docker_id E i, view_ip = ip\<rparr>) (\<lambda>_.
         and_then (add_consent E c) (\<lambda>_. ret ()))) ?Q"
      by (rule triple_and_then [OF view consent])
    then show "triple (\<lambda>w. case x of (ident, ip) \<Rightarrow> db w = D \<and> ident = docker_id E i)
        (case x of (ident, ip) \<Rightarrow> and_then (register_view E \<lparr>view_id = ident, view_ip = ip\<rparr>) (\<lambda>_.
         and_then (add_consent E c) (\<lambda>_. ret ()))) ?Q"
      by (auto simp: x triple_def)
  qed
  show ?thesis
    unfolding onboard_user_def Let_def
    by (intro tail triple_if triple_case_sum triple_case_prod triple_throw triple_skip
        keeps_attempt services_keep_db [OF law] queries_keep_db [OF law]) auto
qed

text \<open>
  C14: when onboarding does not succeed, whatever went wrong, no consent has been stored; the
  only trace it can leave in the database is the view of the container it had already created.
\<close>

theorem onboard_user_failure:
  assumes law: "mongo_law E db" and run: "onboard_user E a i ps w = (r, w')" and "r \<noteq> Ok ()"
  shows "db w' = db w \<or>
    (\<exists>ip. db w' = (db w)(''view'' := db w ''view'' @ [view_doc \<lparr>view_id = docker_id E i, view_ip = ip\<rparr>]))"
  using tripleD [OF onboard_user_triple [OF law] refl run] assms(3) by blast

subsection \<open>The invariant of the store\<close>

text \<open>
  Every collection holds at most one document per \<open>_id\<close>, and the three collections the engine
  writes hold serialized records only. \<open>views\<close>, which the engine reads but never writes, is
  whatever it was.
\<close>

definition unique_ids :: "document list \<Rightarrow> bool" where
  "unique_ids ds \<longleftrightarrow> distinct (map (\<lambda>d. doc_get d ''_id'') ds)"

definition content_ok :: "(string \<Rightarrow> document list) \<Rightarrow> bool" where
  "content_ok D \<longleftrightarrow>
     (\<forall>c. unique_ids (D c)) \<and>
     set (D ''consents'') \<subseteq> range consent_doc \<and>
     set (D ''view'') \<subseteq> range view_doc \<and>
     set (D ''intents'') \<subseteq> range intent_doc"

definition store_inv :: "'w content \<Rightarrow> document list \<Rightarrow> 'w \<Rightarrow> bool" where
  "store_inv db V w \<longleftrightarrow> content_ok (db w) \<and> db w ''views'' = V"

lemma set_remove_first: "set (remove_first P xs) \<subseteq> set xs"
  by (induction xs) auto

lemma unique_ids_remove_first: "unique_ids ds \<Longrightarrow> unique_ids (remove_first P ds)"
  unfolding unique_ids_def
proof (induction ds)
  case (Cons d ds)
  then show ?case using set_remove_first [of P ds] by auto
qed simp

lemma unique_ids_append:
  "unique_ids ds \<Longrightarrow> (\<And>d'. d' \<in> set ds \<Longrightarrow> doc_get d' ''_id'' \<noteq> doc_get d ''_id'') \<Longrightarrow>
   unique_ids (ds @ [d])"
  by (fastforce simp: unique_ids_def)

lemma content_ok_remove:
  assumes "content_ok D"
  shows "content_ok (D(c := remove_first P (D c)))"
proof -
  have sub: "set ((D(c := remove_first P (D c))) k) \<subseteq> set (D k)" for k
    using set_remove_first [of P "D c"] by simp
  have "unique_ids ((D(c := remove_first P (D c))) k)" for k
    using assms by (simp add: content_ok_def unique_ids_remove_first)
  with assms show ?thesis
    unfolding content_ok_def by (intro conjI allI subset_trans [OF sub]) simp_all
qed

definition belongs :: "string \<Rightarrow> document \<Rightarrow> bool" where
  "belongs c d \<longleftrightarrow>
     c = ''consents'' \<and> d \<in> range consent_doc \<or> c = ''view'' \<and> d \<in> range view_doc \<or>
     c = ''intents'' \<and> d \<in> range intent_doc"

lemma content_ok_insert:
  assumes "content_ok D" "belongs c d"
    "\<And>d'. d' \<in> set (D c) \<Longrightarrow> doc_get d' ''_id'' \<noteq> doc_get d ''_id''"
  shows "content_ok (D(c := D c @ [d]))"
proof -
  have uniq: "unique_ids ((D(c := D c @ [d])) k)" for k
    using assms by (simp add: content_ok_def unique_ids_append)
  from assms(2) consider "c = ''consents''" "d \<in> range consent_doc"
    | "c = ''view''" "d \<in> range view_doc" | "c = ''intents''" "d \<in> range intent_doc"
    by (auto simp: belongs_def)
  then show ?thesis
    using assms(1) uniq unfolding content_ok_def by cases simp_all
qed

lemma keeps_db_pred:
  assumes "\<And>D. keeps (\<lambda>w. db w = D) m"
  shows "keeps (\<lambda>w. P (db w)) m"
proof (rule keepsI)
  fix w assume "P (db w)"
  then show "P (db (snd (m w)))" using keepsD [OF assms [of "db w"], of w] by simp
qed

lemma keeps_store:
  assumes "\<And>D. keeps (\<lambda>w. db w = D) m"
  shows "keeps (store_inv db V) m"
  using keeps_db_pred [of db m "\<lambda>D. content_ok D \<and> D ''views'' = V", OF assms]
  by (simp add: store_inv_def [abs_def])

lemma insert_keeps_store:
  assumes law: "mongo_law E db" and "belongs c d"
  shows "keeps (store_inv db V) (mongo_insert_one E c d)"
proof (rule keepsI)
  fix w assume inv: "store_inv db V w"
  obtain r w' where run: "mongo_insert_one E c d w = (r, w')" by fastforce
  have c: "c \<noteq> ''views''" using assms(2) by (auto simp: belongs_def)
  show "store_inv db V (snd (mongo_insert_one E c d w))"
  proof (cases "r = Ok ()")
    case True
    have "content_ok ((db w)(c := db w c @ [d]))"
      using inv mongo_insert_db(2) [OF law run True] assms(2)
      by (intro content_ok_insert) (auto simp: store_inv_def)
    with True c inv show ?thesis
      using mongo_insert_db(1) [OF law run] by (auto simp: store_inv_def run)
  next
    case False
    with inv show ?thesis using mongo_insert_db(3) [OF law run] by (simp add: store_inv_def run)
  qed
qed

lemma delete_keeps_store:
  assumes law: "mongo_law E db" and "c \<noteq> ''views''"
  shows "keeps (store_inv db V) (mongo_delete_one E c q)"
proof (rule keepsI)
  fix w assume inv: "store_inv db V w"
  obtain r w' where run: "mongo_delete_one E c q w = (r, w')" by fastforce
  show "store_inv db V (snd (mongo_delete_one E c q w))"
    using inv mongo_delete_db [OF law run] assms(2)
    by (cases "r = Ok ()") (auto simp: store_inv_def run content_ok_remove)
qed

lemma belongs_docs [simp]:
  "belongs ''consents'' (consent_doc c)" "belongs ''view'' (view_doc v)"
  "belongs ''intents'' (intent_doc i)"
  by (auto simp: belongs_def)

lemma adds_keep_store:
  assumes "mongo_law E db"
  shows "keeps (store_inv db V) (add_consent E c)" "keeps (store_inv db V) (register_view E v)"
    "keeps (store_inv db V) (add_intent E i)"
  unfolding add_ops_insert [OF assms] by (rule insert_keeps_store [OF assms], simp)+

lemma onboard_keeps_store:
  assumes "mongo_law E db"
  shows "keeps (store_inv db V) (onboard_user E a i ps)"
  unfolding onboard_user_def Let_def
  by (intro keeps_intros adds_keep_store [OF assms] keeps_store services_keep_db [OF assms]
      queries_keep_db [OF assms])

lemma deboard_keeps_store:
  assumes "mongo_law E db"
  shows "keeps (store_inv db V) (deboard_user E i)"
  unfolding deboard_user_def remove_user_def
  by (intro keeps_intros delete_keeps_store [OF assms] keeps_store services_keep_db [OF assms]) auto

lemma handle_incoming_keeps_store:
  assumes "mongo_law E db"
  shows "keeps (store_inv db V) (handle_incoming E a msg)"
  unfolding handle_incoming_def handle_cert_request_def Let_def
  by (auto intro!: keeps_intros adds_keep_store [OF assms] onboard_keeps_store [OF assms]
      keeps_store [OF services_keep_db(3) [OF assms]] keeps_store [OF queries_keep_db(1) [OF assms]]
      split: option.split from_client_msg.split)

subsection \<open>Removing a user\<close>

lemma remove_first_unique:
  assumes "unique_ids ds"
  shows "remove_first (matches [(''_id'', v)]) ds = filter (\<lambda>d. doc_get d ''_id'' \<noteq> Some v) ds"
  using assms
proof (induction ds)
  case (Cons d ds)
  have "filter (\<lambda>d. doc_get d ''_id'' \<noteq> Some v) ds = ds" if "doc_get d ''_id'' = Some v"
    using Cons.prems that by (fastforce simp: unique_ids_def filter_id_conv image_iff)
  with Cons show ?case by (auto simp: matches_def unique_ids_def)
qed simp

text \<open>
  C11: when removing a user succeeds, the documents with that id are gone from \<open>consents\<close> and from
  \<open>view\<close>, every other document is still there, in the same order, and no other collection
  changed.
\<close>

theorem deboard_user_effect:
  assumes law: "mongo_law E db" and ok: "content_ok (db w)"
    and run: "deboard_user E i w = (Ok (), w')"
  shows "db w' = (\<lambda>c. if c \<in> {''consents'', ''view''}
    then filter (\<lambda>d. doc_get d ''_id'' \<noteq> Some (BString i)) (db w c) else db w c)"
proof -
  let ?q = "[(''_id'', BString i)]"
  from run obtain w1 w2 where
    rm: "remove_container E i w = (Ok (), w1)"
    and d1: "mongo_delete_one E ''consents'' ?q w1 = (Ok (), w2)"
    and d2: "mongo_delete_one E ''view'' ?q w2 = (Ok (), w')"
    by (auto simp: deboard_user_def remove_user_def elim!: and_then_OkE)
  have "db w1 = db w" using keeps_db_eq [OF services_keep_db(6) [OF law] rm] .
  moreover have "unique_ids (db w c)" for c using ok by (simp add: content_ok_def)
  ultimately show ?thesis
    using mongo_delete_db(1) [OF law d1] mongo_delete_db(1) [OF law d2]
    by (auto simp: remove_first_unique)
qed

subsection \<open>Looking up consents\<close>

lemma content_ok_consents:
  assumes "content_ok D"
  obtains cs where "D ''consents'' = map consent_doc cs"
proof -
  have "\<exists>cs. D ''consents'' = map consent_doc cs"
    using assms by (subst ex_map_conv) (auto simp: content_ok_def)
  with that show ?thesis by blast
qed

lemma find_map: "find P (map g xs) = map_option g (find (P \<circ> g) xs)"
  by (induction xs) auto

lemma matches_serial: "matches [(''serial_number'', BI32 n)] \<circ> consent_doc = (\<lambda>c. serial_number c = n)"
  by (auto simp: matches_def fun_eq_iff)

lemma consent_by_serial_num_result:
  assumes law: "mongo_law E db" and u32: "bson_u32 E n = BI32 n"
    and cs: "db w ''consents'' = map consent_doc cs"
    and reply: "mongo_find_one E ''consents'' [(''serial_number'', BI32 n)] w = (Ok r, w')"
  shows "consent_by_serial_num E n w =
    ((case find (\<lambda>c. serial_number c = n) cs of Some c \<Rightarrow> Ok c | None \<Rightarrow> Panic), w')"
proof -
  have "r = map_option consent_doc (find (\<lambda>c. serial_number c = n) cs)"
    using mongo_find_one_db(2) [OF law reply] by (simp add: cs find_map matches_serial)
  then show ?thesis
    by (simp add: consent_by_serial_num_def u32 reply and_then_def from_bson_law [OF law]
        flip: ser_docs split: option.split)
qed

subsection \<open>Answers of the wire protocol\<close>

lemma finish_response_success [simp]:
  "tc_success (finish_response to_client_default r) \<longleftrightarrow> \<not> isl r"
  "tc_success (finish_response (to_client_default\<lparr>tc_msg := m\<rparr>) (Inr ()))"
  by (simp_all add: finish_response_def to_client_default_def split: sum.split)

lemma finish_response_msg:
  "tc_msg (finish_response to_client_default r) =
     (case r of Inl e \<Rightarrow> Some (MsgError \<lparr>error_text = e\<rparr>) | Inr _ \<Rightarrow> None)"
  "tc_msg (finish_response (to_client_default\<lparr>tc_msg := m\<rparr>) (Inr ())) = m"
  by (simp_all add: finish_response_def to_client_default_def split: sum.split)

lemma attempt_finish_OkE:
  assumes "and_then (attempt m) (\<lambda>r. ret (finish_response to_client_default r)) w = (Ok resp, w')"
  obtains r where "resp = finish_response to_client_default r"
    "m w = ((case r of Inl e \<Rightarrow> Err e | Inr x \<Rightarrow> Ok x), w')"
  using assms that by (auto simp: and_then_def attempt_def split: prod.splits outcome.splits)

lemma attempt_finish_no_Err:
  "and_then (attempt m) (\<lambda>r. ret (f r)) w \<noteq> (Err e, w')"
  by (auto simp: and_then_def attempt_def split: prod.splits outcome.splits)


lemma ips_loop_views:
  "mongo_law E db \<Longrightarrow> ips_loop E (map (Inr \<circ> view_doc) vs) w = (Ok (map view_ip vs), w)"
proof (induction vs)
  case (Cons v vs)
  then show ?case
    by (simp add: from_bson_law and_then_def flip: ser_docs)
qed simp

text \<open>
  A request for addresses is answered with the address of every tenant whose view is stored,
  once each and in the order of the collection, and changes nothing in the database.
\<close>

lemma request_ips_lists_every_tenant:
  assumes law: "mongo_law E db" and vs: "db w ''view'' = map view_doc vs"
    and reply: "mongo_find E ''view'' w = (Ok es, w')"
    and msg: "fc_msg msg = Some (Requestips x)"
  shows "db w' = db w \<and>
    handle_incoming E a msg w =
      (Ok \<lparr>tc_success = True, tc_msg = Some (Ips \<lparr>addresses_ip = map view_ip vs\<rparr>)\<rparr>, w')"
proof -
  have "es = map (Inr \<circ> view_doc) vs"
    using mongo_find_db(2) [OF law reply] vs by simp
  then have "get_tenant_ips E w = (Ok (map view_ip vs), w')"
    using ips_loop_views [OF law] by (simp add: get_tenant_ips_def and_then_def reply)
  then show ?thesis
    using mongo_find_db(1) [OF law reply]
    by (simp add: handle_incoming_def msg Let_def and_then_def finish_response_def
        to_client_default_def)
qed

end
