(* ===== verification/Service_Laws.thy ===== *)
theory Service_Laws
  imports Tolla_Service Consent_Laws
begin

text \<open>
  What the running server guarantees: the life of the mutex over any sequence of requests, the
  decision of the lease handler, the invariant of the store over every reachable state, and what
  a client sees of a user registered before. The laws of the database are those of
  \<open>mongo_law\<close>.
\<close>

subsection \<open>A lost mutex\<close>

lemma with_engine_poisoned: "mutex s = Poisoned \<Longrightarrow> with_engine m s = (Panic, s)"
  by (simp add: with_engine_def)

lemma call_poisoned: "mutex s = Poisoned \<Longrightarrow> and_then (attempt (with_engine m)) g s = (Panic, s)"
  by (simp add: with_engine_poisoned and_then_def attempt_def)

lemma serve_poisoned:
  assumes "mutex s = Poisoned"
  shows "fst (serve E a json req s) = Panic \<or>
    (\<exists>text. fst (serve E a json req s) = Ok (HttpReply (bad_request text)))"
proof (cases req)
  case (GetUser ps)
  then show ?thesis
    by (cases ps) (simp_all add: serve_def QueryHandler_handle_def and_then_assoc
        call_poisoned [OF assms])
next
  case (PostRegister body)
  then show ?thesis
    by (cases body)
      (auto simp: serve_def Register_handle_def and_then_assoc call_poisoned [OF assms]
        split: sum.split)
next
  case (DeleteUser ps)
  then show ?thesis
    by (cases ps) (simp_all add: serve_def Remove_handle_def and_then_assoc
        call_poisoned [OF assms])
next
  case (GetLease q)
  then show ?thesis
    by (cases q)
      (auto simp: serve_def Lease_handle_def and_then_assoc call_poisoned [OF assms]
        split: sum.split option.split list.split)
next
  case (ProtoRequest msg)
  then show ?thesis
    by (simp add: serve_def ProtoService_call_def attempt_def and_then_def
        with_engine_poisoned [OF assms])
qed

lemma serve_all_lost:
  assumes "mutex s \<noteq> Unlocked"
  shows "snd (serve_all E a json reqs s) = s \<and>
    fst (serve_all E a json reqs s) = map (\<lambda>req. fst (serve E a json req s)) reqs"
proof (induction reqs)
  case (Cons req reqs)
  have "snd (serve E a json req s) = s" using server.blocked [OF assms] .
  with Cons show ?case by (simp add: case_prod_beta)
qed simp

text \<open>
  C12: a panic inside the engine is the end of the service. From a state in which the mutex is
  poisoned, no sequence of requests changes anything outside or heals the mutex, and every
  request is answered by a panic or by a refusal that never needed the engine.
\<close>

theorem poisoned_server_is_dead:
  assumes "mutex s = Poisoned"
  shows "snd (serve_all E a json reqs s) = s \<and>
    (\<forall>r \<in> set (fst (serve_all E a json reqs s)).
       r = Panic \<or> (\<exists>text. r = Ok (HttpReply (BadRequest, Some text))))"
proof -
  have "mutex s \<noteq> Unlocked" using assms by simp
  then show ?thesis
    using serve_all_lost [of s E a json reqs] serve_poisoned [OF assms, of E a json]
    by (auto simp: bad_request_def)
qed

subsection \<open>The lease decision\<close>

lemma call_unlocked:
  assumes "mutex s = Unlocked"
  shows "and_then (attempt (with_engine m)) g s =
    (case m (outside s) of
       (Ok x, w') \<Rightarrow> g (Inr x) \<lparr>outside = w', mutex = Unlocked\<rparr>
     | (Err e, w') \<Rightarrow> g (Inl e) \<lparr>outside = w', mutex = Unlocked\<rparr>
     | (Panic, w') \<Rightarrow> (Panic, \<lparr>outside = w', mutex = Poisoned\<rparr>)
     | (Diverge, w') \<Rightarrow> (Diverge, \<lparr>outside = w', mutex = Held\<rparr>))"
  using assms
  by (simp add: and_then_def attempt_def with_engine_def split: prod.split outcome.split)

text \<open>
  A lease query is complete when it names a user whose first value is a number and an intent.
\<close>

definition lease_query :: "query \<Rightarrow> u32 \<Rightarrow> string \<Rightarrow> bool" where
  "lease_query q n p \<longleftrightarrow>
     (case q of Inl _ \<Rightarrow> False
      | Inr params \<Rightarrow>
          (case (params ''user'', params ''intent'') of
             (Some (u # _), Some (i # _)) \<Rightarrow> parse_u32 u = Inr n \<and> i = p
           | _ \<Rightarrow> False))"

text \<open>What the handler is meant to decide: the purposes of the consent with that serial number.\<close>

definition lease_answer :: "consent \<Rightarrow> string \<Rightarrow> response" where
  "lease_answer c p =
     (if p \<in> set (purpose c) then (StatusOk, None) else (Forbidden, Some ''Consents did not match''))"

lemma lease_query_handle:
  assumes "lease_query q n p"
  shows "Lease_handle E q =
    and_then (attempt (with_engine (consent_by_serial_num E n))) (\<lambda>r.
      case r of Inl err \<Rightarrow> ret (bad_request err) | Inr c \<Rightarrow> ret (lease_answer c p))"
  using assms
  by (auto simp: lease_query_def Lease_handle_def lease_answer_def fun_eq_iff
      split: sum.splits option.splits list.splits intro!: arg_cong [where f = "\<lambda>g. and_then _ g _"])

lemma lease_decision:
  assumes law: "mongo_law E db" and u32: "bson_u32 E n = BI32 n" and free: "mutex s = Unlocked"
    and cs: "db (outside s) ''consents'' = map consent_doc cs"
    and q: "lease_query q n p"
    and reply: "mongo_find_one E ''consents'' [(''serial_number'', BI32 n)] (outside s) = (Ok r, w')"
  shows "Lease_handle E q s =
    (case find (\<lambda>c. serial_number c = n) cs of
       Some c \<Rightarrow> (Ok (lease_answer c p), \<lparr>outside = w', mutex = Unlocked\<rparr>)
     | None \<Rightarrow> (Panic, \<lparr>outside = w', mutex = Poisoned\<rparr>))"
  unfolding lease_query_handle [OF q] call_unlocked [OF free]
    consent_by_serial_num_result [where w = "outside s", OF law u32 cs reply]
  by (simp split: option.split)

text \<open>
  C1: the decision on a lease. For a complete query, and when the database answers, the handler
  replies 200 when the consent stored under the serial number lists the intent and 403 when it
  does not, without changing the database; when no consent has that serial number it panics with
  the lock held, and the mutex is poisoned.
\<close>

theorem lease_handle_decides:
  assumes law: "mongo_law E db" and u32: "bson_u32 E n = BI32 n" and free: "mutex s = Unlocked"
    and cs: "db (outside s) ''consents'' = map consent_doc cs"
    and q: "lease_query q n p"
    and reply: "mongo_find_one E ''consents'' [(''serial_number'', BI32 n)] (outside s) = (Ok r, w')"
  shows "db w' = db (outside s) \<and>
    Lease_handle E q s =
    (case find (\<lambda>c. serial_number c = n) cs of
       Some c \<Rightarrow>
         (Ok (if p \<in> set (purpose c) then (StatusOk, None)
              else (Forbidden, Some ''Consents did not match'')),
          \<lparr>outside = w', mutex = Unlocked\<rparr>)
     | None \<Rightarrow> (Panic, \<lparr>outside = w', mutex = Poisoned\<rparr>))"
  using lease_decision [OF assms] mongo_find_one_db(1) [OF law reply]
  by (simp add: lease_answer_def cong: option.case_cong)

subsection \<open>Registering, then asking for a lease\<close>

lemma register_OkE:
  assumes "Register_handle E a json body s = (Ok (StatusOk, None), t)" "mutex s = Unlocked"
  obtains u w' where "onboard_user E a (user_id u) (user_purposes u) (outside s) = (Ok (), w')"
    "t = \<lparr>outside = w', mutex = Unlocked\<rparr>" "\<exists>raw. body = Inr raw \<and> json raw = Inr u"
  using assms(1) that
  by (auto simp: Register_handle_def call_unlocked [OF assms(2)] bad_request_def
      split: sum.splits prod.splits outcome.splits)

lemma find_snoc:
  "(\<And>x. x \<in> set xs \<Longrightarrow> \<not> P x) \<Longrightarrow> find P (xs @ [y]) = (if P y then Some y else None)"
  by (induction xs) auto


subsection \<open>Reachable states\<close>

lemma with_engine_keeps [keeps_intros]:
  assumes "keeps I m"
  shows "keeps (\<lambda>s. I (outside s)) (with_engine m)"
proof (rule keepsI)
  fix s :: "'a server" assume "I (outside s)"
  with assms have "I (snd (m (outside s)))" by (rule keepsD)
  with \<open>I (outside s)\<close> show "I (outside (snd (with_engine m s)))"
    by (auto simp: with_engine_def split: mutex_state.split prod.split outcome.split)
qed

lemma handlers_keep_store:
  assumes law: "mongo_law E db" and I_def: "I = (\<lambda>s. store_inv db V (outside s))"
  shows "keeps I (QueryHandler_handle E ps)" "keeps I (Register_handle E a json body)"
    "keeps I (Remove_handle E ps)" "keeps I (Lease_handle E q)" "keeps I (ProtoService_call E a msg)"
proof -
  show "keeps I (QueryHandler_handle E ps)"
    unfolding QueryHandler_handle_def Let_def I_def
    by (intro keeps_intros keeps_store queries_keep_db [OF law])
  show "keeps I (Register_handle E a json body)"
    unfolding Register_handle_def I_def
    by (intro keeps_intros onboard_keeps_store [OF law])
  show "keeps I (Remove_handle E ps)"
    unfolding Remove_handle_def Let_def I_def
    by (intro keeps_intros deboard_keeps_store [OF law])
  show "keeps I (ProtoService_call E a msg)"
    unfolding ProtoService_call_def I_def
    by (intro keeps_intros handle_incoming_keeps_store [OF law])
  have "keeps I (with_engine (consent_by_serial_num E n))" for n
    unfolding I_def by (intro keeps_intros keeps_store queries_keep_db [OF law])
  then show "keeps I (Lease_handle E q)"
    unfolding Lease_handle_def by (auto intro!: keeps_intros split: list.split)
qed

lemma serve_keeps_store:
  assumes "mongo_law E db"
  shows "keeps (\<lambda>s. store_inv db V (outside s)) (serve E a json req)"
  unfolding serve_def
  by (auto intro!: keeps_intros handlers_keep_store [OF assms refl] split: request.split)

lemma served_store:
  assumes "mongo_law E db"
  shows "served E a json s t \<Longrightarrow> store_inv db V (outside s) \<Longrightarrow> store_inv db V (outside t)"
proof (induction rule: served.induct)
  case (request s t req r u)
  then have "store_inv db V (outside (snd (serve E a json req t)))"
    using keepsD [OF serve_keeps_store [OF assms]] by blast
  with request show ?case by simp
qed

text \<open>
  C9: the invariant of the store. In every state the server can reach, by whatever requests and
  whatever their outcome, each collection has at most one document per \<open>_id\<close>, the collections
  \<open>consents\<close>, \<open>view\<close> and \<open>intents\<close> hold only serialized records, and the collection \<open>views\<close> is
  what it was at the start.
\<close>

theorem reachable_store_invariant:
  assumes "mongo_law E db" and "content_ok (db (outside s))" and "served E a json s t"
  shows "content_ok (db (outside t)) \<and> db (outside t) ''views'' = db (outside s) ''views''"
  using served_store [OF assms(1,3), of "db (outside s) ''views''"] assms(2)
  by (simp add: store_inv_def)

text \<open>
  C22: no tenant is ever found. The engine writes the address of a new tenant to the collection
  \<open>view\<close> and looks it up in the collection \<open>views\<close>, which it never writes: started on an empty
  \<open>views\<close>, after any sequence of requests, the handler of \<open>GET /:user\<close> answers every query that
  reaches the database with 400.
\<close>

theorem tenant_lookup_always_fails:
  assumes law: "mongo_law E db" and "content_ok (db (outside s))"
    and empty: "db (outside s) ''views'' = []" and "served E a json s t"
    and free: "mutex t = Unlocked" and reply: "mongo_find E ''views'' (outside t) = (Ok es, w')"
  shows "QueryHandler_handle E (Some ps) t =
    (Ok (BadRequest, Some ''could not find it''), \<lparr>outside = w', mutex = Unlocked\<rparr>)"
proof -
  have "db (outside t) ''views'' = []"
    using served_store [OF law assms(4), of "[]"] assms(2) empty by (simp add: store_inv_def)
  then have "es = []" using mongo_find_db(2) [OF law reply] by simp
  then have "consent_based_view E i (outside t) = (Err ''could not find it'', w')" for i
    by (simp add: consent_based_view_def and_then_def reply)
  then show ?thesis
    by (simp add: QueryHandler_handle_def Let_def call_unlocked [OF free] bad_request_def)
qed

end
