(* ===== verification/Ca_Laws.thy ===== *)
theory Ca_Laws
  imports Tolla_Ca
begin

text \<open>
  What the certificates issued by the authority say. The documented behaviour of the OpenSSL
  functions that the authority calls is given over an abstract heap that maps C pointers to the
  objects behind them: \<open>alloc\<close> is the object a successful constructor returns, \<open>upd\<close> the object
  a successful setter changes and what it becomes. \<open>x509_law\<close> relates a C library to that
  heap. The theorems follow a certificate through every call of \<open>create_db_certificate\<close> and
  \<open>sign_certificate\<close>.

  A key pair is named by the \<open>RSA\<close> struct it was generated in. A signature is recorded with the
  key and the digest, and dropped by every later change to the certificate, since it no longer
  covers the content.
\<close>

subsection \<open>Objects\<close>

type_synonym entries = "(nid \<times> string) list"

record xcert =
  x_version :: int
  x_serial :: int
  x_subject :: entries
  x_issuer :: entries
  x_not_before :: "int option"
  x_not_after :: "int option"
  x_pubkey :: "cval option"
  x_exts :: "(nid \<times> string) list"
  x_sig :: "(cval \<times> string) option"

definition blank_cert :: xcert where
  "blank_cert = \<lparr>x_version = 0, x_serial = 0, x_subject = [], x_issuer = [], x_not_before = None,
     x_not_after = None, x_pubkey = None, x_exts = [], x_sig = None\<rparr>"

datatype obj =
    ORsa
  | OKey "cval option"
  | OBn int
  | OInt int
  | OTime int
  | OName entries
  | OExt nid string
  | OCert xcert
  | OReq cval cval
  | OText string
  | OMd string
  | OBio "byte list"

type_synonym heap = "cval \<Rightarrow> obj option"

text \<open>The PEM texts are parameters: of a certificate, of a private key, and of a request read.\<close>

record pem_texts =
  pem_cert :: "xcert \<Rightarrow> byte list"
  pem_key :: "cval \<Rightarrow> byte list"
  pem_req :: "byte list \<Rightarrow> entries \<times> cval"

definition txt2nid :: "string \<Rightarrow> nid" where
  "txt2nid s =
     (if s = ''C'' then COUNTRYNAME else if s = ''ST'' then STATEORPROVINCENAME
      else if s = ''O'' then ORGANIZATIONNAME else if s = ''CN'' then COMMONNAME
      else if s = ''basicConstraints'' then BASIC_CONSTRAINTS else 0)"

definition time_at :: "heap \<Rightarrow> cval \<Rightarrow> int option" where
  "time_at h p = (case h p of Some (OTime t) \<Rightarrow> Some t | _ \<Rightarrow> None)"

definition int_at :: "heap \<Rightarrow> cval \<Rightarrow> int" where
  "int_at h p = (case h p of Some (OInt n) \<Rightarrow> n | Some (OBn n) \<Rightarrow> n | _ \<Rightarrow> 0)"

definition name_at :: "heap \<Rightarrow> cval \<Rightarrow> entries" where
  "name_at h p = (case h p of Some (OName n) \<Rightarrow> n | _ \<Rightarrow> [])"

definition key_at :: "heap \<Rightarrow> cval \<Rightarrow> cval option" where
  "key_at h p = (case h p of Some (OKey k) \<Rightarrow> k | _ \<Rightarrow> None)"

definition ext_at :: "heap \<Rightarrow> cval \<Rightarrow> (nid \<times> string) list" where
  "ext_at h p = (case h p of Some (OExt n s) \<Rightarrow> [(n, s)] | _ \<Rightarrow> [])"

definition bytes_at :: "heap \<Rightarrow> cval \<Rightarrow> byte list" where
  "bytes_at h p = (case h p of Some (OBio bs) \<Rightarrow> bs | _ \<Rightarrow> [])"

definition md_at :: "heap \<Rightarrow> cval \<Rightarrow> string" where
  "md_at h p = (case h p of Some (OMd s) \<Rightarrow> s | _ \<Rightarrow> '''')"

lemmas at_defs = time_at_def int_at_def name_at_def key_at_def ext_at_def bytes_at_def md_at_def

subsection \<open>The documented behaviour\<close>

definition alloc :: "string \<Rightarrow> cval list \<Rightarrow> heap \<Rightarrow> obj option" where
  "alloc f args h =
     (if f = ''RSA_new'' then Some ORsa
      else if f = ''BN_new'' then Some (OBn 0)
      else if f = ''BN_to_ASN1_INTEGER'' then Some (OInt (int_at h (args ! 0)))
      else if f = ''EVP_PKEY_new'' then Some (OKey None)
      else if f = ''X509_new'' then Some (OCert blank_cert)
      else if f = ''X509_NAME_new'' then Some (OName [])
      else if f = ''X509_gmtime_adj'' then Some (OTime (c_int (args ! 1)))
      else if f = ''X509V3_EXT_nconf'' then Some (OExt (txt2nid (c_text (args ! 2))) (c_text (args ! 3)))
      else if f = ''X509V3_EXT_nconf_nid'' then Some (OExt (c_int (args ! 2)) (c_text (args ! 3)))
      else if f = ''BIO_new'' then Some (OBio [])
      else if f = ''BIO_new_mem_buf'' then Some (OBio (c_bytes (args ! 0)))
      else if f = ''X509_REQ_get_pubkey'' then
        (case h (args ! 0) of Some (OReq _ k) \<Rightarrow> Some (OKey (Some k)) | _ \<Rightarrow> None)
      else None)"

definition cert_upd :: "heap \<Rightarrow> cval \<Rightarrow> (xcert \<Rightarrow> xcert) \<Rightarrow> (cval \<times> obj) option" where
  "cert_upd h b g =
     (case h b of Some (OCert c) \<Rightarrow> Some (b, OCert ((g c)\<lparr>x_sig := None\<rparr>)) | _ \<Rightarrow> None)"

definition upd :: "pem_texts \<Rightarrow> string \<Rightarrow> cval list \<Rightarrow> heap \<Rightarrow> (cval \<times> obj) option" where
  "upd pem f args h =
     (let p = args ! 0; q = args ! 1 in
      if f = ''BN_set_word'' then Some (p, OBn (c_int q))
      else if f = ''RSA_generate_key_ex'' then Some (p, ORsa)
      else if f = ''EVP_PKEY_assign'' then Some (p, OKey (Some (args ! 2)))
      else if f = ''X509_set_version'' then cert_upd h p (\<lambda>c. c\<lparr>x_version := c_int q\<rparr>)
      else if f = ''X509_set_serialNumber'' then cert_upd h p (\<lambda>c. c\<lparr>x_serial := int_at h q\<rparr>)
      else if f = ''X509_set_notBefore'' then cert_upd h p (\<lambda>c. c\<lparr>x_not_before := time_at h q\<rparr>)
      else if f = ''X509_set_notAfter'' then cert_upd h p (\<lambda>c. c\<lparr>x_not_after := time_at h q\<rparr>)
      else if f = ''X509_set_subject_name'' then cert_upd h p (\<lambda>c. c\<lparr>x_subject := name_at h q\<rparr>)
      else if f = ''X509_set_issuer_name'' then cert_upd h p (\<lambda>c. c\<lparr>x_issuer := name_at h q\<rparr>)
      else if f = ''X509_set_pubkey'' then cert_upd h p (\<lambda>c. c\<lparr>x_pubkey := key_at h q\<rparr>)
      else if f = ''X509_add_ext'' then cert_upd h p (\<lambda>c. c\<lparr>x_exts := x_exts c @ ext_at h q\<rparr>)
      else if f = ''X509_sign'' then
        (case h p of
           Some (OCert c) \<Rightarrow>
             Some (p, OCert (c\<lparr>x_sig := map_option (\<lambda>k. (k, md_at h (args ! 2))) (key_at h q)\<rparr>))
         | _ \<Rightarrow> None)
      else if f = ''X509_NAME_add_entry_by_txt'' then
        Some (p, OName (name_at h p @ [(txt2nid (c_text q), c_text (args ! 3))]))
      else if f = ''X509_NAME_add_entry_by_NID'' then
        Some (p, OName (name_at h p @ [(c_int q, c_text (args ! 3))]))
      else if f = ''PEM_write_bio_X509'' then
        (case h q of Some (OCert c) \<Rightarrow> Some (p, OBio (bytes_at h p @ pem_cert pem c)) | _ \<Rightarrow> None)
      else if f = ''PEM_write_bio_PKCS8PrivateKey'' then
        (case h q of Some (OKey (Some k)) \<Rightarrow> Some (p, OBio (bytes_at h p @ pem_key pem k)) | _ \<Rightarrow> None)
      else None)"

text \<open>
  Functions that only read: the two static method tables, the content of a memory BIO, and the
  way into the subject of a request. A look-up of an entry starts behind the given index and
  returns -1 when there is none.
\<close>

definition index_from :: "entries \<Rightarrow> nid \<Rightarrow> int \<Rightarrow> int" where
  "index_from es n start =
     (case List.find (\<lambda>i. fst (es ! i) = n) [nat (start + 1) ..< length es] of
        Some i \<Rightarrow> int i | None \<Rightarrow> -1)"

definition reads :: "string \<Rightarrow> bool" where
  "reads f \<longleftrightarrow> f \<in> {''init'', ''BIO_s_mem'', ''EVP_sha256'', ''BIO_ctrl'', ''X509V3_set_ctx'',
     ''X509_REQ_get_subject_name'', ''X509_NAME_get_index_by_NID'', ''X509_NAME_get_entry'',
     ''X509_NAME_ENTRY_get_data'', ''ASN1_STRING_to_UTF8''}"

definition read_result :: "string \<Rightarrow> cval list \<Rightarrow> heap \<Rightarrow> cret \<Rightarrow> bool" where
  "read_result f args h res =
     (case res of (r, os) \<Rightarrow>
        let p = args ! 0 in
        if f = ''EVP_sha256'' then h r = Some (OMd ''sha256'')
        else if f = ''BIO_ctrl'' then
          c_int r = int (length (bytes_at h p)) \<and> c_bytes (out os 0) = bytes_at h p
        else if f = ''X509_REQ_get_subject_name'' then
          (case h p of Some (OReq n _) \<Rightarrow> r = n \<or> r = CNull | _ \<Rightarrow> True)
        else if f = ''X509_NAME_get_index_by_NID'' then
          c_int r = index_from (name_at h p) (c_int (args ! 1)) (c_int (args ! 2))
        else if f = ''X509_NAME_get_entry'' then
          nat (c_int (args ! 1)) < length (name_at h p) \<longrightarrow>
          r = CNull \<or> h r = Some (OText (snd (name_at h p ! nat (c_int (args ! 1)))))
        else if f = ''X509_NAME_ENTRY_get_data'' then h r = h p
        else if f = ''ASN1_STRING_to_UTF8'' then
          0 \<le> c_int r \<longrightarrow> (case h p of Some (OText s) \<Rightarrow> out os 0 = CStr s | _ \<Rightarrow> True)
        else True)"

text \<open>Everything but \<open>b\<close> that was on the heap is still there, unchanged.\<close>

definition only :: "cval \<Rightarrow> heap \<Rightarrow> heap \<Rightarrow> bool" where
  "only b h h' \<longleftrightarrow> (\<forall>q. q \<noteq> b \<longrightarrow> h q \<noteq> None \<longrightarrow> h' q = h q)"

text \<open>Reading a request makes the request and its subject; nothing that existed changes.\<close>

definition request_read :: "pem_texts \<Rightarrow> cval list \<Rightarrow> cval \<Rightarrow> heap \<Rightarrow> heap \<Rightarrow> bool" where
  "request_read pem args r h h' \<longleftrightarrow>
     (\<exists>n. h r = None \<and> h n = None \<and> only CNull h h' \<and> h CNull = None \<and>
          h' r = Some (OReq n (snd (pem_req pem (bytes_at h (args ! 0))))) \<and>
          h' n = Some (OName (fst (pem_req pem (bytes_at h (args ! 0))))))"

definition x509_law :: "'w ffi \<Rightarrow> ('w \<Rightarrow> heap) \<Rightarrow> pem_texts \<Rightarrow> bool" where
  "x509_law F H pem \<longleftrightarrow>
     (\<forall>f args w r os w'. F f args w = ((r, os), w') \<longrightarrow>
        (\<forall>x. alloc f args (H w) = Some x \<longrightarrow> r \<noteq> CNull \<longrightarrow> H w r = None \<and> H w' = (H w)(r \<mapsto> x)) \<and>
        (\<forall>p x. upd pem f args (H w) = Some (p, x) \<longrightarrow> 0 < c_int r \<longrightarrow> H w' = (H w)(p \<mapsto> x)) \<and>
        (reads f \<longrightarrow> H w' = H w \<and> read_result f args (H w) (r, os)) \<and>
        (f = ''PEM_read_bio_X509_REQ'' \<longrightarrow> r \<noteq> CNull \<longrightarrow> request_read pem args r (H w) (H w')))"

subsection \<open>One call\<close>

lemma onlyD: "only b h h' \<Longrightarrow> h q = Some x \<Longrightarrow> q \<noteq> b \<Longrightarrow> h' q = Some x"
  by (simp add: only_def)

lemma only_refl [simp]: "only b h h"
  by (simp add: only_def)

lemma only_trans: "only b h h1 \<Longrightarrow> only b h1 h2 \<Longrightarrow> only b h h2"
  by (auto simp: only_def)

lemma only_upd [simp]: "only b h (h(b \<mapsto> x))"
  by (simp add: only_def)

lemma only_fresh: "h p = None \<Longrightarrow> only b h (h(p \<mapsto> x))"
  by (auto simp: only_def)

text \<open>A change to an object that was not there before is no change to the old heap.\<close>

lemma only_new: "only p h1 h2 \<Longrightarrow> h p = None \<Longrightarrow> only b h h1 \<Longrightarrow> only b h h2"
  unfolding only_def
proof (intro allI impI)
  fix q
  assume new: "\<forall>q. q \<noteq> p \<longrightarrow> h1 q \<noteq> None \<longrightarrow> h2 q = h1 q" "h p = None"
    and old: "\<forall>q. q \<noteq> b \<longrightarrow> h q \<noteq> None \<longrightarrow> h1 q = h q" and q: "q \<noteq> b" "h q \<noteq> None"
  then have "q \<noteq> p" "h1 q = h q" by auto
  with new q show "h2 q = h q" by simp
qed

lemma ccall_result: "ccall F f args w = (Ok (r, os), w') \<longleftrightarrow> F f args w = ((r, os), w')"
  by (auto simp: ccall_def split: prod.splits)

lemma ErrorStack_get_throw_not_Ok: "and_then (ErrorStack_get F) throw w \<noteq> (Ok x, w')"
  by (auto simp: and_then_Ok_iff)

lemma call_p_Ok:
  assumes "call_p F f args w = (Ok p, w')"
  obtains os where "F f args w = ((p, os), w')" "p \<noteq> CNull"
proof -
  obtain r os w1 where call: "F f args w = ((r, os), w1)" by (metis prod.exhaust)
  with assms have "cvt_p F r w1 = (Ok p, w')"
    by (simp add: call_p_def and_then_def ccall_def)
  then have "r = p" "w1 = w'" "p \<noteq> CNull"
    by (auto simp: ErrorStack_get_throw_not_Ok cvt_p_def split: if_splits)
  with that call show ?thesis by simp
qed

lemma call_i_Ok:
  assumes "call_i F f args w = (Ok u, w')"
  obtains r os where "F f args w = ((r, os), w')" "0 < c_int r"
proof -
  obtain r os w1 where call: "F f args w = ((r, os), w1)" by (metis prod.exhaust)
  with assms have "and_then (cvt F r) (\<lambda>_. ret ()) w1 = (Ok u, w')"
    by (simp add: call_i_def and_then_def [of "ccall F f args"] ccall_def)
  then have "w1 = w'" "0 < c_int r"
    by (auto simp: ErrorStack_get_throw_not_Ok cvt_def and_then_Ok_iff split: if_splits)
  with that call show ?thesis by simp
qed

lemma call_p_alloc:
  assumes "x509_law F H pem" "call_p F f args w = (Ok p, w')" "alloc f args (H w) = Some x"
  shows "H w p = None" "H w' = (H w)(p \<mapsto> x)"
proof -
  obtain os where "F f args w = ((p, os), w')" "p \<noteq> CNull" using call_p_Ok [OF assms(2)] .
  with assms show "H w p = None" "H w' = (H w)(p \<mapsto> x)" unfolding x509_law_def by blast+
qed

lemma call_i_upd:
  assumes "x509_law F H pem" "call_i F f args w = (Ok u, w')" "upd pem f args (H w) = Some (p, x)"
  shows "H w' = (H w)(p \<mapsto> x)"
proof -
  obtain r os where "F f args w = ((r, os), w')" "0 < c_int r" using call_i_Ok [OF assms(2)] .
  with assms show ?thesis unfolding x509_law_def by blast
qed

lemma ccall_reads:
  assumes "x509_law F H pem" "ccall F f args w = (Ok (r, os), w')" "reads f"
  shows "H w' = H w" "read_result f args (H w) (r, os)"
  using assms unfolding x509_law_def ccall_result by blast+

lemma init_heap:
  assumes "x509_law F H pem" "init F w = (Ok u, w')"
  shows "H w' = H w"
  using assms(2) ccall_reads(1) [OF assms(1), of "''init''"]
  by (auto simp: init_def reads_def elim!: and_then_OkE)

lemma to_string_err_Ok_iff [simp]: "to_string_err F m w = (Ok x, w') \<longleftrightarrow> m w = (Ok x, w')"
  by (auto simp: to_string_err_def on_err_def and_then_Ok_iff split: prod.splits outcome.splits)

lemma alloc_simps [simp]:
  "alloc ''RSA_new'' args h = Some ORsa"
  "alloc ''BN_new'' args h = Some (OBn 0)"
  "alloc ''BN_to_ASN1_INTEGER'' args h = Some (OInt (int_at h (args ! 0)))"
  "alloc ''EVP_PKEY_new'' args h = Some (OKey None)"
  "alloc ''X509_new'' args h = Some (OCert blank_cert)"
  "alloc ''X509_NAME_new'' args h = Some (OName [])"
  "alloc ''X509_gmtime_adj'' args h = Some (OTime (c_int (args ! 1)))"
  "alloc ''X509V3_EXT_nconf'' args h = Some (OExt (txt2nid (c_text (args ! 2))) (c_text (args ! 3)))"
  "alloc ''X509V3_EXT_nconf_nid'' args h = Some (OExt (c_int (args ! 2)) (c_text (args ! 3)))"
  "alloc ''BIO_new'' args h = Some (OBio [])"
  "alloc ''BIO_new_mem_buf'' args h = Some (OBio (c_bytes (args ! 0)))"
  "h (args ! 0) = Some (OReq n k) \<Longrightarrow> alloc ''X509_REQ_get_pubkey'' args h = Some (OKey (Some k))"
  by (simp_all add: alloc_def)

lemma upd_simps [simp]:
  "upd pem ''BN_set_word'' args h = Some (args ! 0, OBn (c_int (args ! 1)))"
  "upd pem ''RSA_generate_key_ex'' args h = Some (args ! 0, ORsa)"
  "upd pem ''EVP_PKEY_assign'' args h = Some (args ! 0, OKey (Some (args ! 2)))"
  "upd pem ''X509_NAME_add_entry_by_txt'' args h =
     Some (args ! 0, OName (name_at h (args ! 0) @ [(txt2nid (c_text (args ! 1)), c_text (args ! 3))]))"
  "upd pem ''X509_NAME_add_entry_by_NID'' args h =
     Some (args ! 0, OName (name_at h (args ! 0) @ [(c_int (args ! 1), c_text (args ! 3))]))"
  by (simp_all add: upd_def Let_def)

lemma upd_cert_simps [simp]:
  assumes "h (args ! 0) = Some (OCert c)"
  shows
    "upd pem ''X509_set_version'' args h =
       Some (args ! 0, OCert (c\<lparr>x_version := c_int (args ! 1), x_sig := None\<rparr>))"
    "upd pem ''X509_set_serialNumber'' args h =
       Some (args ! 0, OCert (c\<lparr>x_serial := int_at h (args ! 1), x_sig := None\<rparr>))"
    "upd pem ''X509_set_notBefore'' args h =
       Some (args ! 0, OCert (c\<lparr>x_not_before := time_at h (args ! 1), x_sig := None\<rparr>))"
    "upd pem ''X509_set_notAfter'' args h =
       Some (args ! 0, OCert (c\<lparr>x_not_after := time_at h (args ! 1), x_sig := None\<rparr>))"
    "upd pem ''X509_set_subject_name'' args h =
       Some (args ! 0, OCert (c\<lparr>x_subject := name_at h (args ! 1), x_sig := None\<rparr>))"
    "upd pem ''X509_set_issuer_name'' args h =
       Some (args ! 0, OCert (c\<lparr>x_issuer := name_at h (args ! 1), x_sig := None\<rparr>))"
    "upd pem ''X509_set_pubkey'' args h =
       Some (args ! 0, OCert (c\<lparr>x_pubkey := key_at h (args ! 1), x_sig := None\<rparr>))"
    "upd pem ''X509_add_ext'' args h =
       Some (args ! 0, OCert (c\<lparr>x_exts := x_exts c @ ext_at h (args ! 1), x_sig := None\<rparr>))"
    "upd pem ''X509_sign'' args h =
       Some (args ! 0, OCert (c\<lparr>x_sig :=
         map_option (\<lambda>k. (k, md_at h (args ! 2))) (key_at h (args ! 1))\<rparr>))"
  using assms by (simp_all add: upd_def Let_def cert_upd_def)

lemma init_call_p:
  assumes law: "x509_law F H pem"
    and run: "and_then (init F) (\<lambda>_. call_p F f args) w = (Ok p, w')"
    and "alloc f args (H w) = Some x"
  shows "H w p = None \<and> H w' = (H w)(p \<mapsto> x)"
proof -
  from run obtain w1 where init: "init F w = (Ok () :: (error_stack, unit) outcome, w1)"
    and "call_p F f args w1 = (Ok p, w')"
    by (auto simp: and_then_Ok_iff)
  then show ?thesis
    using call_p_alloc [OF law, of f args w1 p w'] init_heap [OF law init] assms(3) by simp
qed

subsection \<open>The wrappers\<close>

lemma constructors_heap:
  assumes law: "x509_law F H pem"
  shows
    "X509Builder_new F w = (Ok p, w') \<Longrightarrow> H w p = None \<and> H w' = (H w)(p \<mapsto> OCert blank_cert)"
    "X509NameBuilder_new F w = (Ok p, w') \<Longrightarrow> H w p = None \<and> H w' = (H w)(p \<mapsto> OName [])"
    "Asn1Time_days_from_now F d w = (Ok p, w') \<Longrightarrow>
       H w p = None \<and> H w' = (H w)(p \<mapsto> OTime (sint ((ucast d :: u64) * 60 * 60 * 24)))"
    "BigNum_new F w = (Ok p, w') \<Longrightarrow> H w p = None \<and> H w' = (H w)(p \<mapsto> OBn 0)"
    "BigNum_to_asn1_integer F b w = (Ok p, w') \<Longrightarrow>
       H w p = None \<and> H w' = (H w)(p \<mapsto> OInt (int_at (H w) b))"
  unfolding X509Builder_new_def X509NameBuilder_new_def Asn1Time_days_from_now_def
    Asn1Time_from_period_def BigNum_new_def BigNum_to_asn1_integer_def
  using init_call_p [OF law] call_p_alloc [OF law] by fastforce+

lemma extension_heap:
  assumes law: "x509_law F H pem"
  shows
    "X509Extension_new_nid F conf ctx n v w = (Ok p, w') \<Longrightarrow>
       H w p = None \<and> H w' = (H w)(p \<mapsto> OExt n v)"
    "X509Extension_new F conf ctx t v w = (Ok p, w') \<Longrightarrow>
       H w p = None \<and> H w' = (H w)(p \<mapsto> OExt (txt2nid t) v)"
  unfolding X509Extension_new_nid_def X509Extension_new_def cstring_new_def
  by (auto split: if_splits dest!: init_call_p [OF law])

lemma grow_upd: "h p = None \<Longrightarrow> h \<subseteq>\<^sub>m h1 \<Longrightarrow> h \<subseteq>\<^sub>m h1(p \<mapsto> x)"
  by (auto simp: map_le_def dom_def)

lemma grow_Some: "h q = Some x \<Longrightarrow> h \<subseteq>\<^sub>m h1 \<Longrightarrow> h1 q = Some x"
  by (force simp: map_le_def dom_def)

lemma grow_only: "h \<subseteq>\<^sub>m h1 \<Longrightarrow> only b h h1"
  by (auto simp: map_le_def dom_def only_def)

lemma only_absent:
  assumes "only b h h'" "h b = None"
  shows "h \<subseteq>\<^sub>m h'"
  unfolding map_le_def
proof
  fix q assume "q \<in> dom h"
  with assms show "h q = h' q" by (cases "q = b") (auto simp: only_def)
qed

lemma BigNum_from_u32_heap:
  assumes law: "x509_law F H pem" and run: "BigNum_from_u32 F n w = (Ok p, w')"
  shows "H w p = None \<and> H w' p = Some (OBn (uint n)) \<and> H w \<subseteq>\<^sub>m H w'"
proof -
  from run obtain w1 where new: "BigNum_new F w = (Ok p, w1)"
    and set: "call_i F ''BN_set_word'' [p, CInt (uint n)] w1 = (Ok (), w')"
    by (auto simp: BigNum_from_u32_def and_then_Ok_iff)
  have "H w' = (H w1)(p \<mapsto> OBn (uint n))" using call_i_upd [OF law set] by simp
  then show ?thesis using constructors_heap(4) [OF law new] by (simp add: grow_upd)
qed

lemma Rsa_generate_heap:
  assumes law: "x509_law F H pem" and run: "Rsa_generate F bits w = (Ok p, w')"
  shows "H w p = None \<and> H w' p = Some ORsa \<and> H w \<subseteq>\<^sub>m H w'"
proof -
  from run obtain w1 w2 w3 e where init: "init F w = (Ok () :: (error_stack, unit) outcome, w1)"
    and new: "call_p F ''RSA_new'' [] w1 = (Ok p, w2)" and e: "BigNum_from_u32 F RSA_F4 w2 = (Ok e, w3)"
    and gen: "call_i F ''RSA_generate_key_ex'' [p, CInt (sint bits), e, CNull] w3 = (Ok (), w')"
    by (auto simp: Rsa_generate_def and_then_Ok_iff)
  have 1: "H w1 = H w" using init_heap [OF law init] .
  have 2: "H w1 p = None" "H w2 = (H w1)(p \<mapsto> ORsa)" using call_p_alloc [OF law new] by simp_all
  have 3: "H w2 \<subseteq>\<^sub>m H w3" using BigNum_from_u32_heap [OF law e] by simp
  have 4: "H w' = (H w3)(p \<mapsto> ORsa)" using call_i_upd [OF law gen] by simp
  have "H w \<subseteq>\<^sub>m H w3" using 1 2 3 by (metis grow_upd map_le_refl map_le_trans)
  with 1 2 4 show ?thesis by (simp add: grow_upd)
qed

lemma PKey_from_rsa_heap:
  assumes law: "x509_law F H pem" and run: "PKey_from_rsa F rsa w = (Ok p, w')"
  shows "H w p = None \<and> H w' p = Some (OKey (Some rsa)) \<and> H w \<subseteq>\<^sub>m H w'"
proof -
  from run obtain w1 where new: "call_p F ''EVP_PKEY_new'' [] w = (Ok p, w1)"
    and set: "call_i F ''EVP_PKEY_assign'' [p, CInt EVP_PKEY_RSA, rsa] w1 = (Ok (), w')"
    by (auto simp: PKey_from_rsa_def and_then_Ok_iff)
  have "H w p = None" "H w1 = (H w)(p \<mapsto> OKey None)" using call_p_alloc [OF law new] by simp_all
  then show ?thesis using call_i_upd [OF law set] by (simp add: grow_upd)
qed

lemma append_entry_heap:
  assumes law: "x509_law F H pem" and name: "H w p = Some (OName es)"
  shows "X509NameBuilder_append_entry_by_text F p f v w = (Ok (), w') \<Longrightarrow>
      H w' = (H w)(p \<mapsto> OName (es @ [(txt2nid f, v)]))"
    "X509NameBuilder_append_entry_by_nid F p n v w = (Ok (), w') \<Longrightarrow>
      H w' = (H w)(p \<mapsto> OName (es @ [(n, v)]))"
  unfolding X509NameBuilder_append_entry_by_text_def X509NameBuilder_append_entry_by_nid_def
    cstring_new_def assert_that_def
  using name by (auto simp: name_at_def split: if_splits dest!: call_i_upd [OF law])

definition ca_entries :: "string \<Rightarrow> entries" where
  "ca_entries cn =
     [(COUNTRYNAME, ''NO''), (STATEORPROVINCENAME, ''TR''), (ORGANIZATIONNAME, ''IFI''), (COMMONNAME, cn)]"

lemma four_entries_heap:
  assumes law: "x509_law F H pem"
    and new: "X509NameBuilder_new F w = (Ok p, w1)"
    and "X509NameBuilder_append_entry_by_text F p ''C'' ''NO'' w1 = (Ok (), w2)"
    and "X509NameBuilder_append_entry_by_text F p ''ST'' ''TR'' w2 = (Ok (), w3)"
    and "X509NameBuilder_append_entry_by_text F p ''O'' ''IFI'' w3 = (Ok (), w4)"
    and "X509NameBuilder_append_entry_by_text F p ''CN'' cn w4 = (Ok (), w')"
  shows "H w p = None \<and> H w' = (H w)(p \<mapsto> OName (ca_entries cn))"
proof -
  note entry = append_entry_heap(1) [OF law]
  have 1: "H w p = None" "H w1 = (H w)(p \<mapsto> OName [])"
    using constructors_heap(2) [OF law new] by auto
  then have 2: "H w2 = (H w)(p \<mapsto> OName [(txt2nid ''C'', ''NO'')])"
    using entry [OF _ assms(3)] by simp
  then have 3: "H w3 = (H w)(p \<mapsto> OName [(txt2nid ''C'', ''NO''), (txt2nid ''ST'', ''TR'')])"
    using entry [OF _ assms(4)] by simp
  then have 4: "H w4 = (H w)(p \<mapsto>
      OName [(txt2nid ''C'', ''NO''), (txt2nid ''ST'', ''TR''), (txt2nid ''O'', ''IFI'')])"
    using entry [OF _ assms(5)] by simp
  then show ?thesis
    using 1 entry [OF _ assms(6)] by (simp add: ca_entries_def txt2nid_def)
qed

lemma ca_name_heap:
  assumes law: "x509_law F H pem" and run: "ca_name F w = (Ok p, w')"
  shows "H w p = None \<and> H w' = (H w)(p \<mapsto> OName (ca_entries ''localhost''))"
  using run four_entries_heap [OF law]
  by (auto simp: ca_name_def elim!: and_then_OkE)

lemma setters_heap:
  assumes law: "x509_law F H pem" and cert: "H w b = Some (OCert c)"
  shows
    "X509Builder_set_version F b v w = (Ok (), w') \<Longrightarrow>
       H w' = (H w)(b \<mapsto> OCert (c\<lparr>x_version := v, x_sig := None\<rparr>))"
    "X509Builder_set_serial_number F b q w = (Ok (), w') \<Longrightarrow>
       H w' = (H w)(b \<mapsto> OCert (c\<lparr>x_serial := int_at (H w) q, x_sig := None\<rparr>))"
    "X509Builder_set_not_before F b q w = (Ok (), w') \<Longrightarrow>
       H w' = (H w)(b \<mapsto> OCert (c\<lparr>x_not_before := time_at (H w) q, x_sig := None\<rparr>))"
    "X509Builder_set_not_after F b q w = (Ok (), w') \<Longrightarrow>
       H w' = (H w)(b \<mapsto> OCert (c\<lparr>x_not_after := time_at (H w) q, x_sig := None\<rparr>))"
    "X509Builder_set_subject_name F b q w = (Ok (), w') \<Longrightarrow>
       H w' = (H w)(b \<mapsto> OCert (c\<lparr>x_subject := name_at (H w) q, x_sig := None\<rparr>))"
    "X509Builder_set_issuer_name F b q w = (Ok (), w') \<Longrightarrow>
       H w' = (H w)(b \<mapsto> OCert (c\<lparr>x_issuer := name_at (H w) q, x_sig := None\<rparr>))"
    "X509Builder_set_pubkey F b q w = (Ok (), w') \<Longrightarrow>
       H w' = (H w)(b \<mapsto> OCert (c\<lparr>x_pubkey := key_at (H w) q, x_sig := None\<rparr>))"
    "X509Builder_append_extension F b q w = (Ok (), w') \<Longrightarrow>
       H w' = (H w)(b \<mapsto> OCert (c\<lparr>x_exts := x_exts c @ ext_at (H w) q, x_sig := None\<rparr>))"
    "X509Builder_sign F b q md w = (Ok (), w') \<Longrightarrow>
       H w' = (H w)(b \<mapsto> OCert (c\<lparr>x_sig := map_option (\<lambda>k. (k, md_at (H w) md)) (key_at (H w) q)\<rparr>))"
  unfolding X509Builder_set_version_def X509Builder_set_serial_number_def
    X509Builder_set_not_before_def X509Builder_set_not_after_def X509Builder_set_subject_name_def
    X509Builder_set_issuer_name_def X509Builder_set_pubkey_def X509Builder_append_extension_def
    X509Builder_sign_def
  using cert by (auto dest!: call_i_upd [OF law])

lemma sha256_heap:
  assumes "x509_law F H pem" "MessageDigest_sha256 F w = (Ok m, w')"
  shows "H w' = H w \<and> H w m = Some (OMd ''sha256'')"
  using assms(2) ccall_reads [OF assms(1), of "''EVP_sha256''"]
  by (auto simp: MessageDigest_sha256_def reads_def read_result_def elim!: and_then_OkE)

lemma days_from_now_heap:
  assumes law: "x509_law F H pem"
  shows "Asn1Time_days_from_now F 365 w = (Ok p, w') \<Longrightarrow>
      H w p = None \<and> H w' = (H w)(p \<mapsto> OTime 31536000)"
    "Asn1Time_days_from_now F 0 w = (Ok p, w') \<Longrightarrow> H w p = None \<and> H w' = (H w)(p \<mapsto> OTime 0)"
  using constructors_heap(3) [OF law] by fastforce+

text \<open>The validity of every certificate: from now, for 365 days.\<close>

lemma set_validity_heap:
  assumes law: "x509_law F H pem" and cert: "H w b = Some (OCert c)"
    and run: "set_validity F b w = (Ok (), w')"
  shows "H w' b = Some (OCert (c\<lparr>x_not_after := Some 31536000, x_not_before := Some 0, x_sig := None\<rparr>))
    \<and> only b (H w) (H w')"
proof -
  from run obtain w1 w2 w3 t u where 1: "Asn1Time_days_from_now F 365 w = (Ok t, w1)"
    and 2: "X509Builder_set_not_after F b t w1 = (Ok (), w2)"
    and 3: "Asn1Time_days_from_now F 0 w2 = (Ok u, w3)"
    and 4: "X509Builder_set_not_before F b u w3 = (Ok (), w')"
    by (auto simp: set_validity_def elim!: and_then_OkE)
  have h1: "H w t = None" "H w1 = (H w)(t \<mapsto> OTime 31536000)"
    using days_from_now_heap(1) [OF law 1] by simp_all
  have b1: "H w1 b = Some (OCert c)" and t: "time_at (H w1) t = Some 31536000"
    using h1 cert by (auto simp: time_at_def)
  have h2: "H w2 = (H w1)(b \<mapsto> OCert (c\<lparr>x_not_after := Some 31536000, x_sig := None\<rparr>))"
    using setters_heap(4) [OF law b1 2] t by simp
  have h3: "H w2 u = None" "H w3 = (H w2)(u \<mapsto> OTime 0)"
    using days_from_now_heap(2) [OF law 3] by simp_all
  have b3: "H w3 b = Some (OCert (c\<lparr>x_not_after := Some 31536000, x_sig := None\<rparr>))"
    and u: "time_at (H w3) u = Some 0"
    using h3 h2 by (auto simp: time_at_def)
  have h4: "H w' = (H w3)(b \<mapsto> OCert (c\<lparr>x_not_after := Some 31536000, x_not_before := Some 0,
      x_sig := None\<rparr>))"
    using setters_heap(3) [OF law b3 4] u by simp
  have "only b (H w) (H w1)" using h1 by (simp add: only_fresh)
  moreover have "only b (H w1) (H w2)" using h2 by simp
  moreover have "only b (H w2) (H w3)" using h3 by (simp add: only_fresh)
  moreover have "only b (H w3) (H w')" using h4 by simp
  ultimately show ?thesis using h4 by (metis fun_upd_same only_trans)
qed

subsection \<open>PEM output\<close>

lemma MemBio_heap:
  assumes law: "x509_law F H pem"
  shows "MemBio_new F w = (Ok p, w') \<Longrightarrow> H w p = None \<and> H w' = (H w)(p \<mapsto> OBio [])"
    "MemBio_get_buf F p w = (Ok bs, w') \<Longrightarrow> bs = bytes_at (H w) p \<and> H w' = H w"
proof -
  assume "MemBio_new F w = (Ok p, w')"
  then obtain w1 w2 m os where init: "init F w = (Ok () :: (error_stack, unit) outcome, w1)"
    and mem: "ccall F ''BIO_s_mem'' [] w1 = (Ok (m, os) :: (error_stack, cret) outcome, w2)"
    and new: "call_p F ''BIO_new'' [m] w2 = (Ok p, w')"
    by (auto simp: MemBio_new_def and_then_Ok_iff)
  then show "H w p = None \<and> H w' = (H w)(p \<mapsto> OBio [])"
    using call_p_alloc [OF law new] init_heap [OF law init] ccall_reads(1) [OF law mem]
    by (simp add: reads_def)
next
  assume "MemBio_get_buf F p w = (Ok bs, w')"
  then obtain r os where call: "F ''BIO_ctrl'' [p, CInt BIO_CTRL_INFO, CInt 0] w = ((r, os), w')"
    and bs: "bs = take (nat (c_int r)) (c_bytes (out os 0))"
    by (auto simp: MemBio_get_buf_def and_then_Ok_iff ccall_result)
  have "reads ''BIO_ctrl''" by (simp add: reads_def)
  with law call have "H w' = H w"
    "read_result ''BIO_ctrl'' [p, CInt BIO_CTRL_INFO, CInt 0] (H w) (r, os)"
    unfolding x509_law_def by blast+
  then show "bs = bytes_at (H w) p \<and> H w' = H w"
    by (simp add: bs read_result_def)
qed

lemma pem_written:
  assumes law: "x509_law F H pem"
    and run: "and_then (MemBio_new F) (\<lambda>bio. and_then (call_i F f (bio # args)) (\<lambda>_. MemBio_get_buf F bio)) w
      = (Ok bs, w')"
    and upd: "\<And>bio w1. H w1 = (H w)(bio \<mapsto> OBio []) \<Longrightarrow> H w bio = None \<Longrightarrow>
      upd pem f (bio # args) (H w1) = Some (bio, OBio text)"
  shows "bs = text \<and> H w \<subseteq>\<^sub>m H w'"
proof -
  from run obtain bio w1 w2 where new: "MemBio_new F w = (Ok bio, w1)"
    and wr: "call_i F f (bio # args) w1 = (Ok (), w2)" and buf: "MemBio_get_buf F bio w2 = (Ok bs :: (error_stack, _) outcome, w')"
    by (auto simp: and_then_Ok_iff)
  have h1: "H w bio = None" "H w1 = (H w)(bio \<mapsto> OBio [])" using MemBio_heap(1) [OF law new] by simp_all
  have h2: "H w2 = (H w1)(bio \<mapsto> OBio text)" using call_i_upd [OF law wr upd [OF h1(2,1)]] .
  show ?thesis
    using MemBio_heap(2) [OF law buf] h1 h2 by (simp add: bytes_at_def grow_upd)
qed

lemma to_pem_heap:
  assumes law: "x509_law F H pem" and cert: "H w b = Some (OCert c)"
    and run: "X509_to_pem F b w = (Ok bs, w')"
  shows "bs = pem_cert pem c \<and> H w \<subseteq>\<^sub>m H w'"
  using run unfolding X509_to_pem_def to_pem_def
  by (rule pem_written [OF law]) (use cert in \<open>auto simp: upd_def bytes_at_def\<close>)

lemma private_key_to_pem_heap:
  assumes law: "x509_law F H pem" and key: "H w p = Some (OKey (Some k))"
    and run: "private_key_to_pem F p w = (Ok bs, w')"
  shows "bs = pem_key pem k \<and> H w \<subseteq>\<^sub>m H w'"
  using run unfolding private_key_to_pem_def
  by (rule pem_written [OF law]) (use key in \<open>auto simp: upd_def bytes_at_def\<close>)

subsection \<open>A certificate under construction\<close>

text \<open>\<open>building h b c ks\<close>: behind \<open>b\<close> is the certificate \<open>c\<close>, and the keys \<open>ks\<close> are in place.\<close>

definition building :: "heap \<Rightarrow> cval \<Rightarrow> xcert \<Rightarrow> (cval \<times> cval) set \<Rightarrow> bool" where
  "building h b c ks \<longleftrightarrow> h b = Some (OCert c) \<and> (\<forall>p k. (p, k) \<in> ks \<longrightarrow> h p = Some (OKey (Some k)))"

lemma buildingD: "building h b c ks \<Longrightarrow> h b = Some (OCert c)"
  "building h b c ks \<Longrightarrow> (p, k) \<in> ks \<Longrightarrow> h p = Some (OKey (Some k))"
  by (auto simp: building_def)

lemma building_only:
  assumes "building h b c ks" "only b h h'" "h' b = Some (OCert c')"
  shows "building h' b c' ks"
proof -
  have "h' p = Some (OKey (Some k))" if "(p, k) \<in> ks" for p k
  proof (rule onlyD [OF assms(2)])
    show "h p = Some (OKey (Some k))" using assms(1) that by (auto simp: building_def)
    then show "p \<noteq> b" using assms(1) by (auto simp: building_def)
  qed
  with assms(3) show ?thesis by (auto simp: building_def)
qed

lemma building_upd: "building h b c ks \<Longrightarrow> building (h(b \<mapsto> OCert c')) b c' ks"
  by (rule building_only) auto

lemma building_grow: "building h b c ks \<Longrightarrow> h \<subseteq>\<^sub>m h' \<Longrightarrow> building h' b c ks"
  by (rule building_only [OF _ grow_only grow_Some [OF buildingD(1)]])

lemma building_fresh: "building h b c ks \<Longrightarrow> h p = None \<Longrightarrow> building (h(p \<mapsto> x)) b c ks"
  by (rule building_grow) (auto simp: grow_upd)

lemma building_new:
  assumes law: "x509_law F H pem" and "\<And>p k. (p, k) \<in> ks \<Longrightarrow> H w p = Some (OKey (Some k))"
    and run: "X509Builder_new F w = (Ok b, w')"
  shows "building (H w') b blank_cert ks"
  using constructors_heap(1) [OF law run] assms(2) by (fastforce simp: building_def)

lemma building_pubkey:
  assumes law: "x509_law F H pem" and b: "building (H w) b c ks" and "(p, k) \<in> ks"
    and run: "X509Builder_set_pubkey F b p w = (Ok (), w')"
  shows "building (H w') b (c\<lparr>x_pubkey := Some k, x_sig := None\<rparr>) ks"
  using setters_heap(7) [OF law buildingD(1) [OF b] run] buildingD(2) [OF b assms(3)]
    building_upd [OF b] by (simp add: key_at_def)

lemma building_validity:
  assumes law: "x509_law F H pem" and b: "building (H w) b c ks"
    and run: "set_validity F b w = (Ok (), w')"
  shows "building (H w') b
    (c\<lparr>x_not_after := Some 31536000, x_not_before := Some 0, x_sig := None\<rparr>) ks"
  using set_validity_heap [OF law buildingD(1) [OF b] run] building_only [OF b] by blast

lemma building_issuer:
  assumes law: "x509_law F H pem" and b: "building (H w) b c ks"
    and name: "ca_name F w = (Ok p, w1)" and run: "X509Builder_set_issuer_name F b p w1 = (Ok (), w')"
  shows "building (H w') b (c\<lparr>x_issuer := ca_entries ''localhost'', x_sig := None\<rparr>) ks"
proof -
  have 1: "H w p = None" "H w1 = (H w)(p \<mapsto> OName (ca_entries ''localhost''))"
    using ca_name_heap [OF law name] by auto
  have b1: "building (H w1) b c ks" using building_fresh [OF b] 1 by simp
  have "name_at (H w1) p = ca_entries ''localhost''" using 1 by (simp add: name_at_def)
  then show ?thesis
    using setters_heap(6) [OF law buildingD(1) [OF b1] run] building_upd [OF b1] by simp
qed

lemma building_ext:
  assumes law: "x509_law F H pem" and b: "building (H w) b c ks"
    and ext: "H w p = Some (OExt n v)" and run: "X509Builder_append_extension F b p w = (Ok (), w')"
  shows "building (H w') b (c\<lparr>x_exts := x_exts c @ [(n, v)], x_sig := None\<rparr>) ks"
  using setters_heap(8) [OF law buildingD(1) [OF b] run] building_upd [OF b] ext
  by (simp add: ext_at_def)

lemma building_new_ext:
  assumes law: "x509_law F H pem" and b: "building (H w) b c ks"
    and new: "X509Extension_new_nid F conf ctx n v w = (Ok p, w1)"
    and run: "X509Builder_append_extension F b p w1 = (Ok (), w')"
  shows "building (H w') b (c\<lparr>x_exts := x_exts c @ [(n, v)], x_sig := None\<rparr>) ks"
proof -
  have 1: "H w p = None" "H w1 = (H w)(p \<mapsto> OExt n v)"
    using extension_heap(1) [OF law new] by auto
  then show ?thesis using building_ext [OF law building_fresh [OF b 1(1), of "OExt n v", folded 1(2)] _ run]
    by simp
qed

lemma building_sign:
  assumes law: "x509_law F H pem" and b: "building (H w) b c ks" and "(p, k) \<in> ks"
    and md: "MessageDigest_sha256 F w = (Ok m, w1)" and run: "X509Builder_sign F b p m w1 = (Ok (), w')"
  shows "building (H w') b (c\<lparr>x_sig := Some (k, ''sha256'')\<rparr>) ks"
proof -
  have 1: "H w1 = H w" "H w m = Some (OMd ''sha256'')" using sha256_heap [OF law md] by auto
  have b1: "building (H w1) b c ks" using b 1 by simp
  have "key_at (H w1) p = Some k" using buildingD(2) [OF b1 assms(3)] by (simp add: key_at_def)
  moreover have "md_at (H w1) m = ''sha256''" using 1 by (simp add: md_at_def)
  ultimately show ?thesis
    using setters_heap(9) [OF law buildingD(1) [OF b1] run] building_upd [OF b1] by simp
qed

subsection \<open>Tenant certificates\<close>

lemma building_subject:
  assumes law: "x509_law F H pem" and b: "building (H w) b c ks"
    and name: "H w p = Some (OName es)" and run: "X509Builder_set_subject_name F b p w = (Ok (), w')"
  shows "building (H w') b (c\<lparr>x_subject := es, x_sig := None\<rparr>) ks"
  using setters_heap(5) [OF law buildingD(1) [OF b] run] building_upd [OF b] name
  by (simp add: name_at_def)

lemma building_serial:
  assumes law: "x509_law F H pem" and b: "building (H w) b c ks"
    and bn: "BigNum_from_u32 F n w = (Ok q, w1)" and i: "BigNum_to_asn1_integer F q w1 = (Ok p, w2)"
    and run: "X509Builder_set_serial_number F b p w2 = (Ok (), w')"
  shows "building (H w') b (c\<lparr>x_serial := uint n, x_sig := None\<rparr>) ks"
proof -
  have 1: "H w1 q = Some (OBn (uint n))" "H w \<subseteq>\<^sub>m H w1"
    using BigNum_from_u32_heap [OF law bn] by auto
  have 2: "H w1 p = None" "H w2 = (H w1)(p \<mapsto> OInt (uint n))"
    using constructors_heap(5) [OF law i] 1 by (auto simp: int_at_def)
  have b2: "building (H w2) b c ks"
    using building_fresh [OF building_grow [OF b 1(2)] 2(1)] 2(2) by simp
  have "int_at (H w2) p = uint n" using 2 by (simp add: int_at_def)
  then show ?thesis
    using setters_heap(2) [OF law buildingD(1) [OF b2] run] building_upd [OF b2] by simp
qed

lemma building_version:
  assumes law: "x509_law F H pem" and b: "building (H w) b c ks"
    and run: "X509Builder_set_version F b v w = (Ok (), w')"
  shows "building (H w') b (c\<lparr>x_version := v, x_sig := None\<rparr>) ks"
  using setters_heap(1) [OF law buildingD(1) [OF b] run] building_upd [OF b] by simp

text \<open>The steps of a successful run, in order.\<close>

lemma create_db_certificate_steps:
  assumes "create_db_certificate E a w = (Ok (serial, keys, cert), w')"
  obtains rsa key b q i n iss ext md w1 w2 w3 w4 w5 w6 w7 w8 w9 w10 w11 w12 w13 w14 w15 w16 w17
    w18 w19 w20 w21 w22 where
    "Rsa_generate (foreign E) 1024 w = (Ok rsa, w1)" "PKey_from_rsa (foreign E) rsa w1 = (Ok key, w2)"
    "X509Builder_new (foreign E) w2 = (Ok b, w3)"
    "X509Builder_set_pubkey (foreign E) b key w3 = (Ok (), w4)"
    "X509Builder_set_version (foreign E) b 3 w4 = (Ok (), w5)"
    "rand_u32 E w5 = (serial, w6)" "BigNum_from_u32 (foreign E) serial w6 = (Ok q, w7)"
    "BigNum_to_asn1_integer (foreign E) q w7 = (Ok i, w8)"
    "X509Builder_set_serial_number (foreign E) b i w8 = (Ok (), w9)"
    "set_validity (foreign E) b w9 = (Ok (), w10)"
    "X509NameBuilder_new (foreign E) w10 = (Ok n, w11)"
    "X509NameBuilder_append_entry_by_text (foreign E) n ''C'' ''NO'' w11 = (Ok (), w12)"
    "X509NameBuilder_append_entry_by_text (foreign E) n ''ST'' ''TR'' w12 = (Ok (), w13)"
    "X509NameBuilder_append_entry_by_text (foreign E) n ''O'' ''IFI'' w13 = (Ok (), w14)"
    "X509NameBuilder_append_entry_by_text (foreign E) n ''CN'' ''user'' w14 = (Ok (), w15)"
    "X509Builder_set_subject_name (foreign E) b n w15 = (Ok (), w16)"
    "ca_name (foreign E) w16 = (Ok iss, w17)"
    "X509Builder_set_issuer_name (foreign E) b iss w17 = (Ok (), w18)"
    "X509Extension_new_nid (foreign E) None None EXT_KEY_USAGE ''serverAuth'' w18 = (Ok ext, w19)"
    "X509Builder_append_extension (foreign E) b ext w19 = (Ok (), w20)"
    "MessageDigest_sha256 (foreign E) w20 = (Ok md :: (string, _) outcome, w21)"
    "X509Builder_sign (foreign E) b (key_pair a) md w21 = (Ok (), w22)"
    "\<exists>w23. X509_to_pem (foreign E) b w22 = (Ok cert, w23) \<and>
       private_key_to_pem (foreign E) key w23 = (Ok keys, w')"
proof -
  have rand: "random_u32 E v = (Ok x, v') \<longleftrightarrow> rand_u32 E v = (x, v')" for v v' x
    by (auto simp: random_u32_def split: prod.splits)
  show thesis
    using assms unfolding create_db_certificate_def Let_def
    by (elim and_then_OkE) (simp add: rand, rule that, (assumption | blast)+)
qed

text \<open>
  C8: what a tenant certificate says. When the authority issues one, the key text returned is a
  freshly generated key pair, and the certificate text is the one for that public key, with the
  returned serial number, the subject \<open>CN=user\<close>, the authority as issuer, a validity of 365 days
  from now, the usage \<open>serverAuth\<close>, and a SHA-256 signature with the authority's key over exactly
  that content. The version field is 3.
\<close>

theorem tenant_certificate_content:
  assumes law: "x509_law (foreign E) H pem" and rand: "\<And>w. H (snd (rand_u32 E w)) = H w"
    and ca: "H w (key_pair a) = Some (OKey (Some ca))"
    and run: "create_db_certificate E a w = (Ok (serial, keys, cert), w')"
  shows "\<exists>key. H w key = None \<and> keys = pem_key pem key \<and>
    cert = pem_cert pem \<lparr>x_version = 3, x_serial = uint serial, x_subject = ca_entries ''user'',
      x_issuer = ca_entries ''localhost'', x_not_before = Some 0, x_not_after = Some (365 * 86400),
      x_pubkey = Some key, x_exts = [(EXT_KEY_USAGE, ''serverAuth'')], x_sig = Some (ca, ''sha256'')\<rparr>"
  using run
proof (cases rule: create_db_certificate_steps)
  case (1 rsa key b q i n iss ext md w1 w2 w3 w4 w5 w6 w7 w8 w9 w10 w11 w12 w13 w14 w15 w16 w17 w18
      w19 w20 w21 w22)
  note rsa = 1(1) and key = 1(2) and new = 1(3) and pub = 1(4) and ver = 1(5) and rnd = 1(6)
    and ser = 1(7-9) and val = 1(10) and name = 1(11-15) and sub = 1(16) and iss = 1(17,18)
    and ext = 1(19,20) and sgn = 1(21,22) and pem = 1(23)
  have fresh: "H w rsa = None" "H w \<subseteq>\<^sub>m H w1" using Rsa_generate_heap [OF law rsa] by auto
  have keys2: "H w2 key = Some (OKey (Some rsa))" "H w1 \<subseteq>\<^sub>m H w2"
    using PKey_from_rsa_heap [OF law key] by auto
  have "H w2 (key_pair a) = Some (OKey (Some ca))"
    using grow_Some [OF grow_Some [OF ca fresh(2)] keys2(2)] .
  then have "building (H w3) b blank_cert {(key, rsa), (key_pair a, ca)}"
    using keys2 by (intro building_new [OF law _ new]) auto
  note b = building_version [OF law building_pubkey [OF law this _ pub] ver]
  have w6: "H w6 = H w5" using rand [of w5] rnd by simp
  note b = building_validity [OF law building_serial [OF law b [folded w6] ser] val]
  have n: "H w10 n = None" "H w15 = (H w10)(n \<mapsto> OName (ca_entries ''user''))"
    using four_entries_heap [OF law name] by auto
  note b = building_fresh [OF b n(1), of _ "OName (ca_entries ''user'')", folded n(2)]
  note b = building_issuer [OF law building_subject [OF law b _ sub] iss]
  note b = building_sign [OF law building_new_ext [OF law b ext] _ sgn, of _ _ ca]
  have b: "building (H w22) b \<lparr>x_version = 3, x_serial = uint serial, x_subject = ca_entries ''user'',
      x_issuer = ca_entries ''localhost'', x_not_before = Some 0, x_not_after = Some (365 * 86400),
      x_pubkey = Some rsa, x_exts = [(EXT_KEY_USAGE, ''serverAuth'')], x_sig = Some (ca, ''sha256'')\<rparr>
    {(key, rsa), (key_pair a, ca)}"
    using b by (simp add: n(2) blank_cert_def)
  obtain w23 where cert: "X509_to_pem (foreign E) b w22 = (Ok cert, w23)"
    and keys: "private_key_to_pem (foreign E) key w23 = (Ok keys, w')"
    using pem by blast
  note c = to_pem_heap [OF law buildingD(1) [OF b] cert]
  have "H w23 key = Some (OKey (Some rsa))"
    using grow_Some [OF buildingD(2) [OF b] conjunct2 [OF c]] by simp
  then have "keys = pem_key pem rsa" using private_key_to_pem_heap [OF law _ keys] by simp
  with fresh(1) c show ?thesis by blast
qed

subsection \<open>Reading a request\<close>

lemma find_index_map_of:
  assumes "List.find (\<lambda>i. fst (es ! i) = n) [0 ..< length es] = Some j"
  shows "j < length es" "map_of es n = Some (snd (es ! j))"
proof -
  from assms have j: "j < length es" "fst (es ! j) = n" "\<forall>i < j. fst (es ! i) \<noteq> n"
    by (auto simp: find_Some_iff)
  then have "map_of (take j es) n = None"
    by (force simp: map_of_eq_None_iff in_set_conv_nth)
  then have "map_of (take j es @ es ! j # drop (Suc j) es) n = Some (snd (es ! j))"
    using j(2) by (cases "es ! j") (simp add: map_of_append map_add_def)
  with j(1) show "j < length es" "map_of es n = Some (snd (es ! j))"
    by (simp_all flip: id_take_nth_drop)
qed

lemma index_from_start: "index_from es n (-1) = i \<Longrightarrow> i \<noteq> -1 \<Longrightarrow>
  nat i < length es \<and> map_of es n = Some (snd (es ! nat i))"
  using find_index_map_of [of es n] by (auto simp: index_from_def split: option.splits)

lemma ccall_readsE:
  assumes "x509_law F H pem" "and_then (ccall F f args) g w = (Ok x, w')" "reads f"
  obtains r os w1 where "g (r, os) w1 = (Ok x, w')" "H w1 = H w" "read_result f args (H w) (r, os)"
proof -
  obtain r os w1 where call: "F f args w = ((r, os), w1)" by (metis prod.exhaust)
  with assms that show ?thesis
    unfolding x509_law_def by (fastforce simp: and_then_def ccall_def)
qed

lemma subject_name_heap:
  assumes law: "x509_law F H pem" and req: "H w req = Some (OReq nm k)"
    and run: "X509Req_subject_name F req w = (Ok x, w')"
  shows "x = nm \<and> H w' = H w"
  using run unfolding X509Req_subject_name_def
  by (rule ccall_readsE [OF law])
    (use req in \<open>auto simp: reads_def read_result_def assert_that_def split: if_splits\<close>)

lemma entries_next_heap:
  assumes law: "x509_law F H pem" and nm: "H w nm = Some (OName es)"
    and run: "X509NameEntries_next F (entries_by_nid nm n) w = (Ok (Some e, it), w')"
  shows "\<exists>s. map_of es n = Some s \<and> H w e = Some (OText s) \<and> H w' = H w"
proof -
  obtain r os w1 where idx: "F ''X509_NAME_get_index_by_NID'' [nm, CInt n, CInt (-1)] w = ((r, os), w1)"
    by (metis prod.exhaust)
  obtain q os2 w2 where ent: "F ''X509_NAME_get_entry'' [nm, CInt (c_int r)] w1 = ((q, os2), w2)"
    by (metis prod.exhaust)
  have 1: "H w1 = H w" "c_int r = index_from es n (-1)"
    using law idx nm unfolding x509_law_def
    by (fastforce simp: reads_def read_result_def name_at_def)+
  have i: "c_int r \<noteq> -1" "e = q" "q \<noteq> CNull" "w' = w2"
    using run idx ent
    by (auto simp: X509NameEntries_next_def entries_by_nid_def and_then_def ccall_def assert_that_def
        Let_def split: if_splits)
  note found = index_from_start [OF 1(2) [symmetric] i(1)]
  have "H w2 = H w1" "read_result ''X509_NAME_get_entry'' [nm, CInt (c_int r)] (H w1) (q, os2)"
    using law ent unfolding x509_law_def by (fastforce simp: reads_def)+
  then show ?thesis
    using found nm 1 i by (auto simp: read_result_def name_at_def)
qed

lemma first_entry_heap:
  assumes law: "x509_law F H pem" and req: "H w req = Some (OReq nm k)" and nm: "H w nm = Some (OName es)"
    and run: "first_entry F req n msg w = (Ok e, w')"
  shows "\<exists>s. map_of es n = Some s \<and> H w e = Some (OText s) \<and> H w' = H w"
proof -
  from run obtain x w1 oe it where sub: "X509Req_subject_name F req w = (Ok x :: (string, _) outcome, w1)"
    and nxt: "X509NameEntries_next F (entries_by_nid x n) w1 = (Ok (oe, it) :: (string, _) outcome, w')"
    and "oe = Some e"
    by (auto simp: first_entry_def and_then_Ok_iff ok_or_def split: option.splits)
  with subject_name_heap [OF law req sub] nm show ?thesis
    using entries_next_heap [OF law, of w1 nm es n e it w'] by auto
qed

lemma copy_entry_heap:
  assumes law: "x509_law F H pem" and e: "H w e = Some (OText s)" and p: "H w p = Some (OName es)"
    and run: "copy_entry F p n e w = (Ok (), w')"
  shows "H w' = (H w)(p \<mapsto> OName (es @ [(n, s)]))"
proof -
  from run obtain d t w1 w2 where data: "X509NameEntry_data F e w = (Ok d :: (string, _) outcome, w1)"
    and utf: "Asn1String_as_utf8 F d w1 = (Ok t, w2)"
    and app: "X509NameBuilder_append_entry_by_nid F p n t w2 = (Ok (), w')"
    by (auto simp: copy_entry_def and_then_Ok_iff)
  have 1: "H w1 d = Some (OText s)" "H w1 = H w"
    using data unfolding X509NameEntry_data_def
    by (auto simp: reads_def read_result_def e elim!: ccall_readsE [OF law])
  have 2: "t = s" "H w2 = H w"
    using utf 1 unfolding Asn1String_as_utf8_def
    by (auto simp: reads_def read_result_def ErrorStack_get_throw_not_Ok split: if_splits
        elim!: ccall_readsE [OF law])
  show ?thesis using append_entry_heap(2) [OF law _ app] p 2 by simp
qed

lemma from_pem_heap:
  assumes law: "x509_law F H pem" and run: "X509Req_from_pem F buf w = (Ok req, w')"
  shows "\<exists>nm. H w' req = Some (OReq nm (snd (pem_req pem buf))) \<and>
    H w' nm = Some (OName (fst (pem_req pem buf))) \<and> H w \<subseteq>\<^sub>m H w'"
proof -
  from run obtain w1 w2 bio where init: "init F w = (Ok () :: (error_stack, unit) outcome, w1)"
    and bio: "call_p F ''BIO_new_mem_buf'' [CBytes buf, CInt (int (length buf))] w1 = (Ok bio, w2)"
    and read: "call_p F ''PEM_read_bio_X509_REQ'' [bio, CNull, CNull, CNull] w2 = (Ok req, w')"
    by (auto simp: X509Req_from_pem_def MemBioSlice_new_def and_then_Ok_iff assert_that_def
        split: if_splits)
  have 1: "H w bio = None" "H w2 = (H w)(bio \<mapsto> OBio buf)"
    using call_p_alloc [OF law bio] init_heap [OF law init] by simp_all
  have buf: "bytes_at (H w2) bio = buf" using 1 by (simp add: bytes_at_def)
  obtain os where "F ''PEM_read_bio_X509_REQ'' [bio, CNull, CNull, CNull] w2 = ((req, os), w')" "req \<noteq> CNull"
    using call_p_Ok [OF read] .
  then have "request_read pem [bio, CNull, CNull, CNull] req (H w2) (H w')"
    using law unfolding x509_law_def by blast
  then obtain nm where "H w' req = Some (OReq nm (snd (pem_req pem buf)))"
    "H w' nm = Some (OName (fst (pem_req pem buf)))" "only CNull (H w2) (H w')" "H w2 CNull = None"
    using buf by (auto simp: request_read_def)
  moreover from this have "H w2 \<subseteq>\<^sub>m H w'" by (intro only_absent)
  moreover have "H w \<subseteq>\<^sub>m H w2" using 1 by (simp add: grow_upd)
  ultimately show ?thesis by (blast intro: map_le_trans)
qed

lemma public_key_heap:
  assumes law: "x509_law F H pem" and req: "H w req = Some (OReq nm k)"
    and run: "X509Req_public_key F req w = (Ok p, w')"
  shows "H w p = None \<and> H w' = (H w)(p \<mapsto> OKey (Some k))"
proof -
  from run have "call_p F ''X509_REQ_get_pubkey'' [req] w = (Ok p, w')"
    by (auto simp: X509Req_public_key_def and_then_Ok_iff assert_that_def split: if_splits)
  then show ?thesis using call_p_alloc [OF law, of _ "[req]"] req by simp
qed

lemma building_add_key:
  "building h b c ks \<Longrightarrow> h p = None \<Longrightarrow> building (h(p \<mapsto> OKey (Some k))) b c (insert (p, k) ks)"
  using building_fresh [of h b c ks p "OKey (Some k)"] by (auto simp: building_def)

text \<open>The four entries copied from the subject of a request, in the order of the copying.\<close>

definition copied_entries :: "entries \<Rightarrow> entries option" where
  "copied_entries es =
     those (map (\<lambda>n. map_option (Pair n) (map_of es n))
       [COMMONNAME, COUNTRYNAME, ORGANIZATIONNAME, STATEORPROVINCENAME])"

lemma copied_subject_heap:
  assumes law: "x509_law F H pem" and req: "H w req = Some (OReq nm k)"
    and es: "H w nm = Some (OName es)"
    and cn: "first_entry F req COMMONNAME m1 w = (Ok e1, w1)"
    and co: "first_entry F req COUNTRYNAME m2 w1 = (Ok e2, w2)"
    and org: "first_entry F req ORGANIZATIONNAME m3 w2 = (Ok e3, w3)"
    and st: "first_entry F req STATEORPROVINCENAME m4 w3 = (Ok e4, w4)"
    and new: "X509NameBuilder_new F w4 = (Ok p, w5)"
    and "copy_entry F p COMMONNAME e1 w5 = (Ok (), w6)" "copy_entry F p COUNTRYNAME e2 w6 = (Ok (), w7)"
    and "copy_entry F p ORGANIZATIONNAME e3 w7 = (Ok (), w8)"
    and "copy_entry F p STATEORPROVINCENAME e4 w8 = (Ok (), w9)"
  shows "\<exists>subj. copied_entries es = Some subj \<and> H w p = None \<and> H w9 = (H w)(p \<mapsto> OName subj)"
proof -
  obtain s1 where 1: "map_of es COMMONNAME = Some s1" "H w e1 = Some (OText s1)" "H w1 = H w"
    using first_entry_heap [OF law req es cn] by blast
  obtain s2 where 2: "map_of es COUNTRYNAME = Some s2" "H w e2 = Some (OText s2)" "H w2 = H w"
    using first_entry_heap [OF law _ _ co] req es 1(3) by auto
  obtain s3 where 3: "map_of es ORGANIZATIONNAME = Some s3" "H w e3 = Some (OText s3)" "H w3 = H w"
    using first_entry_heap [OF law _ _ org] req es 2(3) by auto
  obtain s4 where 4: "map_of es STATEORPROVINCENAME = Some s4" "H w e4 = Some (OText s4)" "H w4 = H w"
    using first_entry_heap [OF law _ _ st] req es 3(3) by auto
  have p: "H w p = None" "H w5 = (H w)(p \<mapsto> OName [])"
    using constructors_heap(2) [OF law new] 4(3) by auto
  have ne: "e1 \<noteq> p" "e2 \<noteq> p" "e3 \<noteq> p" "e4 \<noteq> p" using 1 2 3 4 p(1) by auto
  have 6: "H w6 = (H w)(p \<mapsto> OName [(COMMONNAME, s1)])"
    using copy_entry_heap [OF law _ _ assms(9), of s1 "[]"] p 1 ne by simp
  have 7: "H w7 = (H w)(p \<mapsto> OName [(COMMONNAME, s1), (COUNTRYNAME, s2)])"
    using copy_entry_heap [OF law _ _ assms(10), of s2] 6 2 ne by simp
  have 8: "H w8 = (H w)(p \<mapsto> OName [(COMMONNAME, s1), (COUNTRYNAME, s2), (ORGANIZATIONNAME, s3)])"
    using copy_entry_heap [OF law _ _ assms(11), of s3] 7 3 ne by simp
  have "H w9 = (H w)(p \<mapsto>
      OName [(COMMONNAME, s1), (COUNTRYNAME, s2), (ORGANIZATIONNAME, s3), (STATEORPROVINCENAME, s4)])"
    using copy_entry_heap [OF law _ _ assms(12), of s4] 8 4 ne by simp
  with 1 2 3 4 p(1) show ?thesis by (simp add: copied_entries_def)
qed

subsection \<open>Client certificates\<close>

lemma sign_certificate_steps:
  assumes "sign_certificate E a buf intent w = (Ok (i, c), w')"
  obtains b req pk e1 e2 e3 e4 p iss uid skid ku eku ctx san md w1 w2 w3 w4 w5 w6 w7 w8 w9 w10 w11
    w12 w13 w14 w15 w16 w17 w18 w19 w20 w21 w22 w23 w24 w25 w26 w27 w28 w29 where
    "X509Builder_new (foreign E) w = (Ok b, w1)" "X509Req_from_pem (foreign E) buf w1 = (Ok req, w2)"
    "X509Req_public_key (foreign E) req w2 = (Ok pk, w3)" "set_validity (foreign E) b w3 = (Ok (), w4)"
    "X509Builder_set_pubkey (foreign E) b pk w4 = (Ok (), w5)"
    "first_entry (foreign E) req COMMONNAME ''no common name'' w5 = (Ok e1, w6)"
    "first_entry (foreign E) req COUNTRYNAME ''no contry'' w6 = (Ok e2, w7)"
    "first_entry (foreign E) req ORGANIZATIONNAME ''no org'' w7 = (Ok e3, w8)"
    "first_entry (foreign E) req STATEORPROVINCENAME ''no state'' w8 = (Ok e4, w9)"
    "X509NameBuilder_new (foreign E) w9 = (Ok p, w10)"
    "copy_entry (foreign E) p COMMONNAME e1 w10 = (Ok (), w11)"
    "copy_entry (foreign E) p COUNTRYNAME e2 w11 = (Ok (), w12)"
    "copy_entry (foreign E) p ORGANIZATIONNAME e3 w12 = (Ok (), w13)"
    "copy_entry (foreign E) p STATEORPROVINCENAME e4 w13 = (Ok (), w14)"
    "X509Builder_set_subject_name (foreign E) b p w14 = (Ok (), w15)"
    "ca_name (foreign E) w15 = (Ok iss, w16)"
    "X509Builder_set_issuer_name (foreign E) b iss w16 = (Ok (), w17)"
    "uuid_v4 E w17 = (uid, w18)"
    "X509Extension_new_nid (foreign E) None None SUBJECT_KEY_IDENTIFIER uid w18 = (Ok skid, w19)"
    "X509Extension_new_nid (foreign E) None None KEY_USAGE ''digitalSignature'' w19 = (Ok ku, w20)"
    "X509Builder_append_extension (foreign E) b ku w20 = (Ok (), w21)"
    "X509Extension_new_nid (foreign E) None None EXT_KEY_USAGE ''clientAuth'' w21 = (Ok eku, w22)"
    "X509Builder_append_extension (foreign E) b eku w22 = (Ok (), w23)"
    "X509Builder_append_extension (foreign E) b skid w23 = (Ok (), w24)"
    "X509Builder_x509v3_context (foreign E) b None None w24 = (Ok ctx :: (string, _) outcome, w25)"
    "X509Extension_new_nid (foreign E) None (Some ctx) SUBJECT_ALT_NAME
       (''otherName:1.3.6.1.4.1.99;UTF8:'' @ intent) w25 = (Ok san, w26)"
    "X509Builder_append_extension (foreign E) b san w26 = (Ok (), w27)"
    "MessageDigest_sha256 (foreign E) w27 = (Ok md :: (string, _) outcome, w28)"
    "X509Builder_sign (foreign E) b (key_pair a) md w28 = (Ok (), w29)"
    "X509_to_pem (foreign E) b w29 = (Ok (cert_request c), w')"
    "i = \<lparr>intent_id = uid, intent_list = [intent]\<rparr>" "cert_intent c = ''''" "cert_root c = root_ctf a"
proof -
  have uuid: "new_v4 E v = (Ok x, v') \<longleftrightarrow> uuid_v4 E v = (x, v')" for v v' x
    by (auto simp: new_v4_def split: prod.splits)
  show thesis
    using assms unfolding sign_certificate_def Let_def
    by (elim and_then_OkE) (simp add: uuid, rule that, (assumption | force)+)
qed

lemma context_heap:
  assumes law: "x509_law F H pem" and run: "X509Builder_x509v3_context F b None None w = (Ok x, w')"
  shows "H w' = H w"
  using run unfolding X509Builder_x509v3_context_def
  by (auto simp: Let_def reads_def elim!: ccall_readsE [OF law])

lemma cert_keeps_ext: "h b = Some (OCert x) \<Longrightarrow> only b h h' \<Longrightarrow> h q = Some (OExt n v) \<Longrightarrow> h' q = Some (OExt n v)"
  by (cases "q = b") (auto dest: onlyD)

lemma new_ext_only:
  assumes law: "x509_law F H pem" and b: "H w b = Some (OCert c)"
    and new: "X509Extension_new_nid F conf ctx n v w = (Ok p, w1)"
    and run: "X509Builder_append_extension F b p w1 = (Ok (), w')"
  shows "only b (H w) (H w')"
proof -
  have 1: "H w p = None" "H w1 = (H w)(p \<mapsto> OExt n v)"
    using extension_heap(1) [OF law new] by auto
  then have "H w1 b = Some (OCert c)" using b by auto
  then have "only b (H w1) (H w')" using setters_heap(8) [OF law _ run] by simp
  moreover have "only b (H w) (H w1)" using 1 by (simp add: only_fresh)
  ultimately show ?thesis by (blast intro: only_trans)
qed

text \<open>A key identifier made first is still there when it is appended after two others.\<close>

lemma building_three_exts:
  assumes law: "x509_law F H pem" and b: "building (H w) b c ks"
    and skid: "X509Extension_new_nid F None None n1 v1 w = (Ok p1, w1)"
    and ku: "X509Extension_new_nid F None None n2 v2 w1 = (Ok p2, w2)"
      "X509Builder_append_extension F b p2 w2 = (Ok (), w3)"
    and eku: "X509Extension_new_nid F None None n3 v3 w3 = (Ok p3, w4)"
      "X509Builder_append_extension F b p3 w4 = (Ok (), w5)"
    and last: "X509Builder_append_extension F b p1 w5 = (Ok (), w6)"
  shows "building (H w6) b (c\<lparr>x_exts := x_exts c @ [(n2, v2), (n3, v3), (n1, v1)], x_sig := None\<rparr>) ks"
proof -
  have 1: "H w p1 = None" "H w1 = (H w)(p1 \<mapsto> OExt n1 v1)"
    using extension_heap(1) [OF law skid] by auto
  have b1: "building (H w1) b c ks" using building_fresh [OF b 1(1)] 1(2) by simp
  note b3 = building_new_ext [OF law b1 ku]
  note b5 = building_new_ext [OF law b3 eku]
  have "H w1 p1 = Some (OExt n1 v1)" using 1 by simp
  then have "H w3 p1 = Some (OExt n1 v1)"
    by (rule cert_keeps_ext [OF buildingD(1) [OF b1] new_ext_only [OF law buildingD(1) [OF b1] ku]])
  then have "H w5 p1 = Some (OExt n1 v1)"
    by (rule cert_keeps_ext [OF buildingD(1) [OF b3] new_ext_only [OF law buildingD(1) [OF b3] eku]])
  then show ?thesis using building_ext [OF law b5 _ last] by simp
qed

lemma sign_certificate_issues:
  assumes law: "x509_law (foreign E) H pem" and uuid: "\<And>w. H (snd (uuid_v4 E w)) = H w"
    and ca: "H w (key_pair a) = Some (OKey (Some ca))"
    and run: "sign_certificate E a buf intent w = (Ok (i, c), w')"
  shows "\<exists>subj. copied_entries (fst (pem_req pem buf)) = Some subj \<and>
    intent_list i = [intent] \<and> cert_root c = root_ctf a \<and>
    cert_request c = pem_cert pem \<lparr>x_version = 0, x_serial = 0, x_subject = subj,
      x_issuer = ca_entries ''localhost'', x_not_before = Some 0, x_not_after = Some (365 * 86400),
      x_pubkey = Some (snd (pem_req pem buf)),
      x_exts = [(KEY_USAGE, ''digitalSignature''), (EXT_KEY_USAGE, ''clientAuth''),
        (SUBJECT_KEY_IDENTIFIER, intent_id i),
        (SUBJECT_ALT_NAME, ''otherName:1.3.6.1.4.1.99;UTF8:'' @ intent)],
      x_sig = Some (ca, ''sha256'')\<rparr>"
  using run
proof (cases rule: sign_certificate_steps)
  case (1 b req pk e1 e2 e3 e4 p iss uid skid ku eku ctx san md w1 w2 w3 w4 w5 w6 w7 w8 w9 w10 w11
    w12 w13 w14 w15 w16 w17 w18 w19 w20 w21 w22 w23 w24 w25 w26 w27 w28 w29)
  let ?k = "snd (pem_req pem buf)" and ?es = "fst (pem_req pem buf)"
  have "building (H w1) b blank_cert {(key_pair a, ca)}"
    using ca by (intro building_new [OF law _ 1(1)]) auto
  moreover obtain nm where req: "H w2 req = Some (OReq nm ?k)" "H w2 nm = Some (OName ?es)" "H w1 \<subseteq>\<^sub>m H w2"
    using from_pem_heap [OF law 1(2)] by blast
  ultimately have b2: "building (H w2) b blank_cert {(key_pair a, ca)}" by (blast intro: building_grow)
  have pk: "H w2 pk = None" "H w3 = (H w2)(pk \<mapsto> OKey (Some ?k))"
    using public_key_heap [OF law req(1) 1(3)] by auto
  have b3: "building (H w3) b blank_cert {(pk, ?k), (key_pair a, ca)}"
    using building_add_key [OF b2 pk(1)] pk(2) by simp
  note b4 = building_validity [OF law b3 1(4)]
  note b5 = building_pubkey [OF law b4 _ 1(5), of ?k, simplified]
  have "only b (H w3) (H w4)" "only b (H w4) (H w5)"
    using set_validity_heap [OF law buildingD(1) [OF b3] 1(4)]
      setters_heap(7) [OF law buildingD(1) [OF b4] 1(5)] by simp_all
  then have o: "only b (H w3) (H w5)" by (rule only_trans)
  have req5: "H w5 req = Some (OReq nm ?k)" "H w5 nm = Some (OName ?es)"
    using req pk buildingD(1) [OF b2] by (auto intro!: onlyD [OF o])
  obtain subj where subj: "copied_entries ?es = Some subj" "H w5 p = None"
      "H w14 = (H w5)(p \<mapsto> OName subj)"
    using copied_subject_heap [OF law req5 1(6-14)] by blast
  note b14 = building_fresh [OF b5 subj(2), of "OName subj", folded subj(3)]
  have name: "H w14 p = Some (OName subj)" using subj(3) by simp
  note b17 = building_issuer [OF law building_subject [OF law b14 name 1(15)] 1(16,17)]
  have w18: "H w18 = H w17" using uuid [of w17] 1(18) by simp
  note b24 = building_three_exts [OF law b17 [folded w18] 1(19-24)]
  note b27 = building_new_ext [OF law b24 [folded context_heap [OF law 1(25)]] 1(26,27)]
  note b29 = building_sign [OF law b27 _ 1(28,29), of ca, simplified]
  show ?thesis
    using to_pem_heap [OF law buildingD(1) [OF b29] 1(30)] subj(1) 1(31-33)
    by (simp add: blank_cert_def)
qed


end
