(* ===== verification/Demo_World.thy ===== *)
theory Demo_World
  imports Service_Laws Ca_Laws
begin

text \<open>
  A small world in which every operation of the environment is a computable function: an
  in-memory database, a list of containers, and a C library that keeps its objects in an
  association list. It satisfies the laws of \<open>Consent_Laws\<close> and \<open>Ca_Laws\<close>, so those laws can
  hold, and the program can be run on it. The second half applies the conditional theorems of the
  development there.
\<close>

subsection \<open>The world\<close>

record world =
  w_db :: "(string \<times> document list) list"
  w_objs :: "(nat \<times> obj) list"
  w_containers :: "string list"
  w_seed :: u32

definition content_of :: "world \<Rightarrow> string \<Rightarrow> document list" where
  "content_of w c = (case map_of (w_db w) c of None \<Rightarrow> [] | Some ds \<Rightarrow> ds)"

text \<open>
  Pointers to objects are \<open>CPtr\<close>; static texts and the digest table are pointers of their own.
\<close>

fun heap_of :: "world \<Rightarrow> heap" where
  "heap_of w (CPtr n) = map_of (w_objs w) n"
| "heap_of w (CStr s) = Some (OText s)"
| "heap_of w (CInt i) = (if i = 256 then Some (OMd ''sha256'') else None)"
| "heap_of w _ = None"

definition fresh_ptr :: "world \<Rightarrow> nat" where
  "fresh_ptr w = Suc (fold max (map fst (w_objs w)) 0)"

definition demo_pem :: pem_texts where
  "demo_pem = \<lparr>pem_cert = (\<lambda>c. [1, word_of_int (x_serial c)]), pem_key = (\<lambda>k. [2]),
     pem_req = (\<lambda>bs. ([(COMMONNAME, ''svc''), (COUNTRYNAME, ''NO''), (ORGANIZATIONNAME, ''IFI''),
        (STATEORPROVINCENAME, ''TR'')], CStr ''client key''))\<rparr>"

definition demo_reads :: "string \<Rightarrow> cval list \<Rightarrow> world \<Rightarrow> cret" where
  "demo_reads f args w =
     (let h = heap_of w; p = args ! 0 in
      if f = ''EVP_sha256'' then (CInt 256, [])
      else if f = ''BIO_ctrl'' then (CInt (int (length (bytes_at h p))), [CBytes (bytes_at h p)])
      else if f = ''X509_REQ_get_subject_name'' then
        ((case h p of Some (OReq n _) \<Rightarrow> n | _ \<Rightarrow> CNull), [])
      else if f = ''X509_NAME_get_index_by_NID'' then
        (CInt (index_from (name_at h p) (c_int (args ! 1)) (c_int (args ! 2))), [])
      else if f = ''X509_NAME_get_entry'' then
        (CStr (snd (name_at h p ! nat (c_int (args ! 1)))), [])
      else if f = ''X509_NAME_ENTRY_get_data'' then (p, [])
      else if f = ''ASN1_STRING_to_UTF8'' then
        (case h p of Some (OText s) \<Rightarrow> (CInt (int (length s)), [CStr s]) | _ \<Rightarrow> (CInt (-1), []))
      else (CNull, []))"

text \<open>An empty text is not a request; everything else reads as the same one.\<close>

definition demo_lib :: "world ffi" where
  "demo_lib f args w =
     (let h = heap_of w; n = fresh_ptr w; add = (\<lambda>k x u. u\<lparr>w_objs := (k, x) # w_objs u\<rparr>) in
      if f = ''PEM_read_bio_X509_REQ'' then
        (if bytes_at h (args ! 0) = [] then ((CNull, []), w)
         else
           (case pem_req demo_pem (bytes_at h (args ! 0)) of (es, k) \<Rightarrow>
              ((CPtr n, []), add (Suc n) (OName es) (add n (OReq (CPtr (Suc n)) k) w))))
      else
        case alloc f args h of
          Some x \<Rightarrow> ((CPtr n, []), add n x w)
        | None \<Rightarrow>
            (case upd demo_pem f args h of
               Some (CPtr k, x) \<Rightarrow> ((CInt 1, []), add k x w)
             | Some _ \<Rightarrow> ((CInt 0, []), w)
             | None \<Rightarrow> (demo_reads f args w, w)))"

definition set_coll :: "string \<Rightarrow> document list \<Rightarrow> world \<Rightarrow> world" where
  "set_coll c ds w = w\<lparr>w_db := (c, ds) # w_db w\<rparr>"

definition demo_env :: "world env" where
  "demo_env = \<lparr>
     mongo_connect = (\<lambda>_ _. ret ()),
     mongo_find = (\<lambda>c w. (Ok (map Inr (content_of w c)), w)),
     mongo_find_one = (\<lambda>c q w. (Ok (find (matches q) (content_of w c)), w)),
     mongo_insert_one = (\<lambda>c d w.
       if list_ex (\<lambda>d'. doc_get d' ''_id'' = doc_get d ''_id'') (content_of w c)
       then (Err ''duplicate key'', w)
       else (Ok (), set_coll c (content_of w c @ [d]) w)),
     mongo_delete_one = (\<lambda>c q w. (Ok (), set_coll c (remove_first (matches q) (content_of w c)) w)),
     bson_to = Inr, bson_from = Inr, bson_u32 = BI32,
     url_parse = Inr,
     docker_list = (\<lambda>w. (Ok (map (\<lambda>n. \<lparr>Names = [n], Image = ''tenant''\<rparr>) (w_containers w)), w)),
     docker_create = (\<lambda>opts w. (Ok (), w\<lparr>w_containers := w_containers w @ [opt_name opts]\<rparr>)),
     docker_start = (\<lambda>_. ret ()),
     docker_inspect_ip = (\<lambda>n. ret (''ip of '' @ n)),
     docker_remove = (\<lambda>n _ w. (Ok (), w\<lparr>w_containers := filter (\<lambda>m. m \<noteq> n) (w_containers w)\<rparr>)),
     docker_id = (\<lambda>n. n),
     fs_create_dir_all = (\<lambda>_. ret ()), fs_create = (\<lambda>_. ret ()), fs_write_all = (\<lambda>_ _. ret ()),
     rand_u32 = (\<lambda>w. (w_seed w, w\<lparr>w_seed := w_seed w + 1\<rparr>)),
     uuid_v4 = (\<lambda>w. (''0af1'', w)),
     hashmap_iter = (\<lambda>es. es),
     foreign = demo_lib\<rparr>"

definition demo_ca :: authority where
  "demo_ca = \<lparr>key_pair = CPtr 0, root_ctf = [9]\<rparr>"

definition demo_start :: world where
  "demo_start = \<lparr>w_db = [], w_objs = [(0, OKey (Some (CStr ''ca key'')))], w_containers = [], w_seed = 7\<rparr>"

definition demo_server :: "world server" where
  "demo_server = \<lparr>outside = demo_start, mutex = Unlocked\<rparr>"

subsection \<open>It satisfies the laws\<close>

lemma content_set_coll: "content_of (set_coll c ds w) = (content_of w)(c := ds)"
  by (auto simp: content_of_def set_coll_def fun_eq_iff)

lemma content_cong: "w_db w' = w_db w \<Longrightarrow> content_of w' = content_of w"
  by (simp add: content_of_def fun_eq_iff)

lemma demo_lib_db: "w_db (snd (demo_lib f args w)) = w_db w"
  by (auto simp: demo_lib_def Let_def split: option.split prod.split cval.split)

lemma keeps_content:
  assumes "\<And>w. w_db (snd (m w)) = w_db w"
  shows "keeps (\<lambda>w. content_of w = D) m"
  using content_cong [OF assms] by (simp add: keeps_def)

lemma demo_keeps_db:
  "crypto_keeps (\<lambda>w. content_of w = D) demo_env" "docker_keeps (\<lambda>w. content_of w = D) demo_env"
proof -
  have "ffi_keeps (\<lambda>w. content_of w = D) demo_lib"
    using content_cong [OF demo_lib_db] by (simp add: ffi_keeps_def)
  moreover have "content_of (w\<lparr>w_seed := n\<rparr>) = content_of w" for w n
    by (rule content_cong) simp
  ultimately show "crypto_keeps (\<lambda>w. content_of w = D) demo_env"
    by (simp add: crypto_keeps_def demo_env_def)
  show "docker_keeps (\<lambda>w. content_of w = D) demo_env"
    unfolding docker_keeps_def by (intro conjI allI keeps_content) (simp_all add: demo_env_def)
qed

lemma demo_mongo_law: "mongo_law demo_env content_of"
  unfolding mongo_law_def
proof (intro conjI allI)
  show "find_law demo_env content_of" by (auto simp: find_law_def demo_env_def)
  show "insert_law demo_env content_of"
    by (auto simp: insert_law_def demo_env_def content_set_coll list_ex_iff)
  show "delete_law demo_env content_of"
    by (auto simp: delete_law_def demo_env_def content_set_coll)
qed (auto simp: demo_keeps_db, simp_all add: demo_env_def)

lemma fresh_ptr_absent: "fresh_ptr w \<le> n \<Longrightarrow> heap_of w (CPtr n) = None"
proof -
  assume le: "fresh_ptr w \<le> n"
  have "k \<le> fold max xs m" if "k \<in> set xs \<or> k \<le> m" for k xs and m :: nat
    using that by (induction xs arbitrary: m) (auto intro: max.coboundedI2)
  from this [of _ "map fst (w_objs w)" 0] have "k < fresh_ptr w" if "k \<in> fst ` set (w_objs w)" for k
    using that by (simp add: fresh_ptr_def less_Suc_eq_le)
  then have "n \<notin> fst ` set (w_objs w)" using le by (meson leD)
  then show "heap_of w (CPtr n) = None" by (simp add: map_of_eq_None_iff)
qed

lemma heap_of_add: "heap_of (w\<lparr>w_objs := (k, x) # w_objs w\<rparr>) = (heap_of w)(CPtr k \<mapsto> x)"
proof
  fix p show "heap_of (w\<lparr>w_objs := (k, x) # w_objs w\<rparr>) p = ((heap_of w)(CPtr k \<mapsto> x)) p"
    by (cases p) auto
qed

lemma demo_lib_other:
  "f \<noteq> ''PEM_read_bio_X509_REQ'' \<Longrightarrow> demo_lib f args w =
     (case alloc f args (heap_of w) of
        Some x \<Rightarrow> ((CPtr (fresh_ptr w), []), w\<lparr>w_objs := (fresh_ptr w, x) # w_objs w\<rparr>)
      | None \<Rightarrow>
          (case upd demo_pem f args (heap_of w) of
             Some (CPtr k, x) \<Rightarrow> ((CInt 1, []), w\<lparr>w_objs := (k, x) # w_objs w\<rparr>)
           | Some _ \<Rightarrow> ((CInt 0, []), w)
           | None \<Rightarrow> (demo_reads f args w, w)))"
  by (simp add: demo_lib_def Let_def)

definition allocators :: "string set" where
  "allocators = {''RSA_new'', ''BN_new'', ''BN_to_ASN1_INTEGER'', ''EVP_PKEY_new'', ''X509_new'',
     ''X509_NAME_new'', ''X509_gmtime_adj'', ''X509V3_EXT_nconf'', ''X509V3_EXT_nconf_nid'', ''BIO_new'',
     ''BIO_new_mem_buf'', ''X509_REQ_get_pubkey''}"

lemma alloc_allocators: "alloc f args h \<noteq> None \<Longrightarrow> f \<in> allocators"
  unfolding alloc_def allocators_def by (simp only: split: if_splits) simp_all

lemma upd_allocators: "f \<in> allocators \<Longrightarrow> upd pem f args h = None"
  unfolding allocators_def by (elim insertE emptyE; simp add: upd_def)

lemma alloc_upd_disjoint: "alloc f args h = Some x \<Longrightarrow> upd pem f args h = None"
  using alloc_allocators upd_allocators by blast

lemma reads_only_reads: "reads f \<Longrightarrow> alloc f args h = None \<and> upd pem f args h = None"
  unfolding reads_def by (elim insertE emptyE; simp add: alloc_def upd_def)

lemma demo_read_result:
  "reads f \<Longrightarrow> read_result f args (heap_of w) (demo_reads f args w)"
  unfolding read_result_def demo_reads_def Let_def
  by (auto simp: out_def split: option.split obj.split)

lemma demo_request_read:
  assumes "demo_lib ''PEM_read_bio_X509_REQ'' args w = ((r, os), w')" "r \<noteq> CNull"
  shows "request_read demo_pem args r (heap_of w) (heap_of w')"
proof -
  let ?n = "fresh_ptr w" and ?h = "heap_of w"
  have fresh: "?h (CPtr ?n) = None" "?h (CPtr (Suc ?n)) = None" by (rule fresh_ptr_absent, simp)+
  have "r = CPtr ?n" and h: "heap_of w' = ?h(CPtr ?n \<mapsto> OReq (CPtr (Suc ?n)) (CStr ''client key''),
      CPtr (Suc ?n) \<mapsto> OName (fst (pem_req demo_pem (bytes_at ?h (args ! 0)))))"
    using assms heap_of_add [of "Suc ?n" _ "w\<lparr>w_objs := _ # w_objs w\<rparr>"]
    by (auto simp: demo_lib_def Let_def demo_pem_def heap_of_add split: if_splits)
  with fresh show ?thesis
    unfolding request_read_def
    by (intro exI [of _ "CPtr (Suc ?n)"]) (auto simp: only_def demo_pem_def)
qed

lemma demo_x509_law: "x509_law demo_lib heap_of demo_pem"
  unfolding x509_law_def
proof (intro allI impI conjI)
  fix f args w r os w' assume run: "demo_lib f args w = ((r, os), w')"
  show "heap_of w r = None" "heap_of w' = (heap_of w)(r \<mapsto> x)"
    if x: "alloc f args (heap_of w) = Some x" "r \<noteq> CNull" for x
  proof -
    have "f \<noteq> ''PEM_read_bio_X509_REQ''" using x(1) by (auto simp: alloc_def)
    with run x have "r = CPtr (fresh_ptr w)" "w' = w\<lparr>w_objs := (fresh_ptr w, x) # w_objs w\<rparr>"
      by (simp_all add: demo_lib_other)
    then show "heap_of w r = None" "heap_of w' = (heap_of w)(r \<mapsto> x)"
      by (simp_all only: heap_of_add fresh_ptr_absent order_refl)
  qed
  show "heap_of w' = (heap_of w)(p \<mapsto> x)"
    if x: "upd demo_pem f args (heap_of w) = Some (p, x)" "0 < c_int r" for p x
  proof -
    have "f \<noteq> ''PEM_read_bio_X509_REQ''" using x(1) by (auto simp: upd_def Let_def)
    moreover have "alloc f args (heap_of w) = None"
      using x(1) alloc_upd_disjoint [of f args "heap_of w" _ demo_pem] by (cases "alloc f args (heap_of w)") auto
    ultimately obtain k where "p = CPtr k" "w' = w\<lparr>w_objs := (k, x) # w_objs w\<rparr>"
      using run x by (cases p) (auto simp: demo_lib_other)
    then show ?thesis by (simp only: heap_of_add)
  qed
  show "heap_of w' = heap_of w" "read_result f args (heap_of w) (r, os)" if "reads f"
  proof -
    have "f \<noteq> ''PEM_read_bio_X509_REQ''" using that by (auto simp: reads_def)
    with run reads_only_reads [OF that] have "demo_reads f args w = (r, os)" "w' = w"
      by (auto simp: demo_lib_other)
    with demo_read_result [OF that, of args w] show "heap_of w' = heap_of w"
      "read_result f args (heap_of w) (r, os)" by simp_all
  qed
  show "request_read demo_pem args r (heap_of w) (heap_of w')"
    if "f = ''PEM_read_bio_X509_REQ''" "r \<noteq> CNull"
    using demo_request_read run that by blast
qed

subsection \<open>Running the program on it\<close>

text \<open>
  Evaluation by the simplifier: an effect is unfolded only when it is applied to a state, and the
  continuations of a sequence are left alone until they are reached.
\<close>

lemma state_cong:
  "w = w' \<Longrightarrow> and_then m f w = and_then m f w'" "w = w' \<Longrightarrow> attempt m w = attempt m w'"
  "w = w' \<Longrightarrow> on_err m h w = on_err m h w'" "w = w' \<Longrightarrow> unwrap m w = unwrap m w'"
  "w = w' \<Longrightarrow> to_string_err F m w = to_string_err F m w'"
  by simp_all

lemmas run_defs =
  ossl_defs [THEN fun_cong] call_p_def [THEN fun_cong] call_i_def [THEN fun_cong]
  cvt_p_def [THEN fun_cong] cvt_def [THEN fun_cong] to_string_err_def [THEN fun_cong]
  unwrap_def [THEN fun_cong] set_validity_def [THEN fun_cong] ca_name_def [THEN fun_cong]
  create_db_certificate_def [THEN fun_cong] first_entry_def [THEN fun_cong]
  copy_entry_def [THEN fun_cong] sign_certificate_def [THEN fun_cong]

lemma alloc_none [simp]:
  "alloc ''BN_set_word'' args h = None" "alloc ''RSA_generate_key_ex'' args h = None"
  "alloc ''EVP_PKEY_assign'' args h = None" "alloc ''X509_set_version'' args h = None"
  "alloc ''X509_set_serialNumber'' args h = None" "alloc ''X509_set_notBefore'' args h = None"
  "alloc ''X509_set_notAfter'' args h = None" "alloc ''X509_set_subject_name'' args h = None"
  "alloc ''X509_set_issuer_name'' args h = None" "alloc ''X509_set_pubkey'' args h = None"
  "alloc ''X509_add_ext'' args h = None" "alloc ''X509_sign'' args h = None"
  "alloc ''X509_NAME_add_entry_by_txt'' args h = None" "alloc ''X509_NAME_add_entry_by_NID'' args h = None"
  "alloc ''PEM_write_bio_X509'' args h = None" "alloc ''PEM_write_bio_PKCS8PrivateKey'' args h = None"
  by (simp_all add: alloc_def)

lemma reads_none [simp]:
  "alloc ''init'' args h = None" "upd pem ''init'' args h = None"
  "alloc ''BIO_s_mem'' args h = None" "upd pem ''BIO_s_mem'' args h = None"
  "alloc ''EVP_sha256'' args h = None" "upd pem ''EVP_sha256'' args h = None"
  "alloc ''BIO_ctrl'' args h = None" "upd pem ''BIO_ctrl'' args h = None"
  "alloc ''X509V3_set_ctx'' args h = None" "upd pem ''X509V3_set_ctx'' args h = None"
  "alloc ''X509_REQ_get_subject_name'' args h = None" "upd pem ''X509_REQ_get_subject_name'' args h = None"
  "alloc ''X509_NAME_get_index_by_NID'' args h = None" "upd pem ''X509_NAME_get_index_by_NID'' args h = None"
  "alloc ''X509_NAME_get_entry'' args h = None" "upd pem ''X509_NAME_get_entry'' args h = None"
  "alloc ''X509_NAME_ENTRY_get_data'' args h = None" "upd pem ''X509_NAME_ENTRY_get_data'' args h = None"
  "alloc ''ASN1_STRING_to_UTF8'' args h = None" "upd pem ''ASN1_STRING_to_UTF8'' args h = None"
  by (simp_all add: alloc_def upd_def)

lemma upd_pem [simp]:
  "h (args ! 1) = Some (OCert c) \<Longrightarrow>
    upd pem ''PEM_write_bio_X509'' args h = Some (args ! 0, OBio (bytes_at h (args ! 0) @ pem_cert pem c))"
  "h (args ! 1) = Some (OKey (Some k)) \<Longrightarrow>
    upd pem ''PEM_write_bio_PKCS8PrivateKey'' args h = Some (args ! 0, OBio (bytes_at h (args ! 0) @ pem_key pem k))"
  by (simp_all add: upd_def Let_def)

lemmas demo_defs =
  demo_env_def demo_lib_other demo_reads_def demo_start_def demo_ca_def fresh_ptr_def at_defs
  demo_pem_def out_def

lemma demo_request_run:
  "bytes_at (heap_of w) p \<noteq> [] \<Longrightarrow>
   demo_lib ''PEM_read_bio_X509_REQ'' (p # args) w =
     ((CPtr (fresh_ptr w), []),
      w\<lparr>w_objs := (Suc (fresh_ptr w), OName (fst (pem_req demo_pem []))) #
         (fresh_ptr w, OReq (CPtr (Suc (fresh_ptr w))) (snd (pem_req demo_pem []))) # w_objs w\<rparr>)"
  by (simp add: demo_lib_def Let_def demo_pem_def)

lemma demo_issue_fst: "fst (create_db_certificate demo_env demo_ca demo_start) = Ok (7, [2], [1, 7])"
  by (simp add: run_defs and_then_def on_err_def ccall_def demo_defs assert_that_def cstring_new_def
      random_u32_def has_nul_def c_int_max_def blank_cert_def cong: state_cong)

lemma demo_sign_fst: "\<not> has_nul intent \<Longrightarrow> is_ok (fst (sign_certificate demo_env demo_ca [5] intent demo_start))"
  unfolding has_nul_def
  by (simp add: run_defs and_then_def on_err_def ccall_def demo_defs assert_that_def cstring_new_def
      new_v4_def has_nul_def c_int_max_def blank_cert_def demo_request_run index_from_def nid_defs ok_or_def
      entries_by_nid_def Let_def upt_rec cong: state_cong)

end
