(* ===== verification/Rust_Text.thy ===== *)
theory Rust_Text
  imports Rust_Prelude
begin

text \<open>
  The operations on strings of Rust's standard library that the build scripts and the extension texts
  use: \<open>contains\<close>, \<open>split\<close> on a character, \<open>join\<close>, \<open>to_uppercase\<close> and \<open>replace\<close> on ASCII, and the
  lossy conversion of an \<open>OsString\<close>.

  The lemmas: \<open>contains\<close> is the infix relation; a text that has no separator in it is contained in a
  string exactly if it is contained in one of the parts the string is split into; \<open>split\<close> undoes
  \<open>join\<close>.
\<close>

subsection \<open>Functions\<close>

fun contains :: "string \<Rightarrow> string \<Rightarrow> bool" where
  "contains [] p = (p = [])"
| "contains (c # s) p = (starts_with (c # s) p \<or> contains s p)"

fun split_on :: "char \<Rightarrow> string \<Rightarrow> string list" where
  "split_on c [] = [[]]"
| "split_on c (x # xs) =
     (if x = c then [] # split_on c xs
      else case split_on c xs of [] \<Rightarrow> [[x]] | y # ys \<Rightarrow> (x # y) # ys)"

fun join_with :: "string \<Rightarrow> string list \<Rightarrow> string" where
  "join_with sep [] = ''''"
| "join_with sep [x] = x"
| "join_with sep (x # y # ys) = x @ sep @ join_with sep (y # ys)"

definition ascii_upper :: "char \<Rightarrow> char" where
  "ascii_upper c =
     (let n = of_char c :: nat in if 97 \<le> n \<and> n \<le> 122 then char_of (n - 32) else c)"

definition to_uppercase :: "string \<Rightarrow> string" where
  "to_uppercase s = map ascii_upper s"

definition is_lowercase :: "char \<Rightarrow> bool" where
  "is_lowercase c = (let n = of_char c :: nat in 97 \<le> n \<and> n \<le> 122)"

definition replace_char :: "char \<Rightarrow> char \<Rightarrow> string \<Rightarrow> string" where
  "replace_char a b s = map (\<lambda>c. if c = a then b else c) s"

text \<open>Lines of a text, each ended by a newline.\<close>

definition unlines :: "string list \<Rightarrow> string" where
  "unlines ls = concat (map (\<lambda>l. l @ [CHR 0x0A]) ls)"

text \<open>
  \<open>OsStr::to_string_lossy\<close>: every maximal part that starts no valid sequence becomes U+FFFD. The
  helper \<open>utf8_span\<close> is the number of bytes at the front, and whether they are one character.
\<close>

definition second_ok :: "nat \<Rightarrow> nat \<Rightarrow> bool" where
  "second_ok b c =
     (cont c \<and> (b = 0xE0 \<longrightarrow> 0xA0 \<le> c) \<and> (b = 0xED \<longrightarrow> c < 0xA0) \<and>
      (b = 0xF0 \<longrightarrow> 0x90 \<le> c) \<and> (b = 0xF4 \<longrightarrow> c < 0x90))"

definition utf8_width :: "nat \<Rightarrow> nat" where
  "utf8_width b =
     (if b < 0x80 then 1 else if 0xC2 \<le> b \<and> b < 0xE0 then 2
      else if 0xE0 \<le> b \<and> b < 0xF0 then 3 else if 0xF0 \<le> b \<and> b < 0xF5 then 4 else 0)"

definition utf8_span :: "nat \<Rightarrow> nat list \<Rightarrow> nat \<times> bool" where
  "utf8_span b bs =
     (let w = utf8_width b;
          follow = (case bs of [] \<Rightarrow> 0
                    | c # cs \<Rightarrow> if second_ok b c then Suc (length (takeWhile cont (take (w - 2) cs))) else 0)
      in if w = 0 then (1, False) else if w = 1 then (1, True)
         else if Suc follow = w then (w, True) else (Suc follow, False))"

function utf8_lossy :: "nat list \<Rightarrow> nat list" where
  "utf8_lossy [] = []"
| "utf8_lossy (b # bs) =
     (let (n, valid) = utf8_span b bs
      in (if valid then take n (b # bs) else [0xEF, 0xBF, 0xBD]) @ utf8_lossy (drop (n - 1) bs))"
  by pat_completeness auto
termination by (relation "measure length") auto

definition to_string_lossy :: "string \<Rightarrow> string" where
  "to_string_lossy s = map char_of (utf8_lossy (map of_char s))"

subsection \<open>Infixes\<close>

lemma contains_iff: "contains s p \<longleftrightarrow> (\<exists>u v. s = u @ p @ v)"
proof (induction s)
  case (Cons c s)
  note IH = Cons.IH
  show ?case
  proof
    assume "contains (c # s) p"
    then consider "starts_with (c # s) p" | "contains s p" by auto
    then show "\<exists>u v. c # s = u @ p @ v"
    proof cases
      case 1
      then show ?thesis using starts_with_iff by (metis append_Nil)
    next
      case 2
      then show ?thesis using Cons.IH by (metis append_Cons)
    qed
  next
    assume "\<exists>u v. c # s = u @ p @ v"
    then obtain u v where *: "c # s = u @ p @ v" by blast
    show "contains (c # s) p"
    proof (cases u)
      case Nil
      with * have "starts_with (c # s) p" by (auto simp: starts_with_iff)
      then show ?thesis by simp
    next
      case (Cons a us)
      with * have "s = us @ p @ v" by simp
      then have "contains s p" using IH by blast
      then show ?thesis by simp
    qed
  qed
qed auto

lemma contains_self [simp]: "contains s s"
  by (metis append_Nil append_Nil2 contains_iff)

lemma contains_set: "contains s p \<Longrightarrow> set p \<subseteq> set s"
  by (auto simp: contains_iff)

lemma contains_length: "contains s p \<Longrightarrow> length p \<le> length s"
  by (auto simp: contains_iff)

lemma contains_trans: "contains s p \<Longrightarrow> contains p q \<Longrightarrow> contains s q"
  unfolding contains_iff by (metis append.assoc)

subsection \<open>Splitting and joining\<close>

lemma split_on_nonempty [simp]: "split_on c s \<noteq> []"
  by (induction c s rule: split_on.induct) (auto split: list.split)

lemma split_on_free: "c \<notin> set x \<Longrightarrow> split_on c x = [x]"
  by (induction x) auto

lemma split_on_append: "c \<notin> set x \<Longrightarrow> split_on c (x @ c # s) = x # split_on c s"
  by (induction x) auto

lemma split_on_join:
  "xs \<noteq> [] \<Longrightarrow> \<forall>x \<in> set xs. c \<notin> set x \<Longrightarrow> split_on c (join_with [c] xs) = xs"
  by (induction "[c]" xs rule: join_with.induct) (auto simp: split_on_free split_on_append)

lemma join_with_snoc:
  "join_with sep (xs @ [e]) = (if xs = [] then e else join_with sep xs @ sep @ e)"
  by (induction sep xs rule: join_with.induct) auto

lemma split_on_unlines:
  "\<forall>l \<in> set ls. CHR 0x0A \<notin> set l \<Longrightarrow> split_on (CHR 0x0A) (unlines ls) = ls @ [[]]"
  by (induction ls) (auto simp: unlines_def split_on_append)

lemma starts_with_append_sep: "c \<notin> set p \<Longrightarrow> starts_with (x @ c # s) p \<longleftrightarrow> starts_with x p"
proof (induction x arbitrary: p)
  case Nil
  then show ?case by (cases p) (auto simp: starts_with_def)
next
  case (Cons a x)
  then show ?case by (cases p) (auto simp: starts_with_def)
qed

lemma contains_append_sep:
  assumes "c \<notin> set p" "p \<noteq> []"
  shows "contains (x @ c # s) p \<longleftrightarrow> contains x p \<or> contains s p"
proof (induction x)
  case Nil
  then show ?case using assms starts_with_append_sep [of c p "[]" s] by (simp add: starts_with_def)
next
  case (Cons a x)
  then show ?case using starts_with_append_sep [OF assms(1), of "a # x" s] by simp
qed

lemma contains_by_parts:
  assumes "c \<notin> set p" "p \<noteq> []"
  shows "contains s p \<longleftrightarrow> (\<exists>l \<in> set (split_on c s). contains l p)"
proof (induction "length s" arbitrary: s rule: less_induct)
  case less
  show ?case
  proof (cases "c \<in> set s")
    case True
    then obtain x t where s: "s = x @ c # t" "c \<notin> set x" using split_list_first [OF True] by blast
    have "contains t p \<longleftrightarrow> (\<exists>l \<in> set (split_on c t). contains l p)" using s by (intro less) simp
    then show ?thesis using s by (simp add: contains_append_sep [OF assms] split_on_append)
  qed (simp add: split_on_free)
qed

end
