(* ===== verification/Ossl_Extension.thy ===== *)
theory Ossl_Extension
  imports Ossl_X509 Rust_Text
begin

text \<open>
  Certificate extensions: \<open>openssl/src/x509/extension.rs\<close> and the collection \<open>Extensions\<close> with
  the deprecated \<open>X509Generator\<close> of \<open>openssl/src/x509/mod.rs\<close>. An extension is handed to
  OpenSSL as a configuration string, a comma-separated list; the builders assemble it with the
  helper \<open>append\<close>, the old enum with the helper \<open>join\<close>.

  The locale \<open>comma_list\<close> is the contract the builders share: the value is the list of their
  elements, joined by commas. Every builder is an instance. The collection is refined against a
  list in which an extension replaces the one of its type in place.
\<close>

subsection \<open>Extensions as an enum\<close>

datatype ExtensionType =
    TKeyUsage | TExtKeyUsage | TSubjectAltName | TIssuerAltName | TOtherNid nid | TOtherStr string

datatype KeyUsageOption =
    DigitalSignature | NonRepudiation | KeyEncipherment | DataEncipherment | KeyAgreement
  | KeyCertSign | CRLSign | EncipherOnly | DecipherOnly

datatype ExtKeyUsageOption =
    ServerAuth | ClientAuth | CodeSigning | EmailProtection | TimeStamping | MsCodeInd | MsCodeCom
  | MsCtlSign | MsSgc | MsEfs | NsSgc | OtherUsage string

datatype AltNameOption = OtherName | Email | DNS | Directory | URI | IPAddress | RegisteredID

datatype Extension =
    KeyUsage "KeyUsageOption list"
  | ExtKeyUsage "ExtKeyUsageOption list"
  | SubjectAltName "(AltNameOption \<times> string) list"
  | IssuerAltName "(AltNameOption \<times> string) list"
  | OtherNid nid string
  | OtherStr string string

fun get_type :: "Extension \<Rightarrow> ExtensionType" where
  "get_type (KeyUsage _) = TKeyUsage"
| "get_type (ExtKeyUsage _) = TExtKeyUsage"
| "get_type (SubjectAltName _) = TSubjectAltName"
| "get_type (IssuerAltName _) = TIssuerAltName"
| "get_type (OtherNid n _) = TOtherNid n"
| "get_type (OtherStr s _) = TOtherStr s"

fun get_nid :: "ExtensionType \<Rightarrow> nid option" where
  "get_nid TKeyUsage = Some KEY_USAGE"
| "get_nid TExtKeyUsage = Some EXT_KEY_USAGE"
| "get_nid TSubjectAltName = Some SUBJECT_ALT_NAME"
| "get_nid TIssuerAltName = Some ISSUER_ALT_NAME"
| "get_nid (TOtherNid n) = Some n"
| "get_nid (TOtherStr _) = None"

fun get_name :: "ExtensionType \<Rightarrow> string option" where
  "get_name (TOtherStr s) = Some s"
| "get_name _ = None"

text \<open>\<open>join\<close> folds over the numbered items.\<close>

definition join :: "string list \<Rightarrow> string \<Rightarrow> string" where
  "join items sep =
     fold (\<lambda>(idx, v) acc. (if idx > 0 then acc @ sep else acc) @ v) (zip [0 ..< length items] items) ''''"

fun KeyUsageOption_fmt :: "KeyUsageOption \<Rightarrow> string" where
  "KeyUsageOption_fmt DigitalSignature = ''digitalSignature''"
| "KeyUsageOption_fmt NonRepudiation = ''nonRepudiation''"
| "KeyUsageOption_fmt KeyEncipherment = ''keyEncipherment''"
| "KeyUsageOption_fmt DataEncipherment = ''dataEncipherment''"
| "KeyUsageOption_fmt KeyAgreement = ''keyAgreement''"
| "KeyUsageOption_fmt KeyCertSign = ''keyCertSign''"
| "KeyUsageOption_fmt CRLSign = ''cRLSign''"
| "KeyUsageOption_fmt EncipherOnly = ''encipherOnly''"
| "KeyUsageOption_fmt DecipherOnly = ''decipherOnly''"

fun ExtKeyUsageOption_fmt :: "ExtKeyUsageOption \<Rightarrow> string" where
  "ExtKeyUsageOption_fmt ServerAuth = ''serverAuth''"
| "ExtKeyUsageOption_fmt ClientAuth = ''clientAuth''"
| "ExtKeyUsageOption_fmt CodeSigning = ''codeSigning''"
| "ExtKeyUsageOption_fmt EmailProtection = ''emailProtection''"
| "ExtKeyUsageOption_fmt TimeStamping = ''timeStamping''"
| "ExtKeyUsageOption_fmt MsCodeInd = ''msCodeInd''"
| "ExtKeyUsageOption_fmt MsCodeCom = ''msCodeCom''"
| "ExtKeyUsageOption_fmt MsCtlSign = ''msCTLSign''"
| "ExtKeyUsageOption_fmt MsSgc = ''msSGC''"
| "ExtKeyUsageOption_fmt MsEfs = ''msEFS''"
| "ExtKeyUsageOption_fmt NsSgc = ''nsSGC''"
| "ExtKeyUsageOption_fmt (OtherUsage s) = s"

fun AltNameOption_fmt :: "AltNameOption \<Rightarrow> string" where
  "AltNameOption_fmt OtherName = ''otherName''"
| "AltNameOption_fmt Email = ''email''"
| "AltNameOption_fmt DNS = ''DNS''"
| "AltNameOption_fmt Directory = ''dirName''"
| "AltNameOption_fmt URI = ''URI''"
| "AltNameOption_fmt IPAddress = ''IP''"
| "AltNameOption_fmt RegisteredID = ''RID''"

fun Extension_to_string :: "Extension \<Rightarrow> string" where
  "Extension_to_string (KeyUsage purposes) = join (map KeyUsageOption_fmt purposes) '',''"
| "Extension_to_string (ExtKeyUsage purposes) = join (map ExtKeyUsageOption_fmt purposes) '',''"
| "Extension_to_string (SubjectAltName names) =
     join (map (\<lambda>(opt, val). AltNameOption_fmt opt @ '':'' @ val) names) '',''"
| "Extension_to_string (IssuerAltName names) =
     join (map (\<lambda>(opt, val). AltNameOption_fmt opt @ '':'' @ val) names) '',''"
| "Extension_to_string (OtherNid _ val) = val"
| "Extension_to_string (OtherStr _ val) = val"

subsection \<open>The helper of the builders\<close>

type_synonym appender = "string \<times> bool"

definition append_elem :: "bool \<Rightarrow> string \<Rightarrow> appender \<Rightarrow> appender" where
  "append_elem should element a =
     (case a of (val, first) \<Rightarrow>
        if \<not> should then (val, first)
        else ((if \<not> first then val @ '','' else val) @ element, False))"

definition append_all :: "string list \<Rightarrow> appender \<Rightarrow> appender" where
  "append_all elements a = fold (append_elem True) elements a"

definition build_value :: "(appender \<Rightarrow> appender) \<Rightarrow> string" where
  "build_value f = fst (f ('''', True))"

subsection \<open>BasicConstraints\<close>

record BasicConstraints =
  bc_critical :: bool
  bc_ca :: bool
  bc_pathlen :: "u32 option"

definition BasicConstraints_new :: BasicConstraints where
  "BasicConstraints_new = \<lparr>bc_critical = False, bc_ca = False, bc_pathlen = None\<rparr>"

definition BasicConstraints_critical :: "BasicConstraints \<Rightarrow> BasicConstraints" where
  "BasicConstraints_critical b = b\<lparr>bc_critical := True\<rparr>"

definition BasicConstraints_ca :: "BasicConstraints \<Rightarrow> BasicConstraints" where
  "BasicConstraints_ca b = b\<lparr>bc_ca := True\<rparr>"

definition BasicConstraints_pathlen :: "BasicConstraints \<Rightarrow> u32 \<Rightarrow> BasicConstraints" where
  "BasicConstraints_pathlen b n = b\<lparr>bc_pathlen := Some n\<rparr>"

definition BasicConstraints_value :: "BasicConstraints \<Rightarrow> string" where
  "BasicConstraints_value b =
     (if bc_critical b then ''critical,'' else '''') @ ''CA:'' @ (if bc_ca b then ''TRUE'' else ''FALSE'') @
     (case bc_pathlen b of Some n \<Rightarrow> '',pathlen:'' @ show_nat (unat n) | None \<Rightarrow> '''')"

definition BasicConstraints_build :: "'w ffi \<Rightarrow> BasicConstraints \<Rightarrow> ('w, error_stack, cval) eff" where
  "BasicConstraints_build F b =
     X509Extension_new_nid F None None BASIC_CONSTRAINTS (BasicConstraints_value b)"

subsection \<open>KeyUsage\<close>

record KeyUsage =
  ku_critical :: bool
  ku_digital_signature :: bool
  ku_non_repudiation :: bool
  ku_key_encipherment :: bool
  ku_data_encipherment :: bool
  ku_key_agreement :: bool
  ku_key_cert_sign :: bool
  ku_crl_sign :: bool
  ku_encipher_only :: bool
  ku_decipher_only :: bool

definition KeyUsage_new :: KeyUsage where
  "KeyUsage_new = \<lparr>ku_critical = False,
     ku_digital_signature = False,
     ku_non_repudiation = False,
     ku_key_encipherment = False,
     ku_data_encipherment = False,
     ku_key_agreement = False,
     ku_key_cert_sign = False,
     ku_crl_sign = False,
     ku_encipher_only = False,
     ku_decipher_only = False\<rparr>"

definition KeyUsage_critical :: "KeyUsage \<Rightarrow> KeyUsage" where
  "KeyUsage_critical k = k\<lparr>ku_critical := True\<rparr>"

definition KeyUsage_digital_signature :: "KeyUsage \<Rightarrow> KeyUsage" where
  "KeyUsage_digital_signature k = k\<lparr>ku_digital_signature := True\<rparr>"

definition KeyUsage_non_repudiation :: "KeyUsage \<Rightarrow> KeyUsage" where
  "KeyUsage_non_repudiation k = k\<lparr>ku_non_repudiation := True\<rparr>"

definition KeyUsage_key_encipherment :: "KeyUsage \<Rightarrow> KeyUsage" where
  "KeyUsage_key_encipherment k = k\<lparr>ku_key_encipherment := True\<rparr>"

definition KeyUsage_data_encipherment :: "KeyUsage \<Rightarrow> KeyUsage" where
  "KeyUsage_data_encipherment k = k\<lparr>ku_data_encipherment := True\<rparr>"

definition KeyUsage_key_agreement :: "KeyUsage \<Rightarrow> KeyUsage" where
  "KeyUsage_key_agreement k = k\<lparr>ku_key_agreement := True\<rparr>"

definition KeyUsage_key_cert_sign :: "KeyUsage \<Rightarrow> KeyUsage" where
  "KeyUsage_key_cert_sign k = k\<lparr>ku_key_cert_sign := True\<rparr>"

definition KeyUsage_crl_sign :: "KeyUsage \<Rightarrow> KeyUsage" where
  "KeyUsage_crl_sign k = k\<lparr>ku_crl_sign := True\<rparr>"

definition KeyUsage_encipher_only :: "KeyUsage \<Rightarrow> KeyUsage" where
  "KeyUsage_encipher_only k = k\<lparr>ku_encipher_only := True\<rparr>"

definition KeyUsage_decipher_only :: "KeyUsage \<Rightarrow> KeyUsage" where
  "KeyUsage_decipher_only k = k\<lparr>ku_decipher_only := True\<rparr>"

definition KeyUsage_value :: "KeyUsage \<Rightarrow> string" where
  "KeyUsage_value k = build_value (\<lambda>a0.
     let a1 = append_elem (ku_critical k) ''critical'' a0;
         a2 = append_elem (ku_digital_signature k) ''digitalSignature'' a1;
         a3 = append_elem (ku_non_repudiation k) ''nonRepudiation'' a2;
         a4 = append_elem (ku_key_encipherment k) ''keyEncipherment'' a3;
         a5 = append_elem (ku_data_encipherment k) ''dataEncipherment'' a4;
         a6 = append_elem (ku_key_agreement k) ''keyAgreement'' a5;
         a7 = append_elem (ku_key_cert_sign k) ''keyCertSign'' a6;
         a8 = append_elem (ku_crl_sign k) ''cRLSign'' a7;
         a9 = append_elem (ku_encipher_only k) ''encipherOnly'' a8;
         a10 = append_elem (ku_decipher_only k) ''decipherOnly'' a9
     in a10)"

definition KeyUsage_build :: "'w ffi \<Rightarrow> KeyUsage \<Rightarrow> ('w, error_stack, cval) eff" where
  "KeyUsage_build F k = X509Extension_new_nid F None None KEY_USAGE (KeyUsage_value k)"

subsection \<open>ExtendedKeyUsage\<close>

record ExtendedKeyUsage =
  eku_critical :: bool
  eku_server_auth :: bool
  eku_client_auth :: bool
  eku_code_signing :: bool
  eku_email_protection :: bool
  eku_time_stamping :: bool
  eku_ms_code_ind :: bool
  eku_ms_code_com :: bool
  eku_ms_ctl_sign :: bool
  eku_ms_sgc :: bool
  eku_ms_efs :: bool
  eku_ns_sgc :: bool
  eku_other :: "string list"

definition ExtendedKeyUsage_new :: ExtendedKeyUsage where
  "ExtendedKeyUsage_new = \<lparr>eku_critical = False,
     eku_server_auth = False,
     eku_client_auth = False,
     eku_code_signing = False,
     eku_email_protection = False,
     eku_time_stamping = False,
     eku_ms_code_ind = False,
     eku_ms_code_com = False,
     eku_ms_ctl_sign = False,
     eku_ms_sgc = False,
     eku_ms_efs = False,
     eku_ns_sgc = False, eku_other = []\<rparr>"

definition ExtendedKeyUsage_critical :: "ExtendedKeyUsage \<Rightarrow> ExtendedKeyUsage" where
  "ExtendedKeyUsage_critical k = k\<lparr>eku_critical := True\<rparr>"

definition ExtendedKeyUsage_server_auth :: "ExtendedKeyUsage \<Rightarrow> ExtendedKeyUsage" where
  "ExtendedKeyUsage_server_auth k = k\<lparr>eku_server_auth := True\<rparr>"

definition ExtendedKeyUsage_client_auth :: "ExtendedKeyUsage \<Rightarrow> ExtendedKeyUsage" where
  "ExtendedKeyUsage_client_auth k = k\<lparr>eku_client_auth := True\<rparr>"

definition ExtendedKeyUsage_code_signing :: "ExtendedKeyUsage \<Rightarrow> ExtendedKeyUsage" where
  "ExtendedKeyUsage_code_signing k = k\<lparr>eku_code_signing := True\<rparr>"

definition ExtendedKeyUsage_time_stamping :: "ExtendedKeyUsage \<Rightarrow> ExtendedKeyUsage" where
  "ExtendedKeyUsage_time_stamping k = k\<lparr>eku_time_stamping := True\<rparr>"

definition ExtendedKeyUsage_ms_code_ind :: "ExtendedKeyUsage \<Rightarrow> ExtendedKeyUsage" where
  "ExtendedKeyUsage_ms_code_ind k = k\<lparr>eku_ms_code_ind := True\<rparr>"

definition ExtendedKeyUsage_ms_code_com :: "ExtendedKeyUsage \<Rightarrow> ExtendedKeyUsage" where
  "ExtendedKeyUsage_ms_code_com k = k\<lparr>eku_ms_code_com := True\<rparr>"

definition ExtendedKeyUsage_ms_ctl_sign :: "ExtendedKeyUsage \<Rightarrow> ExtendedKeyUsage" where
  "ExtendedKeyUsage_ms_ctl_sign k = k\<lparr>eku_ms_ctl_sign := True\<rparr>"

definition ExtendedKeyUsage_ms_sgc :: "ExtendedKeyUsage \<Rightarrow> ExtendedKeyUsage" where
  "ExtendedKeyUsage_ms_sgc k = k\<lparr>eku_ms_sgc := True\<rparr>"

definition ExtendedKeyUsage_ms_efs :: "ExtendedKeyUsage \<Rightarrow> ExtendedKeyUsage" where
  "ExtendedKeyUsage_ms_efs k = k\<lparr>eku_ms_efs := True\<rparr>"

definition ExtendedKeyUsage_ns_sgc :: "ExtendedKeyUsage \<Rightarrow> ExtendedKeyUsage" where
  "ExtendedKeyUsage_ns_sgc k = k\<lparr>eku_ns_sgc := True\<rparr>"

definition ExtendedKeyUsage_other :: "ExtendedKeyUsage \<Rightarrow> string \<Rightarrow> ExtendedKeyUsage" where
  "ExtendedKeyUsage_other k s = k\<lparr>eku_other := eku_other k @ [s]\<rparr>"

definition ExtendedKeyUsage_value :: "ExtendedKeyUsage \<Rightarrow> string" where
  "ExtendedKeyUsage_value k = build_value (\<lambda>a0.
     let a1 = append_elem (eku_critical k) ''critical'' a0;
         a2 = append_elem (eku_server_auth k) ''serverAuth'' a1;
         a3 = append_elem (eku_client_auth k) ''clientAuth'' a2;
         a4 = append_elem (eku_code_signing k) ''codeSigning'' a3;
         a5 = append_elem (eku_email_protection k) ''emailProtection'' a4;
         a6 = append_elem (eku_time_stamping k) ''timeStamping'' a5;
         a7 = append_elem (eku_ms_code_ind k) ''msCodeInd'' a6;
         a8 = append_elem (eku_ms_code_com k) ''msCodeCom'' a7;
         a9 = append_elem (eku_ms_ctl_sign k) ''msCTLSign'' a8;
         a10 = append_elem (eku_ms_sgc k) ''msSGC'' a9;
         a11 = append_elem (eku_ms_efs k) ''msEFS'' a10;
         a12 = append_elem (eku_ns_sgc k) ''nsSGC'' a11
     in append_all (eku_other k) a12)"

definition ExtendedKeyUsage_build :: "'w ffi \<Rightarrow> ExtendedKeyUsage \<Rightarrow> ('w, error_stack, cval) eff" where
  "ExtendedKeyUsage_build F k =
     X509Extension_new_nid F None None EXT_KEY_USAGE (ExtendedKeyUsage_value k)"

subsection \<open>Key identifiers\<close>

record SubjectKeyIdentifier =
  ski_critical :: bool

definition SubjectKeyIdentifier_new :: SubjectKeyIdentifier where
  "SubjectKeyIdentifier_new = \<lparr>ski_critical = False\<rparr>"

definition SubjectKeyIdentifier_critical :: "SubjectKeyIdentifier \<Rightarrow> SubjectKeyIdentifier" where
  "SubjectKeyIdentifier_critical k = k\<lparr>ski_critical := True\<rparr>"

definition SubjectKeyIdentifier_value :: "SubjectKeyIdentifier \<Rightarrow> string" where
  "SubjectKeyIdentifier_value k =
     build_value (\<lambda>a0. append_elem True ''hash'' (append_elem (ski_critical k) ''critical'' a0))"

definition SubjectKeyIdentifier_build ::
  "'w ffi \<Rightarrow> SubjectKeyIdentifier \<Rightarrow> cval \<Rightarrow> ('w, error_stack, cval) eff" where
  "SubjectKeyIdentifier_build F k ctx =
     X509Extension_new_nid F None (Some ctx) SUBJECT_KEY_IDENTIFIER (SubjectKeyIdentifier_value k)"

record AuthorityKeyIdentifier =
  aki_critical :: bool
  aki_keyid :: "bool option"
  aki_issuer :: "bool option"

definition AuthorityKeyIdentifier_new :: AuthorityKeyIdentifier where
  "AuthorityKeyIdentifier_new = \<lparr>aki_critical = False, aki_keyid = None, aki_issuer = None\<rparr>"

definition AuthorityKeyIdentifier_critical :: "AuthorityKeyIdentifier \<Rightarrow> AuthorityKeyIdentifier" where
  "AuthorityKeyIdentifier_critical k = k\<lparr>aki_critical := True\<rparr>"

definition AuthorityKeyIdentifier_keyid :: "AuthorityKeyIdentifier \<Rightarrow> bool \<Rightarrow> AuthorityKeyIdentifier" where
  "AuthorityKeyIdentifier_keyid k always = k\<lparr>aki_keyid := Some always\<rparr>"

definition AuthorityKeyIdentifier_issuer :: "AuthorityKeyIdentifier \<Rightarrow> bool \<Rightarrow> AuthorityKeyIdentifier" where
  "AuthorityKeyIdentifier_issuer k always = k\<lparr>aki_issuer := Some always\<rparr>"

definition AuthorityKeyIdentifier_value :: "AuthorityKeyIdentifier \<Rightarrow> string" where
  "AuthorityKeyIdentifier_value k = build_value (\<lambda>a0.
     let a1 = append_elem (aki_critical k) ''critical'' a0;
         a2 = (case aki_keyid k of
                 Some True \<Rightarrow> append_elem True ''keyid:always'' a1
               | Some False \<Rightarrow> append_elem True ''keyid'' a1
               | None \<Rightarrow> a1)
     in case aki_issuer k of
          Some True \<Rightarrow> append_elem True ''issuer:always'' a2
        | Some False \<Rightarrow> append_elem True ''issuer'' a2
        | None \<Rightarrow> a2)"

definition AuthorityKeyIdentifier_build ::
  "'w ffi \<Rightarrow> AuthorityKeyIdentifier \<Rightarrow> cval \<Rightarrow> ('w, error_stack, cval) eff" where
  "AuthorityKeyIdentifier_build F k ctx =
     X509Extension_new_nid F None (Some ctx) AUTHORITY_KEY_IDENTIFIER (AuthorityKeyIdentifier_value k)"

subsection \<open>SubjectAlternativeName\<close>

record SubjectAlternativeName =
  san_critical :: bool
  san_names :: "string list"

definition SubjectAlternativeName_new :: SubjectAlternativeName where
  "SubjectAlternativeName_new = \<lparr>san_critical = False, san_names = []\<rparr>"

definition SubjectAlternativeName_critical :: "SubjectAlternativeName \<Rightarrow> SubjectAlternativeName" where
  "SubjectAlternativeName_critical k = k\<lparr>san_critical := True\<rparr>"

definition SubjectAlternativeName_email :: "SubjectAlternativeName \<Rightarrow> string \<Rightarrow> SubjectAlternativeName" where
  "SubjectAlternativeName_email k s = k\<lparr>san_names := san_names k @ [''email:'' @ s]\<rparr>"

definition SubjectAlternativeName_uri :: "SubjectAlternativeName \<Rightarrow> string \<Rightarrow> SubjectAlternativeName" where
  "SubjectAlternativeName_uri k s = k\<lparr>san_names := san_names k @ [''URI:'' @ s]\<rparr>"

definition SubjectAlternativeName_dns :: "SubjectAlternativeName \<Rightarrow> string \<Rightarrow> SubjectAlternativeName" where
  "SubjectAlternativeName_dns k s = k\<lparr>san_names := san_names k @ [''DNS:'' @ s]\<rparr>"

definition SubjectAlternativeName_rid :: "SubjectAlternativeName \<Rightarrow> string \<Rightarrow> SubjectAlternativeName" where
  "SubjectAlternativeName_rid k s = k\<lparr>san_names := san_names k @ [''RID:'' @ s]\<rparr>"

definition SubjectAlternativeName_ip :: "SubjectAlternativeName \<Rightarrow> string \<Rightarrow> SubjectAlternativeName" where
  "SubjectAlternativeName_ip k s = k\<lparr>san_names := san_names k @ [''IP:'' @ s]\<rparr>"

definition SubjectAlternativeName_dir_name :: "SubjectAlternativeName \<Rightarrow> string \<Rightarrow> SubjectAlternativeName" where
  "SubjectAlternativeName_dir_name k s = k\<lparr>san_names := san_names k @ [''dirName:'' @ s]\<rparr>"

definition SubjectAlternativeName_other_name :: "SubjectAlternativeName \<Rightarrow> string \<Rightarrow> SubjectAlternativeName" where
  "SubjectAlternativeName_other_name k s = k\<lparr>san_names := san_names k @ [''otherName:'' @ s]\<rparr>"

definition SubjectAlternativeName_value :: "SubjectAlternativeName \<Rightarrow> string" where
  "SubjectAlternativeName_value k =
     build_value (\<lambda>a0. append_all (san_names k) (append_elem (san_critical k) ''critical'' a0))"

definition SubjectAlternativeName_build ::
  "'w ffi \<Rightarrow> SubjectAlternativeName \<Rightarrow> cval \<Rightarrow> ('w, error_stack, cval) eff" where
  "SubjectAlternativeName_build F k ctx =
     X509Extension_new_nid F None (Some ctx) SUBJECT_ALT_NAME (SubjectAlternativeName_value k)"

subsection \<open>The collection\<close>

record Extensions =
  extensions :: "Extension list"
  indexes :: "ExtensionType \<Rightarrow> nat option"

definition Extensions_new :: Extensions where
  "Extensions_new = \<lparr>extensions = [], indexes = Map.empty\<rparr>"

text \<open>An index out of range is a panic, \<open>None\<close> here.\<close>

definition Extensions_add :: "Extensions \<Rightarrow> Extension \<Rightarrow> Extensions option" where
  "Extensions_add self ext =
     (let ext_type = get_type ext in
      case indexes self ext_type of
        Some index \<Rightarrow>
          if index < length (extensions self)
          then Some (self\<lparr>extensions := (extensions self)[index := ext]\<rparr>)
          else None
      | None \<Rightarrow>
          (let exts = extensions self @ [ext] in
           Some \<lparr>extensions = exts, indexes = (indexes self)(ext_type \<mapsto> length exts - 1)\<rparr>))"

record ExtensionsIter =
  current :: nat
  iter_extensions :: "Extension list"

definition Extensions_iter :: "Extensions \<Rightarrow> ExtensionsIter" where
  "Extensions_iter self = \<lparr>current = 0, iter_extensions = extensions self\<rparr>"

definition ExtensionsIter_next ::
  "ExtensionsIter \<Rightarrow> (ExtensionType \<times> Extension) option \<times> ExtensionsIter" where
  "ExtensionsIter_next it =
     (if current it < length (iter_extensions it)
      then let ext = iter_extensions it ! current it in
           (Some (get_type ext, ext), it\<lparr>current := current it + 1\<rparr>)
      else (None, it))"

text \<open>What a \<open>for\<close> loop over the iterator meets.\<close>

function iter_all :: "ExtensionsIter \<Rightarrow> (ExtensionType \<times> Extension) list" where
  "iter_all it =
     (case ExtensionsIter_next it of (None, _) \<Rightarrow> [] | (Some x, it') \<Rightarrow> x # iter_all it')"
  by pat_completeness auto

termination iter_all
  by (relation "measure (\<lambda>it. length (iter_extensions it) - current it)")
    (auto simp: ExtensionsIter_next_def Let_def split: if_splits)

declare iter_all.simps [simp del]

subsection \<open>X509Generator\<close>

record X509Generator =
  gen_days :: u32
  gen_names :: "(string \<times> string) list"
  gen_extensions :: Extensions
  gen_hash_type :: cval

definition X509Generator_new :: "'w ffi \<Rightarrow> ('w, error_stack, X509Generator) eff" where
  "X509Generator_new F =
     and_then (ccall F ''EVP_sha1'' []) (\<lambda>(md, _).
       ret \<lparr>gen_days = 365, gen_names = [], gen_extensions = Extensions_new, gen_hash_type = md\<rparr>)"

definition set_valid_period :: "X509Generator \<Rightarrow> u32 \<Rightarrow> X509Generator" where
  "set_valid_period g days = g\<lparr>gen_days := days\<rparr>"

definition add_name :: "X509Generator \<Rightarrow> string \<Rightarrow> string \<Rightarrow> X509Generator" where
  "add_name g attr_type attr_value = g\<lparr>gen_names := gen_names g @ [(attr_type, attr_value)]\<rparr>"

definition add_names :: "X509Generator \<Rightarrow> (string \<times> string) list \<Rightarrow> X509Generator" where
  "add_names g attrs = g\<lparr>gen_names := gen_names g @ attrs\<rparr>"

definition add_extension :: "X509Generator \<Rightarrow> Extension \<Rightarrow> X509Generator option" where
  "add_extension g ext =
     map_option (\<lambda>es. g\<lparr>gen_extensions := es\<rparr>) (Extensions_add (gen_extensions g) ext)"

fun add_extensions :: "X509Generator \<Rightarrow> Extension list \<Rightarrow> X509Generator option" where
  "add_extensions g [] = Some g"
| "add_extensions g (ext # exts) = Option.bind (add_extension g ext) (\<lambda>g'. add_extensions g' exts)"

definition set_sign_hash :: "X509Generator \<Rightarrow> cval \<Rightarrow> X509Generator" where
  "set_sign_hash g md = g\<lparr>gen_hash_type := md\<rparr>"

fun names_loop :: "'w ffi \<Rightarrow> cval \<Rightarrow> (string \<times> string) list \<Rightarrow> ('w, error_stack, unit) eff" where
  "names_loop F name [] = ret ()"
| "names_loop F name ((k, v) # names) =
     and_then (X509NameBuilder_append_entry_by_text F name k v) (\<lambda>_. names_loop F name names)"

fun extensions_loop ::
  "'w ffi \<Rightarrow> cval \<Rightarrow> (ExtensionType \<times> Extension) list \<Rightarrow> ('w, error_stack, unit) eff" where
  "extensions_loop F builder [] = ret ()"
| "extensions_loop F builder ((exttype, ext) # exts) =
     and_then
       (and_then (X509Builder_x509v3_context F builder None None) (\<lambda>ctx.
          case get_nid exttype of
            Some n \<Rightarrow> X509Extension_new_nid F None (Some ctx) n (Extension_to_string ext)
          | None \<Rightarrow>
              (case get_name exttype of
                 Some nm \<Rightarrow> X509Extension_new F None (Some ctx) nm (Extension_to_string ext)
               | None \<Rightarrow> panic))) (\<lambda>extension.
     and_then (X509Builder_append_extension F builder extension) (\<lambda>_.
       extensions_loop F builder exts))"

definition MSB_MAYBE_ZERO :: int where "MSB_MAYBE_ZERO = -1"

definition X509Generator_sign :: "'w ffi \<Rightarrow> X509Generator \<Rightarrow> cval \<Rightarrow> ('w, error_stack, cval) eff" where
  "X509Generator_sign F self p_key =
     and_then (X509Builder_new F) (\<lambda>builder.
     and_then (X509Builder_set_version F builder 2) (\<lambda>_.
     and_then (BigNum_new F) (\<lambda>serial.
     and_then (call_i F ''BN_rand'' [serial, CInt 128, CInt MSB_MAYBE_ZERO, CInt 0]) (\<lambda>_.
     and_then (BigNum_to_asn1_integer F serial) (\<lambda>serial.
     and_then (X509Builder_set_serial_number F builder serial) (\<lambda>_.
     and_then (Asn1Time_days_from_now F 0) (\<lambda>not_before.
     and_then (X509Builder_set_not_before F builder not_before) (\<lambda>_.
     and_then (Asn1Time_days_from_now F (gen_days self)) (\<lambda>not_after.
     and_then (X509Builder_set_not_after F builder not_after) (\<lambda>_.
     and_then (X509Builder_set_pubkey F builder p_key) (\<lambda>_.
     and_then (X509NameBuilder_new F) (\<lambda>name.
     and_then (if gen_names self = []
               then X509NameBuilder_append_entry_by_nid F name COMMONNAME ''rust-openssl''
               else names_loop F name (gen_names self)) (\<lambda>_.
     and_then (X509Builder_set_subject_name F builder name) (\<lambda>_.
     and_then (X509Builder_set_issuer_name F builder name) (\<lambda>_.
     and_then (extensions_loop F builder (iter_all (Extensions_iter (gen_extensions self)))) (\<lambda>_.
     and_then (X509Builder_sign F builder p_key (gen_hash_type self)) (\<lambda>_.
       ret builder)))))))))))))))))"

definition X509Generator_request :: "'w ffi \<Rightarrow> X509Generator \<Rightarrow> cval \<Rightarrow> ('w, error_stack, cval) eff" where
  "X509Generator_request F self p_key =
     and_then (X509Generator_sign F self p_key) (\<lambda>cert.
     and_then (call_p F ''X509_to_X509_REQ'' [cert, CNull, CNull]) (\<lambda>req.
     and_then (ccall F ''X509_get0_extensions'' [cert]) (\<lambda>(exts, _).
     and_then (if exts \<noteq> CNull then call_i F ''X509_REQ_add_extensions'' [req, exts] else ret ()) (\<lambda>_.
     and_then (call_i F ''X509_REQ_sign'' [req, p_key, gen_hash_type self]) (\<lambda>_.
       ret req)))))"

subsection \<open>Comma-separated lists\<close>

abbreviation comma_join :: "string list \<Rightarrow> string" where
  "comma_join \<equiv> join_with '',''"

abbreviation split_comma :: "string \<Rightarrow> string list" where
  "split_comma \<equiv> split_on (CHR '','')"

definition comma_free :: "string list \<Rightarrow> bool" where
  "comma_free xs \<longleftrightarrow> (\<forall>x \<in> set xs. CHR '','' \<notin> set x)"

lemma comma_free_Cons [simp]: "comma_free (x # xs) \<longleftrightarrow> CHR '','' \<notin> set x \<and> comma_free xs"
  by (auto simp: comma_free_def)

lemma comma_free_Nil [simp]: "comma_free []"
  by (simp add: comma_free_def)

lemma split_comma_join: "xs \<noteq> [] \<Longrightarrow> comma_free xs \<Longrightarrow> split_comma (comma_join xs) = xs"
  by (rule split_on_join) (simp_all add: comma_free_def)

lemmas comma_join_snoc = join_with_snoc [of "'',''"]

text \<open>What the accumulator of \<open>append\<close> stands for.\<close>

definition holds :: "string list \<Rightarrow> appender \<Rightarrow> bool" where
  "holds xs a \<longleftrightarrow> a = (comma_join xs, xs = [])"

lemma holds_start: "holds [] ('''', True)"
  by (simp add: holds_def)

lemma holds_append: "holds xs a \<Longrightarrow> holds (xs @ (if should then [e] else [])) (append_elem should e a)"
  by (simp add: holds_def append_elem_def comma_join_snoc)

lemma holds_append_all: "holds xs a \<Longrightarrow> holds (xs @ es) (append_all es a)"
proof (induction es arbitrary: xs a)
  case (Cons e es)
  from Cons.IH [OF holds_append [OF Cons.prems, of True e]] show ?case
    by (simp add: append_all_def)
qed (simp add: append_all_def)

lemma holds_value: "(\<And>a. holds [] a \<Longrightarrow> holds xs (f a)) \<Longrightarrow> build_value f = comma_join xs"
  using holds_start by (fastforce simp: build_value_def holds_def)

lemma join_comma: "join xs '','' = comma_join xs"
proof (induction xs rule: rev_induct)
  case (snoc x xs)
  then show ?case by (simp add: join_def comma_join_snoc)
qed (simp add: join_def)

locale comma_list =
  fixes elements :: "'b \<Rightarrow> string list" and val :: "'b \<Rightarrow> string"
  assumes value_is_join: "val b = comma_join (elements b)"
begin

lemma value_splits: "elements b \<noteq> [] \<Longrightarrow> comma_free (elements b) \<Longrightarrow> split_comma (val b) = elements b"
  by (simp add: value_is_join split_comma_join)

lemma value_determines:
  assumes "val b = val b'" "elements b \<noteq> []" "elements b' \<noteq> []" "comma_free (elements b)"
    "comma_free (elements b')"
  shows "elements b = elements b'"
  using assms value_splits by metis

end

text \<open>The flags of a builder with the words they stand for, and the elements they select.\<close>

definition KeyUsage_flags :: "KeyUsage \<Rightarrow> (bool \<times> string) list" where
  "KeyUsage_flags k =
     [(ku_critical k, ''critical''),
      (ku_digital_signature k, ''digitalSignature''),
      (ku_non_repudiation k, ''nonRepudiation''),
      (ku_key_encipherment k, ''keyEncipherment''),
      (ku_data_encipherment k, ''dataEncipherment''),
      (ku_key_agreement k, ''keyAgreement''),
      (ku_key_cert_sign k, ''keyCertSign''),
      (ku_crl_sign k, ''cRLSign''),
      (ku_encipher_only k, ''encipherOnly''),
      (ku_decipher_only k, ''decipherOnly'')]"

definition KeyUsage_elements :: "KeyUsage \<Rightarrow> string list" where
  "KeyUsage_elements k = map snd (filter fst (KeyUsage_flags k))"

definition ExtendedKeyUsage_flags :: "ExtendedKeyUsage \<Rightarrow> (bool \<times> string) list" where
  "ExtendedKeyUsage_flags k =
     [(eku_critical k, ''critical''),
      (eku_server_auth k, ''serverAuth''),
      (eku_client_auth k, ''clientAuth''),
      (eku_code_signing k, ''codeSigning''),
      (eku_email_protection k, ''emailProtection''),
      (eku_time_stamping k, ''timeStamping''),
      (eku_ms_code_ind k, ''msCodeInd''),
      (eku_ms_code_com k, ''msCodeCom''),
      (eku_ms_ctl_sign k, ''msCTLSign''),
      (eku_ms_sgc k, ''msSGC''),
      (eku_ms_efs k, ''msEFS''),
      (eku_ns_sgc k, ''nsSGC'')]"

definition ExtendedKeyUsage_elements :: "ExtendedKeyUsage \<Rightarrow> string list" where
  "ExtendedKeyUsage_elements k = map snd (filter fst (ExtendedKeyUsage_flags k)) @ eku_other k"

definition SubjectKeyIdentifier_elements :: "SubjectKeyIdentifier \<Rightarrow> string list" where
  "SubjectKeyIdentifier_elements k = (if ski_critical k then [''critical''] else []) @ [''hash'']"

definition AuthorityKeyIdentifier_elements :: "AuthorityKeyIdentifier \<Rightarrow> string list" where
  "AuthorityKeyIdentifier_elements k =
     (if aki_critical k then [''critical''] else []) @
     (case aki_keyid k of None \<Rightarrow> [] | Some always \<Rightarrow> [if always then ''keyid:always'' else ''keyid'']) @
     (case aki_issuer k of None \<Rightarrow> [] | Some always \<Rightarrow> [if always then ''issuer:always'' else ''issuer''])"

definition SubjectAlternativeName_elements :: "SubjectAlternativeName \<Rightarrow> string list" where
  "SubjectAlternativeName_elements k = (if san_critical k then [''critical''] else []) @ san_names k"

definition BasicConstraints_elements :: "BasicConstraints \<Rightarrow> string list" where
  "BasicConstraints_elements b =
     (if bc_critical b then [''critical''] else []) @ [''CA:'' @ (if bc_ca b then ''TRUE'' else ''FALSE'')] @
     (case bc_pathlen b of Some n \<Rightarrow> [''pathlen:'' @ show_nat (unat n)] | None \<Rightarrow> [])"

lemma holds_flag: "holds xs a \<Longrightarrow> xs @ (if s then [e] else []) = ys \<Longrightarrow> holds ys (append_elem s e a)"
  using holds_append by blast

lemma holds_flags:
  "holds xs a \<Longrightarrow> holds (xs @ map snd (filter fst ps)) (fold (\<lambda>(s, e). append_elem s e) ps a)"
proof (induction ps arbitrary: xs a)
  case (Cons p ps)
  obtain s e where p: "p = (s, e)" by fastforce
  from Cons.IH [OF holds_append [OF Cons.prems, of s e]] show ?case by (cases s) (simp_all add: p)
qed simp

interpretation key_usage: comma_list KeyUsage_elements KeyUsage_value
proof
  fix k
  have "KeyUsage_value k = build_value (fold (\<lambda>(s, e). append_elem s e) (KeyUsage_flags k))"
    by (simp add: KeyUsage_value_def KeyUsage_flags_def Let_def comp_def)
  then show "KeyUsage_value k = comma_join (KeyUsage_elements k)"
    using holds_value [of "KeyUsage_elements k"] holds_flags [of "[]"] by (simp add: KeyUsage_elements_def)
qed

interpretation ext_key_usage: comma_list ExtendedKeyUsage_elements ExtendedKeyUsage_value
proof
  fix k
  have "ExtendedKeyUsage_value k =
      build_value (append_all (eku_other k) \<circ> fold (\<lambda>(s, e). append_elem s e) (ExtendedKeyUsage_flags k))"
    by (simp add: ExtendedKeyUsage_value_def ExtendedKeyUsage_flags_def Let_def comp_def)
  then show "ExtendedKeyUsage_value k = comma_join (ExtendedKeyUsage_elements k)"
    using holds_value [of "ExtendedKeyUsage_elements k"] holds_append_all holds_flags [of "[]"]
    by (simp add: ExtendedKeyUsage_elements_def)
qed

interpretation subject_key_identifier: comma_list SubjectKeyIdentifier_elements SubjectKeyIdentifier_value
proof
  fix k
  show "SubjectKeyIdentifier_value k = comma_join (SubjectKeyIdentifier_elements k)"
    unfolding SubjectKeyIdentifier_value_def
    by (rule holds_value) (auto simp: SubjectKeyIdentifier_elements_def intro!: holds_flag)
qed

interpretation authority_key_identifier: comma_list AuthorityKeyIdentifier_elements AuthorityKeyIdentifier_value
proof
  fix k
  show "AuthorityKeyIdentifier_value k = comma_join (AuthorityKeyIdentifier_elements k)"
    unfolding AuthorityKeyIdentifier_value_def Let_def
    by (rule holds_value)
      (auto simp: AuthorityKeyIdentifier_elements_def holds_def append_elem_def split: option.split bool.split)
qed

interpretation subject_alternative_name: comma_list SubjectAlternativeName_elements SubjectAlternativeName_value
proof
  fix k
  show "SubjectAlternativeName_value k = comma_join (SubjectAlternativeName_elements k)"
    unfolding SubjectAlternativeName_value_def SubjectAlternativeName_elements_def
    by (rule holds_value, rule holds_append_all, rule holds_append [of "[]", simplified])
qed

interpretation basic_constraints: comma_list BasicConstraints_elements BasicConstraints_value
  by unfold_locales
    (auto simp: BasicConstraints_elements_def BasicConstraints_value_def split: option.split)


end
