(* ===== verification/Extension_Laws.thy ===== *)
theory Extension_Laws
  imports Ossl_Extension Ca_Laws
begin

text \<open>
  What the extension builders and the collection of extensions promise: the string handed to
  OpenSSL splits into exactly the elements that were set, and the collection of the deprecated
  generator keeps one extension of each type, in order of first insertion.
\<close>

subsection \<open>The collection, abstractly\<close>

text \<open>The list specification: an extension replaces the one of its type in place, or goes to the end.\<close>

fun place :: "Extension \<Rightarrow> Extension list \<Rightarrow> Extension list" where
  "place e [] = [e]"
| "place e (x # xs) = (if get_type x = get_type e then e # xs else x # place e xs)"

text \<open>The index maps every type to the position of its one extension.\<close>

definition Extensions_inv :: "Extensions \<Rightarrow> bool" where
  "Extensions_inv s \<longleftrightarrow>
     distinct (map get_type (extensions s)) \<and>
     (\<forall>t i. indexes s t = Some i \<longleftrightarrow> i < length (extensions s) \<and> get_type (extensions s ! i) = t)"

lemma place_fresh: "get_type e \<notin> get_type ` set xs \<Longrightarrow> place e xs = xs @ [e]"
  by (induction xs) auto

lemma place_at:
  "distinct (map get_type xs) \<Longrightarrow> i < length xs \<Longrightarrow> get_type (xs ! i) = get_type e \<Longrightarrow> place e xs = xs[i := e]"
proof (induction xs arbitrary: i)
  case (Cons x xs)
  show ?case
  proof (cases i)
    case (Suc j)
    with Cons.prems have "get_type e \<in> get_type ` set xs" by (metis imageI length_Cons not_less_eq nth_Cons_Suc nth_mem)
    with Suc Cons show ?thesis by auto
  qed (use Cons.prems in simp)
qed simp

lemma place_types: "map get_type (place e xs) =
    (if get_type e \<in> get_type ` set xs then map get_type xs else map get_type xs @ [get_type e])"
  by (induction xs) auto

lemma Extensions_new_inv: "Extensions_inv Extensions_new"
  by (simp add: Extensions_inv_def Extensions_new_def)

lemma Extensions_inv_index_None:
  "Extensions_inv s \<Longrightarrow> indexes s t = None \<longleftrightarrow> t \<notin> get_type ` set (extensions s)"
proof -
  assume "Extensions_inv s"
  then have "\<And>i. indexes s t = Some i \<longleftrightarrow> i < length (extensions s) \<and> get_type (extensions s ! i) = t"
    by (simp add: Extensions_inv_def)
  moreover have "indexes s t = None \<longleftrightarrow> (\<nexists>i. indexes s t = Some i)" by simp
  ultimately show ?thesis by (metis (no_types, lifting) image_iff in_set_conv_nth)
qed

text \<open>An extension added to a well-formed collection: the addition never indexes out of range, and
  the new collection is well-formed and lists what the specification lists.\<close>

lemma Extensions_add_refines:
  assumes inv: "Extensions_inv s"
  obtains s' where "Extensions_add s e = Some s'" "Extensions_inv s'"
    "extensions s' = place e (extensions s)"
proof (cases "indexes s (get_type e)")
  case None
  let ?s = "\<lparr>extensions = extensions s @ [e],
    indexes = (indexes s)(get_type e \<mapsto> length (extensions s))\<rparr>"
  have fresh: "get_type e \<notin> get_type ` set (extensions s)"
    using None inv by (simp add: Extensions_inv_index_None)
  have "Extensions_inv ?s"
  proof -
    have "\<And>i. i < length (extensions s) \<Longrightarrow> get_type (extensions s ! i) \<noteq> get_type e"
      using fresh by (metis imageI nth_mem)
    then show ?thesis using inv fresh by (auto simp: Extensions_inv_def nth_append less_Suc_eq)
  qed
  with None fresh show thesis
    by (intro that [of ?s]) (simp_all add: Extensions_add_def place_fresh)
next
  case (Some i)
  let ?s = "s\<lparr>extensions := (extensions s)[i := e]\<rparr>"
  have i: "i < length (extensions s)" "get_type (extensions s ! i) = get_type e"
    using Some inv by (auto simp: Extensions_inv_def)
  then have same: "map get_type ((extensions s)[i := e]) = map get_type (extensions s)"
    by (metis list_update_id map_update nth_map)
  then have "\<And>j. j < length (extensions s) \<Longrightarrow>
      get_type ((extensions s)[i := e] ! j) = get_type (extensions s ! j)"
    by (metis length_list_update nth_map)
  then have "Extensions_inv ?s"
    using inv same by (auto simp: Extensions_inv_def)
  moreover have "place e (extensions s) = (extensions s)[i := e]"
    using inv by (intro place_at i) (simp add: Extensions_inv_def)
  ultimately show thesis
    using Some i by (intro that [of ?s]) (simp_all add: Extensions_add_def)
qed

lemma iter_all_drop:
  "i \<le> length xs \<Longrightarrow>
   iter_all \<lparr>current = i, iter_extensions = xs\<rparr> = map (\<lambda>e. (get_type e, e)) (drop i xs)"
proof (induction "length xs - i" arbitrary: i)
  case 0
  then show ?case by (subst iter_all.simps) (simp add: ExtensionsIter_next_def)
next
  case (Suc n)
  then have i: "i < length xs" by simp
  have "iter_all \<lparr>current = Suc i, iter_extensions = xs\<rparr> = map (\<lambda>e. (get_type e, e)) (drop (Suc i) xs)"
    using Suc.hyps i by (intro Suc.hyps(1)) auto
  with i show ?case
    by (subst iter_all.simps) (simp add: ExtensionsIter_next_def Let_def Cons_nth_drop_Suc [symmetric])
qed

lemma iter_all_extensions: "iter_all (Extensions_iter s) = map (\<lambda>e. (get_type e, e)) (extensions s)"
  by (simp add: Extensions_iter_def iter_all_drop)

lemma fold_place_types: "set (map get_type (fold place es xs)) = get_type ` set es \<union> get_type ` set xs"
  by (induction es arbitrary: xs) (auto simp: place_types simp flip: set_map)

lemma add_extensions_refines:
  assumes "Extensions_inv (gen_extensions g)"
  obtains s where "add_extensions g es = Some (g\<lparr>gen_extensions := s\<rparr>)" "Extensions_inv s"
    "extensions s = fold place es (extensions (gen_extensions g))"
  using assms
proof (induction es arbitrary: g thesis)
  case Nil
  from Nil.prems(1) [of "gen_extensions g"] Nil.prems(2) show ?case by simp
next
  case (Cons e es)
  obtain s1 where s1: "Extensions_add (gen_extensions g) e = Some s1" "Extensions_inv s1"
    "extensions s1 = place e (extensions (gen_extensions g))"
    using Extensions_add_refines [OF Cons.prems(2)] by blast
  obtain s where "add_extensions (g\<lparr>gen_extensions := s1\<rparr>) es = Some (g\<lparr>gen_extensions := s\<rparr>)"
    "Extensions_inv s" "extensions s = fold place es (extensions s1)"
    using Cons.IH [of "g\<lparr>gen_extensions := s1\<rparr>"] s1(2) by auto
  with s1 show ?case by (intro Cons.prems(1) [of s]) (simp_all add: add_extension_def)
qed

lemma last_of_type: "t \<in> get_type ` set es \<Longrightarrow> get_type (last (filter (\<lambda>e. get_type e = t) es)) = t"
proof -
  assume "t \<in> get_type ` set es"
  then have "filter (\<lambda>e. get_type e = t) es \<noteq> []" by (auto simp: filter_empty_conv)
  from last_in_set [OF this] show ?thesis by simp
qed

lemma fold_place_last:
  "fold place es [] =
   map (\<lambda>t. last (filter (\<lambda>e. get_type e = t) es)) (rev (remdups (rev (map get_type es))))"
proof (induction es rule: rev_induct)
  case (snoc e es)
  let ?l = "\<lambda>es t. last (filter (\<lambda>e. get_type e = t) es)"
  have other: "?l (es @ [e]) t = (if t = get_type e then e else ?l es t)" for t by simp
  have replace: "distinct ts \<Longrightarrow> \<forall>t \<in> set ts. get_type (?l es t) = t \<Longrightarrow>
      place e (map (?l es) ts) = map (?l (es @ [e])) (if get_type e \<in> set ts then ts else ts @ [get_type e])" for ts
    by (induction ts) (auto simp: other intro!: map_cong)
  show ?case
    using replace [of "rev (remdups (rev (map get_type es)))"] last_of_type [of _ es] by (simp add: snoc)
qed simp

text \<open>
  C10: the collection of the certificate generator. Whatever extensions are added, in whatever
  order, no addition indexes out of range, the index stays exact, and the iteration that signing
  performs meets every type that was added once, in order of its first addition, with the
  extension of that type that was added last.
\<close>

theorem generator_keeps_last_of_each_type:
  "\<exists>s. add_extensions (g\<lparr>gen_extensions := Extensions_new\<rparr>) es = Some (g\<lparr>gen_extensions := s\<rparr>) \<and>
     Extensions_inv s \<and>
     iter_all (Extensions_iter s) =
       map (\<lambda>t. (t, last (filter (\<lambda>e. get_type e = t) es))) (rev (remdups (rev (map get_type es))))"
proof -
  let ?g = "g\<lparr>gen_extensions := Extensions_new\<rparr>"
  have inv: "Extensions_inv (gen_extensions ?g)" by (simp add: Extensions_new_inv)
  obtain s where s: "add_extensions ?g es = Some (?g\<lparr>gen_extensions := s\<rparr>)" "Extensions_inv s"
    "extensions s = fold place es (extensions (gen_extensions ?g))"
    by (rule add_extensions_refines [OF inv])
  have "extensions s = fold place es []" by (simp add: s(3) Extensions_new_def)
  then have "iter_all (Extensions_iter s) =
      map (\<lambda>t. (t, last (filter (\<lambda>e. get_type e = t) es))) (rev (remdups (rev (map get_type es))))"
    by (auto simp: iter_all_extensions fold_place_last last_of_type)
  with s(1,2) show ?thesis by auto
qed


subsection \<open>What the builders' strings say\<close>

lemma KeyUsage_words: "p \<in> set (KeyUsage_flags k) \<Longrightarrow> CHR '','' \<notin> set (snd p) \<and> snd p \<noteq> ''''"
  by (auto simp: KeyUsage_flags_def)

lemma KeyUsage_comma_free: "comma_free (KeyUsage_elements k)"
  using KeyUsage_words [of _ k] by (auto simp: comma_free_def KeyUsage_elements_def)

lemma KeyUsage_elements_nonempty: "x \<in> set (KeyUsage_elements k) \<Longrightarrow> x \<noteq> ''''"
  using KeyUsage_words [of _ k] by (auto simp: KeyUsage_elements_def)

lemma KeyUsage_value_Nil: "KeyUsage_elements k = [] \<longleftrightarrow> KeyUsage_value k = ''''"
proof
  assume "KeyUsage_value k = ''''"
  then have "comma_join (KeyUsage_elements k) = ''''" by (simp add: key_usage.value_is_join)
  then show "KeyUsage_elements k = []"
    using KeyUsage_elements_nonempty [of _ k]
    by (cases "KeyUsage_elements k" rule: remdups_adj.cases) auto
qed (simp add: key_usage.value_is_join)

lemma KeyUsage_elements_inject:
  assumes "KeyUsage_elements k = KeyUsage_elements k'"
  shows "k = k'"
proof -
  have "set (KeyUsage_elements k) = set (KeyUsage_elements k')" using assms by simp
  then have "\<And>w. (True, w) \<in> set (KeyUsage_flags k) \<longleftrightarrow> (True, w) \<in> set (KeyUsage_flags k')"
    by (auto simp: KeyUsage_elements_def image_iff set_eq_iff)
  note word = this
  show ?thesis
    using word [of "''critical''"] word [of "''digitalSignature''"] word [of "''nonRepudiation''"]
      word [of "''keyEncipherment''"] word [of "''dataEncipherment''"] word [of "''keyAgreement''"]
      word [of "''keyCertSign''"] word [of "''cRLSign''"] word [of "''encipherOnly''"] word [of "''decipherOnly''"]
    by (cases k; cases k') (simp add: KeyUsage_flags_def)
qed

text \<open>
  The key usage string. The string the builder hands to OpenSSL splits at its commas into
  exactly the words of the flags that were set, in their fixed order, and is empty exactly when no
  flag was; so no two different builders produce the same string.
\<close>

lemma key_usage_value_exact:
  "split_comma (KeyUsage_value k) =
     (if KeyUsage_elements k = [] then [''''] else map snd (filter fst (KeyUsage_flags k))) \<and>
   (KeyUsage_value k = KeyUsage_value k' \<longleftrightarrow> k = k')"
proof -
  have "KeyUsage_value k = KeyUsage_value k' \<Longrightarrow> k = k'"
    by (rule KeyUsage_elements_inject)
      (metis KeyUsage_comma_free KeyUsage_value_Nil key_usage.value_determines)
  then show ?thesis
    using KeyUsage_comma_free [of k] KeyUsage_value_Nil [of k]
    by (auto simp: key_usage.value_splits) (simp add: KeyUsage_elements_def)
qed

text \<open>
  The alternative name string. When no name contains a comma, the string of the builder splits
  into the word \<open>critical\<close>, if that was set, and the names in the order they were added.
\<close>

lemma alternative_names_split:
  assumes "comma_free (san_names k)" and "san_critical k \<or> san_names k \<noteq> []"
  shows "split_comma (SubjectAlternativeName_value k) =
    (if san_critical k then [''critical''] else []) @ san_names k"
  using assms subject_alternative_name.value_splits [of k]
  by (cases "san_critical k") (simp_all add: SubjectAlternativeName_elements_def)

lemma alternative_names_split_witness:
  "split_comma (SubjectAlternativeName_value \<lparr>san_critical = True, san_names = [''DNS:foo.com'', ''IP:10.0.0.1'']\<rparr>) =
     [''critical'', ''DNS:foo.com'', ''IP:10.0.0.1'']"
  using alternative_names_split [of "\<lparr>san_critical = True, san_names = [''DNS:foo.com'', ''IP:10.0.0.1'']\<rparr>"]
  by simp

text \<open>
  C23: the alternative name of a client certificate is not confined to the intent. When the intent
  a client sends contains \<open>,DNS:\<close> and a name, the certificate that is issued for it
  carries the very string of a builder to which the first part was added as the intent and the
  rest as a host name.
\<close>

theorem intent_injects_alternative_name:
  assumes law: "x509_law (foreign E) H pem" and uuid: "\<And>w. H (snd (uuid_v4 E w)) = H w"
    and ca: "H w (key_pair a) = Some (OKey (Some ca))"
    and run: "sign_certificate E a buf (i @ '',DNS:'' @ host) w = (Ok (rec, c), w')"
  shows "\<exists>content. cert_request c = pem_cert pem content \<and> x_sig content = Some (ca, ''sha256'') \<and>
    (SUBJECT_ALT_NAME, SubjectAlternativeName_value (SubjectAlternativeName_dns
       (SubjectAlternativeName_other_name SubjectAlternativeName_new (''1.3.6.1.4.1.99;UTF8:'' @ i)) host))
      \<in> set (x_exts content)"
proof -
  have "SubjectAlternativeName_value (SubjectAlternativeName_dns
       (SubjectAlternativeName_other_name SubjectAlternativeName_new (''1.3.6.1.4.1.99;UTF8:'' @ i)) host) =
     ''otherName:1.3.6.1.4.1.99;UTF8:'' @ i @ '',DNS:'' @ host"
    by (simp add: subject_alternative_name.value_is_join SubjectAlternativeName_elements_def
        SubjectAlternativeName_dns_def SubjectAlternativeName_other_name_def SubjectAlternativeName_new_def)
  with sign_certificate_issues [OF assms] show ?thesis by auto
qed

end
