(* ===== verification/Demo_Witnesses.thy ===== *)
theory Demo_Witnesses
  imports Demo_World Extension_Laws
begin

text \<open>
  The conditional theorems of the consent engine, the authority and the server, applied to runs
  of the program in the small world: a user is registered, asked about, listed, refused a second
  time and removed, and a client certificate is signed.
\<close>

subsection \<open>Runs\<close>

definition demo_issued :: world where
  "demo_issued = snd (create_db_certificate demo_env demo_ca demo_start)"

lemma demo_issue: "create_db_certificate demo_env demo_ca demo_start = (Ok (7, [2], [1, 7]), demo_issued)"
  using demo_issue_fst by (simp add: demo_issued_def prod_eq_iff)

lemma demo_lib_containers: "w_containers (snd (demo_lib f args w)) = w_containers w"
  by (auto simp: demo_lib_def Let_def split: option.split prod.split cval.split)

lemma content_start: "content_of demo_start = (\<lambda>_. [])"
  by (simp add: content_of_def demo_start_def fun_eq_iff)

lemma demo_issued_parts: "content_of demo_issued = (\<lambda>_. [])" "w_containers demo_issued = []"
proof -
  have "crypto_keeps (\<lambda>w. w_containers w = []) demo_env"
    by (simp add: crypto_keeps_def ffi_keeps_def demo_env_def demo_lib_containers)
  from keepsD [OF create_db_certificate_keeps [OF this], of demo_start demo_ca]
  show "w_containers demo_issued = []" by (simp add: demo_issued_def demo_start_def)
  from keepsD [OF create_db_certificate_keeps [OF demo_keeps_db(1)], of demo_start "\<lambda>_. []" demo_ca]
  show "content_of demo_issued = (\<lambda>_. [])" by (simp add: demo_issued_def content_start)
qed

definition alice :: consent where
  "alice = \<lparr>consent_id = ''alice'', serial_number = 7, purpose = [''research'']\<rparr>"

definition alice_view :: view where
  "alice_view = \<lparr>view_id = ''alice'', view_ip = ''ip of alice''\<rparr>"

definition demo_onboarded :: world where
  "demo_onboarded = set_coll ''consents'' [consent_doc alice]
     (set_coll ''view'' [view_doc alice_view] (demo_issued\<lparr>w_containers := [''alice'']\<rparr>))"

lemma content_containers [simp]: "content_of (w\<lparr>w_containers := cs\<rparr>) = content_of w"
  by (rule content_cong) simp

lemma demo_onboarded_content:
  "content_of demo_onboarded = (\<lambda>_. [])(''view'' := [view_doc alice_view], ''consents'' := [consent_doc alice])"
  by (simp add: demo_onboarded_def content_set_coll demo_issued_parts fun_upd_twist)

lemma demo_onboarded_containers: "w_containers demo_onboarded = [''alice'']"
  by (simp add: demo_onboarded_def set_coll_def)

lemma demo_onboard:
  "onboard_user demo_env demo_ca ''alice'' [''research''] demo_start = (Ok (), demo_onboarded)"
proof -
  have "verify_container_id demo_env ''alice'' demo_start = (Ok False, demo_start)"
    by (simp add: verify_container_id_def container_by_id_def demo_env_def demo_start_def and_then_def)
  moreover have "consent_based_view demo_env ''alice'' demo_start = (Err ''could not find it'', demo_start)"
    by (simp add: consent_based_view_def demo_env_def and_then_def content_start)
  moreover have "new_mountdir demo_env fs d w = (Ok (), w)" for fs d w
  proof -
    have "write_files demo_env d fs w = (Ok (), w)"
      by (induction demo_env d fs rule: write_files.induct) (simp_all add: demo_env_def and_then_def)
    then show ?thesis by (simp add: new_mountdir_def and_then_def demo_env_def)
  qed
  moreover have "new_container demo_env img n env w =
      (Ok (n, ''ip of '' @ n), w\<lparr>w_containers := w_containers w @ [n]\<rparr>)" for img n env w
    by (simp add: new_container_def and_then_def demo_env_def)
  moreover have "mongo_insert_one demo_env c d w = (Ok (), set_coll c [d] w)" if "content_of w c = []" for c d w
    using that by (simp add: demo_env_def)
  ultimately show ?thesis
    by (simp add: onboard_user_def and_then_def attempt_def demo_issue Let_def
        add_ops_insert [OF demo_mongo_law] demo_issued_parts content_set_coll demo_onboarded_def
        alice_def alice_view_def)
qed

lemma demo_onboard_again:
  "onboard_user demo_env demo_ca ''alice'' [] demo_onboarded = (Err ''user already exists'', demo_onboarded)"
  by (simp add: onboard_user_def verify_container_id_def container_by_id_def and_then_def
      demo_onboarded_containers demo_env_def)

definition demo_removed :: world where
  "demo_removed = snd (deboard_user demo_env ''alice'' demo_onboarded)"

lemma demo_deboard: "deboard_user demo_env ''alice'' demo_onboarded = (Ok (), demo_removed)"
  unfolding demo_removed_def
  by (simp add: deboard_user_def remove_user_def remove_container_def and_then_def demo_env_def)

lemma demo_content_ok: "content_ok (content_of demo_start)" "content_ok (content_of demo_onboarded)"
  by (auto simp: content_ok_def unique_ids_def content_start demo_onboarded_content)

definition demo_json :: "string \<Rightarrow> string + user" where
  "demo_json raw = Inr \<lparr>user_id = ''alice'', user_purposes = [''research'']\<rparr>"

definition onboarded_server :: "world server" where
  "onboarded_server = \<lparr>outside = demo_onboarded, mutex = Unlocked\<rparr>"

lemma demo_register:
  "Register_handle demo_env demo_ca demo_json (Inr ''body'') demo_server =
     (Ok (StatusOk, None), onboarded_server)"
  by (simp add: Register_handle_def demo_json_def call_unlocked demo_server_def demo_onboard
      onboarded_server_def)

lemma demo_served: "served demo_env demo_ca demo_json demo_server onboarded_server"
proof (rule served.request [OF served.start])
  show "serve demo_env demo_ca demo_json (PostRegister (Inr ''body'')) demo_server =
      (Ok (HttpReply (StatusOk, None)), onboarded_server)"
    by (simp add: serve_def and_then_def demo_register)
qed

definition demo_query :: query where
  "demo_query = Inr [''user'' \<mapsto> [''7''], ''intent'' \<mapsto> [''research'']]"

lemma demo_lease_query: "lease_query demo_query 7 ''research''"
proof -
  have "parse_u32 ''7'' = Inr 7" by (simp add: parse_u32_def)
  then show ?thesis by (simp add: lease_query_def demo_query_def)
qed

subsection \<open>The theorems applied\<close>


theorem onboard_user_failure_witness:
  "fst (onboard_user demo_env demo_ca ''alice'' [] demo_onboarded) = Err ''user already exists'' \<and>
   (content_of demo_onboarded = content_of demo_onboarded \<or>
    (\<exists>ip. content_of demo_onboarded = (content_of demo_onboarded)(''view'' :=
      content_of demo_onboarded ''view'' @ [view_doc \<lparr>view_id = docker_id demo_env ''alice'', view_ip = ip\<rparr>])))"
  using onboard_user_failure [OF demo_mongo_law demo_onboard_again] demo_onboard_again by simp

theorem deboard_user_effect_witness:
  "content_of demo_removed = (\<lambda>c. if c \<in> {''consents'', ''view''}
    then filter (\<lambda>d. doc_get d ''_id'' \<noteq> Some (BString ''alice'')) (content_of demo_onboarded c)
    else content_of demo_onboarded c)"
  using deboard_user_effect [OF demo_mongo_law demo_content_ok(2) demo_deboard] .


lemma request_ips_witness:
  "content_of demo_onboarded = content_of demo_onboarded \<and>
   handle_incoming demo_env demo_ca \<lparr>fc_msg = Some (Requestips True)\<rparr> demo_onboarded =
     (Ok \<lparr>tc_success = True, tc_msg = Some (Ips \<lparr>addresses_ip = map view_ip [alice_view]\<rparr>)\<rparr>, demo_onboarded)"
proof (rule request_ips_lists_every_tenant [OF demo_mongo_law])
  show "content_of demo_onboarded ''view'' = map view_doc [alice_view]"
    by (simp add: demo_onboarded_content)
  show "mongo_find demo_env ''view'' demo_onboarded =
      (Ok (map Inr (content_of demo_onboarded ''view'')), demo_onboarded)"
    by (simp add: demo_env_def)
qed simp

theorem poisoned_server_witness:
  "snd (serve_all demo_env demo_ca demo_json [PostRegister (Inr ''body''), GetLease (Inl ''bad'')]
      (demo_server\<lparr>mutex := Poisoned\<rparr>)) = demo_server\<lparr>mutex := Poisoned\<rparr>"
  by (rule conjunct1 [OF poisoned_server_is_dead]) simp

theorem lease_handle_decides_witness:
  "Lease_handle demo_env demo_query onboarded_server = (Ok (StatusOk, None), onboarded_server)"
proof -
  have reply: "mongo_find_one demo_env ''consents'' [(''serial_number'', BI32 7)] (outside onboarded_server) =
      (Ok (find (matches [(''serial_number'', BI32 7)]) (content_of demo_onboarded ''consents'')), demo_onboarded)"
    by (simp add: demo_env_def onboarded_server_def)
  have u32: "bson_u32 demo_env 7 = BI32 7" by (simp add: demo_env_def)
  have cs: "content_of (outside onboarded_server) ''consents'' = map consent_doc [alice]"
    by (simp add: onboarded_server_def demo_onboarded_content)
  have free: "mutex onboarded_server = Unlocked" by (simp add: onboarded_server_def)
  show ?thesis
    using lease_handle_decides [OF demo_mongo_law u32 free cs demo_lease_query reply]
    by (simp add: onboarded_server_def alice_def)
qed


theorem reachable_store_witness:
  "content_ok (content_of (outside onboarded_server)) \<and>
   content_of (outside onboarded_server) ''views'' = content_of (outside demo_server) ''views''"
  by (rule reachable_store_invariant [OF demo_mongo_law _ demo_served])
    (simp add: demo_server_def demo_content_ok)

theorem tenant_lookup_witness:
  "QueryHandler_handle demo_env (Some [''user'' \<mapsto> ''alice'']) onboarded_server =
     (Ok (BadRequest, Some ''could not find it''), \<lparr>outside = demo_onboarded, mutex = Unlocked\<rparr>)"
proof (rule tenant_lookup_always_fails [OF demo_mongo_law _ _ demo_served])
  show "mongo_find demo_env ''views'' (outside onboarded_server) =
      (Ok (map Inr (content_of demo_onboarded ''views'')), demo_onboarded)"
    by (simp add: demo_env_def onboarded_server_def)
qed (use demo_content_ok in \<open>simp_all add: demo_server_def onboarded_server_def content_start\<close>)

theorem tenant_certificate_witness:
  "\<exists>key. heap_of demo_start key = None \<and> [2] = pem_key demo_pem key \<and>
    [1, 7] = pem_cert demo_pem \<lparr>x_version = 3, x_serial = uint (7 :: u32), x_subject = ca_entries ''user'',
      x_issuer = ca_entries ''localhost'', x_not_before = Some 0, x_not_after = Some (365 * 86400),
      x_pubkey = Some key, x_exts = [(EXT_KEY_USAGE, ''serverAuth'')],
      x_sig = Some (CStr ''ca key'', ''sha256'')\<rparr>"
proof (rule tenant_certificate_content [OF _ _ _ demo_issue])
  show "x509_law (foreign demo_env) heap_of demo_pem"
    using demo_x509_law by (simp add: demo_env_def)
  show "heap_of (snd (rand_u32 demo_env w)) = heap_of w" for w
  proof
    fix p show "heap_of (snd (rand_u32 demo_env w)) p = heap_of w p"
      by (cases p) (simp_all add: demo_env_def)
  qed
qed (simp add: demo_start_def demo_ca_def)

lemma demo_signed:
  assumes "\<not> has_nul intent"
  obtains i c w' where "sign_certificate demo_env demo_ca [5] intent demo_start = (Ok (i, c), w')"
  using demo_sign_fst [OF assms] by (metis is_ok.elims(2) prod.exhaust_sel)


theorem intent_injects_witness:
  "\<exists>rec c w'. sign_certificate demo_env demo_ca [5] (''audit'' @ '',DNS:'' @ ''bank.com'') demo_start =
      (Ok (rec, c), w') \<and>
    (\<exists>content. cert_request c = pem_cert demo_pem content \<and>
      (SUBJECT_ALT_NAME, ''otherName:1.3.6.1.4.1.99;UTF8:audit,DNS:bank.com'') \<in> set (x_exts content))"
proof -
  obtain rec c w' where run:
    "sign_certificate demo_env demo_ca [5] (''audit'' @ '',DNS:'' @ ''bank.com'') demo_start = (Ok (rec, c), w')"
    using demo_signed [of "''audit'' @ '',DNS:'' @ ''bank.com''"] by (auto simp: has_nul_def)
  have "x509_law (foreign demo_env) heap_of demo_pem" using demo_x509_law by (simp add: demo_env_def)
  from intent_injects_alternative_name [OF this _ _ run, of "CStr ''ca key''"]
  obtain content where "cert_request c = pem_cert demo_pem content"
    "(SUBJECT_ALT_NAME, SubjectAlternativeName_value (SubjectAlternativeName_dns
       (SubjectAlternativeName_other_name SubjectAlternativeName_new (''1.3.6.1.4.1.99;UTF8:'' @ ''audit'')) ''bank.com''))
      \<in> set (x_exts content)"
    by (auto simp: demo_env_def demo_start_def demo_ca_def)
  moreover have "SubjectAlternativeName_value (SubjectAlternativeName_dns
       (SubjectAlternativeName_other_name SubjectAlternativeName_new (''1.3.6.1.4.1.99;UTF8:'' @ ''audit'')) ''bank.com'') =
     ''otherName:1.3.6.1.4.1.99;UTF8:audit,DNS:bank.com''"
    by code_simp
  ultimately show ?thesis using run by (metis (no_types, lifting))
qed

end
