(* ===== verification/Ossl_Verify.thy ===== *)
theory Ossl_Verify
  imports Ossl_X509
begin

unbundle bit_operations_syntax

text \<open>
  Verification of the name in a server certificate: the module \<open>verify\<close> of
  \<open>openssl/src/ssl/connector.rs\<close>, which the crate uses with OpenSSL 1.0.1, the accessors of
  \<open>GeneralName\<close> in \<open>openssl/src/x509/mod.rs\<close>, and the parser of IP addresses of the standard
  library, which decides between the two kinds of comparison.

  A certificate is what its accessors return: the subject alternative names, if there are any,
  and the common names of the subject. The theorems characterise the wildcard matching by a
  relation on strings and say for which certificates a connection is accepted.
\<close>

subsection \<open>IP addresses\<close>

datatype ip_addr = V4 "byte list" | V6 "u16 list"

fun digit_val :: "nat \<Rightarrow> char \<Rightarrow> nat option" where
  "digit_val radix c =
     (let n = of_char c in
      let d = (if 48 \<le> n \<and> n \<le> 57 then Some (n - 48)
               else if 97 \<le> n \<and> n \<le> 122 then Some (n - 87)
               else if 65 \<le> n \<and> n \<le> 90 then Some (n - 55)
               else None)
      in case d of Some v \<Rightarrow> if v < radix then Some v else None | None \<Rightarrow> None)"

text \<open>
  \<open>read_number(radix, max_digits, upto)\<close>: the longest run of digits, none if it is empty, too
  long, or too large. A result comes with the rest of the input.
\<close>

fun read_digits :: "nat \<Rightarrow> nat \<Rightarrow> nat \<Rightarrow> nat \<Rightarrow> nat \<Rightarrow> string \<Rightarrow> (nat \<times> string) option" where
  "read_digits radix max_digits bound count r [] = (if count = 0 then None else Some (r, []))"
| "read_digits radix max_digits bound count r (c # cs) =
     (case digit_val radix c of
        None \<Rightarrow> if count = 0 then None else Some (r, c # cs)
      | Some d \<Rightarrow>
          if max_digits < count + 1 \<or> bound \<le> r * radix + d then None
          else read_digits radix max_digits bound (count + 1) (r * radix + d) cs)"

definition read_number :: "nat \<Rightarrow> nat \<Rightarrow> nat \<Rightarrow> string \<Rightarrow> (nat \<times> string) option" where
  "read_number radix max_digits bound s = read_digits radix max_digits bound 0 0 s"

fun read_char :: "char \<Rightarrow> string \<Rightarrow> string option" where
  "read_char c (x # xs) = (if x = c then Some xs else None)"
| "read_char c [] = None"

fun read_octets :: "nat \<Rightarrow> string \<Rightarrow> (byte list \<times> string) option" where
  "read_octets 0 s = Some ([], s)"
| "read_octets (Suc n) s =
     Option.bind (read_number 10 3 0x100 s) (\<lambda>(b, s').
     Option.bind (if n = 0 then Some s' else read_char CHR ''.'' s') (\<lambda>s''.
     Option.bind (read_octets n s'') (\<lambda>(bs, rest).
       Some (of_nat b # bs, rest))))"

definition read_ipv4_addr :: "string \<Rightarrow> (byte list \<times> string) option" where
  "read_ipv4_addr = read_octets 4"

definition be16 :: "byte \<Rightarrow> byte \<Rightarrow> u16" where
  "be16 a b = push_bit 8 (ucast a) OR ucast b"

text \<open>
  \<open>read_groups\<close>: up to \<open>limit\<close> groups separated by colons, the last two possibly written as an
  IPv4 address. The result is the groups read, whether they end in an IPv4 address, and the rest.
\<close>

fun read_groups :: "nat \<Rightarrow> nat \<Rightarrow> string \<Rightarrow> u16 list \<times> bool \<times> string" where
  "read_groups 0 i s = ([], False, s)"
| "read_groups (Suc remaining) i s =
     (let start = (if i = 0 then Some s else read_char CHR '':'' s) in
      case (if remaining = 0 then None else Option.bind start read_ipv4_addr) of
        Some (b, rest) \<Rightarrow> ([be16 (b ! 0) (b ! 1), be16 (b ! 2) (b ! 3)], True, rest)
      | None \<Rightarrow>
          (case Option.bind start (read_number 16 4 0x10000) of
             None \<Rightarrow> ([], False, s)
           | Some (g, rest) \<Rightarrow>
               (case read_groups remaining (Suc i) rest of
                  (gs, v4, rest') \<Rightarrow> (of_nat g # gs, v4, rest'))))"

definition read_ipv6_addr :: "string \<Rightarrow> (u16 list \<times> string) option" where
  "read_ipv6_addr s =
     (case read_groups 8 0 s of
        (head, head_v4, rest) \<Rightarrow>
          if length head = 8 then Some (head, rest)
          else if head_v4 then None
          else Option.bind (read_char CHR '':'' rest) (\<lambda>r1.
               Option.bind (read_char CHR '':'' r1) (\<lambda>r2.
               case read_groups (8 - length head) 0 r2 of
                 (tail, _, rest') \<Rightarrow>
                   Some (head @ replicate (8 - length head - length tail) 0 @ tail, rest'))))"

definition parse_ip :: "string \<Rightarrow> ip_addr option" where
  "parse_ip s =
     (case read_ipv4_addr s of
        Some (b, rest) \<Rightarrow> if rest = [] then Some (V4 b) else None
      | None \<Rightarrow>
          (case read_ipv6_addr s of
             Some (g, rest) \<Rightarrow> if rest = [] then Some (V6 g) else None
           | None \<Rightarrow> None))"

lemma read_counts:
  "read_octets 4 s = read_octets (Suc (Suc (Suc (Suc 0)))) s"
  "read_groups 8 i s = read_groups (Suc (Suc (Suc (Suc (Suc (Suc (Suc (Suc 0)))))))) i s"
  by (simp_all add: numeral_eq_Suc)

lemmas parse_ip_defs =
  parse_ip_def read_ipv4_addr_def read_ipv6_addr_def read_number_def be16_def

subsection \<open>Names in a certificate\<close>

definition GEN_DNS :: int where "GEN_DNS = 2"
definition GEN_IPADD :: int where "GEN_IPADD = 7"

record general_name =
  gn_type :: int
  gn_data :: string

definition dnsname :: "general_name \<Rightarrow> string option" where
  "dnsname n = (if gn_type n \<noteq> GEN_DNS then None else from_utf8 (gn_data n))"

definition ipaddress :: "general_name \<Rightarrow> byte list option" where
  "ipaddress n = (if gn_type n \<noteq> GEN_IPADD then None else Some (map of_char (gn_data n)))"

record cert_view =
  alt_names :: "general_name list option"
  common_names :: "string list"

subsection \<open>Matching\<close>

text \<open>\<open>pattern.match_indices('.')\<close>, counted from \<open>i\<close>.\<close>

fun match_indices :: "char \<Rightarrow> nat \<Rightarrow> string \<Rightarrow> nat list" where
  "match_indices c i [] = []"
| "match_indices c i (x # xs) =
     (if x = c then i # match_indices c (Suc i) xs else match_indices c (Suc i) xs)"

definition matches_wildcard :: "string \<Rightarrow> string \<Rightarrow> bool \<Rightarrow> bool option" where
  "matches_wildcard pattern hostname is_ip =
     (if is_ip \<or> starts_with pattern ''xn--'' then None
      else
        case find_char CHR ''*'' pattern of
          None \<Rightarrow> None
        | Some wildcard_location \<Rightarrow>
            (case match_indices CHR ''.'' 0 pattern of
               [] \<Rightarrow> None
             | [wildcard_end] \<Rightarrow> None
             | wildcard_end # _ # _ \<Rightarrow>
                 if wildcard_end < wildcard_location then None
                 else
                   (case find_char CHR ''.'' hostname of
                      None \<Rightarrow> None
                    | Some hostname_label_end \<Rightarrow>
                        if drop wildcard_end pattern \<noteq> drop hostname_label_end hostname then Some False
                        else
                          (let wildcard_prefix = take wildcard_location pattern;
                               wildcard_suffix = drop (wildcard_location + 1) (take wildcard_end pattern);
                               hostname_label = take hostname_label_end hostname
                           in if \<not> starts_with hostname_label wildcard_prefix then Some False
                              else if \<not> ends_with (drop (length wildcard_prefix) hostname_label)
                                        wildcard_suffix then Some False
                              else Some True))))"

definition strip_dot :: "string \<Rightarrow> string" where
  "strip_dot s = (if ends_with s ''.'' then take (length s - 1) s else s)"

definition matches_dns :: "string \<Rightarrow> string \<Rightarrow> bool \<Rightarrow> bool" where
  "matches_dns pattern hostname is_ip =
     (let pattern = strip_dot pattern; hostname = strip_dot hostname in
      case matches_wildcard pattern hostname is_ip of
        Some b \<Rightarrow> b
      | None \<Rightarrow> pattern = hostname)"

fun matches_ip :: "ip_addr \<Rightarrow> byte list \<Rightarrow> bool" where
  "matches_ip (V4 octets) actual = (length actual = 4 \<and> actual = octets)"
| "matches_ip (V6 segments) actual =
     (length actual = 16 \<and>
      [be16 (actual ! 0) (actual ! 1), be16 (actual ! 2) (actual ! 3),
       be16 (actual ! 4) (actual ! 5), be16 (actual ! 6) (actual ! 7),
       be16 (actual ! 8) (actual ! 9), be16 (actual ! 10) (actual ! 11),
       be16 (actual ! 12) (actual ! 13), be16 (actual ! 14) (actual ! 15)] = segments)"

subsection \<open>Verification\<close>

fun alt_names_loop :: "string \<Rightarrow> ip_addr option \<Rightarrow> general_name list \<Rightarrow> bool" where
  "alt_names_loop domain ip [] = False"
| "alt_names_loop domain ip (name # names) =
     (case ip of
        Some ip' \<Rightarrow>
          (case ipaddress name of
             Some actual \<Rightarrow> if matches_ip ip' actual then True else alt_names_loop domain ip names
           | None \<Rightarrow> alt_names_loop domain ip names)
      | None \<Rightarrow>
          (case dnsname name of
             Some pattern \<Rightarrow> if matches_dns pattern domain False then True else alt_names_loop domain ip names
           | None \<Rightarrow> alt_names_loop domain ip names))"

definition verify_subject_alt_names :: "string \<Rightarrow> general_name list \<Rightarrow> bool" where
  "verify_subject_alt_names domain names = alt_names_loop domain (parse_ip domain) names"

definition verify_subject_name :: "string \<Rightarrow> string list \<Rightarrow> bool" where
  "verify_subject_name domain cns =
     (case cns of
        [] \<Rightarrow> False
      | cn # _ \<Rightarrow>
          (case from_utf8 cn of
             None \<Rightarrow> False
           | Some pattern \<Rightarrow>
               (let is_ip = (parse_ip domain \<noteq> None) in
                if matches_dns pattern domain is_ip then True else False)))"

definition verify_hostname :: "string \<Rightarrow> cert_view \<Rightarrow> bool" where
  "verify_hostname domain cert =
     (case alt_names cert of
        Some names \<Rightarrow> verify_subject_alt_names domain names
      | None \<Rightarrow> verify_subject_name domain (common_names cert))"

text \<open>The store context gives the depth of the certificate under verification and the certificate.\<close>

record store_context =
  error_depth :: u32
  current_cert :: "cert_view option"

definition verify_callback :: "string \<Rightarrow> bool \<Rightarrow> store_context \<Rightarrow> bool" where
  "verify_callback domain preverify_ok x509_ctx =
     (if \<not> preverify_ok \<or> error_depth x509_ctx \<noteq> 0 then preverify_ok
      else case current_cert x509_ctx of
        Some x509 \<Rightarrow> verify_hostname domain x509
      | None \<Rightarrow> True)"

text \<open>
  \<open>setup_verify\<close> for OpenSSL 1.0.1: the callback it installs, given what the \<open>Ssl\<close> holds under
  the index of the hostname.
\<close>

definition setup_verify_101 :: "string option \<Rightarrow> bool \<Rightarrow> store_context \<Rightarrow> bool" where
  "setup_verify_101 hostname p x509 =
     (case hostname of Some h \<Rightarrow> verify_callback h p x509 | None \<Rightarrow> p)"

subsection \<open>The wildcard relation\<close>

text \<open>
  A wildcard pattern has its first star in the first label and at least two dots; it matches the
  names that are equal to it from the first dot on and whose first label is the label of the
  pattern with the star replaced by some text.
\<close>

definition wildcard_shape :: "string \<Rightarrow> bool" where
  "wildcard_shape p \<longleftrightarrow>
     (\<exists>pre suf rest. p = pre @ ''*'' @ suf @ ''.'' @ rest \<and> CHR ''*'' \<notin> set pre \<and>
        CHR ''.'' \<notin> set pre \<union> set suf \<and> CHR ''.'' \<in> set rest)"

definition wildcard_rel :: "string \<Rightarrow> string \<Rightarrow> bool" where
  "wildcard_rel p h \<longleftrightarrow>
     (\<exists>pre suf rest mid. p = pre @ ''*'' @ suf @ ''.'' @ rest \<and> CHR ''*'' \<notin> set pre \<and>
        CHR ''.'' \<notin> set pre \<union> set suf \<and> CHR ''.'' \<in> set rest \<and>
        h = pre @ mid @ suf @ ''.'' @ rest \<and> CHR ''.'' \<notin> set mid)"

lemma match_indices_Nil_iff: "match_indices c i s = [] \<longleftrightarrow> c \<notin> set s"
  by (induction s arbitrary: i) auto

lemma match_indices_split:
  "c \<notin> set u \<Longrightarrow> match_indices c i (u @ c # v) = (i + length u) # match_indices c (Suc (i + length u)) v"
  by (induction u arbitrary: i) auto

lemma first_split_unique:
  "u @ c # v = u' @ c # v' \<Longrightarrow> c \<notin> set u \<Longrightarrow> c \<notin> set u' \<Longrightarrow> u = u' \<and> v = v'"
proof (induction u arbitrary: u')
  case Nil
  then show ?case by (cases u') auto
next
  case (Cons x u)
  then show ?case by (cases u') auto
qed

lemma wildcard_shape_split:
  assumes "CHR ''.'' \<notin> set u"
  shows "wildcard_shape (u @ CHR ''.'' # v) \<longleftrightarrow> CHR ''*'' \<in> set u \<and> CHR ''.'' \<in> set v"
proof
  assume "wildcard_shape (u @ CHR ''.'' # v)"
  then obtain pre suf rest where eq: "u @ CHR ''.'' # v = (pre @ ''*'' @ suf) @ CHR ''.'' # rest"
    and "CHR ''.'' \<notin> set (pre @ ''*'' @ suf)" "CHR ''.'' \<in> set rest"
    by (auto simp: wildcard_shape_def)
  with first_split_unique [OF eq assms] show "CHR ''*'' \<in> set u \<and> CHR ''.'' \<in> set v" by auto
next
  assume r: "CHR ''*'' \<in> set u \<and> CHR ''.'' \<in> set v"
  then obtain pre suf where "u = pre @ CHR ''*'' # suf" "CHR ''*'' \<notin> set pre" by (meson split_list_first)
  with r assms show "wildcard_shape (u @ CHR ''.'' # v)"
    unfolding wildcard_shape_def by (intro exI [of _ pre] exI [of _ suf] exI [of _ v]) auto
qed

lemma wildcard_rel_split:
  assumes p: "CHR ''.'' \<notin> set pre \<union> set suf" "CHR ''*'' \<notin> set pre" "CHR ''.'' \<in> set v"
    and h: "CHR ''.'' \<notin> set hl"
  shows "wildcard_rel ((pre @ CHR ''*'' # suf) @ CHR ''.'' # v) (hl @ CHR ''.'' # hr) \<longleftrightarrow>
    v = hr \<and> (\<exists>mid. hl = pre @ mid @ suf)"
proof
  assume "wildcard_rel ((pre @ CHR ''*'' # suf) @ CHR ''.'' # v) (hl @ CHR ''.'' # hr)"
  then obtain pre' suf' rest mid where
    eq: "(pre @ CHR ''*'' # suf) @ CHR ''.'' # v = (pre' @ CHR ''*'' # suf') @ CHR ''.'' # rest"
    and d: "CHR ''*'' \<notin> set pre'" "CHR ''.'' \<notin> set pre' \<union> set suf'"
    and hq: "hl @ CHR ''.'' # hr = (pre' @ mid @ suf') @ CHR ''.'' # rest" "CHR ''.'' \<notin> set mid"
    by (auto simp: wildcard_rel_def)
  have 1: "pre @ CHR ''*'' # suf = pre' @ CHR ''*'' # suf'" "v = rest"
    using first_split_unique [OF eq] p d by auto
  then have 2: "pre = pre'" "suf = suf'" using first_split_unique [OF 1(1)] p d by simp_all
  show "v = hr \<and> (\<exists>mid. hl = pre @ mid @ suf)"
    using first_split_unique [OF hq(1) h] d hq(2) 1 2 by auto
next
  assume r: "v = hr \<and> (\<exists>mid. hl = pre @ mid @ suf)"
  then obtain mid where "hl = pre @ mid @ suf" by blast
  with r p h show "wildcard_rel ((pre @ CHR ''*'' # suf) @ CHR ''.'' # v) (hl @ CHR ''.'' # hr)"
    unfolding wildcard_rel_def
    by (intro exI [of _ pre] exI [of _ suf] exI [of _ v] exI [of _ mid]) auto
qed

lemma find_char_skip:
  "c \<notin> set u \<Longrightarrow> find_char c (u @ s) = map_option ((+) (length u)) (find_char c s)"
  by (cases "find_char c s"; induction u) auto

lemma no_dot_no_shape: "CHR ''.'' \<notin> set p \<Longrightarrow> \<not> wildcard_shape p"
  by (auto simp: wildcard_shape_def)

lemma matches_wildcard_split:
  assumes "CHR ''.'' \<notin> set u" "\<not> starts_with (u @ CHR ''.'' # v) ''xn--''"
  shows "matches_wildcard (u @ CHR ''.'' # v) h False =
    (if CHR ''*'' \<notin> set u \<or> CHR ''.'' \<notin> set v \<or> CHR ''.'' \<notin> set h then None
     else Some (wildcard_rel (u @ CHR ''.'' # v) h))"
proof (cases "CHR ''*'' \<in> set u")
  case False
  show ?thesis
  proof (cases "find_char CHR ''*'' (u @ CHR ''.'' # v)")
    case (Some l)
    then have "length u < l" by (auto simp: find_char_skip [OF False])
    with Some assms False show ?thesis
      by (simp add: matches_wildcard_def match_indices_split split: list.split)
  qed (use assms False in \<open>simp add: matches_wildcard_def\<close>)
next
  case True
  then obtain pre suf where u: "u = pre @ CHR ''*'' # suf" "CHR ''*'' \<notin> set pre"
    by (meson split_list_first)
  have star: "find_char CHR ''*'' (u @ CHR ''.'' # v) = Some (length pre)"
    using u by (simp add: find_char_append)
  have idx: "match_indices CHR ''.'' 0 (u @ CHR ''.'' # v) =
      length u # match_indices CHR ''.'' (Suc (length u)) v"
    using match_indices_split [OF assms(1), of 0] by simp
  show ?thesis
  proof (cases "CHR ''.'' \<in> set v \<and> CHR ''.'' \<in> set h")
    case False
    then have "match_indices CHR ''.'' (Suc (length u)) v = [] \<or> find_char CHR ''.'' h = None"
      by (simp add: match_indices_Nil_iff find_char_None_iff)
    then have "matches_wildcard (u @ CHR ''.'' # v) h False = None"
      by (auto simp: matches_wildcard_def idx star split: list.split)
    with False True show ?thesis by simp
  next
    case dots: True
    then obtain hl hr where h: "h = hl @ CHR ''.'' # hr" "CHR ''.'' \<notin> set hl" by (meson split_list_first)
    obtain d ds where d: "match_indices CHR ''.'' (Suc (length u)) v = d # ds"
      using dots match_indices_Nil_iff [of "CHR ''.''" "Suc (length u)" v] by (cases "match_indices CHR ''.'' (Suc (length u)) v") auto
    have parts: "take (length pre) (u @ s) = pre" "take (length u) (u @ s) = u"
      "take (length hl) (hl @ s) = hl" "drop (Suc (length pre)) u = suf"
      "\<not> length u < length pre" for s using u(1) by simp_all
    have mid: "starts_with hl pre \<and> ends_with (drop (length pre) hl) suf \<longleftrightarrow> (\<exists>mid. hl = pre @ mid @ suf)"
      by (auto simp: starts_with_iff ends_with_iff)
    have "matches_wildcard (u @ CHR ''.'' # v) h False =
        Some (v = hr \<and> starts_with hl pre \<and> ends_with (drop (length pre) hl) suf)"
      using assms(2) h find_char_append [OF h(2), of hr]
      by (simp add: matches_wildcard_def idx d star parts Let_def del: take_append)
    moreover have "wildcard_rel (u @ CHR ''.'' # v) h \<longleftrightarrow> v = hr \<and> (\<exists>mid. hl = pre @ mid @ suf)"
      unfolding u(1) h(1) using assms(1) u dots h(2) by (intro wildcard_rel_split) auto
    ultimately show ?thesis using True dots mid by simp
  qed
qed

lemma matches_wildcard_eq:
  "matches_wildcard p h is_ip =
     (if is_ip \<or> starts_with p ''xn--'' \<or> \<not> wildcard_shape p \<or> CHR ''.'' \<notin> set h then None
      else Some (wildcard_rel p h))"
proof (cases "is_ip \<or> starts_with p ''xn--''")
  case False
  show ?thesis
  proof (cases "CHR ''.'' \<in> set p")
    case True
    then obtain u v where p: "p = u @ CHR ''.'' # v" "CHR ''.'' \<notin> set u" by (meson split_list_first)
    with False matches_wildcard_split [OF p(2)] wildcard_shape_split [OF p(2)] show ?thesis by auto
  next
    case no: False
    then have "matches_wildcard p h is_ip = None"
      using False match_indices_Nil_iff [of "CHR ''.''" 0 p]
      by (simp add: matches_wildcard_def split: option.split)
    with no_dot_no_shape [OF no] show ?thesis by simp
  qed
qed (auto simp: matches_wildcard_def)

text \<open>
  C4: the wildcard matcher, with its five early exits and its index arithmetic, decides exactly
  the wildcard relation. It gives no answer for an IP address, an internationalized pattern, a
  pattern without a star in its first label or with fewer than two dots, and a name without a dot;
  otherwise it says whether the name agrees with the pattern from the first dot on and its first
  label is the pattern's with the star replaced.
\<close>

theorem matches_wildcard_decides:
  "matches_wildcard p h is_ip =
     (if \<not> is_ip \<and> \<not> starts_with p ''xn--'' \<and> wildcard_shape p \<and> CHR ''.'' \<in> set h
      then Some (wildcard_rel p h) else None)"
  by (simp add: matches_wildcard_eq)

subsection \<open>Which certificates are accepted\<close>

definition accepts_dns :: "string \<Rightarrow> string \<Rightarrow> bool" where
  "accepts_dns p h \<longleftrightarrow>
     strip_dot p = strip_dot h \<or> (wildcard_rel (strip_dot p) (strip_dot h) \<and>
       \<not> starts_with (strip_dot p) ''xn--'')"

lemma matches_dns_sound: "matches_dns p h is_ip \<Longrightarrow> accepts_dns p h"
  by (auto simp: matches_dns_def Let_def matches_wildcard_eq accepts_dns_def split: if_splits)

lemma matches_dns_ip: "matches_dns p h True \<longleftrightarrow> strip_dot p = strip_dot h"
  by (simp add: matches_dns_def Let_def matches_wildcard_eq)

lemma alt_names_loop_iff:
  "alt_names_loop domain ip names \<longleftrightarrow>
     (\<exists>n \<in> set names. case ip of
        Some a \<Rightarrow> (\<exists>bs. ipaddress n = Some bs \<and> matches_ip a bs)
      | None \<Rightarrow> (\<exists>p. dnsname n = Some p \<and> matches_dns p domain False))"
  by (induction domain ip names rule: alt_names_loop.induct) (auto split: option.splits)

text \<open>
  C5: a connection to a host name is accepted only for a certificate that names the host. When the
  chain was already verified and the certificate at depth 0 is accepted for a domain that is not
  an IP address, then one of its DNS alternative names, or, only if it has no alternative names at
  all, its first common name, is the domain (up to a trailing dot) or a wildcard for it.
\<close>

theorem accepted_certificate_names_host:
  assumes "setup_verify_101 (Some domain) True \<lparr>error_depth = 0, current_cert = Some cert\<rparr>"
    and "parse_ip domain = None"
  shows "case alt_names cert of
      Some names \<Rightarrow> \<exists>n \<in> set names. \<exists>p. dnsname n = Some p \<and> accepts_dns p domain
    | None \<Rightarrow> \<exists>cn cns. common_names cert = cn # cns \<and> accepts_dns cn domain"
proof -
  have "verify_hostname domain cert"
    using assms(1) by (simp add: setup_verify_101_def verify_callback_def)
  then show ?thesis
    using assms(2)
    by (auto dest: matches_dns_sound simp: verify_hostname_def verify_subject_alt_names_def verify_subject_name_def
        alt_names_loop_iff Let_def from_utf8_def split: option.splits list.splits if_splits)
qed

theorem accepted_certificate_witness:
  "\<exists>n \<in> set [\<lparr>gn_type = GEN_DNS, gn_data = ''*.example.org''\<rparr>].
     \<exists>p. dnsname n = Some p \<and> accepts_dns p ''www.example.org''"
proof -
  have "parse_ip ''www.example.org'' = None"
    by (simp add: parse_ip_defs read_counts)
  moreover have "setup_verify_101 (Some ''www.example.org'') True \<lparr>error_depth = 0, current_cert =
      Some \<lparr>alt_names = Some [\<lparr>gn_type = GEN_DNS, gn_data = ''*.example.org''\<rparr>], common_names = []\<rparr>\<rparr>"
    using calculation
    by (simp add: setup_verify_101_def verify_callback_def verify_hostname_def
        verify_subject_alt_names_def dnsname_def from_utf8_def matches_dns_def strip_dot_def
        matches_wildcard_def starts_with_def ends_with_def Let_def)
  ultimately show ?thesis using accepted_certificate_names_host by fastforce
qed

text \<open>
  For an IP address no wildcard helps. Given a verified chain, a certificate at depth 0 is
  accepted for a domain that is an address exactly when one of its IP alternative names matches
  that address, or, if it has no alternative names at all, when its first common name, as text, is
  the domain up to a trailing dot.
\<close>

lemma ip_certificate_accepted_iff:
  assumes "parse_ip domain = Some ip"
  shows "setup_verify_101 (Some domain) True \<lparr>error_depth = 0, current_cert = Some cert\<rparr> \<longleftrightarrow>
    (case alt_names cert of
       Some names \<Rightarrow> \<exists>n \<in> set names. \<exists>bs. ipaddress n = Some bs \<and> matches_ip ip bs
     | None \<Rightarrow> \<exists>cn cns. common_names cert = cn # cns \<and> from_utf8 cn \<noteq> None \<and>
         strip_dot cn = strip_dot domain)"
  using assms
  by (auto simp: setup_verify_101_def verify_callback_def verify_hostname_def
      verify_subject_alt_names_def verify_subject_name_def alt_names_loop_iff Let_def from_utf8_def
      matches_dns_ip split: option.splits list.splits if_splits)

lemma ip_certificate_witness:
  "setup_verify_101 (Some ''127.0.0.1'') True \<lparr>error_depth = 0, current_cert =
      Some \<lparr>alt_names = None, common_names = [''*.0.0.1'']\<rparr>\<rparr> = False"
proof -
  have "parse_ip ''127.0.0.1'' = Some (V4 [127, 0, 0, 1])"
    by (simp add: parse_ip_defs read_counts)
  moreover have "strip_dot ''*.0.0.1'' \<noteq> strip_dot ''127.0.0.1''" by code_simp
  ultimately show ?thesis
    using ip_certificate_accepted_iff
      [of "''127.0.0.1''" _ "\<lparr>alt_names = None, common_names = [''*.0.0.1'']\<rparr>"] by simp
qed

subsection \<open>Addresses as bytes\<close>

fun ip_octets :: "ip_addr \<Rightarrow> byte list" where
  "ip_octets (V4 octets) = octets"
| "ip_octets (V6 segments) = concat (map (\<lambda>s. [ucast (drop_bit 8 s), ucast s]) segments)"

lemma be16_parts: "ucast (drop_bit 8 (be16 a b)) = a" "ucast (be16 a b) = b"
  by (auto simp: be16_def bit_eq_iff bit_simps dest: bit_imp_le_length)

lemma be16_eq_iff: "be16 a b = s \<longleftrightarrow> a = ucast (drop_bit 8 s) \<and> b = ucast s"
proof
  assume "a = ucast (drop_bit 8 s) \<and> b = ucast s"
  then have ab: "bit a n = bit s (8 + n)" "bit b n = bit s n" if "n < 8" for n
    using that by (auto simp: bit_simps)
  show "be16 a b = s"
  proof (rule bit_word_eqI)
    fix n assume n: "n < LENGTH(16)"
    show "bit (be16 a b) n = bit s n"
    proof (cases "n < 8")
      case True
      then show ?thesis using ab by (simp add: be16_def bit_simps)
    next
      case False
      then have "\<not> bit b n" "8 + (n - 8) = n" "n - 8 < 8" using n by (auto dest: bit_imp_le_length)
      with False n ab(1) [of "n - 8"] show ?thesis by (auto simp: be16_def bit_simps)
    qed
  qed
qed (auto simp: be16_parts)

lemma read_octets_length: "read_octets n s = Some (bs, rest) \<Longrightarrow> length bs = n"
  by (induction n s arbitrary: bs rest rule: read_octets.induct)
    (auto split: bind_splits prod.splits if_splits)

lemma read_groups_length: "read_groups n i s = (gs, v4, rest) \<Longrightarrow> length gs \<le> n"
proof (induction n i s arbitrary: gs v4 rest rule: read_groups.induct)
  case (2 n i s)
  then show ?case
    by (auto simp: Let_def split: option.splits prod.splits if_splits)
qed simp

lemma parse_ip_wf:
  "parse_ip s = Some (V4 b) \<Longrightarrow> length b = 4" "parse_ip s = Some (V6 g) \<Longrightarrow> length g = 8"
proof -
  show "parse_ip s = Some (V4 b) \<Longrightarrow> length b = 4"
    using read_octets_length by (auto simp: parse_ip_def read_ipv4_addr_def split: option.splits if_splits)
  assume "parse_ip s = Some (V6 g)"
  then obtain rest where "read_ipv6_addr s = Some (g, rest)"
    by (auto simp: parse_ip_def split: option.splits if_splits)
  moreover obtain hd v4 r where hd: "read_groups 8 0 s = (hd, v4, r)" by (metis prod_cases3)
  ultimately show "length g = 8"
    using read_groups_length [OF hd]
    by (auto simp: read_ipv6_addr_def split: prod.splits if_splits bind_splits
        dest!: read_groups_length)
qed

lemma length_8E:
  assumes "length g = 8"
  obtains a b c d e f h i where "g = [a, b, c, d, e, f, h, i]"
  using assms by (auto simp: numeral_eq_Suc length_Suc_conv)

lemma matches_ip_octets_v6:
  assumes "length g = 8"
  shows "matches_ip (V6 g) bs \<longleftrightarrow> bs = ip_octets (V6 g)"
proof
  obtain a b c d e f h i where g: "g = [a, b, c, d, e, f, h, i]" using assms by (rule length_8E)
  assume m: "matches_ip (V6 g) bs"
  then have "length bs = 16" by simp
  then obtain x0 x1 x2 x3 x4 x5 x6 x7 y0 y1 y2 y3 y4 y5 y6 y7 where
    "bs = [x0, x1, x2, x3, x4, x5, x6, x7, y0, y1, y2, y3, y4, y5, y6, y7]"
    by (auto simp: numeral_eq_Suc length_Suc_conv)
  with m g show "bs = ip_octets (V6 g)" by (simp add: be16_eq_iff)
next
  obtain a b c d e f h i where g: "g = [a, b, c, d, e, f, h, i]" using assms by (rule length_8E)
  assume "bs = ip_octets (V6 g)"
  with g show "matches_ip (V6 g) bs" by (simp add: be16_eq_iff)
qed

text \<open>
  An address in a certificate is compared byte for byte. For every domain that parses as an
  address, IPv4 or IPv6, the comparison of its octets or of its eight 16-bit segments holds for
  exactly one content of the certificate's field: the octets of the address in network order.
\<close>

lemma matches_ip_is_byte_equality:
  assumes "parse_ip domain = Some ip"
  shows "matches_ip ip actual \<longleftrightarrow> actual = ip_octets ip"
proof (cases ip)
  case (V4 b)
  with assms parse_ip_wf(1) show ?thesis by auto
next
  case (V6 g)
  with assms parse_ip_wf(2) matches_ip_octets_v6 show ?thesis by blast
qed

lemma matches_ip_witness:
  "matches_ip (V6 [0, 0, 0, 0, 0, 0, 0, 1]) (replicate 15 0 @ [1]) \<longleftrightarrow>
     replicate 15 0 @ [1] = ip_octets (V6 [0, 0, 0, 0, 0, 0, 0, 1])"
proof (rule matches_ip_is_byte_equality)
  have "replicate 7 (0 :: u16) = [0, 0, 0, 0, 0, 0, 0]" by (simp add: numeral_eq_Suc)
  then show "parse_ip ''::1'' = Some (V6 [0, 0, 0, 0, 0, 0, 0, 1])"
    by (simp add: parse_ip_defs read_counts)
qed

end
