(* ===== verification/Rust_Object.thy ===== *)
theory Rust_Object
  imports Rust_Prelude
begin

text \<open>
  Methods on \<open>&mut self\<close>. Such a method is an effect on the outside state paired with the object,
  so that what it did to the object before an error or a panic is not lost. \<open>lifted\<close> runs an
  effect that does not touch the object, \<open>self\<close> reads it and \<open>modify_self\<close> assigns to its fields.
  \<open>with_object\<close> is a local variable: it runs methods on an object and drops it from the state.
\<close>

definition lifted :: "('w, 'e, 'a) eff \<Rightarrow> ('w \<times> 'h, 'e, 'a) eff" where
  "lifted m s = (case m (fst s) of (r, w) \<Rightarrow> (r, (w, snd s)))"

definition self :: "('w \<times> 'h, 'e, 'h) eff" where
  "self s = (Ok (snd s), s)"

definition modify_self :: "('h \<Rightarrow> 'h) \<Rightarrow> ('w \<times> 'h, 'e, unit) eff" where
  "modify_self f s = (Ok (), (fst s, f (snd s)))"

definition with_object :: "'h \<Rightarrow> ('w \<times> 'h, 'e, 'a) eff \<Rightarrow> ('w, 'e, 'a \<times> 'h) eff" where
  "with_object h m w =
     (case m (w, h) of
        (Ok a, (w', h')) \<Rightarrow> (Ok (a, h'), w')
      | (Err e, (w', _)) \<Rightarrow> (Err e, w')
      | (Panic, (w', _)) \<Rightarrow> (Panic, w')
      | (Diverge, (w', _)) \<Rightarrow> (Diverge, w'))"

text \<open>
  The end of a scope. \<open>scoped\<close> runs methods on a local object and then its \<open>Drop\<close>, whether the
  methods returned or panicked; \<open>built\<close> hands the object over on success and drops it otherwise.
\<close>

definition after_drop :: "('e, 'a) outcome \<Rightarrow> ('e, unit) outcome \<times> 'w \<times> 'h \<Rightarrow> ('e, 'a) outcome \<times> 'w" where
  "after_drop r d =
     (case d of
        (Panic, (w, _)) \<Rightarrow> (Panic, w)
      | (Diverge, (w, _)) \<Rightarrow> (Diverge, w)
      | (_, (w, _)) \<Rightarrow> (r, w))"

definition scoped :: "('w \<times> 'h, 'e, unit) eff \<Rightarrow> 'h \<Rightarrow> ('w \<times> 'h, 'e, 'a) eff \<Rightarrow> ('w, 'e, 'a) eff" where
  "scoped drp h m w =
     (case m (w, h) of
        (Diverge, (w', _)) \<Rightarrow> (Diverge, w')
      | (r, s) \<Rightarrow> after_drop r (drp s))"

definition built :: "('w \<times> 'h, 'e, unit) eff \<Rightarrow> 'h \<Rightarrow> ('w \<times> 'h, 'e, unit) eff \<Rightarrow> ('w, 'e, 'h) eff" where
  "built drp h m w =
     (case m (w, h) of
        (Ok _, (w', h')) \<Rightarrow> (Ok h', w')
      | (Err e, s) \<Rightarrow> after_drop (Err e) (drp s)
      | (Panic, s) \<Rightarrow> after_drop Panic (drp s)
      | (Diverge, (w', _)) \<Rightarrow> (Diverge, w'))"

text \<open>A \<open>for\<close> loop whose body can leave the function.\<close>

fun for_each :: "('a \<Rightarrow> ('s, 'e, unit) eff) \<Rightarrow> 'a list \<Rightarrow> ('s, 'e, unit) eff" where
  "for_each f [] = ret ()"
| "for_each f (x # xs) = and_then (f x) (\<lambda>_. for_each f xs)"

text \<open>
  \<open>while let Some(x) = m { body }\<close>. Nothing bounds it, so it is a partial function; not returning
  is the outcome \<open>Diverge\<close>.
\<close>

partial_function (option) while_some_run ::
  "('w, 'e, 'a option) eff \<Rightarrow> ('a \<Rightarrow> ('w, 'e, unit) eff) \<Rightarrow> 'w \<Rightarrow> (('e, unit) outcome \<times> 'w) option" where
  "while_some_run m body w =
     (case m w of
        (Ok x, w1) \<Rightarrow>
          (case x of
             None \<Rightarrow> Some (Ok (), w1)
           | Some a \<Rightarrow>
               (case body a w1 of
                  (Ok _, w2) \<Rightarrow> while_some_run m body w2
                | (Err e, w2) \<Rightarrow> Some (Err e, w2)
                | (Panic, w2) \<Rightarrow> Some (Panic, w2)
                | (Diverge, w2) \<Rightarrow> Some (Diverge, w2)))
      | (Err e, w1) \<Rightarrow> Some (Err e, w1)
      | (Panic, w1) \<Rightarrow> Some (Panic, w1)
      | (Diverge, w1) \<Rightarrow> Some (Diverge, w1))"

definition while_some :: "('w, 'e, 'a option) eff \<Rightarrow> ('a \<Rightarrow> ('w, 'e, unit) eff) \<Rightarrow> ('w, 'e, unit) eff" where
  "while_some m body w = (case while_some_run m body w of None \<Rightarrow> (Diverge, w) | Some r \<Rightarrow> r)"

text \<open>A value that is dropped when the rest of the function fails or unwinds.\<close>

definition owning :: "('w, 'e, unit) eff \<Rightarrow> ('w, 'e, 'a) eff \<Rightarrow> ('w, 'e, 'a) eff" where
  "owning drp m w =
     (case m w of
        (Err e, w') \<Rightarrow> and_then drp (\<lambda>_. throw e) w'
      | (Panic, w') \<Rightarrow> and_then drp (\<lambda>_. panic) w'
      | r \<Rightarrow> r)"

lemma while_some_stop: "m w = (Ok None, w') \<Longrightarrow> while_some m body w = (Ok (), w')"
  by (simp add: while_some_def while_some_run.simps)

lemma while_some_next:
  assumes "m w = (Ok (Some a), w1)" "body a w1 = (Ok (), w2)" "while_some m body w2 = (r, w')" "r \<noteq> Diverge"
  shows "while_some m body w = (r, w')"
  using assms by (auto simp: while_some_def while_some_run.simps [of m body w] split: option.splits)

lemmas while_some_step = while_some_next [where r = "Ok ()", simplified]

lemma owning_Ok: "m w = (Ok a, w') \<Longrightarrow> owning drp m w = (Ok a, w')"
  by (simp add: owning_def)

lemma lifted_Ok_iff [simp]:
  "lifted m (w, h) = (Ok a, (w', h')) \<longleftrightarrow> m w = (Ok a, w') \<and> h' = h"
  by (auto simp: lifted_def split: prod.split)

lemma lifted_step: "m w = (r, w') \<Longrightarrow> lifted m (w, h) = (r, (w', h))"
  by (simp add: lifted_def)

lemma object_simps [simp]:
  "self (w, h) = (Ok h, (w, h))"
  "modify_self f (w, h) = (Ok (), (w, f h))"
  by (simp_all add: self_def modify_self_def)

lemma and_then_self [simp]: "and_then self f (w, h) = f h (w, h)"
  by (simp add: and_then_def)

lemma and_then_modify [simp]: "and_then (modify_self f) g (w, h) = g () (w, f h)"
  by (simp add: and_then_def)

lemma scoped_step:
  "m (w, h) = (Ok a, s) \<Longrightarrow> drp s = (Ok (), (w', h')) \<Longrightarrow> scoped drp h m w = (Ok a, w')"
  by (simp add: scoped_def after_drop_def)

lemma built_step: "m (w, h) = (Ok (), (w', h')) \<Longrightarrow> built drp h m w = (Ok h', w')"
  by (simp add: built_def)

lemma with_object_step: "m (w, h) = (Ok a, (w', h')) \<Longrightarrow> with_object h m w = (Ok (a, h'), w')"
  by (simp add: with_object_def)

lemma for_each_append:
  "for_each f (xs @ ys) s = and_then (for_each f xs) (\<lambda>_. for_each f ys) s"
  by (induction xs arbitrary: s) (simp_all add: and_then_assoc, simp add: and_then_def split: prod.split outcome.split)

text \<open>What a drop on the failing paths keeps.\<close>

lemma keeps_drop_then:
  assumes "keeps I drp" "I w"
  shows "I (snd (and_then drp (\<lambda>_. throw e) w))" "I (snd (and_then drp (\<lambda>_. panic) w))"
  using keepsD [OF keeps_and_then [OF assms(1) keeps_basic(2)] assms(2)]
    keepsD [OF keeps_and_then [OF assms(1) keeps_basic(3)] assms(2)] by simp_all

lemma keeps_owning [keeps_intros]:
  assumes drp: "keeps I drp" and m: "keeps I m"
  shows "keeps I (owning drp m)"
proof (rule keepsI)
  fix w assume w: "I w"
  obtain r w1 where run: "m w = (r, w1)" by fastforce
  then have "I w1" using keepsD [OF m w] by simp
  with run keeps_drop_then [OF drp this] show "I (snd (owning drp m w))" by (cases r) (simp_all add: owning_def)
qed

end
