(* ===== verification/Demo_Heap.thy ===== *)
theory Demo_Heap
  imports Ossl_Error Rust_Object
begin

text \<open>
  A store for the concrete libraries on which the laws of the OpenSSL functions are shown to be
  satisfiable: objects in an association list under numbered pointers.
\<close>

definition al_fresh :: "(nat \<times> 'x) list \<Rightarrow> nat" where
  "al_fresh w = Suc (fold max (map fst w) 0)"

fun al_heap :: "(nat \<times> 'x) list \<Rightarrow> cval \<Rightarrow> 'x option" where
  "al_heap w (CPtr n) = map_of w n"
| "al_heap w _ = None"

lemma al_heap_ptr: "al_heap w c \<noteq> None \<Longrightarrow> \<exists>n. c = CPtr n"
  by (cases c) auto

lemma al_heap_Cons: "al_heap ((n, x) # w) = (al_heap w)(CPtr n \<mapsto> x)"
proof
  fix c show "al_heap ((n, x) # w) c = ((al_heap w)(CPtr n \<mapsto> x)) c" by (cases c) auto
qed

lemma al_heap_filter: "al_heap (filter (\<lambda>(k, _). k \<noteq> n) w) = (al_heap w)(CPtr n := None)"
proof
  fix c
  have "map_of (filter (\<lambda>(k, _). k \<noteq> n) w) m = (if m = n then None else map_of w m)" for m
    by (induction w) auto
  then show "al_heap (filter (\<lambda>(k, _). k \<noteq> n) w) c = ((al_heap w)(CPtr n := None)) c" by (cases c) auto
qed

lemma al_fresh_None: "al_heap w (CPtr (al_fresh w)) = None"
proof -
  have le: "m \<le> fold max ns m" for m :: nat and ns
    by (induction ns arbitrary: m) (auto intro: order_trans [OF max.cobounded2])
  have "n \<in> set ns \<Longrightarrow> n \<le> fold max ns m" for n m :: nat and ns
    by (induction ns arbitrary: m) (auto intro: order_trans [OF max.cobounded1 le])
  then have "n \<in> set (map fst w) \<Longrightarrow> n < al_fresh w" for n by (simp add: al_fresh_def less_Suc_eq_le)
  then have "al_fresh w \<notin> fst ` set w" by (metis less_irrefl set_map)
  then show ?thesis by (simp add: map_of_eq_None_iff)
qed

end
