(* ===== verification/Ossl_Hash.thy ===== *)
theory Ossl_Hash
  imports Ossl_X509 Demo_Heap
begin

text \<open>
  Message digests: the \<open>Hasher\<close> of \<open>openssl/src/hash.rs\<close>, a state machine around an OpenSSL
  digest context, and the five fixed hashers of \<open>openssl/src/sha.rs\<close>, each around a context held
  by value.

  The locale \<open>absorber\<close> is the contract the incremental hashers share (feeding data extends what
  the object stands for), and \<open>restartable\<close> extends it by a \<open>finish\<close> that returns the digest and
  starts afresh.
\<close>

subsection \<open>MessageDigest\<close>

definition MessageDigest_md5 :: "'w ffi \<Rightarrow> ('w, 'e, cval) eff" where
  "MessageDigest_md5 F = and_then (ccall F ''EVP_md5'' []) (\<lambda>(md, _). ret md)"

definition MessageDigest_sha1 :: "'w ffi \<Rightarrow> ('w, 'e, cval) eff" where
  "MessageDigest_sha1 F = and_then (ccall F ''EVP_sha1'' []) (\<lambda>(md, _). ret md)"

definition MessageDigest_sha224 :: "'w ffi \<Rightarrow> ('w, 'e, cval) eff" where
  "MessageDigest_sha224 F = and_then (ccall F ''EVP_sha224'' []) (\<lambda>(md, _). ret md)"

definition MessageDigest_sha384 :: "'w ffi \<Rightarrow> ('w, 'e, cval) eff" where
  "MessageDigest_sha384 F = and_then (ccall F ''EVP_sha384'' []) (\<lambda>(md, _). ret md)"

definition MessageDigest_sha512 :: "'w ffi \<Rightarrow> ('w, 'e, cval) eff" where
  "MessageDigest_sha512 F = and_then (ccall F ''EVP_sha512'' []) (\<lambda>(md, _). ret md)"

definition MessageDigest_ripemd160 :: "'w ffi \<Rightarrow> ('w, 'e, cval) eff" where
  "MessageDigest_ripemd160 F = and_then (ccall F ''EVP_ripemd160'' []) (\<lambda>(md, _). ret md)"

subsection \<open>Hasher\<close>

datatype hasher_state = Reset | Updated | Finalized

record hasher =
  h_ctx :: cval
  h_md :: cval
  h_type :: cval
  h_state :: hasher_state

record DigestBytes =
  db_buf :: "byte list"
  db_len :: nat

definition EVP_MAX_MD_SIZE :: nat where "EVP_MAX_MD_SIZE = 64"

definition DigestBytes_deref :: "DigestBytes \<Rightarrow> ('w, 'e, byte list) eff" where
  "DigestBytes_deref d = (if db_len d \<le> length (db_buf d) then ret (take (db_len d) (db_buf d)) else panic)"

text \<open>
  \<open>init\<close> and \<open>finish2\<close> call each other, but never in turn: \<open>init\<close> calls \<open>finish2\<close> in the state
  \<open>Updated\<close>, in which \<open>finish2\<close> does not call \<open>init\<close>. \<open>Hasher_final\<close> is \<open>finish2\<close> from its
  \<open>unsafe\<close> block on, which is all of it in that state.
\<close>

definition Hasher_final :: "'w ffi \<Rightarrow> ('w \<times> hasher, error_stack, DigestBytes) eff" where
  "Hasher_final F =
     and_then self (\<lambda>h.
     and_then (lifted (ccall F ''EVP_DigestFinal_ex'' [h_ctx h])) (\<lambda>(r, os).
     and_then (lifted (cvt F r)) (\<lambda>_.
     and_then (modify_self (\<lambda>h. h\<lparr>h_state := Finalized\<rparr>)) (\<lambda>_.
       ret \<lparr>db_buf = take EVP_MAX_MD_SIZE (c_bytes (out os 0) @ replicate EVP_MAX_MD_SIZE 0),
            db_len = nat (c_int (out os 1))\<rparr>))))"

definition Hasher_init :: "'w ffi \<Rightarrow> ('w \<times> hasher, error_stack, unit) eff" where
  "Hasher_init F =
     and_then self (\<lambda>h.
     if h_state h = Reset then ret ()
     else
       and_then (if h_state h = Updated then and_then (Hasher_final F) (\<lambda>_. ret ()) else ret ()) (\<lambda>_.
       and_then (lifted (call_i F ''EVP_DigestInit_ex'' [h_ctx h, h_md h, CNull])) (\<lambda>_.
         modify_self (\<lambda>h. h\<lparr>h_state := Reset\<rparr>))))"

definition Hasher_finish2 :: "'w ffi \<Rightarrow> ('w \<times> hasher, error_stack, DigestBytes) eff" where
  "Hasher_finish2 F =
     and_then self (\<lambda>h.
     and_then (if h_state h = Finalized then Hasher_init F else ret ()) (\<lambda>_.
       Hasher_final F))"

definition Hasher_update :: "'w ffi \<Rightarrow> byte list \<Rightarrow> ('w \<times> hasher, error_stack, unit) eff" where
  "Hasher_update F data =
     and_then self (\<lambda>h.
     and_then (if h_state h = Finalized then Hasher_init F else ret ()) (\<lambda>_.
     and_then (lifted (call_i F ''EVP_DigestUpdate'' [h_ctx h, CBytes data, CInt (int (length data))])) (\<lambda>_.
       modify_self (\<lambda>h. h\<lparr>h_state := Updated\<rparr>))))"

definition Hasher_finish :: "'w ffi \<Rightarrow> ('w \<times> hasher, error_stack, byte list) eff" where
  "Hasher_finish F = and_then (Hasher_finish2 F) DigestBytes_deref"

definition Hasher_write :: "'w ffi \<Rightarrow> byte list \<Rightarrow> ('w \<times> hasher, error_stack, nat) eff" where
  "Hasher_write F buf = and_then (Hasher_update F buf) (\<lambda>_. ret (length buf))"

definition Hasher_clone :: "'w ffi \<Rightarrow> hasher \<Rightarrow> ('w, 'e, hasher) eff" where
  "Hasher_clone F h =
     and_then (ccall F ''EVP_MD_CTX_new'' []) (\<lambda>(ctx, _).
     and_then (assert_that (ctx \<noteq> CNull)) (\<lambda>_.
     and_then (ccall F ''EVP_MD_CTX_copy_ex'' [ctx, h_ctx h]) (\<lambda>(r, _).
     and_then (assert_that (c_int r = 1)) (\<lambda>_.
       ret \<lparr>h_ctx = ctx, h_md = h_md h, h_type = h_type h, h_state = h_state h\<rparr>))))"

text \<open>\<open>drop(self.finish2())\<close> forgets an error but not a panic.\<close>

definition Hasher_drop :: "'w ffi \<Rightarrow> ('w \<times> hasher, error_stack, unit) eff" where
  "Hasher_drop F =
     and_then self (\<lambda>h.
     and_then (if h_state h \<noteq> Finalized then and_then (attempt (Hasher_finish2 F)) (\<lambda>_. ret ()) else ret ()) (\<lambda>_.
     and_then (lifted (ccall F ''EVP_MD_CTX_free'' [h_ctx h])) (\<lambda>_. ret ())))"

definition Hasher_new :: "'w ffi \<Rightarrow> cval \<Rightarrow> ('w, error_stack, hasher) eff" where
  "Hasher_new F ty =
     and_then (init F) (\<lambda>_.
     and_then (call_p F ''EVP_MD_CTX_new'' []) (\<lambda>ctx.
       built (Hasher_drop F) \<lparr>h_ctx = ctx, h_md = ty, h_type = ty, h_state = Finalized\<rparr> (Hasher_init F)))"

definition hash2 :: "'w ffi \<Rightarrow> cval \<Rightarrow> byte list \<Rightarrow> ('w, error_stack, DigestBytes) eff" where
  "hash2 F t data =
     and_then (Hasher_new F t) (\<lambda>h.
       scoped (Hasher_drop F) h (and_then (Hasher_update F data) (\<lambda>_. Hasher_finish2 F)))"

definition hash :: "'w ffi \<Rightarrow> cval \<Rightarrow> byte list \<Rightarrow> ('w, error_stack, byte list) eff" where
  "hash F t data = and_then (hash2 F t data) DigestBytes_deref"


subsection \<open>Incremental hashing, abstractly\<close>

datatype hop = Feed "byte list" | Finish

fun run_script ::
  "(byte list \<Rightarrow> ('s, 'e, unit) eff) \<Rightarrow> ('s, 'e, byte list) eff \<Rightarrow> hop list \<Rightarrow> ('s, 'e, byte list list) eff" where
  "run_script upd fin [] = ret []"
| "run_script upd fin (Feed b # ops) = and_then (upd b) (\<lambda>_. run_script upd fin ops)"
| "run_script upd fin (Finish # ops) =
     and_then fin (\<lambda>d. and_then (run_script upd fin ops) (\<lambda>ds. ret (d # ds)))"

fun digests :: "(byte list \<Rightarrow> byte list) \<Rightarrow> byte list \<Rightarrow> hop list \<Rightarrow> byte list list" where
  "digests dig d [] = []"
| "digests dig d (Feed b # ops) = digests dig (d @ b) ops"
| "digests dig d (Finish # ops) = dig d # digests dig [] ops"

fun pending :: "byte list \<Rightarrow> hop list \<Rightarrow> byte list" where
  "pending d [] = d"
| "pending d (Feed b # ops) = pending (d @ b) ops"
| "pending d (Finish # ops) = pending [] ops"

locale absorber =
  fixes stands :: "'s \<Rightarrow> byte list \<Rightarrow> bool" and upd :: "byte list \<Rightarrow> ('s, 'e, unit) eff"
  assumes upd_extends: "stands s d \<Longrightarrow> \<exists>s'. upd b s = (Ok (), s') \<and> stands s' (d @ b)"
begin

lemma absorbs_all: "stands s d \<Longrightarrow> \<exists>s'. for_each upd bs s = (Ok (), s') \<and> stands s' (d @ concat bs)"
proof (induction bs arbitrary: s d)
  case (Cons b bs)
  obtain s1 where "upd b s = (Ok (), s1)" "stands s1 (d @ b)" using upd_extends [OF Cons.prems] by blast
  with Cons.IH [of s1 "d @ b"] show ?case by (simp add: and_then_step)
qed simp

end

locale restartable = absorber stands upd
  for stands :: "'s \<Rightarrow> byte list \<Rightarrow> bool" and upd :: "byte list \<Rightarrow> ('s, 'e, unit) eff" +
  fixes fin :: "('s, 'e, byte list) eff" and dig :: "byte list \<Rightarrow> byte list"
  assumes fin_restarts: "stands s d \<Longrightarrow> \<exists>s'. fin s = (Ok (dig d), s') \<and> stands s' []"
begin

lemma script_correct:
  "stands s d \<Longrightarrow> \<exists>s'. run_script upd fin ops s = (Ok (digests dig d ops), s') \<and> stands s' (pending d ops)"
proof (induction ops arbitrary: s d)
  case (Cons op ops)
  show ?case
  proof (cases op)
    case (Feed b)
    obtain s1 where "upd b s = (Ok (), s1)" "stands s1 (d @ b)"
      using upd_extends [OF Cons.prems] by blast
    with Cons.IH [of s1 "d @ b"] Feed show ?thesis by (simp add: and_then_step)
  next
    case Finish
    obtain s1 where s1: "fin s = (Ok (dig d), s1)" "stands s1 []"
      using fin_restarts [OF Cons.prems] by blast
    obtain s2 where "run_script upd fin ops s1 = (Ok (digests dig [] ops), s2)" "stands s2 (pending [] ops)"
      using Cons.IH [OF s1(2)] by blast
    with s1(1) Finish show ?thesis by (auto simp: and_then_step)
  qed
qed simp

end

subsection \<open>Digest contexts\<close>

text \<open>
  What the EVP functions document: a context is blank, absorbing data for a digest, or done; the
  calls succeed on a context that is ready for them, and say nothing of one that is not.
\<close>

datatype md_ctx = MdBlank | MdAbsorbing cval "byte list" | MdDone

definition md_law ::
  "'w ffi \<Rightarrow> ('w \<Rightarrow> cval \<Rightarrow> md_ctx option) \<Rightarrow> (cval \<Rightarrow> byte list \<Rightarrow> byte list) \<Rightarrow> bool" where
  "md_law F H dig \<longleftrightarrow>
     (\<forall>w. H (snd (F ''init'' [] w)) = H w) \<and>
     (\<forall>w. \<exists>p w'. F ''EVP_MD_CTX_new'' [] w = ((p, []), w') \<and> p \<noteq> CNull \<and> H w p = None \<and>
        H w' = (H w)(p \<mapsto> MdBlank)) \<and>
     (\<forall>w c md. H w c \<noteq> None \<longrightarrow> (\<exists>r os w'. F ''EVP_DigestInit_ex'' [c, md, CNull] w = ((r, os), w') \<and>
        0 < c_int r \<and> H w' = (H w)(c \<mapsto> MdAbsorbing md []))) \<and>
     (\<forall>w c md d b. H w c = Some (MdAbsorbing md d) \<longrightarrow>
        (\<exists>r os w'. F ''EVP_DigestUpdate'' [c, CBytes b, CInt (int (length b))] w = ((r, os), w') \<and>
        0 < c_int r \<and> H w' = (H w)(c \<mapsto> MdAbsorbing md (d @ b)))) \<and>
     (\<forall>w c md d. H w c = Some (MdAbsorbing md d) \<longrightarrow>
        (\<exists>r w'. F ''EVP_DigestFinal_ex'' [c] w =
           ((r, [CBytes (dig md d), CInt (int (length (dig md d)))]), w') \<and>
        0 < c_int r \<and> H w' = (H w)(c \<mapsto> MdDone))) \<and>
     (\<forall>w c c' x. H w c \<noteq> None \<longrightarrow> H w c' = Some x \<longrightarrow>
        (\<exists>os w'. F ''EVP_MD_CTX_copy_ex'' [c, c'] w = ((CInt 1, os), w') \<and> H w' = (H w)(c \<mapsto> x))) \<and>
     (\<forall>w c. H (snd (F ''EVP_MD_CTX_free'' [c] w)) = (H w)(c := None)) \<and>
     (\<forall>md d. length (dig md d) \<le> EVP_MAX_MD_SIZE)"

lemma md_lawD:
  assumes "md_law F H dig"
  shows "H (snd (F ''init'' [] w)) = H w"
    "\<exists>p w'. F ''EVP_MD_CTX_new'' [] w = ((p, []), w') \<and> p \<noteq> CNull \<and> H w p = None \<and> H w' = (H w)(p \<mapsto> MdBlank)"
    "H w c \<noteq> None \<Longrightarrow> \<exists>r os w'. F ''EVP_DigestInit_ex'' [c, md, CNull] w = ((r, os), w') \<and> 0 < c_int r \<and>
      H w' = (H w)(c \<mapsto> MdAbsorbing md [])"
    "H w c = Some (MdAbsorbing md d) \<Longrightarrow>
      \<exists>r os w'. F ''EVP_DigestUpdate'' [c, CBytes b, CInt (int (length b))] w = ((r, os), w') \<and> 0 < c_int r \<and>
      H w' = (H w)(c \<mapsto> MdAbsorbing md (d @ b))"
    "H w c = Some (MdAbsorbing md d) \<Longrightarrow>
      \<exists>r w'. F ''EVP_DigestFinal_ex'' [c] w = ((r, [CBytes (dig md d), CInt (int (length (dig md d)))]), w') \<and>
      0 < c_int r \<and> H w' = (H w)(c \<mapsto> MdDone)"
    "H w c \<noteq> None \<Longrightarrow> H w c' = Some x \<Longrightarrow>
      \<exists>os w'. F ''EVP_MD_CTX_copy_ex'' [c, c'] w = ((CInt 1, os), w') \<and> H w' = (H w)(c \<mapsto> x)"
    "H (snd (F ''EVP_MD_CTX_free'' [c] w)) = (H w)(c := None)"
    "length (dig md d) \<le> EVP_MAX_MD_SIZE"
proof -
  note law = assms [unfolded md_law_def]
  show "H (snd (F ''init'' [] w)) = H w" "H (snd (F ''EVP_MD_CTX_free'' [c] w)) = (H w)(c := None)"
    "length (dig md d) \<le> EVP_MAX_MD_SIZE" using law by simp_all
qed (use assms [unfolded md_law_def] in meson)+

text \<open>
  What a hasher stands for: in the state \<open>Updated\<close> the data its context has absorbed, otherwise
  nothing. \<open>rest\<close> is what the other contexts hold.
\<close>

definition hasher_stands ::
  "'w ffi \<Rightarrow> ('w \<Rightarrow> cval \<Rightarrow> md_ctx option) \<Rightarrow> (cval \<Rightarrow> byte list \<Rightarrow> byte list) \<Rightarrow> cval \<Rightarrow> cval \<Rightarrow>
   (cval \<Rightarrow> md_ctx option) \<Rightarrow> 'w \<times> hasher \<Rightarrow> byte list \<Rightarrow> bool" where
  "hasher_stands F H dig md c rest s d \<longleftrightarrow>
     md_law F H dig \<and> h_ctx (snd s) = c \<and> h_md (snd s) = md \<and> (H (fst s))(c := None) = rest \<and>
     (case h_state (snd s) of
        Reset \<Rightarrow> H (fst s) c = Some (MdAbsorbing md []) \<and> d = []
      | Updated \<Rightarrow> H (fst s) c = Some (MdAbsorbing md d)
      | Finalized \<Rightarrow> H (fst s) c \<noteq> None \<and> d = [])"

definition digest_bytes :: "byte list \<Rightarrow> DigestBytes" where
  "digest_bytes b = \<lparr>db_buf = take EVP_MAX_MD_SIZE (b @ replicate EVP_MAX_MD_SIZE 0), db_len = length b\<rparr>"

lemma Hasher_final_run:
  assumes "md_law F H dig" and "H w (h_ctx h) = Some (MdAbsorbing md d)"
  obtains w' where "Hasher_final F (w, h) =
      (Ok (digest_bytes (dig md d)),
       (w', h\<lparr>h_state := Finalized\<rparr>))"
    "H w' = (H w)(h_ctx h \<mapsto> MdDone)"
proof -
  from md_lawD(5) [OF assms] obtain r w' where
    "F ''EVP_DigestFinal_ex'' [h_ctx h] w = ((r, [CBytes (dig md d), CInt (int (length (dig md d)))]), w')"
    "0 < c_int r" "H w' = (H w)(h_ctx h \<mapsto> MdDone)" by blast
  then show thesis
    by (intro that [of w'])
      (simp_all add: Hasher_final_def and_then_def lifted_def ccall_def cvt_def out_def digest_bytes_def)
qed

lemma Hasher_init_run:
  assumes "md_law F H dig" and "H w (h_ctx h) \<noteq> None" and "h_state h = Finalized"
  obtains w' where "Hasher_init F (w, h) = (Ok (), (w', h\<lparr>h_state := Reset\<rparr>))"
    "H w' = (H w)(h_ctx h \<mapsto> MdAbsorbing (h_md h) [])"
proof -
  from md_lawD(3) [OF assms(1,2)] obtain r os w' where
    run: "F ''EVP_DigestInit_ex'' [h_ctx h, h_md h, CNull] w = ((r, os), w')" "0 < c_int r"
    and "H w' = (H w)(h_ctx h \<mapsto> MdAbsorbing (h_md h) [])" by blast
  then show thesis
    using assms(3) call_i_step [of F, OF run]
    by (intro that [of w']) (simp_all add: Hasher_init_def and_then_def lifted_def)
qed

text \<open>The guard that \<open>update\<close> and \<open>finish2\<close> share: afterwards the context is absorbing.\<close>

lemma ensure_ready:
  assumes "hasher_stands F H dig md c rest (w, h) d"
  obtains w1 h1 where "(if h_state h = Finalized then Hasher_init F else ret ()) (w, h) = (Ok (), (w1, h1))"
    "H w1 c = Some (MdAbsorbing md d)" "(H w1)(c := None) = rest" "h_ctx h1 = c" "h_md h1 = md"
    "h1 = h \<or> h_state h1 = Reset"
proof (cases "h_state h = Finalized")
  case True
  with assms have pre: "md_law F H dig" "H w (h_ctx h) \<noteq> None" "h_ctx h = c" "h_md h = md" "d = []"
    by (auto simp: hasher_stands_def)
  obtain w' where "Hasher_init F (w, h) = (Ok (), (w', h\<lparr>h_state := Reset\<rparr>))"
    "H w' = (H w)(h_ctx h \<mapsto> MdAbsorbing (h_md h) [])"
    using Hasher_init_run [OF pre(1,2) True] .
  with pre True assms show thesis
    by (intro that [of w' "h\<lparr>h_state := Reset\<rparr>"]) (auto simp: hasher_stands_def)
next
  case False
  with assms show thesis
    by (intro that [of w h]) (auto simp: hasher_stands_def split: hasher_state.splits)
qed

lemma stands_intro:
  assumes "hasher_stands F H dig md c rest s d" "h_ctx h = c" "h_md h = md" "(H w)(c := None) = rest"
    and "h_state h = Updated \<Longrightarrow> H w c = Some (MdAbsorbing md d')"
    and "h_state h = Finalized \<Longrightarrow> H w c \<noteq> None \<and> d' = []"
    and "h_state h = Reset \<Longrightarrow> H w c = Some (MdAbsorbing md []) \<and> d' = []"
  shows "hasher_stands F H dig md c rest (w, h) d'"
  using assms by (auto simp: hasher_stands_def split: hasher_state.split)

lemma stands_law: "hasher_stands F H dig md c rest s d \<Longrightarrow> md_law F H dig"
  by (simp add: hasher_stands_def)

lemma Hasher_update_run:
  assumes "hasher_stands F H dig md c rest s d"
  shows "\<exists>s'. Hasher_update F b s = (Ok (), s') \<and> hasher_stands F H dig md c rest s' (d @ b)"
proof (cases s)
  case (Pair w h)
  obtain w1 h1 where ready: "(if h_state h = Finalized then Hasher_init F else ret ()) (w, h) = (Ok (), (w1, h1))"
    "H w1 c = Some (MdAbsorbing md d)" "(H w1)(c := None) = rest" "h_ctx h1 = c" "h_md h1 = md"
    "h1 = h \<or> h_state h1 = Reset"
    by (rule ensure_ready [OF assms [unfolded Pair]])
  obtain r os w2 where upd: "F ''EVP_DigestUpdate'' [c, CBytes b, CInt (int (length b))] w1 = ((r, os), w2)"
    "0 < c_int r" "H w2 = (H w1)(c \<mapsto> MdAbsorbing md (d @ b))"
    using md_lawD(4) [OF stands_law [OF assms] ready(2), of b] by blast
  have "h_ctx h = c" using assms Pair by (simp add: hasher_stands_def)
  then have "Hasher_update F b s = (Ok (), (w2, h1\<lparr>h_state := Updated\<rparr>))"
    using call_i_step [of F, OF upd(1,2)] ready(1)
    by (simp add: Pair Hasher_update_def and_then_def lifted_def)
  moreover have "hasher_stands F H dig md c rest (w2, h1\<lparr>h_state := Updated\<rparr>) (d @ b)"
    using ready upd(3) by (intro stands_intro [OF assms]) auto
  ultimately show ?thesis by blast
qed

lemma Hasher_finish2_run:
  assumes "hasher_stands F H dig md c rest s d"
  shows "\<exists>s'. Hasher_finish2 F s =
      (Ok (digest_bytes (dig md d)), s') \<and>
    hasher_stands F H dig md c rest s' [] \<and> h_state (snd s') = Finalized"
proof (cases s)
  case (Pair w h)
  obtain w1 h1 where ready: "(if h_state h = Finalized then Hasher_init F else ret ()) (w, h) = (Ok (), (w1, h1))"
    "H w1 c = Some (MdAbsorbing md d)" "(H w1)(c := None) = rest" "h_ctx h1 = c" "h_md h1 = md"
    by (rule ensure_ready [OF assms [unfolded Pair]])
  obtain w2 where fin: "Hasher_final F (w1, h1) =
      (Ok (digest_bytes (dig md d)),
       (w2, h1\<lparr>h_state := Finalized\<rparr>))"
    "H w2 = (H w1)(h_ctx h1 \<mapsto> MdDone)"
    using Hasher_final_run [OF stands_law [OF assms], of w1 h1 md d] ready(2,4) by blast
  have "Hasher_finish2 F s =
      (Ok (digest_bytes (dig md d)),
       (w2, h1\<lparr>h_state := Finalized\<rparr>))"
    using ready(1) fin(1) by (simp add: Pair Hasher_finish2_def and_then_def)
  moreover have "hasher_stands F H dig md c rest (w2, h1\<lparr>h_state := Finalized\<rparr>) []"
    using ready fin(2) by (intro stands_intro [OF assms]) auto
  ultimately show ?thesis by fastforce
qed

lemma DigestBytes_deref_run:
  assumes "length b \<le> EVP_MAX_MD_SIZE"
  shows "DigestBytes_deref (digest_bytes b) = ret b"
  using assms by (simp add: digest_bytes_def DigestBytes_deref_def)

lemma Hasher_finish_run:
  assumes "hasher_stands F H dig md c rest s d"
  shows "\<exists>s'. Hasher_finish F s = (Ok (dig md d), s') \<and> hasher_stands F H dig md c rest s' []"
  using Hasher_finish2_run [OF assms] md_lawD(8) [OF stands_law [OF assms]]
  by (auto simp: Hasher_finish_def and_then_step DigestBytes_deref_run)

interpretation evp_hasher: restartable "hasher_stands F H dig md c rest" "Hasher_update F" "Hasher_finish F" "dig md"
  for F H dig md c rest
  by unfold_locales (use Hasher_update_run Hasher_finish_run in blast)+

lemma Hasher_new_run:
  assumes law: "md_law F H dig"
  obtains h w' where "Hasher_new F md w = (Ok h, w')" "hasher_stands F H dig md (h_ctx h) (H w) (w', h) []"
    "H w (h_ctx h) = None"
proof -
  let ?w0 = "snd (F ''init'' [] w)"
  have init: "init F w = (Ok () :: (error_stack, unit) outcome, ?w0)" "H ?w0 = H w"
    using md_lawD(1) [OF law] by (simp_all add: init_def and_then_def ccall_def case_prod_beta)
  obtain p w1 where new: "F ''EVP_MD_CTX_new'' [] ?w0 = ((p, []), w1)" "p \<noteq> CNull" "H ?w0 p = None"
    "H w1 = (H ?w0)(p \<mapsto> MdBlank)"
    using md_lawD(2) [OF law] by blast
  let ?h = "\<lparr>h_ctx = p, h_md = md, h_type = md, h_state = Finalized\<rparr>"
  obtain w2 where ini: "Hasher_init F (w1, ?h) = (Ok (), (w2, ?h\<lparr>h_state := Reset\<rparr>))"
    "H w2 = (H w1)(h_ctx ?h \<mapsto> MdAbsorbing (h_md ?h) [])"
    using Hasher_init_run [OF law, of w1 ?h] new by auto
  have "Hasher_new F md w = (Ok (?h\<lparr>h_state := Reset\<rparr>), w2)"
    using init(1) call_p_step [of F, OF new(1,2)] built_step [of "Hasher_init F", OF ini(1)]
    by (simp add: Hasher_new_def and_then_step)
  then show thesis
    using law new ini(2) init(2) by (intro that) (auto simp: hasher_stands_def fun_upd_idem)
qed

lemma Hasher_drop_run:
  assumes "hasher_stands F H dig md c rest s d"
  shows "\<exists>s'. Hasher_drop F s = (Ok (), s') \<and> H (fst s') = rest"
proof (cases s)
  case (Pair w h)
  have h: "h_ctx h = c" "(H w)(c := None) = rest" using assms Pair by (auto simp: hasher_stands_def)
  obtain w1 h1 where "(if h_state h \<noteq> Finalized then and_then (attempt (Hasher_finish2 F)) (\<lambda>_. ret ()) else ret ())
      (w, h) = (Ok () :: (error_stack, unit) outcome, (w1, h1))" "(H w1)(c := None) = rest"
  proof (cases "h_state h = Finalized")
    case False
    obtain s' where s': "Hasher_finish2 F (w, h) =
        (Ok (digest_bytes (dig md d)), s')"
      "hasher_stands F H dig md c rest s' []"
      using Hasher_finish2_run [OF assms] Pair by auto
    then have "(H (fst s'))(c := None) = rest" by (simp add: hasher_stands_def)
    with False s' show thesis
      by (intro that [of "fst s'" "snd s'"]) (auto simp: and_then_def attempt_def)
  qed (use h in \<open>auto intro: that\<close>)
  note drop = this
  have "Hasher_drop F s = (Ok (), (snd (F ''EVP_MD_CTX_free'' [c] w1), h1))"
    unfolding Pair Hasher_drop_def and_then_self
    by (subst and_then_step, rule drop(1)) (simp add: h(1) and_then_def lifted_def ccall_def case_prod_beta)
  with drop(2) md_lawD(7) [OF stands_law [OF assms]] show ?thesis by simp
qed

subsection \<open>What the hashers compute\<close>

text \<open>
  C20: a hasher computes the digest of what it was fed, again and again. However the data is cut
  into updates and however often the hasher is finished and reused, each \<open>finish\<close> returns the
  digest of exactly the data fed since the last one; no call ever meets a context that is not
  ready for it, and when the hasher is dropped its context is freed and all others are as before.
\<close>

theorem hasher_computes_digests:
  assumes law: "md_law F H dig"
  shows "\<exists>h w1. Hasher_new F md w = (Ok h, w1) \<and>
    (\<forall>ops. \<exists>s s'. run_script (Hasher_update F) (Hasher_finish F) ops (w1, h) = (Ok (digests (dig md) [] ops), s) \<and>
       Hasher_drop F s = (Ok (), s') \<and> H (fst s') = H w)"
proof -
  obtain h w1 where new: "Hasher_new F md w = (Ok h, w1)"
    "hasher_stands F H dig md (h_ctx h) (H w) (w1, h) []"
    by (rule Hasher_new_run [OF law])
  have "\<exists>s s'. run_script (Hasher_update F) (Hasher_finish F) ops (w1, h) = (Ok (digests (dig md) [] ops), s) \<and>
      Hasher_drop F s = (Ok (), s') \<and> H (fst s') = H w" for ops
    using evp_hasher.script_correct [OF new(2), of ops] Hasher_drop_run by metis
  with new(1) show ?thesis by blast
qed

lemma stands_transfer:
  assumes "hasher_stands F H dig md c rest (w, h) d" "H w' c = H w c"
  shows "hasher_stands F H dig md c ((H w')(c := None)) (w', h) d"
  using assms by (auto simp: hasher_stands_def split: hasher_state.splits)

lemma stands_rest: "hasher_stands F H dig md c rest (w, h) d \<Longrightarrow> p \<noteq> c \<Longrightarrow> H w p = rest p"
  by (auto simp: hasher_stands_def)

lemma Hasher_clone_run:
  assumes st: "hasher_stands F H dig md c rest (w, h) d"
  obtains k w' where "Hasher_clone F h w = (Ok k :: ('e, hasher) outcome, w')" "h_ctx k \<noteq> c"
    "hasher_stands F H dig md c ((H w')(c := None)) (w', h) d"
    "hasher_stands F H dig md (h_ctx k) ((H w')(h_ctx k := None)) (w', k) d"
proof -
  note law = stands_law [OF st]
  obtain p w1 where new: "F ''EVP_MD_CTX_new'' [] w = ((p, []), w1)" "p \<noteq> CNull" "H w p = None"
    "H w1 = (H w)(p \<mapsto> MdBlank)"
    using md_lawD(2) [OF law] by blast
  obtain x where x: "H w c = Some x" "h_ctx h = c" "h_md h = md"
    using st by (auto simp: hasher_stands_def split: hasher_state.splits)
  then have pc: "p \<noteq> c" using new(3) by auto
  then have "H w1 p \<noteq> None" "H w1 c = Some x" using new(4) x(1) by auto
  then obtain os w2 where copy: "F ''EVP_MD_CTX_copy_ex'' [p, c] w1 = ((CInt 1, os), w2)" "H w2 = (H w1)(p \<mapsto> x)"
    using md_lawD(6) [OF law] by blast
  let ?k = "\<lparr>h_ctx = p, h_md = h_md h, h_type = h_type h, h_state = h_state h\<rparr>"
  have "Hasher_clone F h w = (Ok ?k, w2)"
    using new(1,2) copy(1) x(2) by (simp add: Hasher_clone_def and_then_def ccall_def)
  moreover have "hasher_stands F H dig md c ((H w2)(c := None)) (w2, h) d"
    using pc copy(2) new(4) by (intro stands_transfer [OF st]) auto
  moreover have "hasher_stands F H dig md p ((H w2)(p := None)) (w2, ?k) d"
    using st x copy(2) by (auto simp: hasher_stands_def split: hasher_state.splits)
  ultimately show thesis using pc by (intro that [of ?k w2]) auto
qed

lemma feed_two:
  assumes h: "hasher_stands F H dig md c r1 (w, h) d" and k: "hasher_stands F H dig md p r2 (w, k) e"
    and cp: "c \<noteq> p"
  obtains w1 h1 w2 k2 w3 h3 w4 k4 where
    "Hasher_update F a (w, h) = (Ok (), (w1, h1))" "Hasher_update F b (w1, k) = (Ok (), (w2, k2))"
    "Hasher_finish F (w2, h1) = (Ok (dig md (d @ a)), (w3, h3))"
    "Hasher_finish F (w3, k2) = (Ok (dig md (e @ b)), (w4, k4))"
proof -
  obtain w1 h1 where 1: "Hasher_update F a (w, h) = (Ok (), (w1, h1))"
    "hasher_stands F H dig md c r1 (w1, h1) (d @ a)"
    using Hasher_update_run [OF h] by fastforce
  have "H w1 p = H w p" using stands_rest [OF h] stands_rest [OF 1(2)] cp by metis
  from stands_transfer [OF k this] obtain w2 k2 where 2: "Hasher_update F b (w1, k) = (Ok (), (w2, k2))"
    "hasher_stands F H dig md p ((H w1)(p := None)) (w2, k2) (e @ b)"
    using Hasher_update_run by fastforce
  have "H w2 c = H w1 c" using stands_rest [OF 2(2)] cp by simp
  from stands_transfer [OF 1(2) this] obtain w3 h3 where 3: "Hasher_finish F (w2, h1) = (Ok (dig md (d @ a)), (w3, h3))"
    "hasher_stands F H dig md c ((H w2)(c := None)) (w3, h3) []"
    using Hasher_finish_run by fastforce
  have "H w3 p = H w2 p" using stands_rest [OF 3(2)] cp by simp
  from stands_transfer [OF 2(2) this] obtain w4 k4 where "Hasher_finish F (w3, k2) = (Ok (dig md (e @ b)), (w4, k4))"
    using Hasher_finish_run by fastforce
  with 1 2 3 show thesis by (intro that) auto
qed

text \<open>
  A clone is independent. From a hasher that has been fed \<open>d\<close>, a clone can be made; whatever
  is then fed to the two, each returns the digest of \<open>d\<close> followed by its own data.
\<close>

lemma clone_is_independent:
  assumes "md_law F H dig" and new: "Hasher_new F md w = (Ok h, w1)"
    and fed: "Hasher_update F d (w1, h) = (Ok (), (w2, h2))"
  shows "\<exists>k w3. Hasher_clone F h2 w2 = (Ok k :: (error_stack, hasher) outcome, w3) \<and>
    (\<forall>a b. \<exists>w4 h4 w5 k5 w6 h6 w7 k7.
       Hasher_update F a (w3, h2) = (Ok (), (w4, h4)) \<and> Hasher_update F b (w4, k) = (Ok (), (w5, k5)) \<and>
       Hasher_finish F (w5, h4) = (Ok (dig md (d @ a)), (w6, h6)) \<and>
       Hasher_finish F (w6, k5) = (Ok (dig md (d @ b)), (w7, k7)))"
proof -
  obtain h' w1' where "Hasher_new F md w = (Ok h', w1')"
    "hasher_stands F H dig md (h_ctx h') (H w) (w1', h') []"
    by (rule Hasher_new_run [OF assms(1)])
  with new have "hasher_stands F H dig md (h_ctx h) (H w) (w1, h) []" by simp
  from Hasher_update_run [OF this, of d] fed
  have "hasher_stands F H dig md (h_ctx h) (H w) (w2, h2) d" by simp
  then obtain k w3 where k: "Hasher_clone F h2 w2 = (Ok k :: (error_stack, hasher) outcome, w3)" "h_ctx k \<noteq> h_ctx h"
    and st: "hasher_stands F H dig md (h_ctx h) ((H w3)(h_ctx h := None)) (w3, h2) d"
    "hasher_stands F H dig md (h_ctx k) ((H w3)(h_ctx k := None)) (w3, k) d"
    by (rule Hasher_clone_run)
  have "\<exists>w4 h4 w5 k5 w6 h6 w7 k7.
       Hasher_update F a (w3, h2) = (Ok (), (w4, h4)) \<and> Hasher_update F b (w4, k) = (Ok (), (w5, k5)) \<and>
       Hasher_finish F (w5, h4) = (Ok (dig md (d @ a)), (w6, h6)) \<and>
       Hasher_finish F (w6, k5) = (Ok (dig md (d @ b)), (w7, k7))" (is "?two a b") for a b
    by (rule feed_two [OF st k(2) [symmetric], of a b]) (intro exI conjI)
  then have "\<forall>a b. ?two a b" by (intro allI)
  with k(1) show ?thesis by blast
qed

subsection \<open>A concrete library\<close>

text \<open>Contexts in an association list, and a digest that keeps the first bytes.\<close>

definition md_demo :: "(nat \<times> md_ctx) list ffi" where
  "md_demo f args w =
     (if f = ''EVP_MD_CTX_new'' then ((CPtr (al_fresh w), []), (al_fresh w, MdBlank) # w)
      else case args of
        CPtr c # rest \<Rightarrow>
          if f = ''EVP_DigestInit_ex'' then ((CInt 1, []), (c, MdAbsorbing (hd rest) []) # w)
          else if f = ''EVP_DigestUpdate'' then
            (case map_of w c of
               Some (MdAbsorbing md d) \<Rightarrow> ((CInt 1, []), (c, MdAbsorbing md (d @ c_bytes (hd rest))) # w)
             | _ \<Rightarrow> ((CInt 0, []), w))
          else if f = ''EVP_DigestFinal_ex'' then
            (case map_of w c of
               Some (MdAbsorbing md d) \<Rightarrow>
                 ((CInt 1, [CBytes (take 4 d), CInt (int (length (take 4 d)))]), (c, MdDone) # w)
             | _ \<Rightarrow> ((CInt 0, []), w))
          else if f = ''EVP_MD_CTX_copy_ex'' then
            (case rest of
               [CPtr c'] \<Rightarrow>
                 (case map_of w c' of Some x \<Rightarrow> ((CInt 1, []), (c, x) # w) | None \<Rightarrow> ((CInt 0, []), w))
             | _ \<Rightarrow> ((CInt 0, []), w))
          else if f = ''EVP_MD_CTX_free'' then ((CNull, []), filter (\<lambda>(k, _). k \<noteq> c) w)
          else ((CInt 0, []), w)
      | _ \<Rightarrow> ((CInt 0, []), w))"

lemma md_demo_law: "md_law md_demo al_heap (\<lambda>_. take 4)"
  unfolding md_law_def
proof (intro conjI allI impI)
  fix w c show "al_heap (snd (md_demo ''EVP_MD_CTX_free'' [c] w)) = (al_heap w)(c := None)"
    by (cases c) (auto simp: md_demo_def al_heap_filter fun_upd_idem)
next
  fix w :: "(nat \<times> md_ctx) list" and c md assume "al_heap w c \<noteq> None"
  then show "\<exists>r os w'. md_demo ''EVP_DigestInit_ex'' [c, md, CNull] w = ((r, os), w') \<and> 0 < c_int r \<and>
      al_heap w' = (al_heap w)(c \<mapsto> MdAbsorbing md [])"
    by (cases c) (auto simp: md_demo_def al_heap_Cons)
next
  fix w c md d b assume "al_heap w c = Some (MdAbsorbing md d)"
  then show "\<exists>r os w'. md_demo ''EVP_DigestUpdate'' [c, CBytes b, CInt (int (length b))] w = ((r, os), w') \<and>
      0 < c_int r \<and> al_heap w' = (al_heap w)(c \<mapsto> MdAbsorbing md (d @ b))"
    by (cases c) (auto simp: md_demo_def al_heap_Cons)
next
  fix w c md d assume "al_heap w c = Some (MdAbsorbing md d)"
  then show "\<exists>r w'. md_demo ''EVP_DigestFinal_ex'' [c] w = ((r, [CBytes (take 4 d), CInt (int (length (take 4 d)))]), w') \<and>
      0 < c_int r \<and> al_heap w' = (al_heap w)(c \<mapsto> MdDone)"
    by (cases c) (auto simp: md_demo_def al_heap_Cons)
next
  fix w :: "(nat \<times> md_ctx) list" and c c' x assume "al_heap w c \<noteq> None" "al_heap w c' = Some x"
  then show "\<exists>os w'. md_demo ''EVP_MD_CTX_copy_ex'' [c, c'] w = ((CInt 1, os), w') \<and> al_heap w' = (al_heap w)(c \<mapsto> x)"
    by (cases c; cases c') (auto simp: md_demo_def al_heap_Cons)
qed (auto simp: md_demo_def al_heap_Cons al_fresh_None [simplified] EVP_MAX_MD_SIZE_def)

theorem hasher_computes_digests_witness:
  "\<exists>h w1 s. Hasher_new md_demo (CStr ''sha256'') [] = (Ok h, w1) \<and>
     run_script (Hasher_update md_demo) (Hasher_finish md_demo) [Feed [1, 2], Feed [3], Finish, Finish, Feed [4], Finish]
       (w1, h) = (Ok [[1, 2, 3], [], [4]], s)"
proof -
  obtain h w1 where new: "Hasher_new md_demo (CStr ''sha256'') [] = (Ok h, w1)"
    and run: "\<And>ops. \<exists>s s'. run_script (Hasher_update md_demo) (Hasher_finish md_demo) ops (w1, h) =
        (Ok (digests (take 4) [] ops), s) \<and> Hasher_drop md_demo s = (Ok (), s') \<and> al_heap (fst s') = al_heap []"
    using hasher_computes_digests [OF md_demo_law, of "CStr ''sha256''" "[]"] by blast
  from run [of "[Feed [1, 2], Feed [3], Finish, Finish, Feed [4], Finish]"] new show ?thesis by auto
qed

lemma md_demo_fed:
  obtains h w1 w2 h2 where "Hasher_new md_demo (CStr ''md5'') [] = (Ok h, w1)"
    "Hasher_update md_demo [7] (w1, h) = (Ok (), (w2, h2))"
proof -
  obtain h w1 where new: "Hasher_new md_demo (CStr ''md5'') [] = (Ok h, w1)"
    "hasher_stands md_demo al_heap (\<lambda>_. take 4) (CStr ''md5'') (h_ctx h) (al_heap []) (w1, h) []"
    by (rule Hasher_new_run [OF md_demo_law])
  from new(1) Hasher_update_run [OF new(2), of "[7]"] show thesis by (auto intro: that)
qed

lemma clone_is_independent_witness:
  "\<exists>h2 k w3 w4 h4 w5 k5 w6 h6 w7 k7.
     Hasher_update md_demo [8] (w3, h2) = (Ok (), (w4, h4)) \<and> Hasher_update md_demo [9] (w4, k) = (Ok (), (w5, k5)) \<and>
     Hasher_finish md_demo (w5, h4) = (Ok [7, 8], (w6, h6)) \<and>
     Hasher_finish md_demo (w6, k5) = (Ok [7, 9], (w7, k7))"
proof -
  obtain h w1 w2 h2 where fed: "Hasher_new md_demo (CStr ''md5'') [] = (Ok h, w1)"
    "Hasher_update md_demo [7] (w1, h) = (Ok (), (w2, h2))"
    by (rule md_demo_fed)
  from clone_is_independent [OF md_demo_law fed] obtain k w3 where
    "\<exists>w4 h4 w5 k5 w6 h6 w7 k7.
       Hasher_update md_demo [8] (w3, h2) = (Ok (), (w4, h4)) \<and> Hasher_update md_demo [9] (w4, k) = (Ok (), (w5, k5)) \<and>
       Hasher_finish md_demo (w5, h4) = (Ok (take 4 ([7] @ [8])), (w6, h6)) \<and>
       Hasher_finish md_demo (w6, k5) = (Ok (take 4 ([7] @ [9])), (w7, k7))" by blast
  then show ?thesis by (simp only: append.simps take_Suc_Cons take_Nil numeral_eq_Suc pred_numeral_simps) blast
qed

end
