(* ===== verification/Ossl_Sha.thy ===== *)
theory Ossl_Sha
  imports Ossl_Hash
begin

text \<open>
  The five fixed hashers of \<open>openssl/src/sha.rs\<close>, each around a C context held by value. They are
  instances of the locale \<open>absorber\<close>; hashing in chunks agrees with the one-shot functions.
\<close>

subsection \<open>The fixed hashers\<close>

text \<open>The object is the C context itself; the arrays of the result have a fixed size.\<close>

definition sha1 :: "'w ffi \<Rightarrow> byte list \<Rightarrow> ('w, 'e, byte list) eff" where
  "sha1 F data = and_then (ccall F ''SHA1'' [CBytes data, CInt (int (length data))]) (\<lambda>(_, os). ret (c_bytes (out os 0)))"

definition Sha1_new :: "'w ffi \<Rightarrow> ('w, 'e, cval) eff" where
  "Sha1_new F = and_then (ccall F ''SHA1_Init'' []) (\<lambda>(_, os). ret (out os 0))"

definition Sha1_update :: "'w ffi \<Rightarrow> byte list \<Rightarrow> ('w \<times> cval, 'e, unit) eff" where
  "Sha1_update F buf =
     and_then self (\<lambda>ctx.
     and_then (lifted (ccall F ''SHA1_Update'' [ctx, CBytes buf, CInt (int (length buf))])) (\<lambda>(_, os).
       modify_self (\<lambda>_. out os 0)))"

definition Sha1_finish :: "'w ffi \<Rightarrow> cval \<Rightarrow> ('w, 'e, byte list) eff" where
  "Sha1_finish F ctx = and_then (ccall F ''SHA1_Final'' [ctx]) (\<lambda>(_, os). ret (c_bytes (out os 0)))"

definition sha224 :: "'w ffi \<Rightarrow> byte list \<Rightarrow> ('w, 'e, byte list) eff" where
  "sha224 F data = and_then (ccall F ''SHA224'' [CBytes data, CInt (int (length data))]) (\<lambda>(_, os). ret (c_bytes (out os 0)))"

definition Sha224_new :: "'w ffi \<Rightarrow> ('w, 'e, cval) eff" where
  "Sha224_new F = and_then (ccall F ''SHA224_Init'' []) (\<lambda>(_, os). ret (out os 0))"

definition Sha224_update :: "'w ffi \<Rightarrow> byte list \<Rightarrow> ('w \<times> cval, 'e, unit) eff" where
  "Sha224_update F buf =
     and_then self (\<lambda>ctx.
     and_then (lifted (ccall F ''SHA224_Update'' [ctx, CBytes buf, CInt (int (length buf))])) (\<lambda>(_, os).
       modify_self (\<lambda>_. out os 0)))"

definition Sha224_finish :: "'w ffi \<Rightarrow> cval \<Rightarrow> ('w, 'e, byte list) eff" where
  "Sha224_finish F ctx = and_then (ccall F ''SHA224_Final'' [ctx]) (\<lambda>(_, os). ret (c_bytes (out os 0)))"

definition sha256 :: "'w ffi \<Rightarrow> byte list \<Rightarrow> ('w, 'e, byte list) eff" where
  "sha256 F data = and_then (ccall F ''SHA256'' [CBytes data, CInt (int (length data))]) (\<lambda>(_, os). ret (c_bytes (out os 0)))"

definition Sha256_new :: "'w ffi \<Rightarrow> ('w, 'e, cval) eff" where
  "Sha256_new F = and_then (ccall F ''SHA256_Init'' []) (\<lambda>(_, os). ret (out os 0))"

definition Sha256_update :: "'w ffi \<Rightarrow> byte list \<Rightarrow> ('w \<times> cval, 'e, unit) eff" where
  "Sha256_update F buf =
     and_then self (\<lambda>ctx.
     and_then (lifted (ccall F ''SHA256_Update'' [ctx, CBytes buf, CInt (int (length buf))])) (\<lambda>(_, os).
       modify_self (\<lambda>_. out os 0)))"

definition Sha256_finish :: "'w ffi \<Rightarrow> cval \<Rightarrow> ('w, 'e, byte list) eff" where
  "Sha256_finish F ctx = and_then (ccall F ''SHA256_Final'' [ctx]) (\<lambda>(_, os). ret (c_bytes (out os 0)))"

definition sha384 :: "'w ffi \<Rightarrow> byte list \<Rightarrow> ('w, 'e, byte list) eff" where
  "sha384 F data = and_then (ccall F ''SHA384'' [CBytes data, CInt (int (length data))]) (\<lambda>(_, os). ret (c_bytes (out os 0)))"

definition Sha384_new :: "'w ffi \<Rightarrow> ('w, 'e, cval) eff" where
  "Sha384_new F = and_then (ccall F ''SHA384_Init'' []) (\<lambda>(_, os). ret (out os 0))"

definition Sha384_update :: "'w ffi \<Rightarrow> byte list \<Rightarrow> ('w \<times> cval, 'e, unit) eff" where
  "Sha384_update F buf =
     and_then self (\<lambda>ctx.
     and_then (lifted (ccall F ''SHA384_Update'' [ctx, CBytes buf, CInt (int (length buf))])) (\<lambda>(_, os).
       modify_self (\<lambda>_. out os 0)))"

definition Sha384_finish :: "'w ffi \<Rightarrow> cval \<Rightarrow> ('w, 'e, byte list) eff" where
  "Sha384_finish F ctx = and_then (ccall F ''SHA384_Final'' [ctx]) (\<lambda>(_, os). ret (c_bytes (out os 0)))"

definition sha512 :: "'w ffi \<Rightarrow> byte list \<Rightarrow> ('w, 'e, byte list) eff" where
  "sha512 F data = and_then (ccall F ''SHA512'' [CBytes data, CInt (int (length data))]) (\<lambda>(_, os). ret (c_bytes (out os 0)))"

definition Sha512_new :: "'w ffi \<Rightarrow> ('w, 'e, cval) eff" where
  "Sha512_new F = and_then (ccall F ''SHA512_Init'' []) (\<lambda>(_, os). ret (out os 0))"

definition Sha512_update :: "'w ffi \<Rightarrow> byte list \<Rightarrow> ('w \<times> cval, 'e, unit) eff" where
  "Sha512_update F buf =
     and_then self (\<lambda>ctx.
     and_then (lifted (ccall F ''SHA512_Update'' [ctx, CBytes buf, CInt (int (length buf))])) (\<lambda>(_, os).
       modify_self (\<lambda>_. out os 0)))"

definition Sha512_finish :: "'w ffi \<Rightarrow> cval \<Rightarrow> ('w, 'e, byte list) eff" where
  "Sha512_finish F ctx = and_then (ccall F ''SHA512_Final'' [ctx]) (\<lambda>(_, os). ret (c_bytes (out os 0)))"

subsection \<open>What they compute\<close>

text \<open>A context held by value stands for the data it has absorbed, as \<open>rep\<close> reads it.\<close>

definition sha_law :: "'w ffi \<Rightarrow> string \<Rightarrow> (cval \<Rightarrow> byte list option) \<Rightarrow> (byte list \<Rightarrow> byte list) \<Rightarrow> bool" where
  "sha_law F S rep dig \<longleftrightarrow>
     (\<forall>w. rep (out (snd (fst (F (S @ ''_Init'') [] w))) 0) = Some []) \<and>
     (\<forall>w c d b. rep c = Some d \<longrightarrow>
        rep (out (snd (fst (F (S @ ''_Update'') [c, CBytes b, CInt (int (length b))] w))) 0) = Some (d @ b)) \<and>
     (\<forall>w c d. rep c = Some d \<longrightarrow> c_bytes (out (snd (fst (F (S @ ''_Final'') [c] w))) 0) = dig d) \<and>
     (\<forall>w d. c_bytes (out (snd (fst (F S [CBytes d, CInt (int (length d))] w))) 0) = dig d)"

definition sha_stands ::
  "'w ffi \<Rightarrow> string \<Rightarrow> (cval \<Rightarrow> byte list option) \<Rightarrow> (byte list \<Rightarrow> byte list) \<Rightarrow> 'w \<times> cval \<Rightarrow> byte list \<Rightarrow> bool" where
  "sha_stands F S rep dig s d \<longleftrightarrow> sha_law F S rep dig \<and> rep (snd s) = Some d"

interpretation sha1: absorber "sha_stands F ''SHA1'' rep dig" "Sha1_update F" for F rep dig
  by unfold_locales
    (auto simp: sha_stands_def sha_law_def Sha1_update_def and_then_def lifted_def ccall_def case_prod_beta)

interpretation sha224: absorber "sha_stands F ''SHA224'' rep dig" "Sha224_update F" for F rep dig
  by unfold_locales
    (auto simp: sha_stands_def sha_law_def Sha224_update_def and_then_def lifted_def ccall_def case_prod_beta)

interpretation sha256: absorber "sha_stands F ''SHA256'' rep dig" "Sha256_update F" for F rep dig
  by unfold_locales
    (auto simp: sha_stands_def sha_law_def Sha256_update_def and_then_def lifted_def ccall_def case_prod_beta)

interpretation sha384: absorber "sha_stands F ''SHA384'' rep dig" "Sha384_update F" for F rep dig
  by unfold_locales
    (auto simp: sha_stands_def sha_law_def Sha384_update_def and_then_def lifted_def ccall_def case_prod_beta)

interpretation sha512: absorber "sha_stands F ''SHA512'' rep dig" "Sha512_update F" for F rep dig
  by unfold_locales
    (auto simp: sha_stands_def sha_law_def Sha512_update_def and_then_def lifted_def ccall_def case_prod_beta)

text \<open>Both ways of hashing, for a hasher given by its four functions.\<close>

definition chunked ::
  "('w, 'e, cval) eff \<Rightarrow> (byte list \<Rightarrow> ('w \<times> cval, 'e, unit) eff) \<Rightarrow> (cval \<Rightarrow> ('w, 'e, byte list) eff) \<Rightarrow>
   byte list list \<Rightarrow> ('w, 'e, byte list) eff" where
  "chunked new upd fin bs =
     and_then new (\<lambda>c. and_then (with_object c (for_each upd bs)) (\<lambda>(_, c). fin c))"

lemma chunked_step:
  assumes "new w = (Ok c, w1)" "for_each upd bs (w1, c) = (Ok (), (w2, c2))" "fst (fin c2 w2) = Ok r"
  shows "fst (chunked new upd fin bs w) = Ok r"
  using assms by (simp add: chunked_def and_then_def with_object_def)

lemma sha1_chunked:
  assumes "sha_law F ''SHA1'' rep dig"
  shows "fst (chunked (Sha1_new F) (Sha1_update F) (Sha1_finish F) bs w) = (Ok (dig (concat bs)) :: ('e, byte list) outcome)"
    "fst (sha1 F (concat bs) w) = Ok (dig (concat bs))"
proof -
  let ?r = "F ''SHA1_Init'' [] w"
  have "sha_stands F ''SHA1'' rep dig (snd ?r, out (snd (fst ?r)) 0) []"
    using assms by (simp add: sha_stands_def sha_law_def)
  from sha1.absorbs_all [OF this, of bs] obtain w' c where
    run: "for_each (Sha1_update F) bs (snd ?r, out (snd (fst ?r)) 0) = (Ok () :: ('e, unit) outcome, (w', c))"
    and "rep c = Some (concat bs)"
    by (auto simp: sha_stands_def)
  then have fin: "fst (Sha1_finish F c w') = (Ok (dig (concat bs)) :: ('e, byte list) outcome)"
    using assms by (simp add: Sha1_finish_def sha_law_def and_then_def ccall_def case_prod_beta)
  have "Sha1_new F w = (Ok (out (snd (fst ?r)) 0) :: ('e, cval) outcome, snd ?r)"
    by (simp add: Sha1_new_def and_then_def ccall_def case_prod_beta)
  from chunked_step [of "Sha1_new F" _ _ _ "Sha1_update F" _ _ _ "Sha1_finish F", OF this run fin]
  show "fst (chunked (Sha1_new F) (Sha1_update F) (Sha1_finish F) bs w) = (Ok (dig (concat bs)) :: ('e, byte list) outcome)" .
  show "fst (sha1 F (concat bs) w) = Ok (dig (concat bs))"
    using assms by (simp add: sha1_def sha_law_def and_then_def ccall_def case_prod_beta)
qed

lemma sha224_chunked:
  assumes "sha_law F ''SHA224'' rep dig"
  shows "fst (chunked (Sha224_new F) (Sha224_update F) (Sha224_finish F) bs w) = (Ok (dig (concat bs)) :: ('e, byte list) outcome)"
    "fst (sha224 F (concat bs) w) = Ok (dig (concat bs))"
proof -
  let ?r = "F ''SHA224_Init'' [] w"
  have "sha_stands F ''SHA224'' rep dig (snd ?r, out (snd (fst ?r)) 0) []"
    using assms by (simp add: sha_stands_def sha_law_def)
  from sha224.absorbs_all [OF this, of bs] obtain w' c where
    run: "for_each (Sha224_update F) bs (snd ?r, out (snd (fst ?r)) 0) = (Ok () :: ('e, unit) outcome, (w', c))"
    and "rep c = Some (concat bs)"
    by (auto simp: sha_stands_def)
  then have fin: "fst (Sha224_finish F c w') = (Ok (dig (concat bs)) :: ('e, byte list) outcome)"
    using assms by (simp add: Sha224_finish_def sha_law_def and_then_def ccall_def case_prod_beta)
  have "Sha224_new F w = (Ok (out (snd (fst ?r)) 0) :: ('e, cval) outcome, snd ?r)"
    by (simp add: Sha224_new_def and_then_def ccall_def case_prod_beta)
  from chunked_step [of "Sha224_new F" _ _ _ "Sha224_update F" _ _ _ "Sha224_finish F", OF this run fin]
  show "fst (chunked (Sha224_new F) (Sha224_update F) (Sha224_finish F) bs w) = (Ok (dig (concat bs)) :: ('e, byte list) outcome)" .
  show "fst (sha224 F (concat bs) w) = Ok (dig (concat bs))"
    using assms by (simp add: sha224_def sha_law_def and_then_def ccall_def case_prod_beta)
qed

lemma sha256_chunked:
  assumes "sha_law F ''SHA256'' rep dig"
  shows "fst (chunked (Sha256_new F) (Sha256_update F) (Sha256_finish F) bs w) = (Ok (dig (concat bs)) :: ('e, byte list) outcome)"
    "fst (sha256 F (concat bs) w) = Ok (dig (concat bs))"
proof -
  let ?r = "F ''SHA256_Init'' [] w"
  have "sha_stands F ''SHA256'' rep dig (snd ?r, out (snd (fst ?r)) 0) []"
    using assms by (simp add: sha_stands_def sha_law_def)
  from sha256.absorbs_all [OF this, of bs] obtain w' c where
    run: "for_each (Sha256_update F) bs (snd ?r, out (snd (fst ?r)) 0) = (Ok () :: ('e, unit) outcome, (w', c))"
    and "rep c = Some (concat bs)"
    by (auto simp: sha_stands_def)
  then have fin: "fst (Sha256_finish F c w') = (Ok (dig (concat bs)) :: ('e, byte list) outcome)"
    using assms by (simp add: Sha256_finish_def sha_law_def and_then_def ccall_def case_prod_beta)
  have "Sha256_new F w = (Ok (out (snd (fst ?r)) 0) :: ('e, cval) outcome, snd ?r)"
    by (simp add: Sha256_new_def and_then_def ccall_def case_prod_beta)
  from chunked_step [of "Sha256_new F" _ _ _ "Sha256_update F" _ _ _ "Sha256_finish F", OF this run fin]
  show "fst (chunked (Sha256_new F) (Sha256_update F) (Sha256_finish F) bs w) = (Ok (dig (concat bs)) :: ('e, byte list) outcome)" .
  show "fst (sha256 F (concat bs) w) = Ok (dig (concat bs))"
    using assms by (simp add: sha256_def sha_law_def and_then_def ccall_def case_prod_beta)
qed

lemma sha384_chunked:
  assumes "sha_law F ''SHA384'' rep dig"
  shows "fst (chunked (Sha384_new F) (Sha384_update F) (Sha384_finish F) bs w) = (Ok (dig (concat bs)) :: ('e, byte list) outcome)"
    "fst (sha384 F (concat bs) w) = Ok (dig (concat bs))"
proof -
  let ?r = "F ''SHA384_Init'' [] w"
  have "sha_stands F ''SHA384'' rep dig (snd ?r, out (snd (fst ?r)) 0) []"
    using assms by (simp add: sha_stands_def sha_law_def)
  from sha384.absorbs_all [OF this, of bs] obtain w' c where
    run: "for_each (Sha384_update F) bs (snd ?r, out (snd (fst ?r)) 0) = (Ok () :: ('e, unit) outcome, (w', c))"
    and "rep c = Some (concat bs)"
    by (auto simp: sha_stands_def)
  then have fin: "fst (Sha384_finish F c w') = (Ok (dig (concat bs)) :: ('e, byte list) outcome)"
    using assms by (simp add: Sha384_finish_def sha_law_def and_then_def ccall_def case_prod_beta)
  have "Sha384_new F w = (Ok (out (snd (fst ?r)) 0) :: ('e, cval) outcome, snd ?r)"
    by (simp add: Sha384_new_def and_then_def ccall_def case_prod_beta)
  from chunked_step [of "Sha384_new F" _ _ _ "Sha384_update F" _ _ _ "Sha384_finish F", OF this run fin]
  show "fst (chunked (Sha384_new F) (Sha384_update F) (Sha384_finish F) bs w) = (Ok (dig (concat bs)) :: ('e, byte list) outcome)" .
  show "fst (sha384 F (concat bs) w) = Ok (dig (concat bs))"
    using assms by (simp add: sha384_def sha_law_def and_then_def ccall_def case_prod_beta)
qed

lemma sha512_chunked:
  assumes "sha_law F ''SHA512'' rep dig"
  shows "fst (chunked (Sha512_new F) (Sha512_update F) (Sha512_finish F) bs w) = (Ok (dig (concat bs)) :: ('e, byte list) outcome)"
    "fst (sha512 F (concat bs) w) = Ok (dig (concat bs))"
proof -
  let ?r = "F ''SHA512_Init'' [] w"
  have "sha_stands F ''SHA512'' rep dig (snd ?r, out (snd (fst ?r)) 0) []"
    using assms by (simp add: sha_stands_def sha_law_def)
  from sha512.absorbs_all [OF this, of bs] obtain w' c where
    run: "for_each (Sha512_update F) bs (snd ?r, out (snd (fst ?r)) 0) = (Ok () :: ('e, unit) outcome, (w', c))"
    and "rep c = Some (concat bs)"
    by (auto simp: sha_stands_def)
  then have fin: "fst (Sha512_finish F c w') = (Ok (dig (concat bs)) :: ('e, byte list) outcome)"
    using assms by (simp add: Sha512_finish_def sha_law_def and_then_def ccall_def case_prod_beta)
  have "Sha512_new F w = (Ok (out (snd (fst ?r)) 0) :: ('e, cval) outcome, snd ?r)"
    by (simp add: Sha512_new_def and_then_def ccall_def case_prod_beta)
  from chunked_step [of "Sha512_new F" _ _ _ "Sha512_update F" _ _ _ "Sha512_finish F", OF this run fin]
  show "fst (chunked (Sha512_new F) (Sha512_update F) (Sha512_finish F) bs w) = (Ok (dig (concat bs)) :: ('e, byte list) outcome)" .
  show "fst (sha512 F (concat bs) w) = Ok (dig (concat bs))"
    using assms by (simp add: sha512_def sha_law_def and_then_def ccall_def case_prod_beta)
qed

text \<open>
  Cutting the input does not matter. For each of the five fixed hashers, creating one, feeding
  it the data in any chunks and finishing it gives what the one-shot function gives for the whole
  data, the digest.
\<close>

lemma sha_chunks_agree:
  assumes "sha_law F ''SHA1'' rep dig1" "sha_law F ''SHA224'' rep dig224" "sha_law F ''SHA256'' rep dig256"
    "sha_law F ''SHA384'' rep dig384" "sha_law F ''SHA512'' rep dig512"
  shows "fst (chunked (Sha1_new F) (Sha1_update F) (Sha1_finish F) bs w) = (fst (sha1 F (concat bs) w) :: ('e, byte list) outcome) \<and>
     fst (sha1 F (concat bs) w) = (Ok (dig1 (concat bs)) :: ('e, byte list) outcome) \<and>
    fst (chunked (Sha224_new F) (Sha224_update F) (Sha224_finish F) bs w) = (fst (sha224 F (concat bs) w) :: ('e, byte list) outcome) \<and>
     fst (sha224 F (concat bs) w) = (Ok (dig224 (concat bs)) :: ('e, byte list) outcome) \<and>
    fst (chunked (Sha256_new F) (Sha256_update F) (Sha256_finish F) bs w) = (fst (sha256 F (concat bs) w) :: ('e, byte list) outcome) \<and>
     fst (sha256 F (concat bs) w) = (Ok (dig256 (concat bs)) :: ('e, byte list) outcome) \<and>
    fst (chunked (Sha384_new F) (Sha384_update F) (Sha384_finish F) bs w) = (fst (sha384 F (concat bs) w) :: ('e, byte list) outcome) \<and>
     fst (sha384 F (concat bs) w) = (Ok (dig384 (concat bs)) :: ('e, byte list) outcome) \<and>
    fst (chunked (Sha512_new F) (Sha512_update F) (Sha512_finish F) bs w) = (fst (sha512 F (concat bs) w) :: ('e, byte list) outcome) \<and>
     fst (sha512 F (concat bs) w) = (Ok (dig512 (concat bs)) :: ('e, byte list) outcome)"
  using assms by (simp add: sha1_chunked sha224_chunked sha256_chunked sha384_chunked sha512_chunked)

text \<open>A context that is the data itself, and a digest that is its first byte.\<close>

definition sha_demo :: "unit ffi" where
  "sha_demo f args w =
     (case args of
        [] \<Rightarrow> ((CNull, [CBytes []]), w)
      | [c] \<Rightarrow> ((CNull, [CBytes (take 1 (c_bytes c))]), w)
      | [b, _] \<Rightarrow> ((CNull, [CBytes (take 1 (c_bytes b))]), w)
      | c # b # _ \<Rightarrow> ((CNull, [CBytes (c_bytes c @ c_bytes b)]), w))"

lemma sha_demo_law: "sha_law sha_demo S (\<lambda>c. case c of CBytes b \<Rightarrow> Some b | _ \<Rightarrow> None) (take 1)"
  by (auto simp: sha_law_def sha_demo_def out_def split: cval.splits)

lemma sha_chunks_agree_witness:
  "fst (chunked (Sha256_new sha_demo) (Sha256_update sha_demo) (Sha256_finish sha_demo) [[5], [], [6, 7]] ()) =
     (Ok [5] :: (unit, byte list) outcome)"
  using sha_chunks_agree [OF sha_demo_law sha_demo_law sha_demo_law sha_demo_law sha_demo_law,
      where 'e = unit, of "[[5], [], [6, 7]]" "()"]
  by simp

end
