(* ===== verification/Ossl_Symm.thy ===== *)
theory Ossl_Symm
  imports Ossl_Hash
begin

text \<open>
  Symmetric ciphers, \<open>openssl/src/symm.rs\<close>: the \<open>Crypter\<close> around an OpenSSL cipher context, with
  its assertions on buffer lengths, and the one-shot functions that allocate an output buffer, run
  a crypter over it and truncate it.

  A method that writes into a slice returns the number of bytes and the slice afterwards. A key or
  a buffer is passed to C as its bytes.
\<close>

subsection \<open>Ciphers\<close>

datatype mode = Encrypt | Decrypt

definition Cipher_aes_128_ecb :: "'w ffi \<Rightarrow> ('w, 'e, cval) eff" where
  "Cipher_aes_128_ecb F = and_then (ccall F ''EVP_aes_128_ecb'' []) (\<lambda>(c, _). ret c)"

definition Cipher_aes_128_cbc :: "'w ffi \<Rightarrow> ('w, 'e, cval) eff" where
  "Cipher_aes_128_cbc F = and_then (ccall F ''EVP_aes_128_cbc'' []) (\<lambda>(c, _). ret c)"

definition Cipher_aes_128_xts :: "'w ffi \<Rightarrow> ('w, 'e, cval) eff" where
  "Cipher_aes_128_xts F = and_then (ccall F ''EVP_aes_128_xts'' []) (\<lambda>(c, _). ret c)"

definition Cipher_aes_128_ctr :: "'w ffi \<Rightarrow> ('w, 'e, cval) eff" where
  "Cipher_aes_128_ctr F = and_then (ccall F ''EVP_aes_128_ctr'' []) (\<lambda>(c, _). ret c)"

definition Cipher_aes_128_cfb1 :: "'w ffi \<Rightarrow> ('w, 'e, cval) eff" where
  "Cipher_aes_128_cfb1 F = and_then (ccall F ''EVP_aes_128_cfb1'' []) (\<lambda>(c, _). ret c)"

definition Cipher_aes_128_cfb128 :: "'w ffi \<Rightarrow> ('w, 'e, cval) eff" where
  "Cipher_aes_128_cfb128 F = and_then (ccall F ''EVP_aes_128_cfb128'' []) (\<lambda>(c, _). ret c)"

definition Cipher_aes_128_cfb8 :: "'w ffi \<Rightarrow> ('w, 'e, cval) eff" where
  "Cipher_aes_128_cfb8 F = and_then (ccall F ''EVP_aes_128_cfb8'' []) (\<lambda>(c, _). ret c)"

definition Cipher_aes_128_gcm :: "'w ffi \<Rightarrow> ('w, 'e, cval) eff" where
  "Cipher_aes_128_gcm F = and_then (ccall F ''EVP_aes_128_gcm'' []) (\<lambda>(c, _). ret c)"

definition Cipher_aes_256_ecb :: "'w ffi \<Rightarrow> ('w, 'e, cval) eff" where
  "Cipher_aes_256_ecb F = and_then (ccall F ''EVP_aes_256_ecb'' []) (\<lambda>(c, _). ret c)"

definition Cipher_aes_256_cbc :: "'w ffi \<Rightarrow> ('w, 'e, cval) eff" where
  "Cipher_aes_256_cbc F = and_then (ccall F ''EVP_aes_256_cbc'' []) (\<lambda>(c, _). ret c)"

definition Cipher_aes_256_xts :: "'w ffi \<Rightarrow> ('w, 'e, cval) eff" where
  "Cipher_aes_256_xts F = and_then (ccall F ''EVP_aes_256_xts'' []) (\<lambda>(c, _). ret c)"

definition Cipher_aes_256_ctr :: "'w ffi \<Rightarrow> ('w, 'e, cval) eff" where
  "Cipher_aes_256_ctr F = and_then (ccall F ''EVP_aes_256_ctr'' []) (\<lambda>(c, _). ret c)"

definition Cipher_aes_256_cfb1 :: "'w ffi \<Rightarrow> ('w, 'e, cval) eff" where
  "Cipher_aes_256_cfb1 F = and_then (ccall F ''EVP_aes_256_cfb1'' []) (\<lambda>(c, _). ret c)"

definition Cipher_aes_256_cfb128 :: "'w ffi \<Rightarrow> ('w, 'e, cval) eff" where
  "Cipher_aes_256_cfb128 F = and_then (ccall F ''EVP_aes_256_cfb128'' []) (\<lambda>(c, _). ret c)"

definition Cipher_aes_256_cfb8 :: "'w ffi \<Rightarrow> ('w, 'e, cval) eff" where
  "Cipher_aes_256_cfb8 F = and_then (ccall F ''EVP_aes_256_cfb8'' []) (\<lambda>(c, _). ret c)"

definition Cipher_aes_256_gcm :: "'w ffi \<Rightarrow> ('w, 'e, cval) eff" where
  "Cipher_aes_256_gcm F = and_then (ccall F ''EVP_aes_256_gcm'' []) (\<lambda>(c, _). ret c)"

definition Cipher_bf_cbc :: "'w ffi \<Rightarrow> ('w, 'e, cval) eff" where
  "Cipher_bf_cbc F = and_then (ccall F ''EVP_bf_cbc'' []) (\<lambda>(c, _). ret c)"

definition Cipher_bf_ecb :: "'w ffi \<Rightarrow> ('w, 'e, cval) eff" where
  "Cipher_bf_ecb F = and_then (ccall F ''EVP_bf_ecb'' []) (\<lambda>(c, _). ret c)"

definition Cipher_bf_cfb64 :: "'w ffi \<Rightarrow> ('w, 'e, cval) eff" where
  "Cipher_bf_cfb64 F = and_then (ccall F ''EVP_bf_cfb64'' []) (\<lambda>(c, _). ret c)"

definition Cipher_bf_ofb :: "'w ffi \<Rightarrow> ('w, 'e, cval) eff" where
  "Cipher_bf_ofb F = and_then (ccall F ''EVP_bf_ofb'' []) (\<lambda>(c, _). ret c)"

definition Cipher_des_cbc :: "'w ffi \<Rightarrow> ('w, 'e, cval) eff" where
  "Cipher_des_cbc F = and_then (ccall F ''EVP_des_cbc'' []) (\<lambda>(c, _). ret c)"

definition Cipher_des_ecb :: "'w ffi \<Rightarrow> ('w, 'e, cval) eff" where
  "Cipher_des_ecb F = and_then (ccall F ''EVP_des_ecb'' []) (\<lambda>(c, _). ret c)"

definition Cipher_rc4 :: "'w ffi \<Rightarrow> ('w, 'e, cval) eff" where
  "Cipher_rc4 F = and_then (ccall F ''EVP_rc4'' []) (\<lambda>(c, _). ret c)"

definition Cipher_chacha20 :: "'w ffi \<Rightarrow> ('w, 'e, cval) eff" where
  "Cipher_chacha20 F = and_then (ccall F ''EVP_chacha20'' []) (\<lambda>(c, _). ret c)"

definition Cipher_chacha20_poly1305 :: "'w ffi \<Rightarrow> ('w, 'e, cval) eff" where
  "Cipher_chacha20_poly1305 F = and_then (ccall F ''EVP_chacha20_poly1305'' []) (\<lambda>(c, _). ret c)"

definition key_len :: "'w ffi \<Rightarrow> cval \<Rightarrow> ('w, 'e, nat) eff" where
  "key_len F t = and_then (ccall F ''EVP_CIPHER_key_length'' [t]) (\<lambda>(n, _). ret (nat (c_int n)))"

definition iv_len :: "'w ffi \<Rightarrow> cval \<Rightarrow> ('w, 'e, nat option) eff" where
  "iv_len F t =
     and_then (ccall F ''EVP_CIPHER_iv_length'' [t]) (\<lambda>(n, _).
     let len = nat (c_int n) in ret (if len = 0 then None else Some len))"

definition block_size :: "'w ffi \<Rightarrow> cval \<Rightarrow> ('w, 'e, nat) eff" where
  "block_size F t = and_then (ccall F ''EVP_CIPHER_block_size'' [t]) (\<lambda>(n, _). ret (nat (c_int n)))"

subsection \<open>Crypter\<close>

definition EVP_CTRL_GCM_SET_IVLEN :: int where "EVP_CTRL_GCM_SET_IVLEN = 0x9"
definition EVP_CTRL_GCM_GET_TAG :: int where "EVP_CTRL_GCM_GET_TAG = 0x10"
definition EVP_CTRL_GCM_SET_TAG :: int where "EVP_CTRL_GCM_SET_TAG = 0x11"

record crypter =
  cr_ctx :: cval
  cr_block_size :: nat

definition mode_int :: "mode \<Rightarrow> int" where
  "mode_int m = (case m of Encrypt \<Rightarrow> 1 | Decrypt \<Rightarrow> 0)"

definition Crypter_drop :: "'w ffi \<Rightarrow> crypter \<Rightarrow> ('w, 'e, unit) eff" where
  "Crypter_drop F c = and_then (ccall F ''EVP_CIPHER_CTX_free'' [cr_ctx c]) (\<lambda>_. ret ())"

text \<open>A failure after the context was made drops the half-built crypter.\<close>

definition or_drop :: "'w ffi \<Rightarrow> crypter \<Rightarrow> ('w, 'e, 'a) eff \<Rightarrow> ('w, 'e, 'a) eff" where
  "or_drop F c m w =
     (case m w of
        (Ok a, w') \<Rightarrow> (Ok a, w')
      | (Err e, w') \<Rightarrow> and_then (Crypter_drop F c) (\<lambda>_. throw e) w'
      | (Panic, w') \<Rightarrow> and_then (Crypter_drop F c) (\<lambda>_. panic) w'
      | (Diverge, w') \<Rightarrow> (Diverge, w'))"

definition set_iv :: "'w ffi \<Rightarrow> cval \<Rightarrow> byte list option \<Rightarrow> nat option \<Rightarrow> ('w, error_stack, cval) eff" where
  "set_iv F ctx iv len =
     (case (iv, len) of
        (Some iv, Some len) \<Rightarrow>
          and_then
            (if length iv \<noteq> len then
               and_then (assert_that (length iv \<le> c_int_max)) (\<lambda>_.
               call_i F ''EVP_CIPHER_CTX_ctrl''
                 [ctx, CInt EVP_CTRL_GCM_SET_IVLEN, CInt (int (length iv)), CNull])
             else ret ()) (\<lambda>_.
          ret (CBytes iv))
      | (Some _, None) \<Rightarrow> ret CNull
      | (None, None) \<Rightarrow> ret CNull
      | (None, Some _) \<Rightarrow> panic)"

definition Crypter_new ::
  "'w ffi \<Rightarrow> cval \<Rightarrow> mode \<Rightarrow> byte list \<Rightarrow> byte list option \<Rightarrow> ('w, error_stack, crypter) eff" where
  "Crypter_new F t mode key iv =
     and_then (init F) (\<lambda>_.
     and_then (call_p F ''EVP_CIPHER_CTX_new'' []) (\<lambda>ctx.
     and_then (block_size F t) (\<lambda>bs.
     let crypter = \<lparr>cr_ctx = ctx, cr_block_size = bs\<rparr> in
     or_drop F crypter (
     and_then (call_i F ''EVP_CipherInit_ex'' [ctx, t, CNull, CNull, CNull, CInt (mode_int mode)]) (\<lambda>_.
     and_then (assert_that (length key \<le> c_int_max)) (\<lambda>_.
     and_then (call_i F ''EVP_CIPHER_CTX_set_key_length'' [ctx, CInt (int (length key))]) (\<lambda>_.
     and_then (iv_len F t) (\<lambda>len.
     and_then (set_iv F ctx iv len) (\<lambda>iv.
     and_then (call_i F ''EVP_CipherInit_ex'' [ctx, CNull, CNull, CBytes key, iv, CInt (mode_int mode)]) (\<lambda>_.
       ret crypter))))))))))"

definition Crypter_pad :: "'w ffi \<Rightarrow> crypter \<Rightarrow> bool \<Rightarrow> ('w, 'e, unit) eff" where
  "Crypter_pad F c padding =
     and_then (ccall F ''EVP_CIPHER_CTX_set_padding'' [cr_ctx c, CInt (if padding then 1 else 0)]) (\<lambda>_. ret ())"

definition Crypter_set_tag :: "'w ffi \<Rightarrow> crypter \<Rightarrow> byte list \<Rightarrow> ('w, error_stack, unit) eff" where
  "Crypter_set_tag F c tag =
     and_then (assert_that (length tag \<le> c_int_max)) (\<lambda>_.
     call_i F ''EVP_CIPHER_CTX_ctrl''
       [cr_ctx c, CInt EVP_CTRL_GCM_SET_TAG, CInt (int (length tag)), CBytes tag])"

definition Crypter_aad_update :: "'w ffi \<Rightarrow> crypter \<Rightarrow> byte list \<Rightarrow> ('w, error_stack, unit) eff" where
  "Crypter_aad_update F c input =
     and_then (assert_that (length input \<le> c_int_max)) (\<lambda>_.
     call_i F ''EVP_CipherUpdate'' [cr_ctx c, CNull, CInt 0, CBytes input, CInt (int (length input))])"

text \<open>What C wrote from the start of a slice on.\<close>

definition overwrite :: "byte list \<Rightarrow> byte list \<Rightarrow> byte list" where
  "overwrite written buf = written @ drop (length written) buf"

definition Crypter_update ::
  "'w ffi \<Rightarrow> crypter \<Rightarrow> byte list \<Rightarrow> byte list \<Rightarrow> ('w, error_stack, nat \<times> byte list) eff" where
  "Crypter_update F c input output =
     and_then (assert_that (length input + cr_block_size c \<le> length output)) (\<lambda>_.
     and_then (assert_that (length output \<le> c_int_max)) (\<lambda>_.
     and_then (ccall F ''EVP_CipherUpdate''
        [cr_ctx c, CBytes output, CInt (int (length output)), CBytes input, CInt (int (length input))]) (\<lambda>(r, os).
     and_then (cvt F r) (\<lambda>_.
       ret (nat (c_int (out os 1)), overwrite (c_bytes (out os 0)) output)))))"

definition Crypter_finalize :: "'w ffi \<Rightarrow> crypter \<Rightarrow> byte list \<Rightarrow> ('w, error_stack, nat \<times> byte list) eff" where
  "Crypter_finalize F c output =
     and_then (assert_that (cr_block_size c \<le> length output)) (\<lambda>_.
     and_then (ccall F ''EVP_CipherFinal''
        [cr_ctx c, CBytes output, CInt (int (min (length output) c_int_max))]) (\<lambda>(r, os).
     and_then (cvt F r) (\<lambda>_.
       ret (nat (c_int (out os 1)), overwrite (c_bytes (out os 0)) output))))"

definition Crypter_get_tag :: "'w ffi \<Rightarrow> crypter \<Rightarrow> byte list \<Rightarrow> ('w, error_stack, byte list) eff" where
  "Crypter_get_tag F c tag =
     and_then (assert_that (length tag \<le> c_int_max)) (\<lambda>_.
     and_then (ccall F ''EVP_CIPHER_CTX_ctrl''
        [cr_ctx c, CInt EVP_CTRL_GCM_GET_TAG, CInt (int (length tag)), CBytes tag]) (\<lambda>(r, os).
     and_then (cvt F r) (\<lambda>_.
       ret (overwrite (c_bytes (out os 0)) tag))))"

subsection \<open>One-shot functions\<close>

text \<open>
  \<open>c\<close> is dropped when the function returns or unwinds. Slicing \<open>out[count..]\<close> panics when
  \<open>count\<close> is beyond the end; \<open>truncate\<close> does nothing then.
\<close>

definition scoped_crypter :: "'w ffi \<Rightarrow> crypter \<Rightarrow> ('w, 'e, 'a) eff \<Rightarrow> ('w, 'e, 'a) eff" where
  "scoped_crypter F c m = and_then (or_drop F c m) (\<lambda>a. and_then (Crypter_drop F c) (\<lambda>_. ret a))"

definition slice_from :: "byte list \<Rightarrow> nat \<Rightarrow> ('w, 'e, byte list) eff" where
  "slice_from buf n = (if n \<le> length buf then ret (drop n buf) else panic)"

definition cipher ::
  "'w ffi \<Rightarrow> cval \<Rightarrow> mode \<Rightarrow> byte list \<Rightarrow> byte list option \<Rightarrow> byte list \<Rightarrow> ('w, error_stack, byte list) eff" where
  "cipher F t mode key iv data =
     and_then (Crypter_new F t mode key iv) (\<lambda>c.
     scoped_crypter F c (
     and_then (block_size F t) (\<lambda>bs.
     let outb = replicate (length data + bs) 0 in
     and_then (Crypter_update F c data outb) (\<lambda>(count, outb).
     and_then (slice_from outb count) (\<lambda>tail.
     and_then (Crypter_finalize F c tail) (\<lambda>(rest, tail).
       ret (take (count + rest) (take count outb @ tail))))))))"

definition encrypt ::
  "'w ffi \<Rightarrow> cval \<Rightarrow> byte list \<Rightarrow> byte list option \<Rightarrow> byte list \<Rightarrow> ('w, error_stack, byte list) eff" where
  "encrypt F t key iv data = cipher F t Encrypt key iv data"

definition decrypt ::
  "'w ffi \<Rightarrow> cval \<Rightarrow> byte list \<Rightarrow> byte list option \<Rightarrow> byte list \<Rightarrow> ('w, error_stack, byte list) eff" where
  "decrypt F t key iv data = cipher F t Decrypt key iv data"

definition encrypt_aead ::
  "'w ffi \<Rightarrow> cval \<Rightarrow> byte list \<Rightarrow> byte list option \<Rightarrow> byte list \<Rightarrow> byte list \<Rightarrow> byte list \<Rightarrow>
   ('w, error_stack, byte list \<times> byte list) eff" where
  "encrypt_aead F t key iv aad data tag =
     and_then (Crypter_new F t Encrypt key iv) (\<lambda>c.
     scoped_crypter F c (
     and_then (block_size F t) (\<lambda>bs.
     let outb = replicate (length data + bs) 0 in
     and_then (Crypter_aad_update F c aad) (\<lambda>_.
     and_then (Crypter_update F c data outb) (\<lambda>(count, outb).
     and_then (slice_from outb count) (\<lambda>tail.
     and_then (Crypter_finalize F c tail) (\<lambda>(rest, tail).
     and_then (Crypter_get_tag F c tag) (\<lambda>tag.
       ret (take (count + rest) (take count outb @ tail), tag)))))))))"

definition decrypt_aead ::
  "'w ffi \<Rightarrow> cval \<Rightarrow> byte list \<Rightarrow> byte list option \<Rightarrow> byte list \<Rightarrow> byte list \<Rightarrow> byte list \<Rightarrow>
   ('w, error_stack, byte list) eff" where
  "decrypt_aead F t key iv aad data tag =
     and_then (Crypter_new F t Decrypt key iv) (\<lambda>c.
     scoped_crypter F c (
     and_then (block_size F t) (\<lambda>bs.
     let outb = replicate (length data + bs) 0 in
     and_then (Crypter_aad_update F c aad) (\<lambda>_.
     and_then (Crypter_update F c data outb) (\<lambda>(count, outb).
     and_then (Crypter_set_tag F c tag) (\<lambda>_.
     and_then (slice_from outb count) (\<lambda>tail.
     and_then (Crypter_finalize F c tail) (\<lambda>(rest, tail).
       ret (take (count + rest) (take count outb @ tail))))))))))"

end
