(* ===== verification/Symm_Laws.thy ===== *)
theory Symm_Laws
  imports Ossl_Symm
begin

text \<open>
  What the one-shot cipher functions compute, from what OpenSSL documents of a cipher context: a
  context is given a cipher and a direction, then a key and an IV; it takes additional data and
  data, of which it may hold some back, never more than a block; the final call delivers what was
  held back, and checks the tag of an authenticated cipher in the decrypting direction.
\<close>

subsection \<open>Cipher contexts\<close>

record cx =
  cx_cipher :: cval
  cx_enc :: bool
  cx_key :: "byte list option"
  cx_iv :: "byte list option"
  cx_aad :: "byte list"
  cx_fed :: "byte list"
  cx_out :: "byte list"
  cx_tag :: "byte list option"
  cx_done :: bool

definition cx_blank :: cx where
  "cx_blank = \<lparr>cx_cipher = CNull, cx_enc = False, cx_key = None, cx_iv = None, cx_aad = [], cx_fed = [],
     cx_out = [], cx_tag = None, cx_done = False\<rparr>"

text \<open>
  A cipher: its handle, its block size and IV length, the key and IV lengths it accepts, whether it
  is authenticated, what it computes in either direction, which ciphertexts are well formed (end in
  a padding), and the tag of a ciphertext, which may be used up to its full length \<open>sp_taglen\<close>.
\<close>

record cipher_spec =
  sp_id :: cval
  sp_block :: nat
  sp_ivlen :: nat
  sp_key_ok :: "nat \<Rightarrow> bool"
  sp_iv_ok :: "nat \<Rightarrow> bool"
  sp_aead :: bool
  sp_taglen :: nat
  sp_xf :: "bool \<Rightarrow> byte list \<Rightarrow> byte list option \<Rightarrow> byte list \<Rightarrow> byte list"
  sp_wf :: "byte list \<Rightarrow> byte list option \<Rightarrow> byte list \<Rightarrow> bool"
  sp_mac :: "byte list \<Rightarrow> byte list option \<Rightarrow> byte list \<Rightarrow> byte list \<Rightarrow> byte list"

definition cx_result :: "cipher_spec \<Rightarrow> cx \<Rightarrow> byte list" where
  "cx_result S x = sp_xf S (cx_enc x) (the (cx_key x)) (cx_iv x) (cx_fed x)"

definition cx_ready :: "cipher_spec \<Rightarrow> cx \<Rightarrow> bool" where
  "cx_ready S x \<longleftrightarrow> cx_cipher x = sp_id S \<and> cx_key x \<noteq> None \<and> \<not> cx_done x \<and>
     length (cx_out x) \<le> length (cx_fed x) \<and>
     (\<exists>rest. cx_result S x = cx_out x @ rest \<and> length rest \<le> sp_block S)"

definition cx_mac :: "cipher_spec \<Rightarrow> cx \<Rightarrow> byte list \<Rightarrow> byte list" where
  "cx_mac S x ct = sp_mac S (the (cx_key x)) (cx_iv x) (cx_aad x) ct"

text \<open>The final call succeeds: encrypting, or on a well-formed ciphertext with the right tag.\<close>

definition cx_accepted :: "cipher_spec \<Rightarrow> cx \<Rightarrow> bool" where
  "cx_accepted S x \<longleftrightarrow> cx_enc x \<or>
     sp_wf S (the (cx_key x)) (cx_iv x) (cx_fed x) \<and>
     (if sp_aead S
      then case cx_tag x of None \<Rightarrow> False | Some tag \<Rightarrow> tag = take (length tag) (cx_mac S x (cx_fed x))
      else True)"

definition iv_arg :: "cval \<Rightarrow> byte list option" where
  "iv_arg v = (case v of CBytes b \<Rightarrow> Some b | _ \<Rightarrow> None)"

definition calls_ok :: "'w ffi \<Rightarrow> ('w \<Rightarrow> cval \<Rightarrow> cx option) \<Rightarrow> string \<Rightarrow> cval list \<Rightarrow> 'w \<Rightarrow> cval list \<Rightarrow>
    (cval \<Rightarrow> cx option) \<Rightarrow> bool" where
  "calls_ok F H f args w os h \<longleftrightarrow> (\<exists>r w'. F f args w = ((r, os), w') \<and> 0 < c_int r \<and> H w' = h)"

definition setup_law :: "'w ffi \<Rightarrow> ('w \<Rightarrow> cval \<Rightarrow> cx option) \<Rightarrow> cipher_spec \<Rightarrow> bool" where
  "setup_law F H S \<longleftrightarrow>
     (\<forall>w. H (snd (F ''init'' [] w)) = H w) \<and>
     (\<forall>w. \<exists>w'. F ''EVP_CIPHER_block_size'' [sp_id S] w = ((CInt (int (sp_block S)), []), w') \<and> H w' = H w) \<and>
     (\<forall>w. \<exists>w'. F ''EVP_CIPHER_iv_length'' [sp_id S] w = ((CInt (int (sp_ivlen S)), []), w') \<and> H w' = H w) \<and>
     (\<forall>w. \<exists>p w'. F ''EVP_CIPHER_CTX_new'' [] w = ((p, []), w') \<and> p \<noteq> CNull \<and> H w p = None \<and>
        H w' = (H w)(p \<mapsto> cx_blank)) \<and>
     (\<forall>w c. H (snd (F ''EVP_CIPHER_CTX_free'' [c] w)) = (H w)(c := None)) \<and>
     (\<forall>w c x m. H w c = Some x \<longrightarrow>
        calls_ok F H ''EVP_CipherInit_ex'' [c, sp_id S, CNull, CNull, CNull, CInt m] w []
          ((H w)(c \<mapsto> x\<lparr>cx_cipher := sp_id S, cx_enc := (m = 1)\<rparr>))) \<and>
     (\<forall>w c x n. H w c = Some x \<longrightarrow> cx_cipher x = sp_id S \<longrightarrow> sp_key_ok S n \<longrightarrow>
        calls_ok F H ''EVP_CIPHER_CTX_set_key_length'' [c, CInt (int n)] w [] (H w)) \<and>
     (\<forall>w c x n. H w c = Some x \<longrightarrow> cx_cipher x = sp_id S \<longrightarrow> sp_iv_ok S n \<longrightarrow>
        calls_ok F H ''EVP_CIPHER_CTX_ctrl'' [c, CInt EVP_CTRL_GCM_SET_IVLEN, CInt (int n), CNull] w [] (H w)) \<and>
     (\<forall>w c x key iv m. H w c = Some x \<longrightarrow> cx_cipher x = sp_id S \<longrightarrow> sp_key_ok S (length key) \<longrightarrow>
        calls_ok F H ''EVP_CipherInit_ex'' [c, CNull, CNull, CBytes key, iv, CInt m] w []
          ((H w)(c \<mapsto> x\<lparr>cx_enc := (m = 1), cx_key := Some key, cx_iv := iv_arg iv, cx_aad := [], cx_fed := [],
             cx_out := [], cx_tag := None, cx_done := False\<rparr>)))"

definition data_law :: "'w ffi \<Rightarrow> ('w \<Rightarrow> cval \<Rightarrow> cx option) \<Rightarrow> cipher_spec \<Rightarrow> bool" where
  "data_law F H S \<longleftrightarrow>
     (\<forall>w c x a. H w c = Some x \<longrightarrow> cx_ready S x \<longrightarrow> sp_aead S \<longrightarrow> cx_fed x = [] \<longrightarrow>
        calls_ok F H ''EVP_CipherUpdate'' [c, CNull, CInt 0, CBytes a, CInt (int (length a))] w []
          ((H w)(c \<mapsto> x\<lparr>cx_aad := cx_aad x @ a\<rparr>))) \<and>
     (\<forall>w c x buf d. H w c = Some x \<longrightarrow> cx_ready S x \<longrightarrow> length d + sp_block S \<le> length buf \<longrightarrow>
        (\<exists>ws. length ws \<le> length buf \<and> cx_ready S (x\<lparr>cx_fed := cx_fed x @ d, cx_out := cx_out x @ ws\<rparr>) \<and>
           calls_ok F H ''EVP_CipherUpdate''
             [c, CBytes buf, CInt (int (length buf)), CBytes d, CInt (int (length d))] w [CBytes ws, CInt (int (length ws))]
             ((H w)(c \<mapsto> x\<lparr>cx_fed := cx_fed x @ d, cx_out := cx_out x @ ws\<rparr>)))) \<and>
     (\<forall>w c x buf n. H w c = Some x \<longrightarrow> cx_ready S x \<longrightarrow> sp_block S \<le> length buf \<longrightarrow>
        (if cx_accepted S x
         then \<exists>ws. cx_result S x = cx_out x @ ws \<and> length ws \<le> sp_block S \<and>
           calls_ok F H ''EVP_CipherFinal'' [c, CBytes buf, n] w [CBytes ws, CInt (int (length ws))]
             ((H w)(c \<mapsto> x\<lparr>cx_out := cx_out x @ ws, cx_done := True\<rparr>))
         else c_int (fst (fst (F ''EVP_CipherFinal'' [c, CBytes buf, n] w))) \<le> 0)) \<and>
     (\<forall>w c x tag. H w c = Some x \<longrightarrow> cx_cipher x = sp_id S \<longrightarrow> sp_aead S \<longrightarrow> \<not> cx_enc x \<longrightarrow>
        tag \<noteq> [] \<longrightarrow> length tag \<le> sp_taglen S \<longrightarrow>
        calls_ok F H ''EVP_CIPHER_CTX_ctrl''
          [c, CInt EVP_CTRL_GCM_SET_TAG, CInt (int (length tag)), CBytes tag] w []
          ((H w)(c \<mapsto> x\<lparr>cx_tag := Some tag\<rparr>))) \<and>
     (\<forall>w c x tag. H w c = Some x \<longrightarrow> cx_cipher x = sp_id S \<longrightarrow> sp_aead S \<longrightarrow>
        tag = [] \<or> sp_taglen S < length tag \<longrightarrow>
        c_int (fst (fst (F ''EVP_CIPHER_CTX_ctrl''
          [c, CInt EVP_CTRL_GCM_SET_TAG, CInt (int (length tag)), CBytes tag] w))) \<le> 0) \<and>
     (\<forall>w c x tag. H w c = Some x \<longrightarrow> cx_cipher x = sp_id S \<longrightarrow> sp_aead S \<longrightarrow> cx_done x \<longrightarrow> cx_enc x \<longrightarrow>
        tag \<noteq> [] \<longrightarrow> length tag \<le> sp_taglen S \<longrightarrow>
        calls_ok F H ''EVP_CIPHER_CTX_ctrl''
          [c, CInt EVP_CTRL_GCM_GET_TAG, CInt (int (length tag)), CBytes tag] w
          [CBytes (take (length tag) (cx_mac S x (cx_out x)))] (H w))"

definition cipher_law :: "'w ffi \<Rightarrow> ('w \<Rightarrow> cval \<Rightarrow> cx option) \<Rightarrow> cipher_spec \<Rightarrow> bool" where
  "cipher_law F H S \<longleftrightarrow> sp_id S \<noteq> CNull \<and> (\<forall>enc key iv. length (sp_xf S enc key iv []) \<le> sp_block S) \<and>
     (\<forall>key iv a d. length (sp_mac S key iv a d) = sp_taglen S) \<and>
     setup_law F H S \<and> data_law F H S"


lemma cipher_lawD:
  assumes "cipher_law F H S"
  shows "sp_id S \<noteq> CNull" "length (sp_xf S enc key iv []) \<le> sp_block S" "setup_law F H S" "data_law F H S"
    "length (sp_mac S key iv a d) = sp_taglen S"
  using assms by (simp_all add: cipher_law_def)

lemma calls_okE:
  assumes "calls_ok F H f args w os h"
  obtains r w' where "F f args w = ((r, os), w')" "0 < c_int r" "H w' = h"
  using assms by (auto simp: calls_ok_def)

lemma calls_ok_call_i:
  assumes "calls_ok F H f args w os h"
  obtains w' where "call_i F f args w = (Ok (), w')" "H w' = h"
  using assms by (auto simp: calls_ok_def intro: call_i_step)

lemma setup_lawD:
  assumes "setup_law F H S"
  shows "H (snd (F ''init'' [] w)) = H w"
    "\<exists>w'. F ''EVP_CIPHER_block_size'' [sp_id S] w = ((CInt (int (sp_block S)), []), w') \<and> H w' = H w"
    "\<exists>w'. F ''EVP_CIPHER_iv_length'' [sp_id S] w = ((CInt (int (sp_ivlen S)), []), w') \<and> H w' = H w"
    "\<exists>p w'. F ''EVP_CIPHER_CTX_new'' [] w = ((p, []), w') \<and> p \<noteq> CNull \<and> H w p = None \<and> H w' = (H w)(p \<mapsto> cx_blank)"
    "H (snd (F ''EVP_CIPHER_CTX_free'' [c] w)) = (H w)(c := None)"
    "H w c = Some x \<Longrightarrow> calls_ok F H ''EVP_CipherInit_ex'' [c, sp_id S, CNull, CNull, CNull, CInt m] w []
       ((H w)(c \<mapsto> x\<lparr>cx_cipher := sp_id S, cx_enc := (m = 1)\<rparr>))"
    "H w c = Some x \<Longrightarrow> cx_cipher x = sp_id S \<Longrightarrow> sp_key_ok S n \<Longrightarrow>
       calls_ok F H ''EVP_CIPHER_CTX_set_key_length'' [c, CInt (int n)] w [] (H w)"
    "H w c = Some x \<Longrightarrow> cx_cipher x = sp_id S \<Longrightarrow> sp_iv_ok S n \<Longrightarrow>
       calls_ok F H ''EVP_CIPHER_CTX_ctrl'' [c, CInt EVP_CTRL_GCM_SET_IVLEN, CInt (int n), CNull] w [] (H w)"
    "H w c = Some x \<Longrightarrow> cx_cipher x = sp_id S \<Longrightarrow> sp_key_ok S (length key) \<Longrightarrow>
       calls_ok F H ''EVP_CipherInit_ex'' [c, CNull, CNull, CBytes key, iv, CInt m] w []
         ((H w)(c \<mapsto> x\<lparr>cx_enc := (m = 1), cx_key := Some key, cx_iv := iv_arg iv, cx_aad := [], cx_fed := [],
            cx_out := [], cx_tag := None, cx_done := False\<rparr>))"
proof -
  note law = assms [unfolded setup_law_def]
  show "H (snd (F ''init'' [] w)) = H w" "H (snd (F ''EVP_CIPHER_CTX_free'' [c] w)) = (H w)(c := None)"
    using law by simp_all
qed (use assms [unfolded setup_law_def] in meson)+

lemma data_lawD:
  assumes "data_law F H S"
  shows "H w c = Some x \<Longrightarrow> cx_ready S x \<Longrightarrow> sp_aead S \<Longrightarrow> cx_fed x = [] \<Longrightarrow>
      calls_ok F H ''EVP_CipherUpdate'' [c, CNull, CInt 0, CBytes a, CInt (int (length a))] w []
        ((H w)(c \<mapsto> x\<lparr>cx_aad := cx_aad x @ a\<rparr>))"
    "H w c = Some x \<Longrightarrow> cx_ready S x \<Longrightarrow> length d + sp_block S \<le> length buf \<Longrightarrow>
      \<exists>ws. length ws \<le> length buf \<and> cx_ready S (x\<lparr>cx_fed := cx_fed x @ d, cx_out := cx_out x @ ws\<rparr>) \<and>
        calls_ok F H ''EVP_CipherUpdate''
          [c, CBytes buf, CInt (int (length buf)), CBytes d, CInt (int (length d))] w [CBytes ws, CInt (int (length ws))]
          ((H w)(c \<mapsto> x\<lparr>cx_fed := cx_fed x @ d, cx_out := cx_out x @ ws\<rparr>))"
    "H w c = Some x \<Longrightarrow> cx_ready S x \<Longrightarrow> sp_block S \<le> length buf \<Longrightarrow> cx_accepted S x \<Longrightarrow>
      \<exists>ws. cx_result S x = cx_out x @ ws \<and> length ws \<le> sp_block S \<and>
        calls_ok F H ''EVP_CipherFinal'' [c, CBytes buf, n] w [CBytes ws, CInt (int (length ws))]
          ((H w)(c \<mapsto> x\<lparr>cx_out := cx_out x @ ws, cx_done := True\<rparr>))"
    "H w c = Some x \<Longrightarrow> cx_ready S x \<Longrightarrow> sp_block S \<le> length buf \<Longrightarrow> \<not> cx_accepted S x \<Longrightarrow>
      c_int (fst (fst (F ''EVP_CipherFinal'' [c, CBytes buf, n] w))) \<le> 0"
    "H w c = Some x \<Longrightarrow> cx_cipher x = sp_id S \<Longrightarrow> sp_aead S \<Longrightarrow> \<not> cx_enc x \<Longrightarrow> tag \<noteq> [] \<Longrightarrow>
      length tag \<le> sp_taglen S \<Longrightarrow>
      calls_ok F H ''EVP_CIPHER_CTX_ctrl''
        [c, CInt EVP_CTRL_GCM_SET_TAG, CInt (int (length tag)), CBytes tag] w []
        ((H w)(c \<mapsto> x\<lparr>cx_tag := Some tag\<rparr>))"
    "H w c = Some x \<Longrightarrow> cx_cipher x = sp_id S \<Longrightarrow> sp_aead S \<Longrightarrow> cx_done x \<Longrightarrow> cx_enc x \<Longrightarrow>
      tag \<noteq> [] \<Longrightarrow> length tag \<le> sp_taglen S \<Longrightarrow>
      calls_ok F H ''EVP_CIPHER_CTX_ctrl''
        [c, CInt EVP_CTRL_GCM_GET_TAG, CInt (int (length tag)), CBytes tag] w
        [CBytes (take (length tag) (cx_mac S x (cx_out x)))] (H w)"
    "H w c = Some x \<Longrightarrow> cx_cipher x = sp_id S \<Longrightarrow> sp_aead S \<Longrightarrow> tag = [] \<or> sp_taglen S < length tag \<Longrightarrow>
      c_int (fst (fst (F ''EVP_CIPHER_CTX_ctrl''
        [c, CInt EVP_CTRL_GCM_SET_TAG, CInt (int (length tag)), CBytes tag] w))) \<le> 0"
proof -
  note law = assms [unfolded data_law_def]
  show "H w c = Some x \<Longrightarrow> cx_ready S x \<Longrightarrow> sp_block S \<le> length buf \<Longrightarrow> cx_accepted S x \<Longrightarrow>
      \<exists>ws. cx_result S x = cx_out x @ ws \<and> length ws \<le> sp_block S \<and>
        calls_ok F H ''EVP_CipherFinal'' [c, CBytes buf, n] w [CBytes ws, CInt (int (length ws))]
          ((H w)(c \<mapsto> x\<lparr>cx_out := cx_out x @ ws, cx_done := True\<rparr>))"
    "H w c = Some x \<Longrightarrow> cx_ready S x \<Longrightarrow> sp_block S \<le> length buf \<Longrightarrow> \<not> cx_accepted S x \<Longrightarrow>
      c_int (fst (fst (F ''EVP_CipherFinal'' [c, CBytes buf, n] w))) \<le> 0"
    using conjunct1 [OF conjunct2 [OF conjunct2 [OF law]], rule_format, of w c x buf n] by auto
  note tags = conjunct2 [OF conjunct2 [OF conjunct2 [OF law]]]
  show "H w c = Some x \<Longrightarrow> cx_cipher x = sp_id S \<Longrightarrow> sp_aead S \<Longrightarrow> tag = [] \<or> sp_taglen S < length tag \<Longrightarrow>
      c_int (fst (fst (F ''EVP_CIPHER_CTX_ctrl''
        [c, CInt EVP_CTRL_GCM_SET_TAG, CInt (int (length tag)), CBytes tag] w))) \<le> 0"
    by (rule conjunct1 [OF conjunct2 [OF tags], rule_format])
  show "H w c = Some x \<Longrightarrow> cx_cipher x = sp_id S \<Longrightarrow> sp_aead S \<Longrightarrow> \<not> cx_enc x \<Longrightarrow> tag \<noteq> [] \<Longrightarrow>
      length tag \<le> sp_taglen S \<Longrightarrow>
      calls_ok F H ''EVP_CIPHER_CTX_ctrl''
        [c, CInt EVP_CTRL_GCM_SET_TAG, CInt (int (length tag)), CBytes tag] w []
        ((H w)(c \<mapsto> x\<lparr>cx_tag := Some tag\<rparr>))"
    by (rule conjunct1 [OF tags, rule_format])
  show "H w c = Some x \<Longrightarrow> cx_cipher x = sp_id S \<Longrightarrow> sp_aead S \<Longrightarrow> cx_done x \<Longrightarrow> cx_enc x \<Longrightarrow>
      tag \<noteq> [] \<Longrightarrow> length tag \<le> sp_taglen S \<Longrightarrow>
      calls_ok F H ''EVP_CIPHER_CTX_ctrl''
        [c, CInt EVP_CTRL_GCM_GET_TAG, CInt (int (length tag)), CBytes tag] w
        [CBytes (take (length tag) (cx_mac S x (cx_out x)))] (H w)"
    by (rule conjunct2 [OF conjunct2 [OF tags], rule_format])
  show "H w c = Some x \<Longrightarrow> cx_ready S x \<Longrightarrow> sp_aead S \<Longrightarrow> cx_fed x = [] \<Longrightarrow>
      calls_ok F H ''EVP_CipherUpdate'' [c, CNull, CInt 0, CBytes a, CInt (int (length a))] w []
        ((H w)(c \<mapsto> x\<lparr>cx_aad := cx_aad x @ a\<rparr>))"
    by (rule conjunct1 [OF law, rule_format])
  show "H w c = Some x \<Longrightarrow> cx_ready S x \<Longrightarrow> length d + sp_block S \<le> length buf \<Longrightarrow>
      \<exists>ws. length ws \<le> length buf \<and> cx_ready S (x\<lparr>cx_fed := cx_fed x @ d, cx_out := cx_out x @ ws\<rparr>) \<and>
        calls_ok F H ''EVP_CipherUpdate''
          [c, CBytes buf, CInt (int (length buf)), CBytes d, CInt (int (length d))] w [CBytes ws, CInt (int (length ws))]
          ((H w)(c \<mapsto> x\<lparr>cx_fed := cx_fed x @ d, cx_out := cx_out x @ ws\<rparr>))"
    by (rule conjunct1 [OF conjunct2 [OF law], rule_format])
qed

subsection \<open>The crypter's methods\<close>

text \<open>The IV that a cipher uses of the one it is given, and whether it is one the cipher takes.\<close>

definition iv_used :: "cipher_spec \<Rightarrow> byte list option \<Rightarrow> byte list option" where
  "iv_used S iv = (if sp_ivlen S = 0 then None else iv)"

definition iv_fits :: "cipher_spec \<Rightarrow> byte list option \<Rightarrow> bool" where
  "iv_fits S iv \<longleftrightarrow> sp_ivlen S = 0 \<or>
     (case iv of None \<Rightarrow> False | Some v \<Rightarrow> length v \<le> c_int_max \<and> (length v = sp_ivlen S \<or> sp_iv_ok S (length v)))"

definition key_fits :: "cipher_spec \<Rightarrow> byte list \<Rightarrow> bool" where
  "key_fits S key \<longleftrightarrow> sp_key_ok S (length key) \<and> length key \<le> c_int_max"

definition cx_start :: "cipher_spec \<Rightarrow> mode \<Rightarrow> byte list \<Rightarrow> byte list option \<Rightarrow> cx" where
  "cx_start S m key iv = \<lparr>cx_cipher = sp_id S, cx_enc = (m = Encrypt), cx_key = Some key, cx_iv = iv_used S iv,
     cx_aad = [], cx_fed = [], cx_out = [], cx_tag = None, cx_done = False\<rparr>"

lemma mode_int_1 [simp]: "mode_int m = 1 \<longleftrightarrow> m = Encrypt"
  by (cases m) (simp_all add: mode_int_def)

lemma cx_start_ready: "cipher_law F H S \<Longrightarrow> cx_ready S (cx_start S m key iv)"
  using cipher_lawD(2) by (auto simp: cx_ready_def cx_start_def cx_result_def)

lemma or_drop_Ok: "m w = (Ok a, w') \<Longrightarrow> or_drop F c m w = (Ok a, w')"
  by (simp add: or_drop_def)

lemma block_size_run:
  assumes "setup_law F H S"
  obtains w' where "block_size F (sp_id S) w = (Ok (sp_block S) :: ('e, nat) outcome, w')" "H w' = H w"
  using setup_lawD(2) [OF assms, of w] by (auto simp: block_size_def and_then_def ccall_def)

lemma iv_len_run:
  assumes "setup_law F H S"
  obtains w' where "iv_len F (sp_id S) w =
      (Ok (if sp_ivlen S = 0 then None else Some (sp_ivlen S)) :: ('e, nat option) outcome, w')" "H w' = H w"
  using setup_lawD(3) [OF assms, of w] by (auto simp: iv_len_def and_then_def ccall_def)

lemma set_iv_run:
  assumes law: "setup_law F H S" and c: "H w c = Some x" "cx_cipher x = sp_id S" and iv: "iv_fits S iv"
  obtains v w' where "set_iv F c iv (if sp_ivlen S = 0 then None else Some (sp_ivlen S)) w = (Ok v, w')"
    "H w' = H w" "iv_arg v = iv_used S iv"
proof (cases "sp_ivlen S = 0")
  case True
  then show thesis by (intro that [of CNull w]) (auto simp: set_iv_def iv_used_def iv_arg_def split: option.split)
next
  case False
  with iv obtain b where b: "iv = Some b" "length b \<le> c_int_max" "length b = sp_ivlen S \<or> sp_iv_ok S (length b)"
    by (auto simp: iv_fits_def split: option.splits)
  show thesis
  proof (cases "length b = sp_ivlen S")
    case True
    with False b show thesis by (intro that [of "CBytes b" w]) (auto simp: set_iv_def iv_used_def iv_arg_def)
  next
    case resize: False
    with b have "sp_iv_ok S (length b)" by simp
    with setup_lawD(8) [OF law c] obtain w' where
      "call_i F ''EVP_CIPHER_CTX_ctrl'' [c, CInt EVP_CTRL_GCM_SET_IVLEN, CInt (int (length b)), CNull] w = (Ok (), w')"
      "H w' = H w" by (blast elim: calls_ok_call_i)
    with False resize b show thesis
      by (intro that [of "CBytes b" w']) (auto simp: set_iv_def iv_used_def iv_arg_def and_then_def)
  qed
qed


lemma Crypter_new_run:
  assumes law: "cipher_law F H S" and key: "key_fits S key" and iv: "iv_fits S iv"
  obtains c w' where "Crypter_new F (sp_id S) m key iv w = (Ok c, w')" "cr_block_size c = sp_block S"
    "H w (cr_ctx c) = None" "H w' = (H w)(cr_ctx c \<mapsto> cx_start S m key iv)"
proof -
  note set = cipher_lawD(3) [OF law]
  let ?w0 = "snd (F ''init'' [] w)"
  have init: "init F w = (Ok () :: (error_stack, unit) outcome, ?w0)" "H ?w0 = H w"
    using setup_lawD(1) [OF set] by (simp_all add: init_def and_then_def ccall_def case_prod_beta)
  obtain p w1 where new: "F ''EVP_CIPHER_CTX_new'' [] ?w0 = ((p, []), w1)" "p \<noteq> CNull" "H ?w0 p = None"
    "H w1 = (H ?w0)(p \<mapsto> cx_blank)"
    using setup_lawD(4) [OF set] by blast
  obtain w2 where bs: "block_size F (sp_id S) w1 = (Ok (sp_block S) :: (error_stack, nat) outcome, w2)" "H w2 = H w1"
    by (rule block_size_run [OF set])
  then have "H w2 p = Some cx_blank" using new(4) by simp
  from setup_lawD(6) [OF set this, of "mode_int m"] obtain w3 where
    kind: "call_i F ''EVP_CipherInit_ex'' [p, sp_id S, CNull, CNull, CNull, CInt (mode_int m)] w2 = (Ok (), w3)"
      "H w3 = (H w2)(p \<mapsto> cx_blank\<lparr>cx_cipher := sp_id S, cx_enc := (m = Encrypt)\<rparr>)"
    unfolding mode_int_1 by (rule calls_ok_call_i)
  let ?x = "cx_blank\<lparr>cx_cipher := sp_id S, cx_enc := (m = Encrypt)\<rparr>"
  have x3: "H w3 p = Some ?x" "cx_cipher ?x = sp_id S" using kind(2) by simp_all
  obtain w4 where keylen: "call_i F ''EVP_CIPHER_CTX_set_key_length'' [p, CInt (int (length key))] w3 = (Ok (), w4)"
    "H w4 = H w3"
    using setup_lawD(7) [OF set x3] key unfolding key_fits_def by (blast elim: calls_ok_call_i)
  obtain w5 where len: "iv_len F (sp_id S) w4 =
      (Ok (if sp_ivlen S = 0 then None else Some (sp_ivlen S)) :: (error_stack, nat option) outcome, w5)" "H w5 = H w4"
    by (rule iv_len_run [OF set])
  have x5: "H w5 p = Some ?x" using x3 keylen(2) len(2) by simp
  obtain v w6 where v: "set_iv F p iv (if sp_ivlen S = 0 then None else Some (sp_ivlen S)) w5 = (Ok v, w6)"
    "H w6 = H w5" "iv_arg v = iv_used S iv"
    by (rule set_iv_run [OF set x5 x3(2) iv])
  have x6: "H w6 p = Some ?x" using x5 v(2) by simp
  from setup_lawD(9) [OF set x6 x3(2), of key v "mode_int m"] key obtain w7 where
    go: "call_i F ''EVP_CipherInit_ex'' [p, CNull, CNull, CBytes key, v, CInt (mode_int m)] w6 = (Ok (), w7)"
      "H w7 = (H w6)(p \<mapsto> ?x\<lparr>cx_enc := (m = Encrypt), cx_key := Some key, cx_iv := iv_arg v, cx_aad := [], cx_fed := [],
         cx_out := [], cx_tag := None, cx_done := False\<rparr>)"
    unfolding mode_int_1 key_fits_def by (blast elim: calls_ok_call_i)
  let ?c = "\<lparr>cr_ctx = p, cr_block_size = sp_block S\<rparr>"
  have "Crypter_new F (sp_id S) m key iv w = (Ok ?c, w7)"
    using key by (simp add: Crypter_new_def and_then_def init call_p_step [of F, OF new(1,2)] bs or_drop_def kind
        keylen len v go key_fits_def Let_def del: if_split_asm)
  moreover have "H w7 = (H w)(p \<mapsto> cx_start S m key iv)"
    using go(2) v(2,3) len(2) keylen(2) kind(2) bs(2) new(4) init(2) by (simp add: cx_start_def cx_blank_def)
  ultimately show thesis using new(3) init(2) by (intro that [of ?c w7]) simp_all
qed

text \<open>
  The working state of a crypter: its context holds \<open>x\<close>, every other context is as in \<open>rest\<close>.
\<close>

definition cx_holds :: "('w \<Rightarrow> cval \<Rightarrow> cx option) \<Rightarrow> cipher_spec \<Rightarrow> crypter \<Rightarrow> (cval \<Rightarrow> cx option) \<Rightarrow> 'w \<Rightarrow> cx \<Rightarrow> bool" where
  "cx_holds H S c rest w x \<longleftrightarrow> cr_block_size c = sp_block S \<and> rest (cr_ctx c) = None \<and> H w = rest(cr_ctx c \<mapsto> x)"

lemma cx_holdsD:
  "cx_holds H S c rest w x \<Longrightarrow> H w (cr_ctx c) = Some x"
  "cx_holds H S c rest w x \<Longrightarrow> H w' = (H w)(cr_ctx c \<mapsto> x') \<Longrightarrow> cx_holds H S c rest w' x'"
  "cx_holds H S c rest w x \<Longrightarrow> H w' = H w \<Longrightarrow> cx_holds H S c rest w' x"
  "cx_holds H S c rest w x \<Longrightarrow> cr_block_size c = sp_block S"
  by (simp_all add: cx_holds_def)

lemma Crypter_drop_run:
  assumes law: "cipher_law F H S" and c: "cx_holds H S c rest w x"
  obtains w' where "Crypter_drop F c w = (Ok () :: ('e, unit) outcome, w')" "H w' = rest"
proof -
  have "rest(cr_ctx c := None) = rest" using c by (auto simp: cx_holds_def)
  then have "H (snd (F ''EVP_CIPHER_CTX_free'' [cr_ctx c] w)) = rest"
    using setup_lawD(5) [OF cipher_lawD(3) [OF law], of "cr_ctx c" w] c by (simp add: cx_holds_def)
  then show thesis
    by (intro that [of "snd (F ''EVP_CIPHER_CTX_free'' [cr_ctx c] w)"])
      (simp_all add: Crypter_drop_def and_then_def ccall_def case_prod_beta)
qed

lemma Crypter_aad_update_run:
  assumes law: "cipher_law F H S" and c: "cx_holds H S c rest w x" and x: "cx_ready S x" "sp_aead S" "cx_fed x = []" and a: "length a \<le> c_int_max"
  obtains w' where "Crypter_aad_update F c a w = (Ok (), w')" "cx_holds H S c rest w' (x\<lparr>cx_aad := cx_aad x @ a\<rparr>)"
proof -
  obtain w' where "call_i F ''EVP_CipherUpdate'' [cr_ctx c, CNull, CInt 0, CBytes a, CInt (int (length a))] w = (Ok (), w')"
    "H w' = (H w)(cr_ctx c \<mapsto> x\<lparr>cx_aad := cx_aad x @ a\<rparr>)"
    by (rule calls_ok_call_i [OF data_lawD(1) [OF cipher_lawD(4) [OF law] cx_holdsD(1) [OF c] x]])
  with a cx_holdsD(2) [OF c] show thesis by (intro that [of w']) (simp_all add: Crypter_aad_update_def)
qed

lemma Crypter_update_run:
  assumes law: "cipher_law F H S" and c: "cx_holds H S c rest w x" and x: "cx_ready S x"
    and fits: "length d + sp_block S \<le> length buf" "length buf \<le> c_int_max"
  obtains ws w' where "Crypter_update F c d buf w = (Ok (length ws, overwrite ws buf), w')" "length ws \<le> length buf"
    "cx_holds H S c rest w' (x\<lparr>cx_fed := cx_fed x @ d, cx_out := cx_out x @ ws\<rparr>)"
    "cx_ready S (x\<lparr>cx_fed := cx_fed x @ d, cx_out := cx_out x @ ws\<rparr>)"
proof -
  obtain ws where ws: "length ws \<le> length buf" "cx_ready S (x\<lparr>cx_fed := cx_fed x @ d, cx_out := cx_out x @ ws\<rparr>)"
    and ok: "calls_ok F H ''EVP_CipherUpdate''
        [cr_ctx c, CBytes buf, CInt (int (length buf)), CBytes d, CInt (int (length d))] w [CBytes ws, CInt (int (length ws))]
        ((H w)(cr_ctx c \<mapsto> x\<lparr>cx_fed := cx_fed x @ d, cx_out := cx_out x @ ws\<rparr>))"
    using data_lawD(2) [OF cipher_lawD(4) [OF law] cx_holdsD(1) [OF c] x fits(1)] by blast
  from ok obtain r w' where "F ''EVP_CipherUpdate''
      [cr_ctx c, CBytes buf, CInt (int (length buf)), CBytes d, CInt (int (length d))] w =
        ((r, [CBytes ws, CInt (int (length ws))]), w')" "0 < c_int r"
    "H w' = (H w)(cr_ctx c \<mapsto> x\<lparr>cx_fed := cx_fed x @ d, cx_out := cx_out x @ ws\<rparr>)"
    by (rule calls_okE)
  with ws fits cx_holdsD(2) [OF c] cx_holdsD(4) [OF c] show thesis
    by (intro that [of ws w']) (simp_all add: Crypter_update_def and_then_def ccall_def cvt_def out_def)
qed

lemma Crypter_finalize_run:
  assumes law: "cipher_law F H S" and c: "cx_holds H S c rest w x" and x: "cx_ready S x" "cx_accepted S x"
    and fits: "sp_block S \<le> length buf"
  obtains ws w' where "Crypter_finalize F c buf w = (Ok (length ws, overwrite ws buf), w')" "length ws \<le> length buf"
    "cx_result S x = cx_out x @ ws" "cx_holds H S c rest w' (x\<lparr>cx_out := cx_out x @ ws, cx_done := True\<rparr>)"
proof -
  let ?n = "CInt (int (min (length buf) c_int_max))"
  obtain ws where ws: "cx_result S x = cx_out x @ ws" "length ws \<le> sp_block S"
    and ok: "calls_ok F H ''EVP_CipherFinal'' [cr_ctx c, CBytes buf, ?n] w [CBytes ws, CInt (int (length ws))]
        ((H w)(cr_ctx c \<mapsto> x\<lparr>cx_out := cx_out x @ ws, cx_done := True\<rparr>))"
    using data_lawD(3) [OF cipher_lawD(4) [OF law] cx_holdsD(1) [OF c] x(1) fits x(2)] by blast
  from ok obtain r w' where "F ''EVP_CipherFinal'' [cr_ctx c, CBytes buf, ?n] w = ((r, [CBytes ws, CInt (int (length ws))]), w')"
    "0 < c_int r" "H w' = (H w)(cr_ctx c \<mapsto> x\<lparr>cx_out := cx_out x @ ws, cx_done := True\<rparr>)"
    by (rule calls_okE)
  with ws fits cx_holdsD(2) [OF c] cx_holdsD(4) [OF c] show thesis
    by (intro that [of ws w']) (simp_all add: Crypter_finalize_def and_then_def ccall_def cvt_def out_def)
qed


lemma Crypter_finalize_refuses:
  assumes law: "cipher_law F H S" and c: "cx_holds H S c rest w x" and x: "cx_ready S x" "\<not> cx_accepted S x"
    and fits: "sp_block S \<le> length buf"
  shows "Crypter_finalize F c buf w \<noteq> (Ok r, w')"
proof -
  let ?call = "F ''EVP_CipherFinal'' [cr_ctx c, CBytes buf, CInt (int (min (length buf) c_int_max))] w"
  have "c_int (fst (fst ?call)) \<le> 0"
    by (rule data_lawD(4) [OF cipher_lawD(4) [OF law] cx_holdsD(1) [OF c] x(1) fits x(2)])
  then show ?thesis
    using fits cx_holdsD(4) [OF c]
    by (auto simp: Crypter_finalize_def and_then_Ok_iff ccall_def cvt_def case_prod_beta split: if_splits)
qed

lemma Crypter_set_tag_run:
  assumes law: "cipher_law F H S" and c: "cx_holds H S c rest w x" and x: "cx_ready S x" "sp_aead S" "\<not> cx_enc x"
    and tag: "length tag \<le> c_int_max" "tag \<noteq> []" "length tag \<le> sp_taglen S"
  obtains w' where "Crypter_set_tag F c tag w = (Ok (), w')" "cx_holds H S c rest w' (x\<lparr>cx_tag := Some tag\<rparr>)"
proof -
  have "cx_cipher x = sp_id S" using x(1) by (simp add: cx_ready_def)
  then obtain w' where "call_i F ''EVP_CIPHER_CTX_ctrl''
      [cr_ctx c, CInt EVP_CTRL_GCM_SET_TAG, CInt (int (length tag)), CBytes tag] w = (Ok (), w')"
    "H w' = (H w)(cr_ctx c \<mapsto> x\<lparr>cx_tag := Some tag\<rparr>)"
    using data_lawD(5) [OF cipher_lawD(4) [OF law] cx_holdsD(1) [OF c] _ x(2,3) tag(2,3)] by (blast elim: calls_ok_call_i)
  with tag cx_holdsD(2) [OF c] show thesis by (intro that [of w']) (simp_all add: Crypter_set_tag_def)
qed

lemma Crypter_get_tag_run:
  assumes law: "cipher_law F H S" and c: "cx_holds H S c rest w x" and x: "cx_cipher x = sp_id S" "sp_aead S"
    "cx_done x" "cx_enc x" and tag: "length tag \<le> c_int_max" "tag \<noteq> []" "length tag \<le> sp_taglen S"
  obtains w' where "Crypter_get_tag F c tag w = (Ok (take (length tag) (cx_mac S x (cx_out x))), w')"
    "cx_holds H S c rest w' x"
proof -
  let ?t = "take (length tag) (cx_mac S x (cx_out x))"
  obtain r w' where "F ''EVP_CIPHER_CTX_ctrl''
      [cr_ctx c, CInt EVP_CTRL_GCM_GET_TAG, CInt (int (length tag)), CBytes tag] w = ((r, [CBytes ?t]), w')"
    "0 < c_int r" "H w' = H w"
    by (rule calls_okE [OF data_lawD(6) [OF cipher_lawD(4) [OF law] cx_holdsD(1) [OF c] x tag(2,3)]])
  moreover have "length ?t = length tag" using cipher_lawD(5) [OF law] tag(3) by (simp add: cx_mac_def)
  ultimately show thesis using tag cx_holdsD(3) [OF c]
    by (intro that [of w']) (simp_all add: Crypter_get_tag_def and_then_def ccall_def cvt_def out_def overwrite_def)
qed

lemma scoped_crypter_run:
  assumes law: "cipher_law F H S" and m: "m w = (Ok a :: ('e, 'a) outcome, w1)" and c: "cx_holds H S c rest w1 x"
  obtains w' where "scoped_crypter F c m w = (Ok a, w')" "H w' = rest"
proof -
  obtain w' where "Crypter_drop F c w1 = (Ok () :: ('e, unit) outcome, w')" "H w' = rest" by (rule Crypter_drop_run [OF law c])
  then show thesis using m by (intro that [of w']) (simp_all add: scoped_crypter_def or_drop_def and_then_def)
qed

lemma scoped_crypter_Ok: "scoped_crypter F c m w = (Ok a, w') \<Longrightarrow> \<exists>w1. m w = (Ok a, w1)"
  by (auto simp: scoped_crypter_def or_drop_def and_then_Ok_iff split: prod.splits outcome.splits)

text \<open>A crypter with its buffer, and the first update, which leaves room for a block.\<close>

lemma Crypter_start:
  assumes law: "cipher_law F H S" and key: "key_fits S key" and iv: "iv_fits S iv"
  obtains c w1 w2 where "Crypter_new F (sp_id S) m key iv w = (Ok c, w1)"
    "block_size F (sp_id S) w1 = (Ok (sp_block S) :: (error_stack, nat) outcome, w2)"
    "cx_holds H S c (H w) w2 (cx_start S m key iv)"
proof -
  obtain c w1 where new: "Crypter_new F (sp_id S) m key iv w = (Ok c, w1)" "cr_block_size c = sp_block S"
    "H w (cr_ctx c) = None" "H w1 = (H w)(cr_ctx c \<mapsto> cx_start S m key iv)"
    by (rule Crypter_new_run [OF law key iv])
  obtain w2 where "block_size F (sp_id S) w1 = (Ok (sp_block S) :: (error_stack, nat) outcome, w2)" "H w2 = H w1"
    by (rule block_size_run [OF cipher_lawD(3) [OF law]])
  with new show thesis by (intro that [of c w1 w2]) (simp_all add: cx_holds_def)
qed

lemma first_update:
  assumes law: "cipher_law F H S" and c: "cx_holds H S c rest w x" and x: "cx_ready S x" "cx_fed x = []" "cx_out x = []"
    and len: "length d + sp_block S \<le> c_int_max"
  obtains ws outb w' where "Crypter_update F c d (replicate (length d + sp_block S) 0) w = (Ok (length ws, outb), w')"
    "cx_holds H S c rest w' (x\<lparr>cx_fed := d, cx_out := ws\<rparr>)" "cx_ready S (x\<lparr>cx_fed := d, cx_out := ws\<rparr>)"
    "length ws \<le> length outb" "sp_block S \<le> length (drop (length ws) outb)" "take (length ws) outb = ws"
proof -
  let ?buf = "replicate (length d + sp_block S) 0"
  obtain ws w' where upd: "Crypter_update F c d ?buf w = (Ok (length ws, overwrite ws ?buf), w')"
    "length ws \<le> length ?buf" "cx_holds H S c rest w' (x\<lparr>cx_fed := cx_fed x @ d, cx_out := cx_out x @ ws\<rparr>)"
    "cx_ready S (x\<lparr>cx_fed := cx_fed x @ d, cx_out := cx_out x @ ws\<rparr>)"
    by (rule Crypter_update_run [OF law c x(1), of d ?buf]) (use len in auto)
  then have "length ws \<le> length d" using x by (simp add: cx_ready_def)
  with upd x show thesis by (intro that [of ws "overwrite ws ?buf" w']) (simp_all add: overwrite_def)
qed

text \<open>The end of a run: the held-back bytes land behind the first ones.\<close>

lemma last_call:
  assumes law: "cipher_law F H S" and c: "cx_holds H S c rest w x" and x: "cx_ready S x" "cx_accepted S x" "cx_out x = ws"
    and outb: "length ws \<le> length outb" "sp_block S \<le> length (drop (length ws) outb)" "take (length ws) outb = ws"
  obtains n tail w' where "slice_from outb (length ws) w = (Ok (drop (length ws) outb) :: (error_stack, byte list) outcome, w)"
    "Crypter_finalize F c (drop (length ws) outb) w = (Ok (n, tail), w')"
    "take (length ws + n) (take (length ws) outb @ tail) = cx_result S x"
    "cx_holds H S c rest w' (x\<lparr>cx_out := cx_result S x, cx_done := True\<rparr>)"
proof -
  obtain vs w' where "Crypter_finalize F c (drop (length ws) outb) w = (Ok (length vs, overwrite vs (drop (length ws) outb)), w')"
    "length vs \<le> length (drop (length ws) outb)" "cx_result S x = cx_out x @ vs"
    "cx_holds H S c rest w' (x\<lparr>cx_out := cx_out x @ vs, cx_done := True\<rparr>)"
    by (rule Crypter_finalize_run [OF law c x(1,2) outb(2)])
  with outb x(3) show thesis
    by (intro that [of "length vs" "overwrite vs (drop (length ws) outb)" w']) (simp_all add: slice_from_def overwrite_def)
qed

lemma cipher_run:
  assumes law: "cipher_law F H S" and key: "key_fits S key" and iv: "iv_fits S iv"
    and len: "length d + sp_block S \<le> c_int_max" and S: "\<not> sp_aead S" "m = Encrypt \<or> sp_wf S key (iv_used S iv) d"
  obtains w' where "cipher F (sp_id S) m key iv d w = (Ok (sp_xf S (m = Encrypt) key (iv_used S iv) d), w')" "H w' = H w"
proof -
  obtain c w1 w2 where new: "Crypter_new F (sp_id S) m key iv w = (Ok c, w1)"
    "block_size F (sp_id S) w1 = (Ok (sp_block S) :: (error_stack, nat) outcome, w2)"
    "cx_holds H S c (H w) w2 (cx_start S m key iv)"
    by (rule Crypter_start [OF law key iv])
  obtain ws outb w3 where upd: "Crypter_update F c d (replicate (length d + sp_block S) 0) w2 = (Ok (length ws, outb), w3)"
    "cx_holds H S c (H w) w3 (cx_start S m key iv\<lparr>cx_fed := d, cx_out := ws\<rparr>)"
    "cx_ready S (cx_start S m key iv\<lparr>cx_fed := d, cx_out := ws\<rparr>)"
    "length ws \<le> length outb" "sp_block S \<le> length (drop (length ws) outb)" "take (length ws) outb = ws"
    by (rule first_update [OF law new(3) cx_start_ready [OF law] _ _ len]) (simp_all add: cx_start_def)
  let ?x = "cx_start S m key iv\<lparr>cx_fed := d, cx_out := ws\<rparr>"
  have x: "cx_accepted S ?x" "cx_result S ?x = sp_xf S (m = Encrypt) key (iv_used S iv) d"
    using S by (auto simp: cx_accepted_def cx_start_def cx_result_def)
  obtain n tail w4 where fin: "slice_from outb (length ws) w3 = (Ok (drop (length ws) outb) :: (error_stack, byte list) outcome, w3)"
    "Crypter_finalize F c (drop (length ws) outb) w3 = (Ok (n, tail), w4)"
    "take (length ws + n) (take (length ws) outb @ tail) = cx_result S ?x"
    "cx_holds H S c (H w) w4 (?x\<lparr>cx_out := cx_result S ?x, cx_done := True\<rparr>)"
    by (rule last_call [OF law upd(2,3) x(1) _ upd(4,5,6)]) simp
  let ?body = "and_then (block_size F (sp_id S)) (\<lambda>bs.
     let outb = replicate (length d + bs) 0 in
     and_then (Crypter_update F c d outb) (\<lambda>(count, outb).
     and_then (slice_from outb count) (\<lambda>tail.
     and_then (Crypter_finalize F c tail) (\<lambda>(rest, tail).
       ret (take (count + rest) (take count outb @ tail))))))"
  have "?body w1 = (Ok (cx_result S ?x), w4)"
    using fin(3) by (simp add: and_then_def new(2) upd(1) fin(1,2) Let_def)
  then obtain w' where "scoped_crypter F c ?body w1 = (Ok (cx_result S ?x), w')" "H w' = H w"
    by (rule scoped_crypter_run [OF law _ fin(4)])
  then show thesis using new(1) x(2) by (intro that [of w']) (simp_all add: cipher_def and_then_step)
qed


lemma encrypt_aead_run:
  assumes law: "cipher_law F H S" and key: "key_fits S key" and iv: "iv_fits S iv" and S: "sp_aead S"
    and len: "length d + sp_block S \<le> c_int_max" "length aad \<le> c_int_max"
    and tag: "length tag \<le> c_int_max" "tag \<noteq> []" "length tag \<le> sp_taglen S"
    and ct: "ct = sp_xf S True key (iv_used S iv) d"
  obtains w' where "encrypt_aead F (sp_id S) key iv aad d tag w =
      (Ok (ct, take (length tag) (sp_mac S key (iv_used S iv) aad ct)), w')" "H w' = H w"
proof -
  let ?x0 = "cx_start S Encrypt key iv"
  obtain c w1 w2 where new: "Crypter_new F (sp_id S) Encrypt key iv w = (Ok c, w1)"
    "block_size F (sp_id S) w1 = (Ok (sp_block S) :: (error_stack, nat) outcome, w2)" "cx_holds H S c (H w) w2 ?x0"
    by (rule Crypter_start [OF law key iv])
  obtain w3 where aad: "Crypter_aad_update F c aad w2 = (Ok (), w3)"
    "cx_holds H S c (H w) w3 (?x0\<lparr>cx_aad := cx_aad ?x0 @ aad\<rparr>)"
    by (rule Crypter_aad_update_run [OF law new(3) cx_start_ready [OF law] S _ len(2)]) (simp add: cx_start_def)
  let ?x1 = "?x0\<lparr>cx_aad := cx_aad ?x0 @ aad\<rparr>"
  have x1: "cx_ready S ?x1" "cx_fed ?x1 = []" "cx_out ?x1 = []"
    using cx_start_ready [OF law, of Encrypt key iv] by (simp_all add: cx_ready_def cx_start_def cx_result_def)
  obtain ws outb w4 where upd: "Crypter_update F c d (replicate (length d + sp_block S) 0) w3 = (Ok (length ws, outb), w4)"
    "cx_holds H S c (H w) w4 (?x1\<lparr>cx_fed := d, cx_out := ws\<rparr>)" "cx_ready S (?x1\<lparr>cx_fed := d, cx_out := ws\<rparr>)"
    "length ws \<le> length outb" "sp_block S \<le> length (drop (length ws) outb)" "take (length ws) outb = ws"
    by (rule first_update [OF law aad(2) x1 len(1)])
  let ?x = "?x1\<lparr>cx_fed := d, cx_out := ws\<rparr>"
  have x: "cx_accepted S ?x" "cx_result S ?x = ct"
    using ct by (simp_all add: cx_accepted_def cx_start_def cx_result_def)
  obtain n tail w5 where fin: "slice_from outb (length ws) w4 = (Ok (drop (length ws) outb) :: (error_stack, byte list) outcome, w4)"
    "Crypter_finalize F c (drop (length ws) outb) w4 = (Ok (n, tail), w5)"
    "take (length ws + n) (take (length ws) outb @ tail) = cx_result S ?x"
    "cx_holds H S c (H w) w5 (?x\<lparr>cx_out := cx_result S ?x, cx_done := True\<rparr>)"
    by (rule last_call [OF law upd(2,3) x(1) _ upd(4,5,6)]) simp
  let ?y = "?x\<lparr>cx_out := cx_result S ?x, cx_done := True\<rparr>"
  obtain w6 where get: "Crypter_get_tag F c tag w5 = (Ok (take (length tag) (cx_mac S ?y (cx_out ?y))), w6)"
    "cx_holds H S c (H w) w6 ?y"
    by (rule Crypter_get_tag_run [OF law fin(4) _ S _ _ tag]) (simp_all add: cx_start_def)
  have mac: "cx_mac S ?y (cx_out ?y) = sp_mac S key (iv_used S iv) aad ct"
    using x(2) by (simp add: cx_mac_def cx_start_def)
  let ?body = "and_then (block_size F (sp_id S)) (\<lambda>bs.
     let outb = replicate (length d + bs) 0 in
     and_then (Crypter_aad_update F c aad) (\<lambda>_.
     and_then (Crypter_update F c d outb) (\<lambda>(count, outb).
     and_then (slice_from outb count) (\<lambda>tail.
     and_then (Crypter_finalize F c tail) (\<lambda>(rest, tail).
     and_then (Crypter_get_tag F c tag) (\<lambda>tag.
       ret (take (count + rest) (take count outb @ tail), tag)))))))"
  have "?body w1 = (Ok (ct, take (length tag) (sp_mac S key (iv_used S iv) aad ct)), w6)"
    using fin(3) x(2) by (simp add: and_then_def new(2) aad(1) upd(1) fin(1,2) get(1) [unfolded mac] Let_def)
  then obtain w' where "scoped_crypter F c ?body w1 = (Ok (ct, take (length tag) (sp_mac S key (iv_used S iv) aad ct)), w')"
    "H w' = H w" by (rule scoped_crypter_run [OF law _ get(2)])
  then show thesis using new(1) by (intro that [of w']) (simp_all add: encrypt_aead_def and_then_step)
qed

text \<open>A decryption up to its tag, whatever the tag is.\<close>

definition cx_opened :: "cipher_spec \<Rightarrow> byte list \<Rightarrow> byte list option \<Rightarrow> byte list \<Rightarrow> byte list \<Rightarrow> byte list \<Rightarrow> cx" where
  "cx_opened S key iv aad d ws = (cx_start S Decrypt key iv)\<lparr>cx_aad := aad, cx_fed := d, cx_out := ws\<rparr>"

lemma open_run:
  assumes law: "cipher_law F H S" and key: "key_fits S key" and iv: "iv_fits S iv" and S: "sp_aead S"
    and len: "length d + sp_block S \<le> c_int_max" "length aad \<le> c_int_max"
  obtains c ws outb w1 w2 where "cx_holds H S c (H w) w2 (cx_opened S key iv aad d ws)"
    "cx_ready S (cx_opened S key iv aad d ws)"
    "length ws \<le> length outb" "sp_block S \<le> length (drop (length ws) outb)" "take (length ws) outb = ws"
    "\<And>tag. decrypt_aead F (sp_id S) key iv aad d tag w = scoped_crypter F c (\<lambda>w. and_then (Crypter_set_tag F c tag) (\<lambda>_.
       and_then (slice_from outb (length ws)) (\<lambda>tail.
       and_then (Crypter_finalize F c tail) (\<lambda>(rest, tail).
         ret (take (length ws + rest) (take (length ws) outb @ tail))))) w2) w1"
proof -
  let ?x0 = "cx_start S Decrypt key iv"
  obtain c w1 w2 where new: "Crypter_new F (sp_id S) Decrypt key iv w = (Ok c, w1)"
    "block_size F (sp_id S) w1 = (Ok (sp_block S) :: (error_stack, nat) outcome, w2)" "cx_holds H S c (H w) w2 ?x0"
    by (rule Crypter_start [OF law key iv])
  obtain w3 where aad: "Crypter_aad_update F c aad w2 = (Ok (), w3)"
    "cx_holds H S c (H w) w3 (?x0\<lparr>cx_aad := cx_aad ?x0 @ aad\<rparr>)"
    by (rule Crypter_aad_update_run [OF law new(3) cx_start_ready [OF law] S _ len(2)]) (simp add: cx_start_def)
  let ?x1 = "?x0\<lparr>cx_aad := cx_aad ?x0 @ aad\<rparr>"
  have x1: "cx_ready S ?x1" "cx_fed ?x1 = []" "cx_out ?x1 = []"
    using cx_start_ready [OF law, of Decrypt key iv] by (simp_all add: cx_ready_def cx_start_def cx_result_def)
  obtain ws outb w4 where upd: "Crypter_update F c d (replicate (length d + sp_block S) 0) w3 = (Ok (length ws, outb), w4)"
    "cx_holds H S c (H w) w4 (?x1\<lparr>cx_fed := d, cx_out := ws\<rparr>)" "cx_ready S (?x1\<lparr>cx_fed := d, cx_out := ws\<rparr>)"
    "length ws \<le> length outb" "sp_block S \<le> length (drop (length ws) outb)" "take (length ws) outb = ws"
    by (rule first_update [OF law aad(2) x1 len(1)])
  have "?x1\<lparr>cx_fed := d, cx_out := ws\<rparr> = cx_opened S key iv aad d ws"
    by (simp add: cx_opened_def cx_start_def)
  with upd show thesis
    by (intro that [of c w4 ws outb w1])
      (simp_all add: decrypt_aead_def and_then_def new(1,2) aad(1) scoped_crypter_def or_drop_def Let_def)
qed

lemma decrypt_aead_run:
  assumes law: "cipher_law F H S" and key: "key_fits S key" and iv: "iv_fits S iv" and S: "sp_aead S"
    and len: "length d + sp_block S \<le> c_int_max" "length aad \<le> c_int_max"
    and tag: "length tag \<le> c_int_max" "tag \<noteq> []" "tag = take (length tag) (sp_mac S key (iv_used S iv) aad d)"
    and wf: "sp_wf S key (iv_used S iv) d"
  obtains w' where "decrypt_aead F (sp_id S) key iv aad d tag w = (Ok (sp_xf S False key (iv_used S iv) d), w')" "H w' = H w"
proof -
  obtain c ws outb w1 w2 where op: "cx_holds H S c (H w) w2 (cx_opened S key iv aad d ws)"
    "cx_ready S (cx_opened S key iv aad d ws)"
    "length ws \<le> length outb" "sp_block S \<le> length (drop (length ws) outb)" "take (length ws) outb = ws"
    and run: "\<And>tag. decrypt_aead F (sp_id S) key iv aad d tag w = scoped_crypter F c (\<lambda>w. and_then (Crypter_set_tag F c tag) (\<lambda>_.
       and_then (slice_from outb (length ws)) (\<lambda>tail.
       and_then (Crypter_finalize F c tail) (\<lambda>(rest, tail).
         ret (take (length ws + rest) (take (length ws) outb @ tail))))) w2) w1"
    by (rule open_run [OF law key iv S len, of w]) blast
  have "length tag \<le> sp_taglen S" using arg_cong [OF tag(3), of length] cipher_lawD(5) [OF law] by simp
  then obtain w3 where set: "Crypter_set_tag F c tag w2 = (Ok (), w3)"
    "cx_holds H S c (H w) w3 (cx_opened S key iv aad d ws\<lparr>cx_tag := Some tag\<rparr>)"
    using Crypter_set_tag_run [OF law op(1,2) S _ tag(1,2)] by (auto simp: cx_opened_def cx_start_def)
  let ?x = "cx_opened S key iv aad d ws\<lparr>cx_tag := Some tag\<rparr>"
  have x: "cx_ready S ?x" "cx_accepted S ?x" "cx_out ?x = ws" "cx_result S ?x = sp_xf S False key (iv_used S iv) d"
    using op(2) tag(3) wf by (simp_all add: cx_ready_def cx_accepted_def cx_opened_def cx_start_def cx_result_def cx_mac_def)
  obtain n tail w4 where fin: "slice_from outb (length ws) w3 = (Ok (drop (length ws) outb) :: (error_stack, byte list) outcome, w3)"
    "Crypter_finalize F c (drop (length ws) outb) w3 = (Ok (n, tail), w4)"
    "take (length ws + n) (take (length ws) outb @ tail) = cx_result S ?x"
    "cx_holds H S c (H w) w4 (?x\<lparr>cx_out := cx_result S ?x, cx_done := True\<rparr>)"
    by (rule last_call [OF law set(2) x(1,2,3) op(3,4,5)])
  have "(\<lambda>w. and_then (Crypter_set_tag F c tag) (\<lambda>_.
       and_then (slice_from outb (length ws)) (\<lambda>tail.
       and_then (Crypter_finalize F c tail) (\<lambda>(rest, tail).
         ret (take (length ws + rest) (take (length ws) outb @ tail))))) w2) w1 = (Ok (cx_result S ?x), w4)"
    using fin(3) by (simp add: and_then_def set(1) fin(1,2))
  then obtain w' where "decrypt_aead F (sp_id S) key iv aad d tag w = (Ok (cx_result S ?x), w')" "H w' = H w"
    unfolding run by (rule scoped_crypter_run [OF law _ fin(4)])
  then show thesis using x(4) by (auto intro: that)
qed

lemma decrypt_aead_checks_tag:
  assumes law: "cipher_law F H S" and key: "key_fits S key" and iv: "iv_fits S iv" and S: "sp_aead S"
    and len: "length d + sp_block S \<le> c_int_max" "length aad \<le> c_int_max"
    and ok: "decrypt_aead F (sp_id S) key iv aad d tag w = (Ok p, w')"
  shows "tag \<noteq> [] \<and> tag = take (length tag) (sp_mac S key (iv_used S iv) aad d)"
proof -
  obtain c ws outb w1 w2 where op: "cx_holds H S c (H w) w2 (cx_opened S key iv aad d ws)"
    "cx_ready S (cx_opened S key iv aad d ws)"
    "length ws \<le> length outb" "sp_block S \<le> length (drop (length ws) outb)" "take (length ws) outb = ws"
    and run: "\<And>tag. decrypt_aead F (sp_id S) key iv aad d tag w = scoped_crypter F c (\<lambda>w. and_then (Crypter_set_tag F c tag) (\<lambda>_.
       and_then (slice_from outb (length ws)) (\<lambda>tail.
       and_then (Crypter_finalize F c tail) (\<lambda>(rest, tail).
         ret (take (length ws + rest) (take (length ws) outb @ tail))))) w2) w1"
    by (rule open_run [OF law key iv S len, of w]) blast
  obtain w3 r w4 where body: "Crypter_set_tag F c tag w2 = (Ok (), w3)"
    "Crypter_finalize F c (drop (length ws) outb) w3 = (Ok r, w4)"
    using ok unfolding run by (auto dest!: scoped_crypter_Ok simp: and_then_Ok_iff slice_from_def op(3))
  from body(1) have short: "length tag \<le> c_int_max"
    by (cases "length tag \<le> c_int_max") (simp_all add: Crypter_set_tag_def)
  have id: "cx_cipher (cx_opened S key iv aad d ws) = sp_id S" "\<not> cx_enc (cx_opened S key iv aad d ws)"
    by (simp_all add: cx_opened_def cx_start_def)
  have good: "tag \<noteq> [] \<and> length tag \<le> sp_taglen S"
  proof (rule ccontr)
    assume "\<not> (tag \<noteq> [] \<and> length tag \<le> sp_taglen S)"
    then have "c_int (fst (fst (F ''EVP_CIPHER_CTX_ctrl''
        [cr_ctx c, CInt EVP_CTRL_GCM_SET_TAG, CInt (int (length tag)), CBytes tag] w2))) \<le> 0"
      by (intro data_lawD(7) [OF cipher_lawD(4) [OF law] cx_holdsD(1) [OF op(1)] id(1) S]) auto
    with body(1) show False
      by (auto simp: Crypter_set_tag_def call_i_def and_then_Ok_iff ccall_def cvt_def short case_prod_beta)
  qed
  let ?x = "cx_opened S key iv aad d ws\<lparr>cx_tag := Some tag\<rparr>"
  have "cx_holds H S c (H w) w3 ?x"
    using Crypter_set_tag_run [OF law op(1,2) S id(2) short conjunct1 [OF good] conjunct2 [OF good]] body(1) by auto
  moreover have "cx_ready S ?x" using op(2) by (simp add: cx_ready_def cx_result_def)
  ultimately have "cx_accepted S ?x"
    using Crypter_finalize_refuses [OF law _ _ _ op(4)] body(2) by blast
  with good S show ?thesis by (simp add: cx_accepted_def cx_opened_def cx_start_def cx_mac_def)
qed


subsection \<open>Round trips\<close>



subsection \<open>A concrete library\<close>

text \<open>A stream cipher that adds one to each byte; its tag is made of the first bytes.\<close>

definition demo_spec :: "bool \<Rightarrow> cipher_spec" where
  "demo_spec ae = \<lparr>sp_id = CStr ''plus-one'', sp_block = 1, sp_ivlen = 2, sp_key_ok = (\<lambda>n. n = 1), sp_iv_ok = (\<lambda>n. 0 < n),
     sp_aead = ae, sp_taglen = 4, sp_xf = (\<lambda>enc key iv d. map (if enc then (\<lambda>b. b + 1) else (\<lambda>b. b - 1)) d),
     sp_wf = (\<lambda>key iv d. True), sp_mac = (\<lambda>key iv a d. take 4 (a @ d @ replicate 4 0))\<rparr>"

definition demo_ctx_call :: "bool \<Rightarrow> string \<Rightarrow> cval list \<Rightarrow> cx \<Rightarrow> (int \<times> cval list) \<times> cx" where
  "demo_ctx_call ae f args x =
     (let S = demo_spec ae; rest = drop (length (cx_out x)) in
      if f = ''EVP_CipherInit_ex'' then
        (case args of
           [t, _, k, iv, m] \<Rightarrow>
             if k = CNull then ((1, []), x\<lparr>cx_cipher := t, cx_enc := (m = CInt 1)\<rparr>)
             else ((1, []), x\<lparr>cx_enc := (m = CInt 1), cx_key := Some (c_bytes k), cx_iv := iv_arg iv, cx_aad := [],
               cx_fed := [], cx_out := [], cx_tag := None, cx_done := False\<rparr>)
         | _ \<Rightarrow> ((0, []), x))
      else if f = ''EVP_CIPHER_CTX_set_key_length'' then ((1, []), x)
      else if f = ''EVP_CIPHER_CTX_ctrl'' then
        (case args of
           [k, n, v] \<Rightarrow>
             if k = CInt EVP_CTRL_GCM_SET_IVLEN then ((1, []), x)
             else if k = CInt EVP_CTRL_GCM_GET_TAG
             then ((1, [CBytes (take (nat (c_int n)) (cx_mac S x (cx_out x)))]), x)
             else if c_bytes v = [] \<or> 4 < length (c_bytes v) then ((0, []), x)
             else ((1, []), x\<lparr>cx_tag := Some (c_bytes v)\<rparr>)
         | _ \<Rightarrow> ((0, []), x))
      else if f = ''EVP_CipherUpdate'' then
        (case args of
           [buf, _, d, _] \<Rightarrow>
             if buf = CNull then ((1, []), x\<lparr>cx_aad := cx_aad x @ c_bytes d\<rparr>)
             else let y = x\<lparr>cx_fed := cx_fed x @ c_bytes d\<rparr>; ws = rest (cx_result S y) in
               ((1, [CBytes ws, CInt (int (length ws))]), y\<lparr>cx_out := cx_out x @ ws\<rparr>)
         | _ \<Rightarrow> ((0, []), x))
      else if f = ''EVP_CipherFinal'' \<and> cx_accepted S x then
        (let ws = rest (cx_result S x) in
         ((1, [CBytes ws, CInt (int (length ws))]), x\<lparr>cx_out := cx_out x @ ws, cx_done := True\<rparr>))
      else ((0, []), x))"

definition cx_demo :: "bool \<Rightarrow> (nat \<times> cx) list ffi" where
  "cx_demo ae f args w =
     (if f = ''EVP_CIPHER_CTX_new'' then ((CPtr (al_fresh w), []), (al_fresh w, cx_blank) # w)
      else if f = ''EVP_CIPHER_block_size'' then ((CInt 1, []), w)
      else if f = ''EVP_CIPHER_iv_length'' then ((CInt 2, []), w)
      else case args of
        CPtr c # rest \<Rightarrow>
          if f = ''EVP_CIPHER_CTX_free'' then ((CNull, []), filter (\<lambda>(k, _). k \<noteq> c) w)
          else (case map_of w c of
                  None \<Rightarrow> ((CInt 0, []), w)
                | Some x \<Rightarrow> (case demo_ctx_call ae f rest x of ((r, os), x') \<Rightarrow> ((CInt r, os), (c, x') # w)))
      | _ \<Rightarrow> ((CInt 0, []), w))"

lemma cx_demo_ctx:
  assumes "al_heap w c = Some x" and "demo_ctx_call ae f args x = ((r, os), x')"
    and "f \<notin> {''EVP_CIPHER_CTX_new'', ''EVP_CIPHER_block_size'', ''EVP_CIPHER_iv_length'', ''EVP_CIPHER_CTX_free''}"
  shows "cx_demo ae f (c # args) w = ((CInt r, os), (case c of CPtr n \<Rightarrow> n | _ \<Rightarrow> 0, x') # w)"
    "al_heap ((case c of CPtr n \<Rightarrow> n | _ \<Rightarrow> 0, x') # w) = (al_heap w)(c \<mapsto> x')"
  using assms by (cases c; simp add: cx_demo_def al_heap_Cons)+

lemma cx_demo_calls:
  assumes "al_heap w c = Some x" and "demo_ctx_call ae f args x = ((1, os), x')"
    and "f \<notin> {''EVP_CIPHER_CTX_new'', ''EVP_CIPHER_block_size'', ''EVP_CIPHER_iv_length'', ''EVP_CIPHER_CTX_free''}"
    and "h = (al_heap w)(c \<mapsto> x')"
  shows "calls_ok (cx_demo ae) al_heap f (c # args) w os h"
  using cx_demo_ctx [OF assms(1-3)] assms(4) by (auto simp: calls_ok_def)

lemma demo_spec_ready:
  assumes "cx_ready (demo_spec ae) x"
  shows "length (cx_out x) \<le> length (cx_fed x)" "take (length (cx_out x)) (cx_result (demo_spec ae) x) = cx_out x"
    "length (cx_fed x) \<le> Suc (length (cx_out x))"
proof -
  from assms obtain rest where "length (cx_out x) \<le> length (cx_fed x)" "cx_result (demo_spec ae) x = cx_out x @ rest"
    "length rest \<le> 1"
    by (auto simp: cx_ready_def demo_spec_def)
  moreover have "length (cx_result (demo_spec ae) x) = length (cx_fed x)" by (simp add: cx_result_def demo_spec_def)
  ultimately show "length (cx_out x) \<le> length (cx_fed x)"
    "take (length (cx_out x)) (cx_result (demo_spec ae) x) = cx_out x" "length (cx_fed x) \<le> Suc (length (cx_out x))"
    by simp_all
qed

lemma demo_setup_law: "setup_law (cx_demo ae) al_heap (demo_spec ae)"
  unfolding setup_law_def
proof (intro conjI allI impI)
  fix w c show "al_heap (snd (cx_demo ae ''EVP_CIPHER_CTX_free'' [c] w)) = (al_heap w)(c := None)"
    by (cases c) (auto simp: cx_demo_def al_heap_filter fun_upd_idem)
next
  fix w :: "(nat \<times> cx) list" and c x and m :: int assume "al_heap w c = Some x"
  then show "calls_ok (cx_demo ae) al_heap ''EVP_CipherInit_ex'' [c, sp_id (demo_spec ae), CNull, CNull, CNull, CInt m] w []
      ((al_heap w)(c \<mapsto> x\<lparr>cx_cipher := sp_id (demo_spec ae), cx_enc := m = 1\<rparr>))"
    by (rule cx_demo_calls) (auto simp: demo_ctx_call_def)
next
  fix w :: "(nat \<times> cx) list" and c x n assume "al_heap w c = Some x"
  then show "calls_ok (cx_demo ae) al_heap ''EVP_CIPHER_CTX_set_key_length'' [c, CInt (int n)] w [] (al_heap w)"
    by (intro cx_demo_calls) (auto simp: demo_ctx_call_def fun_upd_idem)
next
  fix w :: "(nat \<times> cx) list" and c x n assume "al_heap w c = Some x"
  then show "calls_ok (cx_demo ae) al_heap ''EVP_CIPHER_CTX_ctrl'' [c, CInt EVP_CTRL_GCM_SET_IVLEN, CInt (int n), CNull] w []
      (al_heap w)"
    by (intro cx_demo_calls) (auto simp: demo_ctx_call_def fun_upd_idem)
next
  fix w :: "(nat \<times> cx) list" and c x key iv and m :: int assume "al_heap w c = Some x"
  then show "calls_ok (cx_demo ae) al_heap ''EVP_CipherInit_ex'' [c, CNull, CNull, CBytes key, iv, CInt m] w []
      ((al_heap w)(c \<mapsto> x\<lparr>cx_enc := m = 1, cx_key := Some key, cx_iv := iv_arg iv, cx_aad := [], cx_fed := [],
         cx_out := [], cx_tag := None, cx_done := False\<rparr>))"
    by (rule cx_demo_calls) (auto simp: demo_ctx_call_def)
qed (auto simp: cx_demo_def al_heap_Cons al_fresh_None [simplified] demo_spec_def)

lemma demo_update:
  assumes ready: "cx_ready (demo_spec ae) x" and buf: "length d + 1 \<le> length buf"
  defines "ws \<equiv> drop (length (cx_out x)) (cx_result (demo_spec ae) (x\<lparr>cx_fed := cx_fed x @ d\<rparr>))"
  shows "length ws \<le> length buf"
    "cx_ready (demo_spec ae) (x\<lparr>cx_fed := cx_fed x @ d, cx_out := cx_out x @ ws\<rparr>)"
proof -
  let ?S = "demo_spec ae" and ?y = "x\<lparr>cx_fed := cx_fed x @ d\<rparr>"
  have len: "length (cx_result ?S ?y) = length (cx_fed x) + length d"
    by (simp add: cx_result_def demo_spec_def)
  then show "length ws \<le> length buf" using demo_spec_ready(3) [OF ready] buf by (simp add: ws_def)
  have "cx_result ?S ?y = cx_result ?S x @ map (if cx_enc x then (\<lambda>b. b + 1) else (\<lambda>b. b - 1)) d"
    by (simp add: cx_result_def demo_spec_def)
  then have "take (length (cx_out x)) (cx_result ?S ?y) = cx_out x"
    using demo_spec_ready(1,2) [OF ready] by (simp add: cx_result_def demo_spec_def)
  then have "cx_out x @ ws = cx_result ?S ?y" by (metis append_take_drop_id ws_def)
  then have "cx_result ?S (x\<lparr>cx_fed := cx_fed x @ d, cx_out := cx_out x @ ws\<rparr>) = cx_out x @ ws"
    by (simp add: cx_result_def)
  moreover have "length (cx_out x @ ws) = length (cx_fed x) + length d"
    using len \<open>cx_out x @ ws = cx_result ?S ?y\<close> by simp
  ultimately show "cx_ready ?S (x\<lparr>cx_fed := cx_fed x @ d, cx_out := cx_out x @ ws\<rparr>)"
    using ready by (auto simp: cx_ready_def)
qed

lemma demo_final:
  assumes ready: "cx_ready (demo_spec ae) x"
  defines "ws \<equiv> drop (length (cx_out x)) (cx_result (demo_spec ae) x)"
  shows "cx_result (demo_spec ae) x = cx_out x @ ws" "length ws \<le> 1"
proof -
  show "cx_result (demo_spec ae) x = cx_out x @ ws"
    using demo_spec_ready(2) [OF ready] by (metis append_take_drop_id ws_def)
  have "length (cx_result (demo_spec ae) x) = length (cx_fed x)" by (simp add: cx_result_def demo_spec_def)
  then show "length ws \<le> 1" using demo_spec_ready(3) [OF ready] by (simp add: ws_def)
qed

lemma demo_update_call:
  fixes w :: "(nat \<times> cx) list" and buf d :: "byte list"
  assumes c: "al_heap w c = Some x" "cx_ready (demo_spec ae) x" "length d + sp_block (demo_spec ae) \<le> length buf"
  shows "\<exists>ws. length ws \<le> length buf \<and>
      cx_ready (demo_spec ae) (x\<lparr>cx_fed := cx_fed x @ d, cx_out := cx_out x @ ws\<rparr>) \<and>
      calls_ok (cx_demo ae) al_heap ''EVP_CipherUpdate''
        [c, CBytes buf, CInt (int (length buf)), CBytes d, CInt (int (length d))] w [CBytes ws, CInt (int (length ws))]
        ((al_heap w)(c \<mapsto> x\<lparr>cx_fed := cx_fed x @ d, cx_out := cx_out x @ ws\<rparr>))"
proof -
  let ?ws = "drop (length (cx_out x)) (cx_result (demo_spec ae) (x\<lparr>cx_fed := cx_fed x @ d\<rparr>))"
  have "calls_ok (cx_demo ae) al_heap ''EVP_CipherUpdate''
      [c, CBytes buf, CInt (int (length buf)), CBytes d, CInt (int (length d))] w [CBytes ?ws, CInt (int (length ?ws))]
      ((al_heap w)(c \<mapsto> x\<lparr>cx_fed := cx_fed x @ d, cx_out := cx_out x @ ?ws\<rparr>))"
    using c(1) by (rule cx_demo_calls) (simp_all add: demo_ctx_call_def Let_def)
  moreover have "length d + 1 \<le> length buf" using c(3) by (simp add: demo_spec_def)
  ultimately show ?thesis using demo_update [OF c(2)] by blast
qed

lemma demo_final_call:
  fixes w :: "(nat \<times> cx) list"
  assumes c: "al_heap w c = Some x" "cx_ready (demo_spec ae) x"
  shows "if cx_accepted (demo_spec ae) x
      then \<exists>ws. cx_result (demo_spec ae) x = cx_out x @ ws \<and> length ws \<le> sp_block (demo_spec ae) \<and>
        calls_ok (cx_demo ae) al_heap ''EVP_CipherFinal'' [c, CBytes buf, n] w [CBytes ws, CInt (int (length ws))]
          ((al_heap w)(c \<mapsto> x\<lparr>cx_out := cx_out x @ ws, cx_done := True\<rparr>))
      else c_int (fst (fst (cx_demo ae ''EVP_CipherFinal'' [c, CBytes buf, n] w))) \<le> 0"
proof -
  let ?ws = "drop (length (cx_out x)) (cx_result (demo_spec ae) x)"
  have "cx_accepted (demo_spec ae) x \<Longrightarrow> calls_ok (cx_demo ae) al_heap ''EVP_CipherFinal'' [c, CBytes buf, n] w
      [CBytes ?ws, CInt (int (length ?ws))] ((al_heap w)(c \<mapsto> x\<lparr>cx_out := cx_out x @ ?ws, cx_done := True\<rparr>))"
    using c(1) by (rule cx_demo_calls) (simp_all add: demo_ctx_call_def Let_def)
  moreover have "\<not> cx_accepted (demo_spec ae) x \<Longrightarrow>
      c_int (fst (fst (cx_demo ae ''EVP_CipherFinal'' [c, CBytes buf, n] w))) \<le> 0"
    using cx_demo_ctx(1) [OF c(1), of ae "''EVP_CipherFinal''" "[CBytes buf, n]" 0 "[]" x]
    by (simp add: demo_ctx_call_def)
  moreover have "length ?ws \<le> sp_block (demo_spec ae)" using demo_final(2) [OF c(2)] by (simp add: demo_spec_def)
  ultimately show ?thesis using demo_final(1) [OF c(2)] by (cases "cx_accepted (demo_spec ae) x") auto
qed

lemma demo_data_law: "data_law (cx_demo ae) al_heap (demo_spec ae)"
  unfolding data_law_def
proof (intro conjI allI impI)
  fix w :: "(nat \<times> cx) list" and c x a assume "al_heap w c = Some x"
  then show "calls_ok (cx_demo ae) al_heap ''EVP_CipherUpdate'' [c, CNull, CInt 0, CBytes a, CInt (int (length a))] w []
      ((al_heap w)(c \<mapsto> x\<lparr>cx_aad := cx_aad x @ a\<rparr>))"
    by (rule cx_demo_calls) (auto simp: demo_ctx_call_def)
next
  fix w :: "(nat \<times> cx) list" and c x and buf d :: "byte list"
  assume "al_heap w c = Some x" "cx_ready (demo_spec ae) x" "length d + sp_block (demo_spec ae) \<le> length buf"
  then show "\<exists>ws. length ws \<le> length buf \<and>
      cx_ready (demo_spec ae) (x\<lparr>cx_fed := cx_fed x @ d, cx_out := cx_out x @ ws\<rparr>) \<and>
      calls_ok (cx_demo ae) al_heap ''EVP_CipherUpdate''
        [c, CBytes buf, CInt (int (length buf)), CBytes d, CInt (int (length d))] w [CBytes ws, CInt (int (length ws))]
        ((al_heap w)(c \<mapsto> x\<lparr>cx_fed := cx_fed x @ d, cx_out := cx_out x @ ws\<rparr>))"
    by (rule demo_update_call)
next
  fix w :: "(nat \<times> cx) list" and c x buf n
  assume "al_heap w c = Some x" "cx_ready (demo_spec ae) x"
  then show "if cx_accepted (demo_spec ae) x
      then \<exists>ws. cx_result (demo_spec ae) x = cx_out x @ ws \<and> length ws \<le> sp_block (demo_spec ae) \<and>
        calls_ok (cx_demo ae) al_heap ''EVP_CipherFinal'' [c, CBytes buf, n] w [CBytes ws, CInt (int (length ws))]
          ((al_heap w)(c \<mapsto> x\<lparr>cx_out := cx_out x @ ws, cx_done := True\<rparr>))
      else c_int (fst (fst (cx_demo ae ''EVP_CipherFinal'' [c, CBytes buf, n] w))) \<le> 0"
    by (rule demo_final_call)
next
  fix w :: "(nat \<times> cx) list" and c x and tag :: "byte list"
  assume c: "al_heap w c = Some x" and "tag \<noteq> []" "length tag \<le> sp_taglen (demo_spec ae)"
  then show "calls_ok (cx_demo ae) al_heap ''EVP_CIPHER_CTX_ctrl''
      [c, CInt EVP_CTRL_GCM_SET_TAG, CInt (int (length tag)), CBytes tag] w []
      ((al_heap w)(c \<mapsto> x\<lparr>cx_tag := Some tag\<rparr>))"
    by (intro cx_demo_calls)
      (simp_all add: demo_ctx_call_def demo_spec_def EVP_CTRL_GCM_SET_TAG_def EVP_CTRL_GCM_GET_TAG_def EVP_CTRL_GCM_SET_IVLEN_def)
next
  fix w :: "(nat \<times> cx) list" and c x and tag :: "byte list"
  assume "al_heap w c = Some x" "tag = [] \<or> sp_taglen (demo_spec ae) < length tag"
  then show "c_int (fst (fst (cx_demo ae ''EVP_CIPHER_CTX_ctrl''
      [c, CInt EVP_CTRL_GCM_SET_TAG, CInt (int (length tag)), CBytes tag] w))) \<le> 0"
    using cx_demo_ctx(1) [of w c x ae "''EVP_CIPHER_CTX_ctrl''" "[CInt EVP_CTRL_GCM_SET_TAG, CInt (int (length tag)), CBytes tag]" 0 "[]" x]
    by (simp add: demo_ctx_call_def demo_spec_def EVP_CTRL_GCM_SET_TAG_def EVP_CTRL_GCM_GET_TAG_def EVP_CTRL_GCM_SET_IVLEN_def)
next
  fix w :: "(nat \<times> cx) list" and c x and tag :: "byte list" assume "al_heap w c = Some x"
  then show "calls_ok (cx_demo ae) al_heap ''EVP_CIPHER_CTX_ctrl''
      [c, CInt EVP_CTRL_GCM_GET_TAG, CInt (int (length tag)), CBytes tag] w
      [CBytes (take (length tag) (cx_mac (demo_spec ae) x (cx_out x)))] (al_heap w)"
    by (intro cx_demo_calls)
      (auto simp: demo_ctx_call_def EVP_CTRL_GCM_GET_TAG_def EVP_CTRL_GCM_SET_IVLEN_def fun_upd_idem)
qed

lemma demo_cipher_law: "cipher_law (cx_demo ae) al_heap (demo_spec ae)"
  by (simp add: cipher_law_def demo_setup_law demo_data_law) (auto simp: demo_spec_def min_def)



end
