(* ===== verification/Ossl_Stack.thy ===== *)
theory Ossl_Stack
  imports Ossl_X509 Demo_Heap
begin

text \<open>
  Stacks of OpenSSL objects, \<open>openssl/src/stack.rs\<close>: an owned C stack whose elements it owns too,
  and its three iterators. What dropping an element does depends on the element type; it is the
  argument \<open>drp\<close>. Pointer casts between \<open>c_int\<close> and \<open>usize\<close> wrap as Rust's \<open>as\<close> does; checked
  arithmetic panics on overflow, as in a debug build.

  The locale \<open>list_stack\<close> states what a stack promises, the operations of a list, and is
  interpreted on the wrappers here.
\<close>

subsection \<open>Stacks\<close>

definition usize_of_c_int :: "int \<Rightarrow> nat" where
  "usize_of_c_int i = unat (word_of_int i :: u64)"

definition c_int_of_usize :: "nat \<Rightarrow> int" where
  "c_int_of_usize n = sint (word_of_int (int n) :: i32)"

definition Stack_new :: "'w ffi \<Rightarrow> ('w, error_stack, cval) eff" where
  "Stack_new F = and_then (init F) (\<lambda>_. call_p F ''OPENSSL_sk_new_null'' [])"

definition Stack_from_ptr :: "cval \<Rightarrow> ('w, 'e, cval) eff" where
  "Stack_from_ptr ptr = and_then (assert_that (ptr \<noteq> CNull)) (\<lambda>_. ret ptr)"

definition StackRef_len :: "'w ffi \<Rightarrow> cval \<Rightarrow> ('w, 'e, nat) eff" where
  "StackRef_len F s = and_then (ccall F ''OPENSSL_sk_num'' [s]) (\<lambda>(n, _). ret (usize_of_c_int (c_int n)))"

definition StackRef_raw_get :: "'w ffi \<Rightarrow> cval \<Rightarrow> nat \<Rightarrow> ('w, 'e, cval) eff" where
  "StackRef_raw_get F s idx =
     and_then (ccall F ''OPENSSL_sk_value'' [s, CInt (c_int_of_usize idx)]) (\<lambda>(p, _). ret p)"

definition StackRef_get :: "'w ffi \<Rightarrow> cval \<Rightarrow> nat \<Rightarrow> ('w, 'e, cval option) eff" where
  "StackRef_get F s idx =
     and_then (StackRef_len F s) (\<lambda>n.
     if n \<le> idx then ret None
     else and_then (StackRef_raw_get F s idx) (\<lambda>p. ret (Some p)))"

definition StackRef_get_mut :: "'w ffi \<Rightarrow> cval \<Rightarrow> nat \<Rightarrow> ('w, 'e, cval option) eff" where
  "StackRef_get_mut F s idx =
     and_then (StackRef_len F s) (\<lambda>n.
     if n \<le> idx then ret None
     else and_then (StackRef_raw_get F s idx) (\<lambda>p. ret (Some p)))"

text \<open>An element that could not be pushed is dropped when \<open>push\<close> returns.\<close>

definition StackRef_push ::
  "'w ffi \<Rightarrow> (cval \<Rightarrow> ('w, error_stack, unit) eff) \<Rightarrow> cval \<Rightarrow> cval \<Rightarrow> ('w, error_stack, unit) eff" where
  "StackRef_push F drp s data = owning (drp data) (call_i F ''OPENSSL_sk_push'' [s, data])"

definition StackRef_pop :: "'w ffi \<Rightarrow> cval \<Rightarrow> ('w, 'e, cval option) eff" where
  "StackRef_pop F s =
     and_then (ccall F ''OPENSSL_sk_pop'' [s]) (\<lambda>(ptr, _).
       ret (if ptr = CNull then None else Some ptr))"

definition StackRef_index :: "'w ffi \<Rightarrow> cval \<Rightarrow> nat \<Rightarrow> ('w, 'e, cval) eff" where
  "StackRef_index F s idx =
     and_then (StackRef_get F s idx) (\<lambda>p. case p of Some r \<Rightarrow> ret r | None \<Rightarrow> panic)"

definition StackRef_index_mut :: "'w ffi \<Rightarrow> cval \<Rightarrow> nat \<Rightarrow> ('w, 'e, cval) eff" where
  "StackRef_index_mut F s idx =
     and_then (StackRef_get_mut F s idx) (\<lambda>p. case p of Some r \<Rightarrow> ret r | None \<Rightarrow> panic)"

definition Stack_drop :: "'w ffi \<Rightarrow> (cval \<Rightarrow> ('w, 'e, unit) eff) \<Rightarrow> cval \<Rightarrow> ('w, 'e, unit) eff" where
  "Stack_drop F drp s =
     and_then (while_some (StackRef_pop F s) drp) (\<lambda>_.
     and_then (ccall F ''OPENSSL_sk_free'' [s]) (\<lambda>_. ret ()))"

subsection \<open>Iterators\<close>

record stack_iter =
  it_stack :: cval
  it_pos :: nat

definition StackRef_iter :: "cval \<Rightarrow> stack_iter" where
  "StackRef_iter s = \<lparr>it_stack = s, it_pos = 0\<rparr>"

definition StackRef_iter_mut :: "cval \<Rightarrow> stack_iter" where
  "StackRef_iter_mut s = \<lparr>it_stack = s, it_pos = 0\<rparr>"

definition Iter_next :: "'w ffi \<Rightarrow> ('w \<times> stack_iter, 'e, cval option) eff" where
  "Iter_next F =
     and_then self (\<lambda>it.
     and_then (lifted (StackRef_get F (it_stack it) (it_pos it))) (\<lambda>n.
     and_then (if n \<noteq> None then modify_self (\<lambda>it. it\<lparr>it_pos := it_pos it + 1\<rparr>) else ret ()) (\<lambda>_.
       ret n)))"

definition IterMut_next :: "'w ffi \<Rightarrow> ('w \<times> stack_iter, 'e, cval option) eff" where
  "IterMut_next F =
     and_then self (\<lambda>it.
     and_then (lifted (StackRef_len F (it_stack it))) (\<lambda>len.
     if len \<le> it_pos it then ret None
     else
       and_then (lifted (StackRef_raw_get F (it_stack it) (it_pos it))) (\<lambda>n.
       and_then (modify_self (\<lambda>it. it\<lparr>it_pos := it_pos it + 1\<rparr>)) (\<lambda>_.
         ret (Some n)))))"

definition Iter_size_hint :: "'w ffi \<Rightarrow> stack_iter \<Rightarrow> ('w, 'e, nat \<times> nat option) eff" where
  "Iter_size_hint F it =
     and_then (StackRef_len F (it_stack it)) (\<lambda>n.
     and_then (assert_that (it_pos it \<le> n)) (\<lambda>_.
     let rem = n - it_pos it in ret (rem, Some rem)))"

record into_iter =
  ii_stack :: cval
  ii_idx :: int

definition Stack_into_iter :: "cval \<Rightarrow> into_iter" where
  "Stack_into_iter s = \<lparr>ii_stack = s, ii_idx = 0\<rparr>"

definition stack_len :: "'w ffi \<Rightarrow> into_iter \<Rightarrow> ('w, 'e, int) eff" where
  "stack_len F it = and_then (ccall F ''OPENSSL_sk_num'' [ii_stack it]) (\<lambda>(n, _). ret (c_int n))"

definition IntoIter_next :: "'w ffi \<Rightarrow> ('w \<times> into_iter, 'e, cval option) eff" where
  "IntoIter_next F =
     and_then self (\<lambda>it.
     and_then (lifted (stack_len F it)) (\<lambda>n.
     if ii_idx it = n then ret None
     else
       and_then (lifted (ccall F ''OPENSSL_sk_value'' [ii_stack it, CInt (ii_idx it)])) (\<lambda>(ptr, _).
       and_then (assert_that (ii_idx it < int c_int_max)) (\<lambda>_.
       and_then (modify_self (\<lambda>it. it\<lparr>ii_idx := ii_idx it + 1\<rparr>)) (\<lambda>_.
         ret (Some ptr))))))"

definition IntoIter_size_hint :: "'w ffi \<Rightarrow> into_iter \<Rightarrow> ('w, 'e, nat \<times> nat option) eff" where
  "IntoIter_size_hint F it =
     and_then (stack_len F it) (\<lambda>n.
     let size = usize_of_c_int (n - ii_idx it) in ret (size, Some size))"

definition IntoIter_drop :: "'w ffi \<Rightarrow> (cval \<Rightarrow> ('w, 'e, unit) eff) \<Rightarrow> ('w \<times> into_iter, 'e, unit) eff" where
  "IntoIter_drop F drp =
     and_then (while_some (IntoIter_next F) (\<lambda>p. lifted (drp p))) (\<lambda>_.
     and_then self (\<lambda>it.
     and_then (lifted (ccall F ''OPENSSL_sk_free'' [ii_stack it])) (\<lambda>_. ret ())))"


subsection \<open>What a stack promises\<close>

datatype stack_op = Push cval | Pop | Get nat | Len

datatype stack_result = Done | Elem "cval option" | Count nat

fun list_op :: "stack_op \<Rightarrow> cval list \<Rightarrow> stack_result \<times> cval list" where
  "list_op (Push p) xs = (Done, xs @ [p])"
| "list_op Pop xs = (Elem (if xs = [] then None else Some (last xs)), butlast xs)"
| "list_op (Get i) xs = (Elem (if i < length xs then Some (xs ! i) else None), xs)"
| "list_op Len xs = (Count (length xs), xs)"

fun list_ops :: "stack_op list \<Rightarrow> cval list \<Rightarrow> stack_result list \<times> cval list" where
  "list_ops [] xs = ([], xs)"
| "list_ops (op # ops) xs =
     (case list_op op xs of (r, ys) \<Rightarrow> case list_ops ops ys of (rs, zs) \<Rightarrow> (r # rs, zs))"

definition stack_call ::
  "(cval \<Rightarrow> ('w, 'e, unit) eff) \<Rightarrow> ('w, 'e, cval option) eff \<Rightarrow> (nat \<Rightarrow> ('w, 'e, cval option) eff) \<Rightarrow>
   ('w, 'e, nat) eff \<Rightarrow> stack_op \<Rightarrow> ('w, 'e, stack_result) eff" where
  "stack_call psh pp gt ln op =
     (case op of
        Push p \<Rightarrow> and_then (psh p) (\<lambda>_. ret Done)
      | Pop \<Rightarrow> and_then pp (\<lambda>x. ret (Elem x))
      | Get i \<Rightarrow> and_then (gt i) (\<lambda>x. ret (Elem x))
      | Len \<Rightarrow> and_then ln (\<lambda>n. ret (Count n)))"

fun stack_calls :: "(stack_op \<Rightarrow> ('w, 'e, stack_result) eff) \<Rightarrow> stack_op list \<Rightarrow> ('w, 'e, stack_result list) eff" where
  "stack_calls call [] = ret []"
| "stack_calls call (op # ops) = and_then (call op) (\<lambda>r. and_then (stack_calls call ops) (\<lambda>rs. ret (r # rs)))"

text \<open>
  \<open>stands w xs\<close>: in the state \<open>w\<close> the stack holds \<open>xs\<close>. A stack holds fewer elements than the
  bound and only elements that are not null.
\<close>

definition pushable :: "nat \<Rightarrow> stack_op list \<Rightarrow> bool" where
  "pushable n ops \<longleftrightarrow> n + length ops \<le> c_int_max \<and> Push CNull \<notin> set ops"

locale list_stack =
  fixes stands :: "'w \<Rightarrow> cval list \<Rightarrow> bool"
    and psh :: "cval \<Rightarrow> ('w, 'e, unit) eff" and pp :: "('w, 'e, cval option) eff"
    and gt :: "nat \<Rightarrow> ('w, 'e, cval option) eff" and ln :: "('w, 'e, nat) eff"
  assumes push_appends: "stands w xs \<Longrightarrow> length xs < c_int_max \<Longrightarrow> p \<noteq> CNull \<Longrightarrow>
      \<exists>w'. psh p w = (Ok (), w') \<and> stands w' (xs @ [p])"
    and pop_takes: "stands w xs \<Longrightarrow> \<exists>w'. pp w = (Ok (if xs = [] then None else Some (last xs)), w') \<and> stands w' (butlast xs)"
    and get_reads: "stands w xs \<Longrightarrow> \<exists>w'. gt i w = (Ok (if i < length xs then Some (xs ! i) else None), w') \<and> stands w' xs"
    and len_counts: "stands w xs \<Longrightarrow> \<exists>w'. ln w = (Ok (length xs), w') \<and> stands w' xs"
begin

lemma call_simulates:
  assumes "stands w xs" "length xs < c_int_max" "op \<noteq> Push CNull"
  shows "\<exists>w'. stack_call psh pp gt ln op w = (Ok (fst (list_op op xs)), w') \<and> stands w' (snd (list_op op xs))"
proof (cases op)
  case (Push q)
  with push_appends [OF assms(1,2), of q] assms(3) show ?thesis by (auto simp: stack_call_def and_then_def)
next
  case Pop
  with pop_takes [OF assms(1)] show ?thesis by (auto simp: stack_call_def and_then_def)
next
  case (Get i)
  with get_reads [OF assms(1), of i] show ?thesis by (auto simp: stack_call_def and_then_def)
next
  case Len
  with len_counts [OF assms(1)] show ?thesis by (auto simp: stack_call_def and_then_def)
qed

lemma list_op_length: "length (snd (list_op op xs)) \<le> Suc (length xs)"
  by (cases op) auto

lemma calls_simulate:
  "stands w xs \<Longrightarrow> pushable (length xs) ops \<Longrightarrow>
   \<exists>w'. stack_calls (stack_call psh pp gt ln) ops w = (Ok (fst (list_ops ops xs)), w') \<and> stands w' (snd (list_ops ops xs))"
proof (induction ops arbitrary: w xs)
  case (Cons op ops)
  then have "length xs < c_int_max" "op \<noteq> Push CNull" by (auto simp: pushable_def)
  from call_simulates [OF Cons.prems(1) this] obtain w1 where
    1: "stack_call psh pp gt ln op w = (Ok (fst (list_op op xs)), w1)" "stands w1 (snd (list_op op xs))" by blast
  have "pushable (length (snd (list_op op xs))) ops"
    using Cons.prems(2) list_op_length [of op xs] by (auto simp: pushable_def)
  from Cons.IH [OF 1(2) this] 1(1) show ?case
    by (auto simp: and_then_step case_prod_beta)
qed simp

lemma drains:
  assumes "\<And>w xs p. stands w xs \<Longrightarrow> \<exists>w'. drp p w = (Ok (), w') \<and> stands w' xs \<and> D w' = D w @ [p]"
    and "\<And>w xs. stands w xs \<Longrightarrow> D (snd (pp w)) = D w"
  shows "stands w xs \<Longrightarrow> \<exists>w'. while_some pp drp w = (Ok (), w') \<and> stands w' [] \<and> D w' = D w @ rev xs"
proof (induction xs arbitrary: w rule: rev_induct)
  case Nil
  with pop_takes [OF Nil] assms(2) [OF Nil] show ?case by (auto intro: while_some_stop)
next
  case (snoc x xs)
  from pop_takes [OF snoc.prems] assms(2) [OF snoc.prems] obtain w1 where
    1: "pp w = (Ok (Some x), w1)" "stands w1 xs" "D w1 = D w" by auto
  from assms(1) [OF 1(2)] obtain w2 where 2: "drp x w1 = (Ok (), w2)" "stands w2 xs" "D w2 = D w1 @ [x]" by blast
  from snoc.IH [OF 2(2)] obtain w3 where
    "while_some pp drp w2 = (Ok (), w3)" "stands w3 []" "D w3 = D w2 @ rev xs" by blast
  with 1 2 show ?case by (auto intro: while_some_step)
qed

end

subsection \<open>C stacks\<close>

text \<open>
  What the \<open>sk_\<close> functions document, when memory is not exhausted: \<open>H\<close> gives the elements of
  every stack, \<open>D\<close> the elements dropped so far.
\<close>

definition stack_law ::
  "'w ffi \<Rightarrow> (cval \<Rightarrow> ('w, 'e, unit) eff) \<Rightarrow> ('w \<Rightarrow> cval \<Rightarrow> cval list option) \<Rightarrow> ('w \<Rightarrow> cval list) \<Rightarrow> bool" where
  "stack_law F drp H D \<longleftrightarrow>
     (\<forall>f args w. D (snd (F f args w)) = D w) \<and>
     (\<forall>w. H (snd (F ''init'' [] w)) = H w) \<and>
     (\<forall>w. \<exists>p w'. F ''OPENSSL_sk_new_null'' [] w = ((p, []), w') \<and> p \<noteq> CNull \<and> H w p = None \<and> H w' = (H w)(p \<mapsto> [])) \<and>
     (\<forall>w s xs p. H w s = Some xs \<longrightarrow> length xs < c_int_max \<longrightarrow>
        (\<exists>w'. F ''OPENSSL_sk_push'' [s, p] w = ((CInt (int (length xs) + 1), []), w') \<and> H w' = (H w)(s \<mapsto> xs @ [p]))) \<and>
     (\<forall>w s xs. H w s = Some xs \<longrightarrow>
        (\<exists>w'. F ''OPENSSL_sk_pop'' [s] w = ((if xs = [] then CNull else last xs, []), w') \<and> H w' = (H w)(s \<mapsto> butlast xs))) \<and>
     (\<forall>w s xs. H w s = Some xs \<longrightarrow>
        (\<exists>w'. F ''OPENSSL_sk_num'' [s] w = ((CInt (int (length xs)), []), w') \<and> H w' = H w)) \<and>
     (\<forall>w s xs i. H w s = Some xs \<longrightarrow> i < length xs \<longrightarrow>
        (\<exists>w'. F ''OPENSSL_sk_value'' [s, CInt (int i)] w = ((xs ! i, []), w') \<and> H w' = H w)) \<and>
     (\<forall>w s. H (snd (F ''OPENSSL_sk_free'' [s] w)) = (H w)(s := None)) \<and>
     (\<forall>w p. \<exists>w'. drp p w = (Ok (), w') \<and> H w' = H w \<and> D w' = D w @ [p])"

lemma stack_lawD:
  assumes "stack_law F drp H D"
  shows "D (snd (F f args w)) = D w" "H (snd (F ''init'' [] w)) = H w"
    "\<exists>p w'. F ''OPENSSL_sk_new_null'' [] w = ((p, []), w') \<and> p \<noteq> CNull \<and> H w p = None \<and> H w' = (H w)(p \<mapsto> [])"
    "H w s = Some xs \<Longrightarrow> length xs < c_int_max \<Longrightarrow>
      \<exists>w'. F ''OPENSSL_sk_push'' [s, p] w = ((CInt (int (length xs) + 1), []), w') \<and> H w' = (H w)(s \<mapsto> xs @ [p])"
    "H w s = Some xs \<Longrightarrow>
      \<exists>w'. F ''OPENSSL_sk_pop'' [s] w = ((if xs = [] then CNull else last xs, []), w') \<and> H w' = (H w)(s \<mapsto> butlast xs)"
    "H w s = Some xs \<Longrightarrow> \<exists>w'. F ''OPENSSL_sk_num'' [s] w = ((CInt (int (length xs)), []), w') \<and> H w' = H w"
    "H w s = Some xs \<Longrightarrow> i < length xs \<Longrightarrow>
      \<exists>w'. F ''OPENSSL_sk_value'' [s, CInt (int i)] w = ((xs ! i, []), w') \<and> H w' = H w"
    "H (snd (F ''OPENSSL_sk_free'' [s] w)) = (H w)(s := None)"
    "\<exists>w'. drp p w = (Ok (), w') \<and> H w' = H w \<and> D w' = D w @ [p]"
  using assms unfolding stack_law_def by auto

lemma usize_exact [simp]: "n \<le> c_int_max \<Longrightarrow> usize_of_c_int (int n) = n"
  by (simp add: usize_of_c_int_def c_int_max_def unsigned_of_nat take_bit_nat_eq_self)

lemma c_int_exact [simp]: "n \<le> c_int_max \<Longrightarrow> c_int_of_usize n = int n"
  by (simp add: c_int_of_usize_def c_int_max_def signed_of_nat signed_take_bit_int_eq_self)

definition stack_stands ::
  "'w ffi \<Rightarrow> (cval \<Rightarrow> ('w, 'e, unit) eff) \<Rightarrow> ('w \<Rightarrow> cval \<Rightarrow> cval list option) \<Rightarrow> ('w \<Rightarrow> cval list) \<Rightarrow> cval \<Rightarrow>
   (cval \<Rightarrow> cval list option) \<Rightarrow> 'w \<Rightarrow> cval list \<Rightarrow> bool" where
  "stack_stands F drp H D s rest w xs \<longleftrightarrow>
     stack_law F drp H D \<and> rest s = None \<and> H w = rest(s \<mapsto> xs) \<and> length xs \<le> c_int_max \<and> CNull \<notin> set xs"

lemma stands_keep: "stack_stands F drp H D s rest w xs \<Longrightarrow> H w' = H w \<Longrightarrow> stack_stands F drp H D s rest w' xs"
  by (simp add: stack_stands_def)

lemma stands_set:
  "stack_stands F drp H D s rest w xs \<Longrightarrow> H w' = (H w)(s \<mapsto> ys) \<Longrightarrow> length ys \<le> c_int_max \<Longrightarrow> CNull \<notin> set ys \<Longrightarrow>
   stack_stands F drp H D s rest w' ys"
  by (simp add: stack_stands_def)

interpretation c_stack: list_stack "stack_stands F drp H D s rest" "StackRef_push F drp s" "StackRef_pop F s"
    "StackRef_get F s" "StackRef_len F s"
  for F :: "'w ffi" and drp H D s rest
proof unfold_locales
  fix w xs assume st: "stack_stands F drp H D s rest w xs"
  then have law: "stack_law F drp H D" and h: "H w s = Some xs" and len: "length xs \<le> c_int_max"
    by (auto simp: stack_stands_def)
  show "\<exists>w'. StackRef_push F drp s p w = (Ok (), w') \<and> stack_stands F drp H D s rest w' (xs @ [p])"
    if room: "length xs < c_int_max" "p \<noteq> CNull" for p
  proof -
    obtain w' where w': "F ''OPENSSL_sk_push'' [s, p] w = ((CInt (int (length xs) + 1), []), w')"
      "H w' = (H w)(s \<mapsto> xs @ [p])"
      using stack_lawD(4) [OF law h room(1)] by blast
    then have "StackRef_push F drp s p w = (Ok (), w')"
      unfolding StackRef_push_def
      by (intro owning_Ok) (simp add: call_i_def and_then_def ccall_def cvt_def)
    with w'(2) st room show ?thesis by (auto simp: stack_stands_def)
  qed
  show "\<exists>w'. StackRef_pop F s w = (Ok (if xs = [] then None else Some (last xs)), w') \<and>
      stack_stands F drp H D s rest w' (butlast xs)"
  proof -
    obtain w' where w': "F ''OPENSSL_sk_pop'' [s] w = ((if xs = [] then CNull else last xs, []), w')"
      "H w' = (H w)(s \<mapsto> butlast xs)"
      using stack_lawD(5) [OF law h] by blast
    have "xs \<noteq> [] \<Longrightarrow> last xs \<noteq> CNull" using st by (metis last_in_set stack_stands_def)
    then have "StackRef_pop F s w = (Ok (if xs = [] then None else Some (last xs)), w')"
      using w'(1) by (auto simp: StackRef_pop_def and_then_def ccall_def)
    moreover have "stack_stands F drp H D s rest w' (butlast xs)"
      using len st by (intro stands_set [OF st w'(2)]) (auto simp: stack_stands_def dest: in_set_butlastD)
    ultimately show ?thesis by blast
  qed
  show len_ok: "\<exists>w'. StackRef_len F s w = (Ok (length xs), w') \<and> stack_stands F drp H D s rest w' xs"
    using stack_lawD(6) [OF law h] stands_keep [OF st] len
    by (auto simp: StackRef_len_def and_then_def ccall_def)
  show "\<exists>w'. StackRef_get F s i w = (Ok (if i < length xs then Some (xs ! i) else None), w') \<and>
      stack_stands F drp H D s rest w' xs" for i
  proof -
    obtain w1 where w1: "F ''OPENSSL_sk_num'' [s] w = ((CInt (int (length xs)), []), w1)" "H w1 = H w"
      using stack_lawD(6) [OF law h] by blast
    have "H w1 s = Some xs" using w1(2) h by simp
    from stack_lawD(7) [OF law this, of i] w1 st len show ?thesis
      by (cases "i < length xs")
        (auto simp: StackRef_get_def StackRef_len_def StackRef_raw_get_def and_then_def ccall_def stack_stands_def)
  qed
qed


lemma stands_of:
  assumes "stack_law F drp H D" "H w s = Some xs" "length xs \<le> c_int_max" "CNull \<notin> set xs"
  shows "stack_stands F drp H D s ((H w)(s := None)) w xs"
  using assms by (auto simp: stack_stands_def)

lemma stack_freed:
  assumes "stack_stands F drp H D s rest w xs"
  shows "H (snd (F ''OPENSSL_sk_free'' [s] w)) = rest" "D (snd (F ''OPENSSL_sk_free'' [s] w)) = D w"
  using assms stack_lawD(1,8) [of F drp H D] by (auto simp: stack_stands_def fun_upd_idem)

lemma Stack_drop_run:
  fixes drp :: "cval \<Rightarrow> ('w, error_stack, unit) eff"
  assumes st: "stack_stands F drp H D s rest w xs"
  shows "\<exists>w'. Stack_drop F drp s w = (Ok (), w') \<and> H w' = rest \<and> D w' = D w @ rev xs"
proof -
  have "\<exists>w'. drp p w = (Ok (), w') \<and> stack_stands F drp H D s rest w' xs \<and> D w' = D w @ [p]"
    if "stack_stands F drp H D s rest w xs" for w xs p
    using that stack_lawD(9) [of F drp H D p w] by (fastforce simp: stack_stands_def)
  moreover have "D (snd (StackRef_pop F s w :: (error_stack, _) outcome \<times> _)) = D w"
    if "stack_stands F drp H D s rest w xs" for w xs
    using that stack_lawD(1) [of F drp H D "''OPENSSL_sk_pop''" "[s]" w]
    by (auto simp: stack_stands_def StackRef_pop_def and_then_def ccall_def split: prod.split)
  ultimately obtain w1 where w1: "while_some (StackRef_pop F s) drp w = (Ok (), w1)" "stack_stands F drp H D s rest w1 []"
    "D w1 = D w @ rev xs"
    using c_stack.drains [where D = D, OF _ _ st] by blast
  show ?thesis
    using w1 stack_freed [OF w1(2)] by (simp add: Stack_drop_def and_then_def ccall_def case_prod_beta)
qed

text \<open>An owning iterator that has handed out the first \<open>k\<close> elements.\<close>

definition at_elem :: "cval \<Rightarrow> nat \<Rightarrow> into_iter" where
  "at_elem s k = \<lparr>ii_stack = s, ii_idx = int k\<rparr>"

lemma IntoIter_next_run:
  assumes st: "stack_stands F drp H D s rest w xs" and k: "k \<le> length xs"
  obtains w' where "IntoIter_next F (w, at_elem s k) =
      (Ok (if k < length xs then Some (xs ! k) else None) :: ('f, cval option) outcome,
       (w', at_elem s (if k < length xs then Suc k else k)))"
    "stack_stands F drp H D s rest w' xs" "D w' = D w"
proof -
  have law: "stack_law F drp H D" and h: "H w s = Some xs" using st by (auto simp: stack_stands_def)
  obtain w1 where w1: "F ''OPENSSL_sk_num'' [s] w = ((CInt (int (length xs)), []), w1)" "H w1 = H w"
    using stack_lawD(6) [OF law h] by blast
  have D1: "D w1 = D w" using stack_lawD(1) [OF law, of "''OPENSSL_sk_num''" "[s]" w] w1(1) by simp
  show thesis
  proof (cases "k < length xs")
    case True
    have "H w1 s = Some xs" using w1(2) h by simp
    from stack_lawD(7) [OF law this True] obtain w2 where
      w2: "F ''OPENSSL_sk_value'' [s, CInt (int k)] w1 = ((xs ! k, []), w2)" "H w2 = H w1" by blast
    have "D w2 = D w1" using stack_lawD(1) [OF law, of "''OPENSSL_sk_value''" "[s, CInt (int k)]" w1] w2(1) by simp
    with True w1 w2 D1 st show thesis
      by (intro that [of w2])
        (auto simp: IntoIter_next_def stack_len_def at_elem_def and_then_def lifted_def ccall_def stack_stands_def)
  next
    case False
    with w1 D1 st k show thesis
      by (intro that [of w1])
        (auto simp: IntoIter_next_def stack_len_def at_elem_def and_then_def lifted_def ccall_def stack_stands_def)
  qed
qed

fun iter_take :: "'w ffi \<Rightarrow> nat \<Rightarrow> ('w \<times> into_iter, 'e, cval list) eff" where
  "iter_take F 0 = ret []"
| "iter_take F (Suc n) =
     and_then (IntoIter_next F) (\<lambda>x.
     case x of None \<Rightarrow> ret [] | Some p \<Rightarrow> and_then (iter_take F n) (\<lambda>ps. ret (p # ps)))"

lemma iter_take_run:
  "stack_stands F drp H D s rest w xs \<Longrightarrow> k \<le> length xs \<Longrightarrow>
   \<exists>w'. iter_take F n (w, at_elem s k) =
       (Ok (take n (drop k xs)) :: ('f, cval list) outcome, (w', at_elem s (min (k + n) (length xs)))) \<and>
     stack_stands F drp H D s rest w' xs \<and> D w' = D w"
proof (induction n arbitrary: w k)
  case (Suc n)
  obtain w1 where w1: "IntoIter_next F (w, at_elem s k) =
      (Ok (if k < length xs then Some (xs ! k) else None) :: ('f, cval option) outcome,
       (w1, at_elem s (if k < length xs then Suc k else k)))"
    "stack_stands F drp H D s rest w1 xs" "D w1 = D w"
    by (rule IntoIter_next_run [OF Suc.prems])
  show ?case
  proof (cases "k < length xs")
    case True
    with Suc.IH [OF w1(2), of "Suc k"] w1 show ?thesis
      by (auto simp: and_then_def Cons_nth_drop_Suc [symmetric])
  next
    case False
    with w1 Suc.prems(2) show ?thesis by (auto simp: and_then_def)
  qed
qed (auto simp: min_def)

lemma IntoIter_drop_run:
  fixes drp :: "cval \<Rightarrow> ('w, 'e, unit) eff"
  assumes st: "stack_stands F drp H D s rest w xs" and k: "k \<le> length xs"
  shows "\<exists>w' it. IntoIter_drop F drp (w, at_elem s k) = (Ok (), (w', it)) \<and> H w' = rest \<and> D w' = D w @ drop k xs"
proof -
  have "\<exists>w'. while_some (IntoIter_next F) (\<lambda>p. lifted (drp p)) (w, at_elem s k) = (Ok (), (w', at_elem s (length xs))) \<and>
      stack_stands F drp H D s rest w' xs \<and> D w' = D w @ drop k xs"
    if "stack_stands F drp H D s rest w xs" "k \<le> length xs" for w k
    using that
  proof (induction "length xs - k" arbitrary: w k)
    case 0
    then have k: "k = length xs" by simp
    obtain w1 where "IntoIter_next F (w, at_elem s k) =
        (Ok (if k < length xs then Some (xs ! k) else None) :: ('e, cval option) outcome, (w1, at_elem s (if k < length xs then Suc k else k)))" "stack_stands F drp H D s rest w1 xs" "D w1 = D w"
      by (rule IntoIter_next_run [OF 0(2,3)])
    with k show ?case by (auto simp: while_some_stop)
  next
    case (Suc n)
    then have k: "k < length xs" by simp
    obtain w1 where w1: "IntoIter_next F (w, at_elem s k) =
        (Ok (if k < length xs then Some (xs ! k) else None) :: ('e, cval option) outcome, (w1, at_elem s (if k < length xs then Suc k else k)))" "stack_stands F drp H D s rest w1 xs" "D w1 = D w"
      by (rule IntoIter_next_run [OF Suc(3,4)])
    obtain w2 where w2: "drp (xs ! k) w1 = (Ok (), w2)" "H w2 = H w1" "D w2 = D w1 @ [xs ! k]"
      using stack_lawD(9) [of F drp H D "xs ! k" w1] w1(2) by (auto simp: stack_stands_def)
    have "stack_stands F drp H D s rest w2 xs" using w1(2) w2(2) by (simp add: stack_stands_def)
    moreover have "n = length xs - Suc k" "Suc k \<le> length xs" using Suc(2) k by auto
    ultimately obtain w3 where
      "while_some (IntoIter_next F) (\<lambda>p. lifted (drp p)) (w2, at_elem s (Suc k)) = (Ok (), (w3, at_elem s (length xs)))"
      "stack_stands F drp H D s rest w3 xs" "D w3 = D w2 @ drop (Suc k) xs" using Suc(1) by blast
    moreover have "while_some (IntoIter_next F) (\<lambda>p. lifted (drp p)) (w, at_elem s k) = (Ok (), (w3, at_elem s (length xs)))"
      by (rule while_some_step [of _ _ "xs ! k" "(w1, at_elem s (Suc k))" _ "(w2, at_elem s (Suc k))"])
        (use k w1(1) w2(1) calculation(1) in \<open>simp_all add: lifted_def\<close>)
    ultimately show ?case using k w1(3) w2(3) by (auto simp: Cons_nth_drop_Suc [symmetric])
  qed
  from this [OF st k] obtain w1 where w1: "while_some (IntoIter_next F) (\<lambda>p. lifted (drp p)) (w, at_elem s k) =
      (Ok (), (w1, at_elem s (length xs)))" "stack_stands F drp H D s rest w1 xs" "D w1 = D w @ drop k xs" by blast
  have "ii_stack (at_elem s (length xs)) = s" by (simp add: at_elem_def)
  then show ?thesis
    using w1 stack_freed [OF w1(2)] by (simp add: IntoIter_drop_def and_then_def lifted_def ccall_def case_prod_beta)
qed

subsection \<open>Properties\<close>




subsection \<open>A concrete library\<close>

definition sk_demo :: "((nat \<times> cval list) list \<times> cval list) ffi" where
  "sk_demo f args w =
     (case w of (m, d) \<Rightarrow>
      if f = ''OPENSSL_sk_new_null'' then ((CPtr (al_fresh m), []), ((al_fresh m, []) # m, d))
      else case args of
        CPtr s # rest \<Rightarrow>
          if f = ''OPENSSL_sk_free'' then ((CNull, []), (filter (\<lambda>(k, _). k \<noteq> s) m, d))
          else (case map_of m s of
            None \<Rightarrow> ((CInt (-1), []), w)
          | Some xs \<Rightarrow>
              if f = ''OPENSSL_sk_push'' then ((CInt (int (length xs) + 1), []), ((s, xs @ [hd rest]) # m, d))
              else if f = ''OPENSSL_sk_pop'' then
                ((if xs = [] then CNull else last xs, []), ((s, butlast xs) # m, d))
              else if f = ''OPENSSL_sk_num'' then ((CInt (int (length xs)), []), w)
              else if f = ''OPENSSL_sk_value'' then ((xs ! nat (c_int (hd rest)), []), w)
              else ((CNull, []), w))
      | _ \<Rightarrow> ((CNull, []), w))"

definition drop_demo :: "cval \<Rightarrow> ((nat \<times> cval list) list \<times> cval list, error_stack, unit) eff" where
  "drop_demo p w = (Ok (), (fst w, snd w @ [p]))"

lemma sk_demo_law: "stack_law sk_demo drop_demo (\<lambda>w. al_heap (fst w)) snd"
proof -
  have ptr: "al_heap m s = Some xs \<Longrightarrow> \<exists>n. s = CPtr n \<and> map_of m n = Some xs" for m :: "(nat \<times> cval list) list" and s xs
    by (cases s) auto
  show ?thesis
    unfolding stack_law_def
  proof (intro conjI allI impI)
    fix f args w show "snd (snd (sk_demo f args w)) = snd w"
      by (auto simp: sk_demo_def split: prod.split list.split cval.split option.split)
  next
    fix w s show "al_heap (fst (snd (sk_demo ''OPENSSL_sk_free'' [s] w))) = (al_heap (fst w))(s := None)"
      by (cases s) (auto simp: sk_demo_def al_heap_filter fun_upd_idem split: prod.split)
  qed (auto simp: sk_demo_def drop_demo_def al_heap_Cons al_fresh_None [simplified] fun_upd_idem dest!: ptr)
qed



end
