(* ===== verification/Ossl_Tls.thy ===== *)
theory Ossl_Tls
  imports Ossl_Stack
begin

text \<open>
  TLS streams: \<open>openssl/src/ssl/bio.rs\<close> (a Rust stream as an OpenSSL BIO), \<open>openssl/src/ssl/error.rs\<close>
  and the stream half of \<open>openssl/src/ssl/mod.rs\<close>.

  The library calls back into Rust: while \<open>SSL_read\<close> runs, OpenSSL calls \<open>bread\<close> and \<open>bwrite\<close> on
  the BIO, and these run the methods of the user's stream. The outside state is therefore split:
  \<open>c_side\<close> is everything of the C library and the rest of the world, \<open>boxes\<close> are the boxed
  \<open>StreamState\<close>s whose addresses the BIOs hold. A foreign function may change both. The methods of
  the stream are a parameter. Where the code follows a pointer that is not the address of a box,
  Rust defines no behaviour; the model then has the outcome \<open>Diverge\<close>. The payload of a panic is
  not modelled.
\<close>

subsection \<open>Errors\<close>

datatype io_err = Io io_error_kind string | IoSsl io_error_kind ssl_error
and ssl_error = ZeroReturn | WantRead io_err | WantWrite io_err | WantX509Lookup | Stream io_err | Ssl error_stack

fun err_kind :: "io_err \<Rightarrow> io_error_kind" where
  "err_kind (Io k _) = k"
| "err_kind (IoSsl k _) = k"

fun ssl_description :: "ssl_error \<Rightarrow> string" where
  "ssl_description ZeroReturn = ''The SSL session was closed by the other end''"
| "ssl_description (WantRead _) = ''A read attempt returned a `WouldBlock` error''"
| "ssl_description (WantWrite _) = ''A write attempt returned a `WouldBlock` error''"
| "ssl_description WantX509Lookup = ''The client certificate callback requested to be called again''"
| "ssl_description (Stream _) = ''The underlying stream reported an error''"
| "ssl_description (Ssl _) = ''The OpenSSL library reported an error''"

datatype cause = CauseIo io_err | CauseStack error_stack

fun ssl_cause :: "ssl_error \<Rightarrow> cause option" where
  "ssl_cause (WantRead err) = Some (CauseIo err)"
| "ssl_cause (WantWrite err) = Some (CauseIo err)"
| "ssl_cause (Stream err) = Some (CauseIo err)"
| "ssl_cause (Ssl err) = Some (CauseStack err)"
| "ssl_cause _ = None"

text \<open>
  \<open>Display\<close> of an error writes its description and its cause; an \<open>io::Error\<close> made from an error
  writes that error.
\<close>

fun io_display :: "'w ffi \<Rightarrow> io_err \<Rightarrow> ('w, 'e, string) eff"
  and ssl_display :: "'w ffi \<Rightarrow> ssl_error \<Rightarrow> ('w, 'e, string) eff" where
  "io_display F (Io _ msg) = ret msg"
| "io_display F (IoSsl _ e) = ssl_display F e"
| "ssl_display F ZeroReturn = ret (ssl_description ZeroReturn)"
| "ssl_display F (WantRead err) =
     and_then (io_display F err) (\<lambda>s. ret (ssl_description (WantRead err) @ '': '' @ s))"
| "ssl_display F (WantWrite err) =
     and_then (io_display F err) (\<lambda>s. ret (ssl_description (WantWrite err) @ '': '' @ s))"
| "ssl_display F WantX509Lookup = ret (ssl_description WantX509Lookup)"
| "ssl_display F (Stream err) =
     and_then (io_display F err) (\<lambda>s. ret (ssl_description (Stream err) @ '': '' @ s))"
| "ssl_display F (Ssl err) =
     and_then (ErrorStack_display F err) (\<lambda>s. ret (ssl_description (Ssl err) @ '': '' @ s))"

subsection \<open>A stream as a BIO\<close>

record 's stream =
  s_write :: "byte list \<Rightarrow> ('s, io_err, nat) eff"
  s_read :: "nat \<Rightarrow> ('s, io_err, nat \<times> byte list) eff"
  s_flush :: "('s, io_err, unit) eff"

record 's stream_state =
  st_stream :: 's
  st_error :: "io_err option"
  st_panic :: "unit option"

record ('u, 's) tls =
  c_side :: 'u
  boxes :: "nat \<Rightarrow> 's stream_state option"
  next_box :: nat

definition BIO_FLAGS_READ :: i32 where "BIO_FLAGS_READ = 0x01"
definition BIO_FLAGS_WRITE :: i32 where "BIO_FLAGS_WRITE = 0x02"
definition BIO_FLAGS_IO_SPECIAL :: i32 where "BIO_FLAGS_IO_SPECIAL = 0x04"
definition BIO_FLAGS_RWS :: i32 where "BIO_FLAGS_RWS = BIO_FLAGS_READ OR BIO_FLAGS_WRITE OR BIO_FLAGS_IO_SPECIAL"
definition BIO_FLAGS_SHOULD_RETRY :: i32 where "BIO_FLAGS_SHOULD_RETRY = 0x08"
definition BIO_CTRL_FLUSH :: int where "BIO_CTRL_FLUSH = 11"
definition BIO_TYPE_NONE :: int where "BIO_TYPE_NONE = 0"

definition BIO_clear_retry_flags :: "'w ffi \<Rightarrow> cval \<Rightarrow> ('w, 'e, unit) eff" where
  "BIO_clear_retry_flags F b =
     and_then (ccall F ''BIO_clear_flags'' [b, CInt (sint (BIO_FLAGS_RWS OR BIO_FLAGS_SHOULD_RETRY))]) (\<lambda>_. ret ())"

definition BIO_set_retry_read :: "'w ffi \<Rightarrow> cval \<Rightarrow> ('w, 'e, unit) eff" where
  "BIO_set_retry_read F b =
     and_then (ccall F ''BIO_set_flags'' [b, CInt (sint (BIO_FLAGS_READ OR BIO_FLAGS_SHOULD_RETRY))]) (\<lambda>_. ret ())"

definition BIO_set_retry_write :: "'w ffi \<Rightarrow> cval \<Rightarrow> ('w, 'e, unit) eff" where
  "BIO_set_retry_write F b =
     and_then (ccall F ''BIO_set_flags'' [b, CInt (sint (BIO_FLAGS_WRITE OR BIO_FLAGS_SHOULD_RETRY))]) (\<lambda>_. ret ())"

text \<open>\<open>state\<close>: the box a BIO points to.\<close>

definition bio_state :: "('u, 's) tls ffi \<Rightarrow> cval \<Rightarrow> (('u, 's) tls, 'e, nat) eff" where
  "bio_state F bio =
     and_then (ccall F ''BIO_get_data'' [bio]) (\<lambda>(p, _).
       case p of CPtr n \<Rightarrow> ret n | _ \<Rightarrow> diverge)"

definition update_box :: "nat \<Rightarrow> ('s stream_state \<Rightarrow> 's stream_state) \<Rightarrow> (('u, 's) tls, 'e, unit) eff" where
  "update_box n f w =
     (case boxes w n of
        None \<Rightarrow> (Diverge, w)
      | Some st \<Rightarrow> (Ok (), w\<lparr>boxes := (boxes w)(n \<mapsto> f st)\<rparr>))"

definition read_box :: "nat \<Rightarrow> (('u, 's) tls, 'e, 's stream_state) eff" where
  "read_box n w = (case boxes w n of None \<Rightarrow> (Diverge, w) | Some st \<Rightarrow> (Ok st, w))"

text \<open>A method of the boxed stream, and the same under \<open>catch_unwind\<close>: \<open>None\<close> is a panic.\<close>

definition on_stream :: "nat \<Rightarrow> ('s, 'e, 'a) eff \<Rightarrow> (('u, 's) tls, 'e, 'a) eff" where
  "on_stream n m w =
     (case boxes w n of
        None \<Rightarrow> (Diverge, w)
      | Some st \<Rightarrow> (case m (st_stream st) of (r, s) \<Rightarrow> (r, w\<lparr>boxes := (boxes w)(n \<mapsto> st\<lparr>st_stream := s\<rparr>)\<rparr>)))"

definition catch_unwind :: "('w, 'e, 'a) eff \<Rightarrow> ('w, 'f, ('e + 'a) option) eff" where
  "catch_unwind m w =
     (case m w of
        (Ok a, w') \<Rightarrow> (Ok (Some (Inr a)), w')
      | (Err e, w') \<Rightarrow> (Ok (Some (Inl e)), w')
      | (Panic, w') \<Rightarrow> (Ok None, w')
      | (Diverge, w') \<Rightarrow> (Diverge, w'))"

definition retriable_error :: "io_err \<Rightarrow> bool" where
  "retriable_error err = (case err_kind err of WouldBlock \<Rightarrow> True | NotConnected \<Rightarrow> True | _ \<Rightarrow> False)"

definition bwrite ::
  "('u, 's) tls ffi \<Rightarrow> 's stream \<Rightarrow> cval \<Rightarrow> byte list \<Rightarrow> int \<Rightarrow> (('u, 's) tls, 'e, int) eff" where
  "bwrite F S bio buf len =
     and_then (BIO_clear_retry_flags F bio) (\<lambda>_.
     and_then (bio_state F bio) (\<lambda>state.
     and_then (catch_unwind (on_stream state (s_write S (take (usize_of_c_int len) buf)))) (\<lambda>r.
     case r of
       Some (Inr len) \<Rightarrow> ret (c_int_of_usize len)
     | Some (Inl err) \<Rightarrow>
         and_then (if retriable_error err then BIO_set_retry_write F bio else ret ()) (\<lambda>_.
         and_then (update_box state (\<lambda>st. st\<lparr>st_error := Some err\<rparr>)) (\<lambda>_.
           ret (-1)))
     | None \<Rightarrow>
         and_then (update_box state (\<lambda>st. st\<lparr>st_panic := Some ()\<rparr>)) (\<lambda>_.
           ret (-1)))))"

definition bread ::
  "('u, 's) tls ffi \<Rightarrow> 's stream \<Rightarrow> cval \<Rightarrow> int \<Rightarrow> (('u, 's) tls, 'e, int \<times> byte list) eff" where
  "bread F S bio len =
     and_then (BIO_clear_retry_flags F bio) (\<lambda>_.
     and_then (bio_state F bio) (\<lambda>state.
     and_then (catch_unwind (on_stream state (s_read S (usize_of_c_int len)))) (\<lambda>r.
     case r of
       Some (Inr (len, buf)) \<Rightarrow> ret (c_int_of_usize len, buf)
     | Some (Inl err) \<Rightarrow>
         and_then (if retriable_error err then BIO_set_retry_read F bio else ret ()) (\<lambda>_.
         and_then (update_box state (\<lambda>st. st\<lparr>st_error := Some err\<rparr>)) (\<lambda>_.
           ret (-1, [])))
     | None \<Rightarrow>
         and_then (update_box state (\<lambda>st. st\<lparr>st_panic := Some ()\<rparr>)) (\<lambda>_.
           ret (-1, [])))))"

definition bputs :: "('u, 's) tls ffi \<Rightarrow> 's stream \<Rightarrow> cval \<Rightarrow> byte list \<Rightarrow> (('u, 's) tls, 'e, int) eff" where
  "bputs F S bio s = bwrite F S bio s (c_int_of_usize (length s))"

definition bio_ctrl :: "('u, 's) tls ffi \<Rightarrow> 's stream \<Rightarrow> cval \<Rightarrow> int \<Rightarrow> (('u, 's) tls, 'e, int) eff" where
  "bio_ctrl F S bio cmd =
     (if cmd = BIO_CTRL_FLUSH then
        and_then (bio_state F bio) (\<lambda>state.
        and_then (catch_unwind (on_stream state (s_flush S))) (\<lambda>r.
        case r of
          Some (Inr _) \<Rightarrow> ret 1
        | Some (Inl err) \<Rightarrow> and_then (update_box state (\<lambda>st. st\<lparr>st_error := Some err\<rparr>)) (\<lambda>_. ret 0)
        | None \<Rightarrow> and_then (update_box state (\<lambda>st. st\<lparr>st_panic := Some ()\<rparr>)) (\<lambda>_. ret 0)))
      else ret 0)"

definition bio_create :: "'w ffi \<Rightarrow> cval \<Rightarrow> ('w, 'e, int) eff" where
  "bio_create F bio =
     and_then (ccall F ''BIO_set_init'' [bio, CInt 0]) (\<lambda>_.
     and_then (ccall F ''BIO_set_data'' [bio, CNull]) (\<lambda>_.
     and_then (ccall F ''BIO_set_flags'' [bio, CInt 0]) (\<lambda>_.
       ret 1)))"

text \<open>The box is dropped, and the stream in it.\<close>

definition bio_destroy :: "('u, 's) tls ffi \<Rightarrow> cval \<Rightarrow> (('u, 's) tls, 'e, int) eff" where
  "bio_destroy F bio =
     (if bio = CNull then ret 0
      else
        and_then (ccall F ''BIO_get_data'' [bio]) (\<lambda>(data, _).
        and_then (assert_that (data \<noteq> CNull)) (\<lambda>_.
        and_then (\<lambda>w. case data of CPtr n \<Rightarrow> (Ok (), w\<lparr>boxes := (boxes w)(n := None)\<rparr>) | _ \<Rightarrow> (Diverge, w)) (\<lambda>_.
        and_then (ccall F ''BIO_set_data'' [bio, CNull]) (\<lambda>_.
        and_then (ccall F ''BIO_set_init'' [bio, CInt 0]) (\<lambda>_.
          ret 1))))))"

text \<open>The method table for OpenSSL 1.1.0; the callbacks are named by their functions.\<close>

definition assert_call :: "'w ffi \<Rightarrow> string \<Rightarrow> cval list \<Rightarrow> ('w, 'e, unit) eff" where
  "assert_call F f args = and_then (ccall F f args) (\<lambda>(r, _). assert_that (c_int r \<noteq> 0))"

definition BioMethod_new :: "'w ffi \<Rightarrow> ('w, 'e, cval) eff" where
  "BioMethod_new F =
     and_then (ccall F ''BIO_meth_new'' [CInt BIO_TYPE_NONE, CStr ''rust'']) (\<lambda>(ptr, _).
     and_then (assert_that (ptr \<noteq> CNull)) (\<lambda>_.
     owning (and_then (ccall F ''BIO_meth_free'' [ptr]) (\<lambda>_. ret ())) (
     and_then (assert_call F ''BIO_meth_set_write'' [ptr, CStr ''bwrite'']) (\<lambda>_.
     and_then (assert_call F ''BIO_meth_set_read'' [ptr, CStr ''bread'']) (\<lambda>_.
     and_then (assert_call F ''BIO_meth_set_puts'' [ptr, CStr ''bputs'']) (\<lambda>_.
     and_then (assert_call F ''BIO_meth_set_ctrl'' [ptr, CStr ''ctrl'']) (\<lambda>_.
     and_then (assert_call F ''BIO_meth_set_create'' [ptr, CStr ''create'']) (\<lambda>_.
     and_then (assert_call F ''BIO_meth_set_destroy'' [ptr, CStr ''destroy'']) (\<lambda>_.
       ret ptr)))))))))"

definition BioMethod_drop :: "'w ffi \<Rightarrow> cval \<Rightarrow> ('w, 'e, unit) eff" where
  "BioMethod_drop F m = and_then (ccall F ''BIO_meth_free'' [m]) (\<lambda>_. ret ())"

definition new_state_box :: "'s \<Rightarrow> (('u, 's) tls, 'e, cval) eff" where
  "new_state_box s w =
     (let n = next_box w in
      (Ok (CPtr n), w\<lparr>boxes := (boxes w)(n \<mapsto> \<lparr>st_stream = s, st_error = None, st_panic = None\<rparr>), next_box := n + 1\<rparr>))"

definition bio_new :: "('u, 's) tls ffi \<Rightarrow> 's \<Rightarrow> (('u, 's) tls, error_stack, cval \<times> cval) eff" where
  "bio_new F s =
     and_then (BioMethod_new F) (\<lambda>method.
     owning (BioMethod_drop F method) (
     and_then (call_p F ''BIO_new'' [method]) (\<lambda>bio.
     and_then (new_state_box s) (\<lambda>state.
     and_then (ccall F ''BIO_set_data'' [bio, state]) (\<lambda>_.
     and_then (ccall F ''BIO_set_init'' [bio, CInt 1]) (\<lambda>_.
       ret (bio, method)))))))"

definition take_error :: "('u, 's) tls ffi \<Rightarrow> cval \<Rightarrow> (('u, 's) tls, 'e, io_err option) eff" where
  "take_error F bio =
     and_then (bio_state F bio) (\<lambda>n.
     and_then (read_box n) (\<lambda>st.
     and_then (update_box n (\<lambda>st. st\<lparr>st_error := None\<rparr>)) (\<lambda>_.
       ret (st_error st))))"

definition take_panic :: "('u, 's) tls ffi \<Rightarrow> cval \<Rightarrow> (('u, 's) tls, 'e, unit option) eff" where
  "take_panic F bio =
     and_then (bio_state F bio) (\<lambda>n.
     and_then (read_box n) (\<lambda>st.
     and_then (update_box n (\<lambda>st. st\<lparr>st_panic := None\<rparr>)) (\<lambda>_.
       ret (st_panic st))))"

definition bio_get_ref :: "('u, 's) tls ffi \<Rightarrow> cval \<Rightarrow> (('u, 's) tls, 'e, 's) eff" where
  "bio_get_ref F bio =
     and_then (bio_state F bio) (\<lambda>n. and_then (read_box n) (\<lambda>st. ret (st_stream st)))"

subsection \<open>SSL objects\<close>

definition SSL_ERROR_SSL :: int where "SSL_ERROR_SSL = 1"
definition SSL_ERROR_WANT_READ :: int where "SSL_ERROR_WANT_READ = 2"
definition SSL_ERROR_WANT_WRITE :: int where "SSL_ERROR_WANT_WRITE = 3"
definition SSL_ERROR_SYSCALL :: int where "SSL_ERROR_SYSCALL = 5"
definition SSL_ERROR_ZERO_RETURN :: int where "SSL_ERROR_ZERO_RETURN = 6"

definition get_raw_rbio :: "'w ffi \<Rightarrow> cval \<Rightarrow> ('w, 'e, cval) eff" where
  "get_raw_rbio F ssl = and_then (ccall F ''SSL_get_rbio'' [ssl]) (\<lambda>(bio, _). ret bio)"

text \<open>\<open>SSL_read\<close> stores what it read from the start of the buffer on.\<close>

definition SslRef_read :: "'w ffi \<Rightarrow> cval \<Rightarrow> byte list \<Rightarrow> ('w, 'e, int \<times> byte list) eff" where
  "SslRef_read F ssl buf =
     (let len = min c_int_max (length buf) in
      and_then (ccall F ''SSL_read'' [ssl, CBytes buf, CInt (int len)]) (\<lambda>(r, os).
        ret (c_int r, c_bytes (out os 0) @ drop (length (c_bytes (out os 0))) buf)))"

definition SslRef_write :: "'w ffi \<Rightarrow> cval \<Rightarrow> byte list \<Rightarrow> ('w, 'e, int) eff" where
  "SslRef_write F ssl buf =
     (let len = min c_int_max (length buf) in
      and_then (ccall F ''SSL_write'' [ssl, CBytes buf, CInt (int len)]) (\<lambda>(r, _). ret (c_int r)))"

definition get_error :: "'w ffi \<Rightarrow> cval \<Rightarrow> int \<Rightarrow> ('w, 'e, int) eff" where
  "get_error F ssl r = and_then (ccall F ''SSL_get_error'' [ssl, CInt r]) (\<lambda>(c, _). ret (c_int c))"

definition Ssl_new :: "'w ffi \<Rightarrow> cval \<Rightarrow> ('w, error_stack, cval) eff" where
  "Ssl_new F ctx = call_p F ''SSL_new'' [ctx]"

definition Ssl_drop :: "'w ffi \<Rightarrow> cval \<Rightarrow> ('w, 'e, unit) eff" where
  "Ssl_drop F ssl = and_then (ccall F ''SSL_free'' [ssl]) (\<lambda>_. ret ())"

subsection \<open>SslStream\<close>

record ssl_stream =
  ss_ssl :: cval
  ss_method :: cval

datatype shutdown_result = Sent | Received

definition new_base :: "('u, 's) tls ffi \<Rightarrow> cval \<Rightarrow> 's \<Rightarrow> (('u, 's) tls, 'e, ssl_stream) eff" where
  "new_base F ssl s =
     owning (Ssl_drop F ssl) (
     and_then (unwrap (bio_new F s)) (\<lambda>(bio, method).
     and_then (ccall F ''SSL_set_bio'' [ssl, bio, bio]) (\<lambda>_.
       ret \<lparr>ss_ssl = ssl, ss_method = method\<rparr>)))"

definition check_panic :: "('u, 's) tls ffi \<Rightarrow> ssl_stream \<Rightarrow> (('u, 's) tls, 'e, unit) eff" where
  "check_panic F str =
     and_then (get_raw_rbio F (ss_ssl str)) (\<lambda>bio.
     and_then (take_panic F bio) (\<lambda>p.
       case p of Some _ \<Rightarrow> panic | None \<Rightarrow> ret ()))"

definition get_bio_error :: "('u, 's) tls ffi \<Rightarrow> ssl_stream \<Rightarrow> (('u, 's) tls, 'e, io_err option) eff" where
  "get_bio_error F str = and_then (get_raw_rbio F (ss_ssl str)) (take_error F)"

text \<open>\<open>ErrorStack::get()\<close> itself never fails.\<close>

definition error_stack_now :: "'w ffi \<Rightarrow> ('w, 'e, error_stack) eff" where
  "error_stack_now F = on_err (ErrorStack_get F) ret"

definition bug_no_error :: io_err where
  "bug_no_error = Io OtherKind ''BUG: got an SSL_ERROR_WANT_WRITE with no error in the BIO''"

definition make_error :: "('u, 's) tls ffi \<Rightarrow> ssl_stream \<Rightarrow> int \<Rightarrow> (('u, 's) tls, 'e, ssl_error) eff" where
  "make_error F str r =
     and_then (check_panic F str) (\<lambda>_.
     and_then (get_error F (ss_ssl str) r) (\<lambda>code.
     if code = SSL_ERROR_SSL then and_then (error_stack_now F) (\<lambda>errs. ret (Ssl errs))
     else if code = SSL_ERROR_SYSCALL then
       and_then (error_stack_now F) (\<lambda>errs.
       if errs = [] then
         and_then (get_bio_error F str) (\<lambda>e.
         case e of
           Some err \<Rightarrow> ret (Stream err)
         | None \<Rightarrow> ret (Stream (Io ConnectionAborted ''unexpected EOF observed'')))
       else ret (Ssl errs))
     else if code = SSL_ERROR_ZERO_RETURN then ret ZeroReturn
     else if code = SSL_ERROR_WANT_WRITE then
       and_then (get_bio_error F str) (\<lambda>e. ret (WantWrite (case e of Some err \<Rightarrow> err | None \<Rightarrow> bug_no_error)))
     else if code = SSL_ERROR_WANT_READ then
       and_then (get_bio_error F str) (\<lambda>e. ret (WantRead (case e of Some err \<Rightarrow> err | None \<Rightarrow> bug_no_error)))
     else ret (Stream (Io InvalidData (''unexpected error '' @ show_int code)))))"

text \<open>The buffer of a read is returned with the count.\<close>

definition ssl_read ::
  "('u, 's) tls ffi \<Rightarrow> ssl_stream \<Rightarrow> byte list \<Rightarrow> (('u, 's) tls, ssl_error, nat \<times> byte list) eff" where
  "ssl_read F str buf =
     (if length buf = 0 then ret (0, buf)
      else
        and_then (SslRef_read F (ss_ssl str) buf) (\<lambda>(r, buf).
        if 0 < r then ret (nat r, buf)
        else
          and_then (make_error F str r) (\<lambda>e.
          case e of
            Stream err \<Rightarrow> if err_kind err = ConnectionAborted then ret (0, buf) else throw e
          | _ \<Rightarrow> throw e)))"

definition ssl_write ::
  "('u, 's) tls ffi \<Rightarrow> ssl_stream \<Rightarrow> byte list \<Rightarrow> (('u, 's) tls, ssl_error, nat) eff" where
  "ssl_write F str buf =
     (if length buf = 0 then ret 0
      else
        and_then (SslRef_write F (ss_ssl str) buf) (\<lambda>r.
        if 0 < r then ret (nat r) else and_then (make_error F str r) throw))"

definition ssl_shutdown :: "('u, 's) tls ffi \<Rightarrow> ssl_stream \<Rightarrow> (('u, 's) tls, ssl_error, shutdown_result) eff" where
  "ssl_shutdown F str =
     and_then (ccall F ''SSL_shutdown'' [ss_ssl str]) (\<lambda>(n, _).
     if c_int n = 0 then ret Sent
     else if c_int n = 1 then ret Received
     else and_then (make_error F str (c_int n)) throw)"

definition io_read ::
  "('u, 's) tls ffi \<Rightarrow> ssl_stream \<Rightarrow> byte list \<Rightarrow> (('u, 's) tls, io_err, nat \<times> byte list) eff" where
  "io_read F str buf =
     on_err (ssl_read F str buf) (\<lambda>e.
       case e of
         ZeroReturn \<Rightarrow> ret (0, buf)
       | Stream e \<Rightarrow> throw e
       | WantRead e \<Rightarrow> throw e
       | WantWrite e \<Rightarrow> throw e
       | e \<Rightarrow> throw (IoSsl OtherKind e))"

definition io_write :: "('u, 's) tls ffi \<Rightarrow> ssl_stream \<Rightarrow> byte list \<Rightarrow> (('u, 's) tls, io_err, nat) eff" where
  "io_write F str buf =
     on_err (ssl_write F str buf) (\<lambda>e.
       throw (case e of
         Stream e \<Rightarrow> e
       | WantRead e \<Rightarrow> e
       | WantWrite e \<Rightarrow> e
       | e \<Rightarrow> IoSsl OtherKind e))"

definition io_flush :: "('u, 's) tls ffi \<Rightarrow> 's stream \<Rightarrow> ssl_stream \<Rightarrow> (('u, 's) tls, io_err, unit) eff" where
  "io_flush F S str =
     and_then (get_raw_rbio F (ss_ssl str)) (\<lambda>bio.
     and_then (bio_state F bio) (\<lambda>n.
       on_stream n (s_flush S)))"

subsection \<open>Handshakes\<close>

record mid_handshake =
  mid_stream :: ssl_stream
  mid_error :: ssl_error

datatype handshake_error = SetupFailure error_stack | Failure mid_handshake | Interrupted mid_handshake

text \<open>A stream is dropped when the function that owns it unwinds; an error takes it along.\<close>

definition SslStream_drop :: "'w ffi \<Rightarrow> ssl_stream \<Rightarrow> ('w, 'e, unit) eff" where
  "SslStream_drop F str = and_then (Ssl_drop F (ss_ssl str)) (\<lambda>_. BioMethod_drop F (ss_method str))"

definition unwinding :: "('w, 'e, unit) eff \<Rightarrow> ('w, 'e, 'a) eff \<Rightarrow> ('w, 'e, 'a) eff" where
  "unwinding drp m w = (case m w of (Panic, w') \<Rightarrow> and_then drp (\<lambda>_. panic) w' | r \<Rightarrow> r)"

text \<open>The end that \<open>connect\<close>, \<open>accept\<close> and \<open>handshake\<close> have in common.\<close>

definition handshake_result ::
  "('u, 's) tls ffi \<Rightarrow> ssl_stream \<Rightarrow> int \<Rightarrow> (('u, 's) tls, handshake_error, ssl_stream) eff" where
  "handshake_result F str r =
     (if 0 < r then ret str
      else
        and_then (make_error F str r) (\<lambda>e.
        case e of
          WantWrite _ \<Rightarrow> throw (Interrupted \<lparr>mid_stream = str, mid_error = e\<rparr>)
        | WantRead _ \<Rightarrow> throw (Interrupted \<lparr>mid_stream = str, mid_error = e\<rparr>)
        | err \<Rightarrow> throw (Failure \<lparr>mid_stream = str, mid_error = err\<rparr>)))"

definition Ssl_connect :: "('u, 's) tls ffi \<Rightarrow> cval \<Rightarrow> 's \<Rightarrow> (('u, 's) tls, handshake_error, ssl_stream) eff" where
  "Ssl_connect F ssl s =
     and_then (new_base F ssl s) (\<lambda>str.
     unwinding (SslStream_drop F str) (
     and_then (ccall F ''SSL_connect'' [ss_ssl str]) (\<lambda>(r, _). handshake_result F str (c_int r))))"

definition Ssl_accept :: "('u, 's) tls ffi \<Rightarrow> cval \<Rightarrow> 's \<Rightarrow> (('u, 's) tls, handshake_error, ssl_stream) eff" where
  "Ssl_accept F ssl s =
     and_then (new_base F ssl s) (\<lambda>str.
     unwinding (SslStream_drop F str) (
     and_then (ccall F ''SSL_accept'' [ss_ssl str]) (\<lambda>(r, _). handshake_result F str (c_int r))))"

definition handshake :: "('u, 's) tls ffi \<Rightarrow> mid_handshake \<Rightarrow> (('u, 's) tls, handshake_error, ssl_stream) eff" where
  "handshake F mid =
     unwinding (SslStream_drop F (mid_stream mid)) (
     and_then (ccall F ''SSL_do_handshake'' [ss_ssl (mid_stream mid)]) (\<lambda>(r, _).
       handshake_result F (mid_stream mid) (c_int r)))"

end
