(* ===== verification/Ossl_Context.thy ===== *)
theory Ossl_Context
  imports Ossl_Tls
begin

text \<open>
  Contexts and sessions, \<open>openssl/src/ssl/mod.rs\<close> and \<open>openssl/src/ssl/callbacks.rs\<close>, in the
  configuration for OpenSSL 1.1.0: the methods of \<open>SslContextBuilder\<close>, \<open>SslContext\<close> and \<open>SslRef\<close>
  around their C functions, the encoding of protocol lists, and the callbacks that hand protocols
  and names between OpenSSL and the user.

  A boxed value stored in the extra data of a context is passed to C as the value itself; the
  lazily created index of such a slot is an argument.
\<close>

subsection \<open>Shapes of wrappers\<close>

text \<open>\<open>x as c_int\<close> on a \<open>c_long\<close> keeps the low 32 bits.\<close>

definition as_c_int :: "int \<Rightarrow> int" where
  "as_c_int i = sint (word_of_int i :: i32)"

definition call_l :: "'w ffi \<Rightarrow> string \<Rightarrow> cval list \<Rightarrow> ('w, error_stack, unit) eff" where
  "call_l F f args =
     and_then (ccall F f args) (\<lambda>(r, _). and_then (cvt F (CInt (as_c_int (c_int r)))) (\<lambda>_. ret ()))"

definition call_v :: "'w ffi \<Rightarrow> string \<Rightarrow> cval list \<Rightarrow> ('w, 'e, unit) eff" where
  "call_v F f args = and_then (ccall F f args) (\<lambda>_. ret ())"

definition call_opt :: "'w ffi \<Rightarrow> string \<Rightarrow> cval list \<Rightarrow> ('w, 'e, cval option) eff" where
  "call_opt F f args = and_then (ccall F f args) (\<lambda>(p, _). ret (if p = CNull then None else Some p))"

definition call_text :: "'w ffi \<Rightarrow> string \<Rightarrow> cval list \<Rightarrow> ('w, 'e, string) eff" where
  "call_text F f args =
     and_then (ccall F f args) (\<lambda>(p, _).
       case c_str p of
         None \<Rightarrow> diverge
       | Some bytes \<Rightarrow> (case from_utf8 bytes of None \<Rightarrow> panic | Some s \<Rightarrow> ret s))"

definition c_string :: "string \<Rightarrow> ('w, 'e, cval) eff" where
  "c_string s = (case cstring_new s of None \<Rightarrow> panic | Some t \<Rightarrow> ret (CStr t))"

definition c_path :: "string \<Rightarrow> ('w, 'e, cval) eff" where
  "c_path p = (case from_utf8 p of None \<Rightarrow> panic | Some s \<Rightarrow> c_string s)"

text \<open>\<open>from_bits\<close> of a bit set whose members together have the bits \<open>every\<close>.\<close>

definition from_bits :: "u64 \<Rightarrow> int \<Rightarrow> ('w, 'e, u64) eff" where
  "from_bits every r = (let b = word_of_int r in if b AND NOT every = 0 then ret b else panic)"

subsection \<open>Options and modes\<close>

definition SSL_OP_LEGACY :: u64 where "SSL_OP_LEGACY = 0x00000000"
definition SSL_OP_DONT_INSERT_EMPTY_FRAGMENTS :: u64 where "SSL_OP_DONT_INSERT_EMPTY_FRAGMENTS = 0x00000800"
definition SSL_OP_ALL :: u64 where "SSL_OP_ALL = 0x80000BFF"
definition SSL_OP_NO_QUERY_MTU :: u64 where "SSL_OP_NO_QUERY_MTU = 0x00001000"
definition SSL_OP_COOKIE_EXCHANGE :: u64 where "SSL_OP_COOKIE_EXCHANGE = 0x00002000"
definition SSL_OP_NO_TICKET :: u64 where "SSL_OP_NO_TICKET = 0x00004000"
definition SSL_OP_CISCO_ANYCONNECT :: u64 where "SSL_OP_CISCO_ANYCONNECT = 0x00008000"
definition SSL_OP_NO_SESSION_RESUMPTION_ON_RENEGOTIATION :: u64 where
  "SSL_OP_NO_SESSION_RESUMPTION_ON_RENEGOTIATION = 0x00010000"
definition SSL_OP_NO_COMPRESSION :: u64 where "SSL_OP_NO_COMPRESSION = 0x00020000"
definition SSL_OP_ALLOW_UNSAFE_LEGACY_RENEGOTIATION :: u64 where
  "SSL_OP_ALLOW_UNSAFE_LEGACY_RENEGOTIATION = 0x00040000"
definition SSL_OP_CIPHER_SERVER_PREFERENCE :: u64 where "SSL_OP_CIPHER_SERVER_PREFERENCE = 0x00400000"
definition SSL_OP_TLS_ROLLBACK_BUG :: u64 where "SSL_OP_TLS_ROLLBACK_BUG = 0x00800000"
definition SSL_OP_NO_SSLV3 :: u64 where "SSL_OP_NO_SSLV3 = 0x02000000"
definition SSL_OP_NO_TLSV1 :: u64 where "SSL_OP_NO_TLSV1 = 0x04000000"
definition SSL_OP_NO_TLSV1_2 :: u64 where "SSL_OP_NO_TLSV1_2 = 0x08000000"
definition SSL_OP_NO_TLSV1_1 :: u64 where "SSL_OP_NO_TLSV1_1 = 0x10000000"

lemmas option_defs = SSL_OP_LEGACY_def SSL_OP_DONT_INSERT_EMPTY_FRAGMENTS_def SSL_OP_ALL_def SSL_OP_NO_QUERY_MTU_def
  SSL_OP_COOKIE_EXCHANGE_def SSL_OP_NO_TICKET_def SSL_OP_CISCO_ANYCONNECT_def
  SSL_OP_NO_SESSION_RESUMPTION_ON_RENEGOTIATION_def SSL_OP_NO_COMPRESSION_def
  SSL_OP_ALLOW_UNSAFE_LEGACY_RENEGOTIATION_def SSL_OP_CIPHER_SERVER_PREFERENCE_def SSL_OP_TLS_ROLLBACK_BUG_def
  SSL_OP_NO_SSLV3_def SSL_OP_NO_TLSV1_def SSL_OP_NO_TLSV1_2_def SSL_OP_NO_TLSV1_1_def

text \<open>The options that OpenSSL 1.1.0 no longer has are zero, \<open>SSL_OP_NO_SSLV2\<close> among them.\<close>

definition SslOption_all :: u64 where
  "SslOption_all = SSL_OP_LEGACY OR SSL_OP_DONT_INSERT_EMPTY_FRAGMENTS OR SSL_OP_ALL OR SSL_OP_NO_QUERY_MTU OR
     SSL_OP_COOKIE_EXCHANGE OR SSL_OP_NO_TICKET OR SSL_OP_CISCO_ANYCONNECT OR
     SSL_OP_NO_SESSION_RESUMPTION_ON_RENEGOTIATION OR SSL_OP_NO_COMPRESSION OR
     SSL_OP_ALLOW_UNSAFE_LEGACY_RENEGOTIATION OR SSL_OP_CIPHER_SERVER_PREFERENCE OR SSL_OP_TLS_ROLLBACK_BUG OR
     SSL_OP_NO_SSLV3 OR SSL_OP_NO_TLSV1 OR SSL_OP_NO_TLSV1_2 OR SSL_OP_NO_TLSV1_1"

definition SSL_MODE_ENABLE_PARTIAL_WRITE :: u64 where "SSL_MODE_ENABLE_PARTIAL_WRITE = 0x1"
definition SSL_MODE_ACCEPT_MOVING_WRITE_BUFFER :: u64 where "SSL_MODE_ACCEPT_MOVING_WRITE_BUFFER = 0x2"
definition SSL_MODE_AUTO_RETRY :: u64 where "SSL_MODE_AUTO_RETRY = 0x4"
definition SSL_MODE_NO_AUTO_CHAIN :: u64 where "SSL_MODE_NO_AUTO_CHAIN = 0x8"
definition SSL_MODE_RELEASE_BUFFERS :: u64 where "SSL_MODE_RELEASE_BUFFERS = 0x10"
definition SSL_MODE_SEND_CLIENTHELLO_TIME :: u64 where "SSL_MODE_SEND_CLIENTHELLO_TIME = 0x20"
definition SSL_MODE_SEND_SERVERHELLO_TIME :: u64 where "SSL_MODE_SEND_SERVERHELLO_TIME = 0x40"
definition SSL_MODE_SEND_FALLBACK_SCSV :: u64 where "SSL_MODE_SEND_FALLBACK_SCSV = 0x80"

definition SslMode_all :: u64 where
  "SslMode_all = SSL_MODE_ENABLE_PARTIAL_WRITE OR SSL_MODE_ACCEPT_MOVING_WRITE_BUFFER OR SSL_MODE_AUTO_RETRY OR
     SSL_MODE_NO_AUTO_CHAIN OR SSL_MODE_RELEASE_BUFFERS OR SSL_MODE_SEND_CLIENTHELLO_TIME OR
     SSL_MODE_SEND_SERVERHELLO_TIME OR SSL_MODE_SEND_FALLBACK_SCSV"

definition SSL_CTRL_SET_TMP_DH :: int where "SSL_CTRL_SET_TMP_DH = 3"
definition SSL_CTRL_SET_TMP_ECDH :: int where "SSL_CTRL_SET_TMP_ECDH = 4"
definition SSL_CTRL_EXTRA_CHAIN_CERT :: int where "SSL_CTRL_EXTRA_CHAIN_CERT = 14"
definition SSL_CTRL_MODE :: int where "SSL_CTRL_MODE = 33"
definition SSL_CTRL_SET_READ_AHEAD :: int where "SSL_CTRL_SET_READ_AHEAD = 41"
definition SSL_CTRL_SET_TLSEXT_HOSTNAME :: int where "SSL_CTRL_SET_TLSEXT_HOSTNAME = 55"
definition SSL_CTRL_SET_TLSEXT_STATUS_REQ_TYPE :: int where "SSL_CTRL_SET_TLSEXT_STATUS_REQ_TYPE = 65"
definition SSL_CTRL_GET_TLSEXT_STATUS_REQ_OCSP_RESP :: int where "SSL_CTRL_GET_TLSEXT_STATUS_REQ_OCSP_RESP = 70"
definition SSL_CTRL_SET_TLSEXT_STATUS_REQ_OCSP_RESP :: int where "SSL_CTRL_SET_TLSEXT_STATUS_REQ_OCSP_RESP = 71"
definition TLSEXT_NAMETYPE_host_name :: int where "TLSEXT_NAMETYPE_host_name = 0"
definition SSL_VERIFY_NONE :: int where "SSL_VERIFY_NONE = 0"
definition SSL_VERIFY_PEER :: int where "SSL_VERIFY_PEER = 1"
definition SSL_VERIFY_FAIL_IF_NO_PEER_CERT :: int where "SSL_VERIFY_FAIL_IF_NO_PEER_CERT = 2"

subsection \<open>Protocol lists\<close>

fun ssl_encode_byte_strings :: "byte list list \<Rightarrow> byte list" where
  "ssl_encode_byte_strings [] = []"
| "ssl_encode_byte_strings (string # strings) =
     (let len = of_nat (length string) :: byte in
      if unat len \<noteq> length string then ssl_encode_byte_strings strings
      else len # take (unat len) string @ ssl_encode_byte_strings strings)"

subsection \<open>SslContextBuilder\<close>

definition SslContextBuilder_new :: "'w ffi \<Rightarrow> cval \<Rightarrow> ('w, error_stack, cval) eff" where
  "SslContextBuilder_new F method = and_then (init F) (\<lambda>_. call_p F ''SSL_CTX_new'' [method])"

definition SslContextBuilder_drop :: "'w ffi \<Rightarrow> cval \<Rightarrow> ('w, 'e, unit) eff" where
  "SslContextBuilder_drop F ctx = call_v F ''SSL_CTX_free'' [ctx]"

definition set_verify :: "'w ffi \<Rightarrow> cval \<Rightarrow> int \<Rightarrow> ('w, 'e, unit) eff" where
  "set_verify F ctx mode = call_v F ''SSL_CTX_set_verify'' [ctx, CInt mode, CNull]"

definition set_verify_depth :: "'w ffi \<Rightarrow> cval \<Rightarrow> u32 \<Rightarrow> ('w, 'e, unit) eff" where
  "set_verify_depth F ctx depth = call_v F ''SSL_CTX_set_verify_depth'' [ctx, CInt (sint depth)]"

definition set_read_ahead :: "'w ffi \<Rightarrow> cval \<Rightarrow> bool \<Rightarrow> ('w, 'e, unit) eff" where
  "set_read_ahead F ctx read_ahead =
     call_v F ''SSL_CTX_ctrl'' [ctx, CInt SSL_CTRL_SET_READ_AHEAD, CInt (if read_ahead then 1 else 0), CNull]"

definition set_mode :: "'w ffi \<Rightarrow> cval \<Rightarrow> u64 \<Rightarrow> ('w, 'e, u64) eff" where
  "set_mode F ctx mode =
     and_then (ccall F ''SSL_CTX_ctrl'' [ctx, CInt SSL_CTRL_MODE, CInt (sint mode), CNull]) (\<lambda>(r, _).
       from_bits SslMode_all (c_int r))"

definition set_tmp_dh :: "'w ffi \<Rightarrow> cval \<Rightarrow> cval \<Rightarrow> ('w, error_stack, unit) eff" where
  "set_tmp_dh F ctx dh = call_l F ''SSL_CTX_ctrl'' [ctx, CInt SSL_CTRL_SET_TMP_DH, CInt 0, dh]"

definition set_tmp_ecdh :: "'w ffi \<Rightarrow> cval \<Rightarrow> cval \<Rightarrow> ('w, error_stack, unit) eff" where
  "set_tmp_ecdh F ctx key = call_l F ''SSL_CTX_ctrl'' [ctx, CInt SSL_CTRL_SET_TMP_ECDH, CInt 0, key]"

definition set_default_verify_paths :: "'w ffi \<Rightarrow> cval \<Rightarrow> ('w, error_stack, unit) eff" where
  "set_default_verify_paths F ctx = call_i F ''SSL_CTX_set_default_verify_paths'' [ctx]"

definition set_ca_file :: "'w ffi \<Rightarrow> cval \<Rightarrow> string \<Rightarrow> ('w, error_stack, unit) eff" where
  "set_ca_file F ctx path =
     and_then (c_path path) (\<lambda>file. call_i F ''SSL_CTX_load_verify_locations'' [ctx, file, CNull])"

definition set_client_ca_list :: "'w ffi \<Rightarrow> cval \<Rightarrow> cval \<Rightarrow> ('w, 'e, unit) eff" where
  "set_client_ca_list F ctx lst = call_v F ''SSL_CTX_set_client_CA_list'' [ctx, lst]"

definition set_session_id_context :: "'w ffi \<Rightarrow> cval \<Rightarrow> byte list \<Rightarrow> ('w, error_stack, unit) eff" where
  "set_session_id_context F ctx sid_ctx =
     and_then (assert_that (length sid_ctx < 2 ^ 32)) (\<lambda>_.
     call_i F ''SSL_CTX_set_session_id_context'' [ctx, CBytes sid_ctx, CInt (int (length sid_ctx))])"

definition set_certificate_file :: "'w ffi \<Rightarrow> cval \<Rightarrow> string \<Rightarrow> int \<Rightarrow> ('w, error_stack, unit) eff" where
  "set_certificate_file F ctx path file_type =
     and_then (c_path path) (\<lambda>file. call_i F ''SSL_CTX_use_certificate_file'' [ctx, file, CInt file_type])"

definition set_certificate_chain_file :: "'w ffi \<Rightarrow> cval \<Rightarrow> string \<Rightarrow> ('w, error_stack, unit) eff" where
  "set_certificate_chain_file F ctx path =
     and_then (c_path path) (\<lambda>file. call_i F ''SSL_CTX_use_certificate_chain_file'' [ctx, file])"

definition set_certificate :: "'w ffi \<Rightarrow> cval \<Rightarrow> cval \<Rightarrow> ('w, error_stack, unit) eff" where
  "set_certificate F ctx cert = call_i F ''SSL_CTX_use_certificate'' [ctx, cert]"

definition add_extra_chain_cert :: "'w ffi \<Rightarrow> cval \<Rightarrow> cval \<Rightarrow> ('w, error_stack, unit) eff" where
  "add_extra_chain_cert F ctx cert =
     owning (call_v F ''X509_free'' [cert])
       (call_l F ''SSL_CTX_ctrl'' [ctx, CInt SSL_CTRL_EXTRA_CHAIN_CERT, CInt 0, cert])"

definition set_private_key_file :: "'w ffi \<Rightarrow> cval \<Rightarrow> string \<Rightarrow> int \<Rightarrow> ('w, error_stack, unit) eff" where
  "set_private_key_file F ctx path file_type =
     and_then (c_path path) (\<lambda>file. call_i F ''SSL_CTX_use_PrivateKey_file'' [ctx, file, CInt file_type])"

definition set_private_key :: "'w ffi \<Rightarrow> cval \<Rightarrow> cval \<Rightarrow> ('w, error_stack, unit) eff" where
  "set_private_key F ctx key = call_i F ''SSL_CTX_use_PrivateKey'' [ctx, key]"

definition set_cipher_list :: "'w ffi \<Rightarrow> cval \<Rightarrow> string \<Rightarrow> ('w, error_stack, unit) eff" where
  "set_cipher_list F ctx cipher_list =
     and_then (c_string cipher_list) (\<lambda>s. call_i F ''SSL_CTX_set_cipher_list'' [ctx, s])"

definition set_options :: "'w ffi \<Rightarrow> cval \<Rightarrow> u64 \<Rightarrow> ('w, 'e, u64) eff" where
  "set_options F ctx option =
     and_then (ccall F ''SSL_CTX_set_options'' [ctx, CInt (uint option)]) (\<lambda>(r, _). from_bits SslOption_all (c_int r))"

definition clear_options :: "'w ffi \<Rightarrow> cval \<Rightarrow> u64 \<Rightarrow> ('w, 'e, u64) eff" where
  "clear_options F ctx option =
     and_then (ccall F ''SSL_CTX_clear_options'' [ctx, CInt (uint option)]) (\<lambda>(r, _). from_bits SslOption_all (c_int r))"

definition options :: "'w ffi \<Rightarrow> cval \<Rightarrow> ('w, 'e, u64) eff" where
  "options F ctx = and_then (ccall F ''SSL_CTX_get_options'' [ctx]) (\<lambda>(r, _). from_bits SslOption_all (c_int r))"

definition set_npn_protocols :: "'w ffi \<Rightarrow> int \<Rightarrow> cval \<Rightarrow> byte list list \<Rightarrow> ('w, error_stack, unit) eff" where
  "set_npn_protocols F NPN_PROTOS_IDX ctx protocols =
     (let protocols = ssl_encode_byte_strings protocols in
      and_then (call_i F ''SSL_CTX_set_ex_data'' [ctx, CInt NPN_PROTOS_IDX, CBytes protocols]) (\<lambda>_.
      and_then (call_v F ''SSL_CTX_set_next_proto_select_cb'' [ctx, CStr ''raw_next_proto_select_cb'', CNull]) (\<lambda>_.
      call_v F ''SSL_CTX_set_next_protos_advertised_cb'' [ctx, CStr ''raw_next_protos_advertise_cb'', CNull])))"

definition set_alpn_protocols :: "'w ffi \<Rightarrow> int \<Rightarrow> cval \<Rightarrow> byte list list \<Rightarrow> ('w, error_stack, unit) eff" where
  "set_alpn_protocols F ALPN_PROTOS_IDX ctx protocols =
     (let protocols = ssl_encode_byte_strings protocols in
      and_then (ccall F ''SSL_CTX_set_alpn_protos''
        [ctx, CBytes protocols, CInt (uint (of_nat (length protocols) :: u32))]) (\<lambda>(r, _).
      if c_int r \<noteq> 0 then and_then (ErrorStack_get F) throw
      else
        and_then (call_i F ''SSL_CTX_set_ex_data'' [ctx, CInt ALPN_PROTOS_IDX, CBytes protocols]) (\<lambda>_.
        call_v F ''SSL_CTX_set_alpn_select_cb'' [ctx, CStr ''raw_alpn_select_cb'', CNull])))"

definition check_private_key :: "'w ffi \<Rightarrow> cval \<Rightarrow> ('w, error_stack, unit) eff" where
  "check_private_key F ctx = call_i F ''SSL_CTX_check_private_key'' [ctx]"

definition cert_store :: "'w ffi \<Rightarrow> cval \<Rightarrow> ('w, 'e, cval) eff" where
  "cert_store F ctx = and_then (ccall F ''SSL_CTX_get_cert_store'' [ctx]) (\<lambda>(p, _). ret p)"

subsection \<open>SslContext\<close>

definition SslContext_clone :: "'w ffi \<Rightarrow> cval \<Rightarrow> ('w, 'e, cval) eff" where
  "SslContext_clone F ctx = and_then (call_v F ''SSL_CTX_up_ref'' [ctx]) (\<lambda>_. ret ctx)"

definition SslContext_certificate :: "'w ffi \<Rightarrow> cval \<Rightarrow> ('w, 'e, cval option) eff" where
  "SslContext_certificate F ctx = call_opt F ''SSL_CTX_get0_certificate'' [ctx]"

definition SslContext_private_key :: "'w ffi \<Rightarrow> cval \<Rightarrow> ('w, 'e, cval option) eff" where
  "SslContext_private_key F ctx = call_opt F ''SSL_CTX_get0_privatekey'' [ctx]"

definition SslContext_ex_data :: "'w ffi \<Rightarrow> cval \<Rightarrow> int \<Rightarrow> ('w, 'e, cval option) eff" where
  "SslContext_ex_data F ctx index = call_opt F ''SSL_CTX_get_ex_data'' [ctx, CInt index]"

subsection \<open>SslCipherRef and SslSessionRef\<close>

definition SslCipher_name :: "'w ffi \<Rightarrow> cval \<Rightarrow> ('w, 'e, string) eff" where
  "SslCipher_name F c = call_text F ''SSL_CIPHER_get_name'' [c]"

definition SslCipher_version :: "'w ffi \<Rightarrow> cval \<Rightarrow> ('w, 'e, string) eff" where
  "SslCipher_version F c = call_text F ''SSL_CIPHER_get_version'' [c]"

definition SslCipher_bits :: "'w ffi \<Rightarrow> cval \<Rightarrow> ('w, 'e, int \<times> int) eff" where
  "SslCipher_bits F c = and_then (ccall F ''SSL_CIPHER_get_bits'' [c]) (\<lambda>(r, os). ret (c_int r, c_int (out os 0)))"

definition SslCipher_description :: "'w ffi \<Rightarrow> cval \<Rightarrow> ('w, 'e, string) eff" where
  "SslCipher_description F c = call_text F ''SSL_CIPHER_description'' [c, CBytes (replicate 128 0), CInt 128]"

definition SslSession_to_owned :: "'w ffi \<Rightarrow> cval \<Rightarrow> ('w, 'e, cval) eff" where
  "SslSession_to_owned F s = and_then (call_v F ''SSL_SESSION_up_ref'' [s]) (\<lambda>_. ret s)"

definition SslSession_id :: "'w ffi \<Rightarrow> cval \<Rightarrow> ('w, 'e, byte list) eff" where
  "SslSession_id F s =
     and_then (ccall F ''SSL_SESSION_get_id'' [s]) (\<lambda>(p, os).
       ret (take (unat (word_of_int (c_int (out os 0)) :: u32)) (c_bytes p)))"

definition SslSession_master_key_len :: "'w ffi \<Rightarrow> cval \<Rightarrow> ('w, 'e, nat) eff" where
  "SslSession_master_key_len F s =
     and_then (ccall F ''SSL_SESSION_get_master_key'' [s, CNull, CInt 0]) (\<lambda>(n, _). ret (nat (c_int n)))"

definition SslSession_master_key :: "'w ffi \<Rightarrow> cval \<Rightarrow> byte list \<Rightarrow> ('w, 'e, nat \<times> byte list) eff" where
  "SslSession_master_key F s buf =
     and_then (ccall F ''SSL_SESSION_get_master_key'' [s, CBytes buf, CInt (int (length buf))]) (\<lambda>(n, os).
       ret (nat (c_int n), c_bytes (out os 0) @ drop (length (c_bytes (out os 0))) buf))"

subsection \<open>SslRef\<close>

definition ssl_set_verify :: "'w ffi \<Rightarrow> cval \<Rightarrow> int \<Rightarrow> ('w, 'e, unit) eff" where
  "ssl_set_verify F ssl mode = call_v F ''SSL_set_verify'' [ssl, CInt mode, CNull]"

definition ssl_set_tmp_dh :: "'w ffi \<Rightarrow> cval \<Rightarrow> cval \<Rightarrow> ('w, error_stack, unit) eff" where
  "ssl_set_tmp_dh F ssl dh = call_l F ''SSL_ctrl'' [ssl, CInt SSL_CTRL_SET_TMP_DH, CInt 0, dh]"

definition ssl_set_tmp_ecdh :: "'w ffi \<Rightarrow> cval \<Rightarrow> cval \<Rightarrow> ('w, error_stack, unit) eff" where
  "ssl_set_tmp_ecdh F ssl key = call_l F ''SSL_ctrl'' [ssl, CInt SSL_CTRL_SET_TMP_ECDH, CInt 0, key]"

definition current_cipher :: "'w ffi \<Rightarrow> cval \<Rightarrow> ('w, 'e, cval option) eff" where
  "current_cipher F ssl = call_opt F ''SSL_get_current_cipher'' [ssl]"

definition peer_certificate :: "'w ffi \<Rightarrow> cval \<Rightarrow> ('w, 'e, cval option) eff" where
  "peer_certificate F ssl = call_opt F ''SSL_get_peer_certificate'' [ssl]"

definition peer_cert_chain :: "'w ffi \<Rightarrow> cval \<Rightarrow> ('w, 'e, cval option) eff" where
  "peer_cert_chain F ssl = call_opt F ''SSL_get_peer_cert_chain'' [ssl]"

definition session :: "'w ffi \<Rightarrow> cval \<Rightarrow> ('w, 'e, cval option) eff" where
  "session F ssl = call_opt F ''SSL_get_session'' [ssl]"

definition ssl_certificate :: "'w ffi \<Rightarrow> cval \<Rightarrow> ('w, 'e, cval option) eff" where
  "ssl_certificate F ssl = call_opt F ''SSL_get_certificate'' [ssl]"

definition ssl_private_key :: "'w ffi \<Rightarrow> cval \<Rightarrow> ('w, 'e, cval option) eff" where
  "ssl_private_key F ssl = call_opt F ''SSL_get_privatekey'' [ssl]"

definition state_string :: "'w ffi \<Rightarrow> cval \<Rightarrow> ('w, 'e, string) eff" where
  "state_string F ssl = call_text F ''SSL_state_string'' [ssl]"

definition state_string_long :: "'w ffi \<Rightarrow> cval \<Rightarrow> ('w, 'e, string) eff" where
  "state_string_long F ssl = call_text F ''SSL_state_string_long'' [ssl]"

definition ssl_version :: "'w ffi \<Rightarrow> cval \<Rightarrow> ('w, 'e, string) eff" where
  "ssl_version F ssl = call_text F ''SSL_get_version'' [ssl]"

definition set_hostname :: "'w ffi \<Rightarrow> cval \<Rightarrow> string \<Rightarrow> ('w, error_stack, unit) eff" where
  "set_hostname F ssl hostname =
     and_then (c_string hostname) (\<lambda>cstr.
     call_l F ''SSL_ctrl'' [ssl, CInt SSL_CTRL_SET_TLSEXT_HOSTNAME, CInt TLSEXT_NAMETYPE_host_name, cstr])"

definition selected_npn_protocol :: "'w ffi \<Rightarrow> cval \<Rightarrow> ('w, 'e, byte list option) eff" where
  "selected_npn_protocol F ssl =
     and_then (ccall F ''SSL_get0_next_proto_negotiated'' [ssl]) (\<lambda>(_, os).
       ret (if out os 0 = CNull then None
            else Some (take (unat (word_of_int (c_int (out os 1)) :: u32)) (c_bytes (out os 0)))))"

definition selected_alpn_protocol :: "'w ffi \<Rightarrow> cval \<Rightarrow> ('w, 'e, byte list option) eff" where
  "selected_alpn_protocol F ssl =
     and_then (ccall F ''SSL_get0_alpn_selected'' [ssl]) (\<lambda>(_, os).
       ret (if out os 0 = CNull then None
            else Some (take (unat (word_of_int (c_int (out os 1)) :: u32)) (c_bytes (out os 0)))))"

definition ssl_pending :: "'w ffi \<Rightarrow> cval \<Rightarrow> ('w, 'e, nat) eff" where
  "ssl_pending F ssl = and_then (ccall F ''SSL_pending'' [ssl]) (\<lambda>(n, _). ret (usize_of_c_int (c_int n)))"

definition servername :: "'w ffi \<Rightarrow> cval \<Rightarrow> ('w, 'e, string option) eff" where
  "servername F ssl =
     and_then (ccall F ''SSL_get_servername'' [ssl, CInt TLSEXT_NAMETYPE_host_name]) (\<lambda>(p, _).
       case c_str p of
         None \<Rightarrow> ret None
       | Some bytes \<Rightarrow> (case from_utf8 bytes of None \<Rightarrow> panic | Some s \<Rightarrow> ret (Some s)))"

definition compression :: "'w ffi \<Rightarrow> cval \<Rightarrow> ('w, 'e, string option) eff" where
  "compression F ssl =
     and_then (ccall F ''SSL_get_current_compression'' [ssl]) (\<lambda>(p, _).
       if p = CNull then ret None else and_then (call_text F ''SSL_COMP_get_name'' [p]) (\<lambda>s. ret (Some s)))"

definition set_ssl_context :: "'w ffi \<Rightarrow> cval \<Rightarrow> cval \<Rightarrow> ('w, error_stack, unit) eff" where
  "set_ssl_context F ssl ctx = and_then (call_p F ''SSL_set_SSL_CTX'' [ssl, ctx]) (\<lambda>_. ret ())"

definition ssl_context :: "'w ffi \<Rightarrow> cval \<Rightarrow> ('w, 'e, cval) eff" where
  "ssl_context F ssl = and_then (ccall F ''SSL_get_SSL_CTX'' [ssl]) (\<lambda>(p, _). ret p)"

definition param_mut :: "'w ffi \<Rightarrow> cval \<Rightarrow> ('w, 'e, cval) eff" where
  "param_mut F ssl = and_then (ccall F ''SSL_get0_param'' [ssl]) (\<lambda>(p, _). ret p)"

definition verify_result :: "'w ffi \<Rightarrow> cval \<Rightarrow> ('w, 'e, int option) eff" where
  "verify_result F ssl =
     and_then (ccall F ''SSL_get_verify_result'' [ssl]) (\<lambda>(r, _). ret (if c_int r = 0 then None else Some (c_int r)))"

definition set_session :: "'w ffi \<Rightarrow> cval \<Rightarrow> cval \<Rightarrow> ('w, error_stack, unit) eff" where
  "set_session F ssl s = call_i F ''SSL_set_session'' [ssl, s]"

definition session_reused :: "'w ffi \<Rightarrow> cval \<Rightarrow> ('w, 'e, bool) eff" where
  "session_reused F ssl = and_then (ccall F ''SSL_session_reused'' [ssl]) (\<lambda>(r, _). ret (c_int r \<noteq> 0))"

definition set_status_type :: "'w ffi \<Rightarrow> cval \<Rightarrow> int \<Rightarrow> ('w, error_stack, unit) eff" where
  "set_status_type F ssl ty = call_l F ''SSL_ctrl'' [ssl, CInt SSL_CTRL_SET_TLSEXT_STATUS_REQ_TYPE, CInt ty, CNull]"

definition ocsp_status :: "'w ffi \<Rightarrow> cval \<Rightarrow> ('w, 'e, byte list option) eff" where
  "ocsp_status F ssl =
     and_then (ccall F ''SSL_ctrl'' [ssl, CInt SSL_CTRL_GET_TLSEXT_STATUS_REQ_OCSP_RESP, CInt 0]) (\<lambda>(len, os).
       ret (if c_int len < 0 then None else Some (take (nat (c_int len)) (c_bytes (out os 0)))))"

definition set_ocsp_status :: "'w ffi \<Rightarrow> cval \<Rightarrow> byte list \<Rightarrow> ('w, error_stack, unit) eff" where
  "set_ocsp_status F ssl response =
     and_then (assert_that (length response \<le> c_int_max)) (\<lambda>_.
     and_then (call_p F ''CRYPTO_malloc'' [CInt (int (length response))]) (\<lambda>p.
     call_l F ''SSL_ctrl'' [ssl, CInt SSL_CTRL_SET_TLSEXT_STATUS_REQ_OCSP_RESP, CInt (int (length response)), CBytes response]))"

definition is_server :: "'w ffi \<Rightarrow> cval \<Rightarrow> ('w, 'e, bool) eff" where
  "is_server F ssl = and_then (ccall F ''SSL_is_server'' [ssl]) (\<lambda>(r, _). ret (c_int r \<noteq> 0))"

definition ssl_ex_data :: "'w ffi \<Rightarrow> cval \<Rightarrow> int \<Rightarrow> ('w, 'e, cval option) eff" where
  "ssl_ex_data F ssl index = call_opt F ''SSL_get_ex_data'' [ssl, CInt index]"

end
