(* ===== verification/Ossl_Callbacks.thy ===== *)
theory Ossl_Callbacks
  imports Ossl_Context
begin

text \<open>
  The functions OpenSSL calls back, \<open>openssl/src/ssl/callbacks.rs\<close>, and the protocol lists they
  negotiate with. A callback finds the user's closure behind a pointer in the extra data of the
  context or of the session; \<open>closure\<close>, an argument, is what lies at such an address, and where
  nothing lies there the outcome is \<open>Diverge\<close>, as for every invalid pointer. A panic of the closure
  leaves the callback as \<open>Panic\<close>: these callbacks, unlike those of a stream, catch nothing. The
  index a closure type has in the extra data is an argument too.
\<close>

datatype sni_error = Fatal int | Warning int | NoAck

definition SSL_TLSEXT_ERR_OK :: int where "SSL_TLSEXT_ERR_OK = 0"
definition SSL_TLSEXT_ERR_ALERT_WARNING :: int where "SSL_TLSEXT_ERR_ALERT_WARNING = 1"
definition SSL_TLSEXT_ERR_ALERT_FATAL :: int where "SSL_TLSEXT_ERR_ALERT_FATAL = 2"
definition SSL_TLSEXT_ERR_NOACK :: int where "SSL_TLSEXT_ERR_NOACK = 3"
definition OPENSSL_NPN_NEGOTIATED :: int where "OPENSSL_NPN_NEGOTIATED = 1"

lemmas tlsext_defs = SSL_TLSEXT_ERR_OK_def SSL_TLSEXT_ERR_ALERT_WARNING_def SSL_TLSEXT_ERR_ALERT_FATAL_def
  SSL_TLSEXT_ERR_NOACK_def

text \<open>Where a closure is found: in the context of the session, or in the session.\<close>

definition ctx_closure :: "'w ffi \<Rightarrow> int \<Rightarrow> (cval \<Rightarrow> 'f option) \<Rightarrow> cval \<Rightarrow> ('w, 'e, 'f) eff" where
  "ctx_closure F idx closure ssl =
     and_then (ccall F ''SSL_get_SSL_CTX'' [ssl]) (\<lambda>(ssl_ctx, _).
     and_then (ccall F ''SSL_CTX_get_ex_data'' [ssl_ctx, CInt idx]) (\<lambda>(p, _).
       case closure p of None \<Rightarrow> diverge | Some f \<Rightarrow> ret f))"

definition ssl_closure :: "'w ffi \<Rightarrow> int \<Rightarrow> (cval \<Rightarrow> 'f option) \<Rightarrow> cval \<Rightarrow> ('w, 'e, 'f) eff" where
  "ssl_closure F idx closure ssl =
     and_then (ccall F ''SSL_get_ex_data'' [ssl, CInt idx]) (\<lambda>(p, _).
       case closure p of None \<Rightarrow> diverge | Some f \<Rightarrow> ret f)"

definition store_ctx_ssl :: "'w ffi \<Rightarrow> cval \<Rightarrow> ('w, 'e, cval) eff" where
  "store_ctx_ssl F x509_ctx =
     and_then (ccall F ''SSL_get_ex_data_X509_STORE_CTX_idx'' []) (\<lambda>(idx, _).
     and_then (ccall F ''X509_STORE_CTX_get_ex_data'' [x509_ctx, idx]) (\<lambda>(ssl, _). ret ssl))"

type_synonym ('w, 'e) verify_closure = "bool \<Rightarrow> cval \<Rightarrow> ('w, 'e, bool) eff"

definition raw_verify ::
  "'w ffi \<Rightarrow> int \<Rightarrow> (cval \<Rightarrow> ('w, 'e) verify_closure option) \<Rightarrow> int \<Rightarrow> cval \<Rightarrow> ('w, 'e, int) eff" where
  "raw_verify F idx closure preverify_ok x509_ctx =
     and_then (store_ctx_ssl F x509_ctx) (\<lambda>ssl.
     and_then (ctx_closure F idx closure ssl) (\<lambda>verify.
     and_then (verify (preverify_ok \<noteq> 0) x509_ctx) (\<lambda>b. ret (if b then 1 else 0))))"

definition ssl_raw_verify ::
  "'w ffi \<Rightarrow> int \<Rightarrow> (cval \<Rightarrow> ('w, 'e) verify_closure option) \<Rightarrow> int \<Rightarrow> cval \<Rightarrow> ('w, 'e, int) eff" where
  "ssl_raw_verify F idx closure preverify_ok x509_ctx =
     and_then (store_ctx_ssl F x509_ctx) (\<lambda>ssl.
     and_then (ssl_closure F idx closure ssl) (\<lambda>verify.
     and_then (verify (preverify_ok \<noteq> 0) x509_ctx) (\<lambda>b. ret (if b then 1 else 0))))"

text \<open>
  The pre-shared key callback hands the closure two buffers to fill; what the closure left in them
  is returned with the code. \<open>psk_len as u32\<close> keeps the low 32 bits.
\<close>

type_synonym 'w psk_closure =
  "cval \<Rightarrow> byte list option \<Rightarrow> byte list \<Rightarrow> byte list \<Rightarrow> ('w, unit, (error_stack + nat) \<times> byte list \<times> byte list) eff"

definition raw_psk ::
  "'w ffi \<Rightarrow> int \<Rightarrow> (cval \<Rightarrow> 'w psk_closure option) \<Rightarrow> cval \<Rightarrow> byte list option \<Rightarrow> byte list \<Rightarrow> byte list \<Rightarrow>
   ('w, unit, u32 \<times> byte list \<times> byte list) eff" where
  "raw_psk F idx closure ssl hint identity psk =
     and_then (ctx_closure F idx closure ssl) (\<lambda>callback.
     and_then (callback ssl hint identity psk) (\<lambda>(r, identity, psk).
       case r of
         Inr psk_len \<Rightarrow> ret (of_nat psk_len, identity, psk)
       | Inl _ \<Rightarrow> ret (0, identity, psk)))"

text \<open>The alert is stored through the pointer \<open>al\<close>; \<open>None\<close> where nothing is stored.\<close>

definition raw_sni ::
  "'w ffi \<Rightarrow> int \<Rightarrow> (cval \<Rightarrow> (cval \<Rightarrow> ('w, sni_error, unit) eff) option) \<Rightarrow> cval \<Rightarrow> ('w, 'e, int \<times> int option) eff" where
  "raw_sni F idx closure ssl =
     and_then (ctx_closure F idx closure ssl) (\<lambda>callback.
     and_then (attempt (callback ssl)) (\<lambda>r.
       case r of
         Inr _ \<Rightarrow> ret (SSL_TLSEXT_ERR_OK, None)
       | Inl (Fatal e) \<Rightarrow> ret (SSL_TLSEXT_ERR_ALERT_FATAL, Some e)
       | Inl (Warning e) \<Rightarrow> ret (SSL_TLSEXT_ERR_ALERT_WARNING, Some e)
       | Inl NoAck \<Rightarrow> ret (SSL_TLSEXT_ERR_NOACK, None)))"

text \<open>The temporary key callbacks give the pointer away; on an error the null pointer.\<close>

type_synonym 'w tmp_key_closure = "cval \<Rightarrow> bool \<Rightarrow> u32 \<Rightarrow> ('w, error_stack, cval) eff"

definition raw_tmp_dh ::
  "'w ffi \<Rightarrow> int \<Rightarrow> (cval \<Rightarrow> 'w tmp_key_closure option) \<Rightarrow> cval \<Rightarrow> int \<Rightarrow> i32 \<Rightarrow> ('w, 'e, cval) eff" where
  "raw_tmp_dh F idx closure ssl is_export keylength =
     and_then (ctx_closure F idx closure ssl) (\<lambda>callback.
     and_then (attempt (callback ssl (is_export \<noteq> 0) keylength)) (\<lambda>r.
       case r of Inr dh \<Rightarrow> ret dh | Inl _ \<Rightarrow> ret CNull))"

definition raw_tmp_ecdh ::
  "'w ffi \<Rightarrow> int \<Rightarrow> (cval \<Rightarrow> 'w tmp_key_closure option) \<Rightarrow> cval \<Rightarrow> int \<Rightarrow> i32 \<Rightarrow> ('w, 'e, cval) eff" where
  "raw_tmp_ecdh F idx closure ssl is_export keylength =
     and_then (ctx_closure F idx closure ssl) (\<lambda>callback.
     and_then (attempt (callback ssl (is_export \<noteq> 0) keylength)) (\<lambda>r.
       case r of Inr ec_key \<Rightarrow> ret ec_key | Inl _ \<Rightarrow> ret CNull))"

definition raw_tmp_dh_ssl ::
  "'w ffi \<Rightarrow> int \<Rightarrow> (cval \<Rightarrow> 'w tmp_key_closure option) \<Rightarrow> cval \<Rightarrow> int \<Rightarrow> i32 \<Rightarrow> ('w, 'e, cval) eff" where
  "raw_tmp_dh_ssl F idx closure ssl is_export keylength =
     and_then (ssl_closure F idx closure ssl) (\<lambda>callback.
     and_then (attempt (callback ssl (is_export \<noteq> 0) keylength)) (\<lambda>r.
       case r of Inr dh \<Rightarrow> ret dh | Inl _ \<Rightarrow> ret CNull))"

definition raw_tmp_ecdh_ssl ::
  "'w ffi \<Rightarrow> int \<Rightarrow> (cval \<Rightarrow> 'w tmp_key_closure option) \<Rightarrow> cval \<Rightarrow> int \<Rightarrow> i32 \<Rightarrow> ('w, 'e, cval) eff" where
  "raw_tmp_ecdh_ssl F idx closure ssl is_export keylength =
     and_then (ssl_closure F idx closure ssl) (\<lambda>callback.
     and_then (attempt (callback ssl (is_export \<noteq> 0) keylength)) (\<lambda>r.
       case r of Inr ec_key \<Rightarrow> ret ec_key | Inl _ \<Rightarrow> ret CNull))"

definition raw_tlsext_status ::
  "'w ffi \<Rightarrow> int \<Rightarrow> (cval \<Rightarrow> (cval \<Rightarrow> ('w, error_stack, bool) eff) option) \<Rightarrow> cval \<Rightarrow> ('w, 'e, int) eff" where
  "raw_tlsext_status F idx closure ssl =
     and_then (ctx_closure F idx closure ssl) (\<lambda>callback.
     and_then (attempt (callback ssl)) (\<lambda>r.
     and_then (is_server F ssl) (\<lambda>server.
       ret (if server then
              (case r of
                 Inr True \<Rightarrow> SSL_TLSEXT_ERR_OK
               | Inr False \<Rightarrow> SSL_TLSEXT_ERR_NOACK
               | Inl _ \<Rightarrow> SSL_TLSEXT_ERR_ALERT_FATAL)
            else (case r of Inr True \<Rightarrow> 1 | Inr False \<Rightarrow> 0 | Inl _ \<Rightarrow> -1)))))"

subsection \<open>Choosing a protocol\<close>

text \<open>
  The result is the code with what \<open>SSL_select_next_proto\<close> stored through \<open>out\<close> and \<open>outlen\<close>.
\<close>

definition select_proto_using ::
  "'w ffi \<Rightarrow> cval \<Rightarrow> byte list \<Rightarrow> u32 \<Rightarrow> int \<Rightarrow> ('w, 'e, int \<times> cval \<times> cval) eff" where
  "select_proto_using F ssl inbuf inlen ex_data =
     and_then (ccall F ''SSL_get_SSL_CTX'' [ssl]) (\<lambda>(ssl_ctx, _).
     and_then (ccall F ''SSL_CTX_get_ex_data'' [ssl_ctx, CInt ex_data]) (\<lambda>(p, _).
     case p of
       CBytes protocols \<Rightarrow>
         (let client_len = of_nat (length protocols) :: u32 in
          and_then (ccall F ''SSL_select_next_proto''
            [CBytes inbuf, CInt (uint inlen), CBytes protocols, CInt (uint client_len)]) (\<lambda>(r, os).
          ret (if c_int r \<noteq> OPENSSL_NPN_NEGOTIATED then SSL_TLSEXT_ERR_NOACK else SSL_TLSEXT_ERR_OK,
               out os 0, out os 1)))
     | _ \<Rightarrow> diverge))"

definition raw_next_proto_select_cb ::
  "'w ffi \<Rightarrow> int \<Rightarrow> cval \<Rightarrow> byte list \<Rightarrow> u32 \<Rightarrow> ('w, 'e, int \<times> cval \<times> cval) eff" where
  "raw_next_proto_select_cb F NPN_PROTOS_IDX ssl inbuf inlen =
     select_proto_using F ssl inbuf inlen NPN_PROTOS_IDX"

definition raw_alpn_select_cb ::
  "'w ffi \<Rightarrow> int \<Rightarrow> cval \<Rightarrow> byte list \<Rightarrow> u32 \<Rightarrow> ('w, 'e, int \<times> cval \<times> cval) eff" where
  "raw_alpn_select_cb F ALPN_PROTOS_IDX ssl inbuf inlen =
     select_proto_using F ssl inbuf inlen ALPN_PROTOS_IDX"

definition raw_next_protos_advertise_cb ::
  "'w ffi \<Rightarrow> int \<Rightarrow> cval \<Rightarrow> ('w, 'e, int \<times> byte list \<times> u32) eff" where
  "raw_next_protos_advertise_cb F NPN_PROTOS_IDX ssl =
     and_then (ccall F ''SSL_get_SSL_CTX'' [ssl]) (\<lambda>(ssl_ctx, _).
     and_then (ccall F ''SSL_CTX_get_ex_data'' [ssl_ctx, CInt NPN_PROTOS_IDX]) (\<lambda>(p, _).
     case p of
       CNull \<Rightarrow> ret (SSL_TLSEXT_ERR_OK, [], 0)
     | CBytes protocols \<Rightarrow> ret (SSL_TLSEXT_ERR_OK, protocols, of_nat (length protocols))
     | _ \<Rightarrow> diverge))"

subsection \<open>Indexes of the extra data\<close>

text \<open>
  Each closure type has one index in the extra data of contexts and one in that of sessions,
  created the first time it is asked for and kept in a map behind a mutex. Type identifiers are
  numbers. The assertion that OpenSSL returned an index fails inside the lock, which poisons it.
\<close>

definition get_new_idx :: "'w ffi \<Rightarrow> ('w, 'e, int) eff" where
  "get_new_idx F =
     and_then (ccall F ''CRYPTO_get_ex_new_index'' [CInt 1, CInt 0, CNull, CNull, CNull, CStr ''free_data_box'']) (\<lambda>(r, _).
     and_then (assert_that (0 \<le> c_int r)) (\<lambda>_. ret (c_int r)))"

definition get_new_ssl_idx :: "'w ffi \<Rightarrow> ('w, 'e, int) eff" where
  "get_new_ssl_idx F =
     and_then (ccall F ''CRYPTO_get_ex_new_index'' [CInt 0, CInt 0, CNull, CNull, CNull, CStr ''free_data_box'']) (\<lambda>(r, _).
     and_then (assert_that (0 \<le> c_int r)) (\<lambda>_. ret (c_int r)))"

definition SslContext_new_ex_index :: "'w ffi \<Rightarrow> ('w, error_stack, int) eff" where
  "SslContext_new_ex_index F =
     and_then (init F) (\<lambda>_.
     and_then (ccall F ''CRYPTO_get_ex_new_index'' [CInt 1, CInt 0, CNull, CNull, CNull, CStr ''free_data_box'']) (\<lambda>(r, _).
       cvt_n F r))"

definition Ssl_new_ex_index :: "'w ffi \<Rightarrow> ('w, error_stack, int) eff" where
  "Ssl_new_ex_index F =
     and_then (init F) (\<lambda>_.
     and_then (ccall F ''CRYPTO_get_ex_new_index'' [CInt 0, CInt 0, CNull, CNull, CNull, CStr ''free_data_box'']) (\<lambda>(r, _).
       cvt_n F r))"

record indexes =
  ix_map :: "nat \<Rightarrow> int option"
  ix_poisoned :: bool

definition entry_or_insert_with :: "('w, 'e, int) eff \<Rightarrow> nat \<Rightarrow> ('w \<times> indexes, 'e, int) eff" where
  "entry_or_insert_with create tid =
     and_then self (\<lambda>reg.
     if ix_poisoned reg then panic
     else case ix_map reg tid of
       Some idx \<Rightarrow> ret idx
     | None \<Rightarrow> (\<lambda>s.
         case lifted create s of
           (Ok idx, (w, reg)) \<Rightarrow> (Ok idx, (w, reg\<lparr>ix_map := (ix_map reg)(tid \<mapsto> idx)\<rparr>))
         | (Panic, (w, reg)) \<Rightarrow> (Panic, (w, reg\<lparr>ix_poisoned := True\<rparr>))
         | r \<Rightarrow> r))"

definition get_callback_idx :: "'w ffi \<Rightarrow> nat \<Rightarrow> ('w \<times> indexes, 'e, int) eff" where
  "get_callback_idx F = entry_or_insert_with (get_new_idx F)"

definition get_ssl_callback_idx :: "'w ffi \<Rightarrow> nat \<Rightarrow> ('w \<times> indexes, 'e, int) eff" where
  "get_ssl_callback_idx F = entry_or_insert_with (get_new_ssl_idx F)"

subsection \<open>Installing closures\<close>

text \<open>
  A closure is boxed, its address stored in the extra data at the index of its type, and the
  callback that is instantiated for the type registered. \<open>p\<close> is the address of the box.
\<close>

definition SSL_CTRL_SET_TLSEXT_SERVERNAME_CB :: int where "SSL_CTRL_SET_TLSEXT_SERVERNAME_CB = 53"
definition SSL_CTRL_SET_TLSEXT_STATUS_REQ_CB :: int where "SSL_CTRL_SET_TLSEXT_STATUS_REQ_CB = 63"
definition SSL_CTRL_GET_EXTRA_CHAIN_CERTS :: int where "SSL_CTRL_GET_EXTRA_CHAIN_CERTS = 82"
definition SSL_CTRL_SET_VERIFY_CERT_STORE :: int where "SSL_CTRL_SET_VERIFY_CERT_STORE = 106"

definition store_closure :: "'w ffi \<Rightarrow> nat \<Rightarrow> cval \<Rightarrow> cval \<Rightarrow> ('w \<times> indexes, 'e, unit) eff" where
  "store_closure F tid ctx p =
     and_then (get_callback_idx F tid) (\<lambda>idx. lifted (call_v F ''SSL_CTX_set_ex_data'' [ctx, CInt idx, p]))"

definition ssl_store_closure :: "'w ffi \<Rightarrow> nat \<Rightarrow> cval \<Rightarrow> cval \<Rightarrow> ('w \<times> indexes, 'e, unit) eff" where
  "ssl_store_closure F tid ssl p =
     and_then (get_ssl_callback_idx F tid) (\<lambda>idx. lifted (call_v F ''SSL_set_ex_data'' [ssl, CInt idx, p]))"

definition set_verify_callback :: "'w ffi \<Rightarrow> nat \<Rightarrow> cval \<Rightarrow> int \<Rightarrow> cval \<Rightarrow> ('w \<times> indexes, 'e, unit) eff" where
  "set_verify_callback F tid ctx mode p =
     and_then (store_closure F tid ctx p) (\<lambda>_.
       lifted (call_v F ''SSL_CTX_set_verify'' [ctx, CInt mode, CStr ''raw_verify'']))"

definition set_servername_callback :: "'w ffi \<Rightarrow> nat \<Rightarrow> cval \<Rightarrow> cval \<Rightarrow> ('w \<times> indexes, 'e, unit) eff" where
  "set_servername_callback F tid ctx p =
     and_then (store_closure F tid ctx p) (\<lambda>_.
       lifted (call_v F ''SSL_CTX_callback_ctrl'' [ctx, CInt SSL_CTRL_SET_TLSEXT_SERVERNAME_CB, CStr ''raw_sni'']))"

definition set_tmp_dh_callback :: "'w ffi \<Rightarrow> nat \<Rightarrow> cval \<Rightarrow> cval \<Rightarrow> ('w \<times> indexes, 'e, unit) eff" where
  "set_tmp_dh_callback F tid ctx p =
     and_then (store_closure F tid ctx p) (\<lambda>_.
       lifted (call_v F ''SSL_CTX_set_tmp_dh_callback'' [ctx, CStr ''raw_tmp_dh'']))"

definition set_tmp_ecdh_callback :: "'w ffi \<Rightarrow> nat \<Rightarrow> cval \<Rightarrow> cval \<Rightarrow> ('w \<times> indexes, 'e, unit) eff" where
  "set_tmp_ecdh_callback F tid ctx p =
     and_then (store_closure F tid ctx p) (\<lambda>_.
       lifted (call_v F ''SSL_CTX_set_tmp_ecdh_callback'' [ctx, CStr ''raw_tmp_ecdh'']))"

definition set_status_callback :: "'w ffi \<Rightarrow> nat \<Rightarrow> cval \<Rightarrow> cval \<Rightarrow> ('w \<times> indexes, error_stack, unit) eff" where
  "set_status_callback F tid ctx p =
     and_then (store_closure F tid ctx p) (\<lambda>_.
       lifted (call_l F ''SSL_CTX_callback_ctrl'' [ctx, CInt SSL_CTRL_SET_TLSEXT_STATUS_REQ_CB, CStr ''raw_tlsext_status'']))"

definition set_psk_callback :: "'w ffi \<Rightarrow> nat \<Rightarrow> cval \<Rightarrow> cval \<Rightarrow> ('w \<times> indexes, 'e, unit) eff" where
  "set_psk_callback F tid ctx p =
     and_then (store_closure F tid ctx p) (\<lambda>_.
       lifted (call_v F ''SSL_CTX_set_psk_client_callback'' [ctx, CStr ''raw_psk'']))"

definition ssl_set_verify_callback :: "'w ffi \<Rightarrow> nat \<Rightarrow> cval \<Rightarrow> int \<Rightarrow> cval \<Rightarrow> ('w \<times> indexes, 'e, unit) eff" where
  "ssl_set_verify_callback F tid ssl mode p =
     and_then (ssl_store_closure F tid ssl p) (\<lambda>_.
       lifted (call_v F ''SSL_set_verify'' [ssl, CInt mode, CStr ''ssl_raw_verify'']))"

definition ssl_set_tmp_dh_callback :: "'w ffi \<Rightarrow> nat \<Rightarrow> cval \<Rightarrow> cval \<Rightarrow> ('w \<times> indexes, 'e, unit) eff" where
  "ssl_set_tmp_dh_callback F tid ssl p =
     and_then (ssl_store_closure F tid ssl p) (\<lambda>_.
       lifted (call_v F ''SSL_set_tmp_dh_callback'' [ssl, CStr ''raw_tmp_dh_ssl'']))"

definition ssl_set_tmp_ecdh_callback :: "'w ffi \<Rightarrow> nat \<Rightarrow> cval \<Rightarrow> cval \<Rightarrow> ('w \<times> indexes, 'e, unit) eff" where
  "ssl_set_tmp_ecdh_callback F tid ssl p =
     and_then (ssl_store_closure F tid ssl p) (\<lambda>_.
       lifted (call_v F ''SSL_set_tmp_ecdh_callback'' [ssl, CStr ''raw_tmp_ecdh_ssl'']))"

definition set_verify_cert_store :: "'w ffi \<Rightarrow> cval \<Rightarrow> cval \<Rightarrow> ('w, error_stack, unit) eff" where
  "set_verify_cert_store F ctx store =
     owning (call_v F ''X509_STORE_free'' [store])
       (call_l F ''SSL_CTX_ctrl'' [ctx, CInt SSL_CTRL_SET_VERIFY_CERT_STORE, CInt 0, store])"

definition extra_chain_certs :: "'w ffi \<Rightarrow> cval \<Rightarrow> ('w, 'e, cval) eff" where
  "extra_chain_certs F ctx =
     and_then (ccall F ''SSL_CTX_ctrl'' [ctx, CInt SSL_CTRL_GET_EXTRA_CHAIN_CERTS, CInt 0]) (\<lambda>(_, os).
     and_then (assert_that (out os 0 \<noteq> CNull)) (\<lambda>_. ret (out os 0)))"

definition SslContext_set_ex_data :: "'w ffi \<Rightarrow> cval \<Rightarrow> int \<Rightarrow> cval \<Rightarrow> ('w, 'e, unit) eff" where
  "SslContext_set_ex_data F ctx index data = call_v F ''SSL_CTX_set_ex_data'' [ctx, CInt index, data]"

definition Ssl_set_ex_data :: "'w ffi \<Rightarrow> cval \<Rightarrow> int \<Rightarrow> cval \<Rightarrow> ('w, 'e, unit) eff" where
  "Ssl_set_ex_data F ssl index data = call_v F ''SSL_set_ex_data'' [ssl, CInt index, data]"

definition SslMethod_tls :: "'w ffi \<Rightarrow> ('w, 'e, cval) eff" where
  "SslMethod_tls F = and_then (ccall F ''TLS_method'' []) (\<lambda>(m, _). ret m)"

definition SslMethod_dtls :: "'w ffi \<Rightarrow> ('w, 'e, cval) eff" where
  "SslMethod_dtls F = and_then (ccall F ''DTLS_method'' []) (\<lambda>(m, _). ret m)"

subsection \<open>Protocol lists\<close>

text \<open>The wire format of a protocol list: each name after a byte with its length.\<close>

fun ssl_decode :: "byte list \<Rightarrow> byte list list option" where
  "ssl_decode [] = Some []"
| "ssl_decode (n # bs) =
     (if unat n \<le> length bs
      then map_option ((#) (take (unat n) bs)) (ssl_decode (drop (unat n) bs)) else None)"

lemma byte_length: "unat (of_nat k :: byte) = k \<longleftrightarrow> k < 256"
  by (simp add: unsigned_of_nat take_bit_eq_mod mod_eq_self_iff_div_eq_0 div_eq_0_iff)

lemma ssl_decode_encode: "ssl_decode (ssl_encode_byte_strings ss) = Some (filter (\<lambda>s. length s < 256) ss)"
  by (induction ss) (auto simp: Let_def byte_length byte_length [THEN iffD2])

lemma ssl_decode_short: "ssl_decode bs = Some ss \<Longrightarrow> s \<in> set ss \<Longrightarrow> length s < 256"
proof (induction bs arbitrary: ss rule: ssl_decode.induct)
  case (2 n bs)
  have "unat n < 256" using unsigned_less [of n, where 'a = nat] by simp
  with 2 show ?case by (auto split: if_splits)
qed simp

text \<open>
  What the negotiation relies on of OpenSSL: extra data that was set is what is read back, and
  \<open>SSL_select_next_proto\<close> picks the first name of the server's list that the client's has too.
  \<open>ctx_of\<close> is the context of a session and \<open>extra\<close> the extra data in a state.
\<close>

definition alpn_law :: "'w ffi \<Rightarrow> (cval \<Rightarrow> cval) \<Rightarrow> ('w \<Rightarrow> cval \<Rightarrow> int \<Rightarrow> cval) \<Rightarrow> bool" where
  "alpn_law F ctx_of extra \<longleftrightarrow>
     (\<forall>ssl w. fst (fst (F ''SSL_get_SSL_CTX'' [ssl] w)) = ctx_of ssl \<and> extra (snd (F ''SSL_get_SSL_CTX'' [ssl] w)) = extra w) \<and>
     (\<forall>ctx i w. fst (fst (F ''SSL_CTX_get_ex_data'' [ctx, CInt i] w)) = extra w ctx i) \<and>
     (\<forall>ctx i v w. 0 < c_int (fst (fst (F ''SSL_CTX_set_ex_data'' [ctx, CInt i, v] w))) \<longrightarrow>
        extra (snd (F ''SSL_CTX_set_ex_data'' [ctx, CInt i, v] w)) ctx i = v) \<and>
     (\<forall>args w. extra (snd (F ''SSL_CTX_set_alpn_select_cb'' args w)) = extra w) \<and>
     (\<forall>server client qs ps w. ssl_decode server = Some qs \<longrightarrow> ssl_decode client = Some ps \<longrightarrow>
        (case F ''SSL_select_next_proto''
           [CBytes server, CInt (int (length server)), CBytes client, CInt (int (length client))] w of ((r, os), _) \<Rightarrow>
         case find (\<lambda>q. q \<in> set ps) qs of
           Some q \<Rightarrow> r = CInt OPENSSL_NPN_NEGOTIATED \<and> os = [CBytes q, CInt (int (length q))]
         | None \<Rightarrow> c_int r \<noteq> OPENSSL_NPN_NEGOTIATED))"

lemma alpn_lawD:
  assumes "alpn_law F ctx_of extra"
  shows "F ''SSL_get_SSL_CTX'' [ssl] w = (r, w1) \<Longrightarrow> fst r = ctx_of ssl \<and> extra w1 = extra w"
    "F ''SSL_CTX_get_ex_data'' [ctx, CInt i] w = (r, w1) \<Longrightarrow> fst r = extra w ctx i"
    "F ''SSL_CTX_set_ex_data'' [ctx, CInt i, v] w = (r, w1) \<Longrightarrow> 0 < c_int (fst r) \<Longrightarrow> extra w1 ctx i = v"
    "F ''SSL_CTX_set_alpn_select_cb'' args w = (r, w1) \<Longrightarrow> extra w1 = extra w"
    "F ''SSL_select_next_proto'' [CBytes s, CInt (int (length s)), CBytes c, CInt (int (length c))] w = ((x, os), w1) \<Longrightarrow>
     ssl_decode s = Some qs \<Longrightarrow> ssl_decode c = Some ps \<Longrightarrow>
     (case find (\<lambda>q. q \<in> set ps) qs of
        Some q \<Rightarrow> x = CInt OPENSSL_NPN_NEGOTIATED \<and> os = [CBytes q, CInt (int (length q))]
      | None \<Rightarrow> c_int x \<noteq> OPENSSL_NPN_NEGOTIATED)"
proof -
  note law = assms [unfolded alpn_law_def]
  show "F ''SSL_get_SSL_CTX'' [ssl] w = (r, w1) \<Longrightarrow> fst r = ctx_of ssl \<and> extra w1 = extra w"
    using conjunct1 [OF law, rule_format, of ssl w] by simp
  show "F ''SSL_CTX_get_ex_data'' [ctx, CInt i] w = (r, w1) \<Longrightarrow> fst r = extra w ctx i"
    using conjunct1 [OF conjunct2 [OF law], rule_format, of ctx i w] by simp
  show "F ''SSL_CTX_set_ex_data'' [ctx, CInt i, v] w = (r, w1) \<Longrightarrow> 0 < c_int (fst r) \<Longrightarrow> extra w1 ctx i = v"
    using conjunct1 [OF conjunct2 [OF conjunct2 [OF law]], rule_format, of ctx i v w] by simp
  show "F ''SSL_CTX_set_alpn_select_cb'' args w = (r, w1) \<Longrightarrow> extra w1 = extra w"
    using conjunct1 [OF conjunct2 [OF conjunct2 [OF conjunct2 [OF law]]], rule_format, of args w] by simp
  show "F ''SSL_select_next_proto'' [CBytes s, CInt (int (length s)), CBytes c, CInt (int (length c))] w = ((x, os), w1) \<Longrightarrow>
     ssl_decode s = Some qs \<Longrightarrow> ssl_decode c = Some ps \<Longrightarrow>
     (case find (\<lambda>q. q \<in> set ps) qs of
        Some q \<Rightarrow> x = CInt OPENSSL_NPN_NEGOTIATED \<and> os = [CBytes q, CInt (int (length q))]
      | None \<Rightarrow> c_int x \<noteq> OPENSSL_NPN_NEGOTIATED)"
    using conjunct2 [OF conjunct2 [OF conjunct2 [OF conjunct2 [OF law]]], rule_format, of s qs c ps w] by simp
qed

lemma uint_of_length: "length xs < 2 ^ 32 \<Longrightarrow> uint (of_nat (length xs) :: u32) = int (length xs)"
  by (simp add: unsigned_of_nat take_bit_nat_eq_self uint_nat)

lemma find_short:
  "(\<And>q. q \<in> set qs \<Longrightarrow> length q < 256) \<Longrightarrow>
   find (\<lambda>q. q \<in> set (filter (\<lambda>s. length s < 256) ps)) qs = find (\<lambda>q. q \<in> set ps) qs"
  by (induction qs) auto

lemma set_alpn_protocols_stores:
  assumes law: "alpn_law F ctx_of extra" and set: "set_alpn_protocols F idx ctx ps w = (Ok (), w1)"
  shows "extra w1 ctx idx = CBytes (ssl_encode_byte_strings ps)"
proof -
  let ?enc = "ssl_encode_byte_strings ps"
  obtain w2 w3 where ex: "call_i F ''SSL_CTX_set_ex_data'' [ctx, CInt idx, CBytes ?enc] w2 = (Ok (), w3)"
    and cb: "call_v F ''SSL_CTX_set_alpn_select_cb'' [ctx, CStr ''raw_alpn_select_cb'', CNull] w3 = (Ok () :: (error_stack, unit) outcome, w1)"
    using set by (auto simp: set_alpn_protocols_def Let_def and_then_Ok_iff split: prod.splits if_splits)
  obtain r where r: "F ''SSL_CTX_set_ex_data'' [ctx, CInt idx, CBytes ?enc] w2 = (r, w3)" "0 < c_int (fst r)"
    using ex by (auto simp: call_i_def cvt_def ccall_def and_then_Ok_iff split: prod.splits if_splits)
  obtain r' where r': "F ''SSL_CTX_set_alpn_select_cb'' [ctx, CStr ''raw_alpn_select_cb'', CNull] w3 = (r', w1)"
    using cb by (auto simp: call_v_def ccall_def and_then_Ok_iff split: prod.splits)
  show ?thesis using alpn_lawD(3) [OF law r] alpn_lawD(4) [OF law r'] by simp
qed


text \<open>A library whose state is the extra data of its contexts; every session belongs to context 7.\<close>

definition alpn_lib :: "(cval \<Rightarrow> int \<Rightarrow> cval) ffi" where
  "alpn_lib f args w =
     (if f = ''SSL_get_SSL_CTX'' then ((CPtr 7, []), w)
      else if f = ''SSL_CTX_get_ex_data'' then
        (case args of [c, CInt i] \<Rightarrow> ((w c i, []), w) | _ \<Rightarrow> ((CNull, []), w))
      else if f = ''SSL_CTX_set_ex_data'' then
        (case args of [c, CInt i, v] \<Rightarrow> ((CInt 1, []), w(c := (w c)(i := v))) | _ \<Rightarrow> ((CInt 0, []), w))
      else if f = ''SSL_select_next_proto'' then
        (case args of
           [CBytes s, _, CBytes c, _] \<Rightarrow>
             (case (ssl_decode s, ssl_decode c) of
                (Some qs, Some ps) \<Rightarrow>
                  (case find (\<lambda>q. q \<in> set ps) qs of
                     Some q \<Rightarrow> ((CInt OPENSSL_NPN_NEGOTIATED, [CBytes q, CInt (int (length q))]), w)
                   | None \<Rightarrow> ((CInt 2, []), w))
              | _ \<Rightarrow> ((CInt 2, []), w))
         | _ \<Rightarrow> ((CInt 2, []), w))
      else ((CInt 0, []), w))"

lemma alpn_lib_law: "alpn_law alpn_lib (\<lambda>_. CPtr 7) (\<lambda>w. w)"
  unfolding alpn_law_def by (intro conjI allI impI) (simp_all add: alpn_lib_def OPENSSL_NPN_NEGOTIATED_def split: option.split)


end
