(* ===== verification/Ossl_Connector.thy ===== *)
theory Ossl_Connector
  imports Ossl_Callbacks Ossl_Verify
begin

text \<open>
  The preconfigured client and server of \<open>openssl/src/ssl/connector.rs\<close> with the verification
  parameters of \<open>openssl/src/verify.rs\<close> and the library version of \<open>openssl/src/version.rs\<close>, in the
  configuration for OpenSSL 1.1.0. The matching of host names that the crate does itself under
  OpenSSL 1.0.1 is in \<open>Ossl_Verify\<close>.
\<close>

subsection \<open>Library version\<close>

definition version_number :: "'w ffi \<Rightarrow> ('w, 'e, int) eff" where
  "version_number F = and_then (ccall F ''OpenSSL_version_num'' []) (\<lambda>(r, _). ret (sint (word_of_int (c_int r) :: u64)))"

definition openssl_version :: "'w ffi \<Rightarrow> ('w, 'e, string) eff" where
  "openssl_version F = call_text F ''OpenSSL_version'' [CInt 0]"

definition openssl_c_flags :: "'w ffi \<Rightarrow> ('w, 'e, string) eff" where
  "openssl_c_flags F = call_text F ''OpenSSL_version'' [CInt 1]"

definition openssl_built_on :: "'w ffi \<Rightarrow> ('w, 'e, string) eff" where
  "openssl_built_on F = call_text F ''OpenSSL_version'' [CInt 2]"

definition openssl_platform :: "'w ffi \<Rightarrow> ('w, 'e, string) eff" where
  "openssl_platform F = call_text F ''OpenSSL_version'' [CInt 3]"

definition openssl_dir :: "'w ffi \<Rightarrow> ('w, 'e, string) eff" where
  "openssl_dir F = call_text F ''OpenSSL_version'' [CInt 4]"

subsection \<open>Verification parameters\<close>

definition X509_CHECK_FLAG_ALWAYS_CHECK_SUBJECT :: u32 where "X509_CHECK_FLAG_ALWAYS_CHECK_SUBJECT = 0x1"
definition X509_CHECK_FLAG_NO_WILDCARDS :: u32 where "X509_CHECK_FLAG_NO_WILDCARDS = 0x2"
definition X509_CHECK_FLAG_NO_PARTIAL_WILDCARDS :: u32 where "X509_CHECK_FLAG_NO_PARTIAL_WILDCARDS = 0x4"
definition X509_CHECK_FLAG_MULTI_LABEL_WILDCARDS :: u32 where "X509_CHECK_FLAG_MULTI_LABEL_WILDCARDS = 0x8"
definition X509_CHECK_FLAG_SINGLE_LABEL_SUBDOMAINS :: u32 where "X509_CHECK_FLAG_SINGLE_LABEL_SUBDOMAINS = 0x10"
definition X509_CHECK_FLAG_NEVER_CHECK_SUBJECT :: u32 where "X509_CHECK_FLAG_NEVER_CHECK_SUBJECT = 0x20"

definition set_hostflags :: "'w ffi \<Rightarrow> cval \<Rightarrow> u32 \<Rightarrow> ('w, 'e, unit) eff" where
  "set_hostflags F param hostflags = call_v F ''X509_VERIFY_PARAM_set_hostflags'' [param, CInt (uint hostflags)]"

definition set_host :: "'w ffi \<Rightarrow> cval \<Rightarrow> string \<Rightarrow> ('w, error_stack, unit) eff" where
  "set_host F param host = call_i F ''X509_VERIFY_PARAM_set1_host'' [param, CStr host, CInt (int (length host))]"

text \<open>The address is copied into a buffer of 16 bytes, of which the first 4 or all are passed.\<close>

definition set_ip :: "'w ffi \<Rightarrow> cval \<Rightarrow> ip_addr \<Rightarrow> ('w, error_stack, unit) eff" where
  "set_ip F param ip =
     (let (buf, len) =
        (case ip of
           V4 _ \<Rightarrow> (ip_octets ip @ replicate 12 0, 4)
         | V6 _ \<Rightarrow> (ip_octets ip, 16))
      in call_i F ''X509_VERIFY_PARAM_set1_ip'' [param, CBytes buf, CInt len])"

subsection \<open>Contexts\<close>

definition SSL_OP_NETSCAPE_REUSE_CIPHER_CHANGE_BUG :: u64 where "SSL_OP_NETSCAPE_REUSE_CIPHER_CHANGE_BUG = 0x00000000"
definition SSL_OP_NO_SSLV2 :: u64 where "SSL_OP_NO_SSLV2 = 0x00000000"
definition SSL_OP_SINGLE_DH_USE :: u64 where "SSL_OP_SINGLE_DH_USE = 0x00000000"
definition SSL_OP_SINGLE_ECDH_USE :: u64 where "SSL_OP_SINGLE_ECDH_USE = 0x00000000"

definition connector_options :: u64 where
  "connector_options =
     (let opts = SSL_OP_ALL;
          opts = opts AND NOT SSL_OP_NETSCAPE_REUSE_CIPHER_CHANGE_BUG;
          opts = opts AND NOT SSL_OP_DONT_INSERT_EMPTY_FRAGMENTS;
          opts = opts OR SSL_OP_NO_TICKET;
          opts = opts OR SSL_OP_NO_COMPRESSION;
          opts = opts OR SSL_OP_NO_SSLV2;
          opts = opts OR SSL_OP_NO_SSLV3;
          opts = opts OR SSL_OP_SINGLE_DH_USE;
          opts = opts OR SSL_OP_SINGLE_ECDH_USE;
          opts = opts OR SSL_OP_CIPHER_SERVER_PREFERENCE
      in opts)"

definition connector_mode :: "int \<Rightarrow> u64" where
  "connector_mode n =
     (let mode = SSL_MODE_AUTO_RETRY OR SSL_MODE_ACCEPT_MOVING_WRITE_BUFFER OR SSL_MODE_ENABLE_PARTIAL_WRITE
      in if 0x1000108f \<le> n then mode OR SSL_MODE_RELEASE_BUFFERS else mode)"

definition connector_ctx :: "'w ffi \<Rightarrow> cval \<Rightarrow> ('w, error_stack, cval) eff" where
  "connector_ctx F method =
     and_then (SslContextBuilder_new F method) (\<lambda>ctx.
     owning (SslContextBuilder_drop F ctx) (
     and_then (set_options F ctx connector_options) (\<lambda>_.
     and_then (version_number F) (\<lambda>n.
     and_then (set_mode F ctx (connector_mode n)) (\<lambda>_.
       ret ctx)))))"

definition connector_ciphers :: string where
  "connector_ciphers =
     ''TLS13-AES-256-GCM-SHA384:TLS13-CHACHA20-POLY1305-SHA256:'' @
     ''TLS13-AES-128-GCM-SHA256:'' @
     ''ECDH+AESGCM:ECDH+CHACHA20:DH+AESGCM:DH+CHACHA20:ECDH+AES256:DH+AES256:'' @
     ''ECDH+AES128:DH+AES:ECDH+HIGH:DH+HIGH:RSA+AESGCM:RSA+AES:RSA+HIGH:'' @
     ''!aNULL:!eNULL:!MD5:!3DES''"

definition setup_verify :: "'w ffi \<Rightarrow> cval \<Rightarrow> ('w, 'e, unit) eff" where
  "setup_verify F ctx = set_verify F ctx SSL_VERIFY_PEER"

definition SslConnectorBuilder_new :: "'w ffi \<Rightarrow> cval \<Rightarrow> ('w, error_stack, cval) eff" where
  "SslConnectorBuilder_new F method =
     and_then (connector_ctx F method) (\<lambda>ctx.
     owning (SslContextBuilder_drop F ctx) (
     and_then (set_default_verify_paths F ctx) (\<lambda>_.
     and_then (set_cipher_list F ctx connector_ciphers) (\<lambda>_.
     and_then (setup_verify F ctx) (\<lambda>_.
       ret ctx)))))"

subsection \<open>SslConnector\<close>

definition setup_verify_hostname :: "'w ffi \<Rightarrow> cval \<Rightarrow> string \<Rightarrow> ('w, error_stack, unit) eff" where
  "setup_verify_hostname F ssl domain =
     and_then (param_mut F ssl) (\<lambda>param.
     and_then (set_hostflags F param X509_CHECK_FLAG_NO_PARTIAL_WILDCARDS) (\<lambda>_.
     case parse_ip domain of
       Some ip \<Rightarrow> set_ip F param ip
     | None \<Rightarrow> set_host F param domain))"

text \<open>\<open>?\<close> converts the error stack of a setup step with \<open>From\<close>.\<close>

definition setup_step :: "('w, error_stack, 'a) eff \<Rightarrow> ('w, handshake_error, 'a) eff" where
  "setup_step m = on_err m (\<lambda>e. throw (SetupFailure e))"

definition configure :: "'w ffi \<Rightarrow> cval \<Rightarrow> ('w, error_stack, cval) eff" where
  "configure F ctx = Ssl_new F ctx"

text \<open>The session is dropped when a step before the handshake fails.\<close>

definition ConnectConfiguration_connect ::
  "('u, 's) tls ffi \<Rightarrow> cval \<Rightarrow> string \<Rightarrow> 's \<Rightarrow> (('u, 's) tls, handshake_error, ssl_stream) eff" where
  "ConnectConfiguration_connect F ssl domain stream =
     and_then (owning (Ssl_drop F ssl) (
       and_then (setup_step (set_hostname F ssl domain)) (\<lambda>_.
       setup_step (setup_verify_hostname F ssl domain)))) (\<lambda>_.
     Ssl_connect F ssl stream)"

definition SslConnector_connect ::
  "('u, 's) tls ffi \<Rightarrow> cval \<Rightarrow> string \<Rightarrow> 's \<Rightarrow> (('u, 's) tls, handshake_error, ssl_stream) eff" where
  "SslConnector_connect F ctx domain stream =
     and_then (setup_step (configure F ctx)) (\<lambda>ssl. ConnectConfiguration_connect F ssl domain stream)"

definition danger_connect ::
  "('u, 's) tls ffi \<Rightarrow> cval \<Rightarrow> 's \<Rightarrow> (('u, 's) tls, handshake_error, ssl_stream) eff" where
  "danger_connect F ctx stream = and_then (setup_step (configure F ctx)) (\<lambda>ssl. Ssl_connect F ssl stream)"

subsection \<open>SslAcceptor\<close>

definition DHPARAM_PEM :: string where
  "DHPARAM_PEM = concat (map (\<lambda>l. l @ [CHR 0x0A])
     ['''',
      ''-----BEGIN DH PARAMETERS-----'',
      ''MIIBCAKCAQEA//////////+t+FRYortKmq/cViAnPTzx2LnFg84tNpWp4TZBFGQz'',
      ''+8yTnc4kmz75fS/jY2MMddj2gbICrsRhetPfHtXV/WVhJDP1H18GbtCFY2VVPe0a'',
      ''87VXE15/V8k1mE8McODmi3fipona8+/och3xWKE2rec1MKzKT0g6eXq8CrGCsyT7'',
      ''YdEIqUuyyOP7uWrat2DX9GgdT0Kj3jlN9K5W7edjcrsZCwenyO4KbXCeAvzhzffi'',
      ''7MA0BM0oNC9hkXL+nOmFg/+OTxIy7vKBg8P+OxtMb61zO7X8vC7CIAXFjvGDfRaD'',
      ''ssbzSibBsu/6iGtCOGEoXJf//////////wIBAg=='',
      ''-----END DH PARAMETERS-----''])"

definition Dh_from_pem :: "'w ffi \<Rightarrow> byte list \<Rightarrow> ('w, error_stack, cval) eff" where
  "Dh_from_pem F pem =
     and_then (init F) (\<lambda>_.
     and_then (MemBioSlice_new F pem) (\<lambda>bio.
     owning (call_v F ''BIO_free_all'' [bio]) (
     and_then (call_p F ''PEM_read_bio_DHparams'' [bio, CNull, CNull, CNull]) (\<lambda>dh.
     and_then (call_v F ''BIO_free_all'' [bio]) (\<lambda>_.
       ret dh)))))"

definition setup_curves :: "'w ffi \<Rightarrow> cval \<Rightarrow> ('w, error_stack, unit) eff" where
  "setup_curves F ctx = ret ()"

definition intermediate_ciphers :: string where
  "intermediate_ciphers =
     ''ECDHE-ECDSA-CHACHA20-POLY1305:ECDHE-RSA-CHACHA20-POLY1305:'' @
     ''ECDHE-ECDSA-AES128-GCM-SHA256:ECDHE-RSA-AES128-GCM-SHA256:'' @
     ''ECDHE-ECDSA-AES256-GCM-SHA384:ECDHE-RSA-AES256-GCM-SHA384:'' @
     ''DHE-RSA-AES128-GCM-SHA256:DHE-RSA-AES256-GCM-SHA384:ECDHE-ECDSA-AES128-SHA256:'' @
     ''ECDHE-RSA-AES128-SHA256:ECDHE-ECDSA-AES128-SHA:ECDHE-RSA-AES256-SHA384:'' @
     ''ECDHE-RSA-AES128-SHA:ECDHE-ECDSA-AES256-SHA384:ECDHE-ECDSA-AES256-SHA:'' @
     ''ECDHE-RSA-AES256-SHA:DHE-RSA-AES128-SHA256:DHE-RSA-AES128-SHA:DHE-RSA-AES256-SHA256:'' @
     ''DHE-RSA-AES256-SHA:ECDHE-ECDSA-DES-CBC3-SHA:ECDHE-RSA-DES-CBC3-SHA:'' @
     ''EDH-RSA-DES-CBC3-SHA:AES128-GCM-SHA256:AES256-GCM-SHA384:AES128-SHA256:AES256-SHA256:'' @
     ''AES128-SHA:AES256-SHA:DES-CBC3-SHA:!DSS''"

definition mozilla_intermediate_raw :: "'w ffi \<Rightarrow> cval \<Rightarrow> ('w, error_stack, cval) eff" where
  "mozilla_intermediate_raw F method =
     and_then (connector_ctx F method) (\<lambda>ctx.
     owning (SslContextBuilder_drop F ctx) (
     and_then (Dh_from_pem F (map of_char DHPARAM_PEM)) (\<lambda>dh.
     and_then (owning (call_v F ''DH_free'' [dh]) (
       and_then (set_tmp_dh F ctx dh) (\<lambda>_.
       and_then (setup_curves F ctx) (\<lambda>_.
       set_cipher_list F ctx intermediate_ciphers)))) (\<lambda>_.
     and_then (call_v F ''DH_free'' [dh]) (\<lambda>_.
       ret ctx)))))"

definition modern_ciphers :: string where
  "modern_ciphers =
     ''ECDHE-ECDSA-AES256-GCM-SHA384:ECDHE-RSA-AES256-GCM-SHA384:'' @
     ''ECDHE-ECDSA-CHACHA20-POLY1305:ECDHE-RSA-CHACHA20-POLY1305:'' @
     ''ECDHE-ECDSA-AES128-GCM-SHA256:ECDHE-RSA-AES128-GCM-SHA256:ECDHE-ECDSA-AES256-SHA384:'' @
     ''ECDHE-RSA-AES256-SHA384:ECDHE-ECDSA-AES128-SHA256:ECDHE-RSA-AES128-SHA256''"

definition mozilla_modern_raw :: "'w ffi \<Rightarrow> cval \<Rightarrow> ('w, error_stack, cval) eff" where
  "mozilla_modern_raw F method =
     and_then (connector_ctx F method) (\<lambda>ctx.
     owning (SslContextBuilder_drop F ctx) (
     and_then (setup_curves F ctx) (\<lambda>_.
     and_then (set_cipher_list F ctx modern_ciphers) (\<lambda>_.
       ret ctx))))"

text \<open>\<open>X509Ref::to_owned\<close> counts one more reference.\<close>

definition X509_to_owned :: "'w ffi \<Rightarrow> cval \<Rightarrow> ('w, 'e, cval) eff" where
  "X509_to_owned F x = and_then (call_v F ''X509_up_ref'' [x]) (\<lambda>_. ret x)"

definition finish_setup :: "'w ffi \<Rightarrow> cval \<Rightarrow> cval \<Rightarrow> cval \<Rightarrow> cval list \<Rightarrow> ('w, error_stack, cval) eff" where
  "finish_setup F ctx private_key certificate chain =
     owning (SslContextBuilder_drop F ctx) (
     and_then (set_private_key F ctx private_key) (\<lambda>_.
     and_then (set_certificate F ctx certificate) (\<lambda>_.
     and_then (check_private_key F ctx) (\<lambda>_.
     and_then (for_each (\<lambda>cert. and_then (X509_to_owned F cert) (add_extra_chain_cert F ctx)) chain) (\<lambda>_.
       ret ctx)))))"

definition mozilla_intermediate ::
  "'w ffi \<Rightarrow> cval \<Rightarrow> cval \<Rightarrow> cval \<Rightarrow> cval list \<Rightarrow> ('w, error_stack, cval) eff" where
  "mozilla_intermediate F method private_key certificate chain =
     and_then (mozilla_intermediate_raw F method) (\<lambda>builder. finish_setup F builder private_key certificate chain)"

definition mozilla_modern ::
  "'w ffi \<Rightarrow> cval \<Rightarrow> cval \<Rightarrow> cval \<Rightarrow> cval list \<Rightarrow> ('w, error_stack, cval) eff" where
  "mozilla_modern F method private_key certificate chain =
     and_then (mozilla_modern_raw F method) (\<lambda>builder. finish_setup F builder private_key certificate chain)"

definition SslAcceptor_accept ::
  "('u, 's) tls ffi \<Rightarrow> cval \<Rightarrow> 's \<Rightarrow> (('u, 's) tls, handshake_error, ssl_stream) eff" where
  "SslAcceptor_accept F ctx stream = and_then (setup_step (Ssl_new F ctx)) (\<lambda>ssl. Ssl_accept F ssl stream)"

text \<open>The options word: SSL 3 and compression are off, and the workaround that is left out is.\<close>

lemma connector_options_bits:
  "connector_options AND SSL_OP_NO_SSLV3 = SSL_OP_NO_SSLV3"
  "connector_options AND SSL_OP_NO_COMPRESSION = SSL_OP_NO_COMPRESSION"
  "connector_options AND SSL_OP_NO_TICKET = SSL_OP_NO_TICKET"
  "connector_options AND SSL_OP_DONT_INSERT_EMPTY_FRAGMENTS = 0"
  "connector_options AND NOT SslOption_all = 0"
  by (simp_all add: connector_options_def option_defs SslOption_all_def SSL_OP_NETSCAPE_REUSE_CIPHER_CHANGE_BUG_def
      SSL_OP_NO_SSLV2_def SSL_OP_SINGLE_DH_USE_def SSL_OP_SINGLE_ECDH_USE_def)

end
