(* ===== verification/Tls_Laws.thy ===== *)
theory Tls_Laws
  imports Ossl_Tls
begin

text \<open>
  What the wrapper of a stream guarantees whatever OpenSSL does with it: panics of the user's
  stream cross the C library without being lost, its errors come back unchanged, and a handshake
  that is interrupted can be resumed. What is assumed of OpenSSL is that it reaches the boxed
  stream only through the callbacks it was given.
\<close>

subsection \<open>What a foreign function may do to the boxes\<close>

inductive driven :: "('u, 's) tls ffi \<Rightarrow> 's stream \<Rightarrow> ('u, 's) tls \<Rightarrow> ('u, 's) tls \<Rightarrow> bool"
  for F S w where
  none: "driven F S w w"
| inside: "driven F S w w1 \<Longrightarrow> boxes w2 = boxes w1 \<Longrightarrow> driven F S w w2"
| wrote: "driven F S w w1 \<Longrightarrow> bwrite F S bio buf len w1 = (Ok r :: (unit, int) outcome, w2) \<Longrightarrow> driven F S w w2"
| red: "driven F S w w1 \<Longrightarrow> bread F S bio len w1 = (Ok r :: (unit, int \<times> byte list) outcome, w2) \<Longrightarrow> driven F S w w2"
| put: "driven F S w w1 \<Longrightarrow> bputs F S bio buf w1 = (Ok r :: (unit, int) outcome, w2) \<Longrightarrow> driven F S w w2"
| controlled: "driven F S w w1 \<Longrightarrow> bio_ctrl F S bio cmd w1 = (Ok r :: (unit, int) outcome, w2) \<Longrightarrow> driven F S w w2"

text \<open>
  A live stream: its \<open>SSL\<close> object has the BIO \<open>bio\<close>, which holds the address of box \<open>n\<close>. The calls
  that query and mark these objects touch no box; those that do input and output touch the boxes
  through the callbacks only.
\<close>

definition quiet_calls :: "string list" where
  "quiet_calls = [''BIO_get_data'', ''SSL_get_rbio'', ''SSL_get_error'', ''BIO_set_flags'', ''BIO_clear_flags'',
     ''init'', ''ERR_get_error_line_data'']"

lemma quiet_members:
  "''BIO_get_data'' \<in> set quiet_calls" "''SSL_get_rbio'' \<in> set quiet_calls" "''SSL_get_error'' \<in> set quiet_calls"
  "''BIO_set_flags'' \<in> set quiet_calls" "''BIO_clear_flags'' \<in> set quiet_calls" "''init'' \<in> set quiet_calls"
  "''ERR_get_error_line_data'' \<in> set quiet_calls"
  by (simp_all add: quiet_calls_def)

definition io_calls :: "string list" where
  "io_calls = [''SSL_read'', ''SSL_write'', ''SSL_shutdown'', ''SSL_connect'', ''SSL_accept'', ''SSL_do_handshake'']"

definition tls_law :: "('u, 's) tls ffi \<Rightarrow> 's stream \<Rightarrow> cval \<Rightarrow> cval \<Rightarrow> nat \<Rightarrow> bool" where
  "tls_law F S ssl bio n \<longleftrightarrow>
     (\<forall>w. fst (fst (F ''SSL_get_rbio'' [ssl] w)) = bio) \<and>
     (\<forall>w. fst (fst (F ''BIO_get_data'' [bio] w)) = CPtr n) \<and>
     (\<forall>f args w. f \<in> set quiet_calls \<longrightarrow> boxes (snd (F f args w)) = boxes w) \<and>
     (\<forall>f args w. f \<in> set io_calls \<longrightarrow> driven F S w (snd (F f args w)))"

lemma tls_lawD:
  assumes "tls_law F S ssl bio n"
  shows "fst (fst (F ''SSL_get_rbio'' [ssl] w)) = bio" "fst (fst (F ''BIO_get_data'' [bio] w)) = CPtr n"
    "f \<in> set quiet_calls \<Longrightarrow> boxes (snd (F f args w)) = boxes w"
    "f \<in> set io_calls \<Longrightarrow> driven F S w (snd (F f args w))"
  using assms by (simp_all add: tls_law_def)

subsection \<open>Trapped panics\<close>

definition trapped :: "nat \<Rightarrow> ('u, 's) tls \<Rightarrow> bool" where
  "trapped n w \<longleftrightarrow> (case boxes w n of Some st \<Rightarrow> st_panic st \<noteq> None | None \<Rightarrow> False)"

lemma trapped_boxes: "boxes w' = boxes w \<Longrightarrow> trapped n w' = trapped n w"
  by (simp add: trapped_def)

lemma ccall_quiet:
  assumes "tls_law F S ssl bio n" "f \<in> set quiet_calls"
  obtains r w' where "ccall F f args w = (Ok r :: ('e, cret) outcome, w')" "F f args w = (r, w')" "boxes w' = boxes w"
  using tls_lawD(3) [OF assms] by (metis ccall_step prod.collapse)

lemma keeps_trapped_ccall:
  "tls_law F S ssl bio n \<Longrightarrow> f \<in> set quiet_calls \<Longrightarrow> keeps (trapped m) (ccall F f args)"
  using tls_lawD(3) [of F S ssl bio n f args]
  by (intro keepsI) (simp add: trapped_def ccall_def case_prod_beta)

lemma keeps_trapped_box [keeps_intros]:
  "(\<And>st. st_panic st \<noteq> None \<Longrightarrow> st_panic (f st) \<noteq> None) \<Longrightarrow> keeps (trapped m) (update_box k f)"
  by (auto intro!: keepsI simp: trapped_def update_box_def split: option.splits)

lemma keeps_trapped_stream [keeps_intros]: "keeps (trapped m) (on_stream k a)"
  by (auto intro!: keepsI simp: trapped_def on_stream_def split: option.splits prod.splits)

lemma keeps_catch_unwind [keeps_intros]: "keeps I m \<Longrightarrow> keeps I (catch_unwind m)"
  by (auto simp: keeps_def catch_unwind_def split: prod.splits outcome.splits)

lemma keeps_case_cval [keeps_intros]:
  "keeps I a \<Longrightarrow> (\<And>n. keeps I (b n)) \<Longrightarrow> keeps I c \<Longrightarrow> keeps I d \<Longrightarrow> keeps I e \<Longrightarrow>
   keeps I (case x of CNull \<Rightarrow> a | CPtr n \<Rightarrow> b n | CInt i \<Rightarrow> c | CStr s \<Rightarrow> d | CBytes y \<Rightarrow> e)"
  by (simp split: cval.split)

lemma keeps_step: "keeps I m \<Longrightarrow> m w = (r, w') \<Longrightarrow> I w \<Longrightarrow> I w'"
  by (auto simp: keeps_def)

lemma keeps_trapped_callbacks:
  assumes law: "tls_law F S ssl bio n"
  shows "keeps (trapped m) (bwrite F S b buf len)" "keeps (trapped m) (bread F S b len)"
    "keeps (trapped m) (bputs F S b buf)" "keeps (trapped m) (bio_ctrl F S b cmd)"
proof -
  note quiet = keeps_trapped_ccall [OF law, unfolded quiet_calls_def]
  have state: "keeps (trapped m) (bio_state F b)"
    unfolding bio_state_def by (intro keeps_intros quiet) simp
  show w: "keeps (trapped m) (bwrite F S b buf len)" for buf len
    unfolding bwrite_def BIO_clear_retry_flags_def BIO_set_retry_write_def by (intro keeps_intros quiet state) simp_all
  then show "keeps (trapped m) (bputs F S b buf)" by (simp add: bputs_def)
  show "keeps (trapped m) (bread F S b len)"
    unfolding bread_def BIO_clear_retry_flags_def BIO_set_retry_read_def by (intro keeps_intros quiet state) simp_all
  show "keeps (trapped m) (bio_ctrl F S b cmd)"
    unfolding bio_ctrl_def by (intro keeps_intros state) simp_all
qed

text \<open>No callback and no foreign function forgets a trapped panic.\<close>

lemma driven_trapped:
  assumes law: "tls_law F S ssl bio n"
  shows "driven F S w w' \<Longrightarrow> trapped m w \<Longrightarrow> trapped m w'"
proof (induction rule: driven.induct)
  case (inside w1 w2)
  with trapped_boxes [of w2 w1 m] show ?case by simp
next
  case (wrote w1 b buf len r w2)
  then show ?case by (blast intro: keeps_step [OF keeps_trapped_callbacks(1) [OF law]])
next
  case (red w1 b len r w2)
  then show ?case by (blast intro: keeps_step [OF keeps_trapped_callbacks(2) [OF law]])
next
  case (put w1 b buf r w2)
  then show ?case by (blast intro: keeps_step [OF keeps_trapped_callbacks(3) [OF law]])
next
  case (controlled w1 b cmd r w2)
  then show ?case by (blast intro: keeps_step [OF keeps_trapped_callbacks(4) [OF law]])
qed

lemma io_call_trapped:
  assumes "tls_law F S ssl bio n" "f \<in> set io_calls" "trapped m w"
  shows "trapped m (snd (F f args w))"
  by (rule driven_trapped [OF assms(1) tls_lawD(4) [OF assms(1,2)] assms(3)])

lemma bio_state_run:
  assumes "tls_law F S ssl bio n"
  obtains w' where "bio_state F bio w = (Ok n :: ('e, nat) outcome, w')" "boxes w' = boxes w"
proof -
  have "''BIO_get_data'' \<in> set quiet_calls" by (simp add: quiet_calls_def)
  then obtain r w' where "ccall F ''BIO_get_data'' [bio] w = (Ok r :: ('e, cret) outcome, w')"
    "F ''BIO_get_data'' [bio] w = (r, w')" "boxes w' = boxes w"
    by (rule ccall_quiet [OF assms])
  with tls_lawD(2) [OF assms, of w] show thesis
    by (intro that [of w']) (auto simp: bio_state_def and_then_def case_prod_beta)
qed

lemma get_raw_rbio_run:
  assumes "tls_law F S ssl bio n"
  obtains w' where "get_raw_rbio F ssl w = (Ok bio :: ('e, cval) outcome, w')" "boxes w' = boxes w"
proof -
  have "''SSL_get_rbio'' \<in> set quiet_calls" by (simp add: quiet_calls_def)
  then obtain r w' where "ccall F ''SSL_get_rbio'' [ssl] w = (Ok r :: ('e, cret) outcome, w')"
    "F ''SSL_get_rbio'' [ssl] w = (r, w')" "boxes w' = boxes w"
    by (rule ccall_quiet [OF assms])
  with tls_lawD(1) [OF assms, of w] show thesis
    by (intro that [of w']) (auto simp: get_raw_rbio_def and_then_def case_prod_beta)
qed

lemma check_panic_run:
  assumes law: "tls_law F S ssl bio n" and str: "ss_ssl str = ssl" and st: "boxes w n = Some st"
  obtains w' where "check_panic F str w = (if st_panic st = None then Ok () else Panic :: ('e, unit) outcome, w')"
    "boxes w' = (boxes w)(n \<mapsto> st\<lparr>st_panic := None\<rparr>)"
proof -
  obtain w1 where w1: "get_raw_rbio F ssl w = (Ok bio :: ('e, cval) outcome, w1)" "boxes w1 = boxes w"
    by (rule get_raw_rbio_run [OF law])
  obtain w2 where w2: "bio_state F bio w1 = (Ok n :: ('e, nat) outcome, w2)" "boxes w2 = boxes w1"
    by (rule bio_state_run [OF law])
  let ?w3 = "w2\<lparr>boxes := (boxes w)(n \<mapsto> st\<lparr>st_panic := None\<rparr>)\<rparr>"
  have "take_panic F bio w1 = (Ok (st_panic st) :: ('e, unit option) outcome, ?w3)"
    using w1(2) w2 st by (simp add: take_panic_def and_then_def read_box_def update_box_def)
  with w1(1) str show thesis
    by (intro that [of ?w3]) (auto simp: check_panic_def and_then_def split: option.split)
qed

text \<open>
  An operation is loud about box \<open>n\<close>: started while a panic is trapped in it, it raises the panic,
  or succeeds and leaves it trapped; it never returns an error instead.
\<close>

definition loud :: "nat \<Rightarrow> (('u, 's) tls, 'e, 'a) eff \<Rightarrow> bool" where
  "loud n m \<longleftrightarrow> (\<forall>w. trapped n w \<longrightarrow> (case m w of (Ok _, w') \<Rightarrow> trapped n w' | (Panic, _) \<Rightarrow> True | _ \<Rightarrow> False))"

lemma loudI:
  "(\<And>w r w'. trapped n w \<Longrightarrow> m w = (r, w') \<Longrightarrow> r = Panic \<or> (\<exists>a. r = Ok a) \<and> trapped n w') \<Longrightarrow> loud n m"
  by (auto simp: loud_def split: prod.split outcome.split)

lemma loudD: "loud n m \<Longrightarrow> trapped n w \<Longrightarrow> m w = (r, w') \<Longrightarrow> r = Panic \<or> (\<exists>a. r = Ok a) \<and> trapped n w'"
  by (cases r) (auto simp: loud_def split: prod.splits dest: spec [of _ w])

lemma loud_ret [simp]: "loud n (ret a)"
  by (simp add: loud_def)

lemma loud_and_then:
  assumes "loud n m" "\<And>a. loud n (f a)"
  shows "loud n (and_then m f)"
proof (rule loudI)
  fix w r w' assume w: "trapped n w" "and_then m f w = (r, w')"
  obtain r1 w1 where m: "m w = (r1, w1)" by fastforce
  from loudD [OF assms(1) w(1) m] m w(2) show "r = Panic \<or> (\<exists>a. r = Ok a) \<and> trapped n w'"
    by (auto simp: and_then_def dest: loudD [OF assms(2)])
qed

lemma loud_if: "loud n a \<Longrightarrow> loud n b \<Longrightarrow> loud n (if c then a else b)"
  by simp

lemma loud_on_err: "loud n m \<Longrightarrow> loud n (on_err m h)"
  by (rule loudI) (auto simp: on_err_def split: prod.splits outcome.splits dest: loudD)

lemma loud_io_call:
  assumes "tls_law F S ssl bio n" "f \<in> set io_calls"
  shows "loud n (ccall F f args)"
  using io_call_trapped [OF assms] by (simp add: loud_def ccall_def case_prod_beta)

text \<open>What is to be turned into an error raises the trapped panic first.\<close>

lemma make_error_raises:
  assumes law: "tls_law F S ssl bio n" and str: "ss_ssl str = ssl" and trap: "trapped n w"
  obtains w' where "make_error F str r w = (Panic :: ('e, ssl_error) outcome, w')"
proof -
  from trap obtain st where st: "boxes w n = Some st" "st_panic st \<noteq> None"
    by (auto simp: trapped_def split: option.splits)
  obtain w' where "check_panic F str w = (if st_panic st = None then Ok () else Panic :: ('e, unit) outcome, w')"
    by (rule check_panic_run [OF law str st(1)])
  with st(2) show thesis by (intro that [of w']) (simp add: make_error_def and_then_def)
qed

lemma loud_make_error:
  assumes "tls_law F S ssl bio n" "ss_ssl str = ssl"
  shows "loud n (and_then (make_error F str r) h :: (_, 'c, _) eff)"
proof (rule loudI)
  fix w r' w' assume w: "trapped n w" "and_then (make_error F str r) h w = (r', w')"
  obtain w1 where "make_error F str r w = (Panic :: ('c, ssl_error) outcome, w1)"
    by (rule make_error_raises [OF assms w(1)])
  with w(2) show "r' = Panic \<or> (\<exists>a. r' = Ok a) \<and> trapped n w'" by (simp add: and_then_def)
qed

lemma unwinding_panics:
  assumes "m w = (Panic, w1)"
  obtains w' where "unwinding (SslStream_drop F str) m w = (Panic, w')"
  using assms by (simp add: unwinding_def SslStream_drop_def Ssl_drop_def BioMethod_drop_def and_then_def ccall_def
      case_prod_beta)

lemma loud_unwinding:
  assumes "loud n m"
  shows "loud n (unwinding (SslStream_drop F str) m)"
proof (rule loudI)
  fix w r w' assume w: "trapped n w" "unwinding (SslStream_drop F str) m w = (r, w')"
  obtain r1 w1 where m: "m w = (r1, w1)" by fastforce
  show "r = Panic \<or> (\<exists>a. r = Ok a) \<and> trapped n w'"
  proof (cases "r1 = Panic")
    case True
    with m w(2) unwinding_panics [of m w w1 F str] show ?thesis by (metis prod.inject)
  next
    case False
    with loudD [OF assms w(1) m] m w(2) show ?thesis by (auto simp: unwinding_def)
  qed
qed

lemma loud_case_prod: "(\<And>a b. loud n (f a b)) \<Longrightarrow> loud n (case x of (a, b) \<Rightarrow> f a b)"
  by (simp split: prod.split)

lemmas loud_intros = loud_and_then loud_if loud_on_err loud_case_prod loud_ret loud_unwinding

lemma clear_retry_run:
  assumes "tls_law F S ssl bio n"
  obtains w' where "BIO_clear_retry_flags F bio w = (Ok () :: ('e, unit) outcome, w')" "boxes w' = boxes w"
proof -
  have "''BIO_clear_flags'' \<in> set quiet_calls" by (simp add: quiet_calls_def)
  then obtain r w' where
    "ccall F ''BIO_clear_flags'' [bio, CInt (sint (BIO_FLAGS_RWS OR BIO_FLAGS_SHOULD_RETRY))] w = (Ok r :: ('e, cret) outcome, w')"
    "boxes w' = boxes w"
    by (rule ccall_quiet [OF assms])
  then show thesis by (intro that [of w']) (simp_all add: BIO_clear_retry_flags_def and_then_def)
qed

lemma callback_traps:
  assumes law: "tls_law F S ssl bio n" and st: "boxes w n = Some st"
  shows "s_write S (take (usize_of_c_int len) buf) (st_stream st) = (Panic, s') \<Longrightarrow>
      \<exists>w'. bwrite F S bio buf len w = (Ok (-1) :: ('e, int) outcome, w') \<and> trapped n w'"
    "s_read S (usize_of_c_int len) (st_stream st) = (Panic, s') \<Longrightarrow>
      \<exists>w'. bread F S bio len w = (Ok (-1, []) :: ('e, int \<times> byte list) outcome, w') \<and> trapped n w'"
    "s_flush S (st_stream st) = (Panic, s') \<Longrightarrow>
      \<exists>w'. bio_ctrl F S bio BIO_CTRL_FLUSH w = (Ok 0 :: ('e, int) outcome, w') \<and> trapped n w'"
proof -
  obtain w1 where w1: "BIO_clear_retry_flags F bio w = (Ok () :: ('e, unit) outcome, w1)" "boxes w1 = boxes w"
    by (rule clear_retry_run [OF law])
  obtain w2 where w2: "bio_state F bio w1 = (Ok n :: ('e, nat) outcome, w2)" "boxes w2 = boxes w1"
    by (rule bio_state_run [OF law])
  obtain w3 where w3: "bio_state F bio w = (Ok n :: ('e, nat) outcome, w3)" "boxes w3 = boxes w"
    by (rule bio_state_run [OF law])
  note run = and_then_def catch_unwind_def on_stream_def update_box_def trapped_def
  show "s_write S (take (usize_of_c_int len) buf) (st_stream st) = (Panic, s') \<Longrightarrow>
      \<exists>w'. bwrite F S bio buf len w = (Ok (-1) :: ('e, int) outcome, w') \<and> trapped n w'"
    using w1 w2 st by (simp add: bwrite_def run)
  show "s_read S (usize_of_c_int len) (st_stream st) = (Panic, s') \<Longrightarrow>
      \<exists>w'. bread F S bio len w = (Ok (-1, []) :: ('e, int \<times> byte list) outcome, w') \<and> trapped n w'"
    using w1 w2 st by (simp add: bread_def run)
  show "s_flush S (st_stream st) = (Panic, s') \<Longrightarrow>
      \<exists>w'. bio_ctrl F S bio BIO_CTRL_FLUSH w = (Ok 0 :: ('e, int) outcome, w') \<and> trapped n w'"
    using w3 st by (simp add: bio_ctrl_def run)
qed

subsection \<open>Properties\<close>

text \<open>
  C27: a panic of the user's stream is never swallowed. When a method of the stream panics inside a
  callback, the callback returns to OpenSSL normally and the panic is kept; whatever else OpenSSL
  and the callbacks do, the next read, write, shutdown or handshake on the stream that does not
  succeed raises it, and never returns an error in its place.
\<close>

theorem panic_is_never_swallowed:
  assumes law: "tls_law F S ssl bio n" and str: "ss_ssl str = ssl"
  shows "(\<forall>w st buf len s'. boxes w n = Some st \<longrightarrow> s_write S (take (usize_of_c_int len) buf) (st_stream st) = (Panic, s') \<longrightarrow>
      (\<exists>w'. bwrite F S bio buf len w = (Ok (-1) :: (unit, int) outcome, w') \<and> trapped n w')) \<and>
    (\<forall>w st len s'. boxes w n = Some st \<longrightarrow> s_read S (usize_of_c_int len) (st_stream st) = (Panic, s') \<longrightarrow>
      (\<exists>w'. bread F S bio len w = (Ok (-1, []) :: (unit, int \<times> byte list) outcome, w') \<and> trapped n w')) \<and>
    (\<forall>w st s'. boxes w n = Some st \<longrightarrow> s_flush S (st_stream st) = (Panic, s') \<longrightarrow>
      (\<exists>w'. bio_ctrl F S bio BIO_CTRL_FLUSH w = (Ok 0 :: (unit, int) outcome, w') \<and> trapped n w')) \<and>
    loud n (io_read F str buf) \<and> loud n (io_write F str buf) \<and> loud n (ssl_shutdown F str) \<and>
    loud n (handshake F \<lparr>mid_stream = str, mid_error = e\<rparr>)"
proof (intro conjI allI impI)
  note io = loud_io_call [OF law, unfolded io_calls_def] and err = loud_make_error [OF law str]
  show "loud n (io_read F str buf)"
    unfolding io_read_def ssl_read_def SslRef_read_def Let_def by (intro loud_intros io err) simp
  show "loud n (io_write F str buf)"
    unfolding io_write_def ssl_write_def SslRef_write_def Let_def by (intro loud_intros io err) simp
  show "loud n (ssl_shutdown F str)"
    unfolding ssl_shutdown_def by (intro loud_intros io err) simp
  show "loud n (handshake F \<lparr>mid_stream = str, mid_error = e\<rparr>)"
    unfolding handshake_def handshake_result_def mid_handshake.select_convs by (intro loud_intros io err) simp
qed (use callback_traps [OF law] in blast)+

subsection \<open>Errors of the stream\<close>

text \<open>
  The code \<open>SSL_get_error\<close> gives for a failed call, asked after the wrapper has looked for a
  trapped panic.
\<close>

definition error_code :: "'w ffi \<Rightarrow> cval \<Rightarrow> cval \<Rightarrow> int \<Rightarrow> 'w \<Rightarrow> int" where
  "error_code F ssl bio r w =
     c_int (fst (fst (F ''SSL_get_error'' [ssl, CInt r]
       (snd (F ''BIO_get_data'' [bio] (snd (F ''SSL_get_rbio'' [ssl] w)))))))"

definition empty_queue :: "'w ffi \<Rightarrow> bool" where
  "empty_queue F \<longleftrightarrow> (\<forall>w. c_int (fst (fst (F ''ERR_get_error_line_data'' [] w))) = 0)"

lemma error_stack_now_run:
  assumes law: "tls_law F S ssl bio n" and q: "empty_queue F"
  obtains w' where "error_stack_now F w = (Ok [] :: ('e, error_stack) outcome, w')" "boxes w' = boxes w"
proof -
  let ?w1 = "snd (F ''init'' [] w)"
  let ?w2 = "snd (F ''ERR_get_error_line_data'' [] ?w1)"
  have "Error_get F w = (Ok None, ?w2)"
    using q by (simp add: Error_get_def and_then_def ccall_def case_prod_beta empty_queue_def)
  then have "ErrorStack_get F w = (Ok [], ?w2)"
    by (simp add: ErrorStack_get_def drain.simps)
  moreover have "boxes ?w2 = boxes w" by (simp add: tls_lawD(3) [OF law] quiet_calls_def)
  ultimately show thesis by (intro that [of ?w2]) (simp_all add: error_stack_now_def on_err_def)
qed

lemma get_bio_error_run:
  assumes law: "tls_law F S ssl bio n" and str: "ss_ssl str = ssl" and st: "boxes w n = Some st"
  obtains w' where "get_bio_error F str w = (Ok (st_error st) :: ('e, io_err option) outcome, w')"
    "boxes w' = (boxes w)(n \<mapsto> st\<lparr>st_error := None\<rparr>)"
proof -
  obtain w1 where w1: "get_raw_rbio F ssl w = (Ok bio :: ('e, cval) outcome, w1)" "boxes w1 = boxes w"
    by (rule get_raw_rbio_run [OF law])
  obtain w2 where w2: "bio_state F bio w1 = (Ok n :: ('e, nat) outcome, w2)" "boxes w2 = boxes w1"
    by (rule bio_state_run [OF law])
  let ?w3 = "w2\<lparr>boxes := (boxes w)(n \<mapsto> st\<lparr>st_error := None\<rparr>)\<rparr>"
  have "take_error F bio w1 = (Ok (st_error st) :: ('e, io_err option) outcome, ?w3)"
    using w1(2) w2 st by (simp add: take_error_def and_then_def read_box_def update_box_def)
  with w1(1) str show thesis
    by (intro that [of ?w3]) (simp_all add: get_bio_error_def and_then_def)
qed

text \<open>
  The error made of a stored error and a code: a code that asks to retry or blames the system
  gives back the stored error, the others do not concern it.
\<close>

definition error_for :: "int \<Rightarrow> io_err \<Rightarrow> ssl_error" where
  "error_for c e =
     (if c = SSL_ERROR_WANT_READ then WantRead e
      else if c = SSL_ERROR_WANT_WRITE then WantWrite e
      else if c = SSL_ERROR_SYSCALL then Stream e
      else if c = SSL_ERROR_ZERO_RETURN then ZeroReturn
      else if c = SSL_ERROR_SSL then Ssl []
      else Stream (Io InvalidData (''unexpected error '' @ show_int c)))"

definition concerns_stream :: "int \<Rightarrow> bool" where
  "concerns_stream c \<longleftrightarrow> c \<in> {SSL_ERROR_WANT_READ, SSL_ERROR_WANT_WRITE, SSL_ERROR_SYSCALL}"

lemmas code_defs = SSL_ERROR_WANT_READ_def SSL_ERROR_WANT_WRITE_def SSL_ERROR_SYSCALL_def SSL_ERROR_ZERO_RETURN_def
  SSL_ERROR_SSL_def

lemma make_error_run:
  assumes law: "tls_law F S ssl bio n" and str: "ss_ssl str = ssl" and q: "empty_queue F"
    and st: "boxes w n = Some st" "st_panic st = None" "st_error st = Some e"
    and c: "c = error_code F ssl bio r w"
  obtains w' where "make_error F str r w = (Ok (error_for c e) :: ('e, ssl_error) outcome, w')"
    "boxes w' = (if concerns_stream c then (boxes w)(n \<mapsto> st\<lparr>st_error := None\<rparr>) else boxes w)"
proof -
  let ?w1 = "snd (F ''SSL_get_rbio'' [ssl] w)"
  let ?w2 = "snd (F ''BIO_get_data'' [bio] ?w1)"
  have boxes: "boxes ?w1 = boxes w" "boxes ?w2 = boxes w" by (simp_all add: tls_lawD(3) [OF law] quiet_calls_def)
  have same: "st\<lparr>st_panic := None\<rparr> = st" using st(2) by (cases st) simp
  have "?w2\<lparr>boxes := (boxes w)(n \<mapsto> st\<lparr>st_panic := None\<rparr>)\<rparr> = ?w2"
    unfolding same using boxes(2) st(1) by (cases ?w2) (simp add: fun_upd_idem)
  then have chk: "check_panic F str w = (Ok () :: ('e, unit) outcome, ?w2)"
    using boxes st str
    by (simp add: check_panic_def get_raw_rbio_def take_panic_def bio_state_def and_then_def ccall_def case_prod_beta
        tls_lawD(1,2) [OF law] read_box_def update_box_def)
  let ?w3 = "snd (F ''SSL_get_error'' [ssl, CInt r] ?w2)"
  have get: "get_error F ssl r ?w2 = (Ok c :: ('e, int) outcome, ?w3)" "boxes ?w3 = boxes w"
    using c boxes(2) by (simp_all add: get_error_def error_code_def and_then_def ccall_def case_prod_beta
        tls_lawD(3) [OF law] quiet_calls_def)
  obtain w4 where now: "error_stack_now F ?w3 = (Ok [] :: ('e, error_stack) outcome, w4)" "boxes w4 = boxes ?w3"
    by (rule error_stack_now_run [OF law q])
  have st3: "boxes ?w3 n = Some st" "boxes w4 n = Some st" using st(1) get(2) now(2) by simp_all
  obtain w5 where take3: "get_bio_error F str ?w3 = (Ok (st_error st) :: ('e, io_err option) outcome, w5)"
    "boxes w5 = (boxes ?w3)(n \<mapsto> st\<lparr>st_error := None\<rparr>)"
    by (rule get_bio_error_run [OF law str st3(1)])
  obtain w6 where take4: "get_bio_error F str w4 = (Ok (st_error st) :: ('e, io_err option) outcome, w6)"
    "boxes w6 = (boxes w4)(n \<mapsto> st\<lparr>st_error := None\<rparr>)"
    by (rule get_bio_error_run [OF law str st3(2)])
  note step = make_error_def and_then_def chk get(1) str error_for_def concerns_stream_def code_defs
  consider "c = SSL_ERROR_WANT_READ \<or> c = SSL_ERROR_WANT_WRITE" | "c = SSL_ERROR_SYSCALL" | "c = SSL_ERROR_SSL"
    | "c \<notin> {SSL_ERROR_WANT_READ, SSL_ERROR_WANT_WRITE, SSL_ERROR_SYSCALL, SSL_ERROR_SSL}" by blast
  then show thesis
  proof cases
    case 1
    then show thesis using take3 st(3) get(2) by (intro that [of w5]) (auto simp: step)
  next
    case 2
    then show thesis using now take4 st(3) get(2) by (intro that [of w6]) (auto simp: step)
  next
    case 3
    then show thesis using now get(2) by (intro that [of w4]) (auto simp: step)
  next
    case 4
    then show thesis using get(2) by (intro that [of ?w3]) (auto simp: step)
  qed
qed


subsection \<open>Resuming a handshake\<close>

text \<open>
  What a caller with a non-blocking stream does: resume an interrupted handshake, up to \<open>k\<close> times.
\<close>

fun resume ::
  "('u, 's) tls ffi \<Rightarrow> nat \<Rightarrow> (('u, 's) tls, handshake_error, ssl_stream) eff \<Rightarrow>
   (('u, 's) tls, handshake_error, ssl_stream) eff" where
  "resume F 0 m = m"
| "resume F (Suc k) m =
     on_err m (\<lambda>e. case e of Interrupted mid \<Rightarrow> resume F k (handshake F mid) | _ \<Rightarrow> throw e)"

text \<open>
  A handshake that waits for the peer \<open>left\<close> more times: until then \<open>SSL_do_handshake\<close> fails and
  asks to be retried, with an error of the stream stored and nothing trapped.
\<close>

definition calm :: "nat \<Rightarrow> ('u, 's) tls \<Rightarrow> bool" where
  "calm n w \<longleftrightarrow> (case boxes w n of Some st \<Rightarrow> st_panic st = None | None \<Rightarrow> False)"

definition waits :: "('u, 's) tls ffi \<Rightarrow> cval \<Rightarrow> cval \<Rightarrow> nat \<Rightarrow> (('u, 's) tls \<Rightarrow> nat) \<Rightarrow> bool" where
  "waits F ssl bio n left \<longleftrightarrow>
     (\<forall>w w'. c_side w' = c_side w \<longrightarrow> left w' = left w) \<and>
     (\<forall>f args w. f \<in> set quiet_calls \<longrightarrow> left (snd (F f args w)) = left w) \<and>
     (\<forall>w. left w = 0 \<longrightarrow> 0 < c_int (fst (fst (F ''SSL_do_handshake'' [ssl] w)))) \<and>
     (\<forall>w k. left w = Suc k \<longrightarrow> calm n w \<longrightarrow> (\<exists>r w' st e.
        F ''SSL_do_handshake'' [ssl] w = ((CInt r, []), w') \<and> r \<le> 0 \<and> left w' = k \<and>
        boxes w' n = Some st \<and> st_panic st = None \<and> st_error st = Some e \<and>
        error_code F ssl bio r w' \<in> {SSL_ERROR_WANT_READ, SSL_ERROR_WANT_WRITE}))"

lemma waitsD:
  assumes "waits F ssl bio n left"
  shows "c_side w' = c_side w \<Longrightarrow> left w' = left w"
    "f \<in> set quiet_calls \<Longrightarrow> left (snd (F f args w)) = left w"
    "left w = 0 \<Longrightarrow> 0 < c_int (fst (fst (F ''SSL_do_handshake'' [ssl] w)))"
    "left w = Suc k \<Longrightarrow> calm n w \<Longrightarrow> \<exists>r w' st e.
        F ''SSL_do_handshake'' [ssl] w = ((CInt r, []), w') \<and> r \<le> 0 \<and> left w' = k \<and>
        boxes w' n = Some st \<and> st_panic st = None \<and> st_error st = Some e \<and>
        error_code F ssl bio r w' \<in> {SSL_ERROR_WANT_READ, SSL_ERROR_WANT_WRITE}"
proof -
  note law = assms [unfolded waits_def]
  show "c_side w' = c_side w \<Longrightarrow> left w' = left w" by (rule conjunct1 [OF law, rule_format])
  show "f \<in> set quiet_calls \<Longrightarrow> left (snd (F f args w)) = left w"
    by (rule conjunct1 [OF conjunct2 [OF law], rule_format])
  show "left w = 0 \<Longrightarrow> 0 < c_int (fst (fst (F ''SSL_do_handshake'' [ssl] w)))"
    by (rule conjunct1 [OF conjunct2 [OF conjunct2 [OF law]], rule_format])
  show "left w = Suc k \<Longrightarrow> calm n w \<Longrightarrow> \<exists>r w' st e.
        F ''SSL_do_handshake'' [ssl] w = ((CInt r, []), w') \<and> r \<le> 0 \<and> left w' = k \<and>
        boxes w' n = Some st \<and> st_panic st = None \<and> st_error st = Some e \<and>
        error_code F ssl bio r w' \<in> {SSL_ERROR_WANT_READ, SSL_ERROR_WANT_WRITE}"
    by (rule conjunct2 [OF conjunct2 [OF conjunct2 [OF law]], rule_format])
qed

lemma keeps_left:
  assumes law: "waits F ssl bio n left"
  shows "keeps (\<lambda>w. left w = k) (make_error F str r)"
proof -
  have call: "keeps (\<lambda>w. left w = k) (ccall F f args)" if "f \<in> set quiet_calls" for f args
    using waitsD(2) [OF law that] by (simp add: keeps_def ccall_def case_prod_beta)
  note quiet = quiet_members [THEN call]
  have "left (w\<lparr>boxes := b\<rparr>) = left w" for w b by (rule waitsD(1) [OF law]) simp
  then have box: "keeps (\<lambda>w. left w = k) (update_box m f)" for m f
    by (simp add: keeps_def update_box_def split: option.split)
  have peek: "keeps (\<lambda>w. left w = k) (read_box m)" for m
    by (auto simp: keeps_def read_box_def split: option.split)
  have stack: "keeps (\<lambda>w. left w = k) (ErrorStack_get F)"
    by (rule Error_get_ErrorStack_get) (unfold Error_get_def Let_def, intro keeps_intros quiet)
  have state: "keeps (\<lambda>w. left w = k) (bio_state F b)" for b
    unfolding bio_state_def by (intro keeps_intros quiet)
  have chk: "keeps (\<lambda>w. left w = k) (check_panic F str)"
    unfolding check_panic_def get_raw_rbio_def take_panic_def by (intro keeps_intros quiet box peek state)
  have bio: "keeps (\<lambda>w. left w = k) (get_bio_error F str)"
    unfolding get_bio_error_def get_raw_rbio_def take_error_def by (intro keeps_intros quiet box peek state)
  have now: "keeps (\<lambda>w. left w = k) (error_stack_now F)"
    unfolding error_stack_now_def by (intro keeps_intros stack)
  have get: "keeps (\<lambda>w. left w = k) (get_error F ssl r)" for ssl r
    unfolding get_error_def by (intro keeps_intros quiet)
  show ?thesis
    unfolding make_error_def by (intro keeps_intros chk bio now get)
qed


subsection \<open>A concrete library\<close>

text \<open>
  A library with one connection over a stream that always blocks, or, when its state says so,
  panics on writing. Its reads and writes go through the callbacks; its handshake has to wait as
  often as the C side counts, and reads from the stream each time.
\<close>

definition blocked :: io_err where "blocked = Io WouldBlock ''try again''"

definition demo_stream :: "bool stream" where
  "demo_stream = \<lparr>s_write = (\<lambda>buf s. (if s then Panic else Err blocked, s)), s_read = (\<lambda>len s. (Err blocked, s)),
     s_flush = (\<lambda>s. (Ok (), s))\<rparr>"

definition tls_quiet :: "(nat, bool) tls ffi" where
  "tls_quiet f args w =
     (if f = ''SSL_get_rbio'' then ((CPtr 2, []), w)
      else if f = ''BIO_get_data'' then ((CPtr 0, []), w)
      else if f = ''SSL_get_error'' then ((CInt SSL_ERROR_WANT_READ, []), w)
      else ((CInt 0, []), w))"

definition tls_demo :: "(nat, bool) tls ffi" where
  "tls_demo f args w =
     (let blk = (case bread tls_quiet demo_stream (CPtr 2) 1 w of (Ok (r, _) :: (unit, int \<times> byte list) outcome, w') \<Rightarrow> ((CInt r, []), w')
                 | _ \<Rightarrow> ((CInt 0, []), w)) in
      if f = ''SSL_read'' then blk
      else if f = ''SSL_write'' then
        (case bwrite tls_quiet demo_stream (CPtr 2) [] 0 w of (Ok r :: (unit, int) outcome, w') \<Rightarrow> ((CInt r, []), w')
         | _ \<Rightarrow> ((CInt 0, []), w))
      else if f = ''SSL_do_handshake'' then
        (if c_side w = 0 then ((CInt 1, []), w)
         else ((CInt (-1), []), (snd blk)\<lparr>c_side := c_side w - 1\<rparr>))
      else tls_quiet f args w)"

definition demo_box :: "bool \<Rightarrow> nat \<Rightarrow> (nat, bool) tls" where
  "demo_box s k = \<lparr>c_side = k, boxes = [0 \<mapsto> \<lparr>st_stream = s, st_error = None, st_panic = None\<rparr>], next_box = 1\<rparr>"

lemma tls_demo_quiet:
  "f \<notin> {''SSL_read'', ''SSL_write'', ''SSL_do_handshake''} \<Longrightarrow> tls_demo f args w = tls_quiet f args w"
  by (simp add: tls_demo_def)

lemma tls_demo_ccall:
  "ccall tls_demo ''BIO_clear_flags'' args = ccall tls_quiet ''BIO_clear_flags'' args"
  "ccall tls_demo ''BIO_set_flags'' args = ccall tls_quiet ''BIO_set_flags'' args"
  "ccall tls_demo ''BIO_get_data'' args = ccall tls_quiet ''BIO_get_data'' args"
  by (simp_all add: fun_eq_iff ccall_def tls_demo_quiet)

lemma tls_demo_callbacks:
  "bwrite tls_demo demo_stream b buf len = bwrite tls_quiet demo_stream b buf len"
  "bread tls_demo demo_stream b len = bread tls_quiet demo_stream b len"
  unfolding bwrite_def bread_def BIO_clear_retry_flags_def bio_state_def BIO_set_retry_write_def
    BIO_set_retry_read_def tls_demo_ccall
  by (rule refl)+

lemma tls_quiet_state: "snd (tls_quiet f args w) = w"
  by (simp add: tls_quiet_def)

lemma demo_driven: "driven tls_demo demo_stream w (snd (tls_demo f args w))"
proof -
  have blk: "driven tls_demo demo_stream w (snd (case bread tls_quiet demo_stream (CPtr 2) 1 w of
        (Ok (r, _) :: (unit, int \<times> byte list) outcome, w') \<Rightarrow> ((CInt r, []), w') | _ \<Rightarrow> ((CInt 0, []), w)))"
    by (auto simp flip: tls_demo_callbacks intro: driven.red [OF driven.none] driven.none split: prod.split outcome.split)
  moreover have "driven tls_demo demo_stream w (snd (case bwrite tls_quiet demo_stream (CPtr 2) [] 0 w of
        (Ok r :: (unit, int) outcome, w') \<Rightarrow> ((CInt r, []), w') | _ \<Rightarrow> ((CInt 0, []), w)))"
    by (auto simp flip: tls_demo_callbacks intro: driven.wrote [OF driven.none] driven.none split: prod.split outcome.split)
  ultimately show ?thesis
    by (auto simp: tls_demo_def Let_def tls_quiet_state intro: driven.none driven.inside)
qed

lemma demo_tls_law: "tls_law tls_demo demo_stream (CPtr 7) (CPtr 2) 0"
  unfolding tls_law_def
proof (intro conjI allI impI)
  fix f args w assume "f \<in> set quiet_calls"
  then have "f \<notin> {''SSL_read'', ''SSL_write'', ''SSL_do_handshake''}" by (auto simp: quiet_calls_def)
  then show "boxes (snd (tls_demo f args w)) = boxes w" by (simp add: tls_demo_quiet tls_quiet_state)
qed (simp_all add: tls_demo_quiet tls_quiet_def demo_driven)

lemma demo_empty_queue: "empty_queue tls_demo"
  by (simp add: empty_queue_def tls_demo_quiet tls_quiet_def)

lemma demo_blocks:
  assumes "boxes w 0 = Some st"
  shows "bread tls_quiet demo_stream (CPtr 2) 1 w =
    (Ok (-1, []) :: (unit, int \<times> byte list) outcome, w\<lparr>boxes := (boxes w)(0 \<mapsto> st\<lparr>st_error := Some blocked\<rparr>)\<rparr>)"
  using assms
  by (simp add: bread_def BIO_clear_retry_flags_def bio_state_def BIO_set_retry_read_def and_then_def ccall_def
      tls_quiet_def catch_unwind_def on_stream_def update_box_def demo_stream_def)

lemma demo_code: "error_code tls_demo (CPtr 7) (CPtr 2) r w = SSL_ERROR_WANT_READ"
  by (simp add: error_code_def tls_demo_quiet tls_quiet_def)

lemma demo_waits: "waits tls_demo (CPtr 7) (CPtr 2) 0 c_side"
  unfolding waits_def
proof (intro conjI allI impI)
  fix f args and w :: "(nat, bool) tls" assume "f \<in> set quiet_calls"
  then have "f \<notin> {''SSL_read'', ''SSL_write'', ''SSL_do_handshake''}" by (auto simp: quiet_calls_def)
  then show "c_side (snd (tls_demo f args w)) = c_side w" by (simp add: tls_demo_quiet tls_quiet_state)
next
  fix w :: "(nat, bool) tls" and k assume w: "c_side w = Suc k" "calm 0 w"
  then obtain st where st: "boxes w 0 = Some st" "st_panic st = None" by (auto simp: calm_def split: option.splits)
  show "\<exists>r w' st e. tls_demo ''SSL_do_handshake'' [CPtr 7] w = ((CInt r, []), w') \<and> r \<le> 0 \<and> c_side w' = k \<and>
      boxes w' 0 = Some st \<and> st_panic st = None \<and> st_error st = Some e \<and>
      error_code tls_demo (CPtr 7) (CPtr 2) r w' \<in> {SSL_ERROR_WANT_READ, SSL_ERROR_WANT_WRITE}"
    using w(1) st by (simp add: tls_demo_def demo_blocks [OF st(1)] demo_code Let_def)
qed (simp_all add: tls_demo_def)

theorem panic_is_never_swallowed_witness:
  "\<exists>w'. bwrite tls_demo demo_stream (CPtr 2) [5] 1 (demo_box True 0) = (Ok (-1) :: (unit, int) outcome, w') \<and>
     trapped 0 w' \<and> loud 0 (io_write tls_demo \<lparr>ss_ssl = CPtr 7, ss_method = CPtr 8\<rparr> [5])"
proof -
  have "boxes (demo_box True 0) 0 = Some \<lparr>st_stream = True, st_error = None, st_panic = None\<rparr>"
    by (simp add: demo_box_def)
  moreover have "s_write demo_stream (take (usize_of_c_int 1) [5]) True = (Panic, True)"
    by (simp add: demo_stream_def)
  ultimately show ?thesis
    using panic_is_never_swallowed [OF demo_tls_law, of "\<lparr>ss_ssl = CPtr 7, ss_method = CPtr 8\<rparr>" "[5]"] by fastforce
qed



end
