(* ===== verification/Connector_Laws.thy ===== *)
theory Connector_Laws
  imports Ossl_Connector Tls_Laws
begin

text \<open>
  What the connector asks of OpenSSL, for every library: any library can be run with a log of the
  calls made to it (\<open>logged\<close>), and the theorem reads the log. A handshake appears in it only after
  the whole configuration of the context and of the session, each checked step having succeeded.
\<close>

subsection \<open>A library that logs its calls\<close>

type_synonym lib_call = "string \<times> cval list \<times> cval"

definition logged :: "('u, 's) tls ffi \<Rightarrow> ('u \<times> lib_call list, 's) tls ffi" where
  "logged F f args w =
     (case F f args \<lparr>c_side = fst (c_side w), boxes = boxes w, next_box = next_box w\<rparr> of
        (r, w') \<Rightarrow>
          (r, \<lparr>c_side = (c_side w', snd (c_side w) @ [(f, args, fst r)]), boxes = boxes w', next_box = next_box w'\<rparr>))"

definition call_log :: "('u \<times> lib_call list, 's) tls \<Rightarrow> lib_call list" where
  "call_log w = snd (c_side w)"

lemma call_log_logged: "logged F f args w = (r, w') \<Longrightarrow> call_log w' = call_log w @ [(f, args, fst r)]"
  by (auto simp: logged_def call_log_def split: prod.splits)

text \<open>Since a point at which the log was \<open>base\<close>, only calls that satisfy \<open>P\<close> were made.\<close>

definition grows :: "(lib_call \<Rightarrow> bool) \<Rightarrow> lib_call list \<Rightarrow> ('u \<times> lib_call list, 's) tls \<Rightarrow> bool" where
  "grows P base w \<longleftrightarrow> (\<exists>l. call_log w = base @ l \<and> list_all P l)"

lemma grows_refl: "grows P (call_log w) w"
  by (simp add: grows_def)

lemma grows_ccall: "(\<And>r. P (f, args, r)) \<Longrightarrow> keeps (grows P base) (ccall (logged F) f args)"
  by (rule keepsI) (auto simp: grows_def ccall_def split: prod.split dest!: call_log_logged)

lemma grows_boxes: "keeps (grows P base) (new_state_box s)"
  by (rule keepsI) (simp add: grows_def call_log_def new_state_box_def Let_def)

lemma grows_update_box: "keeps (grows P base) (update_box n f)" "keeps (grows P base) (read_box n)"
  by (auto intro!: keepsI simp: grows_def call_log_def update_box_def read_box_def split: option.split)

lemma keeps_unwinding [keeps_intros]:
  assumes drp: "keeps I drp" and m: "keeps I m"
  shows "keeps I (unwinding drp m)"
proof (rule keepsI)
  fix w assume w: "I w"
  obtain r w1 where run: "m w = (r, w1)" by fastforce
  then have "I w1" using w by (rule keeps_step [OF m])
  with run keeps_drop_then [OF drp this] show "I (snd (unwinding drp m w))" by (cases r) (simp_all add: unwinding_def)
qed

lemma owning_Ok_iff [simp]: "owning drp m w = (Ok a, w') \<longleftrightarrow> m w = (Ok a, w')"
  by (auto simp: owning_def and_then_def split: prod.splits outcome.splits)

lemma unwinding_Ok_iff [simp]: "unwinding drp m w = (Ok a, w') \<longleftrightarrow> m w = (Ok a, w')"
  by (auto simp: unwinding_def and_then_def split: prod.splits outcome.splits)

lemma setup_step_Ok_iff [simp]: "setup_step m w = (Ok a, w') \<longleftrightarrow> m w = (Ok a, w')"
  by (auto simp: setup_step_def on_err_def split: prod.splits outcome.splits)

lemma keeps_setup_step [keeps_intros]: "keeps I m \<Longrightarrow> keeps I (setup_step m)"
  unfolding setup_step_def by (intro keeps_intros)

lemma keeps_c_string [keeps_intros]: "keeps I (c_string s)"
  unfolding c_string_def by (intro keeps_intros)

lemma keeps_from_bits [keeps_intros]: "keeps I (from_bits e r)"
  unfolding from_bits_def Let_def by (intro keeps_intros)

subsection \<open>Successful calls in the log\<close>

lemma ccall_log: "ccall (logged F) f args w = (Ok (r, os), w') \<Longrightarrow> call_log w' = call_log w @ [(f, args, r)]"
  by (auto simp: ccall_def split: prod.splits dest!: call_log_logged)

lemma call_v_log:
  "call_v (logged F) f args w = (Ok u, w') \<Longrightarrow> \<exists>r. call_log w' = call_log w @ [(f, args, r)]"
  by (auto simp: call_v_def and_then_Ok_iff dest!: ccall_log)

lemma call_i_log:
  "call_i (logged F) f args w = (Ok u, w') \<Longrightarrow> \<exists>r. 0 < c_int r \<and> call_log w' = call_log w @ [(f, args, r)]"
  by (auto simp: call_i_def cvt_def and_then_Ok_iff split: if_splits dest!: ccall_log)

lemma call_l_log:
  "call_l (logged F) f args w = (Ok u, w') \<Longrightarrow>
   \<exists>r. 0 < as_c_int (c_int r) \<and> call_log w' = call_log w @ [(f, args, r)]"
  by (auto simp: call_l_def cvt_def and_then_Ok_iff split: if_splits dest!: ccall_log)

lemma call_p_log:
  "call_p (logged F) f args w = (Ok p, w') \<Longrightarrow> p \<noteq> CNull \<and> call_log w' = call_log w @ [(f, args, p)]"
  by (auto simp: call_p_def cvt_p_def and_then_Ok_iff split: if_splits dest!: ccall_log)

lemma from_bits_Ok: "from_bits e r w = (Ok b, w') \<Longrightarrow> w' = w"
  by (auto simp: from_bits_def Let_def split: if_splits)

lemma c_string_Ok: "c_string s w = (Ok v, w') \<longleftrightarrow> \<not> has_nul s \<and> v = CStr s \<and> w' = w"
  by (auto simp: c_string_def cstring_new_def)
subsection \<open>What failing steps add to the log\<close>

definition allows_errors :: "(lib_call \<Rightarrow> bool) \<Rightarrow> bool" where
  "allows_errors P \<longleftrightarrow> (\<forall>args r. P (''init'', args, r) \<and> P (''ERR_get_error_line_data'', args, r))"

lemma grows_ErrorStack_get: "allows_errors P \<Longrightarrow> keeps (grows P base) (ErrorStack_get (logged F))"
  unfolding Error_get_def Let_def allows_errors_def
  by (rule Error_get_ErrorStack_get, unfold Error_get_def Let_def) (intro keeps_intros grows_ccall; simp)

lemma grows_checked:
  assumes "allows_errors P"
  shows "keeps (grows P base) (cvt (logged F) x)" "keeps (grows P base) (cvt_p (logged F) x)"
  unfolding cvt_def cvt_p_def by (intro keeps_intros grows_ErrorStack_get assms)+

lemma grows_calls:
  assumes "allows_errors P" "\<And>r. P (f, args, r)"
  shows "keeps (grows P base) (call_p (logged F) f args)" "keeps (grows P base) (call_i (logged F) f args)"
    "keeps (grows P base) (call_l (logged F) f args)"
  unfolding call_p_def call_i_def call_l_def by (intro keeps_intros grows_ccall grows_checked assms)+

lemma grows_call_v: "(\<And>r. P (f, args, r)) \<Longrightarrow> keeps (grows P base) (call_v (logged F) f args)"
  unfolding call_v_def by (intro keeps_intros grows_ccall)

subsection \<open>The connector\<close>

text \<open>Building the context, making a session of it and configuring it for a domain.\<close>

definition prepare :: "('u, 's) tls ffi \<Rightarrow> cval \<Rightarrow> string \<Rightarrow> (('u, 's) tls, handshake_error, cval) eff" where
  "prepare F method domain =
     and_then (setup_step (SslConnectorBuilder_new F method)) (\<lambda>ctx.
     and_then (setup_step (configure F ctx)) (\<lambda>ssl.
     and_then (owning (Ssl_drop F ssl) (
       and_then (setup_step (set_hostname F ssl domain)) (\<lambda>_.
       setup_step (setup_verify_hostname F ssl domain)))) (\<lambda>_.
     ret ssl)))"

definition connector_session ::
  "('u, 's) tls ffi \<Rightarrow> cval \<Rightarrow> string \<Rightarrow> 's \<Rightarrow> (('u, 's) tls, handshake_error, ssl_stream) eff" where
  "connector_session F method domain stream =
     and_then (setup_step (SslConnectorBuilder_new F method)) (\<lambda>ctx. SslConnector_connect F ctx domain stream)"

lemma connector_session_split:
  "connector_session F method domain stream = and_then (prepare F method domain) (\<lambda>ssl. Ssl_connect F ssl stream)"
  by (simp add: connector_session_def prepare_def SslConnector_connect_def ConnectConfiguration_connect_def
      and_then_assoc)

definition no_handshake :: "lib_call \<Rightarrow> bool" where
  "no_handshake c \<longleftrightarrow> fst c \<noteq> ''SSL_connect''"

definition handshake_on :: "cval \<Rightarrow> lib_call \<Rightarrow> bool" where
  "handshake_on ssl c \<longleftrightarrow> (fst c = ''SSL_connect'' \<longrightarrow> fst (snd c) = [ssl])"

lemma allows: "allows_errors no_handshake" "allows_errors (handshake_on ssl)"
  by (simp_all add: allows_errors_def no_handshake_def handshake_on_def)

lemma builder_grows: "keeps (grows no_handshake base) (SslConnectorBuilder_new (logged F) method)"
  unfolding SslConnectorBuilder_new_def connector_ctx_def SslContextBuilder_new_def SslContextBuilder_drop_def set_options_def
    version_number_def set_mode_def set_default_verify_paths_def set_cipher_list_def setup_verify_def set_verify_def init_def
  by (intro keeps_intros grows_calls grows_call_v grows_ccall allows; simp add: no_handshake_def)

lemma prepare_grows: "keeps (grows no_handshake base) (prepare (logged F) method domain)"
  unfolding prepare_def configure_def Ssl_new_def Ssl_drop_def set_hostname_def setup_verify_hostname_def param_mut_def
    set_hostflags_def set_host_def set_ip_def Let_def
  by (intro keeps_intros builder_grows grows_calls grows_call_v grows_ccall allows; simp add: no_handshake_def)

text \<open>While \<open>Ssl::connect\<close> runs, the only handshake is the one on its own session.\<close>

lemma on_ccall: "f \<noteq> ''SSL_connect'' \<Longrightarrow> keeps (grows (handshake_on ssl) base) (ccall (logged F) f args)"
  by (intro grows_ccall) (simp add: handshake_on_def)

lemma on_new_base: "keeps (grows (handshake_on ssl) base) (new_base (logged F) ssl' stream)"
proof -
  have asserted: "keeps (grows (handshake_on ssl) base) (assert_call (logged F) f args)" if "f \<noteq> ''SSL_connect''" for f args
    unfolding assert_call_def by (intro keeps_intros on_ccall that)
  have meth: "keeps (grows (handshake_on ssl) base) (BioMethod_new (logged F) :: (_, error_stack, _) eff)"
    unfolding BioMethod_new_def by (intro keeps_intros asserted on_ccall) simp_all
  have bio_new: "keeps (grows (handshake_on ssl) base) (bio_new (logged F) stream)"
    unfolding bio_new_def BioMethod_drop_def
    by (intro keeps_intros meth grows_calls on_ccall grows_boxes allows) (simp_all add: handshake_on_def)
  show ?thesis
    unfolding new_base_def Ssl_drop_def by (intro keeps_intros bio_new on_ccall) simp_all
qed

lemma on_make_error: "keeps (grows (handshake_on ssl) base) (make_error (logged F) str r)"
proof -
  have state: "keeps (grows (handshake_on ssl) base) (bio_state (logged F) b)" for b
    unfolding bio_state_def by (intro keeps_intros on_ccall) simp
  have rbio: "keeps (grows (handshake_on ssl) base) (get_raw_rbio (logged F) b)" for b
    unfolding get_raw_rbio_def by (intro keeps_intros on_ccall) simp
  have chk: "keeps (grows (handshake_on ssl) base) (check_panic (logged F) str)"
    unfolding check_panic_def take_panic_def by (intro keeps_intros rbio state grows_update_box)
  have bioerr: "keeps (grows (handshake_on ssl) base) (get_bio_error (logged F) str)"
    unfolding get_bio_error_def take_error_def by (intro keeps_intros rbio state grows_update_box)
  have now: "keeps (grows (handshake_on ssl) base) (error_stack_now (logged F))"
    unfolding error_stack_now_def by (intro keeps_intros grows_ErrorStack_get allows)
  have code: "keeps (grows (handshake_on ssl) base) (get_error (logged F) s r)" for s
    unfolding get_error_def by (intro keeps_intros on_ccall) simp
  show ?thesis
    unfolding make_error_def by (intro keeps_intros chk bioerr now code)
qed

lemma on_handshake_result: "keeps (grows (handshake_on ssl) base) (handshake_result (logged F) str r)"
  unfolding handshake_result_def by (intro keeps_intros on_make_error) (simp split: ssl_error.split)

lemma on_stream_drop: "keeps (grows (handshake_on ssl) base) (SslStream_drop (logged F) str)"
  unfolding SslStream_drop_def Ssl_drop_def BioMethod_drop_def by (intro keeps_intros on_ccall) simp_all

lemma new_base_ssl: "new_base F ssl stream w = (Ok str, w') \<Longrightarrow> ss_ssl str = ssl"
  by (auto simp: new_base_def and_then_Ok_iff split: prod.splits)

lemma Ssl_connect_grows:
  fixes F :: "('u, 's) tls ffi"
  assumes w: "grows (handshake_on ssl) base w"
  shows "grows (handshake_on ssl) base (snd (Ssl_connect (logged F) ssl stream w))"
proof -
  obtain r w1 where run: "new_base (logged F) ssl stream w = (r :: (handshake_error, _) outcome, w1)" by fastforce
  have w1: "grows (handshake_on ssl) base w1" by (rule keeps_step [OF on_new_base run w])
  show ?thesis
  proof (cases r)
    case (Ok str)
    have "keeps (grows (handshake_on ssl) base) (unwinding (SslStream_drop (logged F) str) (
        and_then (ccall (logged F) ''SSL_connect'' [ss_ssl str]) (\<lambda>(r, _). handshake_result (logged F) str (c_int r))))"
      using new_base_ssl [OF run [unfolded Ok]]
      by (intro keeps_intros grows_ccall on_handshake_result on_stream_drop) (simp add: handshake_on_def)
    then show ?thesis using w1 run Ok by (simp add: Ssl_connect_def and_then_def keeps_def)
  qed (use w1 run in \<open>simp_all add: Ssl_connect_def and_then_def\<close>)
qed

lemma handshake_result_Ok: "handshake_result F str r w = (Ok s, w') \<longleftrightarrow> 0 < r \<and> s = str \<and> w' = w"
proof (cases "0 < r")
  case False
  have "handshake_result F str r w \<noteq> (Ok s, w')"
  proof
    assume "handshake_result F str r w = (Ok s, w')"
    with False obtain e w1 where "(case e of WantWrite _ \<Rightarrow> throw (Interrupted \<lparr>mid_stream = str, mid_error = e\<rparr>)
        | WantRead _ \<Rightarrow> throw (Interrupted \<lparr>mid_stream = str, mid_error = e\<rparr>)
        | err \<Rightarrow> throw (Failure \<lparr>mid_stream = str, mid_error = err\<rparr>)) w1 = (Ok s, w')"
      by (auto simp: handshake_result_def and_then_Ok_iff)
    then show False by (cases e) simp_all
  qed
  with False show ?thesis by simp
qed (auto simp: handshake_result_def)

lemma Ssl_connect_Ok:
  assumes "Ssl_connect (logged F) ssl stream w = (Ok str, w')"
  shows "ss_ssl str = ssl \<and> (\<exists>x. 0 < c_int x \<and> last (call_log w') = (''SSL_connect'', [ssl], x))"
proof -
  obtain w1 r os w2 where base: "new_base (logged F) ssl stream w = (Ok str :: (handshake_error, _) outcome, w1)"
    and call: "ccall (logged F) ''SSL_connect'' [ssl] w1 = (Ok (r, os) :: (handshake_error, _) outcome, w2)"
    and res: "0 < c_int r" "w2 = w'"
    using assms new_base_ssl by (fastforce simp: Ssl_connect_def and_then_Ok_iff handshake_result_Ok)
  with ccall_log [OF call] new_base_ssl [OF base] show ?thesis by simp
qed

subsection \<open>The configuration, call by call\<close>

definition context_log :: "cval \<Rightarrow> cval \<Rightarrow> cval \<Rightarrow> (nat \<Rightarrow> cval) \<Rightarrow> lib_call list" where
  "context_log method ctx n r =
     [(''init'', [], r 0),
      (''SSL_CTX_new'', [method], ctx),
      (''SSL_CTX_set_options'', [ctx, CInt (uint connector_options)], r 1),
      (''OpenSSL_version_num'', [], n),
      (''SSL_CTX_ctrl'', [ctx, CInt SSL_CTRL_MODE, CInt (sint (connector_mode (sint (word_of_int (c_int n) :: u64)))), CNull], r 2),
      (''SSL_CTX_set_default_verify_paths'', [ctx], r 3),
      (''SSL_CTX_set_cipher_list'', [ctx, CStr connector_ciphers], r 4),
      (''SSL_CTX_set_verify'', [ctx, CInt SSL_VERIFY_PEER, CNull], r 5)]"

definition name_check :: "string \<Rightarrow> cval \<Rightarrow> string \<times> cval list" where
  "name_check domain param =
     (case parse_ip domain of
        None \<Rightarrow> (''X509_VERIFY_PARAM_set1_host'', [param, CStr domain, CInt (int (length domain))])
      | Some (V4 octets) \<Rightarrow> (''X509_VERIFY_PARAM_set1_ip'', [param, CBytes (octets @ replicate 12 0), CInt 4])
      | Some (V6 segs) \<Rightarrow> (''X509_VERIFY_PARAM_set1_ip'', [param, CBytes (ip_octets (V6 segs)), CInt 16]))"

definition session_log :: "string \<Rightarrow> cval \<Rightarrow> cval \<Rightarrow> cval \<Rightarrow> (nat \<Rightarrow> cval) \<Rightarrow> lib_call list" where
  "session_log domain ctx ssl param r =
     [(''SSL_new'', [ctx], ssl),
      (''SSL_ctrl'', [ssl, CInt SSL_CTRL_SET_TLSEXT_HOSTNAME, CInt TLSEXT_NAMETYPE_host_name, CStr domain], r 0),
      (''SSL_get0_param'', [ssl], param),
      (''X509_VERIFY_PARAM_set_hostflags'', [param, CInt (uint X509_CHECK_FLAG_NO_PARTIAL_WILDCARDS)], r 1),
      (fst (name_check domain param), snd (name_check domain param), r 2)]"

lemma init_log: "init (logged F) w = (Ok u, w') \<Longrightarrow> \<exists>r. call_log w' = call_log w @ [(''init'', [], r)]"
  by (auto simp: init_def and_then_Ok_iff dest!: ccall_log)

lemma set_options_log:
  "set_options (logged F) ctx opts w = (Ok b, w') \<Longrightarrow>
   \<exists>r. call_log w' = call_log w @ [(''SSL_CTX_set_options'', [ctx, CInt (uint opts)], r)]"
  by (auto simp: set_options_def and_then_Ok_iff dest!: ccall_log from_bits_Ok)

lemma set_mode_log:
  "set_mode (logged F) ctx mode w = (Ok b, w') \<Longrightarrow>
   \<exists>r. call_log w' = call_log w @ [(''SSL_CTX_ctrl'', [ctx, CInt SSL_CTRL_MODE, CInt (sint mode), CNull], r)]"
  by (auto simp: set_mode_def and_then_Ok_iff dest!: ccall_log from_bits_Ok)

lemma version_number_log:
  "version_number (logged F) w = (Ok k, w') \<Longrightarrow>
   \<exists>n. k = sint (word_of_int (c_int n) :: u64) \<and> call_log w' = call_log w @ [(''OpenSSL_version_num'', [], n)]"
  by (auto simp: version_number_def and_then_Ok_iff dest!: ccall_log)

lemma set_cipher_list_log:
  "set_cipher_list (logged F) ctx s w = (Ok u, w') \<Longrightarrow>
   \<exists>r. 0 < c_int r \<and> call_log w' = call_log w @ [(''SSL_CTX_set_cipher_list'', [ctx, CStr s], r)]"
  by (auto simp: set_cipher_list_def and_then_Ok_iff c_string_Ok dest!: call_i_log)

lemma builder_log:
  assumes "SslConnectorBuilder_new (logged F) method w = (Ok ctx, w')"
  shows "\<exists>n r. ctx \<noteq> CNull \<and> 0 < c_int (r 3) \<and> 0 < c_int (r 4) \<and> call_log w' = call_log w @ context_log method ctx n r"
proof -
  obtain w0 w1 w2 w3 k w4 w5 w6 b b' where steps:
    "init (logged F) w = (Ok () :: (error_stack, _) outcome, w0)"
    "call_p (logged F) ''SSL_CTX_new'' [method] w0 = (Ok ctx, w1)"
    "set_options (logged F) ctx connector_options w1 = (Ok b :: (error_stack, _) outcome, w2)"
    "version_number (logged F) w2 = (Ok k :: (error_stack, _) outcome, w3)"
    "set_mode (logged F) ctx (connector_mode k) w3 = (Ok b' :: (error_stack, _) outcome, w4)"
    "call_i (logged F) ''SSL_CTX_set_default_verify_paths'' [ctx] w4 = (Ok (), w5)"
    "set_cipher_list (logged F) ctx connector_ciphers w5 = (Ok (), w6)"
    "call_v (logged F) ''SSL_CTX_set_verify'' [ctx, CInt SSL_VERIFY_PEER, CNull] w6 = (Ok () :: (error_stack, _) outcome, w')"
    using assms
    by (auto simp: SslConnectorBuilder_new_def connector_ctx_def SslContextBuilder_new_def set_default_verify_paths_def
        setup_verify_def set_verify_def and_then_Ok_iff)
  obtain r0 r1 n r2 r3 r4 r5 where "call_log w0 = call_log w @ [(''init'', [], r0)]"
    "ctx \<noteq> CNull" "call_log w1 = call_log w0 @ [(''SSL_CTX_new'', [method], ctx)]"
    "call_log w2 = call_log w1 @ [(''SSL_CTX_set_options'', [ctx, CInt (uint connector_options)], r1)]"
    "k = sint (word_of_int (c_int n) :: u64)" "call_log w3 = call_log w2 @ [(''OpenSSL_version_num'', [], n)]"
    "call_log w4 = call_log w3 @ [(''SSL_CTX_ctrl'', [ctx, CInt SSL_CTRL_MODE, CInt (sint (connector_mode k)), CNull], r2)]"
    "0 < c_int r3" "call_log w5 = call_log w4 @ [(''SSL_CTX_set_default_verify_paths'', [ctx], r3)]"
    "0 < c_int r4" "call_log w6 = call_log w5 @ [(''SSL_CTX_set_cipher_list'', [ctx, CStr connector_ciphers], r4)]"
    "call_log w' = call_log w6 @ [(''SSL_CTX_set_verify'', [ctx, CInt SSL_VERIFY_PEER, CNull], r5)]"
    using init_log [OF steps(1)] call_p_log [OF steps(2)] set_options_log [OF steps(3)] version_number_log [OF steps(4)]
      set_mode_log [OF steps(5)] call_i_log [OF steps(6)] set_cipher_list_log [OF steps(7)] call_v_log [OF steps(8)]
    by blast
  then show ?thesis
    by (intro exI [of _ n] exI [of _ "\<lambda>i. [r0, r1, r2, r3, r4, r5] ! i"]) (simp add: context_log_def)
qed

lemma set_hostname_log:
  "set_hostname (logged F) ssl domain w = (Ok u, w') \<Longrightarrow>
   \<exists>r. 0 < as_c_int (c_int r) \<and> call_log w' = call_log w @
     [(''SSL_ctrl'', [ssl, CInt SSL_CTRL_SET_TLSEXT_HOSTNAME, CInt TLSEXT_NAMETYPE_host_name, CStr domain], r)]"
  by (auto simp: set_hostname_def and_then_Ok_iff c_string_Ok dest!: call_l_log)

lemma name_check_call:
  "(case parse_ip domain of Some ip \<Rightarrow> set_ip F param ip | None \<Rightarrow> set_host F param domain) =
   call_i F (fst (name_check domain param)) (snd (name_check domain param))"
  by (simp add: set_ip_def set_host_def name_check_def split: option.split ip_addr.split)

lemma setup_verify_hostname_log:
  assumes "setup_verify_hostname (logged F) ssl domain w = (Ok u, w')"
  shows "\<exists>param r7 r8. 0 < c_int r8 \<and> call_log w' = call_log w @
     [(''SSL_get0_param'', [ssl], param),
      (''X509_VERIFY_PARAM_set_hostflags'', [param, CInt (uint X509_CHECK_FLAG_NO_PARTIAL_WILDCARDS)], r7),
      (fst (name_check domain param), snd (name_check domain param), r8)]"
proof -
  obtain param os w1 w2 where steps:
    "ccall (logged F) ''SSL_get0_param'' [ssl] w = (Ok (param, os) :: (error_stack, _) outcome, w1)"
    "call_v (logged F) ''X509_VERIFY_PARAM_set_hostflags'' [param, CInt (uint X509_CHECK_FLAG_NO_PARTIAL_WILDCARDS)] w1 =
       (Ok () :: (error_stack, _) outcome, w2)"
    "call_i (logged F) (fst (name_check domain param)) (snd (name_check domain param)) w2 = (Ok u, w')"
    using assms
    by (auto simp: setup_verify_hostname_def param_mut_def set_hostflags_def name_check_call and_then_Ok_iff)
  show ?thesis
    using ccall_log [OF steps(1)] call_v_log [OF steps(2)] call_i_log [OF steps(3)] by fastforce
qed

lemma prepare_log:
  assumes "prepare (logged F) method domain w = (Ok ssl, w')"
  shows "\<exists>ctx n param r s. ctx \<noteq> CNull \<and> 0 < c_int (r 3) \<and> 0 < c_int (r 4) \<and> ssl \<noteq> CNull \<and>
    0 < as_c_int (c_int (s 0)) \<and> 0 < c_int (s 2) \<and>
    call_log w' = call_log w @ context_log method ctx n r @ session_log domain ctx ssl param s"
proof -
  obtain ctx w1 w2 w3 where steps:
    "SslConnectorBuilder_new (logged F) method w = (Ok ctx, w1)"
    "call_p (logged F) ''SSL_new'' [ctx] w1 = (Ok ssl, w2)"
    "set_hostname (logged F) ssl domain w2 = (Ok (), w3)"
    "setup_verify_hostname (logged F) ssl domain w3 = (Ok (), w')"
    using assms by (auto simp: prepare_def configure_def Ssl_new_def and_then_Ok_iff)
  obtain n r where 1: "ctx \<noteq> CNull" "0 < c_int (r 3)" "0 < c_int (r 4)" "call_log w1 = call_log w @ context_log method ctx n r"
    using builder_log [OF steps(1)] by blast
  obtain r6 param r7 r8 where 2: "0 < as_c_int (c_int r6)" "call_log w3 = call_log w2 @
      [(''SSL_ctrl'', [ssl, CInt SSL_CTRL_SET_TLSEXT_HOSTNAME, CInt TLSEXT_NAMETYPE_host_name, CStr domain], r6)]"
    "0 < c_int r8" "call_log w' = call_log w3 @
     [(''SSL_get0_param'', [ssl], param),
      (''X509_VERIFY_PARAM_set_hostflags'', [param, CInt (uint X509_CHECK_FLAG_NO_PARTIAL_WILDCARDS)], r7),
      (fst (name_check domain param), snd (name_check domain param), r8)]"
    using set_hostname_log [OF steps(3)] setup_verify_hostname_log [OF steps(4)] by blast
  show ?thesis
    by (intro exI [of _ ctx] exI [of _ n] exI [of _ param] exI [of _ r] exI [of _ "\<lambda>i. [r6, r7, r8] ! i"])
      (use 1 2 call_p_log [OF steps(2)] in \<open>simp add: session_log_def\<close>)
qed

text \<open>
  C6: the connector never starts a handshake that would accept the wrong server. Whatever OpenSSL
  answers, when the calls made to build a connector and connect it to a domain include a handshake,
  they begin with the whole configuration: old protocols and compression off, the trust store and
  the cipher list loaded, peer verification on, a session of that context, the domain set as server
  name and as the name or address the certificate must carry, each checked call having succeeded;
  and every handshake is on that session. A stream is returned only for a handshake that succeeded.
\<close>

theorem connector_verifies_server:
  assumes run: "connector_session (logged F) method domain stream w = (res, w')"
  shows "\<exists>l. call_log w' = call_log w @ l \<and>
    (list_ex (\<lambda>c. fst c = ''SSL_connect'') l \<longrightarrow>
       (\<exists>ctx n ssl param r s rest.
          l = context_log method ctx n r @ session_log domain ctx ssl param s @ rest \<and>
          ctx \<noteq> CNull \<and> 0 < c_int (r 3) \<and> 0 < c_int (r 4) \<and>
          ssl \<noteq> CNull \<and> 0 < as_c_int (c_int (s 0)) \<and> 0 < c_int (s 2) \<and>
          list_all (handshake_on ssl) rest)) \<and>
    (\<forall>str. res = Ok str \<longrightarrow> (\<exists>x. 0 < c_int x \<and> (''SSL_connect'', [ss_ssl str], x) \<in> set l))"
proof -
  obtain p w1 where prep: "prepare (logged F) method domain w = (p, w1)" by fastforce
  have "grows no_handshake (call_log w) w1"
    by (rule keeps_step [OF prepare_grows prep grows_refl])
  then obtain l1 where l1: "call_log w1 = call_log w @ l1" "list_all no_handshake l1" by (auto simp: grows_def)
  show ?thesis
  proof (cases p)
    case (Ok ssl)
    have conn: "Ssl_connect (logged F) ssl stream w1 = (res, w')"
      using run prep Ok by (simp add: connector_session_split and_then_def)
    obtain rest where rest: "call_log w' = call_log w1 @ rest" "list_all (handshake_on ssl) rest"
      using Ssl_connect_grows [of ssl "call_log w1" w1 F stream, OF grows_refl] conn by (fastforce simp: grows_def)
    obtain ctx n param r s where pre: "ctx \<noteq> CNull" "0 < c_int (r 3)" "0 < c_int (r 4)" "ssl \<noteq> CNull"
      "0 < as_c_int (c_int (s 0))" "0 < c_int (s 2)"
      "call_log w1 = call_log w @ context_log method ctx n r @ session_log domain ctx ssl param s"
      using prepare_log [OF prep [unfolded Ok]] by blast
    have finished: "\<exists>x. 0 < c_int x \<and> (''SSL_connect'', [ss_ssl str], x) \<in> set (l1 @ rest)" if ok: "res = Ok str" for str
    proof -
      obtain x where x: "ss_ssl str = ssl" "0 < c_int x" "last (call_log w') = (''SSL_connect'', [ssl], x)"
        using Ssl_connect_Ok [OF conn [unfolded ok]] by blast
      have "l1 @ rest \<noteq> []" using l1 pre by (auto simp: session_log_def)
      then have "last (call_log w') \<in> set (l1 @ rest)" using l1 rest by (metis append_assoc last_appendR last_in_set)
      with x show ?thesis by auto
    qed
    have l1eq: "l1 = context_log method ctx n r @ session_log domain ctx ssl param s" using l1 pre(7) by simp
    have "\<exists>ctx n ssl param r s rest'. l1 @ rest = context_log method ctx n r @ session_log domain ctx ssl param s @ rest' \<and>
        ctx \<noteq> CNull \<and> 0 < c_int (r 3) \<and> 0 < c_int (r 4) \<and> ssl \<noteq> CNull \<and> 0 < as_c_int (c_int (s 0)) \<and> 0 < c_int (s 2) \<and>
        list_all (handshake_on ssl) rest'"
      by (rule exI [of _ ctx], rule exI [of _ n], rule exI [of _ ssl], rule exI [of _ param], rule exI [of _ r],
          rule exI [of _ s], rule exI [of _ rest]) (use l1eq pre rest(2) in simp)
    with finished l1(1) rest(1) show ?thesis by (intro exI [of _ "l1 @ rest"]) simp
  qed (use run prep l1 in \<open>auto simp: connector_session_split and_then_def no_handshake_def list_ex_iff list_all_iff\<close>)
qed

subsection \<open>A library that agrees to everything\<close>

definition obliging_answer :: "string \<Rightarrow> cval" where
  "obliging_answer f =
     (if f \<in> set [''SSL_CTX_new'', ''SSL_new'', ''SSL_get0_param'', ''BIO_meth_new'', ''BIO_new''] then CPtr 2 else CInt 1)"

definition obliging_lib :: "(unit, unit) tls ffi" where
  "obliging_lib f args w = ((obliging_answer f, []), w)"

definition succeeds :: "('w, 'e, 'a) eff \<Rightarrow> bool" where
  "succeeds m \<longleftrightarrow> (\<forall>w. is_ok (fst (m w)))"

definition returns :: "('w, 'e, 'a) eff \<Rightarrow> 'a \<Rightarrow> bool" where
  "returns m a \<longleftrightarrow> (\<forall>w. fst (m w) = Ok a)"

lemma returns_ret: "returns (ret a) a"
  by (simp add: returns_def)

lemma returns_and_then: "returns m a \<Longrightarrow> returns (f a) b \<Longrightarrow> returns (and_then m f) b"
  unfolding returns_def by (metis and_then_step prod.collapse)

lemma returns_owning: "returns m a \<Longrightarrow> returns (owning drp m) a"
  unfolding returns_def by (metis owning_Ok_iff prod.collapse fst_conv)

lemma returns_setup_step: "returns m a \<Longrightarrow> returns (setup_step m) a"
  unfolding returns_def by (metis setup_step_Ok_iff prod.collapse fst_conv)

lemma is_ok_iff: "is_ok r \<longleftrightarrow> (\<exists>a. r = Ok a)"
  by (cases r) simp_all

lemma succeeds_ret: "succeeds (ret a)"
  by (simp add: succeeds_def)

lemma succeeds_and_then: "succeeds m \<Longrightarrow> (\<And>a. succeeds (f a)) \<Longrightarrow> succeeds (and_then m f)"
  unfolding succeeds_def is_ok_iff by (metis and_then_step prod.collapse)

lemma succeeds_returns: "returns m a \<Longrightarrow> succeeds (f a) \<Longrightarrow> succeeds (and_then m f)"
  unfolding succeeds_def returns_def is_ok_iff by (metis and_then_step prod.collapse)

lemma succeeds_owning: "succeeds m \<Longrightarrow> succeeds (owning drp m)"
  unfolding succeeds_def is_ok_iff by (metis owning_Ok_iff prod.collapse fst_conv)

lemma succeeds_unwinding: "succeeds m \<Longrightarrow> succeeds (unwinding drp m)"
  unfolding succeeds_def is_ok_iff by (metis unwinding_Ok_iff prod.collapse fst_conv)

lemma succeeds_unwrap: "succeeds m \<Longrightarrow> succeeds (unwrap m)"
  unfolding succeeds_def is_ok_iff by (metis unwrap_Ok_iff prod.collapse fst_conv)

lemma succeeds_box: "succeeds (new_state_box s)"
  by (simp add: succeeds_def new_state_box_def Let_def)

lemma obliging_calls:
  "returns (ccall (logged obliging_lib) f args) (obliging_answer f, [])"
  "returns (call_v (logged obliging_lib) f args) ()"
  "obliging_answer f = CInt 1 \<Longrightarrow> returns (call_i (logged obliging_lib) f args) ()"
  "obliging_answer f = CInt 1 \<Longrightarrow> returns (call_l (logged obliging_lib) f args) ()"
  "obliging_answer f = CPtr 2 \<Longrightarrow> returns (call_p (logged obliging_lib) f args) (CPtr 2)"
  by (simp_all add: returns_def ccall_def logged_def obliging_lib_def call_v_def call_i_def call_l_def call_p_def cvt_def cvt_p_def
      and_then_def as_c_int_def)

lemma obliging_words:
  "returns (set_options (logged obliging_lib) ctx opts) 1"
  "returns (set_mode (logged obliging_lib) ctx mode) 1"
  "returns (version_number (logged obliging_lib)) 1"
  "\<not> has_nul s \<Longrightarrow> returns (c_string s) (CStr s)"
proof -
  have bits: "(1 :: u64) AND NOT SslOption_all = 0" "(1 :: u64) AND NOT SslMode_all = 0"
    by (simp_all add: SslOption_all_def option_defs SslMode_all_def SSL_MODE_ENABLE_PARTIAL_WRITE_def
        SSL_MODE_ACCEPT_MOVING_WRITE_BUFFER_def SSL_MODE_AUTO_RETRY_def SSL_MODE_NO_AUTO_CHAIN_def SSL_MODE_RELEASE_BUFFERS_def
        SSL_MODE_SEND_CLIENTHELLO_TIME_def SSL_MODE_SEND_SERVERHELLO_TIME_def SSL_MODE_SEND_FALLBACK_SCSV_def)
  show "returns (set_options (logged obliging_lib) ctx opts) 1"
    "returns (set_mode (logged obliging_lib) ctx mode) 1"
    "returns (version_number (logged obliging_lib)) 1"
    "\<not> has_nul s \<Longrightarrow> returns (c_string s) (CStr s)"
    by (simp_all add: returns_def set_options_def set_mode_def version_number_def c_string_def cstring_new_def ccall_def
        logged_def obliging_lib_def obliging_answer_def and_then_def from_bits_def Let_def bits)
qed

lemma no_nul_names: "\<not> has_nul connector_ciphers" "\<not> has_nul ''localhost''"
  by (simp_all add: has_nul_def connector_ciphers_def)

lemma localhost_no_ip: "parse_ip ''localhost'' = None"
  by (simp add: parse_ip_defs read_counts)

lemmas obliging_rules = returns_ret returns_and_then returns_owning returns_setup_step obliging_calls(1,2) obliging_words(1,2,3)

lemma obliging_prepare: "returns (prepare (logged obliging_lib) method ''localhost'') (CPtr 2)"
proof -
  have ctx: "returns (connector_ctx (logged obliging_lib) method) (CPtr 2)"
    unfolding connector_ctx_def SslContextBuilder_new_def init_def case_prod_beta
    by (rule obliging_rules obliging_calls(5) | simp add: obliging_answer_def)+
  have new: "returns (SslConnectorBuilder_new (logged obliging_lib) method) (CPtr 2)"
    unfolding SslConnectorBuilder_new_def set_default_verify_paths_def set_cipher_list_def setup_verify_def set_verify_def
    by (rule obliging_rules ctx obliging_calls(3) obliging_words(4) no_nul_names | simp add: obliging_answer_def)+
  have host: "returns (set_hostname (logged obliging_lib) ssl ''localhost'') ()" for ssl
    unfolding set_hostname_def
    by (rule obliging_rules obliging_calls(4) obliging_words(4) no_nul_names | simp add: obliging_answer_def)+
  have verify: "returns (setup_verify_hostname (logged obliging_lib) ssl ''localhost'') ()" for ssl
    unfolding setup_verify_hostname_def localhost_no_ip param_mut_def set_hostflags_def set_host_def option.case case_prod_beta
    by (rule obliging_rules obliging_calls(3) | simp add: obliging_answer_def)+
  show ?thesis
    unfolding prepare_def configure_def Ssl_new_def
    by (rule obliging_rules new host verify obliging_calls(5) | simp add: obliging_answer_def)+
qed

lemma obliging_connect: "succeeds (Ssl_connect (logged obliging_lib) (CPtr 2) stream)"
proof -
  have asserted: "returns (assert_call (logged obliging_lib) f args) ()" if "f \<in> set [''BIO_meth_set_write'', ''BIO_meth_set_read'',
      ''BIO_meth_set_puts'', ''BIO_meth_set_ctrl'', ''BIO_meth_set_create'', ''BIO_meth_set_destroy'']" for f args
    using that by (auto simp: returns_def assert_call_def ccall_def logged_def obliging_lib_def obliging_answer_def and_then_def)
  have meth: "returns (BioMethod_new (logged obliging_lib)) (CPtr 2)"
    unfolding BioMethod_new_def case_prod_beta
    by (rule obliging_rules asserted | simp add: obliging_answer_def)+
  have bio: "succeeds (bio_new (logged obliging_lib) stream)"
    unfolding bio_new_def
    by (rule succeeds_returns [OF meth] succeeds_owning succeeds_returns [OF obliging_calls(5)]
        succeeds_and_then [OF succeeds_box] succeeds_returns [OF obliging_calls(1)] succeeds_ret
        | simp add: obliging_answer_def)+
  have base: "succeeds (new_base (logged obliging_lib) (CPtr 2) stream)"
    unfolding new_base_def case_prod_beta
    by (rule succeeds_owning succeeds_and_then [OF succeeds_unwrap [OF bio]] succeeds_returns [OF obliging_calls(1)]
        succeeds_ret)+
  have res: "succeeds (handshake_result (logged obliging_lib) str 1)" for str
    by (simp add: handshake_result_def succeeds_def)
  show ?thesis
    unfolding Ssl_connect_def
    by (rule succeeds_and_then [OF base] succeeds_unwinding succeeds_returns [OF obliging_calls(1)] | simp add: obliging_answer_def res)+
qed

theorem connector_verifies_server_witness:
  "let w = \<lparr>c_side = ((), []), boxes = \<lambda>_. None, next_box = 0\<rparr>;
       (res, w') = connector_session (logged obliging_lib) (CPtr 5) ''localhost'' () w in
   is_ok res \<and>
   (\<exists>ctx n ssl param r s rest.
      call_log w' = context_log (CPtr 5) ctx n r @ session_log ''localhost'' ctx ssl param s @ rest \<and>
      list_all (handshake_on ssl) rest)"
proof -
  let ?w = "\<lparr>c_side = ((), []), boxes = \<lambda>_. None, next_box = 0\<rparr> :: (unit \<times> lib_call list, unit) tls"
  obtain res w' where run: "connector_session (logged obliging_lib) (CPtr 5) ''localhost'' () ?w = (res, w')" by fastforce
  have "succeeds (connector_session (logged obliging_lib) (CPtr 5) ''localhost'' ())"
    unfolding connector_session_split by (rule succeeds_returns [OF obliging_prepare]) (rule obliging_connect)
  with run obtain str where str: "res = Ok str" by (cases res) (auto simp: succeeds_def dest: spec [of _ ?w])
  obtain l where l: "call_log w' = call_log ?w @ l"
    "list_ex (\<lambda>c. fst c = ''SSL_connect'') l \<longrightarrow>
       (\<exists>ctx n ssl param r s rest.
          l = context_log (CPtr 5) ctx n r @ session_log ''localhost'' ctx ssl param s @ rest \<and>
          ctx \<noteq> CNull \<and> 0 < c_int (r 3) \<and> 0 < c_int (r 4) \<and>
          ssl \<noteq> CNull \<and> 0 < as_c_int (c_int (s 0)) \<and> 0 < c_int (s 2) \<and>
          list_all (handshake_on ssl) rest)"
    "\<forall>str. res = Ok str \<longrightarrow> (\<exists>x. 0 < c_int x \<and> (''SSL_connect'', [ss_ssl str], x) \<in> set l)"
    using connector_verifies_server [OF run] by blast
  have "list_ex (\<lambda>c. fst c = ''SSL_connect'') l" using l(3) str by (force simp: list_ex_iff)
  then have "\<exists>ctx n ssl param r s rest.
      l = context_log (CPtr 5) ctx n r @ session_log ''localhost'' ctx ssl param s @ rest \<and> list_all (handshake_on ssl) rest"
    using l(2) by blast
  moreover have "call_log w' = l" using l(1) by (simp add: call_log_def)
  ultimately show ?thesis using run str by simp
qed

end
