(* ===== verification/Tolla_Client.thy ===== *)
theory Tolla_Client
  imports Tolla_Service Ossl_Verify
begin

text \<open>
  The two programs: the client of \<open>client/src/main.rs\<close>, which has a key certified by the authority
  and then measures the database of a tenant, and \<open>src/src/main.rs\<close>, which starts the server or
  sends it one message.

  What the programs run on is the record \<open>client_env\<close>: environment variables, the configuration
  file, files, the tokio transport and the MongoDB driver. \<open>exchange\<close> is the future that connects
  to an address, frames the socket with a codec, sends one request and collects at most one answer,
  run to its end on the reactor. Output to the terminal is not modelled.
\<close>

subsection \<open>Socket addresses\<close>

text \<open>\<open>str::parse::<SocketAddr>\<close>: an IPv4 address, or an IPv6 address in brackets, with a port.\<close>

definition read_port :: "string \<Rightarrow> u16 option" where
  "read_port s =
     Option.bind (read_char CHR '':'' s) (\<lambda>s'.
     Option.bind (read_number 10 5 0x10000 s') (\<lambda>(p, rest).
       if rest = [] then Some (of_nat p) else None))"

definition parse_socket_addr :: "string \<Rightarrow> (ip_addr \<times> u16) option" where
  "parse_socket_addr s =
     (case Option.bind (read_ipv4_addr s) (\<lambda>(b, rest). map_option (\<lambda>p. (V4 b, p)) (read_port rest)) of
        Some r \<Rightarrow> Some r
      | None \<Rightarrow>
          Option.bind (read_char CHR ''['' s) (\<lambda>s'.
          Option.bind (read_ipv6_addr s') (\<lambda>(g, rest).
          Option.bind (read_char CHR '']'' rest) (\<lambda>rest'.
            map_option (\<lambda>p. (V6 g, p)) (read_port rest')))))"

text \<open>\<open>str::parse::<u16>\<close>: an optional plus sign and digits.\<close>

definition parse_u16 :: "string \<Rightarrow> u16 option" where
  "parse_u16 s =
     (case parse_u32 s of
        Inr n \<Rightarrow> if unat n < 0x10000 then Some (of_nat (unat n)) else None
      | Inl _ \<Rightarrow> None)"

subsection \<open>Settings and environment\<close>

record ca_settings =
  ca_address :: string
  ca_port :: string

record process_settings =
  common_name :: string
  country :: string
  proc_intent :: string
  proc_state :: string
  proc_org :: string

record cert_settings =
  certs_key :: string
  certs_ca :: string
  certs_cert :: string

record settings =
  set_process :: process_settings
  set_ca :: ca_settings
  set_certs :: cert_settings

type_synonym sock = "ip_addr \<times> u16"

record 'w client_env =
  lib :: "'w ffi"
  var :: "string \<Rightarrow> ('w, string, string) eff"
  read_settings :: "('w, string, settings) eff"
  open_create_write :: "string \<Rightarrow> ('w, string, unit) eff"
  write_all :: "string \<Rightarrow> byte list \<Rightarrow> ('w, string, unit) eff"
  exchange :: "(from_client \<Rightarrow> (byte list, io_error, unit) eff) \<Rightarrow> to_client decoder \<Rightarrow> sock \<Rightarrow> from_client \<Rightarrow>
     ('w, string, to_client list) eff"
  prost_encode :: "from_client renderer"
  prost_decode :: "to_client parser"
  db_connect :: "cert_settings \<Rightarrow> string \<Rightarrow> u16 \<Rightarrow> ('w, string, unit) eff"
  db_insert_one :: "document \<Rightarrow> ('w, string, unit) eff"
  db_find_one :: "document \<Rightarrow> ('w, string, document option) eff"
  random_chars :: "nat \<Rightarrow> ('w, string, string) eff"
  now_ms :: "('w, string, int) eff"

subsection \<open>The client\<close>

text \<open>The file is opened for writing and created when missing; it is not truncated.\<close>

definition dump_certificate :: "'w client_env \<Rightarrow> string \<Rightarrow> byte list \<Rightarrow> ('w, 'e, unit) eff" where
  "dump_certificate E filename data =
     and_then (unwrap (open_create_write E filename)) (\<lambda>_.
       unwrap (write_all E filename data))"

text \<open>\<open>resp[0]\<close> of an empty vector panics.\<close>

definition send_protorequest ::
  "'w client_env \<Rightarrow> sock \<Rightarrow> from_client \<Rightarrow> ('w, string, to_client) eff" where
  "send_protorequest E addr req =
     and_then (exchange E (ProtoClient_encode (prost_encode E)) (ProtoClient_decode (prost_decode E)) addr req) (\<lambda>resp.
       case resp of [] \<Rightarrow> panic | r # _ \<Rightarrow> ret r)"

definition ca_socket :: "'w client_env \<Rightarrow> string \<Rightarrow> ('w, 'e, sock) eff" where
  "ca_socket E prt =
     and_then (unwrap (var E ''CA_ADDRESS'')) (\<lambda>addr.
       case parse_socket_addr (addr @ '':'' @ prt) of None \<Rightarrow> panic | Some a \<Rightarrow> ret a)"

definition issue_cert_request ::
  "'w client_env \<Rightarrow> ca_settings \<Rightarrow> process_settings \<Rightarrow> cval \<Rightarrow> ('w, string, to_client) eff" where
  "issue_cert_request E cert_auth process pkey =
     (let F = lib E in
     and_then (to_string_err F (X509ReqBuilder_new F)) (\<lambda>cert.
     and_then (to_string_err F (X509ReqBuilder_set_pubkey F cert pkey)) (\<lambda>_.
     and_then (to_string_err F (X509NameBuilder_new F)) (\<lambda>x509_name.
     and_then (to_string_err F (X509NameBuilder_append_entry_by_text F x509_name ''C'' (country process))) (\<lambda>_.
     and_then (to_string_err F (X509NameBuilder_append_entry_by_text F x509_name ''ST'' (proc_state process))) (\<lambda>_.
     and_then (to_string_err F (X509NameBuilder_append_entry_by_text F x509_name ''O'' (proc_org process))) (\<lambda>_.
     and_then (to_string_err F (X509NameBuilder_append_entry_by_text F x509_name ''CN'' (common_name process))) (\<lambda>_.
     and_then (to_string_err F (X509ReqBuilder_set_subject_name F cert x509_name)) (\<lambda>_.
     and_then (MessageDigest_sha256 F) (\<lambda>sha256.
     and_then (to_string_err F (X509ReqBuilder_sign F cert pkey sha256)) (\<lambda>_.
     and_then (to_string_err F (X509Req_to_pem F cert)) (\<lambda>pem.
     and_then (ca_socket E (ca_port cert_auth)) (\<lambda>socket_addr.
     let msg = from_client_default\<lparr>fc_msg := Some (Certificaterequest
           \<lparr>cert_intent = proc_intent process, cert_request = pem, cert_root = []\<rparr>)\<rparr> in
       send_protorequest E socket_addr msg)))))))))))))"

definition retrieve_certificate :: "'w client_env \<Rightarrow> settings \<Rightarrow> ('w, string, unit) eff" where
  "retrieve_certificate E conf =
     (let F = lib E in
     and_then (to_string_err F (Rsa_generate F 1024)) (\<lambda>keypair.
     and_then (to_string_err F (PKey_from_rsa F keypair)) (\<lambda>pkey.
     and_then (issue_cert_request E (set_ca conf) (set_process conf) pkey) (\<lambda>certificate.
     and_then
       (case tc_msg certificate of
          None \<Rightarrow> panic
        | Some (Certificate c) \<Rightarrow>
            and_then (dump_certificate E ''cert.pem'' (cert_request c)) (\<lambda>_.
              dump_certificate E ''ca.pem'' (cert_root c))
        | Some _ \<Rightarrow> ret ()) (\<lambda>_.
     and_then (to_string_err F (private_key_to_pem F pkey)) (\<lambda>pkey_pem.
     and_then (dump_certificate E ''key.pem'' pkey_pem) (\<lambda>_.
       ret ())))))))"

text \<open>One timed query; the times of a size are its hundred queries.\<close>

definition timed_query :: "'w client_env \<Rightarrow> string \<Rightarrow> ('w, string, int) eff" where
  "timed_query E rstr =
     and_then (now_ms E) (\<lambda>now.
     and_then (unwrap (db_find_one E [(''title'', BString rstr)])) (\<lambda>docu.
     case docu of
       None \<Rightarrow> panic
     | Some _ \<Rightarrow> and_then (now_ms E) (\<lambda>later. ret (later - now))))"

fun times_loop :: "'w client_env \<Rightarrow> string \<Rightarrow> nat \<Rightarrow> ('w, string, int list) eff" where
  "times_loop E rstr 0 = ret []"
| "times_loop E rstr (Suc n) =
     and_then (timed_query E rstr) (\<lambda>t. and_then (times_loop E rstr n) (\<lambda>ts. ret (t # ts)))"

fun sizes_loop :: "'w client_env \<Rightarrow> nat list \<Rightarrow> ('w, string, (nat \<times> int list) list) eff" where
  "sizes_loop E [] = ret []"
| "sizes_loop E (sz # sizes) =
     and_then (random_chars E sz) (\<lambda>rstr.
     and_then (attempt (db_insert_one E [(''title'', BString rstr)])) (\<lambda>_.
     and_then (times_loop E rstr 100) (\<lambda>time.
     and_then (sizes_loop E sizes) (\<lambda>measurements.
       ret ((sz, time) # measurements)))))"

definition setup_mongod ::
  "'w client_env \<Rightarrow> cert_settings \<Rightarrow> string \<Rightarrow> ('w, string, (nat \<times> int list) list) eff" where
  "setup_mongod E certs ip =
     and_then (unwrap (var E ''DB_ADDRESS'')) (\<lambda>addr.
     and_then (unwrap (var E ''DB_PORT'')) (\<lambda>prt.
     case parse_u16 prt of
       None \<Rightarrow> panic
     | Some db_port \<Rightarrow>
         and_then (unwrap (db_connect E certs addr db_port)) (\<lambda>_.
           sizes_loop E [64, 128, 256, 512, 1024, 2048, 4096])))"

text \<open>\<open>main\<close> of the client: what it prints at the end, if it gets that far.\<close>

definition client_main :: "'w client_env \<Rightarrow> ('w, string, (nat \<times> int list) list option) eff" where
  "client_main E =
     and_then (unwrap (read_settings E)) (\<lambda>conf.
     and_then (unwrap (retrieve_certificate E conf)) (\<lambda>_.
     let msg = from_client_default\<lparr>fc_msg := Some (Requestips True)\<rparr> in
     and_then (ca_socket E (ca_port (set_ca conf))) (\<lambda>socket_addr.
     and_then (unwrap (send_protorequest E socket_addr msg)) (\<lambda>result.
     case tc_msg result of
       Some (Ips addr) \<Rightarrow>
         (case addresses_ip addr of
            [] \<Rightarrow> panic
          | ip # _ \<Rightarrow> and_then (setup_mongod E (set_certs conf) ip) (\<lambda>m. ret (Some m)))
     | _ \<Rightarrow> ret None))))"

subsection \<open>The server program\<close>

text \<open>
  \<open>run_http\<close> builds the engine and starts both front ends on it; from then on the server answers
  requests as \<open>served\<close> describes, starting with an unlocked mutex.
\<close>

definition run_http :: "'w env \<Rightarrow> (string \<Rightarrow> ('w, string, string) eff) \<Rightarrow> ('w, string, authority) eff" where
  "run_http E env_var =
     and_then (unwrap (env_var ''MONGODB_PORT_27017_TCP_ADDR'')) (\<lambda>addr.
       unwrap (build E
         (with_deamon (with_port (with_address ConsentEngineBuilder_new addr) 27017) ''http://127.0.0.1:2375'')))"

text \<open>The route of each handler.\<close>

datatype http_method = Get | Post | Delete

definition routes :: "(http_method \<times> string \<times> string) list" where
  "routes =
     [(Get, ''/:user'', ''get''), (Post, ''/register'', ''register''), (Delete, ''/:user'', ''remove''),
      (Get, ''/lease/'', ''lease'')]"

text \<open>
  \<open>run_client\<close> sends one message over a plain socket and reads until the end; the number of bytes
  is what it prints. \<open>None\<close> where it prints an error and returns. A failed write or read is only
  printed; \<open>tcp_read_to_end\<close> is what was read, up to the end or to an error.
\<close>

record 'w raw_socket =
  tcp_connect :: "string \<Rightarrow> ('w, string, unit) eff"
  tcp_write :: "byte list \<Rightarrow> ('w, string, nat) eff"
  tcp_read_to_end :: "'w \<Rightarrow> byte list \<times> 'w"

definition run_client ::
  "'w raw_socket \<Rightarrow> from_client renderer \<Rightarrow> string \<Rightarrow> nat \<Rightarrow> string \<Rightarrow> ('w, 'e, nat option) eff" where
  "run_client N render addr prt name =
     and_then (attempt (tcp_connect N (addr @ '':'' @ show_nat prt))) (\<lambda>conn.
     case conn of
       Inl _ \<Rightarrow> ret None
     | Inr _ \<Rightarrow>
         (let msg = from_client_default\<lparr>fc_msg := Some (User \<lparr>userid = name, email = ''lol''\<rparr>)\<rparr> in
          case render msg [] of
            Inl _ \<Rightarrow> ret None
          | Inr buf \<Rightarrow>
              and_then (attempt (tcp_write N buf)) (\<lambda>_.
              (\<lambda>w. case tcp_read_to_end N w of (resp, w') \<Rightarrow> (Ok (Some (length resp)), w')))))"

text \<open>\<open>init_log\<close> creates the log file and installs the logger.\<close>

datatype started = Usage | Server authority | ClientDone "nat option" | Wrong

definition server_main ::
  "'w env \<Rightarrow> ('w, string, unit) eff \<Rightarrow> (string \<Rightarrow> ('w, string, string) eff) \<Rightarrow> 'w raw_socket \<Rightarrow> from_client renderer \<Rightarrow> string list \<Rightarrow>
   ('w, string, started) eff" where
  "server_main E init_log env_var N render args =
     and_then (unwrap init_log) (\<lambda>_.
      case args of
        [] \<Rightarrow> panic
      | [_] \<Rightarrow> ret Usage
      | _ # command # rest \<Rightarrow>
          if command = ''http'' then and_then (run_http E env_var) (\<lambda>a. ret (Server a))
          else if command = ''client'' then
            (case rest of
               [] \<Rightarrow> panic
             | name # _ \<Rightarrow>
                 and_then (run_client N render ''0.0.0.0'' 8900 name) (\<lambda>r. ret (ClientDone r)))
          else ret Wrong)"

end
