(* ===== verification/Client_Laws.thy ===== *)
theory Client_Laws
  imports Tolla_Client
begin

text \<open>
  What the client leaves on disk. The file system is seen through \<open>files\<close>, the contents by path in
  a state of the outside; the laws are those of \<open>OpenOptions\<close> with \<open>create\<close> and \<open>write\<close> and without
  \<open>truncate\<close>, and that nothing else the client calls writes to its files.
\<close>

type_synonym contents = "string \<Rightarrow> byte list option"

definition stored :: "string \<Rightarrow> byte list \<Rightarrow> contents \<Rightarrow> contents" where
  "stored path data fs =
     fs(path \<mapsto> data @ drop (length data) (case fs path of None \<Rightarrow> [] | Some old \<Rightarrow> old))"

definition file_law :: "'w client_env \<Rightarrow> ('w \<Rightarrow> contents) \<Rightarrow> bool" where
  "file_law E files \<longleftrightarrow>
     (\<forall>p w w'. open_create_write E p w = (Ok (), w') \<longrightarrow>
        files w' = (files w)(p \<mapsto> (case files w p of None \<Rightarrow> [] | Some old \<Rightarrow> old))) \<and>
     (\<forall>p d w w'. write_all E p d w = (Ok (), w') \<longrightarrow>
        files w' = (files w)(p \<mapsto> d @ drop (length d) (case files w p of None \<Rightarrow> [] | Some old \<Rightarrow> old))) \<and>
     (\<forall>f args w. files (snd (lib E f args w)) = files w) \<and>
     (\<forall>v w. files (snd (var E v w)) = files w) \<and>
     (\<forall>enc dec a req w. files (snd (exchange E enc dec a req w)) = files w)"

lemma file_lawD:
  assumes "file_law E files"
  shows "open_create_write E p w = (Ok (), w') \<Longrightarrow>
      files w' = (files w)(p \<mapsto> (case files w p of None \<Rightarrow> [] | Some old \<Rightarrow> old))"
    "write_all E p d w = (Ok (), w') \<Longrightarrow>
      files w' = (files w)(p \<mapsto> d @ drop (length d) (case files w p of None \<Rightarrow> [] | Some old \<Rightarrow> old))"
    "ffi_keeps (\<lambda>w. files w = fs) (lib E)" "keeps (\<lambda>w. files w = fs) (var E v)"
    "keeps (\<lambda>w. files w = fs) (exchange E enc dec a req)"
  using assms by (simp_all add: file_law_def ffi_keeps_def keeps_def del: split_paired_All)

lemma dump_certificate_stores:
  assumes "file_law E files" "dump_certificate E p d w = (Ok (), w')"
  shows "files w' = stored p d (files w)"
proof -
  obtain w1 where "open_create_write E p w = (Ok (), w1)" "write_all E p d w1 = (Ok (), w')"
    using assms(2) by (auto simp: dump_certificate_def and_then_Ok_iff)
  with file_lawD(1,2) [OF assms(1)] show ?thesis by (simp add: stored_def)
qed

lemma issue_cert_request_keeps:
  assumes "file_law E files"
  shows "keeps (\<lambda>w. files w = fs) (issue_cert_request E ca process pkey)"
  unfolding issue_cert_request_def Let_def send_protorequest_def ca_socket_def
  by (intro keeps_intros file_lawD [OF assms] | simp split: list.split)+

text \<open>What \<open>issue_cert_request\<close> sent, and that the answer is the first message that came back.\<close>

lemma send_protorequest_Ok:
  "send_protorequest E sock req w = (Ok reply, w') \<Longrightarrow>
   \<exists>rest. exchange E (ProtoClient_encode (prost_encode E)) (ProtoClient_decode (prost_decode E)) sock req w =
     (Ok (reply # rest), w')"
  by (auto simp: send_protorequest_def and_then_Ok_iff) (auto split: list.splits)

lemma issue_cert_request_sends:
  assumes "issue_cert_request E ca process pkey w = (Ok reply, w')"
  shows "\<exists>sock pem rest w1. exchange E (ProtoClient_encode (prost_encode E)) (ProtoClient_decode (prost_decode E)) sock
    \<lparr>fc_msg = Some (Certificaterequest \<lparr>cert_intent = proc_intent process, cert_request = pem, cert_root = []\<rparr>)\<rparr> w1 =
    (Ok (reply # rest), w')"
proof -
  obtain sock pem w1 where "send_protorequest E sock
      \<lparr>fc_msg = Some (Certificaterequest \<lparr>cert_intent = proc_intent process, cert_request = pem, cert_root = []\<rparr>)\<rparr> w1 =
      (Ok reply, w')"
    using assms unfolding issue_cert_request_def Let_def and_then_Ok_iff
    by (elim exE conjE) (simp add: from_client_default_def)
  from send_protorequest_Ok [OF this] show ?thesis by blast
qed


text \<open>A client whose library agrees to everything and whose server answers every request with one certificate.\<close>

definition demo_answer :: "string \<Rightarrow> cret" where
  "demo_answer f =
     (if f \<in> set [''X509_REQ_new'', ''X509_NAME_new'', ''RSA_new'', ''BN_new'', ''EVP_PKEY_new'', ''BIO_new''] then (CPtr 2, [])
      else if f = ''BIO_ctrl'' then (CInt 2, [CBytes [8, 9]])
      else (CInt 1, []))"

definition demo_client :: "contents client_env" where
  "demo_client =
     \<lparr>lib = \<lambda>f args w. (demo_answer f, w), var = \<lambda>_. ret ''127.0.0.1'', read_settings = throw ''none'',
      open_create_write = \<lambda>p w. (Ok (), w(p \<mapsto> (case w p of None \<Rightarrow> [] | Some old \<Rightarrow> old))),
      write_all = \<lambda>p d w. (Ok (), w(p \<mapsto> d @ drop (length d) (case w p of None \<Rightarrow> [] | Some old \<Rightarrow> old))),
      exchange = \<lambda>_ _ _ _. ret [\<lparr>tc_success = True, tc_msg = Some (Certificate
        \<lparr>cert_intent = '''', cert_request = [1, 2], cert_root = [3]\<rparr>)\<rparr>],
      prost_encode = \<lambda>_ _. Inl '''', prost_decode = \<lambda>_. Inl '''',
      db_connect = \<lambda>_ _ _. ret (), db_insert_one = \<lambda>_. ret (), db_find_one = \<lambda>_. ret None,
      random_chars = \<lambda>_. ret '''', now_ms = ret 0\<rparr>"

definition demo_settings :: settings where
  "demo_settings =
     \<lparr>set_process = \<lparr>common_name = ''svc'', country = ''NO'', proc_intent = ''static'', proc_state = ''TR'', proc_org = ''IFI''\<rparr>,
      set_ca = \<lparr>ca_address = ''127.0.0.1'', ca_port = ''8900''\<rparr>,
      set_certs = \<lparr>certs_key = ''key.pem'', certs_ca = ''ca.pem'', certs_cert = ''cert.pem''\<rparr>\<rparr>"

lemma demo_client_law: "file_law demo_client (\<lambda>w. w)"
  by (simp add: file_law_def demo_client_def)

lemma demo_socket: "parse_socket_addr ''127.0.0.1:8900'' = Some (V4 [127, 0, 0, 1], 8900)"
  by (simp add: parse_socket_addr_def read_ipv4_addr_def read_port_def read_number_def read_counts)

lemma demo_client_run:
  "retrieve_certificate demo_client demo_settings (\<lambda>p. if p = ''cert.pem'' then Some [9, 9, 9] else None) =
   (Ok (), (\<lambda>p. if p = ''cert.pem'' then Some [9, 9, 9] else None)
     (''cert.pem'' \<mapsto> [1, 2, 9], ''ca.pem'' \<mapsto> [3], ''key.pem'' \<mapsto> [8, 9]))"
  by (simp add: retrieve_certificate_def issue_cert_request_def send_protorequest_def dump_certificate_def ca_socket_def
      demo_client_def demo_settings_def demo_answer_def demo_socket ossl_defs to_string_err_def unwrap_def on_err_def call_p_def call_i_def
      cvt_def cvt_p_def ccall_def and_then_def cstring_new_def has_nul_def c_int_max_def out_def Let_def)


end
