(* ===== verification/Ossl_Bn.thy ===== *)
theory Ossl_Bn
  imports Ossl_Context
begin

text \<open>
  Numbers of any size, \<open>openssl/src/bn.rs\<close>: the wrappers of \<open>BigNumRef\<close> and \<open>BigNum\<close> and the operators
  built from them. A number lives in C; a method that computes writes its result to the number it is
  called on, and an operator makes a new number for it. The second half shows that the operators
  compute with integers, given that the functions of the C library do what their manual says.
\<close>

datatype ordering = Less | Equal | Greater

definition cmp_zero :: "int \<Rightarrow> ordering" where
  "cmp_zero i = (if i < 0 then Less else if i = 0 then Equal else Greater)"

definition MSB_MAYBE_ZERO :: int where "MSB_MAYBE_ZERO = -1"
definition MSB_ONE :: int where "MSB_ONE = 0"
definition TWO_MSB_ONE :: int where "TWO_MSB_ONE = 1"

subsection \<open>Numbers\<close>

definition BigNumContext_new :: "'w ffi \<Rightarrow> ('w, error_stack, cval) eff" where
  "BigNumContext_new F = and_then (init F) (\<lambda>_. call_p F ''BN_CTX_new'' [])"

definition BigNum_clear :: "'w ffi \<Rightarrow> cval \<Rightarrow> ('w, 'e, unit) eff" where
  "BigNum_clear F a = call_v F ''BN_clear'' [a]"

definition add_word :: "'w ffi \<Rightarrow> cval \<Rightarrow> u32 \<Rightarrow> ('w, error_stack, unit) eff" where
  "add_word F a n = call_i F ''BN_add_word'' [a, CInt (uint n)]"

definition sub_word :: "'w ffi \<Rightarrow> cval \<Rightarrow> u32 \<Rightarrow> ('w, error_stack, unit) eff" where
  "sub_word F a n = call_i F ''BN_sub_word'' [a, CInt (uint n)]"

definition mul_word :: "'w ffi \<Rightarrow> cval \<Rightarrow> u32 \<Rightarrow> ('w, error_stack, unit) eff" where
  "mul_word F a n = call_i F ''BN_mul_word'' [a, CInt (uint n)]"

definition div_word :: "'w ffi \<Rightarrow> cval \<Rightarrow> u32 \<Rightarrow> ('w, error_stack, u64) eff" where
  "div_word F a n =
     and_then (ccall F ''BN_div_word'' [a, CInt (uint n)]) (\<lambda>(r, _).
     let r = word_of_int (c_int r) :: u64 in
     if r = - 1 then and_then (ErrorStack_get F) throw else ret r)"

definition mod_word :: "'w ffi \<Rightarrow> cval \<Rightarrow> u32 \<Rightarrow> ('w, error_stack, u64) eff" where
  "mod_word F a n =
     and_then (ccall F ''BN_mod_word'' [a, CInt (uint n)]) (\<lambda>(r, _).
     let r = word_of_int (c_int r) :: u64 in
     if r = - 1 then and_then (ErrorStack_get F) throw else ret r)"

definition rand_range :: "'w ffi \<Rightarrow> cval \<Rightarrow> cval \<Rightarrow> ('w, error_stack, unit) eff" where
  "rand_range F a rnd = call_i F ''BN_rand_range'' [rnd, a]"

definition pseudo_rand_range :: "'w ffi \<Rightarrow> cval \<Rightarrow> cval \<Rightarrow> ('w, error_stack, unit) eff" where
  "pseudo_rand_range F a rnd = call_i F ''BN_pseudo_rand_range'' [rnd, a]"

definition BigNum_set_bit :: "'w ffi \<Rightarrow> cval \<Rightarrow> i32 \<Rightarrow> ('w, error_stack, unit) eff" where
  "BigNum_set_bit F a n = call_i F ''BN_set_bit'' [a, CInt (sint n)]"

definition BigNum_clear_bit :: "'w ffi \<Rightarrow> cval \<Rightarrow> i32 \<Rightarrow> ('w, error_stack, unit) eff" where
  "BigNum_clear_bit F a n = call_i F ''BN_clear_bit'' [a, CInt (sint n)]"

definition is_bit_set :: "'w ffi \<Rightarrow> cval \<Rightarrow> i32 \<Rightarrow> ('w, 'e, bool) eff" where
  "is_bit_set F a n = and_then (ccall F ''BN_is_bit_set'' [a, CInt (sint n)]) (\<lambda>(r, _). ret (c_int r = 1))"

definition mask_bits :: "'w ffi \<Rightarrow> cval \<Rightarrow> i32 \<Rightarrow> ('w, error_stack, unit) eff" where
  "mask_bits F a n = call_i F ''BN_mask_bits'' [a, CInt (sint n)]"

definition lshift1 :: "'w ffi \<Rightarrow> cval \<Rightarrow> cval \<Rightarrow> ('w, error_stack, unit) eff" where
  "lshift1 F r a = call_i F ''BN_lshift1'' [r, a]"

definition rshift1 :: "'w ffi \<Rightarrow> cval \<Rightarrow> cval \<Rightarrow> ('w, error_stack, unit) eff" where
  "rshift1 F r a = call_i F ''BN_rshift1'' [r, a]"

definition checked_add :: "'w ffi \<Rightarrow> cval \<Rightarrow> cval \<Rightarrow> cval \<Rightarrow> ('w, error_stack, unit) eff" where
  "checked_add F r a b = call_i F ''BN_add'' [r, a, b]"

definition checked_sub :: "'w ffi \<Rightarrow> cval \<Rightarrow> cval \<Rightarrow> cval \<Rightarrow> ('w, error_stack, unit) eff" where
  "checked_sub F r a b = call_i F ''BN_sub'' [r, a, b]"

definition lshift :: "'w ffi \<Rightarrow> cval \<Rightarrow> cval \<Rightarrow> i32 \<Rightarrow> ('w, error_stack, unit) eff" where
  "lshift F r a n = call_i F ''BN_lshift'' [r, a, CInt (sint n)]"

definition rshift :: "'w ffi \<Rightarrow> cval \<Rightarrow> cval \<Rightarrow> i32 \<Rightarrow> ('w, error_stack, unit) eff" where
  "rshift F r a n = call_i F ''BN_rshift'' [r, a, CInt (sint n)]"

definition BigNum_to_owned :: "'w ffi \<Rightarrow> cval \<Rightarrow> ('w, error_stack, cval) eff" where
  "BigNum_to_owned F a = call_p F ''BN_dup'' [a]"

definition set_negative :: "'w ffi \<Rightarrow> cval \<Rightarrow> bool \<Rightarrow> ('w, 'e, unit) eff" where
  "set_negative F a negative = call_v F ''BN_set_negative'' [a, CInt (if negative then 1 else 0)]"

definition ucmp :: "'w ffi \<Rightarrow> cval \<Rightarrow> cval \<Rightarrow> ('w, 'e, ordering) eff" where
  "ucmp F a b = and_then (ccall F ''BN_ucmp'' [a, b]) (\<lambda>(r, _). ret (cmp_zero (c_int r)))"

definition is_negative :: "'w ffi \<Rightarrow> cval \<Rightarrow> ('w, 'e, bool) eff" where
  "is_negative F a = and_then (ccall F ''BN_is_negative'' [a]) (\<lambda>(r, _). ret (c_int r = 1))"

definition num_bits :: "'w ffi \<Rightarrow> cval \<Rightarrow> ('w, 'e, int) eff" where
  "num_bits F a = and_then (ccall F ''BN_num_bits'' [a]) (\<lambda>(r, _). ret (c_int r))"

definition num_bytes :: "'w ffi \<Rightarrow> cval \<Rightarrow> ('w, 'e, int) eff" where
  "num_bytes F a = and_then (num_bits F a) (\<lambda>n. ret ((n + 7) div 8))"

definition BigNum_rand :: "'w ffi \<Rightarrow> cval \<Rightarrow> i32 \<Rightarrow> int \<Rightarrow> bool \<Rightarrow> ('w, error_stack, unit) eff" where
  "BigNum_rand F a bits msb is_odd =
     call_i F ''BN_rand'' [a, CInt (sint bits), CInt msb, CInt (if is_odd then 1 else 0)]"

definition BigNum_pseudo_rand :: "'w ffi \<Rightarrow> cval \<Rightarrow> i32 \<Rightarrow> int \<Rightarrow> bool \<Rightarrow> ('w, error_stack, unit) eff" where
  "BigNum_pseudo_rand F a bits msb is_odd =
     call_i F ''BN_pseudo_rand'' [a, CInt (sint bits), CInt msb, CInt (if is_odd then 1 else 0)]"

definition generate_prime :: "'w ffi \<Rightarrow> cval \<Rightarrow> i32 \<Rightarrow> bool \<Rightarrow> cval option \<Rightarrow> cval option \<Rightarrow> ('w, error_stack, unit) eff" where
  "generate_prime F a bits safe add rem =
     call_i F ''BN_generate_prime_ex''
       [a, CInt (sint bits), CInt (if safe then 1 else 0), case add of Some n \<Rightarrow> n | None \<Rightarrow> CNull,
        case rem of Some n \<Rightarrow> n | None \<Rightarrow> CNull, CNull]"

definition checked_mul :: "'w ffi \<Rightarrow> cval \<Rightarrow> cval \<Rightarrow> cval \<Rightarrow> cval \<Rightarrow> ('w, error_stack, unit) eff" where
  "checked_mul F r a b ctx = call_i F ''BN_mul'' [r, a, b, ctx]"

definition checked_div :: "'w ffi \<Rightarrow> cval \<Rightarrow> cval \<Rightarrow> cval \<Rightarrow> cval \<Rightarrow> ('w, error_stack, unit) eff" where
  "checked_div F r a b ctx = call_i F ''BN_div'' [r, CNull, a, b, ctx]"

definition checked_rem :: "'w ffi \<Rightarrow> cval \<Rightarrow> cval \<Rightarrow> cval \<Rightarrow> cval \<Rightarrow> ('w, error_stack, unit) eff" where
  "checked_rem F r a b ctx = call_i F ''BN_div'' [CNull, r, a, b, ctx]"

definition div_rem :: "'w ffi \<Rightarrow> cval \<Rightarrow> cval \<Rightarrow> cval \<Rightarrow> cval \<Rightarrow> cval \<Rightarrow> ('w, error_stack, unit) eff" where
  "div_rem F q r a b ctx = call_i F ''BN_div'' [q, r, a, b, ctx]"

definition BigNum_sqr :: "'w ffi \<Rightarrow> cval \<Rightarrow> cval \<Rightarrow> cval \<Rightarrow> ('w, error_stack, unit) eff" where
  "BigNum_sqr F r a ctx = call_i F ''BN_sqr'' [r, a, ctx]"

definition BigNum_nnmod :: "'w ffi \<Rightarrow> cval \<Rightarrow> cval \<Rightarrow> cval \<Rightarrow> cval \<Rightarrow> ('w, error_stack, unit) eff" where
  "BigNum_nnmod F r a b ctx = call_i F ''BN_nnmod'' [r, a, b, ctx]"

definition BigNum_mod_sqr :: "'w ffi \<Rightarrow> cval \<Rightarrow> cval \<Rightarrow> cval \<Rightarrow> cval \<Rightarrow> ('w, error_stack, unit) eff" where
  "BigNum_mod_sqr F r a b ctx = call_i F ''BN_mod_sqr'' [r, a, b, ctx]"

definition BigNum_exp :: "'w ffi \<Rightarrow> cval \<Rightarrow> cval \<Rightarrow> cval \<Rightarrow> cval \<Rightarrow> ('w, error_stack, unit) eff" where
  "BigNum_exp F r a b ctx = call_i F ''BN_exp'' [r, a, b, ctx]"

definition BigNum_gcd :: "'w ffi \<Rightarrow> cval \<Rightarrow> cval \<Rightarrow> cval \<Rightarrow> cval \<Rightarrow> ('w, error_stack, unit) eff" where
  "BigNum_gcd F r a b ctx = call_i F ''BN_gcd'' [r, a, b, ctx]"

definition mod_add :: "'w ffi \<Rightarrow> cval \<Rightarrow> cval \<Rightarrow> cval \<Rightarrow> cval \<Rightarrow> cval \<Rightarrow> ('w, error_stack, unit) eff" where
  "mod_add F r a b m ctx = call_i F ''BN_mod_add'' [r, a, b, m, ctx]"

definition mod_sub :: "'w ffi \<Rightarrow> cval \<Rightarrow> cval \<Rightarrow> cval \<Rightarrow> cval \<Rightarrow> cval \<Rightarrow> ('w, error_stack, unit) eff" where
  "mod_sub F r a b m ctx = call_i F ''BN_mod_sub'' [r, a, b, m, ctx]"

definition mod_mul :: "'w ffi \<Rightarrow> cval \<Rightarrow> cval \<Rightarrow> cval \<Rightarrow> cval \<Rightarrow> cval \<Rightarrow> ('w, error_stack, unit) eff" where
  "mod_mul F r a b m ctx = call_i F ''BN_mod_mul'' [r, a, b, m, ctx]"

definition mod_exp :: "'w ffi \<Rightarrow> cval \<Rightarrow> cval \<Rightarrow> cval \<Rightarrow> cval \<Rightarrow> cval \<Rightarrow> ('w, error_stack, unit) eff" where
  "mod_exp F r a b m ctx = call_i F ''BN_mod_exp'' [r, a, b, m, ctx]"

definition mod_inverse :: "'w ffi \<Rightarrow> cval \<Rightarrow> cval \<Rightarrow> cval \<Rightarrow> cval \<Rightarrow> ('w, error_stack, unit) eff" where
  "mod_inverse F r a n ctx = and_then (call_p F ''BN_mod_inverse'' [r, a, n, ctx]) (\<lambda>_. ret ())"

definition is_prime :: "'w ffi \<Rightarrow> cval \<Rightarrow> i32 \<Rightarrow> cval \<Rightarrow> ('w, error_stack, bool) eff" where
  "is_prime F a checks ctx =
     and_then (ccall F ''BN_is_prime_ex'' [a, CInt (sint checks), ctx, CNull]) (\<lambda>(r, _).
     and_then (cvt_n F r) (\<lambda>n. ret (n \<noteq> 0)))"

definition is_prime_fasttest :: "'w ffi \<Rightarrow> cval \<Rightarrow> i32 \<Rightarrow> cval \<Rightarrow> bool \<Rightarrow> ('w, error_stack, bool) eff" where
  "is_prime_fasttest F a checks ctx do_trial_division =
     and_then (ccall F ''BN_is_prime_fasttest_ex'' [a, CInt (sint checks), ctx, CInt (if do_trial_division then 1 else 0), CNull]) (\<lambda>(r, _).
     and_then (cvt_n F r) (\<lambda>n. ret (n \<noteq> 0)))"

definition BigNum_to_vec :: "'w ffi \<Rightarrow> cval \<Rightarrow> ('w, 'e, byte list) eff" where
  "BigNum_to_vec F a =
     and_then (num_bytes F a) (\<lambda>size.
     and_then (ccall F ''BN_bn2bin'' [a]) (\<lambda>(_, os). ret (take (nat size) (c_bytes (out os 0)))))"

definition to_dec_str :: "'w ffi \<Rightarrow> cval \<Rightarrow> ('w, error_stack, cval) eff" where
  "to_dec_str F a = call_p F ''BN_bn2dec'' [a]"

definition to_hex_str :: "'w ffi \<Rightarrow> cval \<Rightarrow> ('w, error_stack, cval) eff" where
  "to_hex_str F a = call_p F ''BN_bn2hex'' [a]"

definition from_dec_str :: "'w ffi \<Rightarrow> string \<Rightarrow> ('w, error_stack, cval) eff" where
  "from_dec_str F s =
     and_then (init F) (\<lambda>_.
     and_then (c_string s) (\<lambda>c_str.
     and_then (ccall F ''BN_dec2bn'' [c_str]) (\<lambda>(r, os).
     and_then (cvt F r) (\<lambda>_. ret (out os 0)))))"

definition from_hex_str :: "'w ffi \<Rightarrow> string \<Rightarrow> ('w, error_stack, cval) eff" where
  "from_hex_str F s =
     and_then (init F) (\<lambda>_.
     and_then (c_string s) (\<lambda>c_str.
     and_then (ccall F ''BN_hex2bn'' [c_str]) (\<lambda>(r, os).
     and_then (cvt F r) (\<lambda>_. ret (out os 0)))))"

definition get_rfc2409_prime_768 :: "'w ffi \<Rightarrow> ('w, error_stack, cval) eff" where
  "get_rfc2409_prime_768 F = and_then (init F) (\<lambda>_. call_p F ''BN_get_rfc2409_prime_768'' [CNull])"

definition get_rfc2409_prime_1024 :: "'w ffi \<Rightarrow> ('w, error_stack, cval) eff" where
  "get_rfc2409_prime_1024 F = and_then (init F) (\<lambda>_. call_p F ''BN_get_rfc2409_prime_1024'' [CNull])"

definition get_rfc3526_prime_1536 :: "'w ffi \<Rightarrow> ('w, error_stack, cval) eff" where
  "get_rfc3526_prime_1536 F = and_then (init F) (\<lambda>_. call_p F ''BN_get_rfc3526_prime_1536'' [CNull])"

definition get_rfc3526_prime_2048 :: "'w ffi \<Rightarrow> ('w, error_stack, cval) eff" where
  "get_rfc3526_prime_2048 F = and_then (init F) (\<lambda>_. call_p F ''BN_get_rfc3526_prime_2048'' [CNull])"

definition get_rfc3526_prime_3072 :: "'w ffi \<Rightarrow> ('w, error_stack, cval) eff" where
  "get_rfc3526_prime_3072 F = and_then (init F) (\<lambda>_. call_p F ''BN_get_rfc3526_prime_3072'' [CNull])"

definition get_rfc3526_prime_4096 :: "'w ffi \<Rightarrow> ('w, error_stack, cval) eff" where
  "get_rfc3526_prime_4096 F = and_then (init F) (\<lambda>_. call_p F ''BN_get_rfc3526_prime_4096'' [CNull])"

definition get_rfc3526_prime_6144 :: "'w ffi \<Rightarrow> ('w, error_stack, cval) eff" where
  "get_rfc3526_prime_6144 F = and_then (init F) (\<lambda>_. call_p F ''BN_get_rfc3526_prime_6144'' [CNull])"

definition get_rfc3526_prime_8192 :: "'w ffi \<Rightarrow> ('w, error_stack, cval) eff" where
  "get_rfc3526_prime_8192 F = and_then (init F) (\<lambda>_. call_p F ''BN_get_rfc3526_prime_8192'' [CNull])"

definition BigNum_from_slice :: "'w ffi \<Rightarrow> byte list \<Rightarrow> ('w, error_stack, cval) eff" where
  "BigNum_from_slice F n =
     and_then (init F) (\<lambda>_.
     and_then (assert_that (length n \<le> c_int_max)) (\<lambda>_.
       call_p F ''BN_bin2bn'' [CBytes n, CInt (int (length n)), CNull]))"

subsection \<open>Comparison and operators\<close>

definition BigNum_drop :: "'w ffi \<Rightarrow> cval \<Rightarrow> ('w, 'e, unit) eff" where
  "BigNum_drop F a = call_v F ''BN_free'' [a]"

definition BigNumContext_drop :: "'w ffi \<Rightarrow> cval \<Rightarrow> ('w, 'e, unit) eff" where
  "BigNumContext_drop F c = call_v F ''BN_CTX_free'' [c]"

definition bn_cmp :: "'w ffi \<Rightarrow> cval \<Rightarrow> cval \<Rightarrow> ('w, 'e, ordering) eff" where
  "bn_cmp F a b = and_then (ccall F ''BN_cmp'' [a, b]) (\<lambda>(r, _). ret (cmp_zero (c_int r)))"

definition bn_eq :: "'w ffi \<Rightarrow> cval \<Rightarrow> cval \<Rightarrow> ('w, 'e, bool) eff" where
  "bn_eq F a b = and_then (bn_cmp F a b) (\<lambda>c. ret (c = Equal))"

definition bn_partial_cmp :: "'w ffi \<Rightarrow> cval \<Rightarrow> cval \<Rightarrow> ('w, 'e, ordering option) eff" where
  "bn_partial_cmp F a b = and_then (bn_cmp F a b) (\<lambda>c. ret (Some c))"

text \<open>
  The operators share two shapes: a new number, and a new number with a context that is dropped at
  the end. What was made is dropped when a step panics.
\<close>

definition into_new :: "'w ffi \<Rightarrow> (cval \<Rightarrow> ('w, error_stack, unit) eff) \<Rightarrow> ('w, 'e, cval) eff" where
  "into_new F m =
     and_then (unwrap (BigNum_new F)) (\<lambda>r.
     and_then (owning (BigNum_drop F r) (unwrap (m r))) (\<lambda>_. ret r))"

definition with_context :: "'w ffi \<Rightarrow> (cval \<Rightarrow> ('w, 'e, cval) eff) \<Rightarrow> ('w, 'e, cval) eff" where
  "with_context F m =
     and_then (unwrap (BigNumContext_new F)) (\<lambda>ctx.
     and_then (owning (BigNumContext_drop F ctx) (m ctx)) (\<lambda>r.
     and_then (BigNumContext_drop F ctx) (\<lambda>_. ret r)))"

definition bn_add :: "'w ffi \<Rightarrow> cval \<Rightarrow> cval \<Rightarrow> ('w, 'e, cval) eff" where
  "bn_add F a b = into_new F (\<lambda>r. checked_add F r a b)"

definition bn_sub :: "'w ffi \<Rightarrow> cval \<Rightarrow> cval \<Rightarrow> ('w, 'e, cval) eff" where
  "bn_sub F a b = into_new F (\<lambda>r. checked_sub F r a b)"

definition bn_mul :: "'w ffi \<Rightarrow> cval \<Rightarrow> cval \<Rightarrow> ('w, 'e, cval) eff" where
  "bn_mul F a b = with_context F (\<lambda>ctx. into_new F (\<lambda>r. checked_mul F r a b ctx))"

definition bn_div :: "'w ffi \<Rightarrow> cval \<Rightarrow> cval \<Rightarrow> ('w, 'e, cval) eff" where
  "bn_div F a b = with_context F (\<lambda>ctx. into_new F (\<lambda>r. checked_div F r a b ctx))"

definition bn_rem :: "'w ffi \<Rightarrow> cval \<Rightarrow> cval \<Rightarrow> ('w, 'e, cval) eff" where
  "bn_rem F a b = with_context F (\<lambda>ctx. into_new F (\<lambda>r. checked_rem F r a b ctx))"

definition bn_shl :: "'w ffi \<Rightarrow> cval \<Rightarrow> i32 \<Rightarrow> ('w, 'e, cval) eff" where
  "bn_shl F a n = into_new F (\<lambda>r. lshift F r a n)"

definition bn_shr :: "'w ffi \<Rightarrow> cval \<Rightarrow> i32 \<Rightarrow> ('w, 'e, cval) eff" where
  "bn_shr F a n = into_new F (\<lambda>r. rshift F r a n)"

definition bn_negate :: "'w ffi \<Rightarrow> cval \<Rightarrow> ('w, 'e, cval) eff" where
  "bn_negate F a = and_then (is_negative F a) (\<lambda>negative. and_then (set_negative F a (\<not> negative)) (\<lambda>_. ret a))"

definition bn_neg :: "'w ffi \<Rightarrow> cval \<Rightarrow> ('w, 'e, cval) eff" where
  "bn_neg F a = and_then (unwrap (BigNum_to_owned F a)) (bn_negate F)"

subsection \<open>What the C library computes\<close>

text \<open>
  \<open>nums\<close> is the abstraction: the integer that each live number stands for in a state. Division
  truncates towards zero, and a shift to the right works on the magnitude.
\<close>

definition trunc_div :: "int \<Rightarrow> int \<Rightarrow> int" where
  "trunc_div x y = sgn x * sgn y * (\<bar>x\<bar> div \<bar>y\<bar>)"

definition trunc_mod :: "int \<Rightarrow> int \<Rightarrow> int" where
  "trunc_mod x y = x - y * trunc_div x y"

definition makes :: "'w ffi \<Rightarrow> ('w \<Rightarrow> cval \<Rightarrow> int option) \<Rightarrow> string \<Rightarrow> cval list \<Rightarrow> 'w \<Rightarrow> int \<Rightarrow> bool" where
  "makes F nums f args w v \<longleftrightarrow>
     (case F f args w of ((p, _), w') \<Rightarrow> p \<noteq> CNull \<and> nums w p = None \<and> nums w' = (nums w)(p \<mapsto> v))"

definition computes :: "'w ffi \<Rightarrow> ('w \<Rightarrow> cval \<Rightarrow> int option) \<Rightarrow> string \<Rightarrow> cval list \<Rightarrow> 'w \<Rightarrow> cval \<Rightarrow> int \<Rightarrow> bool" where
  "computes F nums f args w r v \<longleftrightarrow>
     (case F f args w of ((c, _), w') \<Rightarrow> 0 < c_int c \<and> nums w' = (nums w)(r \<mapsto> v))"

definition tells :: "'w ffi \<Rightarrow> ('w \<Rightarrow> cval \<Rightarrow> int option) \<Rightarrow> string \<Rightarrow> cval list \<Rightarrow> 'w \<Rightarrow> int \<Rightarrow> bool" where
  "tells F nums f args w i \<longleftrightarrow> (case F f args w of ((c, _), w') \<Rightarrow> c = CInt i \<and> nums w' = nums w)"

definition bn_alloc_law :: "'w ffi \<Rightarrow> ('w \<Rightarrow> cval \<Rightarrow> int option) \<Rightarrow> bool" where
  "bn_alloc_law F nums \<longleftrightarrow>
     (\<forall>args w. nums (snd (F ''init'' args w)) = nums w) \<and>
     (\<forall>args w. nums (snd (F ''BN_CTX_free'' args w)) = nums w) \<and>
     (\<forall>w. fst (fst (F ''BN_CTX_new'' [] w)) \<noteq> CNull \<and> nums (snd (F ''BN_CTX_new'' [] w)) = nums w) \<and>
     (\<forall>w. makes F nums ''BN_new'' [] w 0) \<and>
     (\<forall>a x w. nums w a = Some x \<longrightarrow> makes F nums ''BN_dup'' [a] w x)"

definition bn_arith_law :: "'w ffi \<Rightarrow> ('w \<Rightarrow> cval \<Rightarrow> int option) \<Rightarrow> bool" where
  "bn_arith_law F nums \<longleftrightarrow>
     (\<forall>w r a b x y c. nums w r \<noteq> None \<longrightarrow> nums w a = Some x \<longrightarrow> nums w b = Some y \<longrightarrow>
        computes F nums ''BN_add'' [r, a, b] w r (x + y) \<and>
        computes F nums ''BN_sub'' [r, a, b] w r (x - y) \<and>
        computes F nums ''BN_mul'' [r, a, b, c] w r (x * y) \<and>
        (if y = 0 then
           c_int (fst (fst (F ''BN_div'' [r, CNull, a, b, c] w))) \<le> 0 \<and> c_int (fst (fst (F ''BN_div'' [CNull, r, a, b, c] w))) \<le> 0
         else
           computes F nums ''BN_div'' [r, CNull, a, b, c] w r (trunc_div x y) \<and>
           computes F nums ''BN_div'' [CNull, r, a, b, c] w r (trunc_mod x y)) \<and>
        tells F nums ''BN_cmp'' [a, b] w (sgn (x - y)))"

definition bn_bit_law :: "'w ffi \<Rightarrow> ('w \<Rightarrow> cval \<Rightarrow> int option) \<Rightarrow> bool" where
  "bn_bit_law F nums \<longleftrightarrow>
     (\<forall>w r a x n. nums w r \<noteq> None \<longrightarrow> nums w a = Some x \<longrightarrow> 0 \<le> n \<longrightarrow>
        computes F nums ''BN_lshift'' [r, a, CInt n] w r (x * 2 ^ nat n) \<and>
        computes F nums ''BN_rshift'' [r, a, CInt n] w r (trunc_div x (2 ^ nat n))) \<and>
     (\<forall>w a x. nums w a = Some x \<longrightarrow> tells F nums ''BN_is_negative'' [a] w (if x < 0 then 1 else 0)) \<and>
     (\<forall>w a x s. nums w a = Some x \<longrightarrow>
        nums (snd (F ''BN_set_negative'' [a, CInt s] w)) = (nums w)(a \<mapsto> (if s \<noteq> 0 then - \<bar>x\<bar> else \<bar>x\<bar>)))"

lemma bn_alloc_lawD:
  assumes "bn_alloc_law F nums"
  shows "nums (snd (F ''init'' args w)) = nums w" "nums (snd (F ''BN_CTX_free'' args w)) = nums w"
    "fst (fst (F ''BN_CTX_new'' [] w)) \<noteq> CNull" "nums (snd (F ''BN_CTX_new'' [] w)) = nums w"
    "makes F nums ''BN_new'' [] w 0" "nums w a = Some x \<Longrightarrow> makes F nums ''BN_dup'' [a] w x"
  using assms unfolding bn_alloc_law_def by blast+

lemma bn_arith_lawD:
  assumes "bn_arith_law F nums" "nums w r \<noteq> None" "nums w a = Some x" "nums w b = Some y"
  shows "computes F nums ''BN_add'' [r, a, b] w r (x + y)" "computes F nums ''BN_sub'' [r, a, b] w r (x - y)"
    "computes F nums ''BN_mul'' [r, a, b, c] w r (x * y)"
    "y \<noteq> 0 \<Longrightarrow> computes F nums ''BN_div'' [r, CNull, a, b, c] w r (trunc_div x y)"
    "y \<noteq> 0 \<Longrightarrow> computes F nums ''BN_div'' [CNull, r, a, b, c] w r (trunc_mod x y)"
    "y = 0 \<Longrightarrow> c_int (fst (fst (F ''BN_div'' [r, CNull, a, b, c] w))) \<le> 0"
    "y = 0 \<Longrightarrow> c_int (fst (fst (F ''BN_div'' [CNull, r, a, b, c] w))) \<le> 0"
    "tells F nums ''BN_cmp'' [a, b] w (sgn (x - y))"
  using assms(1) [unfolded bn_arith_law_def, rule_format, OF assms(2-4), of c] by (auto split: if_splits)

lemma call_i_computes:
  "computes F nums f args w r v \<Longrightarrow> \<exists>w'. call_i F f args w = (Ok (), w') \<and> nums w' = (nums w)(r \<mapsto> v)"
  by (auto simp: computes_def call_i_def ccall_def and_then_def cvt_def split: prod.splits)

lemma call_p_makes:
  "makes F nums f args w v \<Longrightarrow>
   \<exists>p w'. call_p F f args w = (Ok p, w') \<and> nums w p = None \<and> nums w' = (nums w)(p \<mapsto> v)"
  by (auto simp: makes_def call_p_def ccall_def and_then_def cvt_p_def split: prod.splits)

lemma call_i_refused:
  "c_int (fst (fst (F f args w))) \<le> 0 \<Longrightarrow> \<not> is_ok (fst (call_i F f args w))"
  by (auto simp: call_i_def ccall_def and_then_def cvt_def split: prod.splits outcome.splits)

text \<open>An operator gives \<open>v\<close>: a number that was not there before stands for it, and nothing else changed.\<close>

definition gives :: "('w \<Rightarrow> cval \<Rightarrow> int option) \<Rightarrow> ('w, 'e, cval) eff \<Rightarrow> 'w \<Rightarrow> int \<Rightarrow> bool" where
  "gives nums m w v \<longleftrightarrow> (\<exists>r w'. m w = (Ok r, w') \<and> nums w r = None \<and> nums w' = (nums w)(r \<mapsto> v))"

lemma init_keeps_nums:
  assumes "bn_alloc_law F nums"
  obtains w' where "init F w = (Ok (), w')" "nums w' = nums w"
  using bn_alloc_lawD(1) [OF assms, of "[]" w]
  by (cases "F ''init'' [] w") (simp add: init_def and_then_def ccall_def)

lemma into_new_gives:
  assumes law: "bn_alloc_law F nums"
    and step: "\<And>r w1. nums w r = None \<Longrightarrow> nums w1 = (nums w)(r \<mapsto> 0) \<Longrightarrow>
      \<exists>w2. m r w1 = (Ok (), w2) \<and> nums w2 = (nums w1)(r \<mapsto> v)"
  shows "gives nums (into_new F m) w v"
proof -
  obtain w0 where i: "init F w = (Ok () :: (error_stack, unit) outcome, w0)" "nums w0 = nums w" by (rule init_keeps_nums [OF law])
  obtain r w1 where n: "call_p F ''BN_new'' [] w0 = (Ok r, w1)" "nums w0 r = None" "nums w1 = (nums w0)(r \<mapsto> 0)"
    using call_p_makes [OF bn_alloc_lawD(5) [OF law]] by blast
  obtain w2 where s: "m r w1 = (Ok (), w2)" "nums w2 = (nums w1)(r \<mapsto> v)"
    using step n i(2) by metis
  have "BigNum_new F w = (Ok r, w1)" using i(1) n(1) by (simp add: BigNum_new_def and_then_def)
  then have "into_new F m w = (Ok r, w2)"
    using s(1) by (simp add: into_new_def and_then_def unwrap_def on_err_def owning_def)
  then show ?thesis using n i(2) s(2) by (auto simp: gives_def)
qed

lemma with_context_run:
  assumes law: "bn_alloc_law F nums"
  obtains c w1 where "nums w1 = nums w" "with_context F m w =
    and_then (owning (BigNumContext_drop F c) (m c)) (\<lambda>r. and_then (BigNumContext_drop F c) (\<lambda>_. ret r)) w1"
proof -
  obtain w0 where i: "init F w = (Ok () :: (error_stack, unit) outcome, w0)" "nums w0 = nums w" by (rule init_keeps_nums [OF law])
  obtain c os w1 where n: "F ''BN_CTX_new'' [] w0 = ((c, os), w1)" by (metis prod.exhaust)
  have "c \<noteq> CNull" "nums w1 = nums w0" using bn_alloc_lawD(3,4) [OF law, of w0] n by simp_all
  then have "BigNumContext_new F w = (Ok c, w1)"
    using i(1) n by (simp add: BigNumContext_new_def and_then_def call_p_def ccall_def cvt_p_def)
  then show thesis
    using \<open>nums w1 = nums w0\<close> i(2)
    by (intro that [of w1 c]) (simp_all add: with_context_def and_then_def unwrap_def on_err_def)
qed

lemma with_context_gives:
  assumes law: "bn_alloc_law F nums" and step: "\<And>c w1. nums w1 = nums w \<Longrightarrow> gives nums (m c) w1 v"
  shows "gives nums (with_context F m) w v"
proof -
  obtain c w1 where c: "nums w1 = nums w" "with_context F m w =
    and_then (owning (BigNumContext_drop F c) (m c)) (\<lambda>r. and_then (BigNumContext_drop F c) (\<lambda>_. ret r)) w1"
    by (rule with_context_run [OF law])
  obtain r w2 where m: "m c w1 = (Ok r, w2)" "nums w1 r = None" "nums w2 = (nums w1)(r \<mapsto> v)"
    using step [OF c(1), of c] by (auto simp: gives_def)
  obtain x w3 where f: "F ''BN_CTX_free'' [c] w2 = (x, w3)" by fastforce
  have "nums w3 = nums w2" using bn_alloc_lawD(2) [OF law, of "[c]" w2] f by simp
  moreover have "with_context F m w = (Ok r, w3)"
    using c(2) m(1) f by (simp add: owning_def and_then_def BigNumContext_drop_def call_v_def ccall_def)
  ultimately show ?thesis using m c(1) by (auto simp: gives_def)
qed

lemma not_ok_and_then: "\<not> is_ok (fst (m w)) \<Longrightarrow> \<not> is_ok (fst (and_then m f w))"
  by (auto simp: and_then_def split: prod.splits outcome.splits)

lemma not_ok_owning: "\<not> is_ok (fst (m w)) \<Longrightarrow> \<not> is_ok (fst (owning drp m w))"
  by (auto simp: owning_def and_then_def split: prod.splits outcome.splits)

lemma not_ok_unwrap: "\<not> is_ok (fst (m w)) \<Longrightarrow> \<not> is_ok (fst (unwrap m w))"
  by (auto simp: unwrap_def on_err_def split: prod.splits outcome.splits)

lemma into_new_refused:
  fixes F :: "'w ffi"
  assumes law: "bn_alloc_law F nums"
    and step: "\<And>r w1. nums w r = None \<Longrightarrow> nums w1 = (nums w)(r \<mapsto> 0) \<Longrightarrow> \<not> is_ok (fst (m r w1))"
  shows "\<not> is_ok (fst ((into_new F m :: ('w, 'e, cval) eff) w))"
proof -
  obtain w0 where i: "init F w = (Ok () :: (error_stack, unit) outcome, w0)" "nums w0 = nums w" by (rule init_keeps_nums [OF law])
  obtain r w1 where n: "call_p F ''BN_new'' [] w0 = (Ok r, w1)" "nums w0 r = None" "nums w1 = (nums w0)(r \<mapsto> 0)"
    using call_p_makes [OF bn_alloc_lawD(5) [OF law]] by blast
  have "BigNum_new F w = (Ok r, w1)" using i(1) n(1) by (simp add: BigNum_new_def and_then_def)
  then have "(into_new F m :: ('w, 'e, cval) eff) w = and_then (owning (BigNum_drop F r) (unwrap (m r))) (\<lambda>_. ret r) w1"
    by (simp add: into_new_def and_then_def unwrap_def on_err_def)
  moreover have "\<not> is_ok (fst (m r w1))" using step n i(2) by simp
  ultimately show ?thesis by (simp add: not_ok_and_then not_ok_owning not_ok_unwrap)
qed

lemma with_context_refused:
  assumes law: "bn_alloc_law F nums" and step: "\<And>c w1. nums w1 = nums w \<Longrightarrow> \<not> is_ok (fst (m c w1))"
  shows "\<not> is_ok (fst (with_context F m w))"
proof -
  obtain c w1 where "nums w1 = nums w" "with_context F m w =
    and_then (owning (BigNumContext_drop F c) (m c)) (\<lambda>r. and_then (BigNumContext_drop F c) (\<lambda>_. ret r)) w1"
    by (rule with_context_run [OF law])
  with step show ?thesis by (simp add: not_ok_and_then not_ok_owning)
qed

lemma bn_neg_gives:
  assumes alloc: "bn_alloc_law F nums" and bits: "bn_bit_law F nums" and a: "nums w a = Some x"
  shows "gives nums (bn_neg F a) w (- x)"
proof -
  obtain p w1 where d: "call_p F ''BN_dup'' [a] w = (Ok p, w1)" "nums w p = None" "nums w1 = (nums w)(p \<mapsto> x)"
    using call_p_makes [OF bn_alloc_lawD(6) [OF alloc a]] by blast
  have p: "nums w1 p = Some x" using d(3) by simp
  obtain os w2 where neg: "F ''BN_is_negative'' [p] w1 = ((CInt (if x < 0 then 1 else 0), os), w2)" "nums w2 = nums w1"
    using conjunct1 [OF conjunct2 [OF bits [unfolded bn_bit_law_def]], rule_format, OF p] by (auto simp: tells_def split: prod.splits)
  let ?s = "if x < 0 then 0 else 1 :: int"
  obtain r w3 where set: "F ''BN_set_negative'' [p, CInt ?s] w2 = (r, w3)" by fastforce
  have "nums w3 = (nums w2)(p \<mapsto> (if ?s \<noteq> 0 then - \<bar>x\<bar> else \<bar>x\<bar>))"
    using conjunct2 [OF conjunct2 [OF bits [unfolded bn_bit_law_def]], rule_format, of w2 p x ?s] neg(2) p set by simp
  then have "nums w3 = (nums w)(p \<mapsto> - x)" using neg(2) d(3) by (auto simp: abs_if)
  moreover have "bn_neg F a w = (Ok p, w3)"
    using d(1) neg(1) set
    by (auto simp: bn_neg_def bn_negate_def BigNum_to_owned_def is_negative_def set_negative_def unwrap_def on_err_def and_then_def
        ccall_def call_v_def split: if_splits)
  ultimately show ?thesis using d(2) by (auto simp: gives_def)
qed

lemma bn_cmp_tells:
  assumes "bn_arith_law F nums" "nums w a = Some x" "nums w b = Some y"
  shows "\<exists>w'. bn_cmp F a b w = (Ok (if x < y then Less else if x = y then Equal else Greater) :: ('e, ordering) outcome, w') \<and>
    nums w' = nums w"
proof -
  have "nums w a \<noteq> None" using assms by simp
  from bn_arith_lawD(8) [OF assms(1) this assms(2,3)] obtain os w' where
    "F ''BN_cmp'' [a, b] w = ((CInt (sgn (x - y)), os), w')" "nums w' = nums w"
    by (auto simp: tells_def split: prod.splits)
  then show ?thesis by (simp add: bn_cmp_def and_then_def ccall_def cmp_zero_def sgn_if)
qed

text \<open>
  C24: the operators on big numbers compute with integers. For two live numbers each operator returns a
  new number that stands for the sum, the difference, the product, the quotient and the remainder of
  division towards zero, the shifted or the negated integer, and leaves every other number as it was;
  comparison and equality are those of the integers. Division by zero gives no number.
\<close>

theorem bignum_operators_exact:
  fixes F :: "'w ffi"
  assumes law: "bn_alloc_law F nums" "bn_arith_law F nums" "bn_bit_law F nums"
    and a: "nums w a = Some x" and b: "nums w b = Some y" and n: "0 \<le> sint n"
  shows "gives nums (bn_add F a b :: ('w, 'e, cval) eff) w (x + y) \<and>
    gives nums (bn_sub F a b :: ('w, 'e, cval) eff) w (x - y) \<and>
    gives nums (bn_mul F a b :: ('w, 'e, cval) eff) w (x * y) \<and>
    (if y = 0 then
       \<not> is_ok (fst ((bn_div F a b :: ('w, 'e, cval) eff) w)) \<and> \<not> is_ok (fst ((bn_rem F a b :: ('w, 'e, cval) eff) w))
     else
       gives nums (bn_div F a b :: ('w, 'e, cval) eff) w (trunc_div x y) \<and>
       gives nums (bn_rem F a b :: ('w, 'e, cval) eff) w (trunc_mod x y)) \<and>
    gives nums (bn_shl F a n :: ('w, 'e, cval) eff) w (x * 2 ^ nat (sint n)) \<and>
    gives nums (bn_shr F a n :: ('w, 'e, cval) eff) w (trunc_div x (2 ^ nat (sint n))) \<and>
    gives nums (bn_neg F a :: ('w, 'e, cval) eff) w (- x) \<and>
    (\<exists>w'. bn_cmp F a b w = (Ok (if x < y then Less else if x = y then Equal else Greater) :: ('e, ordering) outcome, w') \<and>
       nums w' = nums w) \<and>
    (\<exists>w'. bn_eq F a b w = (Ok (x = y) :: ('e, bool) outcome, w') \<and> nums w' = nums w)"
proof (intro conjI)
  have live: "nums w1 r \<noteq> None" "nums w1 a = Some x" "nums w1 b = Some y"
    if "nums w' = nums w" "nums w' r = None" "nums w1 = (nums w')(r \<mapsto> 0)" for w' w1 r
    using that a b by auto
  note arith = bn_arith_lawD [OF law(2)]
  note one = into_new_gives [OF law(1)] and none = into_new_refused [OF law(1)]
  note ctx = with_context_gives [OF law(1)]
  show "gives nums (bn_add F a b :: ('w, 'e, cval) eff) w (x + y)"
    unfolding bn_add_def checked_add_def by (rule one) (rule call_i_computes [OF arith(1) [OF live [OF refl]]])
  show "gives nums (bn_sub F a b :: ('w, 'e, cval) eff) w (x - y)"
    unfolding bn_sub_def checked_sub_def by (rule one) (rule call_i_computes [OF arith(2) [OF live [OF refl]]])
  show "gives nums (bn_mul F a b :: ('w, 'e, cval) eff) w (x * y)"
    unfolding bn_mul_def checked_mul_def by (rule ctx, rule one) (rule call_i_computes [OF arith(3) [OF live]])
  show "if y = 0 then
       \<not> is_ok (fst ((bn_div F a b :: ('w, 'e, cval) eff) w)) \<and> \<not> is_ok (fst ((bn_rem F a b :: ('w, 'e, cval) eff) w))
     else
       gives nums (bn_div F a b :: ('w, 'e, cval) eff) w (trunc_div x y) \<and>
       gives nums (bn_rem F a b :: ('w, 'e, cval) eff) w (trunc_mod x y)"
  proof (cases "y = 0")
    case True
    have "\<not> is_ok (fst ((bn_div F a b :: ('w, 'e, cval) eff) w))"
      unfolding bn_div_def checked_div_def
      by (rule with_context_refused [OF law(1)], rule none, rule call_i_refused) (rule arith(6) [OF live True])
    moreover have "\<not> is_ok (fst ((bn_rem F a b :: ('w, 'e, cval) eff) w))"
      unfolding bn_rem_def checked_rem_def
      by (rule with_context_refused [OF law(1)], rule none, rule call_i_refused) (rule arith(7) [OF live True])
    ultimately show ?thesis using True by simp
  next
    case False
    have "gives nums (bn_div F a b :: ('w, 'e, cval) eff) w (trunc_div x y)"
      unfolding bn_div_def checked_div_def by (rule ctx, rule one) (rule call_i_computes [OF arith(4) [OF live False]])
    moreover have "gives nums (bn_rem F a b :: ('w, 'e, cval) eff) w (trunc_mod x y)"
      unfolding bn_rem_def checked_rem_def by (rule ctx, rule one) (rule call_i_computes [OF arith(5) [OF live False]])
    ultimately show ?thesis using False by simp
  qed
  note shifts = conjunct1 [OF law(3) [unfolded bn_bit_law_def], rule_format, OF live(1,2) [OF refl] n]
  show "gives nums (bn_shl F a n :: ('w, 'e, cval) eff) w (x * 2 ^ nat (sint n))"
    unfolding bn_shl_def lshift_def by (rule one) (rule call_i_computes [OF conjunct1 [OF shifts]])
  show "gives nums (bn_shr F a n :: ('w, 'e, cval) eff) w (trunc_div x (2 ^ nat (sint n)))"
    unfolding bn_shr_def rshift_def by (rule one) (rule call_i_computes [OF conjunct2 [OF shifts]])
  show "gives nums (bn_neg F a :: ('w, 'e, cval) eff) w (- x)"
    by (rule bn_neg_gives [OF law(1,3) a])
  show "\<exists>w'. bn_cmp F a b w = (Ok (if x < y then Less else if x = y then Equal else Greater) :: ('e, ordering) outcome, w') \<and>
       nums w' = nums w"
    by (rule bn_cmp_tells [OF law(2) a b])
  show "\<exists>w'. bn_eq F a b w = (Ok (x = y) :: ('e, bool) outcome, w') \<and> nums w' = nums w"
    using bn_cmp_tells [OF law(2) a b, where 'e = 'e] by (fastforce simp: bn_eq_def and_then_def)
qed

text \<open>A library that keeps its numbers in a list; number \<open>i\<close> is at address \<open>i\<close>.\<close>

fun list_nums :: "int list \<Rightarrow> cval \<Rightarrow> int option" where
  "list_nums w (CPtr i) = (if i < length w then Some (w ! i) else None)"
| "list_nums w _ = None"

definition list_val :: "int list \<Rightarrow> cval \<Rightarrow> int" where
  "list_val w p = (case list_nums w p of Some x \<Rightarrow> x | None \<Rightarrow> 0)"

fun list_put :: "int list \<Rightarrow> cval \<Rightarrow> int \<Rightarrow> int list" where
  "list_put w (CPtr i) v = w[i := v]"
| "list_put w _ v = w"

definition list_lib :: "int list ffi" where
  "list_lib f args w =
     (if f = ''BN_CTX_new'' then ((CPtr 0, []), w)
      else if f = ''BN_new'' then ((CPtr (length w), []), w @ [0])
      else if f = ''BN_dup'' then ((CPtr (length w), []), w @ [list_val w (args ! 0)])
      else if f = ''BN_add'' then ((CInt 1, []), list_put w (args ! 0) (list_val w (args ! 1) + list_val w (args ! 2)))
      else if f = ''BN_sub'' then ((CInt 1, []), list_put w (args ! 0) (list_val w (args ! 1) - list_val w (args ! 2)))
      else if f = ''BN_mul'' then ((CInt 1, []), list_put w (args ! 0) (list_val w (args ! 1) * list_val w (args ! 2)))
      else if f = ''BN_div'' then
        (let x = list_val w (args ! 2); y = list_val w (args ! 3) in
         if y = 0 then ((CInt 0, []), w)
         else ((CInt 1, []), list_put (list_put w (args ! 0) (trunc_div x y)) (args ! 1) (trunc_mod x y)))
      else if f = ''BN_cmp'' then ((CInt (sgn (list_val w (args ! 0) - list_val w (args ! 1))), []), w)
      else if f = ''BN_lshift'' then ((CInt 1, []), list_put w (args ! 0) (list_val w (args ! 1) * 2 ^ nat (c_int (args ! 2))))
      else if f = ''BN_rshift'' then ((CInt 1, []), list_put w (args ! 0) (trunc_div (list_val w (args ! 1)) (2 ^ nat (c_int (args ! 2)))))
      else if f = ''BN_is_negative'' then ((CInt (if list_val w (args ! 0) < 0 then 1 else 0), []), w)
      else if f = ''BN_set_negative'' then
        ((CNull, []), list_put w (args ! 0)
          (if c_int (args ! 1) \<noteq> 0 then - \<bar>list_val w (args ! 0)\<bar> else \<bar>list_val w (args ! 0)\<bar>))
      else ((CNull, []), w))"

lemma list_nums_put: "list_nums w r \<noteq> None \<Longrightarrow> list_nums (list_put w r v) = (list_nums w)(r \<mapsto> v)"
proof
  fix p assume "list_nums w r \<noteq> None"
  then show "list_nums (list_put w r v) p = ((list_nums w)(r \<mapsto> v)) p"
    by (cases r; cases p) (auto split: if_splits)
qed

lemma list_val_Some: "list_nums w p = Some x \<Longrightarrow> list_val w p = x"
  by (simp add: list_val_def)

lemma list_nums_snoc: "list_nums (w @ [v]) = (list_nums w)(CPtr (length w) \<mapsto> v)"
proof
  fix p
  show "list_nums (w @ [v]) p = ((list_nums w)(CPtr (length w) \<mapsto> v)) p"
    by (cases p) (auto simp: nth_append)
qed

lemma list_lib_laws: "bn_alloc_law list_lib list_nums" "bn_arith_law list_lib list_nums" "bn_bit_law list_lib list_nums"
proof -
  show "bn_alloc_law list_lib list_nums"
    unfolding bn_alloc_law_def makes_def by (auto simp: list_lib_def list_nums_snoc list_val_Some)
  show "bn_arith_law list_lib list_nums"
    unfolding bn_arith_law_def computes_def tells_def
    by (auto simp: list_lib_def list_nums_put list_val_Some Let_def)
  show "bn_bit_law list_lib list_nums"
    unfolding bn_bit_law_def computes_def tells_def
    by (auto simp: list_lib_def list_nums_put list_val_Some)
qed

theorem bignum_operators_witness:
  "gives list_nums (bn_div list_lib (CPtr 0) (CPtr 1) :: (int list, unit, cval) eff) [-7, 2] (-3) \<and>
   gives list_nums (bn_rem list_lib (CPtr 0) (CPtr 1) :: (int list, unit, cval) eff) [-7, 2] (-1) \<and>
   gives list_nums (bn_neg list_lib (CPtr 0) :: (int list, unit, cval) eff) [-7, 2] 7"
  using bignum_operators_exact [OF list_lib_laws, of "[-7, 2]" "CPtr 0" "-7" "CPtr 1" 2 1, where 'e = unit]
  by (simp add: trunc_div_def trunc_mod_def)

end
