(* ===== verification/Callback_Laws.thy ===== *)
theory Callback_Laws
  imports Ossl_Callbacks
begin

text \<open>
  Closures behind untyped pointers. The crate stores a closure of any type in the extra data of a
  context and a callback casts the pointer it finds back to the type it was instantiated for; the cast
  is sound because every type has an index of its own. Here the registry of indexes is shown to keep
  the types apart, whatever closures of whatever types are installed in whatever contexts.
\<close>

definition no_indexes :: indexes where
  "no_indexes = \<lparr>ix_map = Map.empty, ix_poisoned = False\<rparr>"

text \<open>
  What the registry relies on of OpenSSL: \<open>CRYPTO_get_ex_new_index\<close> gives an index that was not given
  before or a negative number, a slot holds what was stored last, and other slots keep what they hold.
  \<open>used\<close> are the indexes given so far and \<open>extra\<close> the slots; \<open>kind\<close> tells contexts and sessions apart.
\<close>

definition ex_index_law :: "'w ffi \<Rightarrow> int \<Rightarrow> string \<Rightarrow> ('w \<Rightarrow> cval \<Rightarrow> int \<Rightarrow> cval) \<Rightarrow> ('w \<Rightarrow> int set) \<Rightarrow> bool" where
  "ex_index_law F kind store extra used \<longleftrightarrow>
     (\<forall>a b c f w. let ((r, _), w') = F ''CRYPTO_get_ex_new_index'' [CInt kind, CInt 0, a, b, c, f] w in
        extra w' = extra w \<and>
        (if 0 \<le> c_int r then c_int r \<notin> used w \<and> used w' = insert (c_int r) (used w) else used w' = used w)) \<and>
     (\<forall>x i p w. let w' = snd (F store [x, CInt i, p] w) in
        extra w' = (extra w)(x := (extra w x)(i := p)) \<and> used w' = used w)"

definition ex_read_law :: "'w ffi \<Rightarrow> (cval \<Rightarrow> cval) \<Rightarrow> ('w \<Rightarrow> cval \<Rightarrow> int \<Rightarrow> cval) \<Rightarrow> bool" where
  "ex_read_law F ctx_of extra \<longleftrightarrow>
     (\<forall>ssl w. fst (fst (F ''SSL_get_SSL_CTX'' [ssl] w)) = ctx_of ssl \<and> extra (snd (F ''SSL_get_SSL_CTX'' [ssl] w)) = extra w) \<and>
     (\<forall>ctx i w. fst (fst (F ''SSL_CTX_get_ex_data'' [ctx, CInt i] w)) = extra w ctx i)"

text \<open>What was installed last for a type in a context.\<close>

fun installed :: "(nat \<times> cval \<times> cval) list \<Rightarrow> nat \<Rightarrow> cval \<Rightarrow> cval option \<Rightarrow> cval option" where
  "installed [] tid x old = old"
| "installed ((t, c, p) # ops) tid x old = installed ops tid x (if t = tid \<and> c = x then Some p else old)"

definition registry_inv ::
  "('w \<Rightarrow> cval \<Rightarrow> int \<Rightarrow> cval) \<Rightarrow> ('w \<Rightarrow> int set) \<Rightarrow> (nat \<Rightarrow> cval \<Rightarrow> cval option) \<Rightarrow> 'w \<times> indexes \<Rightarrow> bool" where
  "registry_inv extra used h s \<longleftrightarrow>
     (\<forall>t t' i. ix_map (snd s) t = Some i \<longrightarrow> ix_map (snd s) t' = Some i \<longrightarrow> t = t') \<and>
     (\<forall>t i. ix_map (snd s) t = Some i \<longrightarrow> i \<in> used (fst s)) \<and>
     (\<forall>c i. i \<notin> used (fst s) \<longrightarrow> extra (fst s) c i = CNull) \<and>
     (\<forall>t c i. ix_map (snd s) t = Some i \<longrightarrow> extra (fst s) c i = (case h t c of None \<Rightarrow> CNull | Some p \<Rightarrow> p)) \<and>
     (\<forall>t c. ix_map (snd s) t = None \<longrightarrow> h t c = None)"

lemma get_new_idx_fresh:
  fixes F :: "'w ffi"
  assumes "ex_index_law F 1 store extra used" "(get_new_idx F :: ('w, 'e, int) eff) w = (Ok i, w')"
  shows "i \<notin> used w" "used w' = insert i (used w)" "extra w' = extra w"
proof -
  let ?args = "[CInt 1, CInt 0, CNull, CNull, CNull, CStr ''free_data_box'']"
  obtain r os w1 where run: "F ''CRYPTO_get_ex_new_index'' ?args w = ((r, os), w1)" by (metis prod.exhaust)
  with assms(2) have "0 \<le> c_int r" "i = c_int r" "w' = w1"
    by (auto simp: get_new_idx_def ccall_def and_then_def assert_that_def split: if_splits)
  moreover have "let ((r, _), w') = F ''CRYPTO_get_ex_new_index'' ?args w in extra w' = extra w \<and>
      (if 0 \<le> c_int r then c_int r \<notin> used w \<and> used w' = insert (c_int r) (used w) else used w' = used w)"
    using assms(1) unfolding ex_index_law_def by blast
  ultimately show "i \<notin> used w" "used w' = insert i (used w)" "extra w' = extra w"
    using run by (simp_all add: Let_def)
qed

lemma get_callback_idx_inv:
  fixes F :: "'w ffi"
  assumes law: "ex_index_law F 1 store extra used" and inv: "registry_inv extra used h s"
    and run: "(get_callback_idx F tid :: ('w \<times> indexes, 'e, int) eff) s = (Ok idx, s')"
  shows "registry_inv extra used h s'" "ix_map (snd s') tid = Some idx"
proof -
  obtain w reg where s: "s = (w, reg)" by fastforce
  have "registry_inv extra used h s' \<and> ix_map (snd s') tid = Some idx"
  proof (cases "ix_map reg tid")
    case (Some i)
    with run s inv show ?thesis
      by (auto simp: get_callback_idx_def entry_or_insert_with_def split: if_splits)
  next
    case None
    with run s obtain w' where new: "(get_new_idx F :: ('w, 'e, int) eff) w = (Ok idx, w')"
      and s': "s' = (w', reg\<lparr>ix_map := (ix_map reg)(tid \<mapsto> idx)\<rparr>)"
      by (auto simp: get_callback_idx_def entry_or_insert_with_def lifted_def split: if_splits prod.splits outcome.splits)
    note fresh = get_new_idx_fresh [OF law new]
    from inv s None have "h tid c = None" "extra w c idx = CNull" for c
      using fresh(1) by (simp_all add: registry_inv_def)
    with inv fresh None show ?thesis by (auto simp: registry_inv_def s s' split: if_splits)
  qed
  then show "registry_inv extra used h s'" "ix_map (snd s') tid = Some idx" by simp_all
qed

lemma store_closure_inv:
  fixes F :: "'w ffi"
  assumes law: "ex_index_law F 1 ''SSL_CTX_set_ex_data'' extra used" and inv: "registry_inv extra used h s"
    and run: "(store_closure F tid x p :: ('w \<times> indexes, 'e, unit) eff) s = (Ok (), s')"
  shows "registry_inv extra used (\<lambda>t c. if tid = t \<and> x = c then Some p else h t c) s'"
proof -
  obtain idx s1 where idx: "(get_callback_idx F tid :: ('w \<times> indexes, 'e, int) eff) s = (Ok idx, s1)"
    and set: "s' = (snd (F ''SSL_CTX_set_ex_data'' [x, CInt idx, p] (fst s1)), snd s1)"
    using run unfolding store_closure_def
    by (auto simp: and_then_Ok_iff) (auto simp: lifted_def call_v_def ccall_def and_then_def split: prod.splits)
  have "extra (fst s') = (extra (fst s1))(x := (extra (fst s1) x)(idx := p)) \<and> used (fst s') = used (fst s1)"
    using law set unfolding ex_index_law_def Let_def by auto
  with get_callback_idx_inv [OF law inv idx] set show ?thesis by (auto simp: registry_inv_def)
qed

lemma installs_inv:
  fixes F :: "'w ffi"
  assumes law: "ex_index_law F 1 ''SSL_CTX_set_ex_data'' extra used" and "registry_inv extra used h s"
    and "(for_each (\<lambda>(t, c, p). store_closure F t c p) ops :: ('w \<times> indexes, 'e, unit) eff) s = (Ok (), s')"
  shows "registry_inv extra used (\<lambda>t c. installed ops t c (h t c)) s'"
  using assms(2,3)
proof (induction ops arbitrary: h s)
  case Nil
  then show ?case by simp
next
  case (Cons op ops)
  obtain t c p where op: "op = (t, c, p)" by (metis prod.exhaust)
  with Cons.prems(2) obtain s1 where
    first: "(store_closure F t c p :: ('w \<times> indexes, 'e, unit) eff) s = (Ok (), s1)" and
    rest: "(for_each (\<lambda>(t, c, p). store_closure F t c p) ops :: ('w \<times> indexes, 'e, unit) eff) s1 = (Ok (), s')"
    by (auto simp: and_then_Ok_iff)
  from Cons.IH [OF store_closure_inv [OF law Cons.prems(1) first] rest] show ?case by (simp add: op)
qed

text \<open>
  C32: type safety of the callbacks. After closures of any types have been installed in any contexts,
  the pointer that a callback instantiated for a type finds in the context of its session is that of
  the closure last installed there for this type, so the cast of the pointer back to the type meets a
  closure of that type, never one of another type, also when the types share a context.
\<close>

theorem closures_found_by_type:
  fixes F :: "'w ffi" and boxes :: "nat \<Rightarrow> cval \<Rightarrow> 'f option"
  assumes laws: "ex_index_law F 1 ''SSL_CTX_set_ex_data'' extra used" "ex_read_law F ctx_of extra"
    and new: "\<And>c i. i \<notin> used w \<Longrightarrow> extra w c i = CNull"
    and run: "(for_each (\<lambda>(t, c, p). store_closure F t c p) ops :: ('w \<times> indexes, 'e, unit) eff) (w, no_indexes) = (Ok (), s)"
    and typed: "\<forall>(t, c, p) \<in> set ops. boxes t p \<noteq> None" and this_ctx: "installed ops tid (ctx_of ssl) None = Some p"
    and idx: "(get_callback_idx F tid :: ('w \<times> indexes, 'e, int) eff) s = (Ok idx, s')"
  shows "\<exists>f w'. boxes tid p = Some f \<and> (ctx_closure F idx (boxes tid) ssl :: ('w, 'e, 'f) eff) (fst s') = (Ok f, w')"
proof -
  have "registry_inv extra used (\<lambda>_ _. None) (w, no_indexes)"
    using new by (simp add: registry_inv_def no_indexes_def)
  from get_callback_idx_inv [OF laws(1) installs_inv [OF laws(1) this run] idx]
  have "extra (fst s') (ctx_of ssl) idx = p" using this_ctx by (auto simp: registry_inv_def)
  moreover have "boxes tid p \<noteq> None"
  proof -
    have "installed ops tid x old = old \<or> (\<exists>p. (tid, x, p) \<in> set ops \<and> installed ops tid x old = Some p)" for x old
      by (induction ops arbitrary: old) fastforce+
    from this [of "ctx_of ssl" None] this_ctx typed show ?thesis by auto
  qed
  ultimately show ?thesis
    using laws(2) by (auto simp: ex_read_law_def ctx_closure_def ccall_def and_then_def case_prod_beta)
qed

text \<open>A library that counts the indexes it gives; closures of type 1 are at 10 and 12, of type 2 at 11.\<close>

definition ex_demo :: "((cval \<times> int \<Rightarrow> cval) \<times> nat) ffi" where
  "ex_demo f args w =
     (if f = ''CRYPTO_get_ex_new_index'' then ((CInt (int (snd w)), []), (fst w, Suc (snd w)))
      else if f = ''SSL_CTX_set_ex_data'' then
        (case args of [x, CInt i, p] \<Rightarrow> ((CInt 1, []), ((fst w)((x, i) := p), snd w)) | _ \<Rightarrow> ((CInt 0, []), w))
      else if f = ''SSL_CTX_get_ex_data'' then
        (case args of [x, CInt i] \<Rightarrow> ((fst w (x, i), []), w) | _ \<Rightarrow> ((CNull, []), w))
      else if f = ''SSL_get_SSL_CTX'' then ((CPtr 7, []), w)
      else ((CInt 0, []), w))"

lemma ex_demo_laws:
  "ex_index_law ex_demo 1 ''SSL_CTX_set_ex_data'' (\<lambda>w c i. fst w (c, i)) (\<lambda>w. {0..<int (snd w)})"
  "ex_read_law ex_demo (\<lambda>_. CPtr 7) (\<lambda>w c i. fst w (c, i))"
  by (auto simp: ex_index_law_def ex_read_law_def ex_demo_def fun_eq_iff)

definition demo_boxes :: "nat \<Rightarrow> cval \<Rightarrow> nat option" where
  "demo_boxes t p = (if t = 1 \<and> p = CPtr 10 then Some 100 else if t = 2 \<and> p = CPtr 11 then Some 200
                     else if t = 1 \<and> p = CPtr 12 then Some 300 else None)"

theorem closures_found_by_type_witness:
  "let ops = [(1, CPtr 7, CPtr 10), (2, CPtr 7, CPtr 11), (1, CPtr 8, CPtr 12)];
       s = snd ((for_each (\<lambda>(t, c, p). store_closure ex_demo t c p) ops :: (_, unit, unit) eff)
             ((\<lambda>_. CNull, 0), no_indexes)) in
   \<exists>idx s' w'. (get_callback_idx ex_demo 1 :: (_, unit, int) eff) s = (Ok idx, s') \<and>
     (ctx_closure ex_demo idx (demo_boxes 1) (CPtr 9) :: (_, unit, nat) eff) (fst s') = (Ok 100, w')"
proof -
  let ?ops = "[(1, CPtr 7, CPtr 10), (2, CPtr 7, CPtr 11), (1, CPtr 8, CPtr 12)]"
  let ?r = "(for_each (\<lambda>(t, c, p). store_closure ex_demo t c p) ?ops :: (_, unit, unit) eff) ((\<lambda>_. CNull, 0), no_indexes)"
  note defs = store_closure_def get_callback_idx_def entry_or_insert_with_def get_new_idx_def lifted_def call_v_def
    ccall_def and_then_def ex_demo_def no_indexes_def
  have run: "?r = (Ok (), snd ?r)" by (simp add: defs)
  have idx: "(get_callback_idx ex_demo 1 :: (_, unit, int) eff) (snd ?r) = (Ok 0, snd ?r)" by (simp add: defs)
  have "\<exists>f w'. demo_boxes 1 (CPtr 10) = Some f \<and>
      (ctx_closure ex_demo 0 (demo_boxes 1) (CPtr 9) :: (_, unit, nat) eff) (fst (snd ?r)) = (Ok f, w')"
    by (rule closures_found_by_type [OF ex_demo_laws _ run _ _ idx]) (simp_all add: demo_boxes_def)
  then obtain w' where "(ctx_closure ex_demo 0 (demo_boxes 1) (CPtr 9) :: (_, unit, nat) eff) (fst (snd ?r)) = (Ok 100, w')"
    by (auto simp: demo_boxes_def)
  with idx show ?thesis unfolding Let_def by (intro exI conjI)
qed

subsection \<open>Replaced closures\<close>

text \<open>OpenSSL calls \<open>free_data_box\<close> for every slot of a context that is freed; \<open>free_box\<close> is the \<open>Drop\<close> of the box.\<close>

definition free_data_box :: "(cval \<Rightarrow> ('w, 'e, unit) eff) \<Rightarrow> cval \<Rightarrow> ('w, 'e, unit) eff" where
  "free_data_box free_box ptr = (if ptr \<noteq> CNull then free_box ptr else ret ())"

lemma store_closure_slots:
  fixes F :: "'w ffi"
  assumes law: "ex_index_law F 1 ''SSL_CTX_set_ex_data'' extra used" and inv: "registry_inv extra used h s"
    and run: "(store_closure F tid x p :: ('w \<times> indexes, 'e, unit) eff) s = (Ok (), s')"
  obtains idx where "ix_map (snd s') tid = Some idx" "ix_map (snd s) tid = None \<or> ix_map (snd s) tid = Some idx"
    "extra (fst s') = (extra (fst s))(x := (extra (fst s) x)(idx := p))"
proof -
  obtain idx s1 where idx: "(get_callback_idx F tid :: ('w \<times> indexes, 'e, int) eff) s = (Ok idx, s1)"
    and set: "s' = (snd (F ''SSL_CTX_set_ex_data'' [x, CInt idx, p] (fst s1)), snd s1)"
    using run unfolding store_closure_def
    by (auto simp: and_then_Ok_iff) (auto simp: lifted_def call_v_def ccall_def and_then_def split: prod.splits)
  obtain w reg where s: "s = (w, reg)" by fastforce
  have "extra (fst s1) = extra (fst s)" "ix_map (snd s) tid = None \<or> ix_map (snd s) tid = Some idx"
    using idx get_new_idx_fresh(3) [OF law, of w idx] s
    by (auto simp: get_callback_idx_def entry_or_insert_with_def lifted_def
        split: if_splits option.splits prod.splits outcome.splits)
  moreover have "extra (fst s') = (extra (fst s1))(x := (extra (fst s1) x)(idx := p))"
    using law set unfolding ex_index_law_def Let_def by auto
  moreover have "ix_map (snd s') tid = Some idx" using get_callback_idx_inv(2) [OF law inv idx] set by simp
  ultimately show ?thesis by (intro that) auto
qed

text \<open>
  Installing a second closure of the same type in a context overwrites the slot: the box of the first
  is in no slot any more, so it is never freed.
\<close>

lemma replaced_closure_leaks:
  fixes F :: "'w ffi"
  assumes law: "ex_index_law F 1 ''SSL_CTX_set_ex_data'' extra used" and inv: "registry_inv extra used h s"
    and new: "\<And>c i. extra (fst s) c i \<noteq> p" "p \<noteq> p'"
    and first: "(store_closure F tid x p :: ('w \<times> indexes, 'e, unit) eff) s = (Ok (), s1)"
    and second: "(store_closure F tid x p' :: ('w \<times> indexes, 'e, unit) eff) s1 = (Ok (), s2)"
  shows "extra (fst s2) c i \<noteq> p"
proof -
  obtain k where k: "ix_map (snd s1) tid = Some k" "extra (fst s1) = (extra (fst s))(x := (extra (fst s) x)(k := p))"
    using store_closure_slots [OF law inv first] by metis
  obtain k' where k': "ix_map (snd s1) tid = None \<or> ix_map (snd s1) tid = Some k'"
    "extra (fst s2) = (extra (fst s1))(x := (extra (fst s1) x)(k' := p'))"
    using store_closure_slots [OF law store_closure_inv [OF law inv first] second] by metis
  from k k' have "k' = k" by simp
  with k k' new show ?thesis by auto
qed

end
