(* ===== verification/Ossl_Passwd.thy ===== *)
theory Ossl_Passwd
  imports Ossl_Context Ossl_Symm Demo_Heap
begin

text \<open>
  Reading and writing keys, \<open>openssl/src/macros.rs\<close>, and the password callbacks of
  \<open>openssl/src/util.rs\<close>. The macros generate the same functions for every key type, with the C
  function as their argument; here that is the name of the foreign function.

  A C function that may ask for a password is not one step of the outside state: it calls back into
  Rust any number of times before it returns. Such a function is a parameter that gives a program, a
  tree of the questions it asks and of what it does with the answers; the tree is finite on every
  branch, since a C function that returns asks finitely often. \<open>run_c\<close> plays the program against the
  callback. Local values are dropped where their scope ends, here also on the failing paths.
\<close>

subsection \<open>Scopes and buffers\<close>

definition dropping :: "('w, 'e, unit) eff \<Rightarrow> ('w, 'e, 'a) eff \<Rightarrow> ('w, 'e, 'a) eff" where
  "dropping drp m = and_then (owning drp m) (\<lambda>a. and_then drp (\<lambda>_. ret a))"

text \<open>
  What C stored through the pointer to a buffer. A write past its end has no meaning: the outcome
  is \<open>Diverge\<close>, as for an invalid pointer.
\<close>

definition store_out :: "cval list \<Rightarrow> nat \<Rightarrow> byte list \<Rightarrow> ('w, 'e, byte list) eff" where
  "store_out os i buf =
     (let written = c_bytes (out os i) in
      if length written \<le> length buf then ret (overwrite written buf) else diverge)"

text \<open>\<open>CString::new\<close> of bytes, unwrapped.\<close>

definition c_passphrase :: "byte list \<Rightarrow> ('w, 'e, cval) eff" where
  "c_passphrase pass = (if 0 \<in> set pass then panic else ret (CBytes pass))"

definition bio_drop :: "'w ffi \<Rightarrow> cval \<Rightarrow> ('w, 'e, unit) eff" where
  "bio_drop F bio = call_v F ''BIO_free_all'' [bio]"

subsection \<open>C functions that call back\<close>

datatype 'w cprog =
    CDone cret 'w
  | CAsk "byte list" 'w "int \<Rightarrow> byte list \<Rightarrow> 'w \<Rightarrow> 'w cprog"

type_synonym 'w cb_ffi = "string \<Rightarrow> cval list \<Rightarrow> 'w \<Rightarrow> 'w cprog"

primrec run_c ::
  "'w cprog \<Rightarrow> (byte list \<Rightarrow> ('w \<times> 's, 'e, int \<times> byte list) eff) \<Rightarrow> 's \<Rightarrow> ('e, cret) outcome \<times> 'w \<times> 's" where
  "run_c (CDone r w) cb st = (Ok r, (w, st))"
| "run_c (CAsk buf w k) cb st =
     (case cb buf (w, st) of
        (Ok (n, buf'), (w', st')) \<Rightarrow> run_c (k n buf' w') cb st'
      | (Err e, s) \<Rightarrow> (Err e, s)
      | (Panic, s) \<Rightarrow> (Panic, s)
      | (Diverge, s) \<Rightarrow> (Diverge, s))"

definition ccall_cb ::
  "'w cb_ffi \<Rightarrow> string \<Rightarrow> cval list \<Rightarrow> (byte list \<Rightarrow> ('w \<times> 's, 'e, int \<times> byte list) eff) \<Rightarrow>
   ('w \<times> 's, 'e, cret) eff" where
  "ccall_cb C f args cb s = run_c (C f args (fst s)) cb (snd s)"

subsection \<open>Password callbacks\<close>

record 'f CallbackState =
  cs_cb :: "'f option"
  cs_panic :: bool

definition CallbackState_new :: "'f \<Rightarrow> 'f CallbackState" where
  "CallbackState_new callback = \<lparr>cs_cb = Some callback, cs_panic = False\<rparr>"

definition CallbackState_drop :: "('w \<times> 'f CallbackState, 'e, unit) eff" where
  "CallbackState_drop =
     and_then self (\<lambda>st.
     if cs_panic st then and_then (modify_self (\<lambda>st. st\<lparr>cs_panic := False\<rparr>)) (\<lambda>_. panic) else ret ())"

text \<open>
  A closure works on the buffer it is handed; what it left there before an error or a panic stays.
  The closure is taken out of its slot before it is called, so a second call finds no closure,
  \<open>unwrap\<close> panics, and the panic is caught like one of the closure.
\<close>

type_synonym 'w passwd_closure = "('w \<times> byte list, error_stack, nat) eff"

definition invoke_passwd_cb ::
  "byte list \<Rightarrow> ('w \<times> 'w passwd_closure CallbackState, 'e, int \<times> byte list) eff" where
  "invoke_passwd_cb buf s =
     (case s of (w, callback) \<Rightarrow>
        let taken = callback\<lparr>cs_cb := None\<rparr> in
        case cs_cb callback of
          None \<Rightarrow> (Ok (0, buf), (w, taken\<lparr>cs_panic := True\<rparr>))
        | Some f \<Rightarrow>
            (case f (w, buf) of
               (Ok len, (w', buf')) \<Rightarrow> (Ok (as_c_int (int len), buf'), (w', taken))
             | (Err _, (w', buf')) \<Rightarrow> (Ok (0, buf'), (w', taken))
             | (Panic, (w', buf')) \<Rightarrow> (Ok (0, buf'), (w', taken\<lparr>cs_panic := True\<rparr>))
             | (Diverge, (w', _)) \<Rightarrow> (Diverge, (w', taken))))"

text \<open>The older callback has no error value: its closures never give \<open>Err\<close>.\<close>

type_synonym 'w old_passwd_closure = "('w \<times> byte list, unit, nat) eff"

definition invoke_passwd_cb_old ::
  "byte list \<Rightarrow> ('w \<times> 'w old_passwd_closure CallbackState, 'e, int \<times> byte list) eff" where
  "invoke_passwd_cb_old buf s =
     (case s of (w, callback) \<Rightarrow>
        let taken = callback\<lparr>cs_cb := None\<rparr> in
        case cs_cb callback of
          None \<Rightarrow> (Ok (0, buf), (w, taken\<lparr>cs_panic := True\<rparr>))
        | Some f \<Rightarrow>
            (case f (w, buf) of
               (Ok len, (w', buf')) \<Rightarrow> (Ok (as_c_int (int len), buf'), (w', taken))
             | (Diverge, (w', _)) \<Rightarrow> (Diverge, (w', taken))
             | (_, (w', buf')) \<Rightarrow> (Ok (0, buf'), (w', taken\<lparr>cs_panic := True\<rparr>))))"

subsection \<open>PEM\<close>

definition from_pem_inner :: "'w ffi \<Rightarrow> string \<Rightarrow> byte list \<Rightarrow> ('w, error_stack, cval) eff" where
  "from_pem_inner F read pem =
     and_then (init F) (\<lambda>_.
     and_then (MemBioSlice_new F pem) (\<lambda>bio.
     dropping (bio_drop F bio) (call_p F read [bio, CNull, CNull, CNull])))"

definition private_key_from_pem_passphrase ::
  "'w ffi \<Rightarrow> string \<Rightarrow> byte list \<Rightarrow> byte list \<Rightarrow> ('w, error_stack, cval) eff" where
  "private_key_from_pem_passphrase F read pem passphrase =
     and_then (init F) (\<lambda>_.
     and_then (MemBioSlice_new F pem) (\<lambda>bio.
     dropping (bio_drop F bio) (
     and_then (c_passphrase passphrase) (\<lambda>pass. call_p F read [bio, CNull, CNull, pass]))))"

text \<open>
  The state of the callback outlives the BIO: it was declared first. Its \<open>Drop\<close> resumes the panic
  that the callback caught.
\<close>

definition private_key_from_pem_callback ::
  "'w ffi \<Rightarrow> 'w cb_ffi \<Rightarrow> string \<Rightarrow> byte list \<Rightarrow> 'w passwd_closure \<Rightarrow> ('w, error_stack, cval) eff" where
  "private_key_from_pem_callback F C read pem callback =
     and_then (init F) (\<lambda>_.
     scoped CallbackState_drop (CallbackState_new callback) (
     and_then (lifted (MemBioSlice_new F pem)) (\<lambda>bio.
     dropping (lifted (bio_drop F bio)) (
     and_then (ccall_cb C read [bio, CNull] invoke_passwd_cb) (\<lambda>(r, _). lifted (cvt_p F r))))))"

definition private_key_from_pem_cb ::
  "'w ffi \<Rightarrow> 'w cb_ffi \<Rightarrow> string \<Rightarrow> byte list \<Rightarrow> 'w old_passwd_closure \<Rightarrow> ('w, error_stack, cval) eff" where
  "private_key_from_pem_cb F C read buf pass_cb =
     and_then (init F) (\<lambda>_.
     scoped CallbackState_drop (CallbackState_new pass_cb) (
     and_then (lifted (MemBioSlice_new F buf)) (\<lambda>mem_bio.
     dropping (lifted (bio_drop F mem_bio)) (
     and_then (ccall_cb C read [mem_bio, CNull] invoke_passwd_cb_old) (\<lambda>(r, _). lifted (cvt_p F r))))))"

definition to_pem_inner :: "'w ffi \<Rightarrow> string \<Rightarrow> cval \<Rightarrow> ('w, error_stack, byte list) eff" where
  "to_pem_inner F write x =
     and_then (MemBio_new F) (\<lambda>bio.
     dropping (bio_drop F bio) (
     and_then (call_i F write [bio, x]) (\<lambda>_. MemBio_get_buf F bio)))"

definition private_key_to_pem_inner :: "'w ffi \<Rightarrow> string \<Rightarrow> cval \<Rightarrow> ('w, error_stack, byte list) eff" where
  "private_key_to_pem_inner F write key =
     and_then (MemBio_new F) (\<lambda>bio.
     dropping (bio_drop F bio) (
     and_then (call_i F write [bio, key, CNull, CNull, CInt (-1), CNull, CNull]) (\<lambda>_. MemBio_get_buf F bio)))"

definition private_key_to_pem_passphrase ::
  "'w ffi \<Rightarrow> string \<Rightarrow> cval \<Rightarrow> cval \<Rightarrow> byte list \<Rightarrow> ('w, error_stack, byte list) eff" where
  "private_key_to_pem_passphrase F write key ciph passphrase =
     and_then (MemBio_new F) (\<lambda>bio.
     dropping (bio_drop F bio) (
     and_then (assert_that (length passphrase \<le> c_int_max)) (\<lambda>_.
     and_then (call_i F write
        [bio, key, ciph, CBytes passphrase, CInt (int (length passphrase)), CNull, CNull]) (\<lambda>_.
       MemBio_get_buf F bio))))"

subsection \<open>DER\<close>

text \<open>The first call measures, the second writes.\<close>

definition to_der_inner :: "'w ffi \<Rightarrow> string \<Rightarrow> cval \<Rightarrow> ('w, error_stack, byte list) eff" where
  "to_der_inner F i2d x =
     and_then (ccall F i2d [x, CNull]) (\<lambda>(r, _).
     and_then (cvt F r) (\<lambda>len.
     let buf = replicate (nat len) 0 in
     and_then (ccall F i2d [x, CBytes buf]) (\<lambda>(r, os).
     and_then (cvt F r) (\<lambda>_. store_out os 0 buf))))"

definition c_long_max :: nat where "c_long_max = 2 ^ 63 - 1"

definition from_der_inner :: "'w ffi \<Rightarrow> string \<Rightarrow> byte list \<Rightarrow> ('w, error_stack, cval) eff" where
  "from_der_inner F d2i der =
     and_then (init F) (\<lambda>_.
     call_p F d2i [CNull, CBytes der, CInt (int (min (length der) c_long_max))])"


subsection \<open>Panics in the password closure\<close>

lemma invoke_empty:
  "cs_cb st = None \<Longrightarrow> invoke_passwd_cb buf (w, st) = (Ok (0, buf), (w, st\<lparr>cs_panic := True\<rparr>))"
  by (simp add: invoke_passwd_cb_def)

text \<open>Once the closure is gone every further question is recorded as a panic.\<close>

lemma run_c_empty:
  assumes "cs_cb st = None" "run_c p invoke_passwd_cb st = (r, (w, st'))"
  shows "(\<exists>c. r = Ok c) \<and> (cs_panic st \<longrightarrow> cs_panic st') \<and> (\<not> cs_panic st' \<longrightarrow> (\<exists>c w1. p = CDone c w1))"
  using assms
proof (induction p arbitrary: st)
  case (CAsk buf w1 k)
  then have "run_c (k 0 buf w1) invoke_passwd_cb (st\<lparr>cs_panic := True\<rparr>) = (r, (w, st'))"
    by (simp add: invoke_empty)
  with CAsk.IH [OF rangeI rangeI rangeI, of "st\<lparr>cs_panic := True\<rparr>"] CAsk.prems(1) show ?case by auto
qed auto

text \<open>A question that a closure answered properly: it returned, with a length or with an error.\<close>

definition answered_once :: "'w passwd_closure \<Rightarrow> 'w cprog \<Rightarrow> bool" where
  "answered_once f p \<longleftrightarrow>
     (case p of
        CDone _ _ \<Rightarrow> True
      | CAsk buf w k \<Rightarrow>
          (case f (w, buf) of
             (Ok len, (w', buf')) \<Rightarrow> (\<exists>c w1. k (as_c_int (int len)) buf' w' = CDone c w1)
           | (Err _, (w', buf')) \<Rightarrow> (\<exists>c w1. k 0 buf' w' = CDone c w1)
           | _ \<Rightarrow> False))"

lemma run_c_answered:
  assumes "run_c p invoke_passwd_cb (CallbackState_new f) = (Ok c, (w, st'))" "\<not> cs_panic st'"
  shows "answered_once f p"
  using assms
  by (cases p)
    (auto simp: answered_once_def invoke_passwd_cb_def CallbackState_new_def split: outcome.splits prod.splits
      dest: run_c_empty [rotated])

lemma keeps_lifted_self: "keeps (\<lambda>s. P (snd s)) (lifted m)"
  by (rule keepsI) (simp add: lifted_def split: prod.split)

lemma keeps_dropping [keeps_intros]: "keeps I drp \<Longrightarrow> keeps I m \<Longrightarrow> keeps I (dropping drp m)"
  unfolding dropping_def by (intro keeps_intros)

text \<open>What the scope of a callback state returns, it returns with no panic recorded.\<close>

lemma scoped_callback_returns:
  assumes "scoped CallbackState_drop (CallbackState_new f) m w = (r, w')" "r \<noteq> Panic" "r \<noteq> Diverge"
  obtains st where "m (w, CallbackState_new f) = (r, (w', st))" "\<not> cs_panic st"
proof -
  obtain r1 w1 st where run: "m (w, CallbackState_new f) = (r1, (w1, st))" by (metis prod.exhaust)
  with assms that show thesis
    by (cases r1; cases "cs_panic st") (auto simp: scoped_def after_drop_def CallbackState_drop_def and_then_def)
qed


lemma dropping_lifted_self:
  assumes "dropping (lifted drp) m s = (r, s')"
  shows "snd s' = snd (snd (m s))"
proof -
  obtain r1 w1 st where "m s = (r1, (w1, st))" by (metis prod.exhaust)
  with assms show ?thesis
    by (cases r1) (auto simp: dropping_def owning_def and_then_def lifted_def split: prod.splits outcome.splits)
qed

lemma dropping_Diverge: "m s = (Diverge, s1) \<Longrightarrow> dropping drp m s = (Diverge, s1)"
  by (simp add: dropping_def owning_def and_then_def)

lemma run_c_outcome:
  fixes r :: "('e, cret) outcome"
  shows "run_c p invoke_passwd_cb st = (r, s) \<Longrightarrow> (\<exists>c. r = Ok c) \<or> r = Diverge"
proof (induction p arbitrary: st)
  case (CAsk buf w k)
  obtain r1 w1 st1 where inv: "invoke_passwd_cb buf (w, st) = (r1 :: ('e, int \<times> byte list) outcome, (w1, st1))"
    by (metis prod.exhaust)
  then have "(\<exists>x. r1 = Ok x) \<or> r1 = Diverge"
    by (auto simp: invoke_passwd_cb_def Let_def split: option.splits prod.splits outcome.splits)
  with CAsk.prems inv CAsk.IH [OF rangeI rangeI rangeI] show ?case by auto
qed auto

text \<open>
  Reading a key with a password closure. Whatever the C library does with its callback, the
  function returns (a key or an error) only if the library asked for the password at most once and
  the closure, when it was asked, returned; a panic of the closure, or a second question when the
  closure is already used up, is never swallowed but resumes in the caller once C has returned.
\<close>

lemma password_panic_resumes:
  assumes "MemBioSlice_new F pem (snd (F ''init'' [] w)) = (Ok bio, w2)"
    and "private_key_from_pem_callback F C read pem f w = (r, w')" "r \<noteq> Panic" "r \<noteq> Diverge"
  shows "answered_once f (C read [bio, CNull] w2)"
proof -
  let ?w1 = "snd (F ''init'' [] w)"
  let ?ask = "and_then (ccall_cb C read [bio, CNull] invoke_passwd_cb) (\<lambda>(r, _). lifted (cvt_p F r))"
  from assms(2) have "scoped CallbackState_drop (CallbackState_new f)
      (and_then (lifted (MemBioSlice_new F pem)) (\<lambda>bio. dropping (lifted (bio_drop F bio))
        (and_then (ccall_cb C read [bio, CNull] invoke_passwd_cb) (\<lambda>(r, _). lifted (cvt_p F r))))) ?w1 = (r, w')"
    by (simp add: private_key_from_pem_callback_def init_def and_then_def ccall_def split_beta)
  then obtain st where "and_then (lifted (MemBioSlice_new F pem)) (\<lambda>bio. dropping (lifted (bio_drop F bio))
        (and_then (ccall_cb C read [bio, CNull] invoke_passwd_cb) (\<lambda>(r, _). lifted (cvt_p F r))))
      (?w1, CallbackState_new f) = (r, (w', st))" and st: "\<not> cs_panic st"
    by (rule scoped_callback_returns [OF _ assms(3,4)])
  then have run: "dropping (lifted (bio_drop F bio)) ?ask (w2, CallbackState_new f) = (r, (w', st))"
    using assms(1) by (simp add: and_then_def lifted_def)
  obtain r3 w3 st3 where play: "run_c (C read [bio, CNull] w2) invoke_passwd_cb (CallbackState_new f) =
      (r3 :: (error_stack, _) outcome, (w3, st3))" by (metis prod.exhaust)
  from run_c_outcome [OF play] show ?thesis
  proof
    assume "r3 = Diverge"
    with play have "?ask (w2, CallbackState_new f) = (Diverge, (w3, st3))"
      by (simp add: and_then_def ccall_cb_def)
    with run assms(4) show ?thesis by (simp add: dropping_Diverge)
  next
    assume "\<exists>c. r3 = Ok c"
    then obtain c os where c: "r3 = Ok (c, os)" by auto
    with play have "snd (snd (?ask (w2, CallbackState_new f))) = st3"
      by (simp add: and_then_def ccall_cb_def lifted_def split: prod.split)
    with dropping_lifted_self [OF run] st have "\<not> cs_panic st3" by simp
    with play c show ?thesis by (intro run_c_answered) auto
  qed
qed


text \<open>
  A library that asks once for the password of any PEM text and makes a key of what it was given;
  the outside state is the list of passwords it saw.
\<close>

definition asking_lib :: "byte list list cb_ffi" where
  "asking_lib f args w =
     CAsk [0, 0, 0, 0] w (\<lambda>n buf w'. CDone (if 0 < n then CPtr (nat n) else CNull, []) (take (nat n) buf # w'))"

definition quiet_lib :: "'w ffi" where
  "quiet_lib f args w = ((if f = ''BIO_new_mem_buf'' then CPtr 0 else CInt 0, []), w)"

lemma password_panic_resumes_witness:
  "answered_once (\<lambda>(w, buf). (Ok 2, (w, overwrite [7, 8] buf))) (asking_lib ''PEM_read_bio_PrivateKey'' [CPtr 0, CNull] [])"
proof -
  have read: "private_key_from_pem_callback quiet_lib asking_lib ''PEM_read_bio_PrivateKey'' [1]
      (\<lambda>(w, buf). (Ok 2, (w, overwrite [7, 8] buf))) [] = (Ok (CPtr 2), [[7, 8]])"
    by (simp add: private_key_from_pem_callback_def init_def and_then_def ccall_def quiet_lib_def scoped_def
        MemBioSlice_new_def assert_that_def call_p_def cvt_p_def lifted_def dropping_def owning_def ccall_cb_def asking_lib_def
        invoke_passwd_cb_def CallbackState_new_def as_c_int_def overwrite_def bio_drop_def call_v_def after_drop_def
        CallbackState_drop_def c_int_max_def)
  show ?thesis
    by (rule password_panic_resumes [OF _ read])
      (simp_all add: MemBioSlice_new_def init_def and_then_def ccall_def quiet_lib_def assert_that_def call_p_def cvt_p_def c_int_max_def)
qed

subsection \<open>A passphrase is a closure that copies it\<close>

text \<open>
  With a null callback OpenSSL takes the user pointer for a passphrase and uses its own callback,
  which copies as much of it as fits into the buffer and returns the number of bytes.
\<close>

definition def_callback :: "byte list \<Rightarrow> byte list \<Rightarrow> ('w \<times> unit, 'e, int \<times> byte list) eff" where
  "def_callback pass buf s =
     (let n = min (length pass) (length buf) in (Ok (int n, overwrite (take n pass) buf), s))"

definition passphrase_law :: "'w ffi \<Rightarrow> 'w cb_ffi \<Rightarrow> string \<Rightarrow> bool" where
  "passphrase_law F C read \<longleftrightarrow>
     (\<forall>bio pass w. run_c (C read [bio, CNull] w) (def_callback pass) () =
        ((Ok (fst (F read [bio, CNull, CNull, CBytes pass] w)), (snd (F read [bio, CNull, CNull, CBytes pass] w), ()))
         :: (error_stack, cret) outcome \<times> 'w \<times> unit))"

text \<open>The library asks at most once, whatever the answer.\<close>

definition asks_once :: "'w cprog \<Rightarrow> bool" where
  "asks_once p \<longleftrightarrow>
     (case p of CDone _ _ \<Rightarrow> True | CAsk _ _ k \<Rightarrow> (\<forall>n buf w. \<exists>c w1. k n buf w = CDone c w1))"

definition copy_closure :: "byte list \<Rightarrow> 'w passwd_closure" where
  "copy_closure pass s =
     (case s of (w, buf) \<Rightarrow>
        let n = min (length pass) (length buf) in (Ok n, (w, overwrite (take n pass) buf)))"

lemma as_c_int_small: "n \<le> c_int_max \<Longrightarrow> as_c_int (int n) = int n"
  by (simp add: as_c_int_def c_int_max_def signed_of_nat signed_take_bit_int_eq_self)

lemma play_copy:
  assumes "asks_once p" "length pass \<le> c_int_max"
    and "run_c p (def_callback pass) () = ((Ok r, (w, ())) :: ('e, cret) outcome \<times> 'w \<times> unit)"
  shows "\<exists>cb. run_c p invoke_passwd_cb (CallbackState_new (copy_closure pass)) =
     ((Ok r, (w, \<lparr>cs_cb = cb, cs_panic = False\<rparr>)) :: ('e, cret) outcome \<times> 'w \<times> _)"
proof (cases p)
  case (CAsk buf w0 k)
  let ?n = "min (length pass) (length buf)"
  obtain c w1 where "k (int ?n) (overwrite (take ?n pass) buf) w0 = CDone c w1"
    using assms(1) CAsk unfolding asks_once_def by (simp only: cprog.simps) blast
  with assms(2,3) CAsk show ?thesis
    by (simp add: def_callback_def invoke_passwd_cb_def CallbackState_new_def copy_closure_def Let_def as_c_int_small)
qed (use assms in \<open>auto simp: CallbackState_new_def\<close>)


lemma dropping_lifted:
  assumes "m s = (r, (w, st))" "n (fst s) = (r, w)"
  shows "dropping (lifted drp) m s = (fst (dropping drp n (fst s)), (snd (dropping drp n (fst s)), st))"
  using assms
  by (cases r) (auto simp: dropping_def owning_def and_then_def lifted_def split: prod.splits outcome.splits)

lemma scoped_callback:
  assumes "m (w, CallbackState_new f) = (r, (w', st))" "\<not> cs_panic st"
  shows "scoped CallbackState_drop (CallbackState_new f) m w = (r, w')"
  using assms by (cases r) (simp_all add: scoped_def after_drop_def CallbackState_drop_def)

text \<open>
  Reading a key with a passphrase is reading it with a closure that copies the passphrase into
  the buffer, for every input and with the same outcome and the same effect outside, as long as the
  library asks at most once. The two entry points differ in who answers the question, not in what
  is answered.
\<close>

lemma passphrase_is_copying_closure:
  assumes law: "passphrase_law F C read" and once: "\<forall>bio w. asks_once (C read [bio, CNull] w)"
    and pass: "0 \<notin> set pass" "length pass \<le> c_int_max"
  shows "private_key_from_pem_passphrase F read pem pass w =
     private_key_from_pem_callback F C read pem (copy_closure pass) w"
proof -
  let ?w1 = "snd (F ''init'' [] w)"
  let ?ask = "\<lambda>bio. and_then (ccall_cb C read [bio, CNull] invoke_passwd_cb) (\<lambda>(r, _). lifted (cvt_p F r))"
  let ?body = "and_then (lifted (MemBioSlice_new F pem)) (\<lambda>bio. dropping (lifted (bio_drop F bio)) (?ask bio))"
  let ?st = "CallbackState_new (copy_closure pass)"
  have R: "private_key_from_pem_callback F C read pem (copy_closure pass) w = scoped CallbackState_drop ?st ?body ?w1"
    by (simp add: private_key_from_pem_callback_def init_def and_then_def ccall_def split_beta)
  have L: "private_key_from_pem_passphrase F read pem pass w =
      and_then (MemBioSlice_new F pem) (\<lambda>bio. dropping (bio_drop F bio) (call_p F read [bio, CNull, CNull, CBytes pass])) ?w1"
    using pass(1) by (simp add: private_key_from_pem_passphrase_def init_def and_then_def ccall_def split_beta c_passphrase_def)
  obtain r1 w2 where bio: "MemBioSlice_new F pem ?w1 = (r1, w2)" by fastforce
  show ?thesis
  proof (cases r1)
    case (Ok bio)
    obtain r os w3 where step: "F read [bio, CNull, CNull, CBytes pass] w2 = ((r, os), w3)" by (metis prod.exhaust)
    obtain cb where play: "run_c (C read [bio, CNull] w2) invoke_passwd_cb ?st =
        ((Ok (r, os), (w3, \<lparr>cs_cb = cb, cs_panic = False\<rparr>)) :: (error_stack, _) outcome \<times> _)"
      using play_copy [where 'e = error_stack, OF once [rule_format] pass(2), of bio w2 "(r, os)" w3] law step
      by (auto simp: passphrase_law_def)
    obtain r4 w4 where cvt: "cvt_p F r w3 = (r4, w4)" by fastforce
    have ask: "?ask bio (w2, ?st) = (r4, (w4, \<lparr>cs_cb = cb, cs_panic = False\<rparr>))"
      using play cvt by (simp add: and_then_def ccall_cb_def lifted_def)
    have direct: "call_p F read [bio, CNull, CNull, CBytes pass] (fst (w2, ?st)) = (r4, w4)"
      using step cvt by (simp add: call_p_def and_then_def ccall_def)
    have "?body (?w1, ?st) = dropping (lifted (bio_drop F bio)) (?ask bio) (w2, ?st)"
      using bio Ok by (simp add: and_then_def lifted_def)
    also have "\<dots> = (fst (dropping (bio_drop F bio) (call_p F read [bio, CNull, CNull, CBytes pass]) w2),
        (snd (dropping (bio_drop F bio) (call_p F read [bio, CNull, CNull, CBytes pass]) w2), \<lparr>cs_cb = cb, cs_panic = False\<rparr>))"
      using dropping_lifted [where m = "?ask bio" and n = "call_p F read [bio, CNull, CNull, CBytes pass]", OF ask direct]
      by simp
    finally have "scoped CallbackState_drop ?st ?body ?w1 = dropping (bio_drop F bio) (call_p F read [bio, CNull, CNull, CBytes pass]) w2"
      by (rule scoped_callback [THEN trans]) simp_all
    with R L bio Ok show ?thesis by (simp add: and_then_def)
  qed (use R L bio in \<open>simp_all add: and_then_def lifted_def scoped_callback CallbackState_new_def scoped_def after_drop_def CallbackState_drop_def\<close>)
qed


text \<open>The same library with a null callback: OpenSSL answers its own question.\<close>

definition asking_ffi :: "byte list list ffi" where
  "asking_ffi f args w =
     (if f = ''PEM_read_bio_PrivateKey'' then
        (let pass = take 4 (c_bytes (args ! 3)) in
         ((if pass \<noteq> [] then CPtr (length pass) else CNull, []), pass # w))
      else quiet_lib f args w)"

lemma asking_law: "passphrase_law asking_ffi asking_lib ''PEM_read_bio_PrivateKey''"
  by (auto simp: passphrase_law_def asking_lib_def asking_ffi_def def_callback_def overwrite_def Let_def min_def numeral_eq_Suc)

lemma passphrase_is_copying_closure_witness:
  "private_key_from_pem_passphrase asking_ffi ''PEM_read_bio_PrivateKey'' [1] [7, 8] [] = (Ok (CPtr 2), [[7, 8]])
   \<and> private_key_from_pem_callback asking_ffi asking_lib ''PEM_read_bio_PrivateKey'' [1] (copy_closure [7, 8]) [] =
       (Ok (CPtr 2), [[7, 8]])"
proof -
  have "private_key_from_pem_passphrase asking_ffi ''PEM_read_bio_PrivateKey'' [1] [7, 8] [] = (Ok (CPtr 2), [[7, 8]])"
    by (simp add: private_key_from_pem_passphrase_def init_def and_then_def ccall_def asking_ffi_def quiet_lib_def
        MemBioSlice_new_def assert_that_def call_p_def cvt_p_def dropping_def owning_def c_passphrase_def bio_drop_def
        call_v_def c_int_max_def)
  moreover have "\<forall>bio w. asks_once (asking_lib ''PEM_read_bio_PrivateKey'' [bio, CNull] w)"
    by (simp add: asks_once_def asking_lib_def)
  ultimately show ?thesis
    using passphrase_is_copying_closure [OF asking_law, of "[7, 8]" "[1]" "[]"] by (simp add: c_int_max_def)
qed

subsection \<open>DER round trips\<close>

text \<open>
  What the functions of the \<open>i2d\<close> and \<open>d2i\<close> families document: the first returns the length of the
  encoding and, given a buffer, writes it there; the second decodes into a new object. \<open>V\<close> is what
  the objects of the outside state stand for.
\<close>

definition der_law :: "'w ffi \<Rightarrow> ('w \<Rightarrow> cval \<Rightarrow> 'v option) \<Rightarrow> string \<Rightarrow> string \<Rightarrow> ('v \<Rightarrow> byte list) \<Rightarrow> bool" where
  "der_law F V i2d d2i enc \<longleftrightarrow>
     (\<forall>w. V (snd (F ''init'' [] w)) = V w) \<and>
     (\<forall>w x v. V w x = Some v \<longrightarrow> (\<exists>os w'. F i2d [x, CNull] w = ((CInt (int (length (enc v))), os), w') \<and> V w' = V w)) \<and>
     (\<forall>w x v buf. V w x = Some v \<longrightarrow> length buf = length (enc v) \<longrightarrow>
        (\<exists>w'. F i2d [x, CBytes buf] w = ((CInt (int (length (enc v))), [CBytes (enc v)]), w') \<and> V w' = V w)) \<and>
     (\<forall>w v. length (enc v) \<le> c_long_max \<longrightarrow>
        (\<exists>p os w'. F d2i [CNull, CBytes (enc v), CInt (int (length (enc v)))] w = ((p, os), w') \<and>
           p \<noteq> CNull \<and> V w p = None \<and> V w' = (V w)(p \<mapsto> v))) \<and>
     (\<forall>v. enc v \<noteq> [])"


lemma der_lawD:
  assumes "der_law F V i2d d2i enc"
  shows "V (snd (F ''init'' [] w)) = V w"
    "V w x = Some v \<Longrightarrow> \<exists>os w'. F i2d [x, CNull] w = ((CInt (int (length (enc v))), os), w') \<and> V w' = V w"
    "V w x = Some v \<Longrightarrow> length buf = length (enc v) \<Longrightarrow>
      \<exists>w'. F i2d [x, CBytes buf] w = ((CInt (int (length (enc v))), [CBytes (enc v)]), w') \<and> V w' = V w"
    "length (enc v) \<le> c_long_max \<Longrightarrow>
      \<exists>p os w'. F d2i [CNull, CBytes (enc v), CInt (int (length (enc v)))] w = ((p, os), w') \<and>
        p \<noteq> CNull \<and> V w p = None \<and> V w' = (V w)(p \<mapsto> v)"
    "enc v \<noteq> []"
  by (use assms [unfolded der_law_def] in meson)+

lemma to_der_inner_run:
  assumes law: "der_law F V i2d d2i enc" and x: "V w x = Some v"
  obtains w' where "to_der_inner F i2d x w = (Ok (enc v), w')" "V w' = V w"
proof -
  obtain os w1 where m: "F i2d [x, CNull] w = ((CInt (int (length (enc v))), os), w1)" "V w1 = V w"
    using der_lawD(2) [OF law x] by blast
  with x have "V w1 x = Some v" by simp
  from der_lawD(3) [OF law this, of "replicate (length (enc v)) 0"] obtain w2 where
    wr: "F i2d [x, CBytes (replicate (length (enc v)) 0)] w1 = ((CInt (int (length (enc v))), [CBytes (enc v)]), w2)"
      "V w2 = V w1" by auto
  have "to_der_inner F i2d x w = (Ok (enc v), w2)"
    using m(1) wr(1) der_lawD(5) [OF law, of v]
    by (simp add: to_der_inner_def and_then_def ccall_def cvt_def store_out_def out_def overwrite_def Let_def)
  with m wr that show thesis by simp
qed

lemma from_der_inner_run:
  assumes law: "der_law F V i2d d2i enc" and len: "length (enc v) \<le> c_long_max"
  obtains p w' where "from_der_inner F d2i (enc v) w = (Ok p, w')" "V w p = None" "V w' = (V w)(p \<mapsto> v)"
proof -
  let ?w1 = "snd (F ''init'' [] w)"
  obtain p os w' where "F d2i [CNull, CBytes (enc v), CInt (int (length (enc v)))] ?w1 = ((p, os), w')"
    "p \<noteq> CNull" "V ?w1 p = None" "V w' = (V ?w1)(p \<mapsto> v)"
    using der_lawD(4) [OF law len] by metis
  with len that show thesis
    by (simp add: from_der_inner_def init_def and_then_def ccall_def split_beta call_p_def cvt_p_def min_def
        der_lawD(1) [OF law])
qed

text \<open>
  DER round trip of every type that is written with \<open>to_der!\<close> and read with \<open>from_der!\<close>: an object
  is serialised into a buffer of exactly the length of its encoding, and reading that buffer gives a
  new object with the same value; the first object keeps its own.
\<close>

lemma der_roundtrip:
  assumes "der_law F V i2d d2i enc" "V w x = Some v" "length (enc v) \<le> c_long_max"
  shows "\<exists>w1 p w2. to_der_inner F i2d x w = (Ok (enc v), w1) \<and> from_der_inner F d2i (enc v) w1 = (Ok p, w2) \<and>
     p \<noteq> x \<and> V w2 p = Some v \<and> V w2 x = Some v"
proof -
  obtain w1 where w1: "to_der_inner F i2d x w = (Ok (enc v), w1)" "V w1 = V w"
    by (rule to_der_inner_run [OF assms(1,2)])
  obtain p w2 where "from_der_inner F d2i (enc v) w1 = (Ok p, w2)" "V w1 p = None" "V w2 = (V w1)(p \<mapsto> v)"
    by (rule from_der_inner_run [OF assms(1,3)])
  with w1 assms(2) show ?thesis by (cases "p = x") auto
qed

text \<open>Objects in an association list, with a length byte before the content.\<close>

definition der_demo :: "(nat \<times> byte list) list ffi" where
  "der_demo f args w =
     (if f = ''i2d'' then
        (case args of
           [CPtr x, buf] \<Rightarrow> (case map_of w x of
              Some v \<Rightarrow> ((CInt (int (length v) + 1), [CBytes (1 # v)]), w)
            | None \<Rightarrow> ((CInt (-1), []), w))
         | _ \<Rightarrow> ((CInt (-1), []), w))
      else if f = ''d2i'' then
        (case args of
           [_, CBytes (_ # v), _] \<Rightarrow> ((CPtr (al_fresh w), []), (al_fresh w, v) # w)
         | _ \<Rightarrow> ((CNull, []), w))
      else ((CInt 0, []), w))"

lemma der_demo_law: "der_law der_demo al_heap ''i2d'' ''d2i'' (Cons 1)"
proof -
  have *: "\<exists>n. x = CPtr n \<and> map_of w n = Some v" if "al_heap w x = Some v" for w :: "(nat \<times> byte list) list" and x v
    using that by (cases x) auto
  show ?thesis
    by (auto simp: der_law_def der_demo_def al_heap_Cons al_fresh_None [simplified] dest!: *)
qed

lemma der_roundtrip_witness:
  "\<exists>w1 p w2. to_der_inner der_demo ''i2d'' (CPtr 0) [(0, [4, 5])] = (Ok [1, 4, 5], w1) \<and>
     from_der_inner der_demo ''d2i'' [1, 4, 5] w1 = (Ok p, w2) \<and> al_heap w2 p = Some [4, 5]"
  using der_roundtrip [OF der_demo_law, of "[(0, [4, 5])]" "CPtr 0" "[4, 5]"] by (auto simp: c_long_max_def)


text \<open>The length a closure returns goes to C as it is, also when it is more than the buffer holds.\<close>

lemma passwd_length_unchecked:
  assumes "f (w, buf) = (Ok len, (w', buf'))" "len \<le> c_int_max"
  shows "invoke_passwd_cb buf (w, CallbackState_new f) =
    (Ok (int len, buf'), (w', \<lparr>cs_cb = None, cs_panic = False\<rparr>))"
  using assms by (simp add: invoke_passwd_cb_def CallbackState_new_def as_c_int_small)

end
