(* ===== verification/Ossl_Keys.thy ===== *)
theory Ossl_Keys
  imports Ossl_Passwd
begin

text \<open>
  Keys: \<open>openssl/src/pkey.rs\<close>, \<open>openssl/src/rsa.rs\<close>, \<open>openssl/src/dsa.rs\<close> and \<open>openssl/src/dh.rs\<close>. A key
  is its C pointer. A function that takes a key by value owns it: it is dropped when the function
  fails and passes to the new object when it succeeds (\<open>mem::forget\<close> keeps Rust from dropping it).
  The functions that write into a slice of the caller return the slice with the count; after an
  error its content is not specified.
\<close>

subsection \<open>Numbers of the C interface\<close>

definition EVP_PKEY_DSA :: int where "EVP_PKEY_DSA = 116"
definition EVP_PKEY_DH :: int where "EVP_PKEY_DH = 28"
definition EVP_PKEY_EC :: int where "EVP_PKEY_EC = 408"
definition EVP_PKEY_HMAC :: int where "EVP_PKEY_HMAC = 855"
definition EVP_PKEY_ALG_CTRL :: int where "EVP_PKEY_ALG_CTRL = 0x1000"
definition EVP_PKEY_CTRL_RSA_PADDING :: int where "EVP_PKEY_CTRL_RSA_PADDING = EVP_PKEY_ALG_CTRL + 1"
definition EVP_PKEY_CTRL_GET_RSA_PADDING :: int where "EVP_PKEY_CTRL_GET_RSA_PADDING = EVP_PKEY_ALG_CTRL + 6"

subsection \<open>Padding\<close>

datatype Padding = Padding (Padding_as_raw: int)

definition Padding_from_raw :: "int \<Rightarrow> Padding" where
  "Padding_from_raw raw = Padding raw"

definition NO_PADDING :: Padding where "NO_PADDING = Padding 3"
definition PKCS1_PADDING :: Padding where "PKCS1_PADDING = Padding 1"
definition PKCS1_OAEP_PADDING :: Padding where "PKCS1_OAEP_PADDING = Padding 4"

subsection \<open>Any key\<close>

definition PKey_drop :: "'w ffi \<Rightarrow> cval \<Rightarrow> ('w, 'e, unit) eff" where
  "PKey_drop F pkey = call_v F ''EVP_PKEY_free'' [pkey]"

definition PKey_rsa :: "'w ffi \<Rightarrow> cval \<Rightarrow> ('w, error_stack, cval) eff" where
  "PKey_rsa F pkey = call_p F ''EVP_PKEY_get1_RSA'' [pkey]"

definition PKey_dsa :: "'w ffi \<Rightarrow> cval \<Rightarrow> ('w, error_stack, cval) eff" where
  "PKey_dsa F pkey = call_p F ''EVP_PKEY_get1_DSA'' [pkey]"

definition PKey_dh :: "'w ffi \<Rightarrow> cval \<Rightarrow> ('w, error_stack, cval) eff" where
  "PKey_dh F pkey = call_p F ''EVP_PKEY_get1_DH'' [pkey]"

definition PKey_ec_key :: "'w ffi \<Rightarrow> cval \<Rightarrow> ('w, error_stack, cval) eff" where
  "PKey_ec_key F pkey = call_p F ''EVP_PKEY_get1_EC_KEY'' [pkey]"

definition PKey_bits :: "'w ffi \<Rightarrow> cval \<Rightarrow> ('w, 'e, u32) eff" where
  "PKey_bits F pkey = and_then (ccall F ''EVP_PKEY_bits'' [pkey]) (\<lambda>(r, _). ret (word_of_int (c_int r)))"

definition PKey_public_eq :: "'w ffi \<Rightarrow> cval \<Rightarrow> cval \<Rightarrow> ('w, 'e, bool) eff" where
  "PKey_public_eq F pkey other = and_then (ccall F ''EVP_PKEY_cmp'' [pkey, other]) (\<lambda>(r, _). ret (c_int r = 1))"

text \<open>
  The four functions \<open>PKey::from_rsa\<close>, \<open>from_dsa\<close>, \<open>from_dh\<close> and \<open>from_ec_key\<close> differ in the number of
  the key type and in how the key is dropped.
\<close>

definition PKey_from :: "'w ffi \<Rightarrow> string \<Rightarrow> int \<Rightarrow> cval \<Rightarrow> ('w, error_stack, cval) eff" where
  "PKey_from F free kind key =
     owning (call_v F free [key]) (
     and_then (call_p F ''EVP_PKEY_new'' []) (\<lambda>pkey.
     owning (PKey_drop F pkey) (
     and_then (call_i F ''EVP_PKEY_assign'' [pkey, CInt kind, key]) (\<lambda>_. ret pkey))))"

definition PKey_from_rsa_key :: "'w ffi \<Rightarrow> cval \<Rightarrow> ('w, error_stack, cval) eff" where
  "PKey_from_rsa_key F rsa = PKey_from F ''RSA_free'' EVP_PKEY_RSA rsa"

definition PKey_from_dsa :: "'w ffi \<Rightarrow> cval \<Rightarrow> ('w, error_stack, cval) eff" where
  "PKey_from_dsa F dsa = PKey_from F ''DSA_free'' EVP_PKEY_DSA dsa"

definition PKey_from_dh :: "'w ffi \<Rightarrow> cval \<Rightarrow> ('w, error_stack, cval) eff" where
  "PKey_from_dh F dh = PKey_from F ''DH_free'' EVP_PKEY_DH dh"

definition PKey_from_ec_key :: "'w ffi \<Rightarrow> cval \<Rightarrow> ('w, error_stack, cval) eff" where
  "PKey_from_ec_key F ec_key = PKey_from F ''EC_KEY_free'' EVP_PKEY_EC ec_key"

definition PKey_hmac :: "'w ffi \<Rightarrow> byte list \<Rightarrow> ('w, error_stack, cval) eff" where
  "PKey_hmac F key =
     and_then (assert_that (length key \<le> c_int_max)) (\<lambda>_.
     call_p F ''EVP_PKEY_new_mac_key'' [CInt EVP_PKEY_HMAC, CNull, CBytes key, CInt (int (length key))])"

definition PKey_private_key_from_pkcs8_callback ::
  "'w ffi \<Rightarrow> 'w cb_ffi \<Rightarrow> byte list \<Rightarrow> 'w passwd_closure \<Rightarrow> ('w, error_stack, cval) eff" where
  "PKey_private_key_from_pkcs8_callback F C der callback =
     and_then (init F) (\<lambda>_.
     scoped CallbackState_drop (CallbackState_new callback) (
     and_then (lifted (MemBioSlice_new F der)) (\<lambda>bio.
     dropping (lifted (bio_drop F bio)) (
     and_then (ccall_cb C ''d2i_PKCS8PrivateKey_bio'' [bio, CNull] invoke_passwd_cb) (\<lambda>(r, _). lifted (cvt_p F r))))))"

definition PKey_private_key_from_pkcs8_passphrase ::
  "'w ffi \<Rightarrow> byte list \<Rightarrow> byte list \<Rightarrow> ('w, error_stack, cval) eff" where
  "PKey_private_key_from_pkcs8_passphrase F der passphrase =
     and_then (init F) (\<lambda>_.
     and_then (MemBioSlice_new F der) (\<lambda>bio.
     dropping (bio_drop F bio) (
     and_then (c_passphrase passphrase) (\<lambda>pass.
       call_p F ''d2i_PKCS8PrivateKey_bio'' [bio, CNull, CNull, pass]))))"

definition PKey_private_key_from_pem_cb ::
  "'w ffi \<Rightarrow> 'w cb_ffi \<Rightarrow> byte list \<Rightarrow> 'w old_passwd_closure \<Rightarrow> ('w, error_stack, cval) eff" where
  "PKey_private_key_from_pem_cb F C = private_key_from_pem_cb F C ''PEM_read_bio_PrivateKey''"

text \<open>The functions the macros generate for \<open>PKey\<close>.\<close>

definition PKey_public_key_to_pem :: "'w ffi \<Rightarrow> cval \<Rightarrow> ('w, error_stack, byte list) eff" where
  "PKey_public_key_to_pem F = to_pem_inner F ''PEM_write_bio_PUBKEY''"

definition PKey_private_key_to_pem_passphrase ::
  "'w ffi \<Rightarrow> cval \<Rightarrow> cval \<Rightarrow> byte list \<Rightarrow> ('w, error_stack, byte list) eff" where
  "PKey_private_key_to_pem_passphrase F = private_key_to_pem_passphrase F ''PEM_write_bio_PKCS8PrivateKey''"

definition PKey_private_key_to_der :: "'w ffi \<Rightarrow> cval \<Rightarrow> ('w, error_stack, byte list) eff" where
  "PKey_private_key_to_der F = to_der_inner F ''i2d_PrivateKey''"

definition PKey_public_key_to_der :: "'w ffi \<Rightarrow> cval \<Rightarrow> ('w, error_stack, byte list) eff" where
  "PKey_public_key_to_der F = to_der_inner F ''i2d_PUBKEY''"

definition PKey_private_key_from_pem :: "'w ffi \<Rightarrow> byte list \<Rightarrow> ('w, error_stack, cval) eff" where
  "PKey_private_key_from_pem F = from_pem_inner F ''PEM_read_bio_PrivateKey''"

definition PKey_public_key_from_pem :: "'w ffi \<Rightarrow> byte list \<Rightarrow> ('w, error_stack, cval) eff" where
  "PKey_public_key_from_pem F = from_pem_inner F ''PEM_read_bio_PUBKEY''"

definition PKey_public_key_from_der :: "'w ffi \<Rightarrow> byte list \<Rightarrow> ('w, error_stack, cval) eff" where
  "PKey_public_key_from_der F = from_der_inner F ''d2i_PUBKEY''"

definition PKey_private_key_from_der :: "'w ffi \<Rightarrow> byte list \<Rightarrow> ('w, error_stack, cval) eff" where
  "PKey_private_key_from_der F = from_der_inner F ''d2i_AutoPrivateKey''"

subsection \<open>Key contexts\<close>

definition PKeyCtx_from_pkey :: "'w ffi \<Rightarrow> cval \<Rightarrow> ('w, error_stack, cval) eff" where
  "PKeyCtx_from_pkey F pkey = call_p F ''EVP_PKEY_CTX_new'' [pkey, CNull]"

definition EVP_PKEY_CTX_set_rsa_padding :: "'w ffi \<Rightarrow> cval \<Rightarrow> int \<Rightarrow> ('w, 'e, cret) eff" where
  "EVP_PKEY_CTX_set_rsa_padding F ctx pad =
     ccall F ''EVP_PKEY_CTX_ctrl'' [ctx, CInt EVP_PKEY_RSA, CInt (-1), CInt EVP_PKEY_CTRL_RSA_PADDING, CInt pad, CNull]"

definition EVP_PKEY_CTX_get_rsa_padding :: "'w ffi \<Rightarrow> cval \<Rightarrow> ('w, 'e, cret) eff" where
  "EVP_PKEY_CTX_get_rsa_padding F ctx =
     ccall F ''EVP_PKEY_CTX_ctrl'' [ctx, CInt EVP_PKEY_RSA, CInt (-1), CInt EVP_PKEY_CTRL_GET_RSA_PADDING, CInt 0]"

definition PKeyCtx_set_rsa_padding :: "'w ffi \<Rightarrow> cval \<Rightarrow> Padding \<Rightarrow> ('w, error_stack, unit) eff" where
  "PKeyCtx_set_rsa_padding F ctx pad =
     and_then (EVP_PKEY_CTX_set_rsa_padding F ctx (Padding_as_raw pad)) (\<lambda>(r, _).
     and_then (cvt F r) (\<lambda>_. ret ()))"

definition PKeyCtx_rsa_padding :: "'w ffi \<Rightarrow> cval \<Rightarrow> ('w, error_stack, Padding) eff" where
  "PKeyCtx_rsa_padding F ctx =
     and_then (EVP_PKEY_CTX_get_rsa_padding F ctx) (\<lambda>(r, os).
     and_then (cvt F r) (\<lambda>_. ret (Padding_from_raw (c_int (out os 0)))))"

definition PKeyCtx_derive_init :: "'w ffi \<Rightarrow> cval \<Rightarrow> ('w, error_stack, unit) eff" where
  "PKeyCtx_derive_init F ctx = call_i F ''EVP_PKEY_derive_init'' [ctx]"

definition PKeyCtx_derive_set_peer :: "'w ffi \<Rightarrow> cval \<Rightarrow> cval \<Rightarrow> ('w, error_stack, unit) eff" where
  "PKeyCtx_derive_set_peer F ctx peer = call_i F ''EVP_PKEY_derive_set_peer'' [ctx, peer]"

text \<open>
  The out-values are what was written through the key pointer and the length. The length of the
  second call is not looked at.
\<close>

definition PKeyCtx_derive :: "'w ffi \<Rightarrow> cval \<Rightarrow> ('w, error_stack, byte list) eff" where
  "PKeyCtx_derive F ctx =
     and_then (ccall F ''EVP_PKEY_derive'' [ctx, CNull, CInt 0]) (\<lambda>(r, os).
     and_then (cvt F r) (\<lambda>_.
     let len = nat (c_int (out os 1)); key = replicate len 0 in
     and_then (ccall F ''EVP_PKEY_derive'' [ctx, CBytes key, CInt (int len)]) (\<lambda>(r, os).
     and_then (cvt F r) (\<lambda>_. store_out os 0 key))))"


definition PKey_private_key_to_pem :: "'w ffi \<Rightarrow> cval \<Rightarrow> ('w, error_stack, byte list) eff" where
  "PKey_private_key_to_pem F = private_key_to_pem_inner F ''PEM_write_bio_PKCS8PrivateKey''"

definition PKey_private_key_from_pem_passphrase ::
  "'w ffi \<Rightarrow> byte list \<Rightarrow> byte list \<Rightarrow> ('w, error_stack, cval) eff" where
  "PKey_private_key_from_pem_passphrase F = private_key_from_pem_passphrase F ''PEM_read_bio_PrivateKey''"

definition PKey_private_key_from_pem_callback ::
  "'w ffi \<Rightarrow> 'w cb_ffi \<Rightarrow> byte list \<Rightarrow> 'w passwd_closure \<Rightarrow> ('w, error_stack, cval) eff" where
  "PKey_private_key_from_pem_callback F C = private_key_from_pem_callback F C ''PEM_read_bio_PrivateKey''"

subsection \<open>RSA\<close>

text \<open>The accessors of OpenSSL 1.1.0, module \<open>compat\<close>; what they store is an array of pointers.\<close>

definition rsa_key :: "'w ffi \<Rightarrow> cval \<Rightarrow> ('w, 'e, cval list) eff" where
  "rsa_key F r = and_then (ccall F ''RSA_get0_key'' [r]) (\<lambda>(_, os). ret [out os 0, out os 1, out os 2])"

definition rsa_factors :: "'w ffi \<Rightarrow> cval \<Rightarrow> ('w, 'e, cval list) eff" where
  "rsa_factors F r = and_then (ccall F ''RSA_get0_factors'' [r]) (\<lambda>(_, os). ret [out os 0, out os 1])"

definition set_key :: "'w ffi \<Rightarrow> cval \<Rightarrow> cval \<Rightarrow> cval \<Rightarrow> cval \<Rightarrow> ('w, 'e, cval) eff" where
  "set_key F r n e d = and_then (ccall F ''RSA_set0_key'' [r, n, e, d]) (\<lambda>(v, _). ret v)"

definition set_factors :: "'w ffi \<Rightarrow> cval \<Rightarrow> cval \<Rightarrow> cval \<Rightarrow> ('w, 'e, cval) eff" where
  "set_factors F r p q = and_then (ccall F ''RSA_set0_factors'' [r, p, q]) (\<lambda>(v, _). ret v)"

definition set_crt_params :: "'w ffi \<Rightarrow> cval \<Rightarrow> cval \<Rightarrow> cval \<Rightarrow> cval \<Rightarrow> ('w, 'e, cval) eff" where
  "set_crt_params F r dmp1 dmq1 iqmp =
     and_then (ccall F ''RSA_set0_crt_params'' [r, dmp1, dmq1, iqmp]) (\<lambda>(v, _). ret v)"

definition non_null :: "cval \<Rightarrow> cval option" where
  "non_null p = (if p = CNull then None else Some p)"

definition Rsa_n :: "'w ffi \<Rightarrow> cval \<Rightarrow> ('w, 'e, cval option) eff" where
  "Rsa_n F rsa = and_then (rsa_key F rsa) (\<lambda>ps. ret (non_null (ps ! 0)))"

definition Rsa_d :: "'w ffi \<Rightarrow> cval \<Rightarrow> ('w, 'e, cval option) eff" where
  "Rsa_d F rsa = and_then (rsa_key F rsa) (\<lambda>ps. ret (non_null (ps ! 2)))"

definition Rsa_e :: "'w ffi \<Rightarrow> cval \<Rightarrow> ('w, 'e, cval option) eff" where
  "Rsa_e F rsa = and_then (rsa_key F rsa) (\<lambda>ps. ret (non_null (ps ! 1)))"

definition Rsa_p :: "'w ffi \<Rightarrow> cval \<Rightarrow> ('w, 'e, cval option) eff" where
  "Rsa_p F rsa = and_then (rsa_factors F rsa) (\<lambda>ps. ret (non_null (ps ! 0)))"

definition Rsa_q :: "'w ffi \<Rightarrow> cval \<Rightarrow> ('w, 'e, cval option) eff" where
  "Rsa_q F rsa = and_then (rsa_factors F rsa) (\<lambda>ps. ret (non_null (ps ! 1)))"

definition Rsa_size :: "'w ffi \<Rightarrow> cval \<Rightarrow> ('w, 'e, nat) eff" where
  "Rsa_size F rsa =
     and_then (Rsa_n F rsa) (\<lambda>n.
     and_then (assert_that (n \<noteq> None)) (\<lambda>_.
     and_then (ccall F ''RSA_size'' [rsa]) (\<lambda>(r, _). ret (nat (c_int r)))))"

text \<open>The four functions differ in the C function and in whether the private part must be there.\<close>

definition rsa_crypt ::
  "'w ffi \<Rightarrow> string \<Rightarrow> cval \<Rightarrow> byte list \<Rightarrow> byte list \<Rightarrow> Padding \<Rightarrow> ('w, error_stack, nat \<times> byte list) eff" where
  "rsa_crypt F f rsa src dst padding =
     and_then (assert_that (length src \<le> c_int_max)) (\<lambda>_.
     and_then (Rsa_size F rsa) (\<lambda>size.
     and_then (assert_that (size \<le> length dst)) (\<lambda>_.
     and_then (ccall F f [CInt (int (length src)), CBytes src, CBytes dst, rsa, CInt (Padding_as_raw padding)]) (\<lambda>(r, os).
     and_then (cvt_n F r) (\<lambda>len.
     and_then (store_out os 0 dst) (\<lambda>dst. ret (nat len, dst)))))))"

definition Rsa_private_decrypt ::
  "'w ffi \<Rightarrow> cval \<Rightarrow> byte list \<Rightarrow> byte list \<Rightarrow> Padding \<Rightarrow> ('w, error_stack, nat \<times> byte list) eff" where
  "Rsa_private_decrypt F rsa src dst padding =
     and_then (Rsa_d F rsa) (\<lambda>d.
     and_then (assert_that (d \<noteq> None)) (\<lambda>_. rsa_crypt F ''RSA_private_decrypt'' rsa src dst padding))"

definition Rsa_private_encrypt ::
  "'w ffi \<Rightarrow> cval \<Rightarrow> byte list \<Rightarrow> byte list \<Rightarrow> Padding \<Rightarrow> ('w, error_stack, nat \<times> byte list) eff" where
  "Rsa_private_encrypt F rsa src dst padding =
     and_then (Rsa_d F rsa) (\<lambda>d.
     and_then (assert_that (d \<noteq> None)) (\<lambda>_. rsa_crypt F ''RSA_private_encrypt'' rsa src dst padding))"

definition Rsa_public_decrypt ::
  "'w ffi \<Rightarrow> cval \<Rightarrow> byte list \<Rightarrow> byte list \<Rightarrow> Padding \<Rightarrow> ('w, error_stack, nat \<times> byte list) eff" where
  "Rsa_public_decrypt F rsa src dst padding = rsa_crypt F ''RSA_public_decrypt'' rsa src dst padding"

definition Rsa_public_encrypt ::
  "'w ffi \<Rightarrow> cval \<Rightarrow> byte list \<Rightarrow> byte list \<Rightarrow> Padding \<Rightarrow> ('w, error_stack, nat \<times> byte list) eff" where
  "Rsa_public_encrypt F rsa src dst padding = rsa_crypt F ''RSA_public_encrypt'' rsa src dst padding"

definition Rsa_drop :: "'w ffi \<Rightarrow> cval \<Rightarrow> ('w, 'e, unit) eff" where
  "Rsa_drop F rsa = call_v F ''RSA_free'' [rsa]"

text \<open>Arguments passed by value are dropped in reverse order of declaration.\<close>

fun drop_numbers :: "'w ffi \<Rightarrow> cval list \<Rightarrow> ('w, 'e, unit) eff" where
  "drop_numbers F [] = ret ()"
| "drop_numbers F (b # bs) = and_then (drop_numbers F bs) (\<lambda>_. call_v F ''BN_free'' [b])"

definition Rsa_from_public_components :: "'w ffi \<Rightarrow> cval \<Rightarrow> cval \<Rightarrow> ('w, error_stack, cval) eff" where
  "Rsa_from_public_components F n e =
     owning (drop_numbers F [n, e]) (
     and_then (call_p F ''RSA_new'' []) (\<lambda>rsa.
     owning (Rsa_drop F rsa) (
     and_then (set_key F rsa n e CNull) (\<lambda>r.
     and_then (cvt F r) (\<lambda>_. ret rsa)))))"

text \<open>Each group of numbers belongs to the key as soon as the call that takes it succeeded.\<close>

definition Rsa_from_private_components ::
  "'w ffi \<Rightarrow> cval \<Rightarrow> cval \<Rightarrow> cval \<Rightarrow> cval \<Rightarrow> cval \<Rightarrow> cval \<Rightarrow> cval \<Rightarrow> cval \<Rightarrow> ('w, error_stack, cval) eff" where
  "Rsa_from_private_components F n e d p q dp dq qi =
     and_then (owning (drop_numbers F [n, e, d, p, q, dp, dq, qi]) (call_p F ''RSA_new'' [])) (\<lambda>rsa.
     and_then (owning (and_then (Rsa_drop F rsa) (\<lambda>_. drop_numbers F [n, e, d, p, q, dp, dq, qi]))
        (and_then (set_key F rsa n e d) (cvt F))) (\<lambda>_.
     and_then (owning (and_then (Rsa_drop F rsa) (\<lambda>_. drop_numbers F [p, q, dp, dq, qi]))
        (and_then (set_factors F rsa p q) (cvt F))) (\<lambda>_.
     and_then (owning (and_then (Rsa_drop F rsa) (\<lambda>_. drop_numbers F [dp, dq, qi]))
        (and_then (set_crt_params F rsa dp dq qi) (cvt F))) (\<lambda>_.
     ret rsa))))"

definition Rsa_private_key_from_pem_cb ::
  "'w ffi \<Rightarrow> 'w cb_ffi \<Rightarrow> byte list \<Rightarrow> 'w old_passwd_closure \<Rightarrow> ('w, error_stack, cval) eff" where
  "Rsa_private_key_from_pem_cb F C = private_key_from_pem_cb F C ''PEM_read_bio_RSAPrivateKey''"

definition Rsa_private_key_to_pem :: "'w ffi \<Rightarrow> cval \<Rightarrow> ('w, error_stack, byte list) eff" where
  "Rsa_private_key_to_pem F = private_key_to_pem_inner F ''PEM_write_bio_RSAPrivateKey''"

definition Rsa_private_key_to_pem_passphrase :: "'w ffi \<Rightarrow> cval \<Rightarrow> cval \<Rightarrow> byte list \<Rightarrow> ('w, error_stack, byte list) eff" where
  "Rsa_private_key_to_pem_passphrase F = private_key_to_pem_passphrase F ''PEM_write_bio_RSAPrivateKey''"

definition Rsa_public_key_to_pem :: "'w ffi \<Rightarrow> cval \<Rightarrow> ('w, error_stack, byte list) eff" where
  "Rsa_public_key_to_pem F = to_pem_inner F ''PEM_write_bio_RSA_PUBKEY''"

definition Rsa_private_key_to_der :: "'w ffi \<Rightarrow> cval \<Rightarrow> ('w, error_stack, byte list) eff" where
  "Rsa_private_key_to_der F = to_der_inner F ''i2d_RSAPrivateKey''"

definition Rsa_public_key_to_der :: "'w ffi \<Rightarrow> cval \<Rightarrow> ('w, error_stack, byte list) eff" where
  "Rsa_public_key_to_der F = to_der_inner F ''i2d_RSA_PUBKEY''"

definition Rsa_private_key_from_pem :: "'w ffi \<Rightarrow> byte list \<Rightarrow> ('w, error_stack, cval) eff" where
  "Rsa_private_key_from_pem F = from_pem_inner F ''PEM_read_bio_RSAPrivateKey''"

definition Rsa_private_key_from_pem_passphrase :: "'w ffi \<Rightarrow> byte list \<Rightarrow> byte list \<Rightarrow> ('w, error_stack, cval) eff" where
  "Rsa_private_key_from_pem_passphrase F = private_key_from_pem_passphrase F ''PEM_read_bio_RSAPrivateKey''"

definition Rsa_private_key_from_pem_callback ::
  "'w ffi \<Rightarrow> 'w cb_ffi \<Rightarrow> byte list \<Rightarrow> 'w passwd_closure \<Rightarrow> ('w, error_stack, cval) eff" where
  "Rsa_private_key_from_pem_callback F C = private_key_from_pem_callback F C ''PEM_read_bio_RSAPrivateKey''"

definition Rsa_public_key_from_pem :: "'w ffi \<Rightarrow> byte list \<Rightarrow> ('w, error_stack, cval) eff" where
  "Rsa_public_key_from_pem F = from_pem_inner F ''PEM_read_bio_RSA_PUBKEY''"

definition Rsa_private_key_from_der :: "'w ffi \<Rightarrow> byte list \<Rightarrow> ('w, error_stack, cval) eff" where
  "Rsa_private_key_from_der F = from_der_inner F ''d2i_RSAPrivateKey''"

definition Rsa_public_key_from_der :: "'w ffi \<Rightarrow> byte list \<Rightarrow> ('w, error_stack, cval) eff" where
  "Rsa_public_key_from_der F = from_der_inner F ''d2i_RSA_PUBKEY''"

definition Rsa_public_key_to_der_pkcs1 :: "'w ffi \<Rightarrow> cval \<Rightarrow> ('w, error_stack, byte list) eff" where
  "Rsa_public_key_to_der_pkcs1 F = to_der_inner F ''i2d_RSAPublicKey''"

definition Rsa_public_key_from_der_pkcs1 :: "'w ffi \<Rightarrow> byte list \<Rightarrow> ('w, error_stack, cval) eff" where
  "Rsa_public_key_from_der_pkcs1 F = from_der_inner F ''d2i_RSAPublicKey''"

subsection \<open>DSA\<close>

definition dsa_pqg :: "'w ffi \<Rightarrow> cval \<Rightarrow> ('w, 'e, cval list) eff" where
  "dsa_pqg F d = and_then (ccall F ''DSA_get0_pqg'' [d]) (\<lambda>(_, os). ret [out os 0, out os 1, out os 2])"

definition dsa_keys :: "'w ffi \<Rightarrow> cval \<Rightarrow> ('w, 'e, cval list) eff" where
  "dsa_keys F d = and_then (ccall F ''DSA_get0_key'' [d]) (\<lambda>(_, os). ret [out os 0, out os 1])"

definition Dsa_p :: "'w ffi \<Rightarrow> cval \<Rightarrow> ('w, 'e, cval option) eff" where
  "Dsa_p F dsa = and_then (dsa_pqg F dsa) (\<lambda>ps. ret (non_null (ps ! 0)))"

definition Dsa_q :: "'w ffi \<Rightarrow> cval \<Rightarrow> ('w, 'e, cval option) eff" where
  "Dsa_q F dsa = and_then (dsa_pqg F dsa) (\<lambda>ps. ret (non_null (ps ! 1)))"

definition Dsa_g :: "'w ffi \<Rightarrow> cval \<Rightarrow> ('w, 'e, cval option) eff" where
  "Dsa_g F dsa = and_then (dsa_pqg F dsa) (\<lambda>ps. ret (non_null (ps ! 2)))"

definition Dsa_size :: "'w ffi \<Rightarrow> cval \<Rightarrow> ('w, 'e, u32 option) eff" where
  "Dsa_size F dsa =
     and_then (Dsa_q F dsa) (\<lambda>q.
     if q \<noteq> None then and_then (ccall F ''DSA_size'' [dsa]) (\<lambda>(r, _). ret (Some (word_of_int (c_int r))))
     else ret None)"

definition Dsa_has_public_key :: "'w ffi \<Rightarrow> cval \<Rightarrow> ('w, 'e, bool) eff" where
  "Dsa_has_public_key F dsa = and_then (dsa_keys F dsa) (\<lambda>ks. ret (ks ! 0 \<noteq> CNull))"

definition Dsa_has_private_key :: "'w ffi \<Rightarrow> cval \<Rightarrow> ('w, 'e, bool) eff" where
  "Dsa_has_private_key F dsa = and_then (dsa_keys F dsa) (\<lambda>ks. ret (ks ! 1 \<noteq> CNull))"

definition Dsa_generate :: "'w ffi \<Rightarrow> u32 \<Rightarrow> ('w, error_stack, cval) eff" where
  "Dsa_generate F bits =
     and_then (init F) (\<lambda>_.
     and_then (call_p F ''DSA_new'' []) (\<lambda>dsa.
     owning (call_v F ''DSA_free'' [dsa]) (
     and_then (call_i F ''DSA_generate_parameters_ex'' [dsa, CInt (sint bits), CNull, CInt 0, CNull, CNull, CNull]) (\<lambda>_.
     and_then (call_i F ''DSA_generate_key'' [dsa]) (\<lambda>_. ret dsa)))))"

definition Dsa_private_key_from_pem_cb ::
  "'w ffi \<Rightarrow> 'w cb_ffi \<Rightarrow> byte list \<Rightarrow> 'w old_passwd_closure \<Rightarrow> ('w, error_stack, cval) eff" where
  "Dsa_private_key_from_pem_cb F C = private_key_from_pem_cb F C ''PEM_read_bio_DSAPrivateKey''"

definition Dsa_private_key_to_pem :: "'w ffi \<Rightarrow> cval \<Rightarrow> ('w, error_stack, byte list) eff" where
  "Dsa_private_key_to_pem F = private_key_to_pem_inner F ''PEM_write_bio_DSAPrivateKey''"

definition Dsa_private_key_to_pem_passphrase :: "'w ffi \<Rightarrow> cval \<Rightarrow> cval \<Rightarrow> byte list \<Rightarrow> ('w, error_stack, byte list) eff" where
  "Dsa_private_key_to_pem_passphrase F = private_key_to_pem_passphrase F ''PEM_write_bio_DSAPrivateKey''"

definition Dsa_public_key_to_pem :: "'w ffi \<Rightarrow> cval \<Rightarrow> ('w, error_stack, byte list) eff" where
  "Dsa_public_key_to_pem F = to_pem_inner F ''PEM_write_bio_DSA_PUBKEY''"

definition Dsa_private_key_to_der :: "'w ffi \<Rightarrow> cval \<Rightarrow> ('w, error_stack, byte list) eff" where
  "Dsa_private_key_to_der F = to_der_inner F ''i2d_DSAPrivateKey''"

definition Dsa_public_key_to_der :: "'w ffi \<Rightarrow> cval \<Rightarrow> ('w, error_stack, byte list) eff" where
  "Dsa_public_key_to_der F = to_der_inner F ''i2d_DSAPublicKey''"

definition Dsa_private_key_from_pem :: "'w ffi \<Rightarrow> byte list \<Rightarrow> ('w, error_stack, cval) eff" where
  "Dsa_private_key_from_pem F = from_pem_inner F ''PEM_read_bio_DSAPrivateKey''"

definition Dsa_private_key_from_pem_passphrase :: "'w ffi \<Rightarrow> byte list \<Rightarrow> byte list \<Rightarrow> ('w, error_stack, cval) eff" where
  "Dsa_private_key_from_pem_passphrase F = private_key_from_pem_passphrase F ''PEM_read_bio_DSAPrivateKey''"

definition Dsa_private_key_from_pem_callback ::
  "'w ffi \<Rightarrow> 'w cb_ffi \<Rightarrow> byte list \<Rightarrow> 'w passwd_closure \<Rightarrow> ('w, error_stack, cval) eff" where
  "Dsa_private_key_from_pem_callback F C = private_key_from_pem_callback F C ''PEM_read_bio_DSAPrivateKey''"

definition Dsa_public_key_from_pem :: "'w ffi \<Rightarrow> byte list \<Rightarrow> ('w, error_stack, cval) eff" where
  "Dsa_public_key_from_pem F = from_pem_inner F ''PEM_read_bio_DSA_PUBKEY''"

definition Dsa_private_key_from_der :: "'w ffi \<Rightarrow> byte list \<Rightarrow> ('w, error_stack, cval) eff" where
  "Dsa_private_key_from_der F = from_der_inner F ''d2i_DSAPrivateKey''"

definition Dsa_public_key_from_der :: "'w ffi \<Rightarrow> byte list \<Rightarrow> ('w, error_stack, cval) eff" where
  "Dsa_public_key_from_der F = from_der_inner F ''d2i_DSAPublicKey''"

subsection \<open>Diffie-Hellman parameters\<close>

definition Dh_from_params :: "'w ffi \<Rightarrow> cval \<Rightarrow> cval \<Rightarrow> cval \<Rightarrow> ('w, error_stack, cval) eff" where
  "Dh_from_params F p g q =
     owning (drop_numbers F [p, g, q]) (
     and_then (call_p F ''DH_new'' []) (\<lambda>dh.
     owning (call_v F ''DH_free'' [dh]) (
     and_then (call_i F ''DH_set0_pqg'' [dh, p, q, g]) (\<lambda>_. ret dh))))"

definition Dh_to_pem :: "'w ffi \<Rightarrow> cval \<Rightarrow> ('w, error_stack, byte list) eff" where
  "Dh_to_pem F = to_pem_inner F ''PEM_write_bio_DHparams''"

definition Dh_to_der :: "'w ffi \<Rightarrow> cval \<Rightarrow> ('w, error_stack, byte list) eff" where
  "Dh_to_der F = to_der_inner F ''i2d_DHparams''"

definition Dh_from_der :: "'w ffi \<Rightarrow> byte list \<Rightarrow> ('w, error_stack, cval) eff" where
  "Dh_from_der F = from_der_inner F ''d2i_DHparams''"

definition Dh_get_1024_160 :: "'w ffi \<Rightarrow> ('w, error_stack, cval) eff" where
  "Dh_get_1024_160 F = and_then (init F) (\<lambda>_. call_p F ''DH_get_1024_160'' [])"

definition Dh_get_2048_224 :: "'w ffi \<Rightarrow> ('w, error_stack, cval) eff" where
  "Dh_get_2048_224 F = and_then (init F) (\<lambda>_. call_p F ''DH_get_2048_224'' [])"

definition Dh_get_2048_256 :: "'w ffi \<Rightarrow> ('w, error_stack, cval) eff" where
  "Dh_get_2048_256 F = and_then (init F) (\<lambda>_. call_p F ''DH_get_2048_256'' [])"

end
