(* ===== verification/Ossl_Ec.thy ===== *)
theory Ossl_Ec
  imports Ossl_Keys
begin

text \<open>
  Elliptic curves, \<open>openssl/src/ec.rs\<close>: groups, points, keys and the builder of keys. Groups, points,
  keys and builders are their C pointers; a builder that fails half way is dropped.
\<close>

datatype PointConversionForm = POINT_CONVERSION_COMPRESSED | POINT_CONVERSION_UNCOMPRESSED | POINT_CONVERSION_HYBRID

definition form_raw :: "PointConversionForm \<Rightarrow> int" where
  "form_raw form =
     (case form of POINT_CONVERSION_COMPRESSED \<Rightarrow> 2 | POINT_CONVERSION_UNCOMPRESSED \<Rightarrow> 4 | POINT_CONVERSION_HYBRID \<Rightarrow> 6)"

definition EXPLICIT_CURVE :: int where "EXPLICIT_CURVE = 0"
definition NAMED_CURVE :: int where "NAMED_CURVE = 1"

subsection \<open>Groups\<close>

definition EcGroup_from_curve_name :: "'w ffi \<Rightarrow> nid \<Rightarrow> ('w, error_stack, cval) eff" where
  "EcGroup_from_curve_name F nid = and_then (init F) (\<lambda>_. call_p F ''EC_GROUP_new_by_curve_name'' [CInt nid])"

definition EcGroup_components_gfp :: "'w ffi \<Rightarrow> cval \<Rightarrow> cval \<Rightarrow> cval \<Rightarrow> cval \<Rightarrow> cval \<Rightarrow> ('w, error_stack, unit) eff" where
  "EcGroup_components_gfp F grp p a b ctx = call_i F ''EC_GROUP_get_curve_GFp'' [grp, p, a, b, ctx]"

definition EcGroup_components_gf2m :: "'w ffi \<Rightarrow> cval \<Rightarrow> cval \<Rightarrow> cval \<Rightarrow> cval \<Rightarrow> cval \<Rightarrow> ('w, error_stack, unit) eff" where
  "EcGroup_components_gf2m F grp p a b ctx = call_i F ''EC_GROUP_get_curve_GF2m'' [grp, p, a, b, ctx]"

definition EcGroup_degree :: "'w ffi \<Rightarrow> cval \<Rightarrow> ('w, 'e, u32) eff" where
  "EcGroup_degree F grp = and_then (ccall F ''EC_GROUP_get_degree'' [grp]) (\<lambda>(r, _). ret (word_of_int (c_int r)))"

definition EcGroup_order :: "'w ffi \<Rightarrow> cval \<Rightarrow> cval \<Rightarrow> cval \<Rightarrow> ('w, error_stack, unit) eff" where
  "EcGroup_order F grp ord ctx = call_i F ''EC_GROUP_get_order'' [grp, ord, ctx]"

definition EcGroup_set_asn1_flag :: "'w ffi \<Rightarrow> cval \<Rightarrow> int \<Rightarrow> ('w, 'e, unit) eff" where
  "EcGroup_set_asn1_flag F grp flag = call_v F ''EC_GROUP_set_asn1_flag'' [grp, CInt flag]"

subsection \<open>Points\<close>

definition EcPoint_add :: "'w ffi \<Rightarrow> cval \<Rightarrow> cval \<Rightarrow> cval \<Rightarrow> cval \<Rightarrow> cval \<Rightarrow> ('w, error_stack, unit) eff" where
  "EcPoint_add F r grp a b ctx = call_i F ''EC_POINT_add'' [grp, r, a, b, ctx]"

definition EcPoint_mul :: "'w ffi \<Rightarrow> cval \<Rightarrow> cval \<Rightarrow> cval \<Rightarrow> cval \<Rightarrow> cval \<Rightarrow> ('w, error_stack, unit) eff" where
  "EcPoint_mul F r grp q m ctx = call_i F ''EC_POINT_mul'' [grp, r, CNull, q, m, ctx]"

definition EcPoint_mul_generator :: "'w ffi \<Rightarrow> cval \<Rightarrow> cval \<Rightarrow> cval \<Rightarrow> cval \<Rightarrow> ('w, error_stack, unit) eff" where
  "EcPoint_mul_generator F r grp n ctx = call_i F ''EC_POINT_mul'' [grp, r, n, CNull, CNull, ctx]"

definition EcPoint_mul_full :: "'w ffi \<Rightarrow> cval \<Rightarrow> cval \<Rightarrow> cval \<Rightarrow> cval \<Rightarrow> cval \<Rightarrow> cval \<Rightarrow> ('w, error_stack, unit) eff" where
  "EcPoint_mul_full F r grp n q m ctx = call_i F ''EC_POINT_mul'' [grp, r, n, q, m, ctx]"

definition EcPoint_invert :: "'w ffi \<Rightarrow> cval \<Rightarrow> cval \<Rightarrow> cval \<Rightarrow> ('w, error_stack, unit) eff" where
  "EcPoint_invert F r grp ctx = call_i F ''EC_POINT_invert'' [grp, r, ctx]"

text \<open>The first call measures, the second writes; zero is the failure of both.\<close>

definition EcPoint_to_bytes ::
  "'w ffi \<Rightarrow> cval \<Rightarrow> cval \<Rightarrow> PointConversionForm \<Rightarrow> cval \<Rightarrow> ('w, error_stack, byte list) eff" where
  "EcPoint_to_bytes F point grp form ctx =
     and_then (ccall F ''EC_POINT_point2oct'' [grp, point, CInt (form_raw form), CNull, CInt 0, ctx]) (\<lambda>(r, _).
     let len = nat (c_int r) in
     if len = 0 then and_then (ErrorStack_get F) throw
     else
       let buf = replicate len 0 in
       and_then (ccall F ''EC_POINT_point2oct''
          [grp, point, CInt (form_raw form), CBytes buf, CInt (int len), ctx]) (\<lambda>(r, os).
       if nat (c_int r) = 0 then and_then (ErrorStack_get F) throw else store_out os 0 buf))"

definition EcPoint_eq :: "'w ffi \<Rightarrow> cval \<Rightarrow> cval \<Rightarrow> cval \<Rightarrow> cval \<Rightarrow> ('w, error_stack, bool) eff" where
  "EcPoint_eq F point grp other ctx =
     and_then (ccall F ''EC_POINT_cmp'' [grp, point, other, ctx]) (\<lambda>(r, _).
     and_then (cvt_n F r) (\<lambda>res. ret (res = 0)))"

definition EcPoint_affine_coordinates_gfp :: "'w ffi \<Rightarrow> cval \<Rightarrow> cval \<Rightarrow> cval \<Rightarrow> cval \<Rightarrow> cval \<Rightarrow> ('w, error_stack, unit) eff" where
  "EcPoint_affine_coordinates_gfp F point grp x y ctx = call_i F ''EC_POINT_get_affine_coordinates_GFp'' [grp, point, x, y, ctx]"

definition EcPoint_affine_coordinates_gf2m :: "'w ffi \<Rightarrow> cval \<Rightarrow> cval \<Rightarrow> cval \<Rightarrow> cval \<Rightarrow> cval \<Rightarrow> ('w, error_stack, unit) eff" where
  "EcPoint_affine_coordinates_gf2m F point grp x y ctx = call_i F ''EC_POINT_get_affine_coordinates_GF2m'' [grp, point, x, y, ctx]"

definition EcPoint_new :: "'w ffi \<Rightarrow> cval \<Rightarrow> ('w, error_stack, cval) eff" where
  "EcPoint_new F grp = call_p F ''EC_POINT_new'' [grp]"

definition EcPoint_drop :: "'w ffi \<Rightarrow> cval \<Rightarrow> ('w, 'e, unit) eff" where
  "EcPoint_drop F point = call_v F ''EC_POINT_free'' [point]"

definition EcPoint_from_bytes :: "'w ffi \<Rightarrow> cval \<Rightarrow> byte list \<Rightarrow> cval \<Rightarrow> ('w, error_stack, cval) eff" where
  "EcPoint_from_bytes F grp buf ctx =
     and_then (EcPoint_new F grp) (\<lambda>point.
     owning (EcPoint_drop F point) (
     and_then (call_i F ''EC_POINT_oct2point'' [grp, point, CBytes buf, CInt (int (length buf)), ctx]) (\<lambda>_.
       ret point)))"

subsection \<open>Keys\<close>

definition EcKey_group :: "'w ffi \<Rightarrow> cval \<Rightarrow> ('w, 'e, cval option) eff" where
  "EcKey_group F key = call_opt F ''EC_KEY_get0_group'' [key]"

definition EcKey_public_key :: "'w ffi \<Rightarrow> cval \<Rightarrow> ('w, 'e, cval option) eff" where
  "EcKey_public_key F key = call_opt F ''EC_KEY_get0_public_key'' [key]"

definition EcKey_private_key :: "'w ffi \<Rightarrow> cval \<Rightarrow> ('w, 'e, cval option) eff" where
  "EcKey_private_key F key = call_opt F ''EC_KEY_get0_private_key'' [key]"

definition EcKey_check_key :: "'w ffi \<Rightarrow> cval \<Rightarrow> ('w, error_stack, unit) eff" where
  "EcKey_check_key F key = call_i F ''EC_KEY_check_key'' [key]"

definition EcKey_to_owned :: "'w ffi \<Rightarrow> cval \<Rightarrow> ('w, error_stack, cval) eff" where
  "EcKey_to_owned F key = call_p F ''EC_KEY_dup'' [key]"

definition EcKeyBuilder_new :: "'w ffi \<Rightarrow> ('w, error_stack, cval) eff" where
  "EcKeyBuilder_new F = and_then (init F) (\<lambda>_. call_p F ''EC_KEY_new'' [])"

definition EcKeyBuilder_drop :: "'w ffi \<Rightarrow> cval \<Rightarrow> ('w, 'e, unit) eff" where
  "EcKeyBuilder_drop F builder = call_v F ''EC_KEY_free'' [builder]"

text \<open>Building forgets the builder: the key is the same object.\<close>

definition EcKeyBuilder_build :: "cval \<Rightarrow> cval" where
  "EcKeyBuilder_build builder = builder"

definition EcKeyBuilder_set_group :: "'w ffi \<Rightarrow> cval \<Rightarrow> cval \<Rightarrow> ('w, error_stack, unit) eff" where
  "EcKeyBuilder_set_group F builder grp = call_i F ''EC_KEY_set_group'' [builder, grp]"

definition EcKeyBuilder_set_public_key :: "'w ffi \<Rightarrow> cval \<Rightarrow> cval \<Rightarrow> ('w, error_stack, unit) eff" where
  "EcKeyBuilder_set_public_key F builder public_key = call_i F ''EC_KEY_set_public_key'' [builder, public_key]"

definition EcKeyBuilder_generate_key :: "'w ffi \<Rightarrow> cval \<Rightarrow> ('w, error_stack, unit) eff" where
  "EcKeyBuilder_generate_key F builder = call_i F ''EC_KEY_generate_key'' [builder]"

definition EcKeyBuilder_set_public_key_affine_coordinates :: "'w ffi \<Rightarrow> cval \<Rightarrow> cval \<Rightarrow> cval \<Rightarrow> ('w, error_stack, unit) eff" where
  "EcKeyBuilder_set_public_key_affine_coordinates F builder x y = call_i F ''EC_KEY_set_public_key_affine_coordinates'' [builder, x, y]"

definition EcKeyBuilder_set_private_key :: "'w ffi \<Rightarrow> cval \<Rightarrow> cval \<Rightarrow> ('w, error_stack, unit) eff" where
  "EcKeyBuilder_set_private_key F builder key = call_i F ''EC_KEY_set_private_key'' [builder, key]"

definition EcKey_from_curve_name :: "'w ffi \<Rightarrow> nid \<Rightarrow> ('w, error_stack, cval) eff" where
  "EcKey_from_curve_name F nid = and_then (init F) (\<lambda>_. call_p F ''EC_KEY_new_by_curve_name'' [CInt nid])"

definition EcKey_from_public_key :: "'w ffi \<Rightarrow> cval \<Rightarrow> cval \<Rightarrow> ('w, error_stack, cval) eff" where
  "EcKey_from_public_key F grp public_key =
     and_then (EcKeyBuilder_new F) (\<lambda>builder.
     owning (EcKeyBuilder_drop F builder) (
     and_then (EcKeyBuilder_set_group F builder grp) (\<lambda>_.
     and_then (EcKeyBuilder_set_public_key F builder public_key) (\<lambda>_.
       ret (EcKeyBuilder_build builder)))))"

definition EcKey_generate :: "'w ffi \<Rightarrow> cval \<Rightarrow> ('w, error_stack, cval) eff" where
  "EcKey_generate F grp =
     and_then (EcKeyBuilder_new F) (\<lambda>builder.
     owning (EcKeyBuilder_drop F builder) (
     and_then (EcKeyBuilder_set_group F builder grp) (\<lambda>_.
     and_then (EcKeyBuilder_generate_key F builder) (\<lambda>_.
       ret (EcKeyBuilder_build builder)))))"

definition EcKey_new_by_curve_name :: "'w ffi \<Rightarrow> nid \<Rightarrow> ('w, error_stack, cval) eff" where
  "EcKey_new_by_curve_name F nid = EcKey_from_curve_name F nid"

definition EcKey_private_key_to_pem :: "'w ffi \<Rightarrow> cval \<Rightarrow> ('w, error_stack, byte list) eff" where
  "EcKey_private_key_to_pem F = private_key_to_pem_inner F ''PEM_write_bio_ECPrivateKey''"

definition EcKey_private_key_to_pem_passphrase :: "'w ffi \<Rightarrow> cval \<Rightarrow> cval \<Rightarrow> byte list \<Rightarrow> ('w, error_stack, byte list) eff" where
  "EcKey_private_key_to_pem_passphrase F = private_key_to_pem_passphrase F ''PEM_write_bio_ECPrivateKey''"

definition EcKey_private_key_to_der :: "'w ffi \<Rightarrow> cval \<Rightarrow> ('w, error_stack, byte list) eff" where
  "EcKey_private_key_to_der F = to_der_inner F ''i2d_ECPrivateKey''"

definition EcKey_private_key_from_pem :: "'w ffi \<Rightarrow> byte list \<Rightarrow> ('w, error_stack, cval) eff" where
  "EcKey_private_key_from_pem F = from_pem_inner F ''PEM_read_bio_ECPrivateKey''"

definition EcKey_private_key_from_pem_passphrase :: "'w ffi \<Rightarrow> byte list \<Rightarrow> byte list \<Rightarrow> ('w, error_stack, cval) eff" where
  "EcKey_private_key_from_pem_passphrase F = private_key_from_pem_passphrase F ''PEM_read_bio_ECPrivateKey''"

definition EcKey_private_key_from_pem_callback ::
  "'w ffi \<Rightarrow> 'w cb_ffi \<Rightarrow> byte list \<Rightarrow> 'w passwd_closure \<Rightarrow> ('w, error_stack, cval) eff" where
  "EcKey_private_key_from_pem_callback F C = private_key_from_pem_callback F C ''PEM_read_bio_ECPrivateKey''"

definition EcKey_private_key_from_der :: "'w ffi \<Rightarrow> byte list \<Rightarrow> ('w, error_stack, cval) eff" where
  "EcKey_private_key_from_der F = from_der_inner F ''d2i_ECPrivateKey''"

end
