(* ===== verification/Key_Laws.thy ===== *)
theory Key_Laws
  imports Ossl_Ec
begin

text \<open>
  What the wrappers of keys guarantee: RSA encryption stays inside the buffers of its caller and is
  undone by decryption, numbers handed to a key have exactly one owner at every moment, and what a
  derived secret looks like when it is shorter than announced.
\<close>

subsection \<open>RSA encryption\<close>

text \<open>
  The documented behaviour of the RSA functions: \<open>key w rsa\<close> is the size of the modulus in bytes and
  whether the private part is there. Encryption writes one block of that size, which decryption turns
  back; \<open>dec\<close> is the abstract decryption. Decryption writes at most one block.
\<close>

definition rsa_law ::
  "'w ffi \<Rightarrow> ('w \<Rightarrow> cval \<Rightarrow> (nat \<times> bool) option) \<Rightarrow> (cval \<Rightarrow> int \<Rightarrow> byte list \<Rightarrow> byte list option) \<Rightarrow> bool" where
  "rsa_law F key dec \<longleftrightarrow>
     (\<forall>w rsa k priv. key w rsa = Some (k, priv) \<longrightarrow>
        (\<exists>n e d r w'. F ''RSA_get0_key'' [rsa] w = ((r, [n, e, d]), w') \<and> n \<noteq> CNull \<and> (d \<noteq> CNull \<longleftrightarrow> priv) \<and> key w' = key w)) \<and>
     (\<forall>w rsa k priv. key w rsa = Some (k, priv) \<longrightarrow>
        (\<exists>os w'. F ''RSA_size'' [rsa] w = ((CInt (int k), os), w') \<and> key w' = key w)) \<and>
     (\<forall>w rsa k priv pad src dst. key w rsa = Some (k, priv) \<longrightarrow> length src < k \<longrightarrow> k \<le> length dst \<longrightarrow>
        (\<exists>c w'. F ''RSA_public_encrypt'' [CInt (int (length src)), CBytes src, CBytes dst, rsa, CInt pad] w =
           ((CInt (int k), [CBytes c]), w') \<and> length c = k \<and> dec rsa pad c = Some src \<and> key w' = key w)) \<and>
     (\<forall>w rsa k pad c dst m. key w rsa = Some (k, True) \<longrightarrow> length c = k \<longrightarrow> k \<le> length dst \<longrightarrow> dec rsa pad c = Some m \<longrightarrow>
        length m \<le> k \<and>
        (\<exists>w'. F ''RSA_private_decrypt'' [CInt (int (length c)), CBytes c, CBytes dst, rsa, CInt pad] w =
           ((CInt (int (length m)), [CBytes m]), w') \<and> key w' = key w))"

lemmas rsa_laws =
  conjunct1 [OF rsa_law_def [THEN iffD1], rule_format]
  conjunct1 [OF conjunct2 [OF rsa_law_def [THEN iffD1]], rule_format]
  conjunct1 [OF conjunct2 [OF conjunct2 [OF rsa_law_def [THEN iffD1]]], rule_format]
  conjunct2 [OF conjunct2 [OF conjunct2 [OF rsa_law_def [THEN iffD1]]], rule_format]

lemma Rsa_size_run:
  fixes F :: "'w ffi"
  assumes law: "rsa_law F key dec" and k: "key w rsa = Some (k, priv)"
  obtains w' where "Rsa_size F rsa w = ((Ok k, w') :: ('e, nat) outcome \<times> 'w)" "key w' = key w"
proof -
  obtain n e d r w1 where get: "F ''RSA_get0_key'' [rsa] w = ((r, [n, e, d]), w1)" "n \<noteq> CNull" "key w1 = key w"
    using rsa_laws(1) [OF law k] by blast
  obtain os w2 where "F ''RSA_size'' [rsa] w1 = ((CInt (int k), os), w2)" "key w2 = key w1"
    using rsa_laws(2) [OF law, of w1 rsa k priv] k get(3) by auto
  with get that show thesis
    by (simp add: Rsa_size_def Rsa_n_def rsa_key_def and_then_def ccall_def non_null_def out_def)
qed

lemma Rsa_d_run:
  fixes F :: "'w ffi"
  assumes law: "rsa_law F key dec" and k: "key w rsa = Some (k, priv)"
  obtains d w' where "Rsa_d F rsa w = ((Ok d, w') :: ('e, cval option) outcome \<times> 'w)" "(d \<noteq> None) = priv" "key w' = key w"
proof -
  obtain n e d r w1 where "F ''RSA_get0_key'' [rsa] w = ((r, [n, e, d]), w1)" "(d \<noteq> CNull) = priv" "key w1 = key w"
    using rsa_laws(1) [OF law k] by blast
  with that [of "non_null d" w1] show thesis
    by (cases "d = CNull") (simp_all add: Rsa_d_def rsa_key_def and_then_def ccall_def non_null_def out_def)
qed

lemma encrypt_run:
  assumes law: "rsa_law F key dec" and k: "key w rsa = Some (k, priv)" and len: "length src < k" "k \<le> length dst" "length src \<le> c_int_max"
  obtains c w' where "Rsa_public_encrypt F rsa src dst pad w = (Ok (k, c @ drop k dst), w')" "length c = k"
    "dec rsa (Padding_as_raw pad) c = Some src" "key w' = key w"
proof -
  obtain w1 where w1: "Rsa_size F rsa w = ((Ok k, w1) :: (error_stack, nat) outcome \<times> _)" "key w1 = key w"
    by (rule Rsa_size_run [OF law k])
  obtain c w2 where "F ''RSA_public_encrypt'' [CInt (int (length src)), CBytes src, CBytes dst, rsa, CInt (Padding_as_raw pad)] w1 =
      ((CInt (int k), [CBytes c]), w2)" "length c = k" "dec rsa (Padding_as_raw pad) c = Some src" "key w2 = key w1"
    using rsa_laws(3) [OF law _ len(1,2), of w1 rsa priv] k w1(2) by metis
  with w1 len that show thesis
    by (simp add: Rsa_public_encrypt_def rsa_crypt_def and_then_def ccall_def cvt_n_def store_out_def out_def overwrite_def Let_def)
qed

lemma decrypt_run:
  assumes law: "rsa_law F key dec" and k: "key w rsa = Some (k, True)" and len: "length c = k" "k \<le> length dst" "length c \<le> c_int_max"
    and m: "dec rsa (Padding_as_raw pad) c = Some m"
  obtains w' where "Rsa_private_decrypt F rsa c dst pad w = (Ok (length m, m @ drop (length m) dst), w')" "length m \<le> length dst"
proof -
  obtain d w0 where w0: "Rsa_d F rsa w = ((Ok d, w0) :: (error_stack, cval option) outcome \<times> _)" "d \<noteq> None" "key w0 = key w"
    using Rsa_d_run [OF law k] by metis
  obtain w1 where w1: "Rsa_size F rsa w0 = ((Ok k, w1) :: (error_stack, nat) outcome \<times> _)" "key w1 = key w0"
    using Rsa_size_run [OF law, of w0 rsa k True] k w0(3) by metis
  have "key w1 rsa = Some (k, True)" using k w0(3) w1(2) by simp
  from rsa_laws(4) [OF law this len(1,2) m] obtain w2 where
    "F ''RSA_private_decrypt'' [CInt (int (length c)), CBytes c, CBytes dst, rsa, CInt (Padding_as_raw pad)] w1 =
      ((CInt (int (length m)), [CBytes m]), w2)" "length m \<le> k" by blast
  with w0 w1 len that show thesis
    by (simp add: Rsa_private_decrypt_def rsa_crypt_def and_then_def ccall_def cvt_n_def store_out_def out_def overwrite_def Let_def)
qed



text \<open>A library with one key pair, of three bytes, and one public key: a block is a length byte and the message.\<close>

definition toy_key :: "unit \<Rightarrow> cval \<Rightarrow> (nat \<times> bool) option" where
  "toy_key w rsa = (if rsa = CPtr 1 then Some (3, True) else if rsa = CPtr 2 then Some (3, False) else None)"

definition toy_dec :: "cval \<Rightarrow> int \<Rightarrow> byte list \<Rightarrow> byte list option" where
  "toy_dec rsa pad c = (case c of [l, a, b] \<Rightarrow> Some (take (unat l) [a, b]) | _ \<Rightarrow> None)"

definition toy_rsa :: "unit ffi" where
  "toy_rsa f args w =
     (if f = ''RSA_get0_key'' then ((CNull, [CPtr 5, CPtr 6, if args = [CPtr 1] then CPtr 7 else CNull]), w)
      else if f = ''RSA_size'' then ((CInt 3, []), w)
      else if f = ''RSA_public_encrypt'' then
        (let m = c_bytes (args ! 1) in ((CInt 3, [CBytes (of_nat (length m) # m @ replicate (2 - length m) 0)]), w))
      else if f = ''RSA_private_decrypt'' then
        (case toy_dec (args ! 3) 0 (c_bytes (args ! 1)) of
           Some m \<Rightarrow> ((CInt (int (length m)), [CBytes m]), w)
         | None \<Rightarrow> ((CInt (-1), []), w))
      else ((CInt 0, []), w))"

lemma toy_keyD: "toy_key w rsa = Some (k, priv) \<Longrightarrow> k = 3 \<and> (priv = (rsa = CPtr 1))"
  by (auto simp: toy_key_def split: if_splits)

lemma toy_block: "length m < 3 \<Longrightarrow> \<exists>a b. m @ replicate (2 - length m) 0 = [a, b] \<and> take (length m) [a, b] = m"
  by (cases m rule: list.exhaust [case_product]; cases "tl m") (auto simp: numeral_eq_Suc)

lemma toy_rsa_law: "rsa_law toy_rsa toy_key toy_dec"
  unfolding rsa_law_def
proof (intro conjI allI impI)
  fix w rsa k priv pad and src dst :: "byte list"
  assume "toy_key w rsa = Some (k, priv)" "length src < k"
  then have k: "k = 3" and len: "length src < 3" by (auto dest: toy_keyD)
  from toy_block [OF len] obtain a b where "src @ replicate (2 - length src) 0 = [a, b]" "take (length src) [a, b] = src" by blast
  moreover have "unat (word_of_nat (length src) :: byte) = length src" using len by (simp add: unat_of_nat)
  ultimately show "\<exists>c w'. toy_rsa ''RSA_public_encrypt'' [CInt (int (length src)), CBytes src, CBytes dst, rsa, CInt pad] w =
      ((CInt (int k), [CBytes c]), w') \<and> length c = k \<and> toy_dec rsa pad c = Some src \<and> toy_key w' = toy_key w"
    using k by (simp add: toy_rsa_def toy_dec_def)
next
  fix w rsa k pad c and dst m :: "byte list"
  assume "toy_key w rsa = Some (k, True)" "toy_dec rsa pad c = Some m"
  then show "length m \<le> k" by (auto dest!: toy_keyD simp: toy_dec_def split: list.splits)
qed (auto dest!: toy_keyD simp: toy_rsa_def toy_dec_def)


subsection \<open>Owners of numbers\<close>

text \<open>
  \<open>freed w x\<close> counts how often an object was freed, \<open>parts w r\<close> lists what an RSA key owns and frees
  with itself. The functions \<open>RSA_set0_*\<close> document that they take ownership when they succeed and
  only then.
\<close>

definition owner_law ::
  "'w ffi \<Rightarrow> ('w \<Rightarrow> cval \<Rightarrow> nat) \<Rightarrow> ('w \<Rightarrow> cval \<Rightarrow> cval list) \<Rightarrow> bool" where
  "owner_law F freed parts \<longleftrightarrow>
     (\<forall>w f args. f \<in> {''init'', ''ERR_get_error_line_data''} \<longrightarrow>
        freed (snd (F f args w)) = freed w \<and> parts (snd (F f args w)) = parts w) \<and>
     (\<forall>w b. freed (snd (F ''BN_free'' [b] w)) = (freed w)(b := freed w b + 1) \<and> parts (snd (F ''BN_free'' [b] w)) = parts w) \<and>
     (\<forall>w r. freed (snd (F ''RSA_free'' [r] w)) = (\<lambda>x. freed w x + count_list (r # parts w r) x) \<and>
        parts (snd (F ''RSA_free'' [r] w)) = parts w) \<and>
     (\<forall>w. freed (snd (F ''RSA_new'' [] w)) = freed w \<and>
        parts (snd (F ''RSA_new'' [] w)) = (parts w)(fst (fst (F ''RSA_new'' [] w)) := [])) \<and>
     (\<forall>w f r xs. f \<in> {''RSA_set0_key'', ''RSA_set0_factors'', ''RSA_set0_crt_params''} \<longrightarrow>
        freed (snd (F f (r # xs) w)) = freed w \<and>
        parts (snd (F f (r # xs) w)) =
          (if 0 < c_int (fst (fst (F f (r # xs) w))) then (parts w)(r := parts w r @ xs) else parts w))"


definition owners :: "('w \<Rightarrow> cval \<Rightarrow> nat) \<Rightarrow> ('w \<Rightarrow> cval \<Rightarrow> cval list) \<Rightarrow> (cval \<Rightarrow> nat) \<Rightarrow> (cval \<Rightarrow> cval list) \<Rightarrow> 'w \<Rightarrow> bool" where
  "owners freed parts fr ow w \<longleftrightarrow> freed w = fr \<and> parts w = ow"

lemma owner_laws:
  assumes "owner_law F freed parts"
  shows "f \<in> {''init'', ''ERR_get_error_line_data''} \<Longrightarrow> owners freed parts fr ow w \<Longrightarrow> owners freed parts fr ow (snd (F f args w))"
    "freed (snd (F ''BN_free'' [b] w)) = (freed w)(b := freed w b + 1)"
    "parts (snd (F ''BN_free'' [b] w)) = parts w"
    "freed (snd (F ''RSA_free'' [r] w)) = (\<lambda>x. freed w x + count_list (r # parts w r) x)"
    "parts (snd (F ''RSA_free'' [r] w)) = parts w"
    "owners freed parts fr ow w \<Longrightarrow> owners freed parts fr (ow(fst (fst (F ''RSA_new'' [] w)) := [])) (snd (F ''RSA_new'' [] w))"
    "f \<in> {''RSA_set0_key'', ''RSA_set0_factors'', ''RSA_set0_crt_params''} \<Longrightarrow> owners freed parts fr ow w \<Longrightarrow>
      owners freed parts fr (if 0 < c_int (fst (fst (F f (r # xs) w))) then ow(r := ow r @ xs) else ow) (snd (F f (r # xs) w))"
  using assms by (auto simp: owner_law_def owners_def)

lemma owners_ErrorStack_get:
  assumes "owner_law F freed parts"
  shows "keeps (owners freed parts fr ow) (ErrorStack_get F)"
proof -
  have step: "keeps (owners freed parts fr ow) (ccall F f args)" if "f \<in> {''init'', ''ERR_get_error_line_data''}" for f args
    using owner_laws(1) [OF assms that] by (intro keepsI) (simp add: ccall_def split_beta)
  show ?thesis
    by (rule Error_get_ErrorStack_get, unfold Error_get_def Let_def) (intro keeps_intros step; simp)
qed

lemma owners_checked:
  assumes "owner_law F freed parts"
  shows "keeps (owners freed parts fr ow) (cvt F r)" "keeps (owners freed parts fr ow) (cvt_p F r)"
  unfolding cvt_def cvt_p_def by (intro keeps_intros owners_ErrorStack_get assms)+

lemma drop_numbers_run:
  fixes F :: "'w ffi"
  assumes law: "owner_law F freed parts"
  shows "\<exists>w'. drop_numbers F bs w = ((Ok (), w') :: ('e, unit) outcome \<times> 'w) \<and>
     freed w' = (\<lambda>x. freed w x + count_list bs x) \<and> parts w' = parts w"
proof (induction bs)
  case (Cons b bs)
  then obtain w1 where "drop_numbers F bs w = ((Ok (), w1) :: ('e, unit) outcome \<times> 'w)"
    "freed w1 = (\<lambda>x. freed w x + count_list bs x)" "parts w1 = parts w" by blast
  then show ?case
    by (simp add: and_then_def call_v_def ccall_def split_beta owner_laws(2,3) [OF law] fun_eq_iff)
qed simp

lemma rsa_and_numbers_drop:
  fixes F :: "'w ffi"
  assumes law: "owner_law F freed parts"
  shows "\<exists>w'. and_then (Rsa_drop F r) (\<lambda>_. drop_numbers F bs) w = ((Ok (), w') :: ('e, unit) outcome \<times> 'w) \<and>
     freed w' = (\<lambda>x. freed w x + count_list (r # parts w r @ bs) x)"
proof -
  let ?w1 = "snd (F ''RSA_free'' [r] w)"
  obtain w' where "drop_numbers F bs ?w1 = ((Ok (), w') :: ('e, unit) outcome \<times> 'w)"
    "freed w' = (\<lambda>x. freed ?w1 x + count_list bs x)" using drop_numbers_run [OF law] by blast
  then show ?thesis
    by (simp add: and_then_def Rsa_drop_def call_v_def ccall_def split_beta owner_laws(4) [OF law] fun_eq_iff)
qed

text \<open>One step of the construction: it succeeds and goes on, or everything is freed.\<close>

lemma owned_step:
  assumes m: "triple (owners freed parts fr ow) m
      (\<lambda>r w. case r of Ok a \<Rightarrow> owners freed parts fr (ow' a) w | _ \<Rightarrow> owners freed parts fr ow w)"
    and drp: "\<And>w. owners freed parts fr ow w \<Longrightarrow> \<exists>w'. drp w = (Ok (), w') \<and> freed w' = fr2"
    and w: "owners freed parts fr ow w" and run: "and_then (owning drp m) f w = (r, w')" "r \<noteq> Diverge"
  shows "(\<exists>a w1. m w = (Ok a, w1) \<and> owners freed parts fr (ow' a) w1 \<and> f a w1 = (r, w')) \<or> ((\<forall>a. r \<noteq> Ok a) \<and> freed w' = fr2)"
proof -
  obtain r1 w1 where m1: "m w = (r1, w1)" by fastforce
  note post = tripleD [OF m w m1]
  show ?thesis
  proof (cases "\<exists>a. r1 = Ok a \<or> r1 = Diverge")
    case False
    then have "owners freed parts fr ow w1" using post by (auto split: outcome.splits)
    then obtain w2 where "drp w1 = (Ok (), w2)" "freed w2 = fr2" using drp by blast
    with run m1 False show ?thesis by (cases r1) (auto simp: and_then_def owning_def)
  qed (use run m1 post in \<open>auto simp: and_then_def owning_def\<close>)
qed

lemma set0_triple:
  assumes law: "owner_law F freed parts" and f: "f \<in> {''RSA_set0_key'', ''RSA_set0_factors'', ''RSA_set0_crt_params''}"
  shows "triple (owners freed parts fr ow) (and_then (and_then (ccall F f (r # xs)) (\<lambda>(v, _). ret v)) (cvt F))
     (\<lambda>o' w. case o' of Ok a \<Rightarrow> owners freed parts fr (ow(r := ow r @ xs)) w | _ \<Rightarrow> owners freed parts fr ow w)"
  unfolding triple_def
proof (intro allI impI)
  fix w o' w' assume w: "owners freed parts fr ow w"
    and run: "and_then (and_then (ccall F f (r # xs)) (\<lambda>(v, _). ret v)) (cvt F) w = (o', w')"
  obtain v os w1 where c: "F f (r # xs) w = ((v, os), w1)" by (metis prod.exhaust)
  then have cvt: "cvt F v w1 = (o', w')" using run by (simp add: and_then_def ccall_def)
  have w1: "owners freed parts fr (if 0 < c_int v then ow(r := ow r @ xs) else ow) w1"
    using owner_laws(7) [OF law f w, of r xs] c by simp
  show "case o' of Ok a \<Rightarrow> owners freed parts fr (ow(r := ow r @ xs)) w' | _ \<Rightarrow> owners freed parts fr ow w'"
  proof (cases "0 < c_int v")
    case True
    with cvt w1 show ?thesis by (auto simp: cvt_def)
  next
    case False
    then have "owners freed parts fr ow w1" using w1 by simp
    from keepsD [OF owners_checked(1) [OF law] this, of v] cvt have "owners freed parts fr ow w'" by simp
    moreover have "o' \<noteq> Ok a" for a using cvt False by (auto simp: cvt_def and_then_def split: prod.splits outcome.splits)
    ultimately show ?thesis by (cases o') auto
  qed
qed


lemma owned_set0:
  assumes law: "owner_law F freed parts" and f: "f \<in> {''RSA_set0_key'', ''RSA_set0_factors'', ''RSA_set0_crt_params''}"
    and w: "owners freed parts fr ow w"
    and run: "and_then (owning (and_then (Rsa_drop F rsa) (\<lambda>_. drop_numbers F bs))
        (and_then (and_then (ccall F f (rsa # xs)) (\<lambda>(v, _). ret v)) (cvt F))) g w = (r, w')" "r \<noteq> Diverge"
  obtains a w1 where "owners freed parts fr (ow(rsa := ow rsa @ xs)) w1" "g a w1 = (r, w')"
  | "\<forall>a. r \<noteq> Ok a" "freed w' = (\<lambda>x. fr x + count_list (rsa # ow rsa @ bs) x)"
proof -
  have "\<exists>w2. and_then (Rsa_drop F rsa) (\<lambda>_. drop_numbers F bs) w0 = ((Ok (), w2) :: (error_stack, unit) outcome \<times> _) \<and>
      freed w2 = (\<lambda>x. fr x + count_list (rsa # ow rsa @ bs) x)" if "owners freed parts fr ow w0" for w0
    using rsa_and_numbers_drop [OF law, of rsa bs w0] that unfolding owners_def by blast
  from owned_step [OF set0_triple [OF law f] this w run] that show thesis by blast
qed

lemma RSA_new_run:
  assumes law: "owner_law F freed parts" and w: "owners freed parts fr ow w"
    and run: "call_p F ''RSA_new'' [] w = (r, w')"
  shows "case r of Ok p \<Rightarrow> owners freed parts fr (ow(p := [])) w' \<and> p = fst (fst (F ''RSA_new'' [] w)) | _ \<Rightarrow> freed w' = fr"
proof -
  obtain p os w1 where new: "F ''RSA_new'' [] w = ((p, os), w1)" by (metis prod.exhaust)
  then have cvt: "cvt_p F p w1 = (r, w')" using run by (simp add: call_p_def and_then_def ccall_def)
  have w1: "owners freed parts fr (ow(p := [])) w1" using owner_laws(6) [OF law w] new by simp
  from keepsD [OF owners_checked(2) [OF law] w1, of p] cvt new show ?thesis
    by (cases r) (auto simp: cvt_p_def and_then_def owners_def split: if_splits prod.splits outcome.splits)
qed

lemma count_list_distinct: "distinct xs \<Longrightarrow> count_list xs x = (if x \<in> set xs then 1 else 0)"
  by (induction xs) auto

text \<open>The three calls that hand the numbers over, once the key is there.\<close>

definition hand_over :: "'w ffi \<Rightarrow> cval \<Rightarrow> string \<Rightarrow> cval list \<Rightarrow> cval list \<Rightarrow> ('w, error_stack, int) eff" where
  "hand_over F rsa f bs xs = owning (and_then (Rsa_drop F rsa) (\<lambda>_. drop_numbers F bs))
     (and_then (and_then (ccall F f (rsa # xs)) (\<lambda>(v, _). ret v)) (cvt F))"

lemma components_handed_over:
  assumes law: "owner_law F freed parts" and w: "owners freed parts fr (ow(rsa := [])) w"
    and nums: "nums = [n, e, d, p, q, dp, dq, qi]"
    and run: "and_then (hand_over F rsa ''RSA_set0_key'' nums [n, e, d]) (\<lambda>_.
       and_then (hand_over F rsa ''RSA_set0_factors'' [p, q, dp, dq, qi] [p, q]) (\<lambda>_.
       and_then (hand_over F rsa ''RSA_set0_crt_params'' [dp, dq, qi] [dp, dq, qi]) (\<lambda>_. ret rsa))) w = (r, w')" "r \<noteq> Diverge"
  shows "r = Ok rsa \<and> freed w' = fr \<and> parts w' rsa = nums \<or>
     (\<forall>a. r \<noteq> Ok a) \<and> freed w' = (\<lambda>x. fr x + count_list (rsa # nums) x)"
proof (rule owned_set0 [OF law _ w run(1) [unfolded hand_over_def [of F rsa "''RSA_set0_key''"]] run(2)])
  fix w2
  assume w2: "owners freed parts fr ((ow(rsa := []))(rsa := (ow(rsa := [])) rsa @ [n, e, d])) w2"
    and run2: "and_then (hand_over F rsa ''RSA_set0_factors'' [p, q, dp, dq, qi] [p, q]) (\<lambda>_.
      and_then (hand_over F rsa ''RSA_set0_crt_params'' [dp, dq, qi] [dp, dq, qi]) (\<lambda>_. ret rsa)) w2 = (r, w')"
  show ?thesis
  proof (rule owned_set0 [OF law _ w2 run2 [unfolded hand_over_def [of F rsa "''RSA_set0_factors''"]] run(2)])
    fix w3
    assume w3: "owners freed parts fr (((ow(rsa := []))(rsa := (ow(rsa := [])) rsa @ [n, e, d]))(rsa :=
        ((ow(rsa := []))(rsa := (ow(rsa := [])) rsa @ [n, e, d])) rsa @ [p, q])) w3"
      and run3: "and_then (hand_over F rsa ''RSA_set0_crt_params'' [dp, dq, qi] [dp, dq, qi]) (\<lambda>_. ret rsa) w3 = (r, w')"
    show ?thesis
      by (rule owned_set0 [OF law _ w3 run3 [unfolded hand_over_def] run(2)]) (auto simp: owners_def nums)
  qed (simp_all add: nums)
qed (simp_all add: nums)

lemma first_call_fails:
  fixes m :: "('w, 'e, 'a) eff"
  assumes law: "owner_law F freed parts" and m: "m w = (r1, w1)" "r1 = Err x \<or> r1 = Panic" "freed w1 = fr"
    and run: "and_then (owning (drop_numbers F bs) m) f w = (r, w')"
  shows "(\<forall>a. r \<noteq> Ok a) \<and> freed w' = (\<lambda>x. fr x + count_list bs x)"
proof -
  obtain w2 where "drop_numbers F bs w1 = ((Ok (), w2) :: ('e, unit) outcome \<times> 'w)"
    "freed w2 = (\<lambda>x. freed w1 x + count_list bs x)" using drop_numbers_run [OF law] by blast
  with m run show ?thesis by (auto simp: and_then_def owning_def)
qed

text \<open>
  C33: the numbers of an RSA key have one owner. \<open>from_private_components\<close> takes eight numbers by
  value; whichever of its four C calls fails, with an error or by a panic while the error is read,
  each of the eight is freed exactly once, by the half-built key that already owns it or by the
  function; and when it succeeds nothing is freed and the key owns all of them.
\<close>

theorem rsa_components_one_owner:
  assumes law: "owner_law F freed parts" and dist: "distinct [n, e, d, p, q, dp, dq, qi]"
    and fresh: "fst (fst (F ''RSA_new'' [] w)) \<notin> {n, e, d, p, q, dp, dq, qi}"
    and run: "Rsa_from_private_components F n e d p q dp dq qi w = (r, w')" "r \<noteq> Diverge"
  shows "case r of
       Ok rsa \<Rightarrow> freed w' = freed w \<and> parts w' rsa = [n, e, d, p, q, dp, dq, qi]
     | _ \<Rightarrow> \<forall>x \<in> {n, e, d, p, q, dp, dq, qi}. freed w' x = freed w x + 1"
proof -
  let ?nums = "[n, e, d, p, q, dp, dq, qi]"
  have w: "owners freed parts (freed w) (parts w) w" by (simp add: owners_def)
  have once: "count_list ?nums x = 1" if "x \<in> set ?nums" for x
    using that by (simp only: count_list_distinct [OF dist] if_True)
  have fail: ?thesis if "\<forall>a. r \<noteq> Ok a" "\<forall>x \<in> set ?nums. freed w' x = freed w x + count_list ?nums x"
  proof -
    have "\<forall>x \<in> set ?nums. freed w' x = freed w x + 1" using that(2) once by (metis (no_types))
    then have "\<forall>x \<in> {n, e, d, p, q, dp, dq, qi}. freed w' x = freed w x + 1" by simp
    with that(1) show ?thesis by (cases r) simp_all
  qed
  obtain r1 w1 where new: "call_p F ''RSA_new'' [] w = (r1, w1)" by fastforce
  note rn = RSA_new_run [OF law w new]
  consider (made) rsa where "r1 = Ok rsa" | (failed) x where "r1 = Err x \<or> r1 = Panic" | (hung) "r1 = Diverge" by (cases r1) auto
  then show ?thesis
  proof cases
    case (made rsa)
    with rn fresh have w1: "owners freed parts (freed w) ((parts w)(rsa := [])) w1" and rsa: "rsa \<notin> set ?nums" by auto
    from run(1) new made have "and_then (hand_over F rsa ''RSA_set0_key'' ?nums [n, e, d]) (\<lambda>_.
       and_then (hand_over F rsa ''RSA_set0_factors'' [p, q, dp, dq, qi] [p, q]) (\<lambda>_.
       and_then (hand_over F rsa ''RSA_set0_crt_params'' [dp, dq, qi] [dp, dq, qi]) (\<lambda>_. ret rsa))) w1 = (r, w')"
      unfolding Rsa_from_private_components_def set_key_def set_factors_def set_crt_params_def hand_over_def
      by (subst (asm) and_then_step [OF owning_Ok]) auto
    from components_handed_over [OF law w1 refl this run(2)] show ?thesis
    proof
      assume f: "(\<forall>a. r \<noteq> Ok a) \<and> freed w' = (\<lambda>x. freed w x + count_list (rsa # ?nums) x)"
      then have "\<forall>x \<in> set ?nums. freed w' x = freed w x + count_list ?nums x" using rsa by (metis count_list.simps(2))
      with f show ?thesis by (intro fail) blast+
    qed simp
  next
    case failed
    with rn have "freed w1 = freed w" by auto
    from first_call_fails [OF law new failed this run(1) [unfolded Rsa_from_private_components_def]] show ?thesis
      by (intro fail) simp_all
  next
    case hung
    with run new show ?thesis unfolding Rsa_from_private_components_def by (simp add: and_then_def owning_def)
  qed
qed


text \<open>A library that logs what it frees and whose \<open>RSA_set0_factors\<close> fails.\<close>

type_synonym owner_world = "cval list \<times> (cval \<times> cval list) list"

definition demo_freed :: "owner_world \<Rightarrow> cval \<Rightarrow> nat" where
  "demo_freed w = count_list (fst w)"

definition demo_parts :: "owner_world \<Rightarrow> cval \<Rightarrow> cval list" where
  "demo_parts w r = (case map_of (snd w) r of Some xs \<Rightarrow> xs | None \<Rightarrow> [])"

definition owner_demo :: "owner_world ffi" where
  "owner_demo f args w =
     (if f = ''BN_free'' then ((CNull, []), (args @ fst w, snd w))
      else if f = ''RSA_free'' then ((CNull, []), (hd args # demo_parts w (hd args) @ fst w, snd w))
      else if f = ''RSA_new'' then ((CPtr 100, []), (fst w, (CPtr 100, []) # snd w))
      else if f = ''RSA_set0_key'' \<or> f = ''RSA_set0_crt_params'' then
        ((CInt 1, []), (fst w, (hd args, demo_parts w (hd args) @ tl args) # snd w))
      else ((CInt 0, []), w))"

lemma owner_demo_law: "owner_law owner_demo demo_freed demo_parts"
  by (auto simp: owner_law_def owner_demo_def demo_freed_def demo_parts_def fun_eq_iff)

lemma owner_demo_errors: "ErrorStack_get owner_demo w = (Ok [], w)"
  by (simp add: ErrorStack_get_def drain.simps Error_get_def and_then_def ccall_def owner_demo_def)

theorem rsa_components_one_owner_witness:
  "\<exists>w'. Rsa_from_private_components owner_demo (CPtr 1) (CPtr 2) (CPtr 3) (CPtr 4) (CPtr 5) (CPtr 6) (CPtr 7) (CPtr 8) ([], []) =
     (Err [], w') \<and> (\<forall>x \<in> {CPtr 1, CPtr 2, CPtr 3, CPtr 4, CPtr 5, CPtr 6, CPtr 7, CPtr 8}. demo_freed w' x = 1)"
proof -
  let ?nums = "{CPtr 1, CPtr 2, CPtr 3, CPtr 4, CPtr 5, CPtr 6, CPtr 7, CPtr 8}"
  obtain w' where run: "Rsa_from_private_components owner_demo (CPtr 1) (CPtr 2) (CPtr 3) (CPtr 4) (CPtr 5) (CPtr 6) (CPtr 7)
      (CPtr 8) ([], []) = (Err [], w')"
    by (simp add: Rsa_from_private_components_def and_then_def owning_def call_p_def ccall_def cvt_p_def owner_demo_def set_key_def
        set_factors_def cvt_def owner_demo_errors Rsa_drop_def call_v_def)
  have "distinct [CPtr 1, CPtr 2, CPtr 3, CPtr 4, CPtr 5, CPtr 6, CPtr 7, CPtr 8]"
    "fst (fst (owner_demo ''RSA_new'' [] ([], []))) \<notin> ?nums" by (simp_all add: owner_demo_def)
  from rsa_components_one_owner [OF owner_demo_law this run] have "\<forall>x \<in> ?nums. demo_freed w' x = demo_freed ([], []) x + 1"
    by simp
  moreover have "demo_freed ([], []) x = 0" for x by (simp add: demo_freed_def)
  ultimately show ?thesis using run by auto
qed

subsection \<open>Derived secrets\<close>

text \<open>
  The first call of \<open>EVP_PKEY_derive\<close> gives an upper bound of the length, the second writes the secret
  and its real length. \<open>PKeyCtx::derive\<close> keeps the whole buffer: a secret that is shorter than the
  bound comes back with zero bytes behind it.
\<close>

lemma derive_pads_short_secret:
  assumes "F ''EVP_PKEY_derive'' [ctx, CNull, CInt 0] w = ((CInt 1, [x, CInt (int most)]), w1)"
    and "F ''EVP_PKEY_derive'' [ctx, CBytes (replicate most 0), CInt (int most)] w1 =
      ((CInt 1, [CBytes secret, CInt (int (length secret))]), w2)"
    and "length secret \<le> most"
  shows "PKeyCtx_derive F ctx w = (Ok (secret @ replicate (most - length secret) 0), w2)"
  using assms by (simp add: PKeyCtx_derive_def and_then_def ccall_def cvt_def out_def store_out_def overwrite_def Let_def)

end
