(* ===== verification/Ossl_Sign.thy ===== *)
theory Ossl_Sign
  imports Ossl_Keys Ossl_Hash
begin

text \<open>
  Signatures, \<open>openssl/src/sign.rs\<close>: \<open>Signer\<close> and \<open>Verifier\<close> hold a digest context and the key
  context that belongs to it. The second half shows that what is signed and what is verified is the
  concatenation of all updates, whatever their boundaries.
\<close>

subsection \<open>Signer\<close>

record signer =
  sg_md_ctx :: cval
  sg_pkey_ctx :: cval

definition Signer_drop :: "'w ffi \<Rightarrow> signer \<Rightarrow> ('w, 'e, unit) eff" where
  "Signer_drop F s = call_v F ''EVP_MD_CTX_free'' [sg_md_ctx s]"

text \<open>
  The context is freed by hand where the initialisation fails; where the key context is missing the
  assertion unwinds and nothing frees it.
\<close>

definition Signer_new :: "'w ffi \<Rightarrow> cval \<Rightarrow> cval \<Rightarrow> ('w, error_stack, signer) eff" where
  "Signer_new F type pkey =
     and_then (init F) (\<lambda>_.
     and_then (call_p F ''EVP_MD_CTX_new'' []) (\<lambda>ctx.
     and_then (ccall F ''EVP_DigestSignInit'' [ctx, type, CNull, pkey]) (\<lambda>(r, os).
     let pctx = out os 0 in
     if c_int r \<noteq> 1 then
       and_then (call_v F ''EVP_MD_CTX_free'' [ctx]) (\<lambda>_. and_then (ErrorStack_get F) throw)
     else
       and_then (assert_that (pctx \<noteq> CNull)) (\<lambda>_.
         ret \<lparr>sg_md_ctx = ctx, sg_pkey_ctx = pctx\<rparr>))))"

definition Signer_pkey_ctx :: "signer \<Rightarrow> cval" where
  "Signer_pkey_ctx s = sg_pkey_ctx s"

definition Signer_pkey_ctx_mut :: "signer \<Rightarrow> cval" where
  "Signer_pkey_ctx_mut s = sg_pkey_ctx s"

definition Signer_update :: "'w ffi \<Rightarrow> signer \<Rightarrow> byte list \<Rightarrow> ('w, error_stack, unit) eff" where
  "Signer_update F s buf = call_i F ''EVP_DigestUpdate'' [sg_md_ctx s, CBytes buf, CInt (int (length buf))]"

definition Signer_finish :: "'w ffi \<Rightarrow> signer \<Rightarrow> ('w, error_stack, byte list) eff" where
  "Signer_finish F s =
     and_then (ccall F ''EVP_DigestSignFinal'' [sg_md_ctx s, CNull, CInt 0]) (\<lambda>(r, os).
     and_then (cvt F r) (\<lambda>_.
     let len = nat (c_int (out os 1)); buf = replicate len 0 in
     and_then (ccall F ''EVP_DigestSignFinal'' [sg_md_ctx s, CBytes buf, CInt (int len)]) (\<lambda>(r, os).
     and_then (cvt F r) (\<lambda>_.
     and_then (store_out os 0 buf) (\<lambda>buf. ret (take (nat (c_int (out os 1))) buf))))))"

definition Signer_write :: "'w ffi \<Rightarrow> signer \<Rightarrow> byte list \<Rightarrow> ('w, error_stack, nat) eff" where
  "Signer_write F s buf = and_then (Signer_update F s buf) (\<lambda>_. ret (length buf))"

definition Signer_flush :: "signer \<Rightarrow> ('w, 'e, unit) eff" where
  "Signer_flush s = ret ()"

subsection \<open>Verifier\<close>

record verifier =
  vf_md_ctx :: cval
  vf_pkey_ctx :: cval

definition Verifier_drop :: "'w ffi \<Rightarrow> verifier \<Rightarrow> ('w, 'e, unit) eff" where
  "Verifier_drop F v = call_v F ''EVP_MD_CTX_free'' [vf_md_ctx v]"

definition Verifier_new :: "'w ffi \<Rightarrow> cval \<Rightarrow> cval \<Rightarrow> ('w, error_stack, verifier) eff" where
  "Verifier_new F type pkey =
     and_then (init F) (\<lambda>_.
     and_then (call_p F ''EVP_MD_CTX_new'' []) (\<lambda>ctx.
     and_then (ccall F ''EVP_DigestVerifyInit'' [ctx, type, CNull, pkey]) (\<lambda>(r, os).
     let pctx = out os 0 in
     if c_int r \<noteq> 1 then
       and_then (call_v F ''EVP_MD_CTX_free'' [ctx]) (\<lambda>_. and_then (ErrorStack_get F) throw)
     else
       and_then (assert_that (pctx \<noteq> CNull)) (\<lambda>_.
         ret \<lparr>vf_md_ctx = ctx, vf_pkey_ctx = pctx\<rparr>))))"

definition Verifier_pkey_ctx :: "verifier \<Rightarrow> cval" where
  "Verifier_pkey_ctx v = vf_pkey_ctx v"

definition Verifier_pkey_ctx_mut :: "verifier \<Rightarrow> cval" where
  "Verifier_pkey_ctx_mut v = vf_pkey_ctx v"

definition Verifier_update :: "'w ffi \<Rightarrow> verifier \<Rightarrow> byte list \<Rightarrow> ('w, error_stack, unit) eff" where
  "Verifier_update F v buf = call_i F ''EVP_DigestUpdate'' [vf_md_ctx v, CBytes buf, CInt (int (length buf))]"

text \<open>A signature that does not match is an answer, not an error; the error queue is emptied for it.\<close>

definition Verifier_finish :: "'w ffi \<Rightarrow> verifier \<Rightarrow> byte list \<Rightarrow> ('w, error_stack, bool) eff" where
  "Verifier_finish F v signature =
     and_then (ccall F ''EVP_DigestVerifyFinal'' [vf_md_ctx v, CBytes signature, CInt (int (length signature))]) (\<lambda>(r, _).
     if c_int r = 1 then ret True
     else if c_int r = 0 then and_then (ErrorStack_get F) (\<lambda>_. ret False)
     else and_then (ErrorStack_get F) throw)"

definition Verifier_write :: "'w ffi \<Rightarrow> verifier \<Rightarrow> byte list \<Rightarrow> ('w, error_stack, nat) eff" where
  "Verifier_write F v buf = and_then (Verifier_update F v buf) (\<lambda>_. ret (length buf))"

definition Verifier_flush :: "verifier \<Rightarrow> ('w, 'e, unit) eff" where
  "Verifier_flush v = ret ()"

subsection \<open>What signing contexts do\<close>

text \<open>
  The documented behaviour of the \<open>EVP_DigestSign*\<close> and \<open>EVP_DigestVerify*\<close> functions. A context signs
  or verifies, with a digest and a key, the data it has absorbed. The first call of
  \<open>EVP_DigestSignFinal\<close> gives an upper bound of the length, the second a signature of at most that
  length; \<open>good md key data sig\<close> says that a signature is one of the data under the key. What a failed
  verification leaves in the error queue \<open>q\<close> can be read.
\<close>

datatype sign_ctx = SgBlank | SgSigning cval cval "byte list" | SgVerifying cval cval "byte list"

definition sign_law ::
  "'w ffi \<Rightarrow> ('w \<Rightarrow> cval \<Rightarrow> sign_ctx option) \<Rightarrow> ('w \<Rightarrow> err_entry list) \<Rightarrow>
   (cval \<Rightarrow> cval \<Rightarrow> byte list \<Rightarrow> byte list \<Rightarrow> bool) \<Rightarrow> bool" where
  "sign_law F H q good \<longleftrightarrow>
     (\<forall>w. H (snd (F ''init'' [] w)) = H w) \<and>
     (\<forall>w. \<exists>p w'. F ''EVP_MD_CTX_new'' [] w = ((p, []), w') \<and> p \<noteq> CNull \<and> H w p = None \<and> H w' = (H w)(p \<mapsto> SgBlank)) \<and>
     (\<forall>w c md key. H w c \<noteq> None \<longrightarrow>
        (\<exists>pctx w'. F ''EVP_DigestSignInit'' [c, md, CNull, key] w = ((CInt 1, [pctx]), w') \<and> pctx \<noteq> CNull \<and>
           H w' = (H w)(c \<mapsto> SgSigning md key []))) \<and>
     (\<forall>w c md key. H w c \<noteq> None \<longrightarrow>
        (\<exists>pctx w'. F ''EVP_DigestVerifyInit'' [c, md, CNull, key] w = ((CInt 1, [pctx]), w') \<and> pctx \<noteq> CNull \<and>
           H w' = (H w)(c \<mapsto> SgVerifying md key []))) \<and>
     (\<forall>w c md key d b. H w c = Some (SgSigning md key d) \<longrightarrow>
        (\<exists>os w'. F ''EVP_DigestUpdate'' [c, CBytes b, CInt (int (length b))] w = ((CInt 1, os), w') \<and>
           H w' = (H w)(c \<mapsto> SgSigning md key (d @ b)))) \<and>
     (\<forall>w c md key d b. H w c = Some (SgVerifying md key d) \<longrightarrow>
        (\<exists>os w'. F ''EVP_DigestUpdate'' [c, CBytes b, CInt (int (length b))] w = ((CInt 1, os), w') \<and>
           H w' = (H w)(c \<mapsto> SgVerifying md key (d @ b)))) \<and>
     (\<forall>w c md key d. H w c = Some (SgSigning md key d) \<longrightarrow>
        (\<exists>x most w'. F ''EVP_DigestSignFinal'' [c, CNull, CInt 0] w = ((CInt 1, [x, CInt (int most)]), w') \<and> H w' = H w \<and>
           (\<exists>sig w''. F ''EVP_DigestSignFinal'' [c, CBytes (replicate most 0), CInt (int most)] w' =
              ((CInt 1, [CBytes sig, CInt (int (length sig))]), w'') \<and>
              length sig \<le> most \<and> good md key d sig \<and> H w'' = H w'))) \<and>
     (\<forall>w c md key d sig. H w c = Some (SgVerifying md key d) \<longrightarrow>
        (\<exists>r os w'. F ''EVP_DigestVerifyFinal'' [c, CBytes sig, CInt (int (length sig))] w = ((CInt r, os), w') \<and>
           r = (if good md key d sig then 1 else 0) \<and> (\<forall>en \<in> set (q w'). entry_error en \<noteq> None)))"

lemma sign_lawD:
  assumes "sign_law F H q good"
  shows "H (snd (F ''init'' [] w)) = H w"
    "\<exists>p w'. F ''EVP_MD_CTX_new'' [] w = ((p, []), w') \<and> p \<noteq> CNull \<and> H w p = None \<and> H w' = (H w)(p \<mapsto> SgBlank)"
    "H w c \<noteq> None \<Longrightarrow> \<exists>pctx w'. F ''EVP_DigestSignInit'' [c, md, CNull, key] w = ((CInt 1, [pctx]), w') \<and> pctx \<noteq> CNull \<and>
      H w' = (H w)(c \<mapsto> SgSigning md key [])"
    "H w c \<noteq> None \<Longrightarrow> \<exists>pctx w'. F ''EVP_DigestVerifyInit'' [c, md, CNull, key] w = ((CInt 1, [pctx]), w') \<and> pctx \<noteq> CNull \<and>
      H w' = (H w)(c \<mapsto> SgVerifying md key [])"
    "H w c = Some (SgSigning md key d) \<Longrightarrow>
      \<exists>os w'. F ''EVP_DigestUpdate'' [c, CBytes b, CInt (int (length b))] w = ((CInt 1, os), w') \<and>
        H w' = (H w)(c \<mapsto> SgSigning md key (d @ b))"
    "H w c = Some (SgVerifying md key d) \<Longrightarrow>
      \<exists>os w'. F ''EVP_DigestUpdate'' [c, CBytes b, CInt (int (length b))] w = ((CInt 1, os), w') \<and>
        H w' = (H w)(c \<mapsto> SgVerifying md key (d @ b))"
    "H w c = Some (SgSigning md key d) \<Longrightarrow>
      \<exists>x most w'. F ''EVP_DigestSignFinal'' [c, CNull, CInt 0] w = ((CInt 1, [x, CInt (int most)]), w') \<and> H w' = H w \<and>
        (\<exists>sig w''. F ''EVP_DigestSignFinal'' [c, CBytes (replicate most 0), CInt (int most)] w' =
           ((CInt 1, [CBytes sig, CInt (int (length sig))]), w'') \<and>
           length sig \<le> most \<and> good md key d sig \<and> H w'' = H w')"
    "H w c = Some (SgVerifying md key d) \<Longrightarrow>
      \<exists>r os w'. F ''EVP_DigestVerifyFinal'' [c, CBytes sig, CInt (int (length sig))] w = ((CInt r, os), w') \<and>
        r = (if good md key d sig then 1 else 0) \<and> (\<forall>en \<in> set (q w'). entry_error en \<noteq> None)"
proof -
  note law = assms [unfolded sign_law_def]
  show "H (snd (F ''init'' [] w)) = H w"
    "\<exists>p w'. F ''EVP_MD_CTX_new'' [] w = ((p, []), w') \<and> p \<noteq> CNull \<and> H w p = None \<and> H w' = (H w)(p \<mapsto> SgBlank)"
    using law by simp_all
qed (use assms [unfolded sign_law_def] in meson)+

text \<open>What a signer and a verifier stand for: the data their context has absorbed.\<close>

definition signer_stands ::
  "'w ffi \<Rightarrow> ('w \<Rightarrow> cval \<Rightarrow> sign_ctx option) \<Rightarrow> ('w \<Rightarrow> err_entry list) \<Rightarrow>
   (cval \<Rightarrow> cval \<Rightarrow> byte list \<Rightarrow> byte list \<Rightarrow> bool) \<Rightarrow> cval \<Rightarrow> cval \<Rightarrow> signer \<Rightarrow> 'w \<Rightarrow> byte list \<Rightarrow> bool" where
  "signer_stands F H q good md key s w d \<longleftrightarrow> sign_law F H q good \<and> H w (sg_md_ctx s) = Some (SgSigning md key d)"

definition verifier_stands ::
  "'w ffi \<Rightarrow> ('w \<Rightarrow> cval \<Rightarrow> sign_ctx option) \<Rightarrow> ('w \<Rightarrow> err_entry list) \<Rightarrow>
   (cval \<Rightarrow> cval \<Rightarrow> byte list \<Rightarrow> byte list \<Rightarrow> bool) \<Rightarrow> cval \<Rightarrow> cval \<Rightarrow> verifier \<Rightarrow> 'w \<Rightarrow> byte list \<Rightarrow> bool" where
  "verifier_stands F H q good md key v w d \<longleftrightarrow> sign_law F H q good \<and> H w (vf_md_ctx v) = Some (SgVerifying md key d)"

interpretation sg: absorber "signer_stands F H q good md key s" "Signer_update F s" for F H q good md key s
proof
  fix w d b assume st: "signer_stands F H q good md key s w d"
  then have law: "sign_law F H q good" "H w (sg_md_ctx s) = Some (SgSigning md key d)" by (simp_all add: signer_stands_def)
  obtain os w' where "F ''EVP_DigestUpdate'' [sg_md_ctx s, CBytes b, CInt (int (length b))] w = ((CInt 1, os), w')"
    "H w' = (H w)(sg_md_ctx s \<mapsto> SgSigning md key (d @ b))" using sign_lawD(5) [OF law] by blast
  with law(1) show "\<exists>w'. Signer_update F s b w = (Ok (), w') \<and> signer_stands F H q good md key s w' (d @ b)"
    by (simp add: Signer_update_def signer_stands_def call_i_def and_then_def ccall_def cvt_def)
qed

interpretation vf: absorber "verifier_stands F H q good md key v" "Verifier_update F v" for F H q good md key v
proof
  fix w d b assume st: "verifier_stands F H q good md key v w d"
  then have law: "sign_law F H q good" "H w (vf_md_ctx v) = Some (SgVerifying md key d)" by (simp_all add: verifier_stands_def)
  obtain os w' where "F ''EVP_DigestUpdate'' [vf_md_ctx v, CBytes b, CInt (int (length b))] w = ((CInt 1, os), w')"
    "H w' = (H w)(vf_md_ctx v \<mapsto> SgVerifying md key (d @ b))" using sign_lawD(6) [OF law] by blast
  with law(1) show "\<exists>w'. Verifier_update F v b w = (Ok (), w') \<and> verifier_stands F H q good md key v w' (d @ b)"
    by (simp add: Verifier_update_def verifier_stands_def call_i_def and_then_def ccall_def cvt_def)
qed

lemma Signer_new_run:
  assumes "sign_law F H q good"
  shows "\<exists>s w1. Signer_new F md key w = (Ok s, w1) \<and> signer_stands F H q good md key s w1 []"
proof -
  let ?w0 = "snd (F ''init'' [] w)"
  obtain p w' where new: "F ''EVP_MD_CTX_new'' [] ?w0 = ((p, []), w')" "p \<noteq> CNull" "H w' p \<noteq> None"
    using sign_lawD(2) [OF assms, of ?w0] by auto
  obtain pctx w'' where "F ''EVP_DigestSignInit'' [p, md, CNull, key] w' = ((CInt 1, [pctx]), w'')" "pctx \<noteq> CNull"
    "H w'' p = Some (SgSigning md key [])" using sign_lawD(3) [OF assms new(3)] by fastforce
  with new assms show ?thesis
    by (simp add: Signer_new_def init_def and_then_def ccall_def split_beta call_p_def cvt_p_def out_def signer_stands_def)
qed

lemma Verifier_new_run:
  assumes "sign_law F H q good"
  shows "\<exists>v w1. Verifier_new F md key w = (Ok v, w1) \<and> verifier_stands F H q good md key v w1 []"
proof -
  let ?w0 = "snd (F ''init'' [] w)"
  obtain p w' where new: "F ''EVP_MD_CTX_new'' [] ?w0 = ((p, []), w')" "p \<noteq> CNull" "H w' p \<noteq> None"
    using sign_lawD(2) [OF assms, of ?w0] by auto
  obtain pctx w'' where "F ''EVP_DigestVerifyInit'' [p, md, CNull, key] w' = ((CInt 1, [pctx]), w'')" "pctx \<noteq> CNull"
    "H w'' p = Some (SgVerifying md key [])" using sign_lawD(4) [OF assms new(3)] by fastforce
  with new assms show ?thesis
    by (simp add: Verifier_new_def init_def and_then_def ccall_def split_beta call_p_def cvt_p_def out_def verifier_stands_def)
qed

lemma Signer_finish_run:
  assumes "signer_stands F H q good md key s w d"
  shows "\<exists>sig w'. Signer_finish F s w = (Ok sig, w') \<and> good md key d sig"
proof -
  have law: "sign_law F H q good" "H w (sg_md_ctx s) = Some (SgSigning md key d)" using assms by (simp_all add: signer_stands_def)
  obtain x most w1 sig w2 where "F ''EVP_DigestSignFinal'' [sg_md_ctx s, CNull, CInt 0] w = ((CInt 1, [x, CInt (int most)]), w1)"
    "F ''EVP_DigestSignFinal'' [sg_md_ctx s, CBytes (replicate most 0), CInt (int most)] w1 =
       ((CInt 1, [CBytes sig, CInt (int (length sig))]), w2)" "length sig \<le> most" "good md key d sig"
    using sign_lawD(7) [OF law] by blast
  then show ?thesis
    by (auto simp: Signer_finish_def and_then_def ccall_def cvt_def out_def store_out_def overwrite_def Let_def)
qed

lemma Verifier_finish_run:
  assumes "verifier_stands F H q good md key v w d" "err_queue_law F q"
  shows "\<exists>w'. Verifier_finish F v sig w = (Ok (good md key d sig), w')"
proof -
  have law: "sign_law F H q good" "H w (vf_md_ctx v) = Some (SgVerifying md key d)" using assms by (simp_all add: verifier_stands_def)
  obtain r os w1 where fin: "F ''EVP_DigestVerifyFinal'' [vf_md_ctx v, CBytes sig, CInt (int (length sig))] w = ((CInt r, os), w1)"
    "r = (if good md key d sig then 1 else 0)" "\<forall>en \<in> set (q w1). entry_error en \<noteq> None"
    using sign_lawD(8) [OF law] by blast
  obtain es w2 where "ErrorStack_get F w1 = (Ok es, w2)"
    using drain_all [OF assms(2) fin(3), of "[]"] by (auto simp: ErrorStack_get_def)
  with fin(1,2) show ?thesis by (simp add: Verifier_finish_def and_then_def ccall_def)
qed

text \<open>
  Signing and verifying. A signer fed with data in any chunks returns a signature of their
  concatenation, cut to the length OpenSSL reports last; and a verifier, fed with data in any other
  chunks, answers for every signature exactly whether it is one of that concatenation under its key.
  So a signature is accepted however the two sides cut the message, and a wrong one is \<open>Ok(false)\<close>, not
  an error.
\<close>

lemma signatures_ignore_chunks:
  assumes law: "sign_law F H q good" and queue: "err_queue_law F q"
  shows "\<exists>s w1 w2 sig w3.
     Signer_new F md key w = (Ok s, w1) \<and> for_each (Signer_update F s) bs w1 = (Ok (), w2) \<and>
     Signer_finish F s w2 = (Ok sig, w3) \<and> good md key (concat bs) sig \<and>
     (\<forall>key' cs sig'. \<exists>v w4 w5 w6.
        Verifier_new F md key' w3 = (Ok v, w4) \<and> for_each (Verifier_update F v) cs w4 = (Ok (), w5) \<and>
        Verifier_finish F v sig' w5 = (Ok (good md key' (concat cs) sig'), w6))"
proof -
  obtain s w1 where s: "Signer_new F md key w = (Ok s, w1)" "signer_stands F H q good md key s w1 []"
    using Signer_new_run [OF law] by blast
  obtain w2 where w2: "for_each (Signer_update F s) bs w1 = (Ok (), w2)" "signer_stands F H q good md key s w2 (concat bs)"
    using sg.absorbs_all [OF s(2), of bs] by auto
  obtain sig w3 where w3: "Signer_finish F s w2 = (Ok sig, w3)" "good md key (concat bs) sig"
    using Signer_finish_run [OF w2(2)] by blast
  have "\<exists>v w4 w5 w6. Verifier_new F md key' w3 = (Ok v, w4) \<and> for_each (Verifier_update F v) cs w4 = (Ok (), w5) \<and>
      Verifier_finish F v sig' w5 = (Ok (good md key' (concat cs) sig'), w6)" for key' cs sig'
  proof -
    obtain v w4 where v: "Verifier_new F md key' w3 = (Ok v, w4)" "verifier_stands F H q good md key' v w4 []"
      using Verifier_new_run [OF law] by blast
    obtain w5 where "for_each (Verifier_update F v) cs w4 = (Ok (), w5)" "verifier_stands F H q good md key' v w5 (concat cs)"
      using vf.absorbs_all [OF v(2), of cs] by auto
    with v(1) Verifier_finish_run [OF _ queue] show ?thesis by blast
  qed
  with s(1) w2(1) w3 show ?thesis by blast
qed


subsection \<open>A concrete library\<close>

text \<open>Contexts in an association list; a signature is the key followed by the first bytes of the data.\<close>

definition sign_toy :: "cval \<Rightarrow> byte list \<Rightarrow> byte list" where
  "sign_toy key d = (case key of CPtr k \<Rightarrow> of_nat k | _ \<Rightarrow> 0) # take 3 d"

definition sign_demo :: "(nat \<times> sign_ctx) list ffi" where
  "sign_demo f args w =
     (if f = ''EVP_MD_CTX_new'' then ((CPtr (al_fresh w), []), (al_fresh w, SgBlank) # w)
      else case args of
        CPtr c # rest \<Rightarrow>
          if f = ''EVP_DigestSignInit'' then ((CInt 1, [CPtr 0]), (c, SgSigning (hd rest) (rest ! 2) []) # w)
          else if f = ''EVP_DigestVerifyInit'' then ((CInt 1, [CPtr 0]), (c, SgVerifying (hd rest) (rest ! 2) []) # w)
          else if f = ''EVP_DigestUpdate'' then
            (case map_of w c of
               Some (SgSigning md key d) \<Rightarrow> ((CInt 1, []), (c, SgSigning md key (d @ c_bytes (hd rest))) # w)
             | Some (SgVerifying md key d) \<Rightarrow> ((CInt 1, []), (c, SgVerifying md key (d @ c_bytes (hd rest))) # w)
             | _ \<Rightarrow> ((CInt 0, []), w))
          else if f = ''EVP_DigestSignFinal'' then
            (case map_of w c of
               Some (SgSigning md key d) \<Rightarrow>
                 (if hd rest = CNull then ((CInt 1, [CNull, CInt 4]), w)
                  else ((CInt 1, [CBytes (sign_toy key d), CInt (int (length (sign_toy key d)))]), w))
             | _ \<Rightarrow> ((CInt 0, []), w))
          else if f = ''EVP_DigestVerifyFinal'' then
            (case map_of w c of
               Some (SgVerifying md key d) \<Rightarrow> ((CInt (if c_bytes (hd rest) = sign_toy key d then 1 else 0), []), w)
             | _ \<Rightarrow> ((CInt (-1), []), w))
          else ((CInt 0, []), w)
      | _ \<Rightarrow> ((CInt 0, []), w))"

lemma al_heap_SomeD: "al_heap w x = Some v \<Longrightarrow> \<exists>n. x = CPtr n \<and> map_of w n = Some v"
  by (cases x) auto

lemma sign_demo_law: "sign_law sign_demo al_heap (\<lambda>_. []) (\<lambda>md key d sig. sig = sign_toy key d)"
  unfolding sign_law_def
proof (intro conjI allI impI)
  fix w c md key d assume "al_heap w c = Some (SgSigning md key d)"
  then show "\<exists>x most w'. sign_demo ''EVP_DigestSignFinal'' [c, CNull, CInt 0] w = ((CInt 1, [x, CInt (int most)]), w') \<and>
      al_heap w' = al_heap w \<and> (\<exists>sig w''. sign_demo ''EVP_DigestSignFinal'' [c, CBytes (replicate most 0), CInt (int most)] w' =
        ((CInt 1, [CBytes sig, CInt (int (length sig))]), w'') \<and> length sig \<le> most \<and> sig = sign_toy key d \<and> al_heap w'' = al_heap w')"
    by (auto simp: sign_demo_def sign_toy_def dest!: al_heap_SomeD intro!: exI [of _ 4])
next
  fix w :: "(nat \<times> sign_ctx) list" and c md key assume "al_heap w c \<noteq> None"
  from al_heap_ptr [OF this] obtain n where "c = CPtr n" ..
  then show "\<exists>pctx w'. sign_demo ''EVP_DigestSignInit'' [c, md, CNull, key] w = ((CInt 1, [pctx]), w') \<and> pctx \<noteq> CNull \<and>
      al_heap w' = (al_heap w)(c \<mapsto> SgSigning md key [])"
    "\<exists>pctx w'. sign_demo ''EVP_DigestVerifyInit'' [c, md, CNull, key] w = ((CInt 1, [pctx]), w') \<and> pctx \<noteq> CNull \<and>
      al_heap w' = (al_heap w)(c \<mapsto> SgVerifying md key [])"
    by (auto simp: sign_demo_def al_heap_Cons)
qed (auto simp: sign_demo_def al_heap_Cons al_fresh_None [simplified] dest!: al_heap_SomeD)

lemma sign_demo_queue: "err_queue_law sign_demo (\<lambda>_. [])"
  by (simp add: err_queue_law_def sign_demo_def)

lemma signatures_ignore_chunks_witness:
  "\<exists>s w1 w2 w3 v w4 w5 w6.
     Signer_new sign_demo CNull (CPtr 7) [] = (Ok s, w1) \<and> for_each (Signer_update sign_demo s) [[1], [2, 3]] w1 = (Ok (), w2) \<and>
     Signer_finish sign_demo s w2 = (Ok [7, 1, 2, 3], w3) \<and> Verifier_new sign_demo CNull (CPtr 7) w3 = (Ok v, w4) \<and>
     for_each (Verifier_update sign_demo v) [[1, 2], [3]] w4 = (Ok (), w5) \<and>
     Verifier_finish sign_demo v [7, 1, 2, 3] w5 = (Ok True, w6)"
proof -
  have run: "\<exists>s w1 w2 sig w3. Signer_new sign_demo CNull (CPtr 7) [] = (Ok s, w1) \<and>
      for_each (Signer_update sign_demo s) [[1], [2, 3]] w1 = (Ok (), w2) \<and> Signer_finish sign_demo s w2 = (Ok sig, w3) \<and>
      sig = sign_toy (CPtr 7) (concat [[1], [2, 3]]) \<and>
      (\<forall>key' cs sig'. \<exists>v w4 w5 w6. Verifier_new sign_demo CNull key' w3 = (Ok v, w4) \<and>
        for_each (Verifier_update sign_demo v) cs w4 = (Ok (), w5) \<and>
        Verifier_finish sign_demo v sig' w5 = (Ok (sig' = sign_toy key' (concat cs)), w6))"
    by (rule signatures_ignore_chunks [OF sign_demo_law sign_demo_queue])
  have toy: "sign_toy (CPtr 7) (concat [[1], [2, 3]]) = [7, 1, 2, 3]" "sign_toy (CPtr 7) (concat [[1, 2], [3]]) = [7, 1, 2, 3]"
    by (simp_all add: sign_toy_def)
  from run obtain s w1 w2 w3 where s: "Signer_new sign_demo CNull (CPtr 7) [] = (Ok s, w1)"
    "for_each (Signer_update sign_demo s) [[1], [2, 3]] w1 = (Ok (), w2)" "Signer_finish sign_demo s w2 = (Ok [7, 1, 2, 3], w3)"
    and v: "\<forall>key' cs sig'. \<exists>v w4 w5 w6. Verifier_new sign_demo CNull key' w3 = (Ok v, w4) \<and>
        for_each (Verifier_update sign_demo v) cs w4 = (Ok (), w5) \<and>
        Verifier_finish sign_demo v sig' w5 = (Ok (sig' = sign_toy key' (concat cs)), w6)"
    unfolding toy(1) by blast
  from v [THEN spec, THEN spec, THEN spec, of "CPtr 7" "[[1, 2], [3]]" "[7, 1, 2, 3]"] s show ?thesis
    unfolding toy(2) simp_thms by blast
qed

end
