(* ===== verification/Ossl_Derive.thy ===== *)
theory Ossl_Derive
  imports Ossl_Keys Ossl_Stack
begin

text \<open>
  Key derivation (\<open>openssl/src/pkcs5.rs\<close>), AES in IGE mode (\<open>openssl/src/aes.rs\<close>), random bytes
  (\<open>openssl/src/rand.rs\<close>), constant-time comparison (\<open>openssl/src/memcmp.rs\<close>), and the small types of
  \<open>openssl/src/string.rs\<close>, \<open>openssl/src/ex_data.rs\<close> and \<open>openssl/src/conf.rs\<close>. A function that fills a
  slice of its caller returns the filled slice.
\<close>

subsection \<open>Key derivation\<close>

record KeyIvPair =
  ki_key :: "byte list"
  ki_iv :: "byte list option"

definition PKCS5_SALT_LEN :: nat where "PKCS5_SALT_LEN = 8"

definition salt_arg :: "byte list option \<Rightarrow> ('w, 'e, cval) eff" where
  "salt_arg salt =
     (case salt of
        Some s \<Rightarrow> and_then (assert_that (length s = PKCS5_SALT_LEN)) (\<lambda>_. ret (CBytes s))
      | None \<Rightarrow> ret CNull)"

definition bytes_to_key ::
  "'w ffi \<Rightarrow> cval \<Rightarrow> cval \<Rightarrow> byte list \<Rightarrow> byte list option \<Rightarrow> i32 \<Rightarrow> ('w, error_stack, KeyIvPair) eff" where
  "bytes_to_key F ciph digest data salt count =
     and_then (assert_that (length data \<le> c_int_max)) (\<lambda>_.
     and_then (salt_arg salt) (\<lambda>salt_ptr.
     and_then (init F) (\<lambda>_.
     and_then (iv_len F ciph) (\<lambda>l.
     let iv = map_option (\<lambda>l. replicate l 0) l in
     and_then (ccall F ''EVP_BytesToKey''
        [ciph, digest, salt_ptr, CNull, CInt (int (length data)), CInt (sint count), CNull, CNull]) (\<lambda>(r, _).
     and_then (cvt F r) (\<lambda>len.
     let key = replicate (nat len) 0; iv_ptr = (case iv of Some v \<Rightarrow> CBytes v | None \<Rightarrow> CNull) in
     and_then (ccall F ''EVP_BytesToKey''
        [ciph, digest, salt_ptr, CBytes data, CInt (int (length data)), CInt (sint count), CBytes key, iv_ptr]) (\<lambda>(r, os).
     and_then (cvt F r) (\<lambda>_.
     and_then (store_out os 0 key) (\<lambda>key.
     and_then (case iv of Some v \<Rightarrow> and_then (store_out os 1 v) (\<lambda>v. ret (Some v)) | None \<Rightarrow> ret None) (\<lambda>iv.
       ret \<lparr>ki_key = key, ki_iv = iv\<rparr>))))))))))"

text \<open>The iteration count is a \<open>usize\<close> cast to \<open>c_int\<close>.\<close>

definition pbkdf2_hmac ::
  "'w ffi \<Rightarrow> byte list \<Rightarrow> byte list \<Rightarrow> nat \<Rightarrow> cval \<Rightarrow> byte list \<Rightarrow> ('w, error_stack, byte list) eff" where
  "pbkdf2_hmac F pass salt iter md key =
     and_then (assert_that (length pass \<le> c_int_max)) (\<lambda>_.
     and_then (assert_that (length salt \<le> c_int_max)) (\<lambda>_.
     and_then (assert_that (length key \<le> c_int_max)) (\<lambda>_.
     and_then (init F) (\<lambda>_.
     and_then (ccall F ''PKCS5_PBKDF2_HMAC''
        [CBytes pass, CInt (int (length pass)), CBytes salt, CInt (int (length salt)), CInt (as_c_int (int iter)), md,
         CInt (int (length key)), CBytes key]) (\<lambda>(r, os).
     and_then (cvt F r) (\<lambda>_. store_out os 0 key))))))"

definition scrypt ::
  "'w ffi \<Rightarrow> byte list \<Rightarrow> byte list \<Rightarrow> u64 \<Rightarrow> u64 \<Rightarrow> u64 \<Rightarrow> u64 \<Rightarrow> byte list \<Rightarrow> ('w, error_stack, byte list) eff" where
  "scrypt F pass salt n r p maxmem key =
     and_then (init F) (\<lambda>_.
     and_then (ccall F ''EVP_PBE_scrypt''
        [CBytes pass, CInt (int (length pass)), CBytes salt, CInt (int (length salt)), CInt (uint n), CInt (uint r),
         CInt (uint p), CInt (uint maxmem), CBytes key, CInt (int (length key))]) (\<lambda>(r, os).
     and_then (cvt F r) (\<lambda>_. store_out os 0 key)))"

subsection \<open>AES IGE\<close>

definition AES_BLOCK_SIZE :: nat where "AES_BLOCK_SIZE = 16"

text \<open>The key schedule is what C stored through the pointer; the only error is \<open>KeyError(())\<close>.\<close>

definition AesKey_new_encrypt :: "'w ffi \<Rightarrow> byte list \<Rightarrow> ('w, unit, cval) eff" where
  "AesKey_new_encrypt F key =
     and_then (assert_that (length key \<le> c_int_max div 8)) (\<lambda>_.
     and_then (ccall F ''AES_set_encrypt_key'' [CBytes key, CInt (as_c_int (int (length key)) * 8)]) (\<lambda>(r, os).
     if c_int r = 0 then ret (out os 0) else throw ()))"

definition AesKey_new_decrypt :: "'w ffi \<Rightarrow> byte list \<Rightarrow> ('w, unit, cval) eff" where
  "AesKey_new_decrypt F key =
     and_then (assert_that (length key \<le> c_int_max div 8)) (\<lambda>_.
     and_then (ccall F ''AES_set_decrypt_key'' [CBytes key, CInt (as_c_int (int (length key)) * 8)]) (\<lambda>(r, os).
     if c_int r = 0 then ret (out os 0) else throw ()))"

definition aes_ige ::
  "'w ffi \<Rightarrow> byte list \<Rightarrow> byte list \<Rightarrow> cval \<Rightarrow> byte list \<Rightarrow> mode \<Rightarrow> ('w, 'e, byte list \<times> byte list) eff" where
  "aes_ige F inb outb key iv mode =
     and_then (assert_that (length inb = length outb)) (\<lambda>_.
     and_then (assert_that (length inb mod AES_BLOCK_SIZE = 0)) (\<lambda>_.
     and_then (assert_that (AES_BLOCK_SIZE * 2 \<le> length iv)) (\<lambda>_.
     and_then (ccall F ''AES_ige_encrypt''
        [CBytes inb, CBytes outb, CInt (int (length inb)), key, CBytes iv, CInt (mode_int mode)]) (\<lambda>(_, os).
     and_then (store_out os 0 outb) (\<lambda>outb.
     and_then (store_out os 1 iv) (\<lambda>iv. ret (outb, iv)))))))"

subsection \<open>Random bytes and comparison\<close>

definition rand_bytes :: "'w ffi \<Rightarrow> byte list \<Rightarrow> ('w, error_stack, byte list) eff" where
  "rand_bytes F buf =
     and_then (init F) (\<lambda>_.
     and_then (assert_that (length buf \<le> c_int_max)) (\<lambda>_.
     and_then (ccall F ''RAND_bytes'' [CBytes buf, CInt (int (length buf))]) (\<lambda>(r, os).
     and_then (cvt F r) (\<lambda>_. store_out os 0 buf))))"

definition memcmp_eq :: "'w ffi \<Rightarrow> byte list \<Rightarrow> byte list \<Rightarrow> ('w, 'e, bool) eff" where
  "memcmp_eq F a b =
     and_then (assert_that (length a = length b)) (\<lambda>_.
     and_then (ccall F ''CRYPTO_memcmp'' [CBytes a, CBytes b, CInt (int (length a))]) (\<lambda>(r, _).
       ret (c_int r = 0)))"

subsection \<open>Strings, indexes and configuration\<close>

text \<open>
  A string of OpenSSL is a C string that Rust owns; reading it takes its bytes for UTF-8 unchecked.
  The source position that \<open>CRYPTO_free\<close> is given is an argument here.
\<close>

definition OpensslString_from_raw_parts :: "cval \<Rightarrow> nat \<Rightarrow> cval" where
  "OpensslString_from_raw_parts buf n = buf"

definition OpensslString_from_null_terminated :: "cval \<Rightarrow> cval" where
  "OpensslString_from_null_terminated buf = buf"

definition OpensslStringRef_deref :: "cval \<Rightarrow> ('w, 'e, string) eff" where
  "OpensslStringRef_deref s = (case c_str s of None \<Rightarrow> diverge | Some bytes \<Rightarrow> ret bytes)"

definition OpensslStringRef_display :: "cval \<Rightarrow> ('w, 'e, string) eff" where
  "OpensslStringRef_display s = OpensslStringRef_deref s"

definition OpensslString_display :: "cval \<Rightarrow> ('w, 'e, string) eff" where
  "OpensslString_display s = OpensslStringRef_display s"

definition OpensslString_free :: "'w ffi \<Rightarrow> string \<Rightarrow> int \<Rightarrow> cval \<Rightarrow> ('w, 'e, unit) eff" where
  "OpensslString_free F file_name line_no buf = call_v F ''CRYPTO_free'' [buf, CStr file_name, CInt line_no]"

datatype Index = Index (Index_as_raw: int)

definition Index_from_raw :: "int \<Rightarrow> Index" where
  "Index_from_raw idx = Index idx"

definition ConfMethod_default :: "'w ffi \<Rightarrow> ('w, 'e, cval) eff" where
  "ConfMethod_default F = and_then (init F) (\<lambda>_. and_then (ccall F ''NCONF_default'' []) (\<lambda>(m, _). ret m))"

definition Conf_new :: "'w ffi \<Rightarrow> cval \<Rightarrow> ('w, error_stack, cval) eff" where
  "Conf_new F meth = call_p F ''NCONF_new'' [meth]"

subsection \<open>Iterations of PBKDF2\<close>

text \<open>
  What \<open>PKCS5_PBKDF2_HMAC\<close> documents: with at least one iteration it fills the key with the output of
  the derivation function, of the length asked for.
\<close>

definition kdf_law :: "'w ffi \<Rightarrow> (cval \<Rightarrow> byte list \<Rightarrow> byte list \<Rightarrow> nat \<Rightarrow> nat \<Rightarrow> byte list) \<Rightarrow> bool" where
  "kdf_law F kdf \<longleftrightarrow>
     (\<forall>w pass salt n md key. 1 \<le> n \<longrightarrow>
        (\<exists>w'. F ''PKCS5_PBKDF2_HMAC''
           [CBytes pass, CInt (int (length pass)), CBytes salt, CInt (int (length salt)), CInt (int n), md,
            CInt (int (length key)), CBytes key] w = ((CInt 1, [CBytes (kdf md pass salt n (length key))]), w'))) \<and>
     (\<forall>md pass salt n l. length (kdf md pass salt n l) = l)"

lemma as_c_int_wraps: "k \<le> c_int_max \<Longrightarrow> as_c_int (int (k + m * 2 ^ 32)) = int k"
proof -
  assume k: "k \<le> c_int_max"
  have zero: "(2 ^ 32 :: i32) = 0" by simp
  have "(word_of_nat (k + m * 2 ^ 32) :: i32) = word_of_nat k"
    by (simp only: of_nat_add of_nat_mult of_nat_power of_nat_numeral zero mult_zero_right add_0_right)
  with as_c_int_small [OF k] show ?thesis by (simp only: as_c_int_def of_int_of_nat_eq)
qed

text \<open>
  \<open>pbkdf2_hmac\<close> derives the key with the iteration count it is given, as long as the count fits a
  C \<open>int\<close>. Beyond that the cast from \<open>usize\<close> drops the high bits in silence: \<open>k + m * 2^32\<close>
  iterations give the key of \<open>k\<close>, so a count of \<open>2^32 + 1\<close> stretches the password by a single one.
\<close>

lemma pbkdf2_counts_modulo:
  assumes law: "kdf_law F kdf" and k: "1 \<le> k" "k \<le> c_int_max"
    and len: "length pass \<le> c_int_max" "length salt \<le> c_int_max" "length key \<le> c_int_max"
  shows "\<exists>w'. pbkdf2_hmac F pass salt (k + m * 2 ^ 32) md key w = (Ok (kdf md pass salt k (length key)), w')"
proof -
  obtain w' where "F ''PKCS5_PBKDF2_HMAC''
       [CBytes pass, CInt (int (length pass)), CBytes salt, CInt (int (length salt)), CInt (int k), md,
        CInt (int (length key)), CBytes key] (snd (F ''init'' [] w)) = ((CInt 1, [CBytes (kdf md pass salt k (length key))]), w')"
    using law k(1) unfolding kdf_law_def by blast
  moreover have "length (kdf md pass salt k (length key)) = length key" using law by (simp add: kdf_law_def)
  ultimately show ?thesis
    using len as_c_int_wraps [OF k(2), of m]
    by (simp add: pbkdf2_hmac_def init_def and_then_def ccall_def split_beta cvt_def store_out_def out_def overwrite_def Let_def)
qed

definition kdf_demo :: "unit ffi" where
  "kdf_demo f args w =
     (case args of
        [CBytes pass, _, CBytes salt, _, CInt n, _, CInt l, _] \<Rightarrow> ((CInt 1, [CBytes (replicate (nat l) (of_int n))]), w)
      | _ \<Rightarrow> ((CInt 0, []), w))"

lemma pbkdf2_counts_modulo_witness:
  "\<exists>w'. pbkdf2_hmac kdf_demo [1] [2] 4294967299 CNull [0, 0] () = (Ok [3, 3], w')"
proof -
  have "kdf_law kdf_demo (\<lambda>md pass salt n l. replicate l (of_nat n))"
    by (auto simp: kdf_law_def kdf_demo_def)
  from pbkdf2_counts_modulo [OF this, of 3 "[1]" "[2]" "[0, 0]" 1] show ?thesis by (simp add: c_int_max_def)
qed

end
