(* ===== verification/Ossl_Containers.thy ===== *)
theory Ossl_Containers
  imports Ossl_Keys Ossl_Stack
begin

text \<open>
  Containers of keys and certificates: PKCS #12 archives (\<open>openssl/src/pkcs12.rs\<close>), CMS messages
  (\<open>openssl/src/cms.rs\<close>), OCSP requests and responses (\<open>openssl/src/ocsp.rs\<close>) and certificate stores
  (\<open>openssl/src/x509/store.rs\<close>).
\<close>

subsection \<open>PKCS \<open>#\<close>12\<close>

definition X509_drop :: "'w ffi \<Rightarrow> cval \<Rightarrow> ('w, 'e, unit) eff" where
  "X509_drop F x = call_v F ''X509_free'' [x]"

record ParsedPkcs12 =
  pp_pkey :: cval
  pp_cert :: cval
  pp_chain :: cval

definition Pkcs12_to_der :: "'w ffi \<Rightarrow> cval \<Rightarrow> ('w, error_stack, byte list) eff" where
  "Pkcs12_to_der F = to_der_inner F ''i2d_PKCS12''"

definition Pkcs12_from_der :: "'w ffi \<Rightarrow> byte list \<Rightarrow> ('w, error_stack, cval) eff" where
  "Pkcs12_from_der F = from_der_inner F ''d2i_PKCS12''"

text \<open>The key and the certificate are taken as they come, null pointers included.\<close>

definition Pkcs12_parse :: "'w ffi \<Rightarrow> cval \<Rightarrow> string \<Rightarrow> ('w, error_stack, ParsedPkcs12) eff" where
  "Pkcs12_parse F p12 pass =
     and_then (c_string pass) (\<lambda>pass.
     and_then (ccall F ''PKCS12_parse'' [p12, pass]) (\<lambda>(r, os).
     and_then (cvt F r) (\<lambda>_.
     let pkey = out os 0; cert = out os 1; chain = out os 2 in
     owning (PKey_drop F pkey) (owning (X509_drop F cert) (
     and_then (if chain = CNull then Stack_new F else Stack_from_ptr chain) (\<lambda>chain.
       ret \<lparr>pp_pkey = pkey, pp_cert = cert, pp_chain = chain\<rparr>))))))"

definition PKCS12_DEFAULT_ITER :: int where "PKCS12_DEFAULT_ITER = 2048"
definition NID_UNDEF :: nid where "NID_UNDEF = 0"

record Pkcs12Builder =
  pb_nid_key :: nid
  pb_nid_cert :: nid
  pb_iter :: int
  pb_mac_iter :: int
  pb_ca :: "cval option"

definition Pkcs12_builder :: "'w ffi \<Rightarrow> ('w, 'e, Pkcs12Builder) eff" where
  "Pkcs12_builder F =
     and_then (init F) (\<lambda>_.
       ret \<lparr>pb_nid_key = NID_UNDEF, pb_nid_cert = NID_UNDEF, pb_iter = PKCS12_DEFAULT_ITER,
            pb_mac_iter = PKCS12_DEFAULT_ITER, pb_ca = None\<rparr>)"

definition key_algorithm :: "nid \<Rightarrow> Pkcs12Builder \<Rightarrow> Pkcs12Builder" where
  "key_algorithm n b = b\<lparr>pb_nid_key := n\<rparr>"

definition cert_algorithm :: "nid \<Rightarrow> Pkcs12Builder \<Rightarrow> Pkcs12Builder" where
  "cert_algorithm n b = b\<lparr>pb_nid_cert := n\<rparr>"

definition key_iter :: "u32 \<Rightarrow> Pkcs12Builder \<Rightarrow> Pkcs12Builder" where
  "key_iter iter b = b\<lparr>pb_iter := sint iter\<rparr>"

definition mac_iter :: "u32 \<Rightarrow> Pkcs12Builder \<Rightarrow> Pkcs12Builder" where
  "mac_iter iter b = b\<lparr>pb_mac_iter := sint iter\<rparr>"

text \<open>A stack that was set before is dropped.\<close>

definition drop_certs :: "'w ffi \<Rightarrow> cval option \<Rightarrow> ('w, 'e, unit) eff" where
  "drop_certs F ca = (case ca of Some s \<Rightarrow> Stack_drop F (X509_drop F) s | None \<Rightarrow> ret ())"

definition Pkcs12Builder_ca :: "'w ffi \<Rightarrow> cval \<Rightarrow> Pkcs12Builder \<Rightarrow> ('w, 'e, Pkcs12Builder) eff" where
  "Pkcs12Builder_ca F ca b = and_then (drop_certs F (pb_ca b)) (\<lambda>_. ret (b\<lparr>pb_ca := Some ca\<rparr>))"

definition Pkcs12Builder_build ::
  "'w ffi \<Rightarrow> Pkcs12Builder \<Rightarrow> string \<Rightarrow> string \<Rightarrow> cval \<Rightarrow> cval \<Rightarrow> ('w, error_stack, cval) eff" where
  "Pkcs12Builder_build F b password friendly_name pkey cert =
     dropping (drop_certs F (pb_ca b)) (
     and_then (c_string password) (\<lambda>pass.
     and_then (c_string friendly_name) (\<lambda>friendly_name.
     let ca = (case pb_ca b of Some s \<Rightarrow> s | None \<Rightarrow> CNull); keytype = CInt 0 in
     call_p F ''PKCS12_create''
       [pass, friendly_name, pkey, cert, ca, CInt (pb_nid_key b), CInt (pb_nid_cert b), CInt (pb_iter b),
        CInt (pb_mac_iter b), keytype])))"

subsection \<open>CMS\<close>

definition CmsContentInfo_decrypt :: "'w ffi \<Rightarrow> cval \<Rightarrow> cval \<Rightarrow> cval \<Rightarrow> ('w, error_stack, byte list) eff" where
  "CmsContentInfo_decrypt F cms pkey cert =
     and_then (MemBio_new F) (\<lambda>bio.
     dropping (bio_drop F bio) (
     and_then (call_i F ''CMS_decrypt'' [cms, pkey, cert, CNull, bio, CInt 0]) (\<lambda>_. MemBio_get_buf F bio)))"

definition CmsContentInfo_smime_read_cms :: "'w ffi \<Rightarrow> byte list \<Rightarrow> ('w, error_stack, cval) eff" where
  "CmsContentInfo_smime_read_cms F smime =
     and_then (MemBioSlice_new F smime) (\<lambda>bio.
     dropping (bio_drop F bio) (call_p F ''SMIME_read_CMS'' [bio, CNull]))"

subsection \<open>OCSP\<close>

definition FLAG_NO_CERTS :: u64 where "FLAG_NO_CERTS = 0x1"
definition FLAG_NO_INTERN :: u64 where "FLAG_NO_INTERN = 0x2"
definition FLAG_NO_CHAIN :: u64 where "FLAG_NO_CHAIN = 0x8"
definition FLAG_NO_VERIFY :: u64 where "FLAG_NO_VERIFY = 0x10"
definition FLAG_NO_EXPLICIT :: u64 where "FLAG_NO_EXPLICIT = 0x20"
definition FLAG_NO_CA_SIGN :: u64 where "FLAG_NO_CA_SIGN = 0x40"
definition FLAG_NO_DELEGATED :: u64 where "FLAG_NO_DELEGATED = 0x80"
definition FLAG_NO_CHECKS :: u64 where "FLAG_NO_CHECKS = 0x100"
definition FLAG_TRUST_OTHER :: u64 where "FLAG_TRUST_OTHER = 0x200"
definition FLAG_RESPID_KEY :: u64 where "FLAG_RESPID_KEY = 0x400"
definition FLAG_NO_TIME :: u64 where "FLAG_NO_TIME = 0x800"

datatype OcspResponseStatus = OcspResponseStatus (OcspResponseStatus_as_raw: int)
datatype OcspCertStatus = OcspCertStatus (OcspCertStatus_as_raw: int)
datatype OcspRevokedStatus = OcspRevokedStatus (OcspRevokedStatus_as_raw: int)

definition OcspResponseStatus_from_raw :: "int \<Rightarrow> OcspResponseStatus" where
  "OcspResponseStatus_from_raw raw = OcspResponseStatus raw"

definition OcspCertStatus_from_raw :: "int \<Rightarrow> OcspCertStatus" where
  "OcspCertStatus_from_raw raw = OcspCertStatus raw"

definition OcspRevokedStatus_from_raw :: "int \<Rightarrow> OcspRevokedStatus" where
  "OcspRevokedStatus_from_raw raw = OcspRevokedStatus raw"

definition RESPONSE_STATUS_SUCCESSFUL :: OcspResponseStatus where "RESPONSE_STATUS_SUCCESSFUL = OcspResponseStatus 0"
definition RESPONSE_STATUS_MALFORMED_REQUEST :: OcspResponseStatus where "RESPONSE_STATUS_MALFORMED_REQUEST = OcspResponseStatus 1"
definition RESPONSE_STATUS_INTERNAL_ERROR :: OcspResponseStatus where "RESPONSE_STATUS_INTERNAL_ERROR = OcspResponseStatus 2"
definition RESPONSE_STATUS_TRY_LATER :: OcspResponseStatus where "RESPONSE_STATUS_TRY_LATER = OcspResponseStatus 3"
definition RESPONSE_STATUS_SIG_REQUIRED :: OcspResponseStatus where "RESPONSE_STATUS_SIG_REQUIRED = OcspResponseStatus 5"
definition RESPONSE_STATUS_UNAUTHORIZED :: OcspResponseStatus where "RESPONSE_STATUS_UNAUTHORIZED = OcspResponseStatus 6"

definition CERT_STATUS_GOOD :: OcspCertStatus where "CERT_STATUS_GOOD = OcspCertStatus 0"
definition CERT_STATUS_REVOKED :: OcspCertStatus where "CERT_STATUS_REVOKED = OcspCertStatus 1"
definition CERT_STATUS_UNKNOWN :: OcspCertStatus where "CERT_STATUS_UNKNOWN = OcspCertStatus 2"

definition REVOKED_STATUS_NO_STATUS :: OcspRevokedStatus where "REVOKED_STATUS_NO_STATUS = OcspRevokedStatus (-1)"
definition REVOKED_STATUS_UNSPECIFIED :: OcspRevokedStatus where "REVOKED_STATUS_UNSPECIFIED = OcspRevokedStatus 0"
definition REVOKED_STATUS_KEY_COMPROMISE :: OcspRevokedStatus where "REVOKED_STATUS_KEY_COMPROMISE = OcspRevokedStatus 1"
definition REVOKED_STATUS_CA_COMPROMISE :: OcspRevokedStatus where "REVOKED_STATUS_CA_COMPROMISE = OcspRevokedStatus 2"
definition REVOKED_STATUS_AFFILIATION_CHANGED :: OcspRevokedStatus where "REVOKED_STATUS_AFFILIATION_CHANGED = OcspRevokedStatus 3"
definition REVOKED_STATUS_SUPERSEDED :: OcspRevokedStatus where "REVOKED_STATUS_SUPERSEDED = OcspRevokedStatus 4"
definition REVOKED_STATUS_CESSATION_OF_OPERATION :: OcspRevokedStatus where "REVOKED_STATUS_CESSATION_OF_OPERATION = OcspRevokedStatus 5"
definition REVOKED_STATUS_CERTIFICATE_HOLD :: OcspRevokedStatus where "REVOKED_STATUS_CERTIFICATE_HOLD = OcspRevokedStatus 6"
definition REVOKED_STATUS_REMOVE_FROM_CRL :: OcspRevokedStatus where "REVOKED_STATUS_REMOVE_FROM_CRL = OcspRevokedStatus 8"

record Status =
  st_status :: OcspCertStatus
  st_reason :: OcspRevokedStatus
  st_revocation_time :: "cval option"
  st_this_update :: cval
  st_next_update :: cval

definition Status_check_validity :: "'w ffi \<Rightarrow> Status \<Rightarrow> u32 \<Rightarrow> u32 option \<Rightarrow> ('w, error_stack, unit) eff" where
  "Status_check_validity F st nsec maxsec =
     call_i F ''OCSP_check_validity''
       [st_this_update st, st_next_update st, CInt (uint nsec), CInt (case maxsec of Some n \<Rightarrow> uint n | None \<Rightarrow> -1)]"

definition OcspBasicResponse_verify :: "'w ffi \<Rightarrow> cval \<Rightarrow> cval \<Rightarrow> cval \<Rightarrow> u64 \<Rightarrow> ('w, error_stack, unit) eff" where
  "OcspBasicResponse_verify F resp certs store flags =
     call_i F ''OCSP_basic_verify'' [resp, certs, store, CInt (uint flags)]"

text \<open>The field \<open>reason\<close> is filled from the variable \<open>status\<close>.\<close>

definition OcspBasicResponse_find_status :: "'w ffi \<Rightarrow> cval \<Rightarrow> cval \<Rightarrow> ('w, 'e, Status option) eff" where
  "OcspBasicResponse_find_status F resp cert_id =
     and_then (ccall F ''OCSP_resp_find_status'' [resp, cert_id]) (\<lambda>(r, os).
     let status = c_int (out os 0); reason = c_int (out os 1); revocation_time = out os 2;
         this_update = out os 3; next_update = out os 4 in
     ret (if c_int r = 1 then
            Some \<lparr>st_status = OcspCertStatus status, st_reason = OcspRevokedStatus status,
              st_revocation_time = non_null revocation_time, st_this_update = this_update,
              st_next_update = next_update\<rparr>
          else None))"

definition OcspCertId_from_cert :: "'w ffi \<Rightarrow> cval \<Rightarrow> cval \<Rightarrow> cval \<Rightarrow> ('w, error_stack, cval) eff" where
  "OcspCertId_from_cert F digest subject issuer = call_p F ''OCSP_cert_to_id'' [digest, subject, issuer]"

definition OcspResponse_create :: "'w ffi \<Rightarrow> OcspResponseStatus \<Rightarrow> cval option \<Rightarrow> ('w, error_stack, cval) eff" where
  "OcspResponse_create F status body =
     and_then (init F) (\<lambda>_.
     call_p F ''OCSP_response_create''
       [CInt (OcspResponseStatus_as_raw status), case body of Some r \<Rightarrow> r | None \<Rightarrow> CNull])"

definition OcspResponse_from_der :: "'w ffi \<Rightarrow> byte list \<Rightarrow> ('w, error_stack, cval) eff" where
  "OcspResponse_from_der F = from_der_inner F ''d2i_OCSP_RESPONSE''"

definition OcspResponse_to_der :: "'w ffi \<Rightarrow> cval \<Rightarrow> ('w, error_stack, byte list) eff" where
  "OcspResponse_to_der F = to_der_inner F ''i2d_OCSP_RESPONSE''"

definition OcspResponse_status :: "'w ffi \<Rightarrow> cval \<Rightarrow> ('w, 'e, OcspResponseStatus) eff" where
  "OcspResponse_status F resp =
     and_then (ccall F ''OCSP_response_status'' [resp]) (\<lambda>(r, _). ret (OcspResponseStatus (c_int r)))"

definition OcspResponse_basic :: "'w ffi \<Rightarrow> cval \<Rightarrow> ('w, error_stack, cval) eff" where
  "OcspResponse_basic F resp = call_p F ''OCSP_response_get1_basic'' [resp]"

definition OcspRequest_new :: "'w ffi \<Rightarrow> ('w, error_stack, cval) eff" where
  "OcspRequest_new F = and_then (init F) (\<lambda>_. call_p F ''OCSP_REQUEST_new'' [])"

definition OcspRequest_from_der :: "'w ffi \<Rightarrow> byte list \<Rightarrow> ('w, error_stack, cval) eff" where
  "OcspRequest_from_der F = from_der_inner F ''d2i_OCSP_REQUEST''"

definition OcspRequest_to_der :: "'w ffi \<Rightarrow> cval \<Rightarrow> ('w, error_stack, byte list) eff" where
  "OcspRequest_to_der F = to_der_inner F ''i2d_OCSP_REQUEST''"

definition OcspRequest_add_id :: "'w ffi \<Rightarrow> cval \<Rightarrow> cval \<Rightarrow> ('w, error_stack, cval) eff" where
  "OcspRequest_add_id F req cert_id =
     owning (call_v F ''OCSP_CERTID_free'' [cert_id]) (call_p F ''OCSP_request_add0_id'' [req, cert_id])"

subsection \<open>Certificate stores\<close>

definition X509StoreBuilder_new :: "'w ffi \<Rightarrow> ('w, error_stack, cval) eff" where
  "X509StoreBuilder_new F = and_then (init F) (\<lambda>_. call_p F ''X509_STORE_new'' [])"

definition X509StoreBuilder_build :: "cval \<Rightarrow> cval" where
  "X509StoreBuilder_build b = b"

text \<open>The certificate is forgotten before the call: Rust does not drop it on either path.\<close>

definition X509StoreBuilder_add_cert :: "'w ffi \<Rightarrow> cval \<Rightarrow> cval \<Rightarrow> ('w, error_stack, unit) eff" where
  "X509StoreBuilder_add_cert F b cert = call_i F ''X509_STORE_add_cert'' [b, cert]"

definition X509StoreBuilder_set_default_paths :: "'w ffi \<Rightarrow> cval \<Rightarrow> ('w, error_stack, unit) eff" where
  "X509StoreBuilder_set_default_paths F b = call_i F ''X509_STORE_set_default_paths'' [b]"


subsection \<open>What the wrappers lose\<close>

text \<open>
  The status of a certificate in an OCSP response. Where OpenSSL finds the certificate, the crate
  reports its status, the revocation time (none for a null pointer) and the two update times as
  OpenSSL gave them, but never the reason: that field repeats the number of the status, so every
  revoked certificate is reported as revoked for key compromise, whatever the reason was.
\<close>

lemma find_status_loses_reason:
  assumes "F ''OCSP_resp_find_status'' [resp, cert_id] w = ((r, [CInt status, CInt reason, revoked, upd, nxt]), w')"
  shows "OcspBasicResponse_find_status F resp cert_id w =
     (Ok (if c_int r = 1 then
            Some \<lparr>st_status = OcspCertStatus status, st_reason = OcspRevokedStatus status,
              st_revocation_time = (if revoked = CNull then None else Some revoked), st_this_update = upd, st_next_update = nxt\<rparr>
          else None), w')
   \<and> (c_int r = 1 \<longrightarrow> OcspCertStatus status = CERT_STATUS_REVOKED \<longrightarrow>
        OcspRevokedStatus status = REVOKED_STATUS_KEY_COMPROMISE)"
  using assms
  by (simp add: OcspBasicResponse_find_status_def and_then_def ccall_def out_def non_null_def
      CERT_STATUS_REVOKED_def REVOKED_STATUS_KEY_COMPROMISE_def)

definition ocsp_demo :: "unit ffi" where
  "ocsp_demo f args w = ((CInt 1, [CInt 1, CInt 4, CNull, CPtr 1, CPtr 2]), w)"

lemma find_status_loses_reason_witness:
  "OcspBasicResponse_find_status ocsp_demo (CPtr 8) (CPtr 9) () =
     (Ok (Some \<lparr>st_status = CERT_STATUS_REVOKED, st_reason = REVOKED_STATUS_KEY_COMPROMISE,
        st_revocation_time = None, st_this_update = CPtr 1, st_next_update = CPtr 2\<rparr>), ())
   \<and> REVOKED_STATUS_KEY_COMPROMISE \<noteq> REVOKED_STATUS_SUPERSEDED"
  using find_status_loses_reason [of ocsp_demo "CPtr 8" "CPtr 9" "()" "CInt 1" 1 4 CNull "CPtr 1" "CPtr 2" "()"]
  by (simp add: ocsp_demo_def CERT_STATUS_REVOKED_def REVOKED_STATUS_KEY_COMPROMISE_def REVOKED_STATUS_SUPERSEDED_def)

text \<open>
  \<open>X509_STORE_add_cert\<close> counts a reference of its own, and the reference the caller handed over is
  forgotten: one reference has no owner any more, so the certificate is never freed.
\<close>

lemma add_cert_leaks_reference:
  assumes "\<And>w r os w'. F ''X509_STORE_add_cert'' [b, cert] w = ((r, os), w') \<Longrightarrow> 0 < c_int r \<Longrightarrow>
      refs w' = (refs w)(cert := refs w cert + (1 :: nat))"
    and "X509StoreBuilder_add_cert F b cert w = (Ok (), w')"
  shows "refs w' = (refs w)(cert := refs w cert + 1)"
  using assms(2)
  by (auto simp: X509StoreBuilder_add_cert_def call_i_def and_then_Ok_iff ccall_def cvt_def split: prod.splits if_splits
      dest: assms(1))

text \<open>An archive without a key gives a \<open>PKey\<close> around the null pointer.\<close>

lemma parse_accepts_missing_key:
  assumes "F ''PKCS12_parse'' [p12, CStr pass] w = ((CInt 1, [CNull, cert, CPtr c]), w')" "\<not> has_nul pass"
  shows "Pkcs12_parse F p12 pass w = (Ok \<lparr>pp_pkey = CNull, pp_cert = cert, pp_chain = CPtr c\<rparr>, w')"
  using assms
  by (simp add: Pkcs12_parse_def c_string_def cstring_new_def and_then_def ccall_def cvt_def out_def Let_def owning_def
      Stack_from_ptr_def)

text \<open>Setting the iterations of the key leaves those of the MAC at the default.\<close>

lemma mac_iter_ignores_key_iter:
  "\<exists>w' b. Pkcs12_builder F w = (Ok b, w') \<and> pb_mac_iter (key_iter n b) = 2048"
  by (simp add: Pkcs12_builder_def key_iter_def init_def and_then_def ccall_def split_beta PKCS12_DEFAULT_ITER_def)

end
