(* ===== verification/Ossl_Asn1.thy ===== *)
theory Ossl_Asn1
  imports Ossl_Containers Ossl_Hash
begin

text \<open>
  The rest of the ASN.1 types (\<open>openssl/src/asn1.rs\<close>) and of the certificate wrappers
  (\<open>openssl/src/x509/mod.rs\<close>): what can be read from a certificate, verification errors, and the loop
  that reads a chain of certificates from one PEM text.
\<close>

subsection \<open>Times, strings, integers, objects\<close>

text \<open>\<open>Display\<close> has one error, \<open>fmt::Error\<close>; the error stack is dropped for it.\<close>

definition fmt_err :: "('w, error_stack, 'a) eff \<Rightarrow> ('w, unit, 'a) eff" where
  "fmt_err m = on_err m (\<lambda>_. throw ())"

definition Asn1GeneralizedTime_display :: "'w ffi \<Rightarrow> cval \<Rightarrow> ('w, unit, byte list) eff" where
  "Asn1GeneralizedTime_display F t =
     and_then (fmt_err (MemBio_new F)) (\<lambda>mem_bio.
     dropping (bio_drop F mem_bio) (
     and_then (fmt_err (call_i F ''ASN1_GENERALIZEDTIME_print'' [mem_bio, t])) (\<lambda>_. MemBio_get_buf F mem_bio)))"

definition Asn1Time_display :: "'w ffi \<Rightarrow> cval \<Rightarrow> ('w, unit, byte list) eff" where
  "Asn1Time_display F t =
     and_then (fmt_err (MemBio_new F)) (\<lambda>mem_bio.
     dropping (bio_drop F mem_bio) (
     and_then (fmt_err (call_i F ''ASN1_TIME_print'' [mem_bio, t])) (\<lambda>_. MemBio_get_buf F mem_bio)))"

definition Asn1String_len :: "'w ffi \<Rightarrow> cval \<Rightarrow> ('w, 'e, nat) eff" where
  "Asn1String_len F s = and_then (ccall F ''ASN1_STRING_length'' [s]) (\<lambda>(r, _). ret (usize_of_c_int (c_int r)))"

definition Asn1String_as_slice :: "'w ffi \<Rightarrow> cval \<Rightarrow> ('w, 'e, byte list) eff" where
  "Asn1String_as_slice F s =
     and_then (ccall F ''ASN1_STRING_get0_data'' [s]) (\<lambda>(d, _).
     and_then (Asn1String_len F s) (\<lambda>n.
       if n \<le> length (c_bytes d) then ret (take n (c_bytes d)) else diverge))"

definition Asn1BitString_len :: "'w ffi \<Rightarrow> cval \<Rightarrow> ('w, 'e, nat) eff" where
  "Asn1BitString_len F s = and_then (ccall F ''ASN1_STRING_length'' [s]) (\<lambda>(r, _). ret (usize_of_c_int (c_int r)))"

definition Asn1BitString_as_slice :: "'w ffi \<Rightarrow> cval \<Rightarrow> ('w, 'e, byte list) eff" where
  "Asn1BitString_as_slice F s =
     and_then (ccall F ''ASN1_STRING_get0_data'' [s]) (\<lambda>(d, _).
     and_then (Asn1BitString_len F s) (\<lambda>n.
       if n \<le> length (c_bytes d) then ret (take n (c_bytes d)) else diverge))"

definition Asn1Integer_get :: "'w ffi \<Rightarrow> cval \<Rightarrow> ('w, 'e, int) eff" where
  "Asn1Integer_get F i = and_then (ccall F ''ASN1_INTEGER_get'' [i]) (\<lambda>(r, _). ret (c_int r))"

definition Asn1Integer_set :: "'w ffi \<Rightarrow> cval \<Rightarrow> i32 \<Rightarrow> ('w, error_stack, unit) eff" where
  "Asn1Integer_set F i val = call_i F ''ASN1_INTEGER_set'' [i, CInt (sint val)]"

definition Asn1Object_nid :: "'w ffi \<Rightarrow> cval \<Rightarrow> ('w, 'e, nid) eff" where
  "Asn1Object_nid F obj = and_then (ccall F ''OBJ_obj2nid'' [obj]) (\<lambda>(r, _). ret (c_int r))"

text \<open>The slice \<open>buf[..len]\<close> panics when the length C reports is more than the buffer.\<close>

definition Asn1Object_display :: "'w ffi \<Rightarrow> cval \<Rightarrow> ('w, unit, byte list) eff" where
  "Asn1Object_display F obj =
     (let buf = replicate 80 0 in
      and_then (ccall F ''OBJ_obj2txt'' [CBytes buf, CInt (int (length buf)), obj, CInt 0]) (\<lambda>(r, os).
      and_then (store_out os 0 buf) (\<lambda>buf.
      let len = usize_of_c_int (c_int r) in
      if length buf < len then panic
      else if utf8_ok (map unat (take len buf)) then ret (take len buf) else throw ())))"

subsection \<open>Verification errors\<close>

datatype X509VerifyError = X509VerifyError (X509VerifyError_as_raw: int)

definition X509_V_OK :: int where "X509_V_OK = 0"

definition X509VerifyError_from_raw :: "int \<Rightarrow> X509VerifyError option" where
  "X509VerifyError_from_raw err = (if err = X509_V_OK then None else Some (X509VerifyError err))"

definition X509VerifyError_error_string :: "'w ffi \<Rightarrow> X509VerifyError \<Rightarrow> ('w, 'e, string) eff" where
  "X509VerifyError_error_string F e =
     and_then (init F) (\<lambda>_. call_text F ''X509_verify_cert_error_string'' [CInt (X509VerifyError_as_raw e)])"

definition X509VerifyError_display :: "'w ffi \<Rightarrow> X509VerifyError \<Rightarrow> ('w, 'e, string) eff" where
  "X509VerifyError_display F e = X509VerifyError_error_string F e"

definition X509VerifyError_description :: "X509VerifyError \<Rightarrow> string" where
  "X509VerifyError_description e = ''an X509 validation error''"

definition X509StoreContext_error :: "'w ffi \<Rightarrow> cval \<Rightarrow> ('w, 'e, X509VerifyError option) eff" where
  "X509StoreContext_error F ctx =
     and_then (ccall F ''X509_STORE_CTX_get_error'' [ctx]) (\<lambda>(r, _). ret (X509VerifyError_from_raw (c_int r)))"

definition X509StoreContext_chain :: "'w ffi \<Rightarrow> cval \<Rightarrow> ('w, 'e, cval option) eff" where
  "X509StoreContext_chain F ctx = call_opt F ''X509_STORE_CTX_get0_chain'' [ctx]"

definition X509StoreContext_ssl :: "'w ffi \<Rightarrow> cval \<Rightarrow> ('w, error_stack, cval option) eff" where
  "X509StoreContext_ssl F ctx =
     and_then (ccall F ''SSL_get_ex_data_X509_STORE_CTX_idx'' []) (\<lambda>(r, _).
     and_then (cvt_n F r) (\<lambda>idx. call_opt F ''X509_STORE_CTX_get_ex_data'' [ctx, CInt idx]))"

subsection \<open>Certificates\<close>

definition X509_subject_name :: "'w ffi \<Rightarrow> cval \<Rightarrow> ('w, 'e, cval) eff" where
  "X509_subject_name F x = and_then (ccall F ''X509_get_subject_name'' [x]) (\<lambda>(n, _). ret n)"

definition X509_subject_alt_names :: "'w ffi \<Rightarrow> cval \<Rightarrow> ('w, 'e, cval option) eff" where
  "X509_subject_alt_names F x = call_opt F ''X509_get_ext_d2i'' [x, CInt SUBJECT_ALT_NAME, CNull, CNull]"

definition X509_public_key :: "'w ffi \<Rightarrow> cval \<Rightarrow> ('w, error_stack, cval) eff" where
  "X509_public_key F x = call_p F ''X509_get_pubkey'' [x]"

definition X509_fingerprint :: "'w ffi \<Rightarrow> cval \<Rightarrow> cval \<Rightarrow> ('w, error_stack, byte list) eff" where
  "X509_fingerprint F x md =
     (let len = EVP_MAX_MD_SIZE; buf = replicate len 0 in
      and_then (ccall F ''X509_digest'' [x, md, CBytes buf, CInt (int len)]) (\<lambda>(r, os).
      and_then (cvt F r) (\<lambda>_.
      and_then (store_out os 0 buf) (\<lambda>buf. ret (take (nat (c_int (out os 1))) buf)))))"

definition X509_not_after :: "'w ffi \<Rightarrow> cval \<Rightarrow> ('w, 'e, cval) eff" where
  "X509_not_after F x =
     and_then (ccall F ''X509_getm_notAfter'' [x]) (\<lambda>(date, _).
     and_then (assert_that (date \<noteq> CNull)) (\<lambda>_. ret date))"

definition X509_not_before :: "'w ffi \<Rightarrow> cval \<Rightarrow> ('w, 'e, cval) eff" where
  "X509_not_before F x =
     and_then (ccall F ''X509_getm_notBefore'' [x]) (\<lambda>(date, _).
     and_then (assert_that (date \<noteq> CNull)) (\<lambda>_. ret date))"

text \<open>The two out-values are the signature and the algorithm.\<close>

definition X509_signature :: "'w ffi \<Rightarrow> cval \<Rightarrow> ('w, 'e, cval) eff" where
  "X509_signature F x =
     and_then (ccall F ''X509_get0_signature'' [x]) (\<lambda>(_, os).
     and_then (assert_that (out os 0 \<noteq> CNull)) (\<lambda>_. ret (out os 0)))"

definition X509_signature_algorithm :: "'w ffi \<Rightarrow> cval \<Rightarrow> ('w, 'e, cval) eff" where
  "X509_signature_algorithm F x =
     and_then (ccall F ''X509_get0_signature'' [x]) (\<lambda>(_, os).
     and_then (assert_that (out os 1 \<noteq> CNull)) (\<lambda>_. ret (out os 1)))"

definition X509_ocsp_responders :: "'w ffi \<Rightarrow> cval \<Rightarrow> ('w, error_stack, cval) eff" where
  "X509_ocsp_responders F x = and_then (call_p F ''X509_get1_ocsp'' [x]) Stack_from_ptr"

definition X509_issued :: "'w ffi \<Rightarrow> cval \<Rightarrow> cval \<Rightarrow> ('w, X509VerifyError, unit) eff" where
  "X509_issued F x subject =
     and_then (ccall F ''X509_check_issued'' [x, subject]) (\<lambda>(r, _).
       case X509VerifyError_from_raw (c_int r) of Some e \<Rightarrow> throw e | None \<Rightarrow> ret ())"

definition X509_to_der :: "'w ffi \<Rightarrow> cval \<Rightarrow> ('w, error_stack, byte list) eff" where
  "X509_to_der F = to_der_inner F ''i2d_X509''"

definition X509_from_pem :: "'w ffi \<Rightarrow> byte list \<Rightarrow> ('w, error_stack, cval) eff" where
  "X509_from_pem F = from_pem_inner F ''PEM_read_bio_X509''"

definition X509_from_der :: "'w ffi \<Rightarrow> byte list \<Rightarrow> ('w, error_stack, cval) eff" where
  "X509_from_der F = from_der_inner F ''d2i_X509''"

definition X509_clone :: "'w ffi \<Rightarrow> cval \<Rightarrow> ('w, 'e, cval) eff" where
  "X509_clone F x = and_then (call_v F ''X509_up_ref'' [x]) (\<lambda>_. ret x)"

definition X509Algorithm_object :: "'w ffi \<Rightarrow> cval \<Rightarrow> ('w, 'e, cval) eff" where
  "X509Algorithm_object F alg =
     and_then (ccall F ''X509_ALGOR_get0'' [alg]) (\<lambda>(_, os).
     and_then (assert_that (out os 0 \<noteq> CNull)) (\<lambda>_. ret (out os 0)))"

definition X509Name_load_client_ca_file :: "'w ffi \<Rightarrow> string \<Rightarrow> ('w, error_stack, cval) eff" where
  "X509Name_load_client_ca_file F path =
     and_then (c_path path) (\<lambda>p. and_then (call_p F ''SSL_load_client_CA_file'' [p]) Stack_from_ptr)"

definition X509ReqBuilder_set_version :: "'w ffi \<Rightarrow> cval \<Rightarrow> i32 \<Rightarrow> ('w, error_stack, unit) eff" where
  "X509ReqBuilder_set_version F b version = call_i F ''X509_REQ_set_version'' [b, CInt (sint version)]"

definition X509ReqBuilder_x509v3_context :: "'w ffi \<Rightarrow> cval \<Rightarrow> cval option \<Rightarrow> ('w, 'e, cval) eff" where
  "X509ReqBuilder_x509v3_context F b conf =
     and_then (ccall F ''X509V3_set_ctx'' [CNull, CNull, b, CNull, CInt 0]) (\<lambda>(_, os).
     let ctx = out os 0 in
     case conf of
       None \<Rightarrow> ret ctx
     | Some c \<Rightarrow> and_then (ccall F ''X509V3_set_nconf'' [ctx, c]) (\<lambda>(_, os'). ret (out os' 0)))"

definition X509ReqBuilder_add_extensions :: "'w ffi \<Rightarrow> cval \<Rightarrow> cval \<Rightarrow> ('w, error_stack, unit) eff" where
  "X509ReqBuilder_add_extensions F b exts = call_i F ''X509_REQ_add_extensions'' [b, exts]"

definition X509Req_from_der :: "'w ffi \<Rightarrow> byte list \<Rightarrow> ('w, error_stack, cval) eff" where
  "X509Req_from_der F = from_der_inner F ''d2i_X509_REQ''"

definition X509Req_to_der :: "'w ffi \<Rightarrow> cval \<Rightarrow> ('w, error_stack, byte list) eff" where
  "X509Req_to_der F = to_der_inner F ''i2d_X509_REQ''"

definition X509Req_version :: "'w ffi \<Rightarrow> cval \<Rightarrow> ('w, 'e, int) eff" where
  "X509Req_version F req = and_then (ccall F ''X509_REQ_get_version'' [req]) (\<lambda>(r, _). ret (as_c_int (c_int r)))"

subsection \<open>A chain in one PEM text\<close>

definition ERR_LIB_PEM :: nat where "ERR_LIB_PEM = 9"
definition PEM_R_NO_START_LINE :: nat where "PEM_R_NO_START_LINE = 108"

definition drop_all :: "'w ffi \<Rightarrow> cval list \<Rightarrow> ('w, 'e, unit) eff" where
  "drop_all F certs = for_each (X509_drop F) certs"

text \<open>
  Nothing bounds the loop, so it is a partial function. It ends well when the last error in the queue
  is the one OpenSSL leaves at the end of the text; on any other the certificates read so far are
  dropped.
\<close>

partial_function (option) pem_loop ::
  "'w ffi \<Rightarrow> cval \<Rightarrow> cval list \<Rightarrow> 'w \<Rightarrow> ((error_stack, cval list) outcome \<times> 'w) option" where
  "pem_loop F bio certs w =
     (let w1 = snd (F ''PEM_read_bio_X509'' [bio, CNull, CNull, CNull] w);
          r = fst (fst (F ''PEM_read_bio_X509'' [bio, CNull, CNull, CNull] w)) in
      if r \<noteq> CNull then pem_loop F bio (certs @ [r]) w1
      else
        let w2 = snd (F ''ERR_peek_last_error'' [] w1);
            err = word_of_int (c_int (fst (fst (F ''ERR_peek_last_error'' [] w1)))) in
        if ERR_GET_LIB err = ERR_LIB_PEM \<and> ERR_GET_REASON err = PEM_R_NO_START_LINE
        then Some (Ok certs, snd (F ''ERR_clear_error'' [] w2))
        else Some (owning (drop_all F certs) (and_then (ErrorStack_get F) throw) w2))"

definition X509_stack_from_pem :: "'w ffi \<Rightarrow> byte list \<Rightarrow> ('w, error_stack, cval list) eff" where
  "X509_stack_from_pem F pem =
     and_then (init F) (\<lambda>_.
     and_then (MemBioSlice_new F pem) (\<lambda>bio.
     dropping (bio_drop F bio) (\<lambda>w. case pem_loop F bio [] w of None \<Rightarrow> (Diverge, w) | Some r \<Rightarrow> r)))"

subsection \<open>What the loop reads\<close>

text \<open>
  The reader of certificates, against the heap of certificates (\<open>V\<close>), the error queue (\<open>q\<close>) and what
  is left to read from a BIO (\<open>rest\<close>): some certificates, then the error the reader leaves. Reading a
  certificate allocates it and touches no error; at the end the reader adds its error to the queue.
\<close>

definition err_code_of :: "err_entry \<Rightarrow> u64" where
  "err_code_of en = word_of_int (fst en)"

definition at_end :: "err_entry \<Rightarrow> bool" where
  "at_end en \<longleftrightarrow> ERR_GET_LIB (err_code_of en) = ERR_LIB_PEM \<and> ERR_GET_REASON (err_code_of en) = PEM_R_NO_START_LINE"

definition pem_read_law ::
  "'w ffi \<Rightarrow> ('w \<Rightarrow> cval \<Rightarrow> 'x option) \<Rightarrow> ('w \<Rightarrow> err_entry list) \<Rightarrow> (cval \<Rightarrow> 'w \<Rightarrow> 'x list \<times> err_entry) \<Rightarrow> bool" where
  "pem_read_law F V q rest \<longleftrightarrow>
     (\<forall>bio w. let ((p, os), w') = F ''PEM_read_bio_X509'' [bio, CNull, CNull, CNull] w in
        case rest bio w of
          (x # xs, en) \<Rightarrow> p \<noteq> CNull \<and> V w p = None \<and> V w' = (V w)(p \<mapsto> x) \<and> q w' = q w \<and> rest bio w' = (xs, en)
        | ([], en) \<Rightarrow> p = CNull \<and> V w' = V w \<and> q w' = q w @ [en])"

definition pem_queue_law :: "'w ffi \<Rightarrow> ('w \<Rightarrow> cval \<Rightarrow> 'x option) \<Rightarrow> ('w \<Rightarrow> err_entry list) \<Rightarrow> bool" where
  "pem_queue_law F V q \<longleftrightarrow> err_queue_law F q \<and>
     (\<forall>w. V (snd (F ''ERR_get_error_line_data'' [] w)) = V w) \<and>
     (\<forall>w. let ((r, os), w') = F ''ERR_peek_last_error'' [] w in
        (q w \<noteq> [] \<longrightarrow> c_int r = fst (last (q w))) \<and> V w' = V w \<and> q w' = q w) \<and>
     (\<forall>w. let w' = snd (F ''ERR_clear_error'' [] w) in V w' = V w \<and> q w' = [])"

definition pem_life_law ::
  "'w ffi \<Rightarrow> ('w \<Rightarrow> cval \<Rightarrow> 'x option) \<Rightarrow> ('w \<Rightarrow> err_entry list) \<Rightarrow> (cval \<Rightarrow> 'w \<Rightarrow> 'x list \<times> err_entry) \<Rightarrow>
   (byte list \<Rightarrow> 'x list \<times> err_entry) \<Rightarrow> bool" where
  "pem_life_law F V q rest parse \<longleftrightarrow>
     (\<forall>w. V (snd (F ''init'' [] w)) = V w \<and> q (snd (F ''init'' [] w)) = q w) \<and>
     (\<forall>buf n w. let ((bio, os), w') = F ''BIO_new_mem_buf'' [CBytes buf, n] w in
        bio \<noteq> CNull \<and> V w' = V w \<and> q w' = q w \<and> rest bio w' = parse buf) \<and>
     (\<forall>bio w. let w' = snd (F ''BIO_free_all'' [bio] w) in V w' = V w \<and> q w' = q w) \<and>
     (\<forall>p w. let w' = snd (F ''X509_free'' [p] w) in V w' = (V w)(p := None) \<and> q w' = q w)"

lemma pem_read_end:
  assumes "pem_read_law F V q rest" "rest bio w = ([], en)"
  obtains os w1 where "F ''PEM_read_bio_X509'' [bio, CNull, CNull, CNull] w = ((CNull, os), w1)"
    "V w1 = V w" "q w1 = q w @ [en]"
  using assms(1) [unfolded pem_read_law_def, rule_format, of bio w] assms(2) that
  by (auto simp: Let_def split: prod.splits)

lemma pem_read_cert:
  assumes "pem_read_law F V q rest" "rest bio w = (x # xs, en)"
  obtains p os w1 where "F ''PEM_read_bio_X509'' [bio, CNull, CNull, CNull] w = ((p, os), w1)" "p \<noteq> CNull"
    "V w p = None" "V w1 = (V w)(p \<mapsto> x)" "q w1 = q w" "rest bio w1 = (xs, en)"
  using assms(1) [unfolded pem_read_law_def, rule_format, of bio w] assms(2) that
  by (auto simp: Let_def split: prod.splits)

lemma pem_peek:
  assumes "pem_queue_law F V q" "q w = es @ [en]"
  obtains r os w1 where "F ''ERR_peek_last_error'' [] w = ((r, os), w1)" "c_int r = fst en" "V w1 = V w" "q w1 = q w"
proof -
  obtain r os w1 where run: "F ''ERR_peek_last_error'' [] w = ((r, os), w1)" by (metis prod.exhaust)
  have "let ((r, os), w') = F ''ERR_peek_last_error'' [] w in
      (q w \<noteq> [] \<longrightarrow> c_int r = fst (last (q w))) \<and> V w' = V w \<and> q w' = q w"
    using assms(1) unfolding pem_queue_law_def by blast
  with run assms(2) show ?thesis by (intro that [OF run]) (simp_all add: Let_def)
qed

lemma pem_clear:
  assumes "pem_queue_law F V q"
  shows "V (snd (F ''ERR_clear_error'' [] w)) = V w" "q (snd (F ''ERR_clear_error'' [] w)) = []"
  using assms by (auto simp: pem_queue_law_def Let_def)

text \<open>Taking the errors out keeps the certificates, and dropping certificates keeps the queue.\<close>

lemma ErrorStack_get_V:
  fixes F :: "'w ffi" and V :: "'w \<Rightarrow> cval \<Rightarrow> 'x option"
  assumes "pem_queue_law F V q" "pem_life_law F V q rest parse"
  shows "keeps (\<lambda>w. V w = v) (ErrorStack_get F)"
proof (rule Error_get_ErrorStack_get)
  have call: "keeps (\<lambda>w. V w = v) (ccall F f [] :: ('w, error_stack, cret) eff)"
    if "f \<in> {''init'', ''ERR_get_error_line_data''}" for f
    using assms that
    by (intro keepsI) (auto simp: ccall_def case_prod_beta pem_queue_law_def pem_life_law_def Let_def)
  then show "keeps (\<lambda>w. V w = v) (Error_get F)"
    unfolding Error_get_def Let_def
    by (intro keeps_and_then) (auto simp: case_prod_beta intro!: keeps_intros split: option.split)
qed

lemma drop_all_run:
  fixes F :: "'w ffi"
  assumes "pem_life_law F V q rest parse"
  shows "\<exists>w'. (drop_all F ps :: ('w, 'e, unit) eff) w = (Ok (), w') \<and> V w' = (\<lambda>c. if c \<in> set ps then None else V w c) \<and> q w' = q w"
proof (induction ps arbitrary: w)
  case Nil
  then show ?case by (simp add: drop_all_def)
next
  case (Cons p ps)
  obtain r w1 where run: "F ''X509_free'' [p] w = (r, w1)" by fastforce
  have "V (snd (F ''X509_free'' [p] w)) = (V w)(p := None) \<and> q (snd (F ''X509_free'' [p] w)) = q w"
    using assms unfolding pem_life_law_def Let_def by blast
  with run have w1: "V w1 = (V w)(p := None)" "q w1 = q w" by simp_all
  from Cons.IH [of w1] obtain w' where
    "(drop_all F ps :: ('w, 'e, unit) eff) w1 = (Ok (), w')" "V w' = (\<lambda>c. if c \<in> set ps then None else V w1 c)" "q w' = q w1" by blast
  with w1 run show ?case
    by (auto simp: drop_all_def X509_drop_def call_v_def ccall_def and_then_def fun_eq_iff)
qed

text \<open>The reading phase: one object for each certificate of the text, in its order.\<close>

definition holds_all :: "(cval \<Rightarrow> 'x option) \<Rightarrow> cval list \<Rightarrow> 'x list \<Rightarrow> (cval \<Rightarrow> 'x option) \<Rightarrow> bool" where
  "holds_all v ps xs v' \<longleftrightarrow>
     map v' ps = map Some xs \<and> distinct ps \<and> (\<forall>p \<in> set ps. v p = None) \<and> (\<forall>c. c \<notin> set ps \<longrightarrow> v' c = v c)"

lemma holds_all_Cons:
  assumes "v p = None" "holds_all (v(p \<mapsto> x)) ps xs v'"
  shows "holds_all v (p # ps) (x # xs) v'"
  using assms by (auto simp: holds_all_def split: if_splits)

lemma pem_loop_reads:
  assumes law: "pem_read_law F V q rest" and "rest bio w = (xs, en)"
  shows "\<exists>ps w1. pem_loop F bio certs w = pem_loop F bio (certs @ ps) w1 \<and> rest bio w1 = ([], en) \<and>
     q w1 = q w \<and> holds_all (V w) ps xs (V w1)"
  using assms(2)
proof (induction xs arbitrary: certs w)
  case Nil
  then show ?case by (intro exI [of _ "[]"] exI [of _ w]) (simp add: holds_all_def)
next
  case (Cons x xs)
  from pem_read_cert [OF law Cons.prems] obtain p os w1 where
    read: "F ''PEM_read_bio_X509'' [bio, CNull, CNull, CNull] w = ((p, os), w1)" "p \<noteq> CNull" and
    w1: "V w p = None" "V w1 = (V w)(p \<mapsto> x)" "q w1 = q w" "rest bio w1 = (xs, en)" .
  from Cons.IH [OF w1(4), of "certs @ [p]"] obtain ps w2 where
    "pem_loop F bio (certs @ [p]) w1 = pem_loop F bio (certs @ p # ps) w2" "rest bio w2 = ([], en)" "q w2 = q w1"
    "holds_all (V w1) ps xs (V w2)" by auto
  moreover have "pem_loop F bio certs w = pem_loop F bio (certs @ [p]) w1"
    using read by (subst pem_loop.simps) simp
  ultimately show ?case
    using w1 holds_all_Cons [of "V w" p x ps xs "V w2"]
    by (intro exI [of _ "p # ps"] exI [of _ w2]) simp
qed

lemma pem_loop_ends:
  assumes "pem_read_law F V q rest" "pem_queue_law F V q" "rest bio w = ([], en)" "at_end en"
  shows "\<exists>w'. pem_loop F bio certs w = Some (Ok certs, w') \<and> V w' = V w \<and> q w' = []"
proof -
  from pem_read_end [OF assms(1,3)] obtain os w1 where
    read: "F ''PEM_read_bio_X509'' [bio, CNull, CNull, CNull] w = ((CNull, os), w1)" "V w1 = V w" "q w1 = q w @ [en]" .
  from pem_peek [OF assms(2) this(3)] obtain r os' w2 where
    peek: "F ''ERR_peek_last_error'' [] w1 = ((r, os'), w2)" "c_int r = fst en" "V w2 = V w1" .
  show ?thesis
    using assms(4) read peek pem_clear [OF assms(2), of w2]
    by (subst pem_loop.simps) (simp add: at_end_def err_code_of_def)
qed

lemma pem_loop_fails:
  assumes laws: "pem_read_law F V q rest" "pem_queue_law F V q" "pem_life_law F V q rest parse"
    and "rest bio w = ([], en)" "\<not> at_end en" "\<forall>e \<in> set (q w @ [en]). entry_error e \<noteq> None"
  shows "\<exists>w'. pem_loop F bio certs w = Some (Err (map (the \<circ> entry_error) (q w @ [en])), w') \<and>
     V w' = (\<lambda>c. if c \<in> set certs then None else V w c) \<and> q w' = []"
proof -
  from pem_read_end [OF laws(1) assms(4)] obtain os w1 where
    read: "F ''PEM_read_bio_X509'' [bio, CNull, CNull, CNull] w = ((CNull, os), w1)" "V w1 = V w" "q w1 = q w @ [en]" .
  from pem_peek [OF laws(2) this(3)] obtain r os' w2 where
    peek: "F ''ERR_peek_last_error'' [] w1 = ((r, os'), w2)" "c_int r = fst en" "V w2 = V w1" "q w2 = q w1" .
  have "err_queue_law F q" using laws(2) by (simp add: pem_queue_law_def)
  from drain_all [OF this, of w2 "[]"] assms(6) peek read obtain w3 where
    get: "ErrorStack_get F w2 = (Ok (map (the \<circ> entry_error) (q w @ [en])), w3)" "q w3 = []"
    by (auto simp: ErrorStack_get_def)
  have "V w3 = V w" using keepsD [OF ErrorStack_get_V [OF laws(2,3)], of w2 "V w"] get peek read by simp
  moreover obtain w4 where "(drop_all F certs :: ('a, error_stack, unit) eff) w3 = (Ok (), w4)"
    "V w4 = (\<lambda>c. if c \<in> set certs then None else V w3 c)" "q w4 = q w3"
    using drop_all_run [OF laws(3)] by blast
  ultimately show ?thesis
    using assms(5) read peek get
    by (subst pem_loop.simps) (auto simp: at_end_def err_code_of_def owning_def and_then_def Let_def)
qed

lemma stack_from_pem_opens:
  fixes F :: "'w ffi"
  assumes "pem_life_law F V q rest parse" "length pem \<le> c_int_max"
  obtains bio w1 where "V w1 = V w" "q w1 = q w" "rest bio w1 = parse pem"
    "X509_stack_from_pem F pem w =
     dropping (bio_drop F bio) (\<lambda>w. case pem_loop F bio [] w of None \<Rightarrow> (Diverge, w) | Some r \<Rightarrow> r) w1"
proof -
  define wi where "wi = snd (F ''init'' [] (snd (F ''init'' [] w)))"
  obtain bio os w1 where run: "F ''BIO_new_mem_buf'' [CBytes pem, CInt (int (length pem))] wi = ((bio, os), w1)"
    by (metis prod.exhaust)
  have "let ((bio, os), w') = F ''BIO_new_mem_buf'' [CBytes pem, CInt (int (length pem))] wi in
      bio \<noteq> CNull \<and> V w' = V wi \<and> q w' = q wi \<and> rest bio w' = parse pem"
    using assms(1) unfolding pem_life_law_def by blast
  moreover have "V wi = V w" "q wi = q w" using assms(1) by (simp_all add: pem_life_law_def wi_def)
  ultimately show ?thesis
    using run assms(2)
    by (intro that [of w1 bio])
      (simp_all add: X509_stack_from_pem_def init_def MemBioSlice_new_def call_p_def ccall_def and_then_def
        cvt_p_def case_prod_beta wi_def)
qed

lemma bio_drop_run:
  fixes F :: "'w ffi"
  assumes "pem_life_law F V q rest parse"
  shows "\<exists>w'. (bio_drop F bio :: ('w, 'e, unit) eff) w = (Ok (), w') \<and> V w' = V w \<and> q w' = q w"
  using assms
  by (simp add: pem_life_law_def bio_drop_def call_v_def ccall_def and_then_def case_prod_beta Let_def)


text \<open>
  A library whose texts have one byte for each certificate, and a zero for a broken one: its state is
  the store of certificates, the bytes to read and the error queue.
\<close>

type_synonym pem_demo_state = "(nat \<times> byte) list \<times> byte list \<times> nat list"

definition PEM_END :: nat where "PEM_END = 0x0906D06C"
definition PEM_BAD :: nat where "PEM_BAD = 0x0906D066"

definition pem_demo_parse :: "byte list \<Rightarrow> byte list \<times> err_entry" where
  "pem_demo_parse bs =
     (takeWhile (\<lambda>b. b \<noteq> 0) bs,
      (int (if 0 \<in> set bs then PEM_BAD else PEM_END), []))"

definition pem_demo :: "pem_demo_state ffi" where
  "pem_demo f args w = (case w of (h, todo, q) \<Rightarrow>
     if f = ''PEM_read_bio_X509'' then
       (case todo of
          [] \<Rightarrow> ((CNull, []), (h, todo, q @ [PEM_END - 1]))
        | b # bs \<Rightarrow> if b = 0 then ((CNull, []), (h, todo, q @ [PEM_BAD - 1]))
                   else ((CPtr (al_fresh h), []), ((al_fresh h, b) # h, bs, q)))
     else if f = ''X509_free'' then
       (case args of [CPtr n] \<Rightarrow> ((CNull, []), (filter (\<lambda>(k, _). k \<noteq> n) h, todo, q)) | _ \<Rightarrow> ((CNull, []), w))
     else if f = ''BIO_new_mem_buf'' then
       (case args of [CBytes bs, _] \<Rightarrow> ((CPtr 0, []), (h, bs, q)) | _ \<Rightarrow> ((CNull, []), w))
     else if f = ''ERR_get_error_line_data'' then
       (case q of [] \<Rightarrow> ((CInt 0, []), w) | c # cs \<Rightarrow> ((CInt (int c + 1), []), (h, todo, cs)))
     else if f = ''ERR_peek_last_error'' then ((CInt (if q = [] then 0 else int (last q) + 1), []), w)
     else if f = ''ERR_clear_error'' then ((CNull, []), (h, todo, []))
     else ((CNull, []), w))"

definition pd_q :: "pem_demo_state \<Rightarrow> err_entry list" where
  "pd_q w = map (\<lambda>c. (int c + 1, [])) (snd (snd w))"

definition pd_rest :: "cval \<Rightarrow> pem_demo_state \<Rightarrow> byte list \<times> err_entry" where
  "pd_rest bio w = pem_demo_parse (fst (snd w))"

lemma pem_demo_laws:
  "pem_read_law pem_demo (al_heap \<circ> fst) pd_q pd_rest"
  "pem_queue_law pem_demo (al_heap \<circ> fst) pd_q"
  "pem_life_law pem_demo (al_heap \<circ> fst) pd_q pd_rest pem_demo_parse"
proof -
  show "pem_read_law pem_demo (al_heap \<circ> fst) pd_q pd_rest"
    by (auto simp: pem_read_law_def pem_demo_def pd_q_def pd_rest_def pem_demo_parse_def al_heap_Cons
        al_fresh_None [simplified] PEM_END_def PEM_BAD_def split: list.split)
  show "pem_queue_law pem_demo (al_heap \<circ> fst) pd_q"
    by (auto simp: pem_queue_law_def err_queue_law_def pem_demo_def pd_q_def last_map split: list.split)
  have free: "al_heap h = (al_heap h)(c := None)" if "\<And>n. c \<noteq> CPtr n" for h :: "(nat \<times> byte) list" and c
    using that by (cases c) auto
  show "pem_life_law pem_demo (al_heap \<circ> fst) pd_q pd_rest pem_demo_parse"
    by (auto simp: pem_life_law_def pem_demo_def pd_q_def pd_rest_def al_heap_filter split: cval.split intro: free)
qed


subsection \<open>Long object identifiers\<close>

text \<open>
  \<open>OBJ_obj2txt\<close> truncates to the buffer but returns the length of the whole text: an object whose
  text does not fit the eighty bytes makes \<open>Display\<close> panic instead of printing.
\<close>

lemma object_display_panics:
  assumes "F ''OBJ_obj2txt'' [CBytes (replicate 80 0), CInt 80, obj, CInt 0] w = ((CInt (int (length text)), [CBytes (take 79 text)]), w')"
    "80 < length text" "length text \<le> c_int_max"
  shows "Asn1Object_display F obj w = (Panic, w')"
  using assms
  by (simp add: Asn1Object_display_def ccall_def and_then_def store_out_def out_def overwrite_def
      Let_def)

end
