(* ===== verification/Ossl_Nid.thy ===== *)
theory Ossl_Nid
  imports Ossl_X509 "HOL-Library.Multiset"
begin

text \<open>
  The numeric identifiers of objects: the constants \<open>NID_*\<close> of \<open>openssl-sys/src/lib.rs\<close>, as tables from
  the name without its prefix to the number, and the constants of \<open>openssl/src/nid.rs\<close>, as tables from
  the name of the constant to that of the C constant it is defined by. \<open>nid\<close> looks a name up through
  both, as the compiler does.
\<close>

subsection \<open>The C constants\<close>

definition NID_1 :: "(string \<times> int) list" where
  "NID_1 =
   [
    (''undef'', 0), (''itu_t'', 645), (''ccitt'', 404), (''iso'', 181), (''joint_iso_itu_t'', 646),
    (''joint_iso_ccitt'', 393), (''member_body'', 182), (''identified_organization'', 676), (''hmac_md5'', 780),
    (''hmac_sha1'', 781), (''certicom_arc'', 677), (''international_organizations'', 647), (''wap'', 678),
    (''wap_wsg'', 679), (''selected_attribute_types'', 394), (''clearance'', 395), (''ISO_US'', 183),
    (''X9_57'', 184), (''X9cm'', 185), (''dsa'', 116), (''dsaWithSHA1'', 113), (''ansi_X9_62'', 405),
    (''X9_62_prime_field'', 406), (''X9_62_characteristic_two_field'', 407),
    (''X9_62_id_characteristic_two_basis'', 680), (''X9_62_onBasis'', 681), (''X9_62_tpBasis'', 682),
    (''X9_62_ppBasis'', 683), (''X9_62_id_ecPublicKey'', 408), (''X9_62_c2pnb163v1'', 684),
    (''X9_62_c2pnb163v2'', 685), (''X9_62_c2pnb163v3'', 686), (''X9_62_c2pnb176v1'', 687),
    (''X9_62_c2tnb191v1'', 688), (''X9_62_c2tnb191v2'', 689), (''X9_62_c2tnb191v3'', 690),
    (''X9_62_c2onb191v4'', 691), (''X9_62_c2onb191v5'', 692), (''X9_62_c2pnb208w1'', 693),
    (''X9_62_c2tnb239v1'', 694), (''X9_62_c2tnb239v2'', 695), (''X9_62_c2tnb239v3'', 696),
    (''X9_62_c2onb239v4'', 697), (''X9_62_c2onb239v5'', 698), (''X9_62_c2pnb272w1'', 699),
    (''X9_62_c2pnb304w1'', 700), (''X9_62_c2tnb359v1'', 701), (''X9_62_c2pnb368w1'', 702),
    (''X9_62_c2tnb431r1'', 703), (''X9_62_prime192v1'', 409), (''X9_62_prime192v2'', 410),
    (''X9_62_prime192v3'', 411), (''X9_62_prime239v1'', 412), (''X9_62_prime239v2'', 413),
    (''X9_62_prime239v3'', 414), (''X9_62_prime256v1'', 415), (''ecdsa_with_SHA1'', 416),
    (''ecdsa_with_Recommended'', 791), (''ecdsa_with_Specified'', 792), (''ecdsa_with_SHA224'', 793),
    (''ecdsa_with_SHA256'', 794), (''ecdsa_with_SHA384'', 795), (''ecdsa_with_SHA512'', 796), (''secp112r1'', 704),
    (''secp112r2'', 705), (''secp128r1'', 706), (''secp128r2'', 707), (''secp160k1'', 708), (''secp160r1'', 709),
    (''secp160r2'', 710), (''secp192k1'', 711), (''secp224k1'', 712), (''secp224r1'', 713), (''secp256k1'', 714),
    (''secp384r1'', 715), (''secp521r1'', 716), (''sect113r1'', 717), (''sect113r2'', 718), (''sect131r1'', 719),
    (''sect131r2'', 720), (''sect163k1'', 721), (''sect163r1'', 722), (''sect163r2'', 723), (''sect193r1'', 724),
    (''sect193r2'', 725), (''sect233k1'', 726), (''sect233r1'', 727), (''sect239k1'', 728), (''sect283k1'', 729),
    (''sect283r1'', 730), (''sect409k1'', 731), (''sect409r1'', 732), (''sect571k1'', 733), (''sect571r1'', 734),
    (''wap_wsg_idm_ecid_wtls1'', 735), (''wap_wsg_idm_ecid_wtls3'', 736), (''wap_wsg_idm_ecid_wtls4'', 737),
    (''wap_wsg_idm_ecid_wtls5'', 738), (''wap_wsg_idm_ecid_wtls6'', 739), (''wap_wsg_idm_ecid_wtls7'', 740),
    (''wap_wsg_idm_ecid_wtls8'', 741), (''wap_wsg_idm_ecid_wtls9'', 742), (''wap_wsg_idm_ecid_wtls10'', 743),
    (''wap_wsg_idm_ecid_wtls11'', 744), (''wap_wsg_idm_ecid_wtls12'', 745), (''cast5_cbc'', 108),
    (''cast5_ecb'', 109), (''cast5_cfb64'', 110), (''cast5_ofb64'', 111), (''pbeWithMD5AndCast5_CBC'', 112),
    (''id_PasswordBasedMAC'', 782), (''id_DHBasedMac'', 783), (''rsadsi'', 1), (''pkcs'', 2)]"

definition NID_2 :: "(string \<times> int) list" where
  "NID_2 =
   [
    (''pkcs1'', 186), (''rsaEncryption'', 6), (''md2WithRSAEncryption'', 7), (''md4WithRSAEncryption'', 396),
    (''md5WithRSAEncryption'', 8), (''sha1WithRSAEncryption'', 65), (''rsaesOaep'', 919), (''mgf1'', 911),
    (''rsassaPss'', 912), (''sha256WithRSAEncryption'', 668), (''sha384WithRSAEncryption'', 669),
    (''sha512WithRSAEncryption'', 670), (''sha224WithRSAEncryption'', 671), (''pkcs3'', 27),
    (''dhKeyAgreement'', 28), (''pkcs5'', 187), (''pbeWithMD2AndDES_CBC'', 9), (''pbeWithMD5AndDES_CBC'', 10),
    (''pbeWithMD2AndRC2_CBC'', 168), (''pbeWithMD5AndRC2_CBC'', 169), (''pbeWithSHA1AndDES_CBC'', 170),
    (''pbeWithSHA1AndRC2_CBC'', 68), (''id_pbkdf2'', 69), (''pbes2'', 161), (''pbmac1'', 162), (''pkcs7'', 20),
    (''pkcs7_data'', 21), (''pkcs7_signed'', 22), (''pkcs7_enveloped'', 23), (''pkcs7_signedAndEnveloped'', 24),
    (''pkcs7_digest'', 25), (''pkcs7_encrypted'', 26), (''pkcs9'', 47), (''pkcs9_emailAddress'', 48),
    (''pkcs9_unstructuredName'', 49), (''pkcs9_contentType'', 50), (''pkcs9_messageDigest'', 51),
    (''pkcs9_signingTime'', 52), (''pkcs9_countersignature'', 53), (''pkcs9_challengePassword'', 54),
    (''pkcs9_unstructuredAddress'', 55), (''pkcs9_extCertAttributes'', 56), (''ext_req'', 172),
    (''SMIMECapabilities'', 167), (''SMIME'', 188), (''id_smime_mod'', 189), (''id_smime_ct'', 190),
    (''id_smime_aa'', 191), (''id_smime_alg'', 192), (''id_smime_cd'', 193), (''id_smime_spq'', 194),
    (''id_smime_cti'', 195), (''id_smime_mod_cms'', 196), (''id_smime_mod_ess'', 197), (''id_smime_mod_oid'', 198),
    (''id_smime_mod_msg_v3'', 199), (''id_smime_mod_ets_eSignature_88'', 200),
    (''id_smime_mod_ets_eSignature_97'', 201), (''id_smime_mod_ets_eSigPolicy_88'', 202),
    (''id_smime_mod_ets_eSigPolicy_97'', 203), (''id_smime_ct_receipt'', 204), (''id_smime_ct_authData'', 205),
    (''id_smime_ct_publishCert'', 206), (''id_smime_ct_TSTInfo'', 207), (''id_smime_ct_TDTInfo'', 208),
    (''id_smime_ct_contentInfo'', 209), (''id_smime_ct_DVCSRequestData'', 210),
    (''id_smime_ct_DVCSResponseData'', 211), (''id_smime_ct_compressedData'', 786),
    (''id_ct_asciiTextWithCRLF'', 787), (''id_smime_aa_receiptRequest'', 212),
    (''id_smime_aa_securityLabel'', 213), (''id_smime_aa_mlExpandHistory'', 214),
    (''id_smime_aa_contentHint'', 215), (''id_smime_aa_msgSigDigest'', 216),
    (''id_smime_aa_encapContentType'', 217), (''id_smime_aa_contentIdentifier'', 218),
    (''id_smime_aa_macValue'', 219), (''id_smime_aa_equivalentLabels'', 220),
    (''id_smime_aa_contentReference'', 221), (''id_smime_aa_encrypKeyPref'', 222),
    (''id_smime_aa_signingCertificate'', 223), (''id_smime_aa_smimeEncryptCerts'', 224),
    (''id_smime_aa_timeStampToken'', 225), (''id_smime_aa_ets_sigPolicyId'', 226),
    (''id_smime_aa_ets_commitmentType'', 227), (''id_smime_aa_ets_signerLocation'', 228),
    (''id_smime_aa_ets_signerAttr'', 229), (''id_smime_aa_ets_otherSigCert'', 230),
    (''id_smime_aa_ets_contentTimestamp'', 231), (''id_smime_aa_ets_CertificateRefs'', 232),
    (''id_smime_aa_ets_RevocationRefs'', 233), (''id_smime_aa_ets_certValues'', 234),
    (''id_smime_aa_ets_revocationValues'', 235), (''id_smime_aa_ets_escTimeStamp'', 236),
    (''id_smime_aa_ets_certCRLTimestamp'', 237), (''id_smime_aa_ets_archiveTimeStamp'', 238),
    (''id_smime_aa_signatureType'', 239), (''id_smime_aa_dvcs_dvc'', 240), (''id_smime_alg_ESDHwith3DES'', 241),
    (''id_smime_alg_ESDHwithRC2'', 242), (''id_smime_alg_3DESwrap'', 243), (''id_smime_alg_RC2wrap'', 244),
    (''id_smime_alg_ESDH'', 245), (''id_smime_alg_CMS3DESwrap'', 246), (''id_smime_alg_CMSRC2wrap'', 247),
    (''id_alg_PWRI_KEK'', 893), (''id_smime_cd_ldap'', 248), (''id_smime_spq_ets_sqt_uri'', 249),
    (''id_smime_spq_ets_sqt_unotice'', 250), (''id_smime_cti_ets_proofOfOrigin'', 251),
    (''id_smime_cti_ets_proofOfReceipt'', 252), (''id_smime_cti_ets_proofOfDelivery'', 253),
    (''id_smime_cti_ets_proofOfSender'', 254)]"

definition NID_3 :: "(string \<times> int) list" where
  "NID_3 =
   [
    (''id_smime_cti_ets_proofOfApproval'', 255), (''id_smime_cti_ets_proofOfCreation'', 256),
    (''friendlyName'', 156), (''localKeyID'', 157), (''ms_csp_name'', 417), (''LocalKeySet'', 856),
    (''x509Certificate'', 158), (''sdsiCertificate'', 159), (''x509Crl'', 160),
    (''pbe_WithSHA1And128BitRC4'', 144), (''pbe_WithSHA1And40BitRC4'', 145),
    (''pbe_WithSHA1And3_Key_TripleDES_CBC'', 146), (''pbe_WithSHA1And2_Key_TripleDES_CBC'', 147),
    (''pbe_WithSHA1And128BitRC2_CBC'', 148), (''pbe_WithSHA1And40BitRC2_CBC'', 149), (''keyBag'', 150),
    (''pkcs8ShroudedKeyBag'', 151), (''certBag'', 152), (''crlBag'', 153), (''secretBag'', 154),
    (''safeContentsBag'', 155), (''md2'', 3), (''md4'', 257), (''md5'', 4), (''md5_sha1'', 114),
    (''hmacWithMD5'', 797), (''hmacWithSHA1'', 163), (''hmacWithSHA224'', 798), (''hmacWithSHA256'', 799),
    (''hmacWithSHA384'', 800), (''hmacWithSHA512'', 801), (''rc2_cbc'', 37), (''rc2_ecb'', 38),
    (''rc2_cfb64'', 39), (''rc2_ofb64'', 40), (''rc2_40_cbc'', 98), (''rc2_64_cbc'', 166), (''rc4'', 5),
    (''rc4_40'', 97), (''des_ede3_cbc'', 44), (''rc5_cbc'', 120), (''rc5_ecb'', 121), (''rc5_cfb64'', 122),
    (''rc5_ofb64'', 123), (''ms_ext_req'', 171), (''ms_code_ind'', 134), (''ms_code_com'', 135),
    (''ms_ctl_sign'', 136), (''ms_sgc'', 137), (''ms_efs'', 138), (''ms_smartcard_login'', 648), (''ms_upn'', 649),
    (''idea_cbc'', 34), (''idea_ecb'', 36), (''idea_cfb64'', 35), (''idea_ofb64'', 46), (''bf_cbc'', 91),
    (''bf_ecb'', 92), (''bf_cfb64'', 93), (''bf_ofb64'', 94), (''id_pkix'', 127), (''id_pkix_mod'', 258),
    (''id_pe'', 175), (''id_qt'', 259), (''id_kp'', 128), (''id_it'', 260), (''id_pkip'', 261), (''id_alg'', 262),
    (''id_cmc'', 263), (''id_on'', 264), (''id_pda'', 265), (''id_aca'', 266), (''id_qcs'', 267),
    (''id_cct'', 268), (''id_ppl'', 662), (''id_ad'', 176), (''id_pkix1_explicit_88'', 269),
    (''id_pkix1_implicit_88'', 270), (''id_pkix1_explicit_93'', 271), (''id_pkix1_implicit_93'', 272),
    (''id_mod_crmf'', 273), (''id_mod_cmc'', 274), (''id_mod_kea_profile_88'', 275),
    (''id_mod_kea_profile_93'', 276), (''id_mod_cmp'', 277), (''id_mod_qualified_cert_88'', 278),
    (''id_mod_qualified_cert_93'', 279), (''id_mod_attribute_cert'', 280), (''id_mod_timestamp_protocol'', 281),
    (''id_mod_ocsp'', 282), (''id_mod_dvcs'', 283), (''id_mod_cmp2000'', 284), (''info_access'', 177),
    (''biometricInfo'', 285), (''qcStatements'', 286), (''ac_auditEntity'', 287), (''ac_targeting'', 288),
    (''aaControls'', 289), (''sbgp_ipAddrBlock'', 290), (''sbgp_autonomousSysNum'', 291),
    (''sbgp_routerIdentifier'', 292), (''ac_proxying'', 397), (''sinfo_access'', 398), (''proxyCertInfo'', 663),
    (''id_qt_cps'', 164), (''id_qt_unotice'', 165), (''textNotice'', 293), (''server_auth'', 129),
    (''client_auth'', 130), (''code_sign'', 131), (''email_protect'', 132), (''ipsecEndSystem'', 294),
    (''ipsecTunnel'', 295), (''ipsecUser'', 296)]"

definition NID_4 :: "(string \<times> int) list" where
  "NID_4 =
   [
    (''time_stamp'', 133), (''OCSP_sign'', 180), (''dvcs'', 297), (''id_it_caProtEncCert'', 298),
    (''id_it_signKeyPairTypes'', 299), (''id_it_encKeyPairTypes'', 300), (''id_it_preferredSymmAlg'', 301),
    (''id_it_caKeyUpdateInfo'', 302), (''id_it_currentCRL'', 303), (''id_it_unsupportedOIDs'', 304),
    (''id_it_subscriptionRequest'', 305), (''id_it_subscriptionResponse'', 306), (''id_it_keyPairParamReq'', 307),
    (''id_it_keyPairParamRep'', 308), (''id_it_revPassphrase'', 309), (''id_it_implicitConfirm'', 310),
    (''id_it_confirmWaitTime'', 311), (''id_it_origPKIMessage'', 312), (''id_it_suppLangTags'', 784),
    (''id_regCtrl'', 313), (''id_regInfo'', 314), (''id_regCtrl_regToken'', 315),
    (''id_regCtrl_authenticator'', 316), (''id_regCtrl_pkiPublicationInfo'', 317),
    (''id_regCtrl_pkiArchiveOptions'', 318), (''id_regCtrl_oldCertID'', 319),
    (''id_regCtrl_protocolEncrKey'', 320), (''id_regInfo_utf8Pairs'', 321), (''id_regInfo_certReq'', 322),
    (''id_alg_des40'', 323), (''id_alg_noSignature'', 324), (''id_alg_dh_sig_hmac_sha1'', 325),
    (''id_alg_dh_pop'', 326), (''id_cmc_statusInfo'', 327), (''id_cmc_identification'', 328),
    (''id_cmc_identityProof'', 329), (''id_cmc_dataReturn'', 330), (''id_cmc_transactionId'', 331),
    (''id_cmc_senderNonce'', 332), (''id_cmc_recipientNonce'', 333), (''id_cmc_addExtensions'', 334),
    (''id_cmc_encryptedPOP'', 335), (''id_cmc_decryptedPOP'', 336), (''id_cmc_lraPOPWitness'', 337),
    (''id_cmc_getCert'', 338), (''id_cmc_getCRL'', 339), (''id_cmc_revokeRequest'', 340),
    (''id_cmc_regInfo'', 341), (''id_cmc_responseInfo'', 342), (''id_cmc_queryPending'', 343),
    (''id_cmc_popLinkRandom'', 344), (''id_cmc_popLinkWitness'', 345), (''id_cmc_confirmCertAcceptance'', 346),
    (''id_on_personalData'', 347), (''id_on_permanentIdentifier'', 858), (''id_pda_dateOfBirth'', 348),
    (''id_pda_placeOfBirth'', 349), (''id_pda_gender'', 351), (''id_pda_countryOfCitizenship'', 352),
    (''id_pda_countryOfResidence'', 353), (''id_aca_authenticationInfo'', 354), (''id_aca_accessIdentity'', 355),
    (''id_aca_chargingIdentity'', 356), (''id_aca_group'', 357), (''id_aca_role'', 358),
    (''id_aca_encAttrs'', 399), (''id_qcs_pkixQCSyntax_v1'', 359), (''id_cct_crs'', 360),
    (''id_cct_PKIData'', 361), (''id_cct_PKIResponse'', 362), (''id_ppl_anyLanguage'', 664),
    (''id_ppl_inheritAll'', 665), (''Independent'', 667), (''ad_OCSP'', 178), (''ad_ca_issuers'', 179),
    (''ad_timeStamping'', 363), (''ad_dvcs'', 364), (''caRepository'', 785), (''id_pkix_OCSP_basic'', 365),
    (''id_pkix_OCSP_Nonce'', 366), (''id_pkix_OCSP_CrlID'', 367), (''id_pkix_OCSP_acceptableResponses'', 368),
    (''id_pkix_OCSP_noCheck'', 369), (''id_pkix_OCSP_archiveCutoff'', 370), (''id_pkix_OCSP_serviceLocator'', 371),
    (''id_pkix_OCSP_extendedStatus'', 372), (''id_pkix_OCSP_valid'', 373), (''id_pkix_OCSP_path'', 374),
    (''id_pkix_OCSP_trustRoot'', 375), (''algorithm'', 376), (''md5WithRSA'', 104), (''des_ecb'', 29),
    (''des_cbc'', 31), (''des_ofb64'', 45), (''des_cfb64'', 30), (''rsaSignature'', 377), (''dsa_2'', 67),
    (''dsaWithSHA'', 66), (''shaWithRSAEncryption'', 42), (''des_ede_ecb'', 32), (''des_ede3_ecb'', 33),
    (''des_ede_cbc'', 43), (''des_ede_cfb64'', 60), (''des_ede3_cfb64'', 61), (''des_ede_ofb64'', 62),
    (''des_ede3_ofb64'', 63), (''desx_cbc'', 80), (''sha'', 41), (''sha1'', 64), (''dsaWithSHA1_2'', 70),
    (''sha1WithRSA'', 115), (''ripemd160'', 117), (''ripemd160WithRSA'', 119), (''sxnet'', 143)]"

definition NID_5 :: "(string \<times> int) list" where
  "NID_5 =
   [
    (''X500'', 11), (''X509'', 12), (''commonName'', 13), (''surname'', 100), (''serialNumber'', 105),
    (''countryName'', 14), (''localityName'', 15), (''stateOrProvinceName'', 16), (''streetAddress'', 660),
    (''organizationName'', 17), (''organizationalUnitName'', 18), (''title'', 106), (''description'', 107),
    (''searchGuide'', 859), (''businessCategory'', 860), (''postalAddress'', 861), (''postalCode'', 661),
    (''postOfficeBox'', 862), (''physicalDeliveryOfficeName'', 863), (''telephoneNumber'', 864),
    (''telexNumber'', 865), (''teletexTerminalIdentifier'', 866), (''facsimileTelephoneNumber'', 867),
    (''x121Address'', 868), (''internationaliSDNNumber'', 869), (''registeredAddress'', 870),
    (''destinationIndicator'', 871), (''preferredDeliveryMethod'', 872), (''presentationAddress'', 873),
    (''supportedApplicationContext'', 874), (''member'', 875), (''owner'', 876), (''roleOccupant'', 877),
    (''seeAlso'', 878), (''userPassword'', 879), (''userCertificate'', 880), (''cACertificate'', 881),
    (''authorityRevocationList'', 882), (''certificateRevocationList'', 883), (''crossCertificatePair'', 884),
    (''name'', 173), (''givenName'', 99), (''initials'', 101), (''generationQualifier'', 509),
    (''x500UniqueIdentifier'', 503), (''dnQualifier'', 174), (''enhancedSearchGuide'', 885),
    (''protocolInformation'', 886), (''distinguishedName'', 887), (''uniqueMember'', 888),
    (''houseIdentifier'', 889), (''supportedAlgorithms'', 890), (''deltaRevocationList'', 891), (''dmdName'', 892),
    (''pseudonym'', 510), (''role'', 400), (''X500algorithms'', 378), (''rsa'', 19), (''mdc2WithRSA'', 96),
    (''mdc2'', 95), (''id_ce'', 81), (''subject_directory_attributes'', 769), (''subject_key_identifier'', 82),
    (''key_usage'', 83), (''private_key_usage_period'', 84), (''subject_alt_name'', 85), (''issuer_alt_name'', 86),
    (''basic_constraints'', 87), (''crl_number'', 88), (''crl_reason'', 141), (''invalidity_date'', 142),
    (''delta_crl'', 140), (''issuing_distribution_point'', 770), (''certificate_issuer'', 771),
    (''name_constraints'', 666), (''crl_distribution_points'', 103), (''certificate_policies'', 89),
    (''any_policy'', 746), (''policy_mappings'', 747), (''authority_key_identifier'', 90),
    (''policy_constraints'', 401), (''ext_key_usage'', 126), (''freshest_crl'', 857),
    (''inhibit_any_policy'', 748), (''target_information'', 402), (''no_rev_avail'', 403),
    (''anyExtendedKeyUsage'', 910), (''netscape'', 57), (''netscape_cert_extension'', 58),
    (''netscape_data_type'', 59), (''netscape_cert_type'', 71), (''netscape_base_url'', 72),
    (''netscape_revocation_url'', 73), (''netscape_ca_revocation_url'', 74), (''netscape_renewal_url'', 75),
    (''netscape_ca_policy_url'', 76), (''netscape_ssl_server_name'', 77), (''netscape_comment'', 78),
    (''netscape_cert_sequence'', 79), (''ns_sgc'', 139), (''org'', 379), (''dod'', 380), (''iana'', 381),
    (''Directory'', 382), (''Management'', 383), (''Experimental'', 384), (''Private'', 385), (''Security'', 386),
    (''SNMPv2'', 387), (''Mail'', 388), (''Enterprises'', 389), (''dcObject'', 390), (''mime_mhs'', 504),
    (''mime_mhs_headings'', 505)]"

definition NID_6 :: "(string \<times> int) list" where
  "NID_6 =
   [
    (''mime_mhs_bodies'', 506), (''id_hex_partial_message'', 507), (''id_hex_multipart_message'', 508),
    (''zlib_compression'', 125), (''aes_128_ecb'', 418), (''aes_128_cbc'', 419), (''aes_128_ofb128'', 420),
    (''aes_128_cfb128'', 421), (''id_aes128_wrap'', 788), (''aes_128_gcm'', 895), (''aes_128_ccm'', 896),
    (''id_aes128_wrap_pad'', 897), (''aes_192_ecb'', 422), (''aes_192_cbc'', 423), (''aes_192_ofb128'', 424),
    (''aes_192_cfb128'', 425), (''id_aes192_wrap'', 789), (''aes_192_gcm'', 898), (''aes_192_ccm'', 899),
    (''id_aes192_wrap_pad'', 900), (''aes_256_ecb'', 426), (''aes_256_cbc'', 427), (''aes_256_ofb128'', 428),
    (''aes_256_cfb128'', 429), (''id_aes256_wrap'', 790), (''aes_256_gcm'', 901), (''aes_256_ccm'', 902),
    (''id_aes256_wrap_pad'', 903), (''aes_128_cfb1'', 650), (''aes_192_cfb1'', 651), (''aes_256_cfb1'', 652),
    (''aes_128_cfb8'', 653), (''aes_192_cfb8'', 654), (''aes_256_cfb8'', 655), (''aes_128_ctr'', 904),
    (''aes_192_ctr'', 905), (''aes_256_ctr'', 906), (''aes_128_xts'', 913), (''aes_256_xts'', 914),
    (''des_cfb1'', 656), (''des_cfb8'', 657), (''des_ede3_cfb1'', 658), (''des_ede3_cfb8'', 659),
    (''sha256'', 672), (''sha384'', 673), (''sha512'', 674), (''sha224'', 675), (''dsa_with_SHA224'', 802),
    (''dsa_with_SHA256'', 803), (''hold_instruction_code'', 430), (''hold_instruction_none'', 431),
    (''hold_instruction_call_issuer'', 432), (''hold_instruction_reject'', 433), (''data'', 434), (''pss'', 435),
    (''ucl'', 436), (''pilot'', 437), (''pilotAttributeType'', 438), (''pilotAttributeSyntax'', 439),
    (''pilotObjectClass'', 440), (''pilotGroups'', 441), (''iA5StringSyntax'', 442),
    (''caseIgnoreIA5StringSyntax'', 443), (''pilotObject'', 444), (''pilotPerson'', 445), (''account'', 446),
    (''document'', 447), (''room'', 448), (''documentSeries'', 449), (''Domain'', 392), (''rFC822localPart'', 450),
    (''dNSDomain'', 451), (''domainRelatedObject'', 452), (''friendlyCountry'', 453),
    (''simpleSecurityObject'', 454), (''pilotOrganization'', 455), (''pilotDSA'', 456),
    (''qualityLabelledData'', 457), (''userId'', 458), (''textEncodedORAddress'', 459), (''rfc822Mailbox'', 460),
    (''info'', 461), (''favouriteDrink'', 462), (''roomNumber'', 463), (''photo'', 464), (''userClass'', 465),
    (''host'', 466), (''manager'', 467), (''documentIdentifier'', 468), (''documentTitle'', 469),
    (''documentVersion'', 470), (''documentAuthor'', 471), (''documentLocation'', 472),
    (''homeTelephoneNumber'', 473), (''secretary'', 474), (''otherMailbox'', 475), (''lastModifiedTime'', 476),
    (''lastModifiedBy'', 477), (''domainComponent'', 391), (''aRecord'', 478), (''pilotAttributeType27'', 479),
    (''mXRecord'', 480), (''nSRecord'', 481), (''sOARecord'', 482), (''cNAMERecord'', 483),
    (''associatedDomain'', 484), (''associatedName'', 485), (''homePostalAddress'', 486), (''personalTitle'', 487),
    (''mobileTelephoneNumber'', 488), (''pagerTelephoneNumber'', 489), (''friendlyCountryName'', 490),
    (''organizationalStatus'', 491), (''janetMailbox'', 492)]"

definition NID_7 :: "(string \<times> int) list" where
  "NID_7 =
   [
    (''mailPreferenceOption'', 493), (''buildingName'', 494), (''dSAQuality'', 495), (''singleLevelQuality'', 496),
    (''subtreeMinimumQuality'', 497), (''subtreeMaximumQuality'', 498), (''personalSignature'', 499),
    (''dITRedirect'', 500), (''audio'', 501), (''documentPublisher'', 502), (''id_set'', 512),
    (''set_ctype'', 513), (''set_msgExt'', 514), (''set_attr'', 515), (''set_policy'', 516),
    (''set_certExt'', 517), (''set_brand'', 518), (''setct_PANData'', 519), (''setct_PANToken'', 520),
    (''setct_PANOnly'', 521), (''setct_OIData'', 522), (''setct_PI'', 523), (''setct_PIData'', 524),
    (''setct_PIDataUnsigned'', 525), (''setct_HODInput'', 526), (''setct_AuthResBaggage'', 527),
    (''setct_AuthRevReqBaggage'', 528), (''setct_AuthRevResBaggage'', 529), (''setct_CapTokenSeq'', 530),
    (''setct_PInitResData'', 531), (''setct_PI_TBS'', 532), (''setct_PResData'', 533), (''setct_AuthReqTBS'', 534),
    (''setct_AuthResTBS'', 535), (''setct_AuthResTBSX'', 536), (''setct_AuthTokenTBS'', 537),
    (''setct_CapTokenData'', 538), (''setct_CapTokenTBS'', 539), (''setct_AcqCardCodeMsg'', 540),
    (''setct_AuthRevReqTBS'', 541), (''setct_AuthRevResData'', 542), (''setct_AuthRevResTBS'', 543),
    (''setct_CapReqTBS'', 544), (''setct_CapReqTBSX'', 545), (''setct_CapResData'', 546),
    (''setct_CapRevReqTBS'', 547), (''setct_CapRevReqTBSX'', 548), (''setct_CapRevResData'', 549),
    (''setct_CredReqTBS'', 550), (''setct_CredReqTBSX'', 551), (''setct_CredResData'', 552),
    (''setct_CredRevReqTBS'', 553), (''setct_CredRevReqTBSX'', 554), (''setct_CredRevResData'', 555),
    (''setct_PCertReqData'', 556), (''setct_PCertResTBS'', 557), (''setct_BatchAdminReqData'', 558),
    (''setct_BatchAdminResData'', 559), (''setct_CardCInitResTBS'', 560), (''setct_MeAqCInitResTBS'', 561),
    (''setct_RegFormResTBS'', 562), (''setct_CertReqData'', 563), (''setct_CertReqTBS'', 564),
    (''setct_CertResData'', 565), (''setct_CertInqReqTBS'', 566), (''setct_ErrorTBS'', 567),
    (''setct_PIDualSignedTBE'', 568), (''setct_PIUnsignedTBE'', 569), (''setct_AuthReqTBE'', 570),
    (''setct_AuthResTBE'', 571), (''setct_AuthResTBEX'', 572), (''setct_AuthTokenTBE'', 573),
    (''setct_CapTokenTBE'', 574), (''setct_CapTokenTBEX'', 575), (''setct_AcqCardCodeMsgTBE'', 576),
    (''setct_AuthRevReqTBE'', 577), (''setct_AuthRevResTBE'', 578), (''setct_AuthRevResTBEB'', 579),
    (''setct_CapReqTBE'', 580), (''setct_CapReqTBEX'', 581), (''setct_CapResTBE'', 582),
    (''setct_CapRevReqTBE'', 583), (''setct_CapRevReqTBEX'', 584), (''setct_CapRevResTBE'', 585),
    (''setct_CredReqTBE'', 586), (''setct_CredReqTBEX'', 587), (''setct_CredResTBE'', 588),
    (''setct_CredRevReqTBE'', 589), (''setct_CredRevReqTBEX'', 590), (''setct_CredRevResTBE'', 591),
    (''setct_BatchAdminReqTBE'', 592), (''setct_BatchAdminResTBE'', 593), (''setct_RegFormReqTBE'', 594),
    (''setct_CertReqTBE'', 595), (''setct_CertReqTBEX'', 596), (''setct_CertResTBE'', 597),
    (''setct_CRLNotificationTBS'', 598), (''setct_CRLNotificationResTBS'', 599),
    (''setct_BCIDistributionTBS'', 600), (''setext_genCrypt'', 601), (''setext_miAuth'', 602),
    (''setext_pinSecure'', 603), (''setext_pinAny'', 604), (''setext_track2'', 605), (''setext_cv'', 606),
    (''set_policy_root'', 607), (''setCext_hashedRoot'', 608), (''setCext_certType'', 609),
    (''setCext_merchData'', 610), (''setCext_cCertRequired'', 611), (''setCext_tunneling'', 612),
    (''setCext_setExt'', 613), (''setCext_setQualf'', 614), (''setCext_PGWYcapabilities'', 615)]"

definition NID_8 :: "(string \<times> int) list" where
  "NID_8 =
   [
    (''setCext_TokenIdentifier'', 616), (''setCext_Track2Data'', 617), (''setCext_TokenType'', 618),
    (''setCext_IssuerCapabilities'', 619), (''setAttr_Cert'', 620), (''setAttr_PGWYcap'', 621),
    (''setAttr_TokenType'', 622), (''setAttr_IssCap'', 623), (''set_rootKeyThumb'', 624), (''set_addPolicy'', 625),
    (''setAttr_Token_EMV'', 626), (''setAttr_Token_B0Prime'', 627), (''setAttr_IssCap_CVM'', 628),
    (''setAttr_IssCap_T2'', 629), (''setAttr_IssCap_Sig'', 630), (''setAttr_GenCryptgrm'', 631),
    (''setAttr_T2Enc'', 632), (''setAttr_T2cleartxt'', 633), (''setAttr_TokICCsig'', 634),
    (''setAttr_SecDevSig'', 635), (''set_brand_IATA_ATA'', 636), (''set_brand_Diners'', 637),
    (''set_brand_AmericanExpress'', 638), (''set_brand_JCB'', 639), (''set_brand_Visa'', 640),
    (''set_brand_MasterCard'', 641), (''set_brand_Novus'', 642), (''des_cdmf'', 643),
    (''rsaOAEPEncryptionSET'', 644), (''ipsec3'', 749), (''ipsec4'', 750), (''whirlpool'', 804),
    (''cryptopro'', 805), (''cryptocom'', 806), (''id_GostR3411_94_with_GostR3410_2001'', 807),
    (''id_GostR3411_94_with_GostR3410_94'', 808), (''id_GostR3411_94'', 809), (''id_HMACGostR3411_94'', 810),
    (''id_GostR3410_2001'', 811), (''id_GostR3410_94'', 812), (''id_Gost28147_89'', 813), (''gost89_cnt'', 814),
    (''id_Gost28147_89_MAC'', 815), (''id_GostR3411_94_prf'', 816), (''id_GostR3410_2001DH'', 817),
    (''id_GostR3410_94DH'', 818), (''id_Gost28147_89_CryptoPro_KeyMeshing'', 819),
    (''id_Gost28147_89_None_KeyMeshing'', 820), (''id_GostR3411_94_TestParamSet'', 821),
    (''id_GostR3411_94_CryptoProParamSet'', 822), (''id_Gost28147_89_TestParamSet'', 823),
    (''id_Gost28147_89_CryptoPro_A_ParamSet'', 824), (''id_Gost28147_89_CryptoPro_B_ParamSet'', 825),
    (''id_Gost28147_89_CryptoPro_C_ParamSet'', 826), (''id_Gost28147_89_CryptoPro_D_ParamSet'', 827),
    (''id_Gost28147_89_CryptoPro_Oscar_1_1_ParamSet'', 828),
    (''id_Gost28147_89_CryptoPro_Oscar_1_0_ParamSet'', 829), (''id_Gost28147_89_CryptoPro_RIC_1_ParamSet'', 830),
    (''id_GostR3410_94_TestParamSet'', 831), (''id_GostR3410_94_CryptoPro_A_ParamSet'', 832),
    (''id_GostR3410_94_CryptoPro_B_ParamSet'', 833), (''id_GostR3410_94_CryptoPro_C_ParamSet'', 834),
    (''id_GostR3410_94_CryptoPro_D_ParamSet'', 835), (''id_GostR3410_94_CryptoPro_XchA_ParamSet'', 836),
    (''id_GostR3410_94_CryptoPro_XchB_ParamSet'', 837), (''id_GostR3410_94_CryptoPro_XchC_ParamSet'', 838),
    (''id_GostR3410_2001_TestParamSet'', 839), (''id_GostR3410_2001_CryptoPro_A_ParamSet'', 840),
    (''id_GostR3410_2001_CryptoPro_B_ParamSet'', 841), (''id_GostR3410_2001_CryptoPro_C_ParamSet'', 842),
    (''id_GostR3410_2001_CryptoPro_XchA_ParamSet'', 843), (''id_GostR3410_2001_CryptoPro_XchB_ParamSet'', 844),
    (''id_GostR3410_94_a'', 845), (''id_GostR3410_94_aBis'', 846), (''id_GostR3410_94_b'', 847),
    (''id_GostR3410_94_bBis'', 848), (''id_Gost28147_89_cc'', 849), (''id_GostR3410_94_cc'', 850),
    (''id_GostR3410_2001_cc'', 851), (''id_GostR3411_94_with_GostR3410_94_cc'', 852),
    (''id_GostR3411_94_with_GostR3410_2001_cc'', 853), (''id_GostR3410_2001_ParamSet_cc'', 854),
    (''camellia_128_cbc'', 751), (''camellia_192_cbc'', 752), (''camellia_256_cbc'', 753),
    (''id_camellia128_wrap'', 907), (''id_camellia192_wrap'', 908), (''id_camellia256_wrap'', 909),
    (''camellia_128_ecb'', 754), (''camellia_128_ofb128'', 766), (''camellia_128_cfb128'', 757),
    (''camellia_192_ecb'', 755), (''camellia_192_ofb128'', 767), (''camellia_192_cfb128'', 758),
    (''camellia_256_ecb'', 756), (''camellia_256_ofb128'', 768), (''camellia_256_cfb128'', 759),
    (''camellia_128_cfb1'', 760), (''camellia_192_cfb1'', 761), (''camellia_256_cfb1'', 762),
    (''camellia_128_cfb8'', 763), (''camellia_192_cfb8'', 764), (''camellia_256_cfb8'', 765), (''kisa'', 773),
    (''seed_ecb'', 776), (''seed_cbc'', 777), (''seed_cfb128'', 779), (''seed_ofb128'', 778), (''hmac'', 855),
    (''cmac'', 894), (''rc4_hmac_md5'', 915), (''aes_128_cbc_hmac_sha1'', 916), (''aes_192_cbc_hmac_sha1'', 917),
    (''aes_256_cbc_hmac_sha1'', 918)]"

definition NIDs :: "(string \<times> int) list" where
  "NIDs = NID_1 @ NID_2 @ NID_3 @ NID_4 @ NID_5 @ NID_6 @ NID_7 @ NID_8"

subsection \<open>The constants of the crate\<close>

definition nid_1 :: "(string \<times> string) list" where
  "nid_1 =
   [
    (''UNDEF'', ''undef''), (''ITU_T'', ''itu_t''), (''CCITT'', ''ccitt''), (''ISO'', ''iso''),
    (''JOINT_ISO_ITU_T'', ''joint_iso_itu_t''), (''JOINT_ISO_CCITT'', ''joint_iso_ccitt''),
    (''MEMBER_BODY'', ''member_body''), (''IDENTIFIED_ORGANIZATION'', ''identified_organization''),
    (''HMAC_MD5'', ''hmac_md5''), (''HMAC_SHA1'', ''hmac_sha1''), (''CERTICOM_ARC'', ''certicom_arc''),
    (''INTERNATIONAL_ORGANIZATIONS'', ''international_organizations''), (''WAP'', ''wap''),
    (''WAP_WSG'', ''wap_wsg''), (''SELECTED_ATTRIBUTE_TYPES'', ''selected_attribute_types''),
    (''CLEARANCE'', ''clearance''), (''ISO_US'', ''ISO_US''), (''X9_57'', ''X9_57''), (''X9CM'', ''X9cm''),
    (''DSA'', ''dsa''), (''DSAWITHSHA1'', ''dsaWithSHA1''), (''ANSI_X9_62'', ''ansi_X9_62''),
    (''X9_62_PRIME_FIELD'', ''X9_62_prime_field''),
    (''X9_62_CHARACTERISTIC_TWO_FIELD'', ''X9_62_characteristic_two_field''),
    (''X9_62_ID_CHARACTERISTIC_TWO_BASIS'', ''X9_62_id_characteristic_two_basis''),
    (''X9_62_ONBASIS'', ''X9_62_onBasis''), (''X9_62_TPBASIS'', ''X9_62_tpBasis''),
    (''X9_62_PPBASIS'', ''X9_62_ppBasis''), (''X9_62_ID_ECPUBLICKEY'', ''X9_62_id_ecPublicKey''),
    (''X9_62_C2PNB163V1'', ''X9_62_c2pnb163v1''), (''X9_62_C2PNB163V2'', ''X9_62_c2pnb163v2''),
    (''X9_62_C2PNB163V3'', ''X9_62_c2pnb163v3''), (''X9_62_C2PNB176V1'', ''X9_62_c2pnb176v1''),
    (''X9_62_C2TNB191V1'', ''X9_62_c2tnb191v1''), (''X9_62_C2TNB191V2'', ''X9_62_c2tnb191v2''),
    (''X9_62_C2TNB191V3'', ''X9_62_c2tnb191v3''), (''X9_62_C2ONB191V4'', ''X9_62_c2onb191v4''),
    (''X9_62_C2ONB191V5'', ''X9_62_c2onb191v5''), (''X9_62_C2PNB208W1'', ''X9_62_c2pnb208w1''),
    (''X9_62_C2TNB239V1'', ''X9_62_c2tnb239v1''), (''X9_62_C2TNB239V2'', ''X9_62_c2tnb239v2''),
    (''X9_62_C2TNB239V3'', ''X9_62_c2tnb239v3''), (''X9_62_C2ONB239V4'', ''X9_62_c2onb239v4''),
    (''X9_62_C2ONB239V5'', ''X9_62_c2onb239v5''), (''X9_62_C2PNB272W1'', ''X9_62_c2pnb272w1''),
    (''X9_62_C2PNB304W1'', ''X9_62_c2pnb304w1''), (''X9_62_C2TNB359V1'', ''X9_62_c2tnb359v1''),
    (''X9_62_C2PNB368W1'', ''X9_62_c2pnb368w1''), (''X9_62_C2TNB431R1'', ''X9_62_c2tnb431r1''),
    (''X9_62_PRIME192V1'', ''X9_62_prime192v1''), (''X9_62_PRIME192V2'', ''X9_62_prime192v2''),
    (''X9_62_PRIME192V3'', ''X9_62_prime192v3''), (''X9_62_PRIME239V1'', ''X9_62_prime239v1''),
    (''X9_62_PRIME239V2'', ''X9_62_prime239v2''), (''X9_62_PRIME239V3'', ''X9_62_prime239v3''),
    (''X9_62_PRIME256V1'', ''X9_62_prime256v1''), (''ECDSA_WITH_SHA1'', ''ecdsa_with_SHA1''),
    (''ECDSA_WITH_RECOMMENDED'', ''ecdsa_with_Recommended''), (''ECDSA_WITH_SPECIFIED'', ''ecdsa_with_Specified''),
    (''ECDSA_WITH_SHA224'', ''ecdsa_with_SHA224''), (''ECDSA_WITH_SHA256'', ''ecdsa_with_SHA256''),
    (''ECDSA_WITH_SHA384'', ''ecdsa_with_SHA384''), (''ECDSA_WITH_SHA512'', ''ecdsa_with_SHA512''),
    (''SECP112R1'', ''secp112r1''), (''SECP112R2'', ''secp112r2''), (''SECP128R1'', ''secp128r1''),
    (''SECP128R2'', ''secp128r2''), (''SECP160K1'', ''secp160k1''), (''SECP160R1'', ''secp160r1''),
    (''SECP160R2'', ''secp160r2''), (''SECP192K1'', ''secp192k1''), (''SECP224K1'', ''secp224k1''),
    (''SECP224R1'', ''secp224r1''), (''SECP256K1'', ''secp256k1''), (''SECP384R1'', ''secp384r1''),
    (''SECP521R1'', ''secp521r1''), (''SECT113R1'', ''sect113r1''), (''SECT113R2'', ''sect113r2''),
    (''SECT131R1'', ''sect131r1''), (''SECT131R2'', ''sect131r2''), (''SECT163K1'', ''sect163k1''),
    (''SECT163R1'', ''sect163r1''), (''SECT163R2'', ''sect163r2''), (''SECT193R1'', ''sect193r1''),
    (''SECT193R2'', ''sect193r2''), (''SECT233K1'', ''sect233k1''), (''SECT233R1'', ''sect233r1''),
    (''SECT239K1'', ''sect239k1''), (''SECT283K1'', ''sect283k1''), (''SECT283R1'', ''sect283r1''),
    (''SECT409K1'', ''sect409k1''), (''SECT409R1'', ''sect409r1''), (''SECT571K1'', ''sect571k1''),
    (''SECT571R1'', ''sect571r1''), (''WAP_WSG_IDM_ECID_WTLS1'', ''wap_wsg_idm_ecid_wtls1''),
    (''WAP_WSG_IDM_ECID_WTLS3'', ''wap_wsg_idm_ecid_wtls3''),
    (''WAP_WSG_IDM_ECID_WTLS4'', ''wap_wsg_idm_ecid_wtls4''),
    (''WAP_WSG_IDM_ECID_WTLS5'', ''wap_wsg_idm_ecid_wtls5''),
    (''WAP_WSG_IDM_ECID_WTLS6'', ''wap_wsg_idm_ecid_wtls6''),
    (''WAP_WSG_IDM_ECID_WTLS7'', ''wap_wsg_idm_ecid_wtls7''),
    (''WAP_WSG_IDM_ECID_WTLS8'', ''wap_wsg_idm_ecid_wtls8''),
    (''WAP_WSG_IDM_ECID_WTLS9'', ''wap_wsg_idm_ecid_wtls9''),
    (''WAP_WSG_IDM_ECID_WTLS10'', ''wap_wsg_idm_ecid_wtls10''),
    (''WAP_WSG_IDM_ECID_WTLS11'', ''wap_wsg_idm_ecid_wtls11''),
    (''WAP_WSG_IDM_ECID_WTLS12'', ''wap_wsg_idm_ecid_wtls12''), (''CAST5_CBC'', ''cast5_cbc''),
    (''CAST5_ECB'', ''cast5_ecb''), (''CAST5_CFB64'', ''cast5_cfb64''), (''CAST5_OFB64'', ''cast5_ofb64''),
    (''PBEWITHMD5ANDCAST5_CBC'', ''pbeWithMD5AndCast5_CBC''), (''ID_PASSWORDBASEDMAC'', ''id_PasswordBasedMAC''),
    (''ID_DHBASEDMAC'', ''id_DHBasedMac''), (''RSADSI'', ''rsadsi''), (''PKCS'', ''pkcs'')]"

definition nid_2 :: "(string \<times> string) list" where
  "nid_2 =
   [
    (''PKCS1'', ''pkcs1''), (''RSAENCRYPTION'', ''rsaEncryption''),
    (''MD2WITHRSAENCRYPTION'', ''md2WithRSAEncryption''), (''MD4WITHRSAENCRYPTION'', ''md4WithRSAEncryption''),
    (''MD5WITHRSAENCRYPTION'', ''md5WithRSAEncryption''), (''SHA1WITHRSAENCRYPTION'', ''sha1WithRSAEncryption''),
    (''RSAESOAEP'', ''rsaesOaep''), (''MGF1'', ''mgf1''), (''RSASSAPSS'', ''rsassaPss''),
    (''SHA256WITHRSAENCRYPTION'', ''sha256WithRSAEncryption''),
    (''SHA384WITHRSAENCRYPTION'', ''sha384WithRSAEncryption''),
    (''SHA512WITHRSAENCRYPTION'', ''sha512WithRSAEncryption''),
    (''SHA224WITHRSAENCRYPTION'', ''sha224WithRSAEncryption''), (''PKCS3'', ''pkcs3''),
    (''DHKEYAGREEMENT'', ''dhKeyAgreement''), (''PKCS5'', ''pkcs5''),
    (''PBEWITHMD2ANDDES_CBC'', ''pbeWithMD2AndDES_CBC''), (''PBEWITHMD5ANDDES_CBC'', ''pbeWithMD5AndDES_CBC''),
    (''PBEWITHMD2ANDRC2_CBC'', ''pbeWithMD2AndRC2_CBC''), (''PBEWITHMD5ANDRC2_CBC'', ''pbeWithMD5AndRC2_CBC''),
    (''PBEWITHSHA1ANDDES_CBC'', ''pbeWithSHA1AndDES_CBC''), (''PBEWITHSHA1ANDRC2_CBC'', ''pbeWithSHA1AndRC2_CBC''),
    (''ID_PBKDF2'', ''id_pbkdf2''), (''PBES2'', ''pbes2''), (''PBMAC1'', ''pbmac1''), (''PKCS7'', ''pkcs7''),
    (''PKCS7_DATA'', ''pkcs7_data''), (''PKCS7_SIGNED'', ''pkcs7_signed''),
    (''PKCS7_ENVELOPED'', ''pkcs7_enveloped''), (''PKCS7_SIGNEDANDENVELOPED'', ''pkcs7_signedAndEnveloped''),
    (''PKCS7_DIGEST'', ''pkcs7_digest''), (''PKCS7_ENCRYPTED'', ''pkcs7_encrypted''), (''PKCS9'', ''pkcs9''),
    (''PKCS9_EMAILADDRESS'', ''pkcs9_emailAddress''), (''PKCS9_UNSTRUCTUREDNAME'', ''pkcs9_unstructuredName''),
    (''PKCS9_CONTENTTYPE'', ''pkcs9_contentType''), (''PKCS9_MESSAGEDIGEST'', ''pkcs9_messageDigest''),
    (''PKCS9_SIGNINGTIME'', ''pkcs9_signingTime''), (''PKCS9_COUNTERSIGNATURE'', ''pkcs9_countersignature''),
    (''PKCS9_CHALLENGEPASSWORD'', ''pkcs9_challengePassword''),
    (''PKCS9_UNSTRUCTUREDADDRESS'', ''pkcs9_unstructuredAddress''),
    (''PKCS9_EXTCERTATTRIBUTES'', ''pkcs9_extCertAttributes''), (''EXT_REQ'', ''ext_req''),
    (''SMIMECAPABILITIES'', ''SMIMECapabilities''), (''SMIME'', ''SMIME''), (''ID_SMIME_MOD'', ''id_smime_mod''),
    (''ID_SMIME_CT'', ''id_smime_ct''), (''ID_SMIME_AA'', ''id_smime_aa''), (''ID_SMIME_ALG'', ''id_smime_alg''),
    (''ID_SMIME_CD'', ''id_smime_cd''), (''ID_SMIME_SPQ'', ''id_smime_spq''), (''ID_SMIME_CTI'', ''id_smime_cti''),
    (''ID_SMIME_MOD_CMS'', ''id_smime_mod_cms''), (''ID_SMIME_MOD_ESS'', ''id_smime_mod_ess''),
    (''ID_SMIME_MOD_OID'', ''id_smime_mod_oid''), (''ID_SMIME_MOD_MSG_V3'', ''id_smime_mod_msg_v3''),
    (''ID_SMIME_MOD_ETS_ESIGNATURE_88'', ''id_smime_mod_ets_eSignature_88''),
    (''ID_SMIME_MOD_ETS_ESIGNATURE_97'', ''id_smime_mod_ets_eSignature_97''),
    (''ID_SMIME_MOD_ETS_ESIGPOLICY_88'', ''id_smime_mod_ets_eSigPolicy_88''),
    (''ID_SMIME_MOD_ETS_ESIGPOLICY_97'', ''id_smime_mod_ets_eSigPolicy_97''),
    (''ID_SMIME_CT_RECEIPT'', ''id_smime_ct_receipt''), (''ID_SMIME_CT_AUTHDATA'', ''id_smime_ct_authData''),
    (''ID_SMIME_CT_PUBLISHCERT'', ''id_smime_ct_publishCert''), (''ID_SMIME_CT_TSTINFO'', ''id_smime_ct_TSTInfo''),
    (''ID_SMIME_CT_TDTINFO'', ''id_smime_ct_TDTInfo''), (''ID_SMIME_CT_CONTENTINFO'', ''id_smime_ct_contentInfo''),
    (''ID_SMIME_CT_DVCSREQUESTDATA'', ''id_smime_ct_DVCSRequestData''),
    (''ID_SMIME_CT_DVCSRESPONSEDATA'', ''id_smime_ct_DVCSResponseData''),
    (''ID_SMIME_CT_COMPRESSEDDATA'', ''id_smime_ct_compressedData''),
    (''ID_CT_ASCIITEXTWITHCRLF'', ''id_ct_asciiTextWithCRLF''),
    (''ID_SMIME_AA_RECEIPTREQUEST'', ''id_smime_aa_receiptRequest''),
    (''ID_SMIME_AA_SECURITYLABEL'', ''id_smime_aa_securityLabel''),
    (''ID_SMIME_AA_MLEXPANDHISTORY'', ''id_smime_aa_mlExpandHistory''),
    (''ID_SMIME_AA_CONTENTHINT'', ''id_smime_aa_contentHint''),
    (''ID_SMIME_AA_MSGSIGDIGEST'', ''id_smime_aa_msgSigDigest''),
    (''ID_SMIME_AA_ENCAPCONTENTTYPE'', ''id_smime_aa_encapContentType''),
    (''ID_SMIME_AA_CONTENTIDENTIFIER'', ''id_smime_aa_contentIdentifier''),
    (''ID_SMIME_AA_MACVALUE'', ''id_smime_aa_macValue''),
    (''ID_SMIME_AA_EQUIVALENTLABELS'', ''id_smime_aa_equivalentLabels''),
    (''ID_SMIME_AA_CONTENTREFERENCE'', ''id_smime_aa_contentReference''),
    (''ID_SMIME_AA_ENCRYPKEYPREF'', ''id_smime_aa_encrypKeyPref''),
    (''ID_SMIME_AA_SIGNINGCERTIFICATE'', ''id_smime_aa_signingCertificate''),
    (''ID_SMIME_AA_SMIMEENCRYPTCERTS'', ''id_smime_aa_smimeEncryptCerts''),
    (''ID_SMIME_AA_TIMESTAMPTOKEN'', ''id_smime_aa_timeStampToken''),
    (''ID_SMIME_AA_ETS_SIGPOLICYID'', ''id_smime_aa_ets_sigPolicyId''),
    (''ID_SMIME_AA_ETS_COMMITMENTTYPE'', ''id_smime_aa_ets_commitmentType''),
    (''ID_SMIME_AA_ETS_SIGNERLOCATION'', ''id_smime_aa_ets_signerLocation''),
    (''ID_SMIME_AA_ETS_SIGNERATTR'', ''id_smime_aa_ets_signerAttr''),
    (''ID_SMIME_AA_ETS_OTHERSIGCERT'', ''id_smime_aa_ets_otherSigCert''),
    (''ID_SMIME_AA_ETS_CONTENTTIMESTAMP'', ''id_smime_aa_ets_contentTimestamp''),
    (''ID_SMIME_AA_ETS_CERTIFICATEREFS'', ''id_smime_aa_ets_CertificateRefs''),
    (''ID_SMIME_AA_ETS_REVOCATIONREFS'', ''id_smime_aa_ets_RevocationRefs''),
    (''ID_SMIME_AA_ETS_CERTVALUES'', ''id_smime_aa_ets_certValues''),
    (''ID_SMIME_AA_ETS_REVOCATIONVALUES'', ''id_smime_aa_ets_revocationValues''),
    (''ID_SMIME_AA_ETS_ESCTIMESTAMP'', ''id_smime_aa_ets_escTimeStamp''),
    (''ID_SMIME_AA_ETS_CERTCRLTIMESTAMP'', ''id_smime_aa_ets_certCRLTimestamp''),
    (''ID_SMIME_AA_ETS_ARCHIVETIMESTAMP'', ''id_smime_aa_ets_archiveTimeStamp''),
    (''ID_SMIME_AA_SIGNATURETYPE'', ''id_smime_aa_signatureType''),
    (''ID_SMIME_AA_DVCS_DVC'', ''id_smime_aa_dvcs_dvc''),
    (''ID_SMIME_ALG_ESDHWITH3DES'', ''id_smime_alg_ESDHwith3DES''),
    (''ID_SMIME_ALG_ESDHWITHRC2'', ''id_smime_alg_ESDHwithRC2''),
    (''ID_SMIME_ALG_3DESWRAP'', ''id_smime_alg_3DESwrap''), (''ID_SMIME_ALG_RC2WRAP'', ''id_smime_alg_RC2wrap''),
    (''ID_SMIME_ALG_ESDH'', ''id_smime_alg_ESDH''), (''ID_SMIME_ALG_CMS3DESWRAP'', ''id_smime_alg_CMS3DESwrap''),
    (''ID_SMIME_ALG_CMSRC2WRAP'', ''id_smime_alg_CMSRC2wrap''), (''ID_ALG_PWRI_KEK'', ''id_alg_PWRI_KEK''),
    (''ID_SMIME_CD_LDAP'', ''id_smime_cd_ldap''), (''ID_SMIME_SPQ_ETS_SQT_URI'', ''id_smime_spq_ets_sqt_uri''),
    (''ID_SMIME_SPQ_ETS_SQT_UNOTICE'', ''id_smime_spq_ets_sqt_unotice''),
    (''ID_SMIME_CTI_ETS_PROOFOFORIGIN'', ''id_smime_cti_ets_proofOfOrigin''),
    (''ID_SMIME_CTI_ETS_PROOFOFRECEIPT'', ''id_smime_cti_ets_proofOfReceipt''),
    (''ID_SMIME_CTI_ETS_PROOFOFDELIVERY'', ''id_smime_cti_ets_proofOfDelivery''),
    (''ID_SMIME_CTI_ETS_PROOFOFSENDER'', ''id_smime_cti_ets_proofOfSender'')]"

definition nid_3 :: "(string \<times> string) list" where
  "nid_3 =
   [
    (''ID_SMIME_CTI_ETS_PROOFOFAPPROVAL'', ''id_smime_cti_ets_proofOfApproval''),
    (''ID_SMIME_CTI_ETS_PROOFOFCREATION'', ''id_smime_cti_ets_proofOfCreation''),
    (''FRIENDLYNAME'', ''friendlyName''), (''LOCALKEYID'', ''localKeyID''), (''MS_CSP_NAME'', ''ms_csp_name''),
    (''LOCALKEYSET'', ''LocalKeySet''), (''X509CERTIFICATE'', ''x509Certificate''),
    (''SDSICERTIFICATE'', ''sdsiCertificate''), (''X509CRL'', ''x509Crl''),
    (''PBE_WITHSHA1AND128BITRC4'', ''pbe_WithSHA1And128BitRC4''),
    (''PBE_WITHSHA1AND40BITRC4'', ''pbe_WithSHA1And40BitRC4''),
    (''PBE_WITHSHA1AND3_KEY_TRIPLEDES_CBC'', ''pbe_WithSHA1And3_Key_TripleDES_CBC''),
    (''PBE_WITHSHA1AND2_KEY_TRIPLEDES_CBC'', ''pbe_WithSHA1And2_Key_TripleDES_CBC''),
    (''PBE_WITHSHA1AND128BITRC2_CBC'', ''pbe_WithSHA1And128BitRC2_CBC''),
    (''PBE_WITHSHA1AND40BITRC2_CBC'', ''pbe_WithSHA1And40BitRC2_CBC''), (''KEYBAG'', ''keyBag''),
    (''PKCS8SHROUDEDKEYBAG'', ''pkcs8ShroudedKeyBag''), (''CERTBAG'', ''certBag''), (''CRLBAG'', ''crlBag''),
    (''SECRETBAG'', ''secretBag''), (''SAFECONTENTSBAG'', ''safeContentsBag''), (''MD2'', ''md2''),
    (''MD4'', ''md4''), (''MD5'', ''md5''), (''MD5_SHA1'', ''md5_sha1''), (''HMACWITHMD5'', ''hmacWithMD5''),
    (''HMACWITHSHA1'', ''hmacWithSHA1''), (''HMACWITHSHA224'', ''hmacWithSHA224''),
    (''HMACWITHSHA256'', ''hmacWithSHA256''), (''HMACWITHSHA384'', ''hmacWithSHA384''),
    (''HMACWITHSHA512'', ''hmacWithSHA512''), (''RC2_CBC'', ''rc2_cbc''), (''RC2_ECB'', ''rc2_ecb''),
    (''RC2_CFB64'', ''rc2_cfb64''), (''RC2_OFB64'', ''rc2_ofb64''), (''RC2_40_CBC'', ''rc2_40_cbc''),
    (''RC2_64_CBC'', ''rc2_64_cbc''), (''RC4'', ''rc4''), (''RC4_40'', ''rc4_40''),
    (''DES_EDE3_CBC'', ''des_ede3_cbc''), (''RC5_CBC'', ''rc5_cbc''), (''RC5_ECB'', ''rc5_ecb''),
    (''RC5_CFB64'', ''rc5_cfb64''), (''RC5_OFB64'', ''rc5_ofb64''), (''MS_EXT_REQ'', ''ms_ext_req''),
    (''MS_CODE_IND'', ''ms_code_ind''), (''MS_CODE_COM'', ''ms_code_com''), (''MS_CTL_SIGN'', ''ms_ctl_sign''),
    (''MS_SGC'', ''ms_sgc''), (''MS_EFS'', ''ms_efs''), (''MS_SMARTCARD_LOGIN'', ''ms_smartcard_login''),
    (''MS_UPN'', ''ms_upn''), (''IDEA_CBC'', ''idea_cbc''), (''IDEA_ECB'', ''idea_ecb''),
    (''IDEA_CFB64'', ''idea_cfb64''), (''IDEA_OFB64'', ''idea_ofb64''), (''BF_CBC'', ''bf_cbc''),
    (''BF_ECB'', ''bf_ecb''), (''BF_CFB64'', ''bf_cfb64''), (''BF_OFB64'', ''bf_ofb64''),
    (''ID_PKIX'', ''id_pkix''), (''ID_PKIX_MOD'', ''id_pkix_mod''), (''ID_PE'', ''id_pe''), (''ID_QT'', ''id_qt''),
    (''ID_KP'', ''id_kp''), (''ID_IT'', ''id_it''), (''ID_PKIP'', ''id_pkip''), (''ID_ALG'', ''id_alg''),
    (''ID_CMC'', ''id_cmc''), (''ID_ON'', ''id_on''), (''ID_PDA'', ''id_pda''), (''ID_ACA'', ''id_aca''),
    (''ID_QCS'', ''id_qcs''), (''ID_CCT'', ''id_cct''), (''ID_PPL'', ''id_ppl''), (''ID_AD'', ''id_ad''),
    (''ID_PKIX1_EXPLICIT_88'', ''id_pkix1_explicit_88''), (''ID_PKIX1_IMPLICIT_88'', ''id_pkix1_implicit_88''),
    (''ID_PKIX1_EXPLICIT_93'', ''id_pkix1_explicit_93''), (''ID_PKIX1_IMPLICIT_93'', ''id_pkix1_implicit_93''),
    (''ID_MOD_CRMF'', ''id_mod_crmf''), (''ID_MOD_CMC'', ''id_mod_cmc''),
    (''ID_MOD_KEA_PROFILE_88'', ''id_mod_kea_profile_88''), (''ID_MOD_KEA_PROFILE_93'', ''id_mod_kea_profile_93''),
    (''ID_MOD_CMP'', ''id_mod_cmp''), (''ID_MOD_QUALIFIED_CERT_88'', ''id_mod_qualified_cert_88''),
    (''ID_MOD_QUALIFIED_CERT_93'', ''id_mod_qualified_cert_93''),
    (''ID_MOD_ATTRIBUTE_CERT'', ''id_mod_attribute_cert''),
    (''ID_MOD_TIMESTAMP_PROTOCOL'', ''id_mod_timestamp_protocol''), (''ID_MOD_OCSP'', ''id_mod_ocsp''),
    (''ID_MOD_DVCS'', ''id_mod_dvcs''), (''ID_MOD_CMP2000'', ''id_mod_cmp2000''),
    (''INFO_ACCESS'', ''info_access''), (''BIOMETRICINFO'', ''biometricInfo''),
    (''QCSTATEMENTS'', ''qcStatements''), (''AC_AUDITENTITY'', ''ac_auditEntity''),
    (''AC_TARGETING'', ''ac_targeting''), (''AACONTROLS'', ''aaControls''),
    (''SBGP_IPADDRBLOCK'', ''sbgp_ipAddrBlock''), (''SBGP_AUTONOMOUSSYSNUM'', ''sbgp_autonomousSysNum''),
    (''SBGP_ROUTERIDENTIFIER'', ''sbgp_routerIdentifier''), (''AC_PROXYING'', ''ac_proxying''),
    (''SINFO_ACCESS'', ''sinfo_access''), (''PROXYCERTINFO'', ''proxyCertInfo''), (''ID_QT_CPS'', ''id_qt_cps''),
    (''ID_QT_UNOTICE'', ''id_qt_unotice''), (''TEXTNOTICE'', ''textNotice''), (''SERVER_AUTH'', ''server_auth''),
    (''CLIENT_AUTH'', ''client_auth''), (''CODE_SIGN'', ''code_sign''), (''EMAIL_PROTECT'', ''email_protect''),
    (''IPSECENDSYSTEM'', ''ipsecEndSystem''), (''IPSECTUNNEL'', ''ipsecTunnel''), (''IPSECUSER'', ''ipsecUser'')]"

definition nid_4 :: "(string \<times> string) list" where
  "nid_4 =
   [
    (''TIME_STAMP'', ''time_stamp''), (''OCSP_SIGN'', ''OCSP_sign''), (''DVCS'', ''dvcs''),
    (''ID_IT_CAPROTENCCERT'', ''id_it_caProtEncCert''), (''ID_IT_SIGNKEYPAIRTYPES'', ''id_it_signKeyPairTypes''),
    (''ID_IT_ENCKEYPAIRTYPES'', ''id_it_encKeyPairTypes''),
    (''ID_IT_PREFERREDSYMMALG'', ''id_it_preferredSymmAlg''),
    (''ID_IT_CAKEYUPDATEINFO'', ''id_it_caKeyUpdateInfo''), (''ID_IT_CURRENTCRL'', ''id_it_currentCRL''),
    (''ID_IT_UNSUPPORTEDOIDS'', ''id_it_unsupportedOIDs''),
    (''ID_IT_SUBSCRIPTIONREQUEST'', ''id_it_subscriptionRequest''),
    (''ID_IT_SUBSCRIPTIONRESPONSE'', ''id_it_subscriptionResponse''),
    (''ID_IT_KEYPAIRPARAMREQ'', ''id_it_keyPairParamReq''), (''ID_IT_KEYPAIRPARAMREP'', ''id_it_keyPairParamRep''),
    (''ID_IT_REVPASSPHRASE'', ''id_it_revPassphrase''), (''ID_IT_IMPLICITCONFIRM'', ''id_it_implicitConfirm''),
    (''ID_IT_CONFIRMWAITTIME'', ''id_it_confirmWaitTime''), (''ID_IT_ORIGPKIMESSAGE'', ''id_it_origPKIMessage''),
    (''ID_IT_SUPPLANGTAGS'', ''id_it_suppLangTags''), (''ID_REGCTRL'', ''id_regCtrl''),
    (''ID_REGINFO'', ''id_regInfo''), (''ID_REGCTRL_REGTOKEN'', ''id_regCtrl_regToken''),
    (''ID_REGCTRL_AUTHENTICATOR'', ''id_regCtrl_authenticator''),
    (''ID_REGCTRL_PKIPUBLICATIONINFO'', ''id_regCtrl_pkiPublicationInfo''),
    (''ID_REGCTRL_PKIARCHIVEOPTIONS'', ''id_regCtrl_pkiArchiveOptions''),
    (''ID_REGCTRL_OLDCERTID'', ''id_regCtrl_oldCertID''),
    (''ID_REGCTRL_PROTOCOLENCRKEY'', ''id_regCtrl_protocolEncrKey''),
    (''ID_REGINFO_UTF8PAIRS'', ''id_regInfo_utf8Pairs''), (''ID_REGINFO_CERTREQ'', ''id_regInfo_certReq''),
    (''ID_ALG_DES40'', ''id_alg_des40''), (''ID_ALG_NOSIGNATURE'', ''id_alg_noSignature''),
    (''ID_ALG_DH_SIG_HMAC_SHA1'', ''id_alg_dh_sig_hmac_sha1''), (''ID_ALG_DH_POP'', ''id_alg_dh_pop''),
    (''ID_CMC_STATUSINFO'', ''id_cmc_statusInfo''), (''ID_CMC_IDENTIFICATION'', ''id_cmc_identification''),
    (''ID_CMC_IDENTITYPROOF'', ''id_cmc_identityProof''), (''ID_CMC_DATARETURN'', ''id_cmc_dataReturn''),
    (''ID_CMC_TRANSACTIONID'', ''id_cmc_transactionId''), (''ID_CMC_SENDERNONCE'', ''id_cmc_senderNonce''),
    (''ID_CMC_RECIPIENTNONCE'', ''id_cmc_recipientNonce''), (''ID_CMC_ADDEXTENSIONS'', ''id_cmc_addExtensions''),
    (''ID_CMC_ENCRYPTEDPOP'', ''id_cmc_encryptedPOP''), (''ID_CMC_DECRYPTEDPOP'', ''id_cmc_decryptedPOP''),
    (''ID_CMC_LRAPOPWITNESS'', ''id_cmc_lraPOPWitness''), (''ID_CMC_GETCERT'', ''id_cmc_getCert''),
    (''ID_CMC_GETCRL'', ''id_cmc_getCRL''), (''ID_CMC_REVOKEREQUEST'', ''id_cmc_revokeRequest''),
    (''ID_CMC_REGINFO'', ''id_cmc_regInfo''), (''ID_CMC_RESPONSEINFO'', ''id_cmc_responseInfo''),
    (''ID_CMC_QUERYPENDING'', ''id_cmc_queryPending''), (''ID_CMC_POPLINKRANDOM'', ''id_cmc_popLinkRandom''),
    (''ID_CMC_POPLINKWITNESS'', ''id_cmc_popLinkWitness''),
    (''ID_CMC_CONFIRMCERTACCEPTANCE'', ''id_cmc_confirmCertAcceptance''),
    (''ID_ON_PERSONALDATA'', ''id_on_personalData''),
    (''ID_ON_PERMANENTIDENTIFIER'', ''id_on_permanentIdentifier''),
    (''ID_PDA_DATEOFBIRTH'', ''id_pda_dateOfBirth''), (''ID_PDA_PLACEOFBIRTH'', ''id_pda_placeOfBirth''),
    (''ID_PDA_GENDER'', ''id_pda_gender''), (''ID_PDA_COUNTRYOFCITIZENSHIP'', ''id_pda_countryOfCitizenship''),
    (''ID_PDA_COUNTRYOFRESIDENCE'', ''id_pda_countryOfResidence''),
    (''ID_ACA_AUTHENTICATIONINFO'', ''id_aca_authenticationInfo''),
    (''ID_ACA_ACCESSIDENTITY'', ''id_aca_accessIdentity''),
    (''ID_ACA_CHARGINGIDENTITY'', ''id_aca_chargingIdentity''), (''ID_ACA_GROUP'', ''id_aca_group''),
    (''ID_ACA_ROLE'', ''id_aca_role''), (''ID_ACA_ENCATTRS'', ''id_aca_encAttrs''),
    (''ID_QCS_PKIXQCSYNTAX_V1'', ''id_qcs_pkixQCSyntax_v1''), (''ID_CCT_CRS'', ''id_cct_crs''),
    (''ID_CCT_PKIDATA'', ''id_cct_PKIData''), (''ID_CCT_PKIRESPONSE'', ''id_cct_PKIResponse''),
    (''ID_PPL_ANYLANGUAGE'', ''id_ppl_anyLanguage''), (''ID_PPL_INHERITALL'', ''id_ppl_inheritAll''),
    (''INDEPENDENT'', ''Independent''), (''AD_OCSP'', ''ad_OCSP''), (''AD_CA_ISSUERS'', ''ad_ca_issuers''),
    (''AD_TIMESTAMPING'', ''ad_timeStamping''), (''AD_DVCS'', ''ad_dvcs''), (''CAREPOSITORY'', ''caRepository''),
    (''ID_PKIX_OCSP_BASIC'', ''id_pkix_OCSP_basic''), (''ID_PKIX_OCSP_NONCE'', ''id_pkix_OCSP_Nonce''),
    (''ID_PKIX_OCSP_CRLID'', ''id_pkix_OCSP_CrlID''),
    (''ID_PKIX_OCSP_ACCEPTABLERESPONSES'', ''id_pkix_OCSP_acceptableResponses''),
    (''ID_PKIX_OCSP_NOCHECK'', ''id_pkix_OCSP_noCheck''),
    (''ID_PKIX_OCSP_ARCHIVECUTOFF'', ''id_pkix_OCSP_archiveCutoff''),
    (''ID_PKIX_OCSP_SERVICELOCATOR'', ''id_pkix_OCSP_serviceLocator''),
    (''ID_PKIX_OCSP_EXTENDEDSTATUS'', ''id_pkix_OCSP_extendedStatus''),
    (''ID_PKIX_OCSP_VALID'', ''id_pkix_OCSP_valid''), (''ID_PKIX_OCSP_PATH'', ''id_pkix_OCSP_path''),
    (''ID_PKIX_OCSP_TRUSTROOT'', ''id_pkix_OCSP_trustRoot''), (''ALGORITHM'', ''algorithm''),
    (''MD5WITHRSA'', ''md5WithRSA''), (''DES_ECB'', ''des_ecb''), (''DES_CBC'', ''des_cbc''),
    (''DES_OFB64'', ''des_ofb64''), (''DES_CFB64'', ''des_cfb64''), (''RSASIGNATURE'', ''rsaSignature''),
    (''DSA_2'', ''dsa_2''), (''DSAWITHSHA'', ''dsaWithSHA''), (''SHAWITHRSAENCRYPTION'', ''shaWithRSAEncryption''),
    (''DES_EDE_ECB'', ''des_ede_ecb''), (''DES_EDE3_ECB'', ''des_ede3_ecb''), (''DES_EDE_CBC'', ''des_ede_cbc''),
    (''DES_EDE_CFB64'', ''des_ede_cfb64''), (''DES_EDE3_CFB64'', ''des_ede3_cfb64''),
    (''DES_EDE_OFB64'', ''des_ede_ofb64''), (''DES_EDE3_OFB64'', ''des_ede3_ofb64''), (''DESX_CBC'', ''desx_cbc''),
    (''SHA'', ''sha''), (''SHA1'', ''sha1''), (''DSAWITHSHA1_2'', ''dsaWithSHA1_2''),
    (''SHA1WITHRSA'', ''sha1WithRSA''), (''RIPEMD160'', ''ripemd160''),
    (''RIPEMD160WITHRSA'', ''ripemd160WithRSA''), (''SXNET'', ''sxnet'')]"

definition nid_5 :: "(string \<times> string) list" where
  "nid_5 =
   [
    (''X500'', ''X500''), (''X509'', ''X509''), (''COMMONNAME'', ''commonName''), (''SURNAME'', ''surname''),
    (''SERIALNUMBER'', ''serialNumber''), (''COUNTRYNAME'', ''countryName''), (''LOCALITYNAME'', ''localityName''),
    (''STATEORPROVINCENAME'', ''stateOrProvinceName''), (''STREETADDRESS'', ''streetAddress''),
    (''ORGANIZATIONNAME'', ''organizationName''), (''ORGANIZATIONALUNITNAME'', ''organizationalUnitName''),
    (''TITLE'', ''title''), (''DESCRIPTION'', ''description''), (''SEARCHGUIDE'', ''searchGuide''),
    (''BUSINESSCATEGORY'', ''businessCategory''), (''POSTALADDRESS'', ''postalAddress''),
    (''POSTALCODE'', ''postalCode''), (''POSTOFFICEBOX'', ''postOfficeBox''),
    (''PHYSICALDELIVERYOFFICENAME'', ''physicalDeliveryOfficeName''), (''TELEPHONENUMBER'', ''telephoneNumber''),
    (''TELEXNUMBER'', ''telexNumber''), (''TELETEXTERMINALIDENTIFIER'', ''teletexTerminalIdentifier''),
    (''FACSIMILETELEPHONENUMBER'', ''facsimileTelephoneNumber''), (''X121ADDRESS'', ''x121Address''),
    (''INTERNATIONALISDNNUMBER'', ''internationaliSDNNumber''), (''REGISTEREDADDRESS'', ''registeredAddress''),
    (''DESTINATIONINDICATOR'', ''destinationIndicator''),
    (''PREFERREDDELIVERYMETHOD'', ''preferredDeliveryMethod''), (''PRESENTATIONADDRESS'', ''presentationAddress''),
    (''SUPPORTEDAPPLICATIONCONTEXT'', ''supportedApplicationContext''), (''MEMBER'', ''member''),
    (''OWNER'', ''owner''), (''ROLEOCCUPANT'', ''roleOccupant''), (''SEEALSO'', ''seeAlso''),
    (''USERPASSWORD'', ''userPassword''), (''USERCERTIFICATE'', ''userCertificate''),
    (''CACERTIFICATE'', ''cACertificate''), (''AUTHORITYREVOCATIONLIST'', ''authorityRevocationList''),
    (''CERTIFICATEREVOCATIONLIST'', ''certificateRevocationList''),
    (''CROSSCERTIFICATEPAIR'', ''crossCertificatePair''), (''NAME'', ''name''), (''GIVENNAME'', ''givenName''),
    (''INITIALS'', ''initials''), (''GENERATIONQUALIFIER'', ''generationQualifier''),
    (''X500UNIQUEIDENTIFIER'', ''x500UniqueIdentifier''), (''DNQUALIFIER'', ''dnQualifier''),
    (''ENHANCEDSEARCHGUIDE'', ''enhancedSearchGuide''), (''PROTOCOLINFORMATION'', ''protocolInformation''),
    (''DISTINGUISHEDNAME'', ''distinguishedName''), (''UNIQUEMEMBER'', ''uniqueMember''),
    (''HOUSEIDENTIFIER'', ''houseIdentifier''), (''SUPPORTEDALGORITHMS'', ''supportedAlgorithms''),
    (''DELTAREVOCATIONLIST'', ''deltaRevocationList''), (''DMDNAME'', ''dmdName''), (''PSEUDONYM'', ''pseudonym''),
    (''ROLE'', ''role''), (''X500ALGORITHMS'', ''X500algorithms''), (''RSA'', ''rsa''),
    (''MDC2WITHRSA'', ''mdc2WithRSA''), (''MDC2'', ''mdc2''), (''ID_CE'', ''id_ce''),
    (''SUBJECT_DIRECTORY_ATTRIBUTES'', ''subject_directory_attributes''),
    (''SUBJECT_KEY_IDENTIFIER'', ''subject_key_identifier''), (''KEY_USAGE'', ''key_usage''),
    (''PRIVATE_KEY_USAGE_PERIOD'', ''private_key_usage_period''), (''SUBJECT_ALT_NAME'', ''subject_alt_name''),
    (''ISSUER_ALT_NAME'', ''issuer_alt_name''), (''BASIC_CONSTRAINTS'', ''basic_constraints''),
    (''CRL_NUMBER'', ''crl_number''), (''CRL_REASON'', ''crl_reason''), (''INVALIDITY_DATE'', ''invalidity_date''),
    (''DELTA_CRL'', ''delta_crl''), (''ISSUING_DISTRIBUTION_POINT'', ''issuing_distribution_point''),
    (''CERTIFICATE_ISSUER'', ''certificate_issuer''), (''NAME_CONSTRAINTS'', ''name_constraints''),
    (''CRL_DISTRIBUTION_POINTS'', ''crl_distribution_points''),
    (''CERTIFICATE_POLICIES'', ''certificate_policies''), (''ANY_POLICY'', ''any_policy''),
    (''POLICY_MAPPINGS'', ''policy_mappings''), (''AUTHORITY_KEY_IDENTIFIER'', ''authority_key_identifier''),
    (''POLICY_CONSTRAINTS'', ''policy_constraints''), (''EXT_KEY_USAGE'', ''ext_key_usage''),
    (''FRESHEST_CRL'', ''freshest_crl''), (''INHIBIT_ANY_POLICY'', ''inhibit_any_policy''),
    (''TARGET_INFORMATION'', ''target_information''), (''NO_REV_AVAIL'', ''no_rev_avail''),
    (''ANYEXTENDEDKEYUSAGE'', ''anyExtendedKeyUsage''), (''NETSCAPE'', ''netscape''),
    (''NETSCAPE_CERT_EXTENSION'', ''netscape_cert_extension''), (''NETSCAPE_DATA_TYPE'', ''netscape_data_type''),
    (''NETSCAPE_CERT_TYPE'', ''netscape_cert_type''), (''NETSCAPE_BASE_URL'', ''netscape_base_url''),
    (''NETSCAPE_REVOCATION_URL'', ''netscape_revocation_url''),
    (''NETSCAPE_CA_REVOCATION_URL'', ''netscape_ca_revocation_url''),
    (''NETSCAPE_RENEWAL_URL'', ''netscape_renewal_url''), (''NETSCAPE_CA_POLICY_URL'', ''netscape_ca_policy_url''),
    (''NETSCAPE_SSL_SERVER_NAME'', ''netscape_ssl_server_name''), (''NETSCAPE_COMMENT'', ''netscape_comment''),
    (''NETSCAPE_CERT_SEQUENCE'', ''netscape_cert_sequence''), (''NS_SGC'', ''ns_sgc''), (''ORG'', ''org''),
    (''DOD'', ''dod''), (''IANA'', ''iana''), (''DIRECTORY'', ''Directory''), (''MANAGEMENT'', ''Management''),
    (''EXPERIMENTAL'', ''Experimental''), (''PRIVATE'', ''Private''), (''SECURITY'', ''Security''),
    (''SNMPV2'', ''SNMPv2''), (''MAIL'', ''Mail''), (''ENTERPRISES'', ''Enterprises''),
    (''DCOBJECT'', ''dcObject''), (''MIME_MHS'', ''mime_mhs''), (''MIME_MHS_HEADINGS'', ''mime_mhs_headings'')]"

definition nid_6 :: "(string \<times> string) list" where
  "nid_6 =
   [
    (''MIME_MHS_BODIES'', ''mime_mhs_bodies''), (''ID_HEX_PARTIAL_MESSAGE'', ''id_hex_partial_message''),
    (''ID_HEX_MULTIPART_MESSAGE'', ''id_hex_multipart_message''), (''ZLIB_COMPRESSION'', ''zlib_compression''),
    (''AES_128_ECB'', ''aes_128_ecb''), (''AES_128_CBC'', ''aes_128_cbc''),
    (''AES_128_OFB128'', ''aes_128_ofb128''), (''AES_128_CFB128'', ''aes_128_cfb128''),
    (''ID_AES128_WRAP'', ''id_aes128_wrap''), (''AES_128_GCM'', ''aes_128_gcm''),
    (''AES_128_CCM'', ''aes_128_ccm''), (''ID_AES128_WRAP_PAD'', ''id_aes128_wrap_pad''),
    (''AES_192_ECB'', ''aes_192_ecb''), (''AES_192_CBC'', ''aes_192_cbc''),
    (''AES_192_OFB128'', ''aes_192_ofb128''), (''AES_192_CFB128'', ''aes_192_cfb128''),
    (''ID_AES192_WRAP'', ''id_aes192_wrap''), (''AES_192_GCM'', ''aes_192_gcm''),
    (''AES_192_CCM'', ''aes_192_ccm''), (''ID_AES192_WRAP_PAD'', ''id_aes192_wrap_pad''),
    (''AES_256_ECB'', ''aes_256_ecb''), (''AES_256_CBC'', ''aes_256_cbc''),
    (''AES_256_OFB128'', ''aes_256_ofb128''), (''AES_256_CFB128'', ''aes_256_cfb128''),
    (''ID_AES256_WRAP'', ''id_aes256_wrap''), (''AES_256_GCM'', ''aes_256_gcm''),
    (''AES_256_CCM'', ''aes_256_ccm''), (''ID_AES256_WRAP_PAD'', ''id_aes256_wrap_pad''),
    (''AES_128_CFB1'', ''aes_128_cfb1''), (''AES_192_CFB1'', ''aes_192_cfb1''),
    (''AES_256_CFB1'', ''aes_256_cfb1''), (''AES_128_CFB8'', ''aes_128_cfb8''),
    (''AES_192_CFB8'', ''aes_192_cfb8''), (''AES_256_CFB8'', ''aes_256_cfb8''), (''AES_128_CTR'', ''aes_128_ctr''),
    (''AES_192_CTR'', ''aes_192_ctr''), (''AES_256_CTR'', ''aes_256_ctr''), (''AES_128_XTS'', ''aes_128_xts''),
    (''AES_256_XTS'', ''aes_256_xts''), (''DES_CFB1'', ''des_cfb1''), (''DES_CFB8'', ''des_cfb8''),
    (''DES_EDE3_CFB1'', ''des_ede3_cfb1''), (''DES_EDE3_CFB8'', ''des_ede3_cfb8''), (''SHA256'', ''sha256''),
    (''SHA384'', ''sha384''), (''SHA512'', ''sha512''), (''SHA224'', ''sha224''),
    (''DSA_WITH_SHA224'', ''dsa_with_SHA224''), (''DSA_WITH_SHA256'', ''dsa_with_SHA256''),
    (''HOLD_INSTRUCTION_CODE'', ''hold_instruction_code''), (''HOLD_INSTRUCTION_NONE'', ''hold_instruction_none''),
    (''HOLD_INSTRUCTION_CALL_ISSUER'', ''hold_instruction_call_issuer''),
    (''HOLD_INSTRUCTION_REJECT'', ''hold_instruction_reject''), (''DATA'', ''data''), (''PSS'', ''pss''),
    (''UCL'', ''ucl''), (''PILOT'', ''pilot''), (''PILOTATTRIBUTETYPE'', ''pilotAttributeType''),
    (''PILOTATTRIBUTESYNTAX'', ''pilotAttributeSyntax''), (''PILOTOBJECTCLASS'', ''pilotObjectClass''),
    (''PILOTGROUPS'', ''pilotGroups''), (''IA5STRINGSYNTAX'', ''iA5StringSyntax''),
    (''CASEIGNOREIA5STRINGSYNTAX'', ''caseIgnoreIA5StringSyntax''), (''PILOTOBJECT'', ''pilotObject''),
    (''PILOTPERSON'', ''pilotPerson''), (''ACCOUNT'', ''account''), (''DOCUMENT'', ''document''),
    (''ROOM'', ''room''), (''DOCUMENTSERIES'', ''documentSeries''), (''DOMAIN'', ''Domain''),
    (''RFC822LOCALPART'', ''rFC822localPart''), (''DNSDOMAIN'', ''dNSDomain''),
    (''DOMAINRELATEDOBJECT'', ''domainRelatedObject''), (''FRIENDLYCOUNTRY'', ''friendlyCountry''),
    (''SIMPLESECURITYOBJECT'', ''simpleSecurityObject''), (''PILOTORGANIZATION'', ''pilotOrganization''),
    (''PILOTDSA'', ''pilotDSA''), (''QUALITYLABELLEDDATA'', ''qualityLabelledData''), (''USERID'', ''userId''),
    (''TEXTENCODEDORADDRESS'', ''textEncodedORAddress''), (''RFC822MAILBOX'', ''rfc822Mailbox''),
    (''INFO'', ''info''), (''FAVOURITEDRINK'', ''favouriteDrink''), (''ROOMNUMBER'', ''roomNumber''),
    (''PHOTO'', ''photo''), (''USERCLASS'', ''userClass''), (''HOST'', ''host''), (''MANAGER'', ''manager''),
    (''DOCUMENTIDENTIFIER'', ''documentIdentifier''), (''DOCUMENTTITLE'', ''documentTitle''),
    (''DOCUMENTVERSION'', ''documentVersion''), (''DOCUMENTAUTHOR'', ''documentAuthor''),
    (''DOCUMENTLOCATION'', ''documentLocation''), (''HOMETELEPHONENUMBER'', ''homeTelephoneNumber''),
    (''SECRETARY'', ''secretary''), (''OTHERMAILBOX'', ''otherMailbox''),
    (''LASTMODIFIEDTIME'', ''lastModifiedTime''), (''LASTMODIFIEDBY'', ''lastModifiedBy''),
    (''DOMAINCOMPONENT'', ''domainComponent''), (''ARECORD'', ''aRecord''),
    (''PILOTATTRIBUTETYPE27'', ''pilotAttributeType27''), (''MXRECORD'', ''mXRecord''),
    (''NSRECORD'', ''nSRecord''), (''SOARECORD'', ''sOARecord''), (''CNAMERECORD'', ''cNAMERecord''),
    (''ASSOCIATEDDOMAIN'', ''associatedDomain''), (''ASSOCIATEDNAME'', ''associatedName''),
    (''HOMEPOSTALADDRESS'', ''homePostalAddress''), (''PERSONALTITLE'', ''personalTitle''),
    (''MOBILETELEPHONENUMBER'', ''mobileTelephoneNumber''), (''PAGERTELEPHONENUMBER'', ''pagerTelephoneNumber''),
    (''FRIENDLYCOUNTRYNAME'', ''friendlyCountryName''), (''ORGANIZATIONALSTATUS'', ''organizationalStatus''),
    (''JANETMAILBOX'', ''janetMailbox'')]"

definition nid_7 :: "(string \<times> string) list" where
  "nid_7 =
   [
    (''MAILPREFERENCEOPTION'', ''mailPreferenceOption''), (''BUILDINGNAME'', ''buildingName''),
    (''DSAQUALITY'', ''dSAQuality''), (''SINGLELEVELQUALITY'', ''singleLevelQuality''),
    (''SUBTREEMINIMUMQUALITY'', ''subtreeMinimumQuality''), (''SUBTREEMAXIMUMQUALITY'', ''subtreeMaximumQuality''),
    (''PERSONALSIGNATURE'', ''personalSignature''), (''DITREDIRECT'', ''dITRedirect''), (''AUDIO'', ''audio''),
    (''DOCUMENTPUBLISHER'', ''documentPublisher''), (''ID_SET'', ''id_set''), (''SET_CTYPE'', ''set_ctype''),
    (''SET_MSGEXT'', ''set_msgExt''), (''SET_ATTR'', ''set_attr''), (''SET_POLICY'', ''set_policy''),
    (''SET_CERTEXT'', ''set_certExt''), (''SET_BRAND'', ''set_brand''), (''SETCT_PANDATA'', ''setct_PANData''),
    (''SETCT_PANTOKEN'', ''setct_PANToken''), (''SETCT_PANONLY'', ''setct_PANOnly''),
    (''SETCT_OIDATA'', ''setct_OIData''), (''SETCT_PI'', ''setct_PI''), (''SETCT_PIDATA'', ''setct_PIData''),
    (''SETCT_PIDATAUNSIGNED'', ''setct_PIDataUnsigned''), (''SETCT_HODINPUT'', ''setct_HODInput''),
    (''SETCT_AUTHRESBAGGAGE'', ''setct_AuthResBaggage''),
    (''SETCT_AUTHREVREQBAGGAGE'', ''setct_AuthRevReqBaggage''),
    (''SETCT_AUTHREVRESBAGGAGE'', ''setct_AuthRevResBaggage''), (''SETCT_CAPTOKENSEQ'', ''setct_CapTokenSeq''),
    (''SETCT_PINITRESDATA'', ''setct_PInitResData''), (''SETCT_PI_TBS'', ''setct_PI_TBS''),
    (''SETCT_PRESDATA'', ''setct_PResData''), (''SETCT_AUTHREQTBS'', ''setct_AuthReqTBS''),
    (''SETCT_AUTHRESTBS'', ''setct_AuthResTBS''), (''SETCT_AUTHRESTBSX'', ''setct_AuthResTBSX''),
    (''SETCT_AUTHTOKENTBS'', ''setct_AuthTokenTBS''), (''SETCT_CAPTOKENDATA'', ''setct_CapTokenData''),
    (''SETCT_CAPTOKENTBS'', ''setct_CapTokenTBS''), (''SETCT_ACQCARDCODEMSG'', ''setct_AcqCardCodeMsg''),
    (''SETCT_AUTHREVREQTBS'', ''setct_AuthRevReqTBS''), (''SETCT_AUTHREVRESDATA'', ''setct_AuthRevResData''),
    (''SETCT_AUTHREVRESTBS'', ''setct_AuthRevResTBS''), (''SETCT_CAPREQTBS'', ''setct_CapReqTBS''),
    (''SETCT_CAPREQTBSX'', ''setct_CapReqTBSX''), (''SETCT_CAPRESDATA'', ''setct_CapResData''),
    (''SETCT_CAPREVREQTBS'', ''setct_CapRevReqTBS''), (''SETCT_CAPREVREQTBSX'', ''setct_CapRevReqTBSX''),
    (''SETCT_CAPREVRESDATA'', ''setct_CapRevResData''), (''SETCT_CREDREQTBS'', ''setct_CredReqTBS''),
    (''SETCT_CREDREQTBSX'', ''setct_CredReqTBSX''), (''SETCT_CREDRESDATA'', ''setct_CredResData''),
    (''SETCT_CREDREVREQTBS'', ''setct_CredRevReqTBS''), (''SETCT_CREDREVREQTBSX'', ''setct_CredRevReqTBSX''),
    (''SETCT_CREDREVRESDATA'', ''setct_CredRevResData''), (''SETCT_PCERTREQDATA'', ''setct_PCertReqData''),
    (''SETCT_PCERTRESTBS'', ''setct_PCertResTBS''), (''SETCT_BATCHADMINREQDATA'', ''setct_BatchAdminReqData''),
    (''SETCT_BATCHADMINRESDATA'', ''setct_BatchAdminResData''),
    (''SETCT_CARDCINITRESTBS'', ''setct_CardCInitResTBS''), (''SETCT_MEAQCINITRESTBS'', ''setct_MeAqCInitResTBS''),
    (''SETCT_REGFORMRESTBS'', ''setct_RegFormResTBS''), (''SETCT_CERTREQDATA'', ''setct_CertReqData''),
    (''SETCT_CERTREQTBS'', ''setct_CertReqTBS''), (''SETCT_CERTRESDATA'', ''setct_CertResData''),
    (''SETCT_CERTINQREQTBS'', ''setct_CertInqReqTBS''), (''SETCT_ERRORTBS'', ''setct_ErrorTBS''),
    (''SETCT_PIDUALSIGNEDTBE'', ''setct_PIDualSignedTBE''), (''SETCT_PIUNSIGNEDTBE'', ''setct_PIUnsignedTBE''),
    (''SETCT_AUTHREQTBE'', ''setct_AuthReqTBE''), (''SETCT_AUTHRESTBE'', ''setct_AuthResTBE''),
    (''SETCT_AUTHRESTBEX'', ''setct_AuthResTBEX''), (''SETCT_AUTHTOKENTBE'', ''setct_AuthTokenTBE''),
    (''SETCT_CAPTOKENTBE'', ''setct_CapTokenTBE''), (''SETCT_CAPTOKENTBEX'', ''setct_CapTokenTBEX''),
    (''SETCT_ACQCARDCODEMSGTBE'', ''setct_AcqCardCodeMsgTBE''), (''SETCT_AUTHREVREQTBE'', ''setct_AuthRevReqTBE''),
    (''SETCT_AUTHREVRESTBE'', ''setct_AuthRevResTBE''), (''SETCT_AUTHREVRESTBEB'', ''setct_AuthRevResTBEB''),
    (''SETCT_CAPREQTBE'', ''setct_CapReqTBE''), (''SETCT_CAPREQTBEX'', ''setct_CapReqTBEX''),
    (''SETCT_CAPRESTBE'', ''setct_CapResTBE''), (''SETCT_CAPREVREQTBE'', ''setct_CapRevReqTBE''),
    (''SETCT_CAPREVREQTBEX'', ''setct_CapRevReqTBEX''), (''SETCT_CAPREVRESTBE'', ''setct_CapRevResTBE''),
    (''SETCT_CREDREQTBE'', ''setct_CredReqTBE''), (''SETCT_CREDREQTBEX'', ''setct_CredReqTBEX''),
    (''SETCT_CREDRESTBE'', ''setct_CredResTBE''), (''SETCT_CREDREVREQTBE'', ''setct_CredRevReqTBE''),
    (''SETCT_CREDREVREQTBEX'', ''setct_CredRevReqTBEX''), (''SETCT_CREDREVRESTBE'', ''setct_CredRevResTBE''),
    (''SETCT_BATCHADMINREQTBE'', ''setct_BatchAdminReqTBE''),
    (''SETCT_BATCHADMINRESTBE'', ''setct_BatchAdminResTBE''), (''SETCT_REGFORMREQTBE'', ''setct_RegFormReqTBE''),
    (''SETCT_CERTREQTBE'', ''setct_CertReqTBE''), (''SETCT_CERTREQTBEX'', ''setct_CertReqTBEX''),
    (''SETCT_CERTRESTBE'', ''setct_CertResTBE''), (''SETCT_CRLNOTIFICATIONTBS'', ''setct_CRLNotificationTBS''),
    (''SETCT_CRLNOTIFICATIONRESTBS'', ''setct_CRLNotificationResTBS''),
    (''SETCT_BCIDISTRIBUTIONTBS'', ''setct_BCIDistributionTBS''), (''SETEXT_GENCRYPT'', ''setext_genCrypt''),
    (''SETEXT_MIAUTH'', ''setext_miAuth''), (''SETEXT_PINSECURE'', ''setext_pinSecure''),
    (''SETEXT_PINANY'', ''setext_pinAny''), (''SETEXT_TRACK2'', ''setext_track2''), (''SETEXT_CV'', ''setext_cv''),
    (''SET_POLICY_ROOT'', ''set_policy_root''), (''SETCEXT_HASHEDROOT'', ''setCext_hashedRoot''),
    (''SETCEXT_CERTTYPE'', ''setCext_certType''), (''SETCEXT_MERCHDATA'', ''setCext_merchData''),
    (''SETCEXT_CCERTREQUIRED'', ''setCext_cCertRequired''), (''SETCEXT_TUNNELING'', ''setCext_tunneling''),
    (''SETCEXT_SETEXT'', ''setCext_setExt''), (''SETCEXT_SETQUALF'', ''setCext_setQualf''),
    (''SETCEXT_PGWYCAPABILITIES'', ''setCext_PGWYcapabilities'')]"

definition nid_8 :: "(string \<times> string) list" where
  "nid_8 =
   [
    (''SETCEXT_TOKENIDENTIFIER'', ''setCext_TokenIdentifier''), (''SETCEXT_TRACK2DATA'', ''setCext_Track2Data''),
    (''SETCEXT_TOKENTYPE'', ''setCext_TokenType''),
    (''SETCEXT_ISSUERCAPABILITIES'', ''setCext_IssuerCapabilities''), (''SETATTR_CERT'', ''setAttr_Cert''),
    (''SETATTR_PGWYCAP'', ''setAttr_PGWYcap''), (''SETATTR_TOKENTYPE'', ''setAttr_TokenType''),
    (''SETATTR_ISSCAP'', ''setAttr_IssCap''), (''SET_ROOTKEYTHUMB'', ''set_rootKeyThumb''),
    (''SET_ADDPOLICY'', ''set_addPolicy''), (''SETATTR_TOKEN_EMV'', ''setAttr_Token_EMV''),
    (''SETATTR_TOKEN_B0PRIME'', ''setAttr_Token_B0Prime''), (''SETATTR_ISSCAP_CVM'', ''setAttr_IssCap_CVM''),
    (''SETATTR_ISSCAP_T2'', ''setAttr_IssCap_T2''), (''SETATTR_ISSCAP_SIG'', ''setAttr_IssCap_Sig''),
    (''SETATTR_GENCRYPTGRM'', ''setAttr_GenCryptgrm''), (''SETATTR_T2ENC'', ''setAttr_T2Enc''),
    (''SETATTR_T2CLEARTXT'', ''setAttr_T2cleartxt''), (''SETATTR_TOKICCSIG'', ''setAttr_TokICCsig''),
    (''SETATTR_SECDEVSIG'', ''setAttr_SecDevSig''), (''SET_BRAND_IATA_ATA'', ''set_brand_IATA_ATA''),
    (''SET_BRAND_DINERS'', ''set_brand_Diners''), (''SET_BRAND_AMERICANEXPRESS'', ''set_brand_AmericanExpress''),
    (''SET_BRAND_JCB'', ''set_brand_JCB''), (''SET_BRAND_VISA'', ''set_brand_Visa''),
    (''SET_BRAND_MASTERCARD'', ''set_brand_MasterCard''), (''SET_BRAND_NOVUS'', ''set_brand_Novus''),
    (''DES_CDMF'', ''des_cdmf''), (''RSAOAEPENCRYPTIONSET'', ''rsaOAEPEncryptionSET''), (''IPSEC3'', ''ipsec3''),
    (''IPSEC4'', ''ipsec4''), (''WHIRLPOOL'', ''whirlpool''), (''CRYPTOPRO'', ''cryptopro''),
    (''CRYPTOCOM'', ''cryptocom''),
    (''ID_GOSTR3411_94_WITH_GOSTR3410_2001'', ''id_GostR3411_94_with_GostR3410_2001''),
    (''ID_GOSTR3411_94_WITH_GOSTR3410_94'', ''id_GostR3411_94_with_GostR3410_94''),
    (''ID_GOSTR3411_94'', ''id_GostR3411_94''), (''ID_HMACGOSTR3411_94'', ''id_HMACGostR3411_94''),
    (''ID_GOSTR3410_2001'', ''id_GostR3410_2001''), (''ID_GOSTR3410_94'', ''id_GostR3410_94''),
    (''ID_GOST28147_89'', ''id_Gost28147_89''), (''GOST89_CNT'', ''gost89_cnt''),
    (''ID_GOST28147_89_MAC'', ''id_Gost28147_89_MAC''), (''ID_GOSTR3411_94_PRF'', ''id_GostR3411_94_prf''),
    (''ID_GOSTR3410_2001DH'', ''id_GostR3410_2001DH''), (''ID_GOSTR3410_94DH'', ''id_GostR3410_94DH''),
    (''ID_GOST28147_89_CRYPTOPRO_KEYMESHING'', ''id_Gost28147_89_CryptoPro_KeyMeshing''),
    (''ID_GOST28147_89_NONE_KEYMESHING'', ''id_Gost28147_89_None_KeyMeshing''),
    (''ID_GOSTR3411_94_TESTPARAMSET'', ''id_GostR3411_94_TestParamSet''),
    (''ID_GOSTR3411_94_CRYPTOPROPARAMSET'', ''id_GostR3411_94_CryptoProParamSet''),
    (''ID_GOST28147_89_TESTPARAMSET'', ''id_Gost28147_89_TestParamSet''),
    (''ID_GOST28147_89_CRYPTOPRO_A_PARAMSET'', ''id_Gost28147_89_CryptoPro_A_ParamSet''),
    (''ID_GOST28147_89_CRYPTOPRO_B_PARAMSET'', ''id_Gost28147_89_CryptoPro_B_ParamSet''),
    (''ID_GOST28147_89_CRYPTOPRO_C_PARAMSET'', ''id_Gost28147_89_CryptoPro_C_ParamSet''),
    (''ID_GOST28147_89_CRYPTOPRO_D_PARAMSET'', ''id_Gost28147_89_CryptoPro_D_ParamSet''),
    (''ID_GOST28147_89_CRYPTOPRO_OSCAR_1_1_PARAMSET'', ''id_Gost28147_89_CryptoPro_Oscar_1_1_ParamSet''),
    (''ID_GOST28147_89_CRYPTOPRO_OSCAR_1_0_PARAMSET'', ''id_Gost28147_89_CryptoPro_Oscar_1_0_ParamSet''),
    (''ID_GOST28147_89_CRYPTOPRO_RIC_1_PARAMSET'', ''id_Gost28147_89_CryptoPro_RIC_1_ParamSet''),
    (''ID_GOSTR3410_94_TESTPARAMSET'', ''id_GostR3410_94_TestParamSet''),
    (''ID_GOSTR3410_94_CRYPTOPRO_A_PARAMSET'', ''id_GostR3410_94_CryptoPro_A_ParamSet''),
    (''ID_GOSTR3410_94_CRYPTOPRO_B_PARAMSET'', ''id_GostR3410_94_CryptoPro_B_ParamSet''),
    (''ID_GOSTR3410_94_CRYPTOPRO_C_PARAMSET'', ''id_GostR3410_94_CryptoPro_C_ParamSet''),
    (''ID_GOSTR3410_94_CRYPTOPRO_D_PARAMSET'', ''id_GostR3410_94_CryptoPro_D_ParamSet''),
    (''ID_GOSTR3410_94_CRYPTOPRO_XCHA_PARAMSET'', ''id_GostR3410_94_CryptoPro_XchA_ParamSet''),
    (''ID_GOSTR3410_94_CRYPTOPRO_XCHB_PARAMSET'', ''id_GostR3410_94_CryptoPro_XchB_ParamSet''),
    (''ID_GOSTR3410_94_CRYPTOPRO_XCHC_PARAMSET'', ''id_GostR3410_94_CryptoPro_XchC_ParamSet''),
    (''ID_GOSTR3410_2001_TESTPARAMSET'', ''id_GostR3410_2001_TestParamSet''),
    (''ID_GOSTR3410_2001_CRYPTOPRO_A_PARAMSET'', ''id_GostR3410_2001_CryptoPro_A_ParamSet''),
    (''ID_GOSTR3410_2001_CRYPTOPRO_B_PARAMSET'', ''id_GostR3410_2001_CryptoPro_B_ParamSet''),
    (''ID_GOSTR3410_2001_CRYPTOPRO_C_PARAMSET'', ''id_GostR3410_2001_CryptoPro_C_ParamSet''),
    (''ID_GOSTR3410_2001_CRYPTOPRO_XCHA_PARAMSET'', ''id_GostR3410_2001_CryptoPro_XchA_ParamSet''),
    (''ID_GOSTR3410_2001_CRYPTOPRO_XCHB_PARAMSET'', ''id_GostR3410_2001_CryptoPro_XchB_ParamSet''),
    (''ID_GOSTR3410_94_A'', ''id_GostR3410_94_a''), (''ID_GOSTR3410_94_ABIS'', ''id_GostR3410_94_aBis''),
    (''ID_GOSTR3410_94_B'', ''id_GostR3410_94_b''), (''ID_GOSTR3410_94_BBIS'', ''id_GostR3410_94_bBis''),
    (''ID_GOST28147_89_CC'', ''id_Gost28147_89_cc''), (''ID_GOSTR3410_94_CC'', ''id_GostR3410_94_cc''),
    (''ID_GOSTR3410_2001_CC'', ''id_GostR3410_2001_cc''),
    (''ID_GOSTR3411_94_WITH_GOSTR3410_94_CC'', ''id_GostR3411_94_with_GostR3410_94_cc''),
    (''ID_GOSTR3411_94_WITH_GOSTR3410_2001_CC'', ''id_GostR3411_94_with_GostR3410_2001_cc''),
    (''ID_GOSTR3410_2001_PARAMSET_CC'', ''id_GostR3410_2001_ParamSet_cc''),
    (''CAMELLIA_128_CBC'', ''camellia_128_cbc''), (''CAMELLIA_192_CBC'', ''camellia_192_cbc''),
    (''CAMELLIA_256_CBC'', ''camellia_256_cbc''), (''ID_CAMELLIA128_WRAP'', ''id_camellia128_wrap''),
    (''ID_CAMELLIA192_WRAP'', ''id_camellia192_wrap''), (''ID_CAMELLIA256_WRAP'', ''id_camellia256_wrap''),
    (''CAMELLIA_128_ECB'', ''camellia_128_ecb''), (''CAMELLIA_128_OFB128'', ''camellia_128_ofb128''),
    (''CAMELLIA_128_CFB128'', ''camellia_128_cfb128''), (''CAMELLIA_192_ECB'', ''camellia_192_ecb''),
    (''CAMELLIA_192_OFB128'', ''camellia_192_ofb128''), (''CAMELLIA_192_CFB128'', ''camellia_192_cfb128''),
    (''CAMELLIA_256_ECB'', ''camellia_256_ecb''), (''CAMELLIA_256_OFB128'', ''camellia_256_ofb128''),
    (''CAMELLIA_256_CFB128'', ''camellia_256_cfb128''), (''CAMELLIA_128_CFB1'', ''camellia_128_cfb1''),
    (''CAMELLIA_192_CFB1'', ''camellia_192_cfb1''), (''CAMELLIA_256_CFB1'', ''camellia_256_cfb1''),
    (''CAMELLIA_128_CFB8'', ''camellia_128_cfb8''), (''CAMELLIA_192_CFB8'', ''camellia_192_cfb8''),
    (''CAMELLIA_256_CFB8'', ''camellia_256_cfb8''), (''KISA'', ''kisa''), (''SEED_ECB'', ''seed_ecb''),
    (''SEED_CBC'', ''seed_cbc''), (''SEED_CFB128'', ''seed_cfb128''), (''SEED_OFB128'', ''seed_ofb128''),
    (''HMAC'', ''hmac''), (''CMAC'', ''cmac''), (''RC4_HMAC_MD5'', ''rc4_hmac_md5''),
    (''AES_128_CBC_HMAC_SHA1'', ''aes_128_cbc_hmac_sha1''), (''AES_192_CBC_HMAC_SHA1'', ''aes_192_cbc_hmac_sha1''),
    (''AES_256_CBC_HMAC_SHA1'', ''aes_256_cbc_hmac_sha1'')]"

definition nids :: "(string \<times> string) list" where
  "nids = nid_1 @ nid_2 @ nid_3 @ nid_4 @ nid_5 @ nid_6 @ nid_7 @ nid_8"

datatype Nid = Nid (Nid_as_raw: int)

definition Nid_from_raw :: "int \<Rightarrow> Nid" where
  "Nid_from_raw raw = Nid raw"

definition nid_const :: "string \<Rightarrow> Nid option" where
  "nid_const name = Option.bind (map_of nids name) (\<lambda>c. map_option Nid (map_of NIDs c))"

subsection \<open>The names\<close>

definition upcase :: "char \<Rightarrow> char" where
  "upcase c = (let n = of_char c :: nat in if 97 \<le> n \<and> n \<le> 122 then char_of (n - 32) else c)"

lemma upcase_letters:
  "upcase CHR ''a'' = CHR ''A''" "upcase CHR ''b'' = CHR ''B''" "upcase CHR ''c'' = CHR ''C''" "upcase CHR ''d'' = CHR ''D''"
  "upcase CHR ''e'' = CHR ''E''" "upcase CHR ''f'' = CHR ''F''" "upcase CHR ''g'' = CHR ''G''" "upcase CHR ''h'' = CHR ''H''"
  "upcase CHR ''i'' = CHR ''I''" "upcase CHR ''j'' = CHR ''J''" "upcase CHR ''k'' = CHR ''K''" "upcase CHR ''l'' = CHR ''L''"
  "upcase CHR ''m'' = CHR ''M''" "upcase CHR ''n'' = CHR ''N''" "upcase CHR ''o'' = CHR ''O''" "upcase CHR ''p'' = CHR ''P''"
  "upcase CHR ''q'' = CHR ''Q''" "upcase CHR ''r'' = CHR ''R''" "upcase CHR ''s'' = CHR ''S''" "upcase CHR ''t'' = CHR ''T''"
  "upcase CHR ''u'' = CHR ''U''" "upcase CHR ''v'' = CHR ''V''" "upcase CHR ''w'' = CHR ''W''" "upcase CHR ''x'' = CHR ''X''"
  "upcase CHR ''y'' = CHR ''Y''" "upcase CHR ''z'' = CHR ''Z''" "upcase CHR ''A'' = CHR ''A''" "upcase CHR ''B'' = CHR ''B''"
  "upcase CHR ''C'' = CHR ''C''" "upcase CHR ''D'' = CHR ''D''" "upcase CHR ''E'' = CHR ''E''" "upcase CHR ''F'' = CHR ''F''"
  "upcase CHR ''G'' = CHR ''G''" "upcase CHR ''H'' = CHR ''H''" "upcase CHR ''I'' = CHR ''I''" "upcase CHR ''J'' = CHR ''J''"
  "upcase CHR ''K'' = CHR ''K''" "upcase CHR ''L'' = CHR ''L''" "upcase CHR ''M'' = CHR ''M''" "upcase CHR ''N'' = CHR ''N''"
  "upcase CHR ''O'' = CHR ''O''" "upcase CHR ''P'' = CHR ''P''" "upcase CHR ''Q'' = CHR ''Q''" "upcase CHR ''R'' = CHR ''R''"
  "upcase CHR ''S'' = CHR ''S''" "upcase CHR ''T'' = CHR ''T''" "upcase CHR ''U'' = CHR ''U''" "upcase CHR ''V'' = CHR ''V''"
  "upcase CHR ''W'' = CHR ''W''" "upcase CHR ''X'' = CHR ''X''" "upcase CHR ''Y'' = CHR ''Y''" "upcase CHR ''Z'' = CHR ''Z''"
  "upcase CHR ''0'' = CHR ''0''" "upcase CHR ''1'' = CHR ''1''" "upcase CHR ''2'' = CHR ''2''" "upcase CHR ''3'' = CHR ''3''"
  "upcase CHR ''4'' = CHR ''4''" "upcase CHR ''5'' = CHR ''5''" "upcase CHR ''6'' = CHR ''6''" "upcase CHR ''7'' = CHR ''7''"
  "upcase CHR ''8'' = CHR ''8''" "upcase CHR ''9'' = CHR ''9''" "upcase CHR ''_'' = CHR ''_''"
  by (simp_all add: upcase_def char_of_def bit_0)

lemmas nid_table_defs = NID_1_def nid_1_def NID_2_def nid_2_def NID_3_def nid_3_def NID_4_def nid_4_def NID_5_def nid_5_def NID_6_def nid_6_def NID_7_def nid_7_def NID_8_def nid_8_def

lemma nid_names_upper:
  "map fst nid_1 = map (map upcase \<circ> fst) NID_1"
  "map fst nid_2 = map (map upcase \<circ> fst) NID_2"
  "map fst nid_3 = map (map upcase \<circ> fst) NID_3"
  "map fst nid_4 = map (map upcase \<circ> fst) NID_4"
  "map fst nid_5 = map (map upcase \<circ> fst) NID_5"
  "map fst nid_6 = map (map upcase \<circ> fst) NID_6"
  "map fst nid_7 = map (map upcase \<circ> fst) NID_7"
  "map fst nid_8 = map (map upcase \<circ> fst) NID_8"
  by (simp_all add: nid_table_defs upcase_letters)

lemma nid_names_same:
  "map snd nid_1 = map fst NID_1"
  "map snd nid_2 = map fst NID_2"
  "map snd nid_3 = map fst NID_3"
  "map snd nid_4 = map fst NID_4"
  "map snd nid_5 = map fst NID_5"
  "map snd nid_6 = map fst NID_6"
  "map snd nid_7 = map fst NID_7"
  "map snd nid_8 = map fst NID_8"
  by (simp_all add: nid_table_defs)

lemma nids_aligned: "map fst nids = map (map upcase \<circ> fst) NIDs" "map snd nids = map fst NIDs"
  by (simp_all only: nids_def NIDs_def map_append nid_names_upper nid_names_same)

subsection \<open>The numbers\<close>

text \<open>Distinctness of a long list is checked on its sorted form.\<close>

fun merge :: "int list \<Rightarrow> int list \<Rightarrow> int list" where
  "merge [] ys = ys"
| "merge xs [] = xs"
| "merge (x # xs) (y # ys) = (if x \<le> y then x # merge xs (y # ys) else y # merge (x # xs) ys)"

fun merge_pairs :: "int list list \<Rightarrow> int list list" where
  "merge_pairs (xs # ys # xss) = merge xs ys # merge_pairs xss"
| "merge_pairs xss = xss"

lemma length_merge_pairs: "length (merge_pairs xss) \<le> length xss"
  by (induction xss rule: merge_pairs.induct) auto

function merge_all :: "int list list \<Rightarrow> int list" where
  "merge_all [] = []"
| "merge_all [xs] = xs"
| "merge_all (xs # ys # xss) = merge_all (merge xs ys # merge_pairs xss)"
  by pat_completeness auto
termination by (relation "measure length") (auto simp: length_merge_pairs less_Suc_eq_le)

lemma mset_merge: "mset (merge xs ys) = mset xs + mset ys"
  by (induction xs ys rule: merge.induct) auto

lemma mset_merge_pairs: "sum_list (map mset (merge_pairs xss)) = sum_list (map mset xss)"
  by (induction xss rule: merge_pairs.induct) (auto simp: mset_merge)

lemma mset_merge_all: "mset (merge_all xss) = sum_list (map mset xss)"
  by (induction xss rule: merge_all.induct) (auto simp: mset_merge mset_merge_pairs)

fun ascending :: "int list \<Rightarrow> bool" where
  "ascending (x # y # ys) = (x < y \<and> ascending (y # ys))"
| "ascending _ = True"

lemma ascending_distinct: "ascending xs \<Longrightarrow> distinct xs"
proof -
  have "ascending xs \<Longrightarrow> sorted_wrt (<) xs"
    by (induction xs rule: ascending.induct) (auto intro: less_trans)
  then show "ascending xs \<Longrightarrow> distinct xs" by (simp add: strict_sorted_iff)
qed

lemma distinct_by_sorting:
  assumes "ascending (merge_all (map (\<lambda>x. [x]) ns))"
  shows "distinct ns"
proof -
  have "sum_list (map (\<lambda>x. {#x#}) ns) = mset ns" by (induction ns) auto
  then have "mset (merge_all (map (\<lambda>x. [x]) ns)) = mset ns" by (simp add: mset_merge_all comp_def)
  with ascending_distinct [OF assms] show ?thesis using mset_eq_imp_distinct_iff by blast
qed

lemma numbers_sorted: "ascending (merge_all (map (\<lambda>x. [x]) (map snd NIDs)))"
  unfolding NIDs_def by code_simp

lemma numbers_distinct: "distinct (map snd NIDs)"
  by (rule distinct_by_sorting [OF numbers_sorted])

subsection \<open>Looking constants up\<close>

lemma numbers_inj: "(c, n) \<in> set NIDs \<Longrightarrow> (c', n) \<in> set NIDs \<Longrightarrow> c = c'"
proof -
  have "inj_on snd (set NIDs)" using numbers_distinct by (simp add: distinct_map)
  from inj_onD [OF this, of "(c, n)" "(c', n)"]
  show "(c, n) \<in> set NIDs \<Longrightarrow> (c', n) \<in> set NIDs \<Longrightarrow> c = c'" by simp
qed

lemma nids_upper: "(r, c) \<in> set nids \<Longrightarrow> r = map upcase c"
proof -
  have "map fst nids = map (map upcase \<circ> snd) nids"
    using nids_aligned by (metis map_map)
  then show "(r, c) \<in> set nids \<Longrightarrow> r = map upcase c" by (auto simp: map_eq_conv)
qed

lemma nid_constD:
  assumes "nid_const r = Some v"
  shows "\<exists>c. (c, Nid_as_raw v) \<in> set NIDs \<and> r = map upcase c"
  using assms by (auto simp: nid_const_def bind_eq_Some_conv dest!: map_of_SomeD nids_upper)

text \<open>
  The constants of \<open>nid.rs\<close>: each is defined, as the number of the C constant whose name is its own
  up to case, and no two of them are the same number, so that comparing identifiers tells objects apart.
\<close>

lemma nid_constants_exact:
  "list_all (\<lambda>(r, c). r = map upcase c \<and> nid_const r \<noteq> None) nids \<and> inj_on nid_const (fst ` set nids)"
proof
  have "nid_const r \<noteq> None" if "r \<in> fst ` set nids" for r
  proof -
    obtain c where c: "map_of nids r = Some c" "(r, c) \<in> set nids"
      using \<open>r \<in> fst ` set nids\<close> by (metis map_of_SomeD map_of_eq_None_iff option.exhaust)
    then have "c \<in> snd ` set nids" by force
    then have "c \<in> fst ` set NIDs" by (metis list.set_map nids_aligned(2))
    then have "map_of NIDs c \<noteq> None" by (simp add: map_of_eq_None_iff)
    with c show ?thesis by (auto simp: nid_const_def)
  qed
  note total = this
  show "list_all (\<lambda>(r, c). r = map upcase c \<and> nid_const r \<noteq> None) nids"
    unfolding list_all_iff
  proof (rule ballI, rule case_prodI2, intro conjI)
    fix x r c assume "x \<in> set nids" "x = (r, c)"
    then show "r = map upcase c" "nid_const r \<noteq> None"
      using nids_upper [of r c] total [of r] image_eqI [of r fst x] by simp_all
  qed
  show "inj_on nid_const (fst ` set nids)"
  proof (rule inj_onI)
    fix r r' assume r: "r \<in> fst ` set nids" and eq: "nid_const r = nid_const r'"
    from total [OF r] obtain v where v: "nid_const r = Some v" by blast
    with eq nid_constD [of r v] nid_constD [of r' v] show "r = r'" by (auto dest: numbers_inj)
  qed
qed

text \<open>The constants the certificate code uses are those of the tables.\<close>

lemma nid_constants_used:
  "(''commonName'', COMMONNAME) \<in> set NID_5"
  "(''countryName'', COUNTRYNAME) \<in> set NID_5"
  "(''stateOrProvinceName'', STATEORPROVINCENAME) \<in> set NID_5"
  "(''organizationName'', ORGANIZATIONNAME) \<in> set NID_5"
  "(''subject_alt_name'', SUBJECT_ALT_NAME) \<in> set NID_5"
  "(''key_usage'', KEY_USAGE) \<in> set NID_5"
  "(''basic_constraints'', BASIC_CONSTRAINTS) \<in> set NID_5"
  "(''ext_key_usage'', EXT_KEY_USAGE) \<in> set NID_5"
  by (simp_all add: nid_defs NID_5_def)

end
