(* ===== verification/Ossl_Sys.thy ===== *)
theory Ossl_Sys
  imports Ossl_Callbacks Ossl_Asn1 Ossl_Nid
begin

text \<open>
  The C macros that \<open>openssl-sys/src/lib.rs\<close> writes out as Rust functions: each is a call of one of the
  generic control functions with the number of the command. The wrappers of the crate, modelled as
  calls of the control functions, are shown to be these macros with the result checked. The numbers of
  the verification errors are here too.
\<close>

subsection \<open>Control macros\<close>

definition BIO_get_mem_data :: "'w ffi \<Rightarrow> cval \<Rightarrow> ('w, 'e, cret) eff" where
  "BIO_get_mem_data F b = ccall F ''BIO_ctrl'' [b, CInt BIO_CTRL_INFO, CInt 0]"

definition SSL_CTX_set_mode :: "'w ffi \<Rightarrow> cval \<Rightarrow> int \<Rightarrow> ('w, 'e, cret) eff" where
  "SSL_CTX_set_mode F ctx op = ccall F ''SSL_CTX_ctrl'' [ctx, CInt SSL_CTRL_MODE, CInt op, CNull]"

definition SSL_CTX_set_read_ahead :: "'w ffi \<Rightarrow> cval \<Rightarrow> int \<Rightarrow> ('w, 'e, cret) eff" where
  "SSL_CTX_set_read_ahead F ctx m = ccall F ''SSL_CTX_ctrl'' [ctx, CInt SSL_CTRL_SET_READ_AHEAD, CInt m, CNull]"

definition SSL_CTX_set_tmp_dh :: "'w ffi \<Rightarrow> cval \<Rightarrow> cval \<Rightarrow> ('w, 'e, cret) eff" where
  "SSL_CTX_set_tmp_dh F ctx dh = ccall F ''SSL_CTX_ctrl'' [ctx, CInt SSL_CTRL_SET_TMP_DH, CInt 0, dh]"

definition SSL_CTX_set_tmp_ecdh :: "'w ffi \<Rightarrow> cval \<Rightarrow> cval \<Rightarrow> ('w, 'e, cret) eff" where
  "SSL_CTX_set_tmp_ecdh F ctx key = ccall F ''SSL_CTX_ctrl'' [ctx, CInt SSL_CTRL_SET_TMP_ECDH, CInt 0, key]"

definition SSL_set_tmp_dh :: "'w ffi \<Rightarrow> cval \<Rightarrow> cval \<Rightarrow> ('w, 'e, cret) eff" where
  "SSL_set_tmp_dh F ssl dh = ccall F ''SSL_ctrl'' [ssl, CInt SSL_CTRL_SET_TMP_DH, CInt 0, dh]"

definition SSL_set_tmp_ecdh :: "'w ffi \<Rightarrow> cval \<Rightarrow> cval \<Rightarrow> ('w, 'e, cret) eff" where
  "SSL_set_tmp_ecdh F ssl key = ccall F ''SSL_ctrl'' [ssl, CInt SSL_CTRL_SET_TMP_ECDH, CInt 0, key]"

definition SSL_CTX_add_extra_chain_cert :: "'w ffi \<Rightarrow> cval \<Rightarrow> cval \<Rightarrow> ('w, 'e, cret) eff" where
  "SSL_CTX_add_extra_chain_cert F ctx x509 = ccall F ''SSL_CTX_ctrl'' [ctx, CInt SSL_CTRL_EXTRA_CHAIN_CERT, CInt 0, x509]"

definition SSL_CTX_set0_verify_cert_store :: "'w ffi \<Rightarrow> cval \<Rightarrow> cval \<Rightarrow> ('w, 'e, cret) eff" where
  "SSL_CTX_set0_verify_cert_store F ctx st =
     ccall F ''SSL_CTX_ctrl'' [ctx, CInt SSL_CTRL_SET_VERIFY_CERT_STORE, CInt 0, st]"

definition SSL_CTX_set_tlsext_servername_callback :: "'w ffi \<Rightarrow> cval \<Rightarrow> cval \<Rightarrow> ('w, 'e, cret) eff" where
  "SSL_CTX_set_tlsext_servername_callback F ctx cb =
     ccall F ''SSL_CTX_callback_ctrl'' [ctx, CInt SSL_CTRL_SET_TLSEXT_SERVERNAME_CB, cb]"

definition SSL_set_tlsext_host_name :: "'w ffi \<Rightarrow> cval \<Rightarrow> cval \<Rightarrow> ('w, 'e, cret) eff" where
  "SSL_set_tlsext_host_name F s name =
     ccall F ''SSL_ctrl'' [s, CInt SSL_CTRL_SET_TLSEXT_HOSTNAME, CInt TLSEXT_NAMETYPE_host_name, name]"

definition SSL_set_tlsext_status_type :: "'w ffi \<Rightarrow> cval \<Rightarrow> int \<Rightarrow> ('w, 'e, cret) eff" where
  "SSL_set_tlsext_status_type F s ty = ccall F ''SSL_ctrl'' [s, CInt SSL_CTRL_SET_TLSEXT_STATUS_REQ_TYPE, CInt ty, CNull]"

definition SSL_CTX_set_tlsext_status_cb :: "'w ffi \<Rightarrow> cval \<Rightarrow> cval \<Rightarrow> ('w, 'e, cret) eff" where
  "SSL_CTX_set_tlsext_status_cb F ctx cb =
     ccall F ''SSL_CTX_callback_ctrl'' [ctx, CInt SSL_CTRL_SET_TLSEXT_STATUS_REQ_CB, cb]"

definition SSL_CTRL_SET_TLSEXT_STATUS_REQ_CB_ARG :: int where "SSL_CTRL_SET_TLSEXT_STATUS_REQ_CB_ARG = 64"

definition SSL_CTX_set_tlsext_status_arg :: "'w ffi \<Rightarrow> cval \<Rightarrow> cval \<Rightarrow> ('w, 'e, cret) eff" where
  "SSL_CTX_set_tlsext_status_arg F ctx arg =
     ccall F ''SSL_CTX_ctrl'' [ctx, CInt SSL_CTRL_SET_TLSEXT_STATUS_REQ_CB_ARG, CInt 0, arg]"

definition SSL_CTX_get_extra_chain_certs :: "'w ffi \<Rightarrow> cval \<Rightarrow> ('w, 'e, cret) eff" where
  "SSL_CTX_get_extra_chain_certs F ctx = ccall F ''SSL_CTX_ctrl'' [ctx, CInt SSL_CTRL_GET_EXTRA_CHAIN_CERTS, CInt 0]"

definition SSL_get_tlsext_status_ocsp_resp :: "'w ffi \<Rightarrow> cval \<Rightarrow> ('w, 'e, cret) eff" where
  "SSL_get_tlsext_status_ocsp_resp F ssl =
     ccall F ''SSL_ctrl'' [ssl, CInt SSL_CTRL_GET_TLSEXT_STATUS_REQ_OCSP_RESP, CInt 0]"

definition SSL_set_tlsext_status_ocsp_resp :: "'w ffi \<Rightarrow> cval \<Rightarrow> cval \<Rightarrow> int \<Rightarrow> ('w, 'e, cret) eff" where
  "SSL_set_tlsext_status_ocsp_resp F ssl resp len =
     ccall F ''SSL_ctrl'' [ssl, CInt SSL_CTRL_SET_TLSEXT_STATUS_REQ_OCSP_RESP, CInt len, resp]"

lemmas macro_defs = BIO_get_mem_data_def SSL_CTX_set_mode_def SSL_CTX_set_read_ahead_def SSL_CTX_set_tmp_dh_def
  SSL_CTX_set_tmp_ecdh_def SSL_set_tmp_dh_def SSL_set_tmp_ecdh_def SSL_CTX_add_extra_chain_cert_def
  SSL_CTX_set0_verify_cert_store_def SSL_set_tlsext_host_name_def SSL_set_tlsext_status_type_def
  SSL_CTX_get_extra_chain_certs_def SSL_get_tlsext_status_ocsp_resp_def SSL_set_tlsext_status_ocsp_resp_def

text \<open>\<open>cvt(m as c_int)\<close>.\<close>

definition cvt_long :: "'w ffi \<Rightarrow> ('w, error_stack, cret) eff \<Rightarrow> ('w, error_stack, unit) eff" where
  "cvt_long F m = and_then m (\<lambda>(r, _). and_then (cvt F (CInt (as_c_int (c_int r)))) (\<lambda>_. ret ()))"

lemma call_l_macro: "call_l F f args = cvt_long F (ccall F f args)"
  by (simp add: call_l_def cvt_long_def)

lemma wrappers_are_macros:
  "set_mode F ctx mode = and_then (SSL_CTX_set_mode F ctx (sint mode)) (\<lambda>(r, _). from_bits SslMode_all (c_int r))"
  "set_read_ahead F ctx b = and_then (SSL_CTX_set_read_ahead F ctx (if b then 1 else 0)) (\<lambda>_. ret ())"
  "set_tmp_dh F ctx dh = cvt_long F (SSL_CTX_set_tmp_dh F ctx dh)"
  "set_tmp_ecdh F ctx key = cvt_long F (SSL_CTX_set_tmp_ecdh F ctx key)"
  "ssl_set_tmp_dh F ssl dh = cvt_long F (SSL_set_tmp_dh F ssl dh)"
  "ssl_set_tmp_ecdh F ssl key = cvt_long F (SSL_set_tmp_ecdh F ssl key)"
  "add_extra_chain_cert F ctx cert =
     owning (call_v F ''X509_free'' [cert]) (cvt_long F (SSL_CTX_add_extra_chain_cert F ctx cert))"
  "set_verify_cert_store F ctx st =
     owning (call_v F ''X509_STORE_free'' [st]) (cvt_long F (SSL_CTX_set0_verify_cert_store F ctx st))"
  "set_hostname F ssl h = and_then (c_string h) (\<lambda>cstr. cvt_long F (SSL_set_tlsext_host_name F ssl cstr))"
  "set_status_type F ssl ty = cvt_long F (SSL_set_tlsext_status_type F ssl ty)"
  "extra_chain_certs F ctx = and_then (SSL_CTX_get_extra_chain_certs F ctx) (\<lambda>(_, os).
     and_then (assert_that (out os 0 \<noteq> CNull)) (\<lambda>_. ret (out os 0)))"
  "ocsp_status F ssl = and_then (SSL_get_tlsext_status_ocsp_resp F ssl) (\<lambda>(len, os).
     ret (if c_int len < 0 then None else Some (take (nat (c_int len)) (c_bytes (out os 0)))))"
  "MemBio_get_buf F bio = and_then (BIO_get_mem_data F bio) (\<lambda>(len, os). ret (take (nat (c_int len)) (c_bytes (out os 0))))"
  by (simp_all only: macro_defs call_l_macro call_v_def set_mode_def set_read_ahead_def set_tmp_dh_def set_tmp_ecdh_def
      ssl_set_tmp_dh_def ssl_set_tmp_ecdh_def add_extra_chain_cert_def set_verify_cert_store_def set_hostname_def
      set_status_type_def extra_chain_certs_def ocsp_status_def MemBio_get_buf_def)

subsection \<open>Verification errors\<close>

definition X509_V_ERR :: "(string \<times> int) list" where
  "X509_V_ERR =
   [
    (''X509_V_ERR_AKID_ISSUER_SERIAL_MISMATCH'', 31), (''X509_V_ERR_AKID_SKID_MISMATCH'', 30),
    (''X509_V_ERR_APPLICATION_VERIFICATION'', 50), (''X509_V_ERR_CERT_CHAIN_TOO_LONG'', 22),
    (''X509_V_ERR_CERT_HAS_EXPIRED'', 10), (''X509_V_ERR_CERT_NOT_YET_VALID'', 9),
    (''X509_V_ERR_CERT_REJECTED'', 28), (''X509_V_ERR_CERT_REVOKED'', 23),
    (''X509_V_ERR_CERT_SIGNATURE_FAILURE'', 7), (''X509_V_ERR_CERT_UNTRUSTED'', 27),
    (''X509_V_ERR_CRL_HAS_EXPIRED'', 12), (''X509_V_ERR_CRL_NOT_YET_VALID'', 11),
    (''X509_V_ERR_CRL_PATH_VALIDATION_ERROR'', 54), (''X509_V_ERR_CRL_SIGNATURE_FAILURE'', 8),
    (''X509_V_ERR_DEPTH_ZERO_SELF_SIGNED_CERT'', 18), (''X509_V_ERR_DIFFERENT_CRL_SCOPE'', 44),
    (''X509_V_ERR_ERROR_IN_CERT_NOT_AFTER_FIELD'', 14), (''X509_V_ERR_ERROR_IN_CERT_NOT_BEFORE_FIELD'', 13),
    (''X509_V_ERR_ERROR_IN_CRL_LAST_UPDATE_FIELD'', 15), (''X509_V_ERR_ERROR_IN_CRL_NEXT_UPDATE_FIELD'', 16),
    (''X509_V_ERR_EXCLUDED_VIOLATION'', 48), (''X509_V_ERR_INVALID_CA'', 24),
    (''X509_V_ERR_INVALID_EXTENSION'', 41), (''X509_V_ERR_INVALID_NON_CA'', 37),
    (''X509_V_ERR_INVALID_POLICY_EXTENSION'', 42), (''X509_V_ERR_INVALID_PURPOSE'', 26),
    (''X509_V_ERR_KEYUSAGE_NO_CERTSIGN'', 32), (''X509_V_ERR_KEYUSAGE_NO_CRL_SIGN'', 35),
    (''X509_V_ERR_KEYUSAGE_NO_DIGITAL_SIGNATURE'', 39), (''X509_V_ERR_NO_EXPLICIT_POLICY'', 43),
    (''X509_V_ERR_OUT_OF_MEM'', 17), (''X509_V_ERR_PATH_LENGTH_EXCEEDED'', 25),
    (''X509_V_ERR_PERMITTED_VIOLATION'', 47), (''X509_V_ERR_PROXY_CERTIFICATES_NOT_ALLOWED'', 40),
    (''X509_V_ERR_PROXY_PATH_LENGTH_EXCEEDED'', 38), (''X509_V_ERR_SELF_SIGNED_CERT_IN_CHAIN'', 19),
    (''X509_V_ERR_SUBJECT_ISSUER_MISMATCH'', 29), (''X509_V_ERR_SUBTREE_MINMAX'', 49),
    (''X509_V_ERR_UNABLE_TO_DECODE_ISSUER_PUBLIC_KEY'', 6), (''X509_V_ERR_UNABLE_TO_DECRYPT_CERT_SIGNATURE'', 4),
    (''X509_V_ERR_UNABLE_TO_DECRYPT_CRL_SIGNATURE'', 5), (''X509_V_ERR_UNABLE_TO_GET_CRL'', 3),
    (''X509_V_ERR_UNABLE_TO_GET_CRL_ISSUER'', 33), (''X509_V_ERR_UNABLE_TO_GET_ISSUER_CERT'', 2),
    (''X509_V_ERR_UNABLE_TO_GET_ISSUER_CERT_LOCALLY'', 20), (''X509_V_ERR_UNABLE_TO_VERIFY_LEAF_SIGNATURE'', 21),
    (''X509_V_ERR_UNHANDLED_CRITICAL_CRL_EXTENSION'', 36), (''X509_V_ERR_UNHANDLED_CRITICAL_EXTENSION'', 34),
    (''X509_V_ERR_UNNESTED_RESOURCE'', 46), (''X509_V_ERR_UNSUPPORTED_CONSTRAINT_SYNTAX'', 52),
    (''X509_V_ERR_UNSUPPORTED_CONSTRAINT_TYPE'', 51), (''X509_V_ERR_UNSUPPORTED_EXTENSION_FEATURE'', 45),
    (''X509_V_ERR_UNSUPPORTED_NAME_SYNTAX'', 53)]"

text \<open>
  Every error OpenSSL can report is an error for the crate, none is taken for success, and no two are
  the same value.
\<close>

lemma verify_errors_are_errors:
  "list_all (\<lambda>(_, n). X509VerifyError_from_raw n = Some (X509VerifyError n)) X509_V_ERR \<and> distinct (map snd X509_V_ERR)"
proof
  show "list_all (\<lambda>(_, n). X509VerifyError_from_raw n = Some (X509VerifyError n)) X509_V_ERR"
    by (simp add: X509_V_ERR_def X509VerifyError_from_raw_def X509_V_OK_def)
  have "ascending (merge_all (map (\<lambda>x. [x]) (map snd X509_V_ERR)))" by code_simp
  then show "distinct (map snd X509_V_ERR)" by (rule distinct_by_sorting)
qed

end
