(* ===== verification/Ossl_Locks.thy ===== *)
theory Ossl_Locks
  imports Rust_Prelude
begin

unbundle bit_operations_syntax

text \<open>
  The locks the crate lends to OpenSSL 1.0, \<open>openssl-sys/src/ossl10x.rs\<close>. That library has no locks of
  its own: it calls \<open>locking_function\<close> with the number of a lock and with a mode that says whether to
  lock or to unlock. The crate keeps a vector of mutexes and a vector of guards, both static and both
  changed without synchronisation by every thread that calls.

  A call is a sequence of atomic actions, which run interleaved with those of other threads: taking the
  mutex, storing the guard in its slot, taking the guard out again, dropping it. The relation \<open>step\<close>
  is every interleaving of any number of threads. What OpenSSL promises is in its rules for new calls:
  the number is that of a lock, and only the thread that has a lock unlocks it.
\<close>

subsection \<open>State and actions\<close>

type_synonym thread = nat

text \<open>\<open>Acquire\<close> blocks; storing drops the old value of the slot, which unlocks its mutex if there was one.\<close>

datatype action = Acquire nat | StoreGuard nat | TakeGuard nat | DropGuard nat

record locks =
  MUTEXES :: "thread option list"
  GUARDS :: "bool list"
  todo :: "thread \<Rightarrow> action list"
  aborted :: bool

definition CRYPTO_LOCK :: int where "CRYPTO_LOCK = 1"

definition init_locks :: "nat \<Rightarrow> locks" where
  "init_locks num_locks =
     \<lparr>MUTEXES = replicate num_locks None, GUARDS = replicate num_locks False, todo = (\<lambda>_. []), aborted = False\<rparr>"

text \<open>The actions of a call; the index of a lock that does not exist panics, which aborts in C code.\<close>

definition locking_function :: "int \<Rightarrow> nat \<Rightarrow> action list" where
  "locking_function mode n =
     (if mode AND CRYPTO_LOCK \<noteq> 0 then [Acquire n, StoreGuard n] else [TakeGuard n, DropGuard n])"

fun perform :: "thread \<Rightarrow> action \<Rightarrow> locks \<Rightarrow> locks option" where
  "perform t (Acquire n) s =
     (if length (MUTEXES s) \<le> n then Some (s\<lparr>aborted := True\<rparr>)
      else if MUTEXES s ! n = None then Some (s\<lparr>MUTEXES := (MUTEXES s)[n := Some t]\<rparr>) else None)"
| "perform t (StoreGuard n) s =
     Some (s\<lparr>GUARDS := (GUARDS s)[n := True],
             MUTEXES := if GUARDS s ! n then (MUTEXES s)[n := None] else MUTEXES s\<rparr>)"
| "perform t (TakeGuard n) s =
     Some (if length (MUTEXES s) \<le> n \<or> \<not> GUARDS s ! n then s\<lparr>aborted := True\<rparr>
           else s\<lparr>GUARDS := (GUARDS s)[n := False]\<rparr>)"
| "perform t (DropGuard n) s = Some (s\<lparr>MUTEXES := (MUTEXES s)[n := None]\<rparr>)"

inductive step :: "locks \<Rightarrow> locks \<Rightarrow> bool" where
  call_lock: "todo s t = [] \<Longrightarrow> n < length (MUTEXES s) \<Longrightarrow>
     step s (s\<lparr>todo := (todo s)(t := locking_function CRYPTO_LOCK n)\<rparr>)"
| call_unlock: "todo s t = [] \<Longrightarrow> n < length (MUTEXES s) \<Longrightarrow> MUTEXES s ! n = Some t \<Longrightarrow>
     step s (s\<lparr>todo := (todo s)(t := locking_function 0 n)\<rparr>)"
| act: "todo s t = a # as \<Longrightarrow> perform t a (s\<lparr>todo := (todo s)(t := as)\<rparr>) = Some s' \<Longrightarrow> step s s'"

inductive reachable :: "nat \<Rightarrow> locks \<Rightarrow> bool" for k where
  start: "reachable k (init_locks k)"
| next_step: "reachable k s \<Longrightarrow> step s s' \<Longrightarrow> reachable k s'"

lemma locking_actions [simp]:
  "locking_function CRYPTO_LOCK n = [Acquire n, StoreGuard n]"
  "locking_function 0 n = [TakeGuard n, DropGuard n]"
  by (simp_all add: locking_function_def CRYPTO_LOCK_def)

subsection \<open>The invariant\<close>

text \<open>
  A thread is between calls, or about to lock, or has the mutex of the lock it is working on. The guard
  of a locked mutex is in its slot, unless its thread is just storing or just dropping it; the slot of
  a free mutex is empty.
\<close>

definition owns_pc :: "nat \<Rightarrow> action list \<Rightarrow> bool" where
  "owns_pc n as \<longleftrightarrow> as = [StoreGuard n] \<or> as = [TakeGuard n, DropGuard n] \<or> as = [DropGuard n]"

definition guard_pc :: "nat \<Rightarrow> action list \<Rightarrow> bool" where
  "guard_pc n as \<longleftrightarrow> as \<noteq> [StoreGuard n] \<and> as \<noteq> [DropGuard n]"

definition pc_ok :: "nat \<Rightarrow> action list \<Rightarrow> bool" where
  "pc_ok k as \<longleftrightarrow> as = [] \<or> (\<exists>n < k. as = [Acquire n, StoreGuard n] \<or> owns_pc n as)"

definition owner_ok :: "locks \<Rightarrow> nat \<Rightarrow> bool" where
  "owner_ok s n \<longleftrightarrow> (\<forall>t. owns_pc n (todo s t) \<longrightarrow> MUTEXES s ! n = Some t)"

definition slot_ok :: "locks \<Rightarrow> nat \<Rightarrow> bool" where
  "slot_ok s n \<longleftrightarrow> GUARDS s ! n = (case MUTEXES s ! n of None \<Rightarrow> False | Some t \<Rightarrow> guard_pc n (todo s t))"

definition locks_inv :: "locks \<Rightarrow> bool" where
  "locks_inv s \<longleftrightarrow>
     \<not> aborted s \<and> length (GUARDS s) = length (MUTEXES s) \<and> (\<forall>t. pc_ok (length (MUTEXES s)) (todo s t)) \<and>
     (\<forall>n < length (MUTEXES s). owner_ok s n \<and> slot_ok s n)"

lemmas pc_defs = owns_pc_def guard_pc_def

lemma locks_inv_init: "locks_inv (init_locks k)"
  by (simp add: locks_inv_def init_locks_def pc_defs pc_ok_def owner_ok_def slot_ok_def)

text \<open>A step of a thread that works on one lock keeps the invariant if it does so for that lock.\<close>

definition works_on :: "nat \<Rightarrow> action list \<Rightarrow> bool" where
  "works_on n as \<longleftrightarrow> as \<in> {[], [Acquire n, StoreGuard n], [StoreGuard n], [TakeGuard n, DropGuard n], [DropGuard n]}"

lemma works_on_other: "works_on n as \<Longrightarrow> m \<noteq> n \<Longrightarrow> \<not> owns_pc m as \<and> guard_pc m as"
  by (auto simp: works_on_def pc_defs)

lemma works_on_pc_ok: "works_on n as \<Longrightarrow> n < k \<Longrightarrow> pc_ok k as"
  by (auto simp: works_on_def pc_ok_def owns_pc_def)

lemma locks_inv_local:
  assumes inv: "locks_inv s" and n: "n < length (MUTEXES s)" "works_on n (todo s t)" "works_on n as"
    and s': "todo s' = (todo s)(t := as)" "\<not> aborted s'" "length (MUTEXES s') = length (MUTEXES s)"
      "length (GUARDS s') = length (GUARDS s)" "\<And>m. m \<noteq> n \<Longrightarrow> MUTEXES s' ! m = MUTEXES s ! m"
      "\<And>m. m \<noteq> n \<Longrightarrow> GUARDS s' ! m = GUARDS s ! m"
    and here: "owner_ok s' n" "slot_ok s' n"
  shows "locks_inv s'"
proof -
  have "owner_ok s' m \<and> slot_ok s' m" if m: "m < length (MUTEXES s)" for m
  proof (cases "m = n")
    case False
    with inv m have "owner_ok s m" "slot_ok s m" by (simp_all add: locks_inv_def)
    with False n s' works_on_other [of n _ m] show ?thesis
      by (auto simp: owner_ok_def slot_ok_def split: option.split)
  qed (use here in simp)
  with inv n s' works_on_pc_ok [OF n(3,1)] show ?thesis by (simp add: locks_inv_def)
qed

lemma pc_ok_works_on: "pc_ok k (a # as) \<Longrightarrow> \<exists>n < k. works_on n (a # as)"
  by (auto simp: pc_ok_def works_on_def owns_pc_def)

lemma locks_inv_act:
  assumes inv: "locks_inv s" and todo: "todo s t = a # as" and run: "perform t a (s\<lparr>todo := (todo s)(t := as)\<rparr>) = Some s'"
  shows "locks_inv s'"
proof -
  from inv todo have "pc_ok (length (MUTEXES s)) (a # as)" by (metis locks_inv_def)
  then obtain n where n: "n < length (MUTEXES s)" "works_on n (a # as)" using pc_ok_works_on by blast
  have own: "owner_ok s n" and slot: "slot_ok s n" and no: "\<not> aborted s" and len: "length (GUARDS s) = length (MUTEXES s)"
    using inv n by (simp_all add: locks_inv_def)
  have others: "\<forall>t'. t' \<noteq> t \<longrightarrow> \<not> owns_pc n (todo s t')" if "MUTEXES s ! n = Some t"
    using own that by (auto simp: owner_ok_def)
  note local = locks_inv_local [OF inv n(1) _ _, of t as s']
  from n(2) consider "a # as = [Acquire n, StoreGuard n]" | "a # as = [StoreGuard n]" | "a # as = [TakeGuard n, DropGuard n]"
    | "a # as = [DropGuard n]" by (auto simp: works_on_def)
  then show ?thesis
  proof cases
    case 1
    with run n have "MUTEXES s ! n = None" and s': "s' = s\<lparr>todo := (todo s)(t := as), MUTEXES := (MUTEXES s)[n := Some t]\<rparr>"
      by (auto split: if_splits)
    with 1 own slot no n len todo show ?thesis
      by (intro local) (auto simp: s' works_on_def owner_ok_def slot_ok_def pc_defs)
  next
    case 2
    then have mine: "MUTEXES s ! n = Some t" using own todo by (simp add: owner_ok_def owns_pc_def)
    with slot 2 todo have g: "\<not> GUARDS s ! n" by (simp add: slot_ok_def guard_pc_def)
    with run 2 have s': "s' = s\<lparr>todo := (todo s)(t := as), GUARDS := (GUARDS s)[n := True]\<rparr>" by auto
    show ?thesis
      by (rule local) (use 2 no n len todo mine g others [OF mine] in
        \<open>simp_all add: s' works_on_def owner_ok_def slot_ok_def owns_pc_def guard_pc_def\<close>)
  next
    case 3
    then have mine: "MUTEXES s ! n = Some t" using own todo by (simp add: owner_ok_def owns_pc_def)
    with slot 3 todo have g: "GUARDS s ! n" by (simp add: slot_ok_def guard_pc_def)
    with run 3 n have s': "s' = s\<lparr>todo := (todo s)(t := as), GUARDS := (GUARDS s)[n := False]\<rparr>" by auto
    show ?thesis
      by (rule local) (use 3 no n len todo mine g others [OF mine] in
        \<open>simp_all add: s' works_on_def owner_ok_def slot_ok_def owns_pc_def guard_pc_def\<close>)
  next
    case 4
    then have mine: "MUTEXES s ! n = Some t" using own todo by (simp add: owner_ok_def owns_pc_def)
    with slot 4 todo have g: "\<not> GUARDS s ! n" by (simp add: slot_ok_def guard_pc_def)
    from run 4 have s': "s' = s\<lparr>todo := (todo s)(t := as), MUTEXES := (MUTEXES s)[n := None]\<rparr>" by auto
    show ?thesis
      by (rule local) (use 4 no n len todo mine g others [OF mine] in
        \<open>simp_all add: s' works_on_def owner_ok_def slot_ok_def owns_pc_def guard_pc_def\<close>)
  qed
qed

lemma locks_inv_call:
  assumes inv: "locks_inv s" and n: "todo s t = []" "n < length (MUTEXES s)" and as: "works_on n as"
    and own: "owns_pc n as \<Longrightarrow> MUTEXES s ! n = Some t" and pc: "guard_pc n as"
  shows "locks_inv (s\<lparr>todo := (todo s)(t := as)\<rparr>)"
proof -
  have "owner_ok s n" "slot_ok s n" "\<not> aborted s" "works_on n (todo s t)"
    using inv n by (simp_all add: locks_inv_def works_on_def)
  then show ?thesis
    using n own pc
    by (intro locks_inv_local [OF inv n(2) _ as, of t])
      (auto simp: owner_ok_def slot_ok_def guard_pc_def split: option.splits)
qed

lemma locks_inv_step:
  assumes "locks_inv s" "step s s'"
  shows "locks_inv s'"
  using assms(2)
proof cases
  case (call_lock t n)
  then show ?thesis using locks_inv_call [OF assms(1), of t n "[Acquire n, StoreGuard n]"] by (simp add: works_on_def pc_defs)
next
  case (call_unlock t n)
  then show ?thesis using locks_inv_call [OF assms(1), of t n "[TakeGuard n, DropGuard n]"] by (simp add: works_on_def pc_defs)
next
  case (act t a as)
  then show ?thesis using locks_inv_act [OF assms(1)] by blast
qed

lemma reachable_inv: "reachable k s \<Longrightarrow> locks_inv s"
  by (induction rule: reachable.induct) (auto intro: locks_inv_init locks_inv_step)

subsection \<open>Exclusion\<close>

definition touches :: "locks \<Rightarrow> thread \<Rightarrow> nat \<Rightarrow> bool" where
  "touches s t n = (case todo s t of a # _ \<Rightarrow> a = StoreGuard n \<or> a = TakeGuard n | [] \<Rightarrow> False)"

definition holds :: "locks \<Rightarrow> thread \<Rightarrow> nat \<Rightarrow> bool" where
  "holds s t n \<longleftrightarrow> n < length (MUTEXES s) \<and> MUTEXES s ! n = Some t \<and> todo s t = []"

lemma touches_owns:
  assumes "locks_inv s" "touches s t n"
  shows "n < length (MUTEXES s)" "MUTEXES s ! n = Some t"
proof -
  have "pc_ok (length (MUTEXES s)) (todo s t)" using assms(1) by (simp add: locks_inv_def)
  then have n: "n < length (MUTEXES s) \<and> owns_pc n (todo s t)"
    using assms(2) by (auto simp: touches_def pc_ok_def owns_pc_def)
  then show "n < length (MUTEXES s)" by simp
  with n assms(1) show "MUTEXES s ! n = Some t" by (simp add: locks_inv_def owner_ok_def)
qed

lemma act_keeps_other:
  assumes inv: "locks_inv s" and h: "holds s t n" and todo: "todo s t' = a # as" "t' \<noteq> t"
    and run: "perform t' a (s\<lparr>todo := (todo s)(t' := as)\<rparr>) = Some s'"
  shows "holds s' t n"
proof -
  have "pc_ok (length (MUTEXES s)) (a # as)" using inv todo by (metis locks_inv_def)
  then obtain m where m: "m < length (MUTEXES s)" "a # as = [Acquire m, StoreGuard m] \<or> owns_pc m (a # as)"
    by (auto simp: pc_ok_def)
  have "owner_ok s m" using inv m by (simp add: locks_inv_def)
  then have "owns_pc m (todo s t') \<Longrightarrow> MUTEXES s ! m = Some t'" by (simp add: owner_ok_def)
  then have "owns_pc m (a # as) \<Longrightarrow> m \<noteq> n" using h todo by (auto simp: holds_def)
  moreover have "length (GUARDS s) = length (MUTEXES s)" using inv by (simp add: locks_inv_def)
  ultimately show ?thesis
    using h todo run m unfolding owns_pc_def holds_def
    by (elim disjE) (auto simp: nth_list_update split: if_splits)
qed

text \<open>
  C36: the locks lent to OpenSSL. In every interleaving of any number of threads the process is never
  aborted by an unlocked lock; two threads are never about to change the same slot of the unprotected
  vector of guards, since only the thread that has the mutex gets there; and a thread that has a lock
  keeps it until it unlocks it itself, whatever the other threads do.
\<close>

theorem locks_exclude:
  assumes "reachable k s"
  shows "\<not> aborted s \<and> (\<forall>t t' n. touches s t n \<longrightarrow> touches s t' n \<longrightarrow> t = t') \<and>
    (\<forall>s' t n. step s s' \<longrightarrow> holds s t n \<longrightarrow> todo s' t = [] \<longrightarrow> holds s' t n)"
proof (intro conjI allI impI)
  note inv = reachable_inv [OF assms]
  show "\<not> aborted s" using inv by (simp add: locks_inv_def)
  show "t = t'" if "touches s t n" "touches s t' n" for t t' n
    using touches_owns(2) [OF inv that(1)] touches_owns(2) [OF inv that(2)] by simp
  show "holds s' t n" if st: "step s s'" and h: "holds s t n" and idle: "todo s' t = []" for s' t n
    using st
  proof cases
    case (act t' a as)
    then have "t' \<noteq> t" using h by (auto simp: holds_def)
    with act h show ?thesis using act_keeps_other [OF inv] by blast
  qed (use h idle in \<open>auto simp: holds_def split: if_splits\<close>)
qed

text \<open>One thread has lock 1, another waits for it.\<close>

theorem locks_exclude_witness:
  "\<exists>s. reachable 2 s \<and> holds s 0 1 \<and> todo s 7 = [Acquire 1, StoreGuard 1] \<and> \<not> aborted s \<and>
     (\<forall>s'. step s s' \<longrightarrow> todo s' 0 = [] \<longrightarrow> holds s' 0 1)"
proof -
  let ?s1 = "(init_locks 2)\<lparr>todo := (\<lambda>_. [])(0 := locking_function CRYPTO_LOCK 1)\<rparr>"
  let ?s2 = "?s1\<lparr>MUTEXES := [None, Some 0], todo := (\<lambda>_. [])(0 := [StoreGuard 1])\<rparr>"
  let ?s3 = "?s2\<lparr>GUARDS := [False, True], todo := (\<lambda>_. [])\<rparr>"
  let ?s = "?s3\<lparr>todo := (\<lambda>_. [])(7 := locking_function CRYPTO_LOCK 1)\<rparr>"
  have rep: "replicate 2 x = [x, x]" for x :: 'x by (simp add: numeral_2_eq_2)
  have "step (init_locks 2) ?s1"
    using step.call_lock [of "init_locks 2" 0 1] by (simp add: init_locks_def)
  moreover have "step ?s1 ?s2"
    using step.act [of ?s1 0 "Acquire 1" "[StoreGuard 1]" ?s2] by (simp add: init_locks_def rep)
  moreover have "step ?s2 ?s3"
    using step.act [of ?s2 0 "StoreGuard 1" "[]" ?s3] by (simp add: init_locks_def rep fun_eq_iff)
  moreover have "step ?s3 ?s"
    using step.call_lock [of ?s3 7 1] by (simp add: init_locks_def)
  ultimately have r: "reachable 2 ?s" by (meson reachable.intros)
  have h: "holds ?s 0 1" by (simp add: holds_def)
  show ?thesis using locks_exclude [OF r] r h by (intro exI [of _ ?s]) simp
qed

end
