(* ===== verification/Tolla_Proxy.thy ===== *)
theory Tolla_Proxy
  imports Tolla_Client Rust_Object
begin

text \<open>
  The TCP proxy, \<open>tolla/src/proxy.rs\<close>. It accepts connections, asks a router for the address of the
  database of each client, connects to it and copies bytes in both directions.

  The record \<open>tokio\<close> is what it runs on: the reactor, the listener, streams, and of the futures \<open>copy\<close>,
  \<open>shutdown\<close> and \<open>join\<close>. A future is the effect of running it to its end; \<open>spawn\<close> hands one to the
  reactor, which runs it beside the accept loop. Streams are numbered. Clones of a \<open>MyTcpStream\<close> share
  their socket, so a clone is the same number.
\<close>

subsection \<open>Printing socket addresses\<close>

text \<open>
  \<open>Display\<close>, and with it \<open>Debug\<close>, of \<open>std::net::SocketAddr\<close>. An IPv6 address is printed with its first
  longest run of zero groups left out, and in IPv4 notation where it embeds an IPv4 address.
\<close>

definition lower_hex_digit :: "nat \<Rightarrow> char" where
  "lower_hex_digit d = (if d < 10 then char_of (48 + d) else char_of (87 + d))"

fun show_lower_hex :: "nat \<Rightarrow> string" where
  "show_lower_hex n =
     (if n < 16 then [lower_hex_digit n] else show_lower_hex (n div 16) @ [lower_hex_digit (n mod 16)])"

declare show_lower_hex.simps [simp del]

fun joined :: "string \<Rightarrow> string list \<Rightarrow> string" where
  "joined sep [] = []"
| "joined sep [s] = s"
| "joined sep (s # ss) = s @ sep @ joined sep ss"

definition show_octets :: "byte list \<Rightarrow> string" where
  "show_octets bs = joined ''.'' (map (show_nat \<circ> unat) bs)"

definition show_groups :: "u16 list \<Rightarrow> string" where
  "show_groups gs = joined '':'' (map (show_lower_hex \<circ> unat) gs)"

definition octets :: "u16 \<Rightarrow> byte list" where
  "octets g = [of_nat (unat g div 256), of_nat (unat g mod 256)]"

text \<open>The position and the length of the first longest run of zeros.\<close>

fun zero_run :: "u16 list \<Rightarrow> nat \<Rightarrow> nat \<times> nat \<Rightarrow> nat \<times> nat \<Rightarrow> nat \<times> nat" where
  "zero_run [] i cur longest = longest"
| "zero_run (g # gs) i cur longest =
     (if g = 0 then
        (let cur' = ((if snd cur = 0 then i else fst cur), Suc (snd cur)) in
         zero_run gs (Suc i) cur' (if snd longest < snd cur' then cur' else longest))
      else zero_run gs (Suc i) (0, 0) longest)"

definition show_ipv6 :: "u16 list \<Rightarrow> string" where
  "show_ipv6 gs =
     (if gs = replicate 8 0 then ''::''
      else if gs = replicate 7 0 @ [1] then ''::1''
      else if take 6 gs = replicate 6 0 then ''::'' @ show_octets (concat (map octets (drop 6 gs)))
      else if take 6 gs = replicate 5 0 @ [0xFFFF] then ''::ffff:'' @ show_octets (concat (map octets (drop 6 gs)))
      else let (at, n) = zero_run gs 0 (0, 0) (0, 0) in
        if 1 < n then show_groups (take at gs) @ ''::'' @ show_groups (drop (at + n) gs) else show_groups gs)"

fun show_socket_addr :: "sock \<Rightarrow> string" where
  "show_socket_addr (V4 bs, p) = show_octets bs @ '':'' @ show_nat (unat p)"
| "show_socket_addr (V6 gs, p) = ''['' @ show_ipv6 gs @ '']:'' @ show_nat (unat p)"

subsection \<open>The environment\<close>

type_synonym stream_id = nat

record 'w tokio =
  core_new :: "('w, io_error, unit) eff"
  listen :: "sock \<Rightarrow> ('w, io_error, unit) eff"
  accept :: "('w, io_error, (stream_id \<times> sock) option) eff"
  connect_to :: "sock \<Rightarrow> ('w, io_error, stream_id) eff"
  stream_read :: "stream_id \<Rightarrow> nat \<Rightarrow> ('w, io_error, byte list) eff"
  stream_write :: "stream_id \<Rightarrow> byte list \<Rightarrow> ('w, io_error, nat) eff"
  stream_shutdown_write :: "stream_id \<Rightarrow> ('w, io_error, unit) eff"
  copy :: "(nat \<Rightarrow> ('w, io_error, byte list) eff) \<Rightarrow> (byte list \<Rightarrow> ('w, io_error, nat) eff) \<Rightarrow> ('w, io_error, nat) eff"
  shutdown :: "('w, io_error, unit) eff \<Rightarrow> ('w, io_error, unit) eff"
  join :: "('w, io_error, nat) eff \<Rightarrow> ('w, io_error, nat) eff \<Rightarrow> ('w, io_error, nat \<times> nat) eff"
  spawn :: "('w, unit, unit) eff \<Rightarrow> ('w, io_error, unit) eff"
  print_line :: "string \<Rightarrow> ('w, unit, unit) eff"

subsection \<open>Streams\<close>

definition MyTcpStream_read :: "'w tokio \<Rightarrow> stream_id \<Rightarrow> nat \<Rightarrow> ('w, io_error, byte list) eff" where
  "MyTcpStream_read T s len = stream_read T s len"

definition MyTcpStream_write :: "'w tokio \<Rightarrow> stream_id \<Rightarrow> byte list \<Rightarrow> ('w, io_error, nat) eff" where
  "MyTcpStream_write T s buf = stream_write T s buf"

definition MyTcpStream_flush :: "'w tokio \<Rightarrow> stream_id \<Rightarrow> ('w, io_error, unit) eff" where
  "MyTcpStream_flush T s = ret ()"

definition MyTcpStream_shutdown :: "'w tokio \<Rightarrow> stream_id \<Rightarrow> ('w, io_error, unit) eff" where
  "MyTcpStream_shutdown T s = and_then (stream_shutdown_write T s) (\<lambda>_. ret ())"

subsection \<open>The proxy\<close>

text \<open>The trait \<open>DBrouter\<close> has one method, here the argument \<open>router\<close>.\<close>

type_synonym 'w db_router = "string \<Rightarrow> ('w, string, sock) eff"

record 'w request_proxy =
  proxy_router :: "'w db_router"

definition RequestProxy_new :: "'w db_router \<Rightarrow> 'w request_proxy" where
  "RequestProxy_new router = \<lparr>proxy_router = router\<rparr>"

definition one_way :: "'w tokio \<Rightarrow> stream_id \<Rightarrow> stream_id \<Rightarrow> ('w, io_error, nat) eff" where
  "one_way T reader writer =
     and_then (copy T (MyTcpStream_read T reader) (MyTcpStream_write T writer)) (\<lambda>n.
     and_then (shutdown T (MyTcpStream_shutdown T writer)) (\<lambda>_. ret n))"

definition relay :: "'w tokio \<Rightarrow> stream_id \<Rightarrow> stream_id \<Rightarrow> ('w, io_error, nat \<times> nat) eff" where
  "relay T client server = join T (one_way T client server) (one_way T server client)"

definition connection_task :: "'w tokio \<Rightarrow> stream_id \<Rightarrow> sock \<Rightarrow> sock \<Rightarrow> ('w, unit, unit) eff" where
  "connection_task T client client_addr remote_addr =
     and_then (attempt (and_then (connect_to T remote_addr) (relay T client)))
       (\<lambda>r. case r of
          Inr (from_client, from_server) \<Rightarrow>
            print_line T (''client at '' @ show_socket_addr client_addr @ '' wrote '' @ show_nat from_client @
              '' bytes and received '' @ show_nat from_server @ '' bytes'')
        | Inl e \<Rightarrow> print_line T (''error: '' @ io_msg e))"

definition handle_client :: "'w tokio \<Rightarrow> 'w request_proxy \<Rightarrow> stream_id \<times> sock \<Rightarrow> ('w, io_error, unit) eff" where
  "handle_client T px c =
     (case c of (client, client_addr) \<Rightarrow>
        and_then (unwrap (proxy_router px (show_socket_addr client_addr))) (\<lambda>remote_addr.
          spawn T (connection_task T client client_addr remote_addr)))"

definition RequestProxy_start :: "'w tokio \<Rightarrow> 'w request_proxy \<Rightarrow> string \<Rightarrow> u16 \<Rightarrow> ('w, 'e, unit) eff" where
  "RequestProxy_start T px addr_text prt =
     and_then (unwrap (core_new T)) (\<lambda>_.
     case parse_socket_addr (addr_text @ '':'' @ show_nat (unat prt)) of
       None \<Rightarrow> panic
     | Some addr \<Rightarrow>
         and_then (unwrap (listen T addr)) (\<lambda>_.
           unwrap (while_some (accept T) (handle_client T px))))"

subsection \<open>The accept loop\<close>

text \<open>
  What the loop relies on: accepting takes the next of the connections that will arrive
  (\<open>arriving\<close>), and spawning starts a task (\<open>started\<close> counts them) and takes no connection. \<open>route\<close> is
  what the router answers.
\<close>

definition reactor_law :: "'w tokio \<Rightarrow> ('w \<Rightarrow> (stream_id \<times> sock) list) \<Rightarrow> ('w \<Rightarrow> nat) \<Rightarrow> bool" where
  "reactor_law T arriving started \<longleftrightarrow>
     (\<forall>w. \<exists>w'. accept T w =
        (Ok (case arriving w of [] \<Rightarrow> None | c # _ \<Rightarrow> Some c), w') \<and>
        arriving w' = tl (arriving w) \<and> started w' = started w) \<and>
     (\<forall>t w. \<exists>w'. spawn T t w = (Ok (), w') \<and> arriving w' = arriving w \<and> started w' = Suc (started w))"

definition router_law ::
  "'w db_router \<Rightarrow> ('w \<Rightarrow> (stream_id \<times> sock) list) \<Rightarrow> ('w \<Rightarrow> nat) \<Rightarrow> (string \<Rightarrow> sock option) \<Rightarrow> bool" where
  "router_law router arriving started route \<longleftrightarrow>
     (\<forall>k w. \<exists>w'. arriving w' = arriving w \<and> started w' = started w \<and>
        (case route k of Some a \<Rightarrow> router k w = (Ok a, w') | None \<Rightarrow> (\<exists>e. router k w = (Err e, w'))))"

definition routable :: "(string \<Rightarrow> sock option) \<Rightarrow> stream_id \<times> sock \<Rightarrow> bool" where
  "routable route c \<longleftrightarrow> route (show_socket_addr (snd c)) \<noteq> None"

lemma accept_run:
  assumes "reactor_law T arriving started"
  obtains w' where "accept T w = (Ok (case arriving w of [] \<Rightarrow> None | c # _ \<Rightarrow> Some c), w')"
    "arriving w' = tl (arriving w)" "started w' = started w"
  using assms unfolding reactor_law_def by blast

lemma handle_client_routable:
  assumes "reactor_law T arriving started" "router_law (proxy_router px) arriving started route" "routable route c"
  obtains w' where "handle_client T px c w = (Ok (), w')" "arriving w' = arriving w" "started w' = Suc (started w)"
proof -
  obtain client a where c: "c = (client, a)" by (cases c)
  with assms(3) obtain r where r: "route (show_socket_addr a) = Some r" by (auto simp: routable_def)
  obtain w1 where w1: "proxy_router px (show_socket_addr a) w = (Ok r, w1)" "arriving w1 = arriving w" "started w1 = started w"
    using assms(2) [unfolded router_law_def, rule_format, of w "show_socket_addr a"] r by auto
  from assms(1) obtain w2 where "spawn T (connection_task T client a r) w1 = (Ok (), w2)" "arriving w2 = arriving w1"
    "started w2 = Suc (started w1)" unfolding reactor_law_def by blast
  with w1 show ?thesis by (intro that) (simp_all add: handle_client_def c unwrap_def on_err_def and_then_def)
qed

lemma handle_client_unroutable:
  assumes "router_law (proxy_router px) arriving started route" "\<not> routable route c"
  obtains w' where "handle_client T px c w = (Panic, w')" "arriving w' = arriving w" "started w' = started w"
proof -
  obtain client a where c: "c = (client, a)" by (cases c)
  with assms(2) have none: "route (show_socket_addr a) = None" by (cases "route (show_socket_addr a)") (auto simp: routable_def)
  obtain w1 e where "proxy_router px (show_socket_addr a) w = (Err e, w1)" "arriving w1 = arriving w" "started w1 = started w"
    using assms(1) [unfolded router_law_def, rule_format, of w "show_socket_addr a"] none by auto
  then show ?thesis by (intro that [of w1]) (simp_all add: handle_client_def c unwrap_def on_err_def and_then_def)
qed

lemma accept_loop_run:
  assumes laws: "reactor_law T arriving started" "router_law (proxy_router px) arriving started route"
  defines "ok \<equiv> \<lambda>w. takeWhile (routable route) (arriving w)" and "rest \<equiv> \<lambda>w. dropWhile (routable route) (arriving w)"
  shows "\<exists>w'. while_some (accept T) (handle_client T px) w = (if rest w = [] then Ok () else Panic, w') \<and>
     started w' = started w + length (ok w) \<and> arriving w' = tl (rest w)"
proof (induction "arriving w" arbitrary: w)
  case Nil
  obtain w' where "accept T w = (Ok None, w')" "arriving w' = []" "started w' = started w"
    using accept_run [OF laws(1), of w] Nil by (metis list.sel(2) list.simps(4))
  with Nil while_some_stop [of "accept T" w w'] show ?case by (auto simp: ok_def rest_def)
next
  case (Cons c cs)
  obtain w1 where acc: "accept T w = (Ok (Some c), w1)" "arriving w1 = cs" "started w1 = started w"
    using accept_run [OF laws(1), of w] Cons.hyps(2) by (metis list.sel(3) list.simps(5))
  show ?case
  proof (cases "routable route c")
    case True
    obtain w2 where w2: "handle_client T px c w1 = (Ok (), w2)" "arriving w2 = cs" "started w2 = Suc (started w)"
      using handle_client_routable [OF laws True, of w1] acc by metis
    from Cons.hyps(1) [OF w2(2) [symmetric]] obtain w' where
      "while_some (accept T) (handle_client T px) w2 = (if rest w2 = [] then Ok () else Panic, w')"
      "started w' = started w2 + length (ok w2)" "arriving w' = tl (rest w2)" by blast
    moreover have "rest w = rest w2" "ok w = c # ok w2"
      using w2(2) True by (simp_all add: ok_def rest_def flip: Cons.hyps(2))
    ultimately show ?thesis
      using while_some_next [of "accept T" w c w1 "handle_client T px" w2, OF acc(1) w2(1)] w2(3) by (intro exI [of _ w']) simp
  next
    case False
    obtain w2 where "handle_client T px c w1 = (Panic, w2)" "arriving w2 = cs" "started w2 = started w"
      using handle_client_unroutable [OF laws(2) False, of T w1] acc by metis
    with acc False show ?thesis
      by (auto simp: while_some_def while_some_run.simps [of _ _ w] ok_def rest_def Cons.hyps(2) [symmetric])
  qed
qed


subsection \<open>A relayed connection\<close>

text \<open>
  A socket as the proxy sees it: the bytes its peer sends before it closes, the bytes sent to the
  peer, and whether that direction was shut down. \<open>copy\<close> moves everything a reader yields to a writer
  and counts it; \<open>shutdown\<close> runs the shutdown of its stream; \<open>join\<close> runs both futures to their end, in
  any interleaving, so where both orders give the same it gives that too.
\<close>

record half =
  from_peer :: "byte list"
  to_peer :: "byte list"
  shut :: bool

definition copied :: "stream_id \<Rightarrow> stream_id \<Rightarrow> (stream_id \<Rightarrow> half) \<Rightarrow> stream_id \<Rightarrow> half" where
  "copied a b net =
     (let net' = net(b := (net b)\<lparr>to_peer := to_peer (net b) @ from_peer (net a)\<rparr>) in
      net'(a := (net' a)\<lparr>from_peer := []\<rparr>))"

definition stream_law :: "'w tokio \<Rightarrow> ('w \<Rightarrow> stream_id \<Rightarrow> half) \<Rightarrow> bool" where
  "stream_law T net \<longleftrightarrow>
     (\<forall>a b w. a \<noteq> b \<longrightarrow> \<not> shut (net w b) \<longrightarrow>
        (\<exists>w'. copy T (stream_read T a) (stream_write T b) w = (Ok (length (from_peer (net w a))), w') \<and>
              net w' = copied a b (net w))) \<and>
     (\<forall>a w. \<exists>w'. stream_shutdown_write T a w = (Ok (), w') \<and> net w' = (net w)(a := (net w a)\<lparr>shut := True\<rparr>)) \<and>
     (\<forall>m. shutdown T m = m)"

definition join_law :: "'w tokio \<Rightarrow> ('w \<Rightarrow> 'n) \<Rightarrow> bool" where
  "join_law T net \<longleftrightarrow>
     (\<forall>f g w x y n.
        (\<exists>w1 w2. f w = (Ok x, w1) \<and> g w1 = (Ok y, w2) \<and> net w2 = n) \<longrightarrow>
        (\<exists>w1 w2. g w = (Ok y, w1) \<and> f w1 = (Ok x, w2) \<and> net w2 = n) \<longrightarrow>
        (\<exists>w'. join T f g w = (Ok (x, y), w') \<and> net w' = n))"

definition one_way_net :: "stream_id \<Rightarrow> stream_id \<Rightarrow> (stream_id \<Rightarrow> half) \<Rightarrow> stream_id \<Rightarrow> half" where
  "one_way_net a b net = (let net' = copied a b net in net'(b := (net' b)\<lparr>shut := True\<rparr>))"

lemma one_way_run:
  assumes "stream_law T net" "a \<noteq> b" "\<not> shut (net w b)"
  obtains w' where "one_way T a b w = (Ok (length (from_peer (net w a))), w')" "net w' = one_way_net a b (net w)"
proof -
  have reads: "MyTcpStream_read T a = stream_read T a" "MyTcpStream_write T b = stream_write T b"
    by (simp_all add: fun_eq_iff MyTcpStream_read_def MyTcpStream_write_def)
  obtain w1 where w1: "copy T (stream_read T a) (stream_write T b) w = (Ok (length (from_peer (net w a))), w1)"
    "net w1 = copied a b (net w)" using assms unfolding stream_law_def by blast
  obtain w2 where "stream_shutdown_write T b w1 = (Ok (), w2)" "net w2 = (net w1)(b := (net w1 b)\<lparr>shut := True\<rparr>)"
    using assms(1) unfolding stream_law_def by blast
  moreover have "shutdown T m = m" for m using assms(1) by (simp add: stream_law_def)
  ultimately show ?thesis
    using w1 by (intro that [of w2]) (simp_all add: one_way_def reads MyTcpStream_shutdown_def and_then_def one_way_net_def Let_def)
qed

lemma one_way_commutes:
  assumes "a \<noteq> b"
  shows "one_way_net b a (one_way_net a b net) = one_way_net a b (one_way_net b a net)"
    "from_peer (one_way_net a b net b) = from_peer (net b)" "shut (one_way_net a b net a) = shut (net a)"
  using assms by (auto simp: one_way_net_def copied_def Let_def fun_eq_iff)


subsection \<open>An environment for the witnesses\<close>

text \<open>Its state: the connections to arrive, the number of tasks, and the sockets.\<close>

type_synonym proxy_world = "(stream_id \<times> sock) list \<times> nat \<times> (stream_id \<Rightarrow> half)"

definition demo_copy ::
  "(nat \<Rightarrow> (proxy_world, io_error, byte list) eff) \<Rightarrow> (byte list \<Rightarrow> (proxy_world, io_error, nat) eff) \<Rightarrow>
   (proxy_world, io_error, nat) eff" where
  "demo_copy r wr = and_then (r 0) (\<lambda>bs. wr bs)"

definition demo_tokio :: "proxy_world tokio" where
  "demo_tokio =
     \<lparr>core_new = ret (), listen = (\<lambda>_. ret ()),
      accept = (\<lambda>(arr, n, net). (Ok (case arr of [] \<Rightarrow> None | c # _ \<Rightarrow> Some c), (tl arr, n, net))),
      connect_to = (\<lambda>_. ret 1),
      stream_read = (\<lambda>s _ (arr, n, net). (Ok (from_peer (net s)), (arr, n, net(s := (net s)\<lparr>from_peer := []\<rparr>)))),
      stream_write = (\<lambda>s bs (arr, n, net). (Ok (length bs), (arr, n, net(s := (net s)\<lparr>to_peer := to_peer (net s) @ bs\<rparr>)))),
      stream_shutdown_write = (\<lambda>s (arr, n, net). (Ok (), (arr, n, net(s := (net s)\<lparr>shut := True\<rparr>)))),
      copy = demo_copy, shutdown = (\<lambda>m. m),
      join = (\<lambda>f g. and_then f (\<lambda>x. and_then g (\<lambda>y. ret (x, y)))),
      spawn = (\<lambda>_ (arr, n, net). (Ok (), (arr, Suc n, net))),
      print_line = (\<lambda>_. ret ())\<rparr>"

lemma demo_tokio_laws:
  "reactor_law demo_tokio fst (fst \<circ> snd)"
  "stream_law demo_tokio (snd \<circ> snd)"
  "join_law demo_tokio (snd \<circ> snd)"
proof -
  show "reactor_law demo_tokio fst (fst \<circ> snd)" by (auto simp: reactor_law_def demo_tokio_def)
  show "stream_law demo_tokio (snd \<circ> snd)"
    by (auto simp: stream_law_def demo_tokio_def demo_copy_def and_then_def copied_def Let_def fun_upd_twist)
  show "join_law demo_tokio (snd \<circ> snd)"
    unfolding join_law_def demo_tokio_def by (auto simp: and_then_def)
qed

text \<open>A router that knows one client, by its address and its port.\<close>

definition demo_route :: "string \<Rightarrow> sock option" where
  "demo_route k = (if k = ''1.2.3.4:9'' then Some (V4 [10, 0, 0, 1], 27017) else None)"

definition demo_router :: "proxy_world db_router" where
  "demo_router k = (case demo_route k of Some a \<Rightarrow> ret a | None \<Rightarrow> throw ''no route'')"

lemma demo_router_law: "router_law (proxy_router (RequestProxy_new demo_router)) fst (fst \<circ> snd) demo_route"
  unfolding router_law_def RequestProxy_new_def by (auto simp: demo_router_def split: option.split)



text \<open>A server that cannot be reached costs only its own connection: the task reports the error.\<close>

lemma unreachable_server_is_reported:
  assumes "connect_to T remote w = (Err e, w')"
  shows "connection_task T client addr remote w = print_line T (''error: '' @ io_msg e) w'"
  using assms by (simp add: connection_task_def attempt_def and_then_def)

end
