(* ===== verification/Cargo_Script.thy ===== *)
theory Cargo_Script
  imports Rust_Text
begin

text \<open>
  What a build script of Cargo works on: the lines it has printed so far, which are its result, its
  environment variables, and the files it writes. A script stops by \<open>process::exit\<close> or by a panic
  with a message; these are the errors of its effects, and \<open>Panic\<close> is left for a failed \<open>unwrap\<close>.
  The programs a script runs and the file system are the record \<open>tools\<close>.
\<close>

datatype stop = Exit int | Panicked string

record script =
  printed :: "string list"
  vars :: "string \<Rightarrow> string option"
  written :: "string \<Rightarrow> string option"

type_synonym 'a build = "(script, stop, 'a) eff"

text \<open>
  The outside. A directory listing may fail, and so may each of its entries. The compiler is given
  the include directories, the file to expand and the files written; \<open>None\<close> is a panic inside the
  \<open>cc\<close> crate. \<open>pkg-config\<close> and \<open>vcpkg\<close> see the variables and may print on their own; their result is
  the text of an error or the include paths. \<open>host_msvc\<close> is the configuration \<open>target_env = "msvc"\<close> of the
  script itself.
\<close>

record tools =
  path_exists :: "string \<Rightarrow> bool"
  read_dir :: "string \<Rightarrow> string option list option"
  can_create :: "string \<Rightarrow> bool"
  cc_expand :: "string list \<Rightarrow> string \<Rightarrow> (string \<Rightarrow> string option) \<Rightarrow> string option"
  pkg_config_find :: "string \<Rightarrow> (string \<Rightarrow> string option) \<Rightarrow> (string + string list) \<times> string list"
  pkg_config_runs :: bool
  vcpkg_probe :: "string list \<Rightarrow> string \<Rightarrow> (string \<Rightarrow> string option) \<Rightarrow> (string + string list) \<times> string list"
  host_msvc :: bool

definition println :: "string \<Rightarrow> unit build" where
  "println l st = (Ok (), st\<lparr>printed := printed st @ [l]\<rparr>)"

primrec print_all :: "string list \<Rightarrow> unit build" where
  "print_all [] = ret ()"
| "print_all (l # ls) = and_then (println l) (\<lambda>_. print_all ls)"

definition panic_with :: "string \<Rightarrow> 'a build" where
  "panic_with msg = throw (Panicked msg)"

text \<open>\<open>env::var_os\<close>, \<open>env::var\<close>, which refuses a value that is not UTF-8, and \<open>env::set_var\<close>.\<close>

definition var_os :: "string \<Rightarrow> string option build" where
  "var_os name st = (Ok (vars st name), st)"

definition var :: "string \<Rightarrow> string option build" where
  "var name st = (Ok (Option.bind (vars st name) from_utf8), st)"

definition unwrap_some :: "'a option \<Rightarrow> 'a build" where
  "unwrap_some x = (case x of Some a \<Rightarrow> ret a | None \<Rightarrow> panic)"

definition set_var :: "string \<Rightarrow> string \<Rightarrow> unit build" where
  "set_var name v st = (Ok (), st\<lparr>vars := (vars st)(name \<mapsto> v)\<rparr>)"

text \<open>\<open>File::create\<close>, the writes and \<open>flush\<close>, each followed by \<open>unwrap\<close>.\<close>

definition write_file :: "tools \<Rightarrow> string \<Rightarrow> string \<Rightarrow> unit build" where
  "write_file T path content st =
     (if can_create T path then (Ok (), st\<lparr>written := (written st)(path \<mapsto> content)\<rparr>) else (Panic, st))"

definition run_pkg_config :: "tools \<Rightarrow> string \<Rightarrow> (string + string list) build" where
  "run_pkg_config T name st =
     (let (r, out) = pkg_config_find T name (vars st) in (Ok r, st\<lparr>printed := printed st @ out\<rparr>))"

definition run_vcpkg :: "tools \<Rightarrow> string list \<Rightarrow> string \<Rightarrow> (string + string list) build" where
  "run_vcpkg T libs name st =
     (let (r, out) = vcpkg_probe T libs name (vars st) in (Ok r, st\<lparr>printed := printed st @ out\<rparr>))"

text \<open>\<open>Path::join\<close> on Unix.\<close>

definition path_join :: "string \<Rightarrow> string \<Rightarrow> string" where
  "path_join p q =
     (if starts_with q ''/'' then q
      else if p = [] \<or> ends_with p ''/'' then p @ q else p @ ''/'' @ q)"

definition quoted :: "string \<Rightarrow> string" where
  "quoted s = [CHR 0x22] @ s @ [CHR 0x22]"

subsection \<open>How the operations run\<close>

lemma print_all_run [simp]: "print_all ls st = (Ok (), st\<lparr>printed := printed st @ ls\<rparr>)"
  by (induction ls arbitrary: st) (simp_all add: and_then_def println_def)

declare print_all.simps [simp del]

lemma println_then [simp]: "and_then (println l) f st = f () (st\<lparr>printed := printed st @ [l]\<rparr>)"
  by (simp add: and_then_def println_def)

lemma print_all_then [simp]: "and_then (print_all ls) f st = f () (st\<lparr>printed := printed st @ ls\<rparr>)"
  by (simp add: and_then_def)

lemma var_then [simp]:
  "and_then (var_os n) g st = g (vars st n) st"
  "and_then (var n) g st = g (Option.bind (vars st n) from_utf8) st"
  by (simp_all add: and_then_def var_os_def var_def)

lemma set_var_then [simp]: "and_then (set_var n v) f st = f () (st\<lparr>vars := (vars st)(n \<mapsto> v)\<rparr>)"
  by (simp add: and_then_def set_var_def)

lemma unwrap_some_simps [simp]: "unwrap_some (Some a) = ret a" "unwrap_some None = panic"
  by (simp_all add: unwrap_some_def)

lemma println_run [simp]: "println l st = (Ok (), st\<lparr>printed := printed st @ [l]\<rparr>)"
  by (simp add: println_def)

lemma var_os_run [simp]: "var_os n st = (Ok (vars st n), st)"
  by (simp add: var_os_def)

lemma panic_with_run [simp]: "panic_with msg st = (Err (Panicked msg), st)"
  by (simp add: panic_with_def)

lemma and_then_panic_with [simp]: "and_then (panic_with msg) f = panic_with msg"
  by (simp add: panic_with_def)

end
