(* ===== verification/Ossl_Build.thy ===== *)
theory Ossl_Build
  imports Cargo_Script
begin

text \<open>
  The build scripts. \<open>openssl-sys/build.rs\<close> finds an OpenSSL or LibreSSL, lets the C preprocessor expand
  a file it generates to learn the version and the options of the library, prints the configuration the
  Rust code is compiled with, and decides how to link. \<open>openssl/build.rs\<close> turns what the first script
  exports into the configuration of the other crate, and \<open>systest/build.rs\<close> into that of the test
  generator.
\<close>

subsection \<open>openssl-sys/build.rs\<close>

definition DEFINES :: "string list" where
  "DEFINES =
     [''OPENSSL_NO_BUF_FREELISTS'',
      ''OPENSSL_NO_COMP'',
      ''OPENSSL_NO_EC'',
      ''OPENSSL_NO_EC2M'',
      ''OPENSSL_NO_ENGINE'',
      ''OPENSSL_NO_KRB5'',
      ''OPENSSL_NO_NEXTPROTONEG'',
      ''OPENSSL_NO_PSK'',
      ''OPENSSL_NO_RFC3779'',
      ''OPENSSL_NO_SHA'',
      ''OPENSSL_NO_SRP'',
      ''OPENSSL_NO_SSL3_METHOD'',
      ''OPENSSL_NO_TLSEXT'']"

datatype Version = Openssl110 | Openssl102 | Openssl101 | Libressl

text \<open>A target triple is ASCII, on which \<open>to_uppercase\<close> changes the letters a to z only.\<close>

definition sys_env :: "string \<Rightarrow> string option build" where
  "sys_env name =
     and_then (var ''TARGET'') (\<lambda>t.
     and_then (unwrap_some t) (\<lambda>target.
     let prefix = replace_char (CHR ''-'') (CHR ''_'') (to_uppercase target);
         prefixed = prefix @ ''_'' @ name in
     and_then (println (''cargo:rerun-if-env-changed='' @ prefixed)) (\<lambda>_.
     and_then (var_os prefixed) (\<lambda>v.
     case v of
       Some x \<Rightarrow> ret (Some x)
     | None \<Rightarrow>
         and_then (println (''cargo:rerun-if-env-changed='' @ name)) (\<lambda>_.
         var_os name)))))"

text \<open>The generated file \<open>expando.c\<close>.\<close>

definition expando_head :: "string list" where
  "expando_head =
     [''#include <openssl/opensslv.h>'',
      ''#include <openssl/opensslconf.h>'',
      '''',
      ''#if LIBRESSL_VERSION_NUMBER >= 0x20603000'',
      ''RUST_LIBRESSL_NEW'',
      ''#elif LIBRESSL_VERSION_NUMBER >= 0x20602000'',
      ''RUST_LIBRESSL_262'',
      ''#elif LIBRESSL_VERSION_NUMBER >= 0x20601000'',
      ''RUST_LIBRESSL_261'',
      ''#elif LIBRESSL_VERSION_NUMBER >= 0x20600000'',
      ''RUST_LIBRESSL_260'',
      ''#elif LIBRESSL_VERSION_NUMBER >= 0x20506000'',
      ''RUST_LIBRESSL_NEW'',
      ''#elif LIBRESSL_VERSION_NUMBER >= 0x20505000'',
      ''RUST_LIBRESSL_255'',
      ''#elif LIBRESSL_VERSION_NUMBER >= 0x20504000'',
      ''RUST_LIBRESSL_254'',
      ''#elif LIBRESSL_VERSION_NUMBER >= 0x20503000'',
      ''RUST_LIBRESSL_253'',
      ''#elif LIBRESSL_VERSION_NUMBER >= 0x20502000'',
      ''RUST_LIBRESSL_252'',
      ''#elif LIBRESSL_VERSION_NUMBER >= 0x20501000'',
      ''RUST_LIBRESSL_251'',
      ''#elif LIBRESSL_VERSION_NUMBER >= 0x20500000'',
      ''RUST_LIBRESSL_250'',
      ''#elif defined (LIBRESSL_VERSION_NUMBER) && LIBRESSL_VERSION_NUMBER < 0x20500000'',
      ''RUST_LIBRESSL_OLD'',
      ''#elif OPENSSL_VERSION_NUMBER >= 0x10101000'',
      ''RUST_OPENSSL_NEW'',
      ''#elif OPENSSL_VERSION_NUMBER >= 0x10100060'',
      ''RUST_OPENSSL_110F'',
      ''#elif OPENSSL_VERSION_NUMBER >= 0x10100000'',
      ''RUST_OPENSSL_110'',
      ''#elif OPENSSL_VERSION_NUMBER >= 0x10002000'',
      ''RUST_OPENSSL_102'',
      ''#elif OPENSSL_VERSION_NUMBER >= 0x10001000'',
      ''RUST_OPENSSL_101'',
      ''#else'',
      ''RUST_OPENSSL_OLD'',
      ''#endif'']"

definition expando_define :: "string \<Rightarrow> string list" where
  "expando_define d = [''#ifdef '' @ d, ''RUST_'' @ d @ ''_RUST'', ''#endif'']"

definition expando_text :: string where
  "expando_text = unlines (expando_head @ concat (map expando_define DEFINES))"

definition headers_missing :: string where
  "headers_missing = unlines
     ['''',
      ''Failed to find OpenSSL development headers.'',
      '''',
      ''You can try fixing this setting the `OPENSSL_DIR` environment variable'',
      ''pointing to your OpenSSL installation or installing OpenSSL headers package'',
      ''specific to your distribution:'',
      '''',
      ''    # On Ubuntu'',
      ''    sudo apt-get install libssl-dev'',
      ''    # On Arch Linux'',
      ''    sudo pacman -S openssl'',
      ''    # On Fedora'',
      ''    sudo dnf install openssl-devel'',
      '''',
      ''See rust-openssl README for more information:'',
      '''',
      ''    https://github.com/sfackler/rust-openssl#linux'']"

definition version_mismatch :: string where
  "version_mismatch = unlines
     ['''',
      '''',
      ''This crate is only compatible with OpenSSL 1.0.1, 1.0.2, and 1.1.0, or LibreSSL'',
      ''2.5 and 2.6.0, but a different version of OpenSSL was found. The build is now'',
      ''aborting due to this version mismatch.'',
      '''']"

text \<open>The five lines of each of the nine LibreSSL branches.\<close>

definition libressl_found :: "string \<Rightarrow> Version build" where
  "libressl_found v =
     and_then (println ''cargo:rustc-cfg=libressl'') (\<lambda>_.
     and_then (println (''cargo:rustc-cfg=libressl'' @ v)) (\<lambda>_.
     and_then (println ''cargo:libressl=true'') (\<lambda>_.
     and_then (println (''cargo:libressl_version='' @ v)) (\<lambda>_.
     and_then (println ''cargo:version=101'') (\<lambda>_.
     ret Libressl)))))"

definition report_version :: "string \<Rightarrow> Version build" where
  "report_version expanded =
     (if contains expanded ''RUST_LIBRESSL_250'' then libressl_found ''250''
      else if contains expanded ''RUST_LIBRESSL_251'' then libressl_found ''251''
      else if contains expanded ''RUST_LIBRESSL_252'' then libressl_found ''252''
      else if contains expanded ''RUST_LIBRESSL_253'' then libressl_found ''253''
      else if contains expanded ''RUST_LIBRESSL_254'' then libressl_found ''254''
      else if contains expanded ''RUST_LIBRESSL_255'' then libressl_found ''255''
      else if contains expanded ''RUST_LIBRESSL_260'' then libressl_found ''260''
      else if contains expanded ''RUST_LIBRESSL_261'' then libressl_found ''261''
      else if contains expanded ''RUST_LIBRESSL_262'' then libressl_found ''262''
      else if contains expanded ''RUST_OPENSSL_110F'' then
        and_then (println ''cargo:rustc-cfg=ossl110'') (\<lambda>_.
        and_then (println ''cargo:rustc-cfg=ossl110f'') (\<lambda>_.
        and_then (println ''cargo:version=110'') (\<lambda>_.
        and_then (println ''cargo:patch=f'') (\<lambda>_.
        ret Openssl110))))
      else if contains expanded ''RUST_OPENSSL_110'' then
        and_then (println ''cargo:rustc-cfg=ossl110'') (\<lambda>_.
        and_then (println ''cargo:version=110'') (\<lambda>_.
        ret Openssl110))
      else if contains expanded ''RUST_OPENSSL_102'' then
        and_then (println ''cargo:rustc-cfg=ossl102'') (\<lambda>_.
        and_then (println ''cargo:version=102'') (\<lambda>_.
        ret Openssl102))
      else if contains expanded ''RUST_OPENSSL_101'' then
        and_then (println ''cargo:rustc-cfg=ossl101'') (\<lambda>_.
        and_then (println ''cargo:version=101'') (\<lambda>_.
        ret Openssl101))
      else panic_with version_mismatch)"

text \<open>The loop over \<open>DEFINES\<close>: prints the configuration of each one found and collects them.\<close>

fun enabled_defines :: "string \<Rightarrow> string list \<Rightarrow> string list \<Rightarrow> string list build" where
  "enabled_defines expanded [] enabled = ret enabled"
| "enabled_defines expanded (define # rest) enabled =
     (if contains expanded (''RUST_'' @ define @ ''_RUST'') then
        and_then (println (''cargo:rustc-cfg=osslconf='' @ quoted define)) (\<lambda>_.
        enabled_defines expanded rest (enabled @ [define]))
      else enabled_defines expanded rest enabled)"

definition expand :: "tools \<Rightarrow> string list \<Rightarrow> string \<Rightarrow> string option build" where
  "expand T dirs path st = (Ok (cc_expand T dirs path (written st)), st)"

definition validate_headers :: "tools \<Rightarrow> string list \<Rightarrow> Version build" where
  "validate_headers T include_dirs =
     and_then (var_os ''OUT_DIR'') (\<lambda>dir.
     and_then (unwrap_some dir) (\<lambda>out_dir.
     let path = path_join out_dir ''expando.c'' in
     and_then (write_file T path expando_text) (\<lambda>_.
     and_then (expand T include_dirs path) (\<lambda>r.
     case r of
       None \<Rightarrow> panic_with headers_missing
     | Some bytes \<Rightarrow>
         and_then (unwrap_some (from_utf8 bytes)) (\<lambda>expanded.
         and_then (enabled_defines expanded DEFINES []) (\<lambda>enabled.
         and_then (println (''cargo:conf='' @ join_with '','' enabled)) (\<lambda>_.
         report_version expanded)))))))"

text \<open>
  How to link. \<open>read_dir\<close> and each entry are unwrapped; names that are not UTF-8 are left out.
\<close>

definition mode_missing :: "string \<Rightarrow> string" where
  "mode_missing libdir =
     ''OpenSSL libdir at `'' @ to_string_lossy libdir @
     ''` does not contain the required files to either statically or dynamically link OpenSSL''"

definition dir_files :: "tools \<Rightarrow> string \<Rightarrow> string list build" where
  "dir_files T libdir =
     (case read_dir T libdir of
        None \<Rightarrow> panic
      | Some entries \<Rightarrow>
          if None \<in> set entries then panic
          else ret (List.map_filter from_utf8 (List.map_filter (\<lambda>e. e) entries)))"

definition can_static :: "string list \<Rightarrow> string list \<Rightarrow> bool" where
  "can_static files libs =
     list_all (\<lambda>l. ''lib'' @ l @ ''.a'' \<in> set files \<or> l @ ''.lib'' \<in> set files) libs"

definition can_dylib :: "string list \<Rightarrow> string list \<Rightarrow> bool" where
  "can_dylib files libs =
     list_all (\<lambda>l. ''lib'' @ l @ ''.so'' \<in> set files \<or> l @ ''.dll'' \<in> set files \<or>
                    ''lib'' @ l @ ''.dylib'' \<in> set files) libs"

definition determine_mode :: "tools \<Rightarrow> string \<Rightarrow> string list \<Rightarrow> string build" where
  "determine_mode T libdir libs =
     and_then (sys_env ''OPENSSL_STATIC'') (\<lambda>kind.
     case Option.bind kind from_utf8 of
       Some s \<Rightarrow> ret (if s = ''0'' then ''dylib'' else ''static'')
     | None \<Rightarrow>
         and_then (dir_files T libdir) (\<lambda>files.
         case (can_static files libs, can_dylib files libs) of
           (True, False) \<Rightarrow> ret ''static''
         | (False, True) \<Rightarrow> ret ''dylib''
         | (False, False) \<Rightarrow> panic_with (mode_missing libdir)
         | (True, True) \<Rightarrow> ret ''dylib''))"

text \<open>
  \<open>try_pkg_config\<close> does not return when it succeeds: the script exits. The same holds for
  \<open>try_vcpkg\<close>, which does nothing unless the script itself is built for MSVC.
\<close>

definition try_pkg_config :: "tools \<Rightarrow> unit build" where
  "try_pkg_config T =
     and_then (var ''TARGET'') (\<lambda>t. and_then (unwrap_some t) (\<lambda>target.
     and_then (var ''HOST'') (\<lambda>h. and_then (unwrap_some h) (\<lambda>host.
     let search =
       and_then (run_pkg_config T ''openssl'') (\<lambda>found.
       case found of
         Inl e \<Rightarrow> println (''run pkg_config fail: '' @ e)
       | Inr include_paths \<Rightarrow>
           and_then (validate_headers T include_paths) (\<lambda>_.
           and_then (print_all (map (\<lambda>p. ''cargo:include='' @ to_string_lossy p) include_paths)) (\<lambda>_.
           throw (Exit 0))))
     in
     if contains target ''windows-gnu'' \<and> contains host ''windows'' then
       and_then (set_var ''PKG_CONFIG_ALLOW_CROSS'' ''1'') (\<lambda>_. search)
     else if contains target ''windows'' then ret ()
     else search))))"

definition try_vcpkg :: "tools \<Rightarrow> unit build" where
  "try_vcpkg T =
     (if \<not> host_msvc T then ret ()
      else
        and_then (run_vcpkg T [''libcrypto'', ''libssl''] ''openssl'') (\<lambda>first.
        and_then (case first of
            Inl e \<Rightarrow>
              and_then (println (''note: vcpkg did not find openssl as libcrypto and libssl : '' @ e)) (\<lambda>_.
              run_vcpkg T [''libeay32'', ''ssleay32''] ''openssl'')
          | Inr lib \<Rightarrow> ret (Inr lib)) (\<lambda>second.
        case second of
          Inl e \<Rightarrow> println (''note: vcpkg did not find openssl as ssleay32 and libeay32: '' @ e)
        | Inr include_paths \<Rightarrow>
            and_then (validate_headers T include_paths) (\<lambda>_.
            and_then (println ''cargo:rustc-link-lib=user32'') (\<lambda>_.
            and_then (println ''cargo:rustc-link-lib=gdi32'') (\<lambda>_.
            and_then (println ''cargo:rustc-link-lib=crypt32'') (\<lambda>_.
            throw (Exit 0))))))))"

text \<open>The message of the panic when no installation is found.\<close>

definition not_found_head :: "string \<Rightarrow> string \<Rightarrow> string" where
  "not_found_head host target = unlines
     ['''',
      '''',
      ''Could not find directory of OpenSSL installation, and this `-sys` crate cannot'',
      ''proceed without this knowledge. If OpenSSL is installed and this crate had'',
      ''trouble finding it,  you can set the `OPENSSL_DIR` environment variable for the'',
      ''compilation process.'',
      '''',
      ''If you're in a situation where you think the directory *should* be found'',
      ''automatically, please open a bug at https://github.com/sfackler/rust-openssl'',
      ''and include information about your system as well as this message.'',
      '''',
      ''    $HOST = '' @ host,
      ''    $TARGET = '' @ target,
      ''    openssl-sys = 0.9.23'',
      '''']"

definition hint_macos :: string where
  "hint_macos = unlines
     ['''',
      '''',
      ''It looks like you're compiling on macOS, where the system contains a version of'',
      ''OpenSSL 0.9.8. This crate no longer supports OpenSSL 0.9.8.'',
      '''',
      ''As a consumer of this crate, you can fix this error by using Homebrew to'',
      ''install the `openssl` package, or as a maintainer you can use the openssl-sys'',
      ''0.7 crate for support with OpenSSL 0.9.8.'',
      '''',
      ''Unfortunately though the compile cannot continue, so aborting.'',
      '''']"

definition hint_linux :: string where
  "hint_linux = unlines
     ['''',
      ''It looks like you're compiling on Linux and also targeting Linux. Currently this'',
      ''requires the `pkg-config` utility to find OpenSSL but unfortunately `pkg-config`'',
      ''could not be found. If you have OpenSSL installed you can likely fix this by'',
      ''installing `pkg-config`.'',
      '''']"

definition hint_mingw :: string where
  "hint_mingw = unlines
     ['''',
      ''It looks like you're compiling for MinGW but you may not have either OpenSSL or'',
      ''pkg-config installed. You can install these two dependencies with:'',
      '''',
      ''    pacman -S openssl-devel pkg-config'',
      '''',
      ''and try building this crate again.'',
      '''']"

definition hint_msvc :: string where
  "hint_msvc = unlines
     ['''',
      ''It looks like you're compiling for MSVC but we couldn't detect an OpenSSL'',
      ''installation. If there isn't one installed then you can try the rust-openssl'',
      ''README for more information about how to download precompiled binaries of'',
      ''OpenSSL:'',
      '''',
      ''    https://github.com/sfackler/rust-openssl#windows'',
      '''']"

definition not_found_message :: "tools \<Rightarrow> string \<Rightarrow> string \<Rightarrow> string" where
  "not_found_message T host target =
     not_found_head host target @
     (if contains host ''apple-darwin'' \<and> contains target ''apple-darwin''
         \<and> path_exists T ''/usr/lib/libssl.0.9.8.dylib'' then hint_macos else '''') @
     (if contains host ''unknown-linux'' \<and> contains target ''unknown-linux-gnu''
         \<and> \<not> pkg_config_runs T then hint_linux else '''') @
     (if contains host ''windows'' \<and> contains target ''windows-gnu'' then hint_mingw else '''') @
     (if contains host ''windows'' \<and> contains target ''windows-msvc'' then hint_msvc else '''')"

definition find_openssl_dir :: "tools \<Rightarrow> string \<Rightarrow> string build" where
  "find_openssl_dir T target =
     and_then (var ''HOST'') (\<lambda>h. and_then (unwrap_some h) (\<lambda>host.
     let darwin = contains host ''apple-darwin'' \<and> contains target ''apple-darwin'' in
     if darwin \<and> path_exists T ''/usr/local/opt/openssl@1.1'' then ret ''/usr/local/opt/openssl@1.1''
     else if darwin \<and> path_exists T ''/usr/local/opt/openssl'' then ret ''/usr/local/opt/openssl''
     else
       and_then (try_pkg_config T) (\<lambda>_.
       and_then (try_vcpkg T) (\<lambda>_.
       panic_with (not_found_message T host target)))))"

definition default_libs :: "Version \<Rightarrow> string \<Rightarrow> string list" where
  "default_libs version target =
     (if version \<in> {Openssl101, Openssl102} \<and> contains target ''windows'' then [''ssleay32'', ''libeay32'']
      else if version = Openssl110 \<and> contains target ''windows'' then [''libssl'', ''libcrypto'']
      else [''ssl'', ''crypto''])"

text \<open>The directories, from their variables or below the installation.\<close>

definition openssl_dirs :: "tools \<Rightarrow> string \<Rightarrow> (string \<times> string) build" where
  "openssl_dirs T target =
     and_then (sys_env ''OPENSSL_LIB_DIR'') (\<lambda>lib_dir.
     and_then (sys_env ''OPENSSL_INCLUDE_DIR'') (\<lambda>include_dir.
     case (lib_dir, include_dir) of
       (Some l, Some i) \<Rightarrow> ret (l, i)
     | _ \<Rightarrow>
         and_then (sys_env ''OPENSSL_DIR'') (\<lambda>v.
         and_then (case v of Some d \<Rightarrow> ret d | None \<Rightarrow> find_openssl_dir T target) (\<lambda>openssl_dir.
         ret (case lib_dir of Some l \<Rightarrow> l | None \<Rightarrow> path_join openssl_dir ''lib'',
              case include_dir of Some i \<Rightarrow> i | None \<Rightarrow> path_join openssl_dir ''include'')))))"

definition sys_main :: "tools \<Rightarrow> unit build" where
  "sys_main T =
     and_then (var ''TARGET'') (\<lambda>t. and_then (unwrap_some t) (\<lambda>target.
     and_then (openssl_dirs T target) (\<lambda>(lib_dir, include_dir).
     if \<not> path_exists T lib_dir then
       panic_with (''OpenSSL library directory does not exist: '' @ to_string_lossy lib_dir)
     else if \<not> path_exists T include_dir then
       panic_with (''OpenSSL include directory does not exist: '' @ to_string_lossy include_dir)
     else
       and_then (println (''cargo:rustc-link-search=native='' @ to_string_lossy lib_dir)) (\<lambda>_.
       and_then (println (''cargo:include='' @ to_string_lossy include_dir)) (\<lambda>_.
       and_then (validate_headers T [include_dir]) (\<lambda>version.
       and_then (sys_env ''OPENSSL_LIBS'') (\<lambda>libs_env.
       let libs = (case Option.bind libs_env from_utf8 of
                     Some v \<Rightarrow> split_on (CHR '':'') v
                   | None \<Rightarrow> default_libs version target) in
       and_then (determine_mode T lib_dir libs) (\<lambda>kind.
       print_all (map (\<lambda>l. ''cargo:rustc-link-lib='' @ kind @ ''='' @ l) libs)))))))))"

subsection \<open>openssl/build.rs\<close>

definition openssl_main :: "unit build" where
  "openssl_main =
     and_then (var ''DEP_OPENSSL_VERSION'') (\<lambda>version.
     and_then (case version of
         Some v \<Rightarrow>
           if v = ''101'' then
             and_then (println ''cargo:rustc-cfg=ossl101'') (\<lambda>_. println ''cargo:rustc-cfg=ossl10x'')
           else if v = ''102'' then
             and_then (println ''cargo:rustc-cfg=ossl102'') (\<lambda>_. println ''cargo:rustc-cfg=ossl10x'')
           else if v = ''110'' then println ''cargo:rustc-cfg=ossl110''
           else panic_with ''Unable to detect OpenSSL version''
       | None \<Rightarrow> panic_with ''Unable to detect OpenSSL version'') (\<lambda>_.
     and_then (var ''DEP_OPENSSL_LIBRESSL'') (\<lambda>libressl.
     and_then (if libressl \<noteq> None then println ''cargo:rustc-cfg=libressl'' else ret ()) (\<lambda>_.
     and_then (var ''DEP_OPENSSL_LIBRESSL_VERSION'') (\<lambda>v.
     and_then (case v of Some x \<Rightarrow> println (''cargo:rustc-cfg=libressl'' @ x) | None \<Rightarrow> ret ()) (\<lambda>_.
     and_then (var ''DEP_OPENSSL_CONF'') (\<lambda>conf.
     case conf of
       Some names \<Rightarrow>
         print_all (map (\<lambda>x. ''cargo:rustc-cfg=osslconf='' @ quoted x) (split_on (CHR '','') names))
     | None \<Rightarrow> ret ())))))))"

subsection \<open>systest/build.rs\<close>

text \<open>
  The script configures the generator of the crate \<open>ctest\<close>: the calls in their order, and the
  closures it passes.
\<close>

datatype ctest_call =
    Include string
  | Header string
  | Flag string
  | Cfg string "string option"
  | Generate string string

definition systest_headers :: "string list" where
  "systest_headers =
     [''openssl/comp.h'', ''openssl/dh.h'', ''openssl/ossl_typ.h'', ''openssl/stack.h'',
      ''openssl/x509.h'', ''openssl/bio.h'', ''openssl/x509v3.h'', ''openssl/safestack.h'',
      ''openssl/hmac.h'', ''openssl/ssl.h'', ''openssl/err.h'', ''openssl/rand.h'',
      ''openssl/pkcs12.h'', ''openssl/bn.h'', ''openssl/aes.h'', ''openssl/ocsp.h'']"

definition systest_calls :: "string \<Rightarrow> (string \<Rightarrow> string option) \<Rightarrow> ctest_call list" where
  "systest_calls target dep =
     (case dep ''DEP_OPENSSL_INCLUDE'' of Some out \<Rightarrow> [Include out] | None \<Rightarrow> []) @
     (if contains target ''windows'' then
        [Header ''windows.h''] @ (if contains target ''msvc'' then [Flag ''/wd4090''] else [])
      else []) @
     (case dep ''DEP_OPENSSL_LIBRESSL'' of
        Some _ \<Rightarrow> [Cfg ''libressl'' None]
      | None \<Rightarrow>
          (case dep ''DEP_OPENSSL_VERSION'' of
             Some version \<Rightarrow> [Cfg (''ossl'' @ version) None]
           | None \<Rightarrow> [])) @
     (case (dep ''DEP_OPENSSL_VERSION'', dep ''DEP_OPENSSL_PATCH'') of
        (Some version, Some patch) \<Rightarrow> [Cfg (''ossl'' @ version @ patch) None]
      | _ \<Rightarrow> []) @
     (case dep ''DEP_OPENSSL_CONF'' of
        Some names \<Rightarrow> map (\<lambda>x. Cfg ''osslconf'' (Some x)) (split_on (CHR '','') names)
      | None \<Rightarrow> []) @
     map Header systest_headers @
     (let has_cms_h = (case dep ''DEP_OPENSSL_LIBRESSL_VERSION'' of
                         Some version \<Rightarrow> version \<noteq> ''261'' \<and> version \<noteq> ''262''
                       | None \<Rightarrow> True)
      in if has_cms_h then [Header ''openssl/cms.h''] else [])"

definition type_name :: "string \<Rightarrow> bool \<Rightarrow> string option" where
  "type_name s is_struct =
     (if s = ''PasswordCallback'' then Some ''pem_password_cb*''
      else if s = ''bio_info_cb'' then Some ''bio_info_cb*''
      else if s = ''_STACK'' then Some ''struct stack_st''
      else if is_struct \<and> s \<noteq> ''point_conversion_form_t'' then
        (case s of
           [] \<Rightarrow> None
         | c # _ \<Rightarrow> Some (if is_lowercase c then ''struct '' @ s else s))
      else Some s)"

definition skip_type :: "string \<Rightarrow> bool" where
  "skip_type s = (s = ''PasswordCallback'' \<or> s = ''bio_info_cb'' \<or> starts_with s ''CRYPTO_EX_'')"

definition skip_struct :: "string \<Rightarrow> bool" where
  "skip_struct s = (s = ''ProbeResult'')"

definition skip_fn :: "string \<Rightarrow> string \<Rightarrow> bool" where
  "skip_fn target s =
     (s = ''CRYPTO_memcmp'' \<or>
      contains target ''windows'' \<and>
        (s = ''SSL_get_ex_new_index'' \<or> s = ''SSL_CTX_get_ex_new_index'' \<or> s = ''CRYPTO_get_ex_new_index''))"

definition skip_field_type :: "string \<Rightarrow> string \<Rightarrow> bool" where
  "skip_field_type s field = (s = ''EVP_PKEY'' \<and> field = ''pkey'' \<or> s = ''GENERAL_NAME'' \<and> field = ''d'')"

definition skip_signededness :: "string \<Rightarrow> bool" where
  "skip_signededness s =
     (ends_with s ''_cb'' \<or> ends_with s ''_CB'' \<or> ends_with s ''_cb_fn'' \<or>
      starts_with s ''CRYPTO_'' \<or> s = ''PasswordCallback'')"

definition field_name :: "string \<Rightarrow> string \<Rightarrow> string" where
  "field_name s field = (if field = ''type_'' then ''type'' else field)"

definition fn_cname :: "string \<Rightarrow> string option \<Rightarrow> string" where
  "fn_cname rust link_name = (case link_name of Some n \<Rightarrow> n | None \<Rightarrow> rust)"

record ctest =
  ct_calls :: "ctest_call list"
  ct_type_name :: "string \<Rightarrow> bool \<Rightarrow> string option"
  ct_skip_type :: "string \<Rightarrow> bool"
  ct_skip_struct :: "string \<Rightarrow> bool"
  ct_skip_fn :: "string \<Rightarrow> bool"
  ct_skip_field_type :: "string \<Rightarrow> string \<Rightarrow> bool"
  ct_skip_signededness :: "string \<Rightarrow> bool"
  ct_field_name :: "string \<Rightarrow> string \<Rightarrow> string"
  ct_fn_cname :: "string \<Rightarrow> string option \<Rightarrow> string"

definition systest_main :: "ctest build" where
  "systest_main =
     and_then (var ''TARGET'') (\<lambda>t. and_then (unwrap_some t) (\<lambda>target.
     \<lambda>st. (Ok \<lparr>ct_calls = systest_calls target (\<lambda>n. Option.bind (vars st n) from_utf8) @
                        [Generate ''../openssl-sys/src/lib.rs'' ''all.rs''],
               ct_type_name = type_name, ct_skip_type = skip_type, ct_skip_struct = skip_struct,
               ct_skip_fn = skip_fn target, ct_skip_field_type = skip_field_type,
               ct_skip_signededness = skip_signededness, ct_field_name = field_name,
               ct_fn_cname = fn_cname\<rparr>, st)))"

end
