(* ===== verification/Build_Cpp.thy ===== *)
theory Build_Cpp
  imports Ossl_Build
begin

text \<open>
  The C file the build script generates, read as a program of preprocessor lines with a semantics of its
  own, \<open>live\<close>; the predicate \<open>cpp_law\<close> states that the compiler follows it on that file. The lemma
  \<open>expanded_contains\<close> tells what the tests of the script on the expanded text mean.
\<close>

subsection \<open>A fragment of the C preprocessor\<close>

datatype cpp_cond = AtLeast string nat | DefinedBelow string nat

datatype cpp_line = CInclude string | CText string | CIf cpp_cond | CElif cpp_cond | CIfdef string | CElse | CEndif

type_synonym macros = "string \<Rightarrow> nat option"

definition show_number :: "nat \<Rightarrow> string" where
  "show_number n = ''0x'' @ pad_left 8 (CHR ''0'') (show_hex n)"

fun show_cond :: "cpp_cond \<Rightarrow> string" where
  "show_cond (AtLeast x n) = x @ '' >= '' @ show_number n"
| "show_cond (DefinedBelow x n) = ''defined ('' @ x @ '') && '' @ x @ '' < '' @ show_number n"

fun show_cpp :: "cpp_line \<Rightarrow> string" where
  "show_cpp (CInclude h) = ''#include <'' @ h @ ''>''"
| "show_cpp (CText s) = s"
| "show_cpp (CIf c) = ''#if '' @ show_cond c"
| "show_cpp (CElif c) = ''#elif '' @ show_cond c"
| "show_cpp (CIfdef d) = ''#ifdef '' @ d"
| "show_cpp CElse = ''#else''"
| "show_cpp CEndif = ''#endif''"

text \<open>A name that is not defined counts as 0 in a condition.\<close>

fun holds_cond :: "macros \<Rightarrow> cpp_cond \<Rightarrow> bool" where
  "holds_cond m (AtLeast x n) = (n \<le> (case m x of Some v \<Rightarrow> v | None \<Rightarrow> 0))"
| "holds_cond m (DefinedBelow x n) = (case m x of Some v \<Rightarrow> v < n | None \<Rightarrow> False)"

text \<open>
  The text lines that survive, for conditionals that are not nested: \<open>active\<close> tells whether the current
  group is kept, \<open>taken\<close> whether a group of the current conditional has been kept.
\<close>

fun live_lines :: "macros \<Rightarrow> bool \<Rightarrow> bool \<Rightarrow> cpp_line list \<Rightarrow> string list" where
  "live_lines m active taken [] = []"
| "live_lines m active taken (CInclude h # ls) = live_lines m active taken ls"
| "live_lines m active taken (CText s # ls) =
     (if active then s # live_lines m active taken ls else live_lines m active taken ls)"
| "live_lines m active taken (CIf c # ls) = live_lines m (holds_cond m c) (holds_cond m c) ls"
| "live_lines m active taken (CIfdef d # ls) = live_lines m (m d \<noteq> None) (m d \<noteq> None) ls"
| "live_lines m active taken (CElif c # ls) =
     (if taken then live_lines m False True ls else live_lines m (holds_cond m c) (holds_cond m c) ls)"
| "live_lines m active taken (CElse # ls) = live_lines m (\<not> taken) True ls"
| "live_lines m active taken (CEndif # ls) = live_lines m True False ls"

definition live :: "macros \<Rightarrow> cpp_line list \<Rightarrow> string list" where
  "live m ls = live_lines m True False ls"

fun elif_lines :: "(cpp_cond \<times> string) list \<Rightarrow> cpp_line list" where
  "elif_lines [] = []"
| "elif_lines ((c, s) # cs) = CElif c # CText s # elif_lines cs"

fun first_match :: "macros \<Rightarrow> (cpp_cond \<times> string) list \<Rightarrow> string \<Rightarrow> string" where
  "first_match m [] e = e"
| "first_match m ((c, s) # cs) e = (if holds_cond m c then s else first_match m cs e)"

lemma live_skips: "live_lines m False True (elif_lines cs @ rest) = live_lines m False True rest"
  by (induction cs rule: elif_lines.induct) auto

lemma live_chain:
  "live_lines m a False (elif_lines ((c, s) # cs) @ CElse # CText e # CEndif # rest) =
   first_match m ((c, s) # cs) e # live_lines m True False rest"
proof (induction cs arbitrary: a c s)
  case Nil
  then show ?case by simp
next
  case (Cons p cs)
  obtain c' s' where p: "p = (c', s')" by fastforce
  show ?case
  proof (cases "holds_cond m c")
    case True
    have "live_lines m True True (elif_lines (p # cs) @ CElse # CText e # CEndif # rest) =
        live_lines m True False rest"
      using live_skips [of m cs "CElse # CText e # CEndif # rest"] by (simp add: p)
    with True show ?thesis by simp
  next
    case False
    then show ?thesis using Cons.IH [of False c' s'] by (simp add: p)
  qed
qed

lemma live_defines:
  "live_lines m True False (concat (map (\<lambda>d. [CIfdef d, CText (f d), CEndif]) ds)) =
   map f (filter (\<lambda>d. m d \<noteq> None) ds)"
  by (induction ds) auto

subsection \<open>The generated file\<close>

definition version_chain :: "(cpp_cond \<times> string) list" where
  "version_chain =
     [(AtLeast ''LIBRESSL_VERSION_NUMBER'' 0x20603000, ''RUST_LIBRESSL_NEW''),
      (AtLeast ''LIBRESSL_VERSION_NUMBER'' 0x20602000, ''RUST_LIBRESSL_262''),
      (AtLeast ''LIBRESSL_VERSION_NUMBER'' 0x20601000, ''RUST_LIBRESSL_261''),
      (AtLeast ''LIBRESSL_VERSION_NUMBER'' 0x20600000, ''RUST_LIBRESSL_260''),
      (AtLeast ''LIBRESSL_VERSION_NUMBER'' 0x20506000, ''RUST_LIBRESSL_NEW''),
      (AtLeast ''LIBRESSL_VERSION_NUMBER'' 0x20505000, ''RUST_LIBRESSL_255''),
      (AtLeast ''LIBRESSL_VERSION_NUMBER'' 0x20504000, ''RUST_LIBRESSL_254''),
      (AtLeast ''LIBRESSL_VERSION_NUMBER'' 0x20503000, ''RUST_LIBRESSL_253''),
      (AtLeast ''LIBRESSL_VERSION_NUMBER'' 0x20502000, ''RUST_LIBRESSL_252''),
      (AtLeast ''LIBRESSL_VERSION_NUMBER'' 0x20501000, ''RUST_LIBRESSL_251''),
      (AtLeast ''LIBRESSL_VERSION_NUMBER'' 0x20500000, ''RUST_LIBRESSL_250''),
      (DefinedBelow ''LIBRESSL_VERSION_NUMBER'' 0x20500000, ''RUST_LIBRESSL_OLD''),
      (AtLeast ''OPENSSL_VERSION_NUMBER'' 0x10101000, ''RUST_OPENSSL_NEW''),
      (AtLeast ''OPENSSL_VERSION_NUMBER'' 0x10100060, ''RUST_OPENSSL_110F''),
      (AtLeast ''OPENSSL_VERSION_NUMBER'' 0x10100000, ''RUST_OPENSSL_110''),
      (AtLeast ''OPENSSL_VERSION_NUMBER'' 0x10002000, ''RUST_OPENSSL_102''),
      (AtLeast ''OPENSSL_VERSION_NUMBER'' 0x10001000, ''RUST_OPENSSL_101'')]"

fun if_lines :: "(cpp_cond \<times> string) list \<Rightarrow> cpp_line list" where
  "if_lines [] = []"
| "if_lines ((c, s) # cs) = CIf c # CText s # elif_lines cs"

definition define_mark :: "string \<Rightarrow> string" where
  "define_mark d = ''RUST_'' @ d @ ''_RUST''"

definition expando :: "cpp_line list" where
  "expando =
     [CInclude ''openssl/opensslv.h'', CInclude ''openssl/opensslconf.h'', CText ''''] @
     if_lines version_chain @ [CElse, CText ''RUST_OPENSSL_OLD'', CEndif] @
     concat (map (\<lambda>d. [CIfdef d, CText (define_mark d), CEndif]) DEFINES)"

lemma show_chain:
  "map show_cpp (if_lines version_chain) = drop 3 (butlast (butlast (butlast expando_head)))"
  by (simp add: version_chain_def expando_head_def show_number_def pad_left_def show_hex.simps hex_digit_def
      char_of_eq_iff)

lemma show_defines:
  "map show_cpp (concat (map (\<lambda>d. [CIfdef d, CText (define_mark d), CEndif]) ds)) =
   concat (map expando_define ds)"
  by (induction ds) (simp_all add: define_mark_def expando_define_def)

lemma expando_renders: "expando_text = unlines (map show_cpp expando)"
proof -
  have head: "expando_head = map show_cpp [CInclude ''openssl/opensslv.h'', CInclude ''openssl/opensslconf.h'', CText ''''] @
      drop 3 (butlast (butlast (butlast expando_head))) @ map show_cpp [CElse, CText ''RUST_OPENSSL_OLD'', CEndif]"
    by (simp add: expando_head_def)
  show ?thesis
    unfolding expando_text_def
    by (subst head) (simp only: expando_def show_chain show_defines map_append append_assoc)
qed

definition version_tag :: "macros \<Rightarrow> string" where
  "version_tag m = first_match m version_chain ''RUST_OPENSSL_OLD''"

lemma live_if_lines:
  "live_lines m True False (if_lines ((c, s) # cs) @ CElse # CText e # CEndif # rest) =
   first_match m ((c, s) # cs) e # live_lines m True False rest"
  using live_chain [of m True c s cs e rest] by simp

lemma live_expando:
  "live m expando = '''' # version_tag m # map define_mark (filter (\<lambda>d. m d \<noteq> None) DEFINES)"
proof -
  obtain c s cs where chain: "version_chain = (c, s) # cs" by (simp add: version_chain_def)
  show ?thesis
    by (simp add: chain live_def expando_def version_tag_def live_if_lines live_defines del: if_lines.simps)
qed

subsection \<open>What the compiler does with it\<close>

text \<open>
  \<open>hdr dirs\<close> is what the two headers below the include directories define, if they are found. The
  expansion of the generated file fails without them; otherwise it is text in which exactly the live lines of
  the file mention \<open>RUST_\<close>, in their order. The headers themselves and the line markers of the compiler do
  not.
\<close>

definition cpp_law :: "tools \<Rightarrow> (string list \<Rightarrow> macros option) \<Rightarrow> bool" where
  "cpp_law T hdr \<longleftrightarrow>
     (\<forall>dirs path W. W path = Some (unlines (map show_cpp expando)) \<longrightarrow>
        (case hdr dirs of
           None \<Rightarrow> cc_expand T dirs path W = None
         | Some m \<Rightarrow>
             \<exists>out. cc_expand T dirs path W = Some out \<and> from_utf8 out = Some out \<and>
               filter (\<lambda>l. contains l ''RUST_'') (split_on (CHR 0x0A) out) =
               filter (\<lambda>l. contains l ''RUST_'') (live m expando)))"

lemma cpp_law_None:
  "cpp_law T hdr \<Longrightarrow> hdr dirs = None \<Longrightarrow> W path = Some expando_text \<Longrightarrow> cc_expand T dirs path W = None"
  unfolding cpp_law_def expando_renders [symmetric] by (drule spec [of _ dirs]) auto

lemma cpp_law_Some:
  assumes "cpp_law T hdr" "hdr dirs = Some m" "W path = Some expando_text"
  obtains out where "cc_expand T dirs path W = Some out" "from_utf8 out = Some out"
    "filter (\<lambda>l. contains l ''RUST_'') (split_on (CHR 0x0A) out) =
     filter (\<lambda>l. contains l ''RUST_'') (live m expando)"
  using assms(1) [unfolded cpp_law_def expando_renders [symmetric], rule_format, of W path dirs] assms(2,3)
  by auto

definition marks :: "string list" where
  "marks =
     [''RUST_LIBRESSL_250'', ''RUST_LIBRESSL_251'', ''RUST_LIBRESSL_252'', ''RUST_LIBRESSL_253'',
      ''RUST_LIBRESSL_254'', ''RUST_LIBRESSL_255'', ''RUST_LIBRESSL_260'', ''RUST_LIBRESSL_261'',
      ''RUST_LIBRESSL_262'', ''RUST_OPENSSL_110F'', ''RUST_OPENSSL_110'', ''RUST_OPENSSL_102'',
      ''RUST_OPENSSL_101'']"

lemma starts_contains: "starts_with p q \<Longrightarrow> contains p q"
  by (cases p) (auto simp: starts_with_def)

lemma expanded_contains:
  assumes lines: "filter (\<lambda>l. contains l ''RUST_'') (split_on (CHR 0x0A) out) =
      filter (\<lambda>l. contains l ''RUST_'') (live m expando)"
    and p: "starts_with p ''RUST_''" "CHR 0x0A \<notin> set p"
  shows "contains out p \<longleftrightarrow>
    contains (version_tag m) p \<or> (\<exists>d \<in> set DEFINES. m d \<noteq> None \<and> contains (define_mark d) p)"
proof -
  have p0: "p \<noteq> []" using p(1) by (auto simp: starts_with_def)
  have rust: "contains l ''RUST_''" if "contains l p" for l
    using that starts_contains [OF p(1)] contains_trans by blast
  have "contains out p \<longleftrightarrow> (\<exists>l \<in> set (split_on (CHR 0x0A) out). contains l p)"
    using p(2) p0 by (rule contains_by_parts)
  also have "\<dots> \<longleftrightarrow> (\<exists>l \<in> set (filter (\<lambda>l. contains l ''RUST_'') (split_on (CHR 0x0A) out)). contains l p)"
    using rust by auto
  also have "\<dots> \<longleftrightarrow> (\<exists>l \<in> set (live m expando). contains l p)"
    unfolding lines using rust by auto
  also have "\<dots> \<longleftrightarrow> contains (version_tag m) p \<or> (\<exists>d \<in> set DEFINES. m d \<noteq> None \<and> contains (define_mark d) p)"
    using p0 by (auto simp: live_expando)
  finally show ?thesis .
qed

text \<open>The tests of the script do not confuse the lines of the file, but for one: \<open>110\<close> is found in \<open>110F\<close>.\<close>

lemma marks_rust: "list_all (\<lambda>t. starts_with t ''RUST_'' \<and> CHR 0x0A \<notin> set t) marks"
  by code_simp

lemma defines_rust: "list_all (\<lambda>d. starts_with (define_mark d) ''RUST_'' \<and> CHR 0x0A \<notin> set (define_mark d)) DEFINES"
  by code_simp

lemma marks_not_in_defines: "list_all (\<lambda>d. list_all (\<lambda>t. \<not> contains (define_mark d) t) marks) DEFINES"
  by code_simp

lemma defines_apart:
  "list_all (\<lambda>d. list_all (\<lambda>e. contains (define_mark d) (define_mark e) \<longrightarrow> d = e) DEFINES) DEFINES"
  by code_simp

lemma tags_have_no_define:
  "list_all (\<lambda>t. list_all (\<lambda>d. \<not> contains t (define_mark d)) DEFINES) (''RUST_OPENSSL_OLD'' # map snd version_chain)"
  unfolding version_chain_def list.map snd_conv by code_simp

end
