(* ===== verification/Build_Version.thy ===== *)
theory Build_Version
  imports Build_Cpp
begin

text \<open>
  The version the script reports: a release is read off the macros of the headers, \<open>supported\<close> is the
  table of the releases the crate accepts, and \<open>validate_headers_exact\<close> shows that the script, which
  searches the expanded text for markers, decides by that table.
\<close>

subsection \<open>Releases\<close>

text \<open>The macros hold \<open>0xMNNFFPPS\<close>: major, minor and fix number, patch letter, status.\<close>

datatype release = LibreRelease nat nat nat | OpensslRelease nat nat nat nat

definition release_of :: "macros \<Rightarrow> release" where
  "release_of m =
     (case m ''LIBRESSL_VERSION_NUMBER'' of
        Some n \<Rightarrow> LibreRelease (n div 2 ^ 28) (n div 2 ^ 20 mod 256) (n div 2 ^ 12 mod 256)
      | None \<Rightarrow>
          (let n = (case m ''OPENSSL_VERSION_NUMBER'' of Some v \<Rightarrow> v | None \<Rightarrow> 0)
           in OpensslRelease (n div 2 ^ 28) (n div 2 ^ 20 mod 256) (n div 2 ^ 12 mod 256) (n div 2 ^ 4 mod 256)))"

text \<open>
  The releases the crate supports, as the version the script returns and the lines it prints for it.
\<close>

definition libressl_lines :: "string \<Rightarrow> string list" where
  "libressl_lines v =
     [''cargo:rustc-cfg=libressl'', ''cargo:rustc-cfg=libressl'' @ v, ''cargo:libressl=true'',
      ''cargo:libressl_version='' @ v, ''cargo:version=101'']"

fun supported :: "release \<Rightarrow> (Version \<times> string list) option" where
  "supported (LibreRelease maj mnr fix) =
     (if maj = 2 \<and> (mnr = 5 \<and> fix \<le> 5 \<or> mnr = 6 \<and> fix \<le> 2) then
        Some (Libressl, libressl_lines (show_nat maj @ show_nat mnr @ show_nat fix))
      else None)"
| "supported (OpensslRelease maj mnr fix patch) =
     (if maj = 1 \<and> mnr = 0 \<and> fix = 1 then
        Some (Openssl101, [''cargo:rustc-cfg=ossl101'', ''cargo:version=101''])
      else if maj = 1 \<and> mnr = 0 \<and> 2 \<le> fix then
        Some (Openssl102, [''cargo:rustc-cfg=ossl102'', ''cargo:version=102''])
      else if maj = 1 \<and> mnr = 1 \<and> fix = 0 \<and> patch < 6 then
        Some (Openssl110, [''cargo:rustc-cfg=ossl110'', ''cargo:version=110''])
      else if maj = 1 \<and> mnr = 1 \<and> fix = 0 then
        Some (Openssl110,
          [''cargo:rustc-cfg=ossl110'', ''cargo:rustc-cfg=ossl110f'', ''cargo:version=110'', ''cargo:patch=f''])
      else None)"

definition report_of :: "(Version \<times> string list) option \<Rightarrow> Version build" where
  "report_of r = (case r of Some (v, ls) \<Rightarrow> and_then (print_all ls) (\<lambda>_. ret v) | None \<Rightarrow> panic_with version_mismatch)"

text \<open>What the script reports on each text line of the file alone.\<close>

lemma report_libressl:
  "report_version ''RUST_LIBRESSL_250'' = libressl_found ''250''"
  "report_version ''RUST_LIBRESSL_251'' = libressl_found ''251''"
  "report_version ''RUST_LIBRESSL_252'' = libressl_found ''252''"
  "report_version ''RUST_LIBRESSL_253'' = libressl_found ''253''"
  "report_version ''RUST_LIBRESSL_254'' = libressl_found ''254''"
  "report_version ''RUST_LIBRESSL_255'' = libressl_found ''255''"
  "report_version ''RUST_LIBRESSL_260'' = libressl_found ''260''"
  "report_version ''RUST_LIBRESSL_261'' = libressl_found ''261''"
  "report_version ''RUST_LIBRESSL_262'' = libressl_found ''262''"
  by (simp_all add: report_version_def starts_with_def)

lemma report_openssl:
  "report_version ''RUST_OPENSSL_110F'' =
     report_of (Some (Openssl110,
          [''cargo:rustc-cfg=ossl110'', ''cargo:rustc-cfg=ossl110f'', ''cargo:version=110'', ''cargo:patch=f'']))"
  "report_version ''RUST_OPENSSL_110'' =
     report_of (Some (Openssl110, [''cargo:rustc-cfg=ossl110'', ''cargo:version=110'']))"
  "report_version ''RUST_OPENSSL_102'' =
     report_of (Some (Openssl102, [''cargo:rustc-cfg=ossl102'', ''cargo:version=102'']))"
  "report_version ''RUST_OPENSSL_101'' =
     report_of (Some (Openssl101, [''cargo:rustc-cfg=ossl101'', ''cargo:version=101'']))"
  by (simp_all add: report_version_def starts_with_def report_of_def fun_eq_iff)

lemma report_refused:
  "report_version ''RUST_LIBRESSL_NEW'' = report_of None"
  "report_version ''RUST_LIBRESSL_OLD'' = report_of None"
  "report_version ''RUST_OPENSSL_NEW'' = report_of None"
  "report_version ''RUST_OPENSSL_OLD'' = report_of None"
  by (simp_all add: report_version_def starts_with_def report_of_def)

lemma libressl_found_lines: "libressl_found v = report_of (Some (Libressl, libressl_lines v))"
  by (simp add: libressl_found_def report_of_def libressl_lines_def fun_eq_iff)

lemma show_digits:
  "show_nat 0 = ''0''" "show_nat (Suc 0) = ''1''" "show_nat 2 = ''2''" "show_nat 3 = ''3''" "show_nat 4 = ''4''"
  "show_nat 5 = ''5''" "show_nat 6 = ''6''"
  by (simp_all add: show_nat.simps char_of_eq_iff)

lemmas report_tags = report_libressl report_openssl report_refused

lemma version_digits:
  fixes n :: nat
  obtains s where "n = 2 ^ 28 * (n div 2 ^ 28) + 2 ^ 20 * (n div 2 ^ 20 mod 256) + 2 ^ 12 * (n div 2 ^ 12 mod 256) + s"
    "s < 2 ^ 12" "n div 2 ^ 20 mod 256 < 256" "n div 2 ^ 12 mod 256 < 256" "n div 2 ^ 4 mod 256 = s div 2 ^ 4"
proof (rule that [of "n mod 2 ^ 12"])
  define q where "q = n div 2 ^ 12"
  have parts: "n div 2 ^ 20 = q div 256" "n div 2 ^ 28 = q div 256 div 256"
    by (simp_all add: q_def div_mult2_eq [symmetric])
  have "2 ^ 12 * (256 * (256 * (q div 256 div 256) + q div 256 mod 256) + q mod 256) + n mod 2 ^ 12 = n"
    by (simp only: mult_div_mod_eq) (simp only: q_def mult_div_mod_eq)
  moreover have "2 ^ 12 * (256 * (256 * a + b) + c) + s = 2 ^ 28 * a + 2 ^ 20 * b + 2 ^ 12 * c + s" for a b c s :: nat
    by simp
  ultimately show "n = 2 ^ 28 * (n div 2 ^ 28) + 2 ^ 20 * (n div 2 ^ 20 mod 256) + 2 ^ 12 * (n div 2 ^ 12 mod 256) + n mod 2 ^ 12"
    unfolding parts q_def [symmetric] by (simp only:)
  show "n div 2 ^ 4 mod 256 = n mod 2 ^ 12 div 2 ^ 4"
    using div_exp_mod_exp_eq [of n 4 8] by simp
qed simp_all

lemma version_tag_Some:
  assumes "m ''LIBRESSL_VERSION_NUMBER'' = Some n"
  shows "report_version (version_tag m) = report_of (supported (release_of m))"
proof -
  obtain s where n: "n = 2 ^ 28 * (n div 2 ^ 28) + 2 ^ 20 * (n div 2 ^ 20 mod 256) + 2 ^ 12 * (n div 2 ^ 12 mod 256) + s"
    "s < 2 ^ 12" "n div 2 ^ 20 mod 256 < 256" "n div 2 ^ 12 mod 256 < 256"
    by (rule version_digits)
  define a b c where "a = n div 2 ^ 28" and "b = n div 2 ^ 20 mod 256" and "c = n div 2 ^ 12 mod 256"
  have eq: "n = 268435456 * a + 1048576 * b + 4096 * c + s" "s < 4096" "b < 256" "c < 256"
    using n by (simp_all add: a_def b_def c_def)
  have r: "release_of m = LibreRelease a b c"
    using assms by (simp add: release_of_def a_def b_def c_def)
  consider "a = 2" "b = 5" "c \<le> 5" | "a = 2" "b = 6" "c \<le> 2"
    | "\<not> (a = 2 \<and> (b = 5 \<and> c \<le> 5 \<or> b = 6 \<and> c \<le> 2))" by blast
  then show ?thesis
  proof cases
    case 1
    then consider "c = 0" | "c = 1" | "c = 2" | "c = 3" | "c = 4" | "c = 5" by linarith
    then show ?thesis
      using 1 eq(2) unfolding r
      by cases (simp_all add: version_tag_def version_chain_def assms eq(1) report_tags libressl_found_lines show_digits)
  next
    case 2
    then consider "c = 0" | "c = 1" | "c = 2" by linarith
    then show ?thesis
      using 2 eq(2) unfolding r
      by cases (simp_all add: version_tag_def version_chain_def assms eq(1) report_tags libressl_found_lines show_digits)
  next
    case 3
    then consider "a \<le> 1" | "3 \<le> a" | "a = 2" "b \<le> 4" | "a = 2" "b = 5" "6 \<le> c" | "a = 2" "b = 6" "3 \<le> c" | "a = 2" "7 \<le> b"
      by arith
    then consider "0x20603000 \<le> n" | "n < 0x20600000" "0x20506000 \<le> n" | "n < 0x20500000"
      by cases (use eq in linarith)+
    moreover have "supported (LibreRelease a b c) = None"
      using 3 by (simp only: supported.simps if_False)
    ultimately show ?thesis
      unfolding r by cases (simp_all add: version_tag_def version_chain_def assms report_tags)
  qed
qed

lemma version_tag_None:
  assumes "m ''LIBRESSL_VERSION_NUMBER'' = None"
  shows "report_version (version_tag m) = report_of (supported (release_of m))"
proof -
  define n where "n = (case m ''OPENSSL_VERSION_NUMBER'' of Some v \<Rightarrow> v | None \<Rightarrow> 0)"
  obtain s where n: "n = 2 ^ 28 * (n div 2 ^ 28) + 2 ^ 20 * (n div 2 ^ 20 mod 256) + 2 ^ 12 * (n div 2 ^ 12 mod 256) + s"
    "s < 2 ^ 12" "n div 2 ^ 20 mod 256 < 256" "n div 2 ^ 12 mod 256 < 256" "n div 2 ^ 4 mod 256 = s div 2 ^ 4"
    by (rule version_digits)
  define a b c p where "a = n div 2 ^ 28" and "b = n div 2 ^ 20 mod 256" and "c = n div 2 ^ 12 mod 256"
    and "p = n div 2 ^ 4 mod 256"
  have eq: "n = 268435456 * a + 1048576 * b + 4096 * c + s" "s < 4096" "b < 256" "c < 256" "p < 6 \<longleftrightarrow> s < 96"
    using n by (auto simp add: a_def b_def c_def p_def)
  have r: "release_of m = OpensslRelease a b c p"
    using assms by (simp add: release_of_def n_def [symmetric] a_def b_def c_def p_def)
  have tag: "version_tag m = (if 0x10101000 \<le> n then ''RUST_OPENSSL_NEW''
      else if 0x10100060 \<le> n then ''RUST_OPENSSL_110F'' else if 0x10100000 \<le> n then ''RUST_OPENSSL_110''
      else if 0x10002000 \<le> n then ''RUST_OPENSSL_102'' else if 0x10001000 \<le> n then ''RUST_OPENSSL_101''
      else ''RUST_OPENSSL_OLD'')"
    by (simp add: version_tag_def version_chain_def assms n_def)
  consider "a = 0" | "2 \<le> a" | "a = 1" "2 \<le> b" | "a = 1" "b = 0" | "a = 1" "b = 1" by linarith
  then show ?thesis
  proof cases
    case 4
    consider "c = 0" | "c = 1" | "2 \<le> c" by linarith
    then show ?thesis by cases (use 4 eq in \<open>simp_all add: tag r report_tags\<close>)
  next
    case 5
    consider "c = 0" "p < 6" | "c = 0" "\<not> p < 6" | "1 \<le> c" by linarith
    then show ?thesis by cases (use 5 eq in \<open>simp_all add: tag r report_tags\<close>)
  qed (use eq in \<open>simp_all add: tag r report_tags\<close>)
qed

lemma version_tag_reports: "report_version (version_tag m) = report_of (supported (release_of m))"
  using version_tag_Some version_tag_None by (cases "m ''LIBRESSL_VERSION_NUMBER''") blast+

subsection \<open>What \<open>validate_headers\<close> reports\<close>

lemma report_version_cong:
  "\<forall>t \<in> set marks. contains s t = contains s' t \<Longrightarrow> report_version s = report_version s'"
  by (simp add: report_version_def marks_def)

definition conf_cfg :: "string \<Rightarrow> string" where
  "conf_cfg d = ''cargo:rustc-cfg=osslconf='' @ quoted d"

lemma enabled_defines_run:
  "enabled_defines e ds acc st =
     (Ok (acc @ filter (\<lambda>d. contains e (define_mark d)) ds),
      st\<lparr>printed := printed st @ map conf_cfg (filter (\<lambda>d. contains e (define_mark d)) ds)\<rparr>)"
  by (induction ds arbitrary: acc st) (simp_all add: conf_cfg_def define_mark_def)

lemma validate_steps [simp]:
  "can_create T p \<Longrightarrow> and_then (write_file T p c) f st = f () (st\<lparr>written := (written st)(p \<mapsto> c)\<rparr>)"
  "and_then (expand T dirs p) g st = g (cc_expand T dirs p (written st)) st"
  "and_then (enabled_defines e ds acc) h st =
     h (acc @ filter (\<lambda>d. contains e (define_mark d)) ds)
       (st\<lparr>printed := printed st @ map conf_cfg (filter (\<lambda>d. contains e (define_mark d)) ds)\<rparr>)"
  by (simp_all add: and_then_def write_file_def expand_def enabled_defines_run)

text \<open>The options the headers set, and the lines the script prints for them.\<close>

definition options :: "macros \<Rightarrow> string list" where
  "options m = filter (\<lambda>d. m d \<noteq> None) DEFINES"

definition option_lines :: "macros \<Rightarrow> string list" where
  "option_lines m = map conf_cfg (options m) @ [''cargo:conf='' @ join_with '','' (options m)]"

definition expando_path :: "script \<Rightarrow> string" where
  "expando_path st = path_join (the (vars st ''OUT_DIR'')) ''expando.c''"

definition expando_written :: "script \<Rightarrow> script" where
  "expando_written st = st\<lparr>written := (written st)(expando_path st \<mapsto> expando_text)\<rparr>"

lemma version_tag_in: "version_tag m \<in> set (''RUST_OPENSSL_OLD'' # map snd version_chain)"
proof -
  have "first_match m cs e \<in> set (e # map snd cs)" for cs e
    by (induction m cs e rule: first_match.induct) auto
  then show ?thesis unfolding version_tag_def .
qed

lemma expanded_options:
  assumes "filter (\<lambda>l. contains l ''RUST_'') (split_on (CHR 0x0A) out) =
      filter (\<lambda>l. contains l ''RUST_'') (live m expando)"
  shows "filter (\<lambda>d. contains out (define_mark d)) DEFINES = options m"
  unfolding options_def
proof (rule filter_cong [OF refl])
  fix d assume d: "d \<in> set DEFINES"
  have "starts_with (define_mark d) ''RUST_''" "CHR 0x0A \<notin> set (define_mark d)"
    using d defines_rust by (auto simp: list_all_iff)
  from expanded_contains [OF assms this] show "contains out (define_mark d) \<longleftrightarrow> m d \<noteq> None"
    using d version_tag_in [of m] defines_apart tags_have_no_define by (auto simp: list_all_iff)
qed

lemma expanded_version:
  assumes "filter (\<lambda>l. contains l ''RUST_'') (split_on (CHR 0x0A) out) =
      filter (\<lambda>l. contains l ''RUST_'') (live m expando)"
  shows "report_version out = report_of (supported (release_of m))"
proof -
  have "report_version out = report_version (version_tag m)"
  proof (rule report_version_cong, rule ballI)
    fix t assume t: "t \<in> set marks"
    then have "starts_with t ''RUST_''" "CHR 0x0A \<notin> set t" using marks_rust by (auto simp: list_all_iff)
    from expanded_contains [OF assms this] show "contains out t = contains (version_tag m) t"
      using t marks_not_in_defines by (auto simp: list_all_iff)
  qed
  then show ?thesis by (simp add: version_tag_reports)
qed

lemma validate_headers_run:
  assumes "cpp_law T hdr" "hdr dirs = Some m"
    and "vars st ''OUT_DIR'' \<noteq> None" "can_create T (expando_path st)"
  shows "validate_headers T dirs st =
    report_of (supported (release_of m))
      ((expando_written st)\<lparr>printed := printed st @ option_lines m\<rparr>)"
proof -
  obtain out_dir where dir: "vars st ''OUT_DIR'' = Some out_dir" using assms(3) by blast
  have path: "path_join out_dir ''expando.c'' = expando_path st" by (simp add: expando_path_def dir)
  have "written (expando_written st) (expando_path st) = Some expando_text"
    by (simp add: expando_written_def)
  from cpp_law_Some [where W = "written (expando_written st)", OF assms(1,2) this]
  obtain out where out: "cc_expand T dirs (expando_path st) (written (expando_written st)) = Some out"
    "from_utf8 out = Some out" "filter (\<lambda>l. contains l ''RUST_'') (split_on (CHR 0x0A) out) =
     filter (\<lambda>l. contains l ''RUST_'') (live m expando)" by blast
  have "validate_headers T dirs st = report_version out ((expando_written st)\<lparr>printed := printed st @ option_lines m\<rparr>)"
    using out(1,2) assms(4)
    by (simp add: validate_headers_def dir path expanded_options [OF out(3)] option_lines_def expando_written_def Let_def)
  then show ?thesis by (simp add: expanded_version [OF out(3)])
qed


text \<open>A compiler for the witness: OpenSSL 1.1.0g without SSLv3.\<close>

definition demo_macros :: macros where
  "demo_macros = [''OPENSSL_VERSION_NUMBER'' \<mapsto> 0x1010007f, ''OPENSSL_NO_SSL3_METHOD'' \<mapsto> 0]"

definition demo_hdr :: "string list \<Rightarrow> macros option" where
  "demo_hdr dirs = (if dirs = [''/opt/ssl/include''] then Some demo_macros else None)"

definition demo_tools :: tools where
  "demo_tools =
     \<lparr>path_exists = (\<lambda>p. p \<in> {''/opt/ssl/lib'', ''/opt/ssl/include''}),
      read_dir = (\<lambda>p. Some [Some ''libssl.so'', Some ''libcrypto.so'', Some ''libssl.a'']),
      can_create = (\<lambda>p. True),
      cc_expand = (\<lambda>dirs path W.
        if W path = Some (unlines (map show_cpp expando))
        then map_option (\<lambda>m. unlines (live m expando)) (demo_hdr dirs) else None),
      pkg_config_find = (\<lambda>n v. (Inl ''Failure'', [])),
      pkg_config_runs = False,
      vcpkg_probe = (\<lambda>l n v. (Inl ''NotMSVC'', [])),
      host_msvc = False\<rparr>"

definition demo_script :: script where
  "demo_script =
     \<lparr>printed = [],
      vars = [''TARGET'' \<mapsto> ''x86_64-linux'', ''OUT_DIR'' \<mapsto> ''/out'', ''X86_64_LINUX_OPENSSL_DIR'' \<mapsto> ''/opt/ssl''],
      written = Map.empty\<rparr>"

lemma demo_live:
  "live demo_macros expando = ['''', ''RUST_OPENSSL_110F'', ''RUST_OPENSSL_NO_SSL3_METHOD_RUST'']"
  unfolding live_expando
  by (simp add: version_tag_def version_chain_def demo_macros_def DEFINES_def define_mark_def)

lemma demo_options: "options demo_macros = [''OPENSSL_NO_SSL3_METHOD'']"
  by (simp add: options_def demo_macros_def DEFINES_def)

lemma demo_release: "release_of demo_macros = OpensslRelease 1 1 0 7"
  by (simp add: release_of_def demo_macros_def)

lemma demo_utf8: "from_utf8 (unlines (live demo_macros expando)) = Some (unlines (live demo_macros expando))"
  unfolding demo_live by code_simp

lemma demo_cpp_law: "cpp_law demo_tools demo_hdr"
  unfolding cpp_law_def
proof (intro allI impI)
  fix dirs path and W :: "string \<Rightarrow> string option" assume W: "W path = Some (unlines (map show_cpp expando))"
  have "split_on (CHR 0x0A) (unlines (live demo_macros expando)) = live demo_macros expando @ [[]]"
    by (rule split_on_unlines) (simp add: demo_live)
  then show "case demo_hdr dirs of None \<Rightarrow> cc_expand demo_tools dirs path W = None
         | Some m \<Rightarrow>
             \<exists>out. cc_expand demo_tools dirs path W = Some out \<and> from_utf8 out = Some out \<and>
               filter (\<lambda>l. contains l ''RUST_'') (split_on (CHR 0x0A) out) =
               filter (\<lambda>l. contains l ''RUST_'') (live m expando)"
    using demo_utf8 W by (simp add: demo_hdr_def demo_tools_def)
qed


end
