(* ===== verification/Build_Laws.thy ===== *)
theory Build_Laws
  imports Build_Version
begin

text \<open>
  What a run of the build script of \<open>openssl-sys\<close> that ends normally has done: which directories it
  used and that they exist, in which mode it links and that the files for it are there; and that the
  script of the other crate, run on what Cargo hands on, configures it for the same release and the
  same options.
\<close>

subsection \<open>Variables\<close>

definition env_key :: "string \<Rightarrow> string \<Rightarrow> string" where
  "env_key target name = replace_char (CHR ''-'') (CHR ''_'') (to_uppercase target) @ ''_'' @ name"

text \<open>The variable with the target in its name overrides the plain one.\<close>

definition env_lookup :: "script \<Rightarrow> string \<Rightarrow> string \<Rightarrow> string option" where
  "env_lookup st target name = (case vars st (env_key target name) of Some v \<Rightarrow> Some v | None \<Rightarrow> vars st name)"

definition target_of :: "script \<Rightarrow> string option" where
  "target_of st = Option.bind (vars st ''TARGET'') from_utf8"

definition env_lines :: "script \<Rightarrow> string \<Rightarrow> string \<Rightarrow> string list" where
  "env_lines st target name =
     (''cargo:rerun-if-env-changed='' @ env_key target name) #
     (if vars st (env_key target name) = None then [''cargo:rerun-if-env-changed='' @ name] else [])"

lemma sys_env_run:
  "target_of st = Some target \<Longrightarrow>
   sys_env name st = (Ok (env_lookup st target name), st\<lparr>printed := printed st @ env_lines st target name\<rparr>)"
  by (simp add: sys_env_def target_of_def env_lookup_def env_lines_def env_key_def Let_def split: option.split)

lemma env_printed [simp]:
  "env_lookup (st\<lparr>printed := p\<rparr>) = env_lookup st"
  "target_of (st\<lparr>printed := p\<rparr>) = target_of st"
  "env_lines (st\<lparr>printed := p\<rparr>) = env_lines st"
  by (simp_all add: env_lookup_def target_of_def env_lines_def fun_eq_iff split: option.split)

lemma env_written [simp]:
  "env_lookup (st\<lparr>written := p\<rparr>) = env_lookup st"
  "target_of (st\<lparr>written := p\<rparr>) = target_of st"
  "env_lines (st\<lparr>written := p\<rparr>) = env_lines st"
  by (simp_all add: env_lookup_def target_of_def env_lines_def fun_eq_iff split: option.split)

lemma sys_env_then:
  "target_of st = Some target \<Longrightarrow>
   and_then (sys_env name) f st =
     f (env_lookup st target name) (st\<lparr>printed := printed st @ env_lines st target name\<rparr>)"
  by (simp add: and_then_def sys_env_run)

subsection \<open>Normal ends\<close>

text \<open>
  The lines that are not metadata for dependent crates, or only the include directory. A script that
  ends normally prints nothing else besides what \<open>validate_headers\<close> prints.
\<close>

definition plain_line :: "string \<Rightarrow> bool" where
  "plain_line l = (starts_with l ''cargo:rerun-if-'' \<or> starts_with l ''cargo:rustc-'' \<or> starts_with l ''cargo:include='')"

lemma plain_lines [simp]:
  "plain_line (''cargo:rerun-if-env-changed='' @ s)" "plain_line (''cargo:rustc-link-search=native='' @ s)"
  "plain_line (''cargo:include='' @ s)" "plain_line (''cargo:rustc-link-lib='' @ s)" "plain_line (''cargo:rustc-cfg='' @ s)"
  by (simp_all add: plain_line_def starts_with_def)

lemma env_lines_plain [simp]: "list_all plain_line (env_lines st target name)"
  by (simp add: env_lines_def plain_line_def starts_with_def)

text \<open>A call that only prints plain lines.\<close>

definition prints_plain :: "script \<Rightarrow> script \<Rightarrow> bool" where
  "prints_plain st st' \<longleftrightarrow> (\<exists>ls. list_all plain_line ls \<and> st' = st\<lparr>printed := printed st @ ls\<rparr>)"

lemma prints_plain_refl [simp]: "prints_plain st st"
  unfolding prints_plain_def by (rule exI [of _ "[]"]) simp

lemma prints_plain_trans: "prints_plain st st1 \<Longrightarrow> prints_plain st1 st2 \<Longrightarrow> prints_plain st st2"
  unfolding prints_plain_def
  by (metis (no_types, lifting) append.assoc list_all_append script.select_convs(1) script.surjective
      script.update_convs(1))

lemma sys_env_plain: "sys_env name st = (Ok r, st') \<Longrightarrow> prints_plain st st'"
proof -
  assume run: "sys_env name st = (Ok r, st')"
  then obtain target where t: "target_of st = Some target"
    by (cases "target_of st") (auto simp: sys_env_def target_of_def)
  show ?thesis using run env_lines_plain [of st target name] unfolding sys_env_run [OF t] prints_plain_def by blast
qed

lemma find_openssl_dir_Ok: "find_openssl_dir T target st = (Ok d, st') \<Longrightarrow> st' = st"
  by (auto simp: find_openssl_dir_def Let_def unwrap_some_def and_then_Ok_iff split: option.splits if_splits)

lemma installation_plain:
  assumes "and_then (sys_env name) (\<lambda>v.
      and_then (case v of Some d \<Rightarrow> ret d | None \<Rightarrow> find_openssl_dir T target) (\<lambda>d. ret (g d))) st = (Ok r, st')"
  shows "prints_plain st st'"
proof -
  obtain v st1 d where v: "sys_env name st = (Ok v, st1)"
    and d: "(case v of Some d \<Rightarrow> ret d | None \<Rightarrow> find_openssl_dir T target) st1 = (Ok d, st')"
    using assms by (auto elim!: and_then_OkE)
  have "st' = st1" using d find_openssl_dir_Ok by (cases v) auto
  then show ?thesis using sys_env_plain [OF v] by simp
qed

lemma openssl_dirs_plain: "openssl_dirs T target st = (Ok r, st') \<Longrightarrow> prints_plain st st'"
proof -
  assume "openssl_dirs T target st = (Ok r, st')"
  then obtain l i st1 st2 where env: "sys_env ''OPENSSL_LIB_DIR'' st = (Ok l, st1)"
    "sys_env ''OPENSSL_INCLUDE_DIR'' st1 = (Ok i, st2)"
    and rest: "(case (l, i) of (Some l, Some i) \<Rightarrow> ret (l, i)
     | _ \<Rightarrow>
         and_then (sys_env ''OPENSSL_DIR'') (\<lambda>v.
         and_then (case v of Some d \<Rightarrow> ret d | None \<Rightarrow> find_openssl_dir T target) (\<lambda>openssl_dir.
         ret (case l of Some l \<Rightarrow> l | None \<Rightarrow> path_join openssl_dir ''lib'',
              case i of Some i \<Rightarrow> i | None \<Rightarrow> path_join openssl_dir ''include'')))) st2 = (Ok r, st')"
    unfolding openssl_dirs_def by (auto elim!: and_then_OkE)
  have "prints_plain st st2" using env sys_env_plain prints_plain_trans by blast
  moreover have "prints_plain st2 st'"
    using rest by (cases l; cases i) (auto dest: installation_plain)
  ultimately show ?thesis by (rule prints_plain_trans)
qed

lemma sys_main_Ok:
  assumes "sys_main T st = (Ok (), st')"
  obtains target lib_dir include_dir st1 version st2 libs st3 kind st4 where
    "target_of st = Some target" "prints_plain st st1" "path_exists T lib_dir" "path_exists T include_dir"
    "validate_headers T [include_dir] (st1\<lparr>printed := printed st1 @
       [''cargo:rustc-link-search=native='' @ to_string_lossy lib_dir, ''cargo:include='' @ to_string_lossy include_dir]\<rparr>)
     = (Ok version, st2)"
    "prints_plain st2 st3" "libs \<noteq> []" "determine_mode T lib_dir libs st3 = (Ok kind, st4)"
    "st' = st4\<lparr>printed := printed st4 @ map (\<lambda>l. ''cargo:rustc-link-lib='' @ kind @ ''='' @ l) libs\<rparr>"
proof -
  from assms obtain target where t: "target_of st = Some target"
    by (cases "target_of st") (auto simp: sys_main_def target_of_def)
  with assms obtain lib_dir include_dir st1 where dirs: "openssl_dirs T target st = (Ok (lib_dir, include_dir), st1)"
    and rest: "(if \<not> path_exists T lib_dir then
       panic_with (''OpenSSL library directory does not exist: '' @ to_string_lossy lib_dir)
     else if \<not> path_exists T include_dir then
       panic_with (''OpenSSL include directory does not exist: '' @ to_string_lossy include_dir)
     else
       and_then (println (''cargo:rustc-link-search=native='' @ to_string_lossy lib_dir)) (\<lambda>_.
       and_then (println (''cargo:include='' @ to_string_lossy include_dir)) (\<lambda>_.
       and_then (validate_headers T [include_dir]) (\<lambda>version.
       and_then (sys_env ''OPENSSL_LIBS'') (\<lambda>libs_env.
       let libs = (case Option.bind libs_env from_utf8 of
                     Some v \<Rightarrow> split_on (CHR '':'') v
                   | None \<Rightarrow> default_libs version target) in
       and_then (determine_mode T lib_dir libs) (\<lambda>kind.
       print_all (map (\<lambda>l. ''cargo:rustc-link-lib='' @ kind @ ''='' @ l) libs))))))) st1 = (Ok (), st')"
    by (auto simp: sys_main_def target_of_def elim!: and_then_OkE)
  have ex: "path_exists T lib_dir" "path_exists T include_dir"
    using rest by (auto split: if_splits)
  define lines where "lines = [''cargo:rustc-link-search=native='' @ to_string_lossy lib_dir,
    ''cargo:include='' @ to_string_lossy include_dir]"
  from rest ex obtain version st2 libs_env st3 where
    v: "validate_headers T [include_dir] (st1\<lparr>printed := printed st1 @ lines\<rparr>) = (Ok version, st2)"
    and e: "sys_env ''OPENSSL_LIBS'' st2 = (Ok libs_env, st3)"
    and m: "(let libs = (case Option.bind libs_env from_utf8 of
                     Some v \<Rightarrow> split_on (CHR '':'') v
                   | None \<Rightarrow> default_libs version target) in
       and_then (determine_mode T lib_dir libs) (\<lambda>kind.
       print_all (map (\<lambda>l. ''cargo:rustc-link-lib='' @ kind @ ''='' @ l) libs))) st3 = (Ok (), st')"
    by (auto simp: lines_def elim!: and_then_OkE)
  define libs where "libs = (case Option.bind libs_env from_utf8 of
                     Some v \<Rightarrow> split_on (CHR '':'') v | None \<Rightarrow> default_libs version target)"
  have "libs \<noteq> []" by (simp add: libs_def default_libs_def split: option.split)
  moreover from m obtain kind st4 where "determine_mode T lib_dir libs st3 = (Ok kind, st4)"
    "st' = st4\<lparr>printed := printed st4 @ map (\<lambda>l. ''cargo:rustc-link-lib='' @ kind @ ''='' @ l) libs\<rparr>"
    unfolding Let_def libs_def [symmetric] by (auto elim!: and_then_OkE)
  ultimately show thesis
    using that t openssl_dirs_plain [OF dirs] ex v [unfolded lines_def] sys_env_plain [OF e] by blast
qed

text \<open>The variables do not change.\<close>

lemma keeps_vars [keeps_intros]:
  "keeps (\<lambda>s. vars s = V) (println l)" "keeps (\<lambda>s. vars s = V) (print_all ls)"
  "keeps (\<lambda>s. vars s = V) (write_file T p c)" "keeps (\<lambda>s. vars s = V) (expand T dirs p)"
  "keeps (\<lambda>s. vars s = V) (enabled_defines e ds acc)" "keeps (\<lambda>s. vars s = V) (unwrap_some x)"
  "keeps (\<lambda>s. vars s = V) (var_os n)" "keeps (\<lambda>s. vars s = V) (var n)" "keeps (\<lambda>s. vars s = V) (panic_with msg)"
  by (auto simp: keeps_def write_file_def expand_def enabled_defines_run unwrap_some_def var_def split: option.split)

lemma report_version_keeps: "keeps (\<lambda>s. vars s = V) (report_version e)"
  unfolding report_version_def libressl_found_def by (intro keeps_intros)

lemma validate_headers_vars: "validate_headers T dirs st = (r, st') \<Longrightarrow> vars st' = vars st"
proof -
  assume run: "validate_headers T dirs st = (r, st')"
  have "keeps (\<lambda>s. vars s = V) (validate_headers T dirs)" for V
    unfolding validate_headers_def Let_def by (intro keeps_intros report_version_keeps)
  from keepsD [OF this refl] run show ?thesis by (metis snd_conv)
qed

text \<open>Nothing printed is taken back.\<close>

lemma keeps_printed [keeps_intros]:
  "keeps (\<lambda>s. l \<in> set (printed s)) (println x)" "keeps (\<lambda>s. l \<in> set (printed s)) (print_all ls)"
  "keeps (\<lambda>s. l \<in> set (printed s)) (write_file T p c)" "keeps (\<lambda>s. l \<in> set (printed s)) (expand T dirs p)"
  "keeps (\<lambda>s. l \<in> set (printed s)) (enabled_defines e ds acc)" "keeps (\<lambda>s. l \<in> set (printed s)) (unwrap_some y)"
  "keeps (\<lambda>s. l \<in> set (printed s)) (var_os n)" "keeps (\<lambda>s. l \<in> set (printed s)) (var n)"
  "keeps (\<lambda>s. l \<in> set (printed s)) (panic_with msg)"
  by (auto simp: keeps_def write_file_def expand_def enabled_defines_run unwrap_some_def var_def split: option.split)

lemma validate_headers_prints: "validate_headers T dirs st = (r, st') \<Longrightarrow> set (printed st) \<subseteq> set (printed st')"
proof
  fix l assume run: "validate_headers T dirs st = (r, st')" and l: "l \<in> set (printed st)"
  have "keeps (\<lambda>s. l \<in> set (printed s)) (validate_headers T dirs)"
    unfolding validate_headers_def Let_def report_version_def libressl_found_def by (intro keeps_intros)
  from keepsD [OF this l] run show "l \<in> set (printed st')" by simp
qed

subsection \<open>How the libraries are linked\<close>

definition has_file :: "tools \<Rightarrow> string \<Rightarrow> string \<Rightarrow> bool" where
  "has_file T dir f = (case read_dir T dir of Some es \<Rightarrow> Some f \<in> set es | None \<Rightarrow> False)"

definition static_files :: "tools \<Rightarrow> string \<Rightarrow> string \<Rightarrow> bool" where
  "static_files T dir l = (has_file T dir (''lib'' @ l @ ''.a'') \<or> has_file T dir (l @ ''.lib''))"

definition shared_files :: "tools \<Rightarrow> string \<Rightarrow> string \<Rightarrow> bool" where
  "shared_files T dir l =
     (has_file T dir (''lib'' @ l @ ''.so'') \<or> has_file T dir (l @ ''.dll'') \<or> has_file T dir (''lib'' @ l @ ''.dylib''))"

lemma from_utf8_Some: "from_utf8 s = Some t \<Longrightarrow> t = s"
  by (simp add: from_utf8_def split: if_splits)

lemma in_map_filter: "f \<in> set (List.map_filter g xs) \<longleftrightarrow> (\<exists>x \<in> set xs. g x = Some f)"
  by (induction xs) (auto simp: List.map_filter_simps split: option.splits)

lemma dir_files_run:
  "dir_files T dir st = (Ok files, st') \<Longrightarrow> st' = st \<and> list_all (has_file T dir) files"
  by (auto simp: dir_files_def has_file_def in_map_filter list_all_iff dest!: from_utf8_Some
      split: option.splits if_splits)

text \<open>
  The mode a run ends with: the one asked for, or else one all files are there for, the shared one if
  possible. Names of libraries are UTF-8.
\<close>

definition mode_justified :: "tools \<Rightarrow> string \<Rightarrow> string option \<Rightarrow> string list \<Rightarrow> string \<Rightarrow> bool" where
  "mode_justified T dir request libs kind =
     (case request of
        Some s \<Rightarrow> kind = (if s = ''0'' then ''dylib'' else ''static'')
      | None \<Rightarrow>
          (if kind = ''dylib'' then list_all (shared_files T dir) libs
           else kind = ''static'' \<and> list_all (static_files T dir) libs))"

lemma determine_mode_Ok:
  assumes t: "target_of st = Some target" and run: "determine_mode T dir libs st = (Ok kind, st')"
  shows "mode_justified T dir (Option.bind (env_lookup st target ''OPENSSL_STATIC'') from_utf8) libs kind
    \<and> st' = st\<lparr>printed := printed st @ env_lines st target ''OPENSSL_STATIC''\<rparr>"
proof (cases "Option.bind (env_lookup st target ''OPENSSL_STATIC'') from_utf8")
  case (Some s)
  then show ?thesis using run by (auto simp: determine_mode_def sys_env_then [OF t] mode_justified_def)
next
  case None
  define st1 where "st1 = st\<lparr>printed := printed st @ env_lines st target ''OPENSSL_STATIC''\<rparr>"
  from run None obtain files st2 where f: "dir_files T dir st1 = (Ok files, st2)"
    and k: "(case (can_static files libs, can_dylib files libs) of
           (True, False) \<Rightarrow> ret ''static''
         | (False, True) \<Rightarrow> ret ''dylib''
         | (False, False) \<Rightarrow> panic_with (mode_missing dir)
         | (True, True) \<Rightarrow> ret ''dylib'') st2 = (Ok kind, st')"
    by (auto simp: determine_mode_def sys_env_then [OF t] st1_def elim!: and_then_OkE)
  have files: "st2 = st1" "\<And>x. x \<in> set files \<Longrightarrow> has_file T dir x"
    using dir_files_run [OF f] by (auto simp: list_all_iff)
  have "can_static files libs \<Longrightarrow> list_all (static_files T dir) libs"
    "can_dylib files libs \<Longrightarrow> list_all (shared_files T dir) libs"
    using files(2) by (auto simp: can_static_def can_dylib_def list_all_iff static_files_def shared_files_def)
  then show ?thesis
    using k None files(1) by (auto simp: mode_justified_def st1_def split: bool.splits)
qed


text \<open>A run on an installation with both kinds of \<open>libssl\<close> and a shared \<open>libcrypto\<close>.\<close>

lemma from_utf8_ascii: "list_all (\<lambda>c. of_char c < (128 :: nat)) s \<Longrightarrow> from_utf8 s = Some s"
proof -
  assume ascii: "list_all (\<lambda>c. of_char c < (128 :: nat)) s"
  have "utf8_ok (map of_char s)" using ascii by (induction s) auto
  then show ?thesis by (simp add: from_utf8_def)
qed

lemma demo_target: "target_of demo_script = Some ''x86_64-linux''"
  unfolding target_of_def demo_script_def by (simp add: from_utf8_ascii)

lemma demo_key: "env_key ''x86_64-linux'' name = ''X86_64_LINUX_'' @ name"
proof -
  have "replace_char (CHR ''-'') (CHR ''_'') (to_uppercase ''x86_64-linux'') = ''X86_64_LINUX''" by code_simp
  then show ?thesis by (simp add: env_key_def)
qed

definition demo_before :: script where
  "demo_before = demo_script\<lparr>printed :=
     [''cargo:rerun-if-env-changed=X86_64_LINUX_OPENSSL_LIB_DIR'', ''cargo:rerun-if-env-changed=OPENSSL_LIB_DIR'',
      ''cargo:rerun-if-env-changed=X86_64_LINUX_OPENSSL_INCLUDE_DIR'', ''cargo:rerun-if-env-changed=OPENSSL_INCLUDE_DIR'',
      ''cargo:rerun-if-env-changed=X86_64_LINUX_OPENSSL_DIR'']\<rparr>"

lemma demo_dirs:
  "openssl_dirs demo_tools ''x86_64-linux'' demo_script = (Ok (''/opt/ssl/lib'', ''/opt/ssl/include''), demo_before)"
proof -
  have look: "env_lookup demo_script ''x86_64-linux'' ''OPENSSL_LIB_DIR'' = None"
    "env_lookup demo_script ''x86_64-linux'' ''OPENSSL_INCLUDE_DIR'' = None"
    "env_lookup demo_script ''x86_64-linux'' ''OPENSSL_DIR'' = Some ''/opt/ssl''"
    by (simp_all add: env_lookup_def demo_key demo_script_def)
  have lines: "env_lines demo_script ''x86_64-linux'' ''OPENSSL_LIB_DIR'' =
      [''cargo:rerun-if-env-changed=X86_64_LINUX_OPENSSL_LIB_DIR'', ''cargo:rerun-if-env-changed=OPENSSL_LIB_DIR'']"
    "env_lines demo_script ''x86_64-linux'' ''OPENSSL_INCLUDE_DIR'' =
      [''cargo:rerun-if-env-changed=X86_64_LINUX_OPENSSL_INCLUDE_DIR'', ''cargo:rerun-if-env-changed=OPENSSL_INCLUDE_DIR'']"
    "env_lines demo_script ''x86_64-linux'' ''OPENSSL_DIR'' =
      [''cargo:rerun-if-env-changed=X86_64_LINUX_OPENSSL_DIR'']"
    "printed demo_script = []"
    by (simp_all add: env_lines_def demo_key demo_script_def)
  have join: "path_join ''/opt/ssl'' ''lib'' = ''/opt/ssl/lib''" "path_join ''/opt/ssl'' ''include'' = ''/opt/ssl/include''"
    by code_simp+
  show ?thesis
    by (simp add: openssl_dirs_def sys_env_then demo_target look lines join demo_before_def)
qed

definition demo_end :: script where
  "demo_end = snd (sys_main demo_tools demo_script)"

lemma demo_main: "sys_main demo_tools demo_script = (Ok (), demo_end)"
proof -
  define st1 where "st1 = demo_before\<lparr>printed := printed demo_before @
    [''cargo:rustc-link-search=native='' @ to_string_lossy ''/opt/ssl/lib'', ''cargo:include='' @ to_string_lossy ''/opt/ssl/include'']\<rparr>"
  have pre: "demo_hdr [''/opt/ssl/include''] = Some demo_macros" "vars st1 ''OUT_DIR'' \<noteq> None"
    "can_create demo_tools (expando_path st1)" "path_exists demo_tools ''/opt/ssl/lib''" "path_exists demo_tools ''/opt/ssl/include''"
    by (simp_all add: demo_hdr_def demo_script_def demo_tools_def st1_def demo_before_def)
  have "validate_headers demo_tools [''/opt/ssl/include''] st1 =
      report_of (supported (release_of demo_macros)) ((expando_written st1)\<lparr>printed := printed st1 @ option_lines demo_macros\<rparr>)"
    by (rule validate_headers_run [OF demo_cpp_law pre(1-3)])
  then obtain st2 where v: "validate_headers demo_tools [''/opt/ssl/include''] st1 = (Ok Openssl110, st2)"
    by (simp add: demo_release report_of_def)
  have vars: "vars st2 = vars demo_script"
    using validate_headers_vars [OF v] by (simp add: st1_def demo_before_def)
  then have t2: "target_of st2 = Some ''x86_64-linux''" using demo_target by (simp add: target_of_def)
  have look: "env_lookup st2 ''x86_64-linux'' ''OPENSSL_LIBS'' = None" "env_lookup st2 ''x86_64-linux'' ''OPENSSL_STATIC'' = None"
    unfolding env_lookup_def demo_key vars by (simp_all add: demo_script_def)
  have libs: "default_libs Openssl110 ''x86_64-linux'' = [''ssl'', ''crypto'']" by code_simp
  have files: "dir_files demo_tools ''/opt/ssl/lib'' s = (Ok [''libssl.so'', ''libcrypto.so'', ''libssl.a''], s)" for s
    by (simp add: dir_files_def demo_tools_def List.map_filter_simps from_utf8_ascii)
  have modes: "can_static [''libssl.so'', ''libcrypto.so'', ''libssl.a''] [''ssl'', ''crypto''] = False"
    "can_dylib [''libssl.so'', ''libcrypto.so'', ''libssl.a''] [''ssl'', ''crypto''] = True"
    by code_simp+
  have t: "Option.bind (vars demo_script ''TARGET'') from_utf8 = Some ''x86_64-linux''"
    using demo_target by (simp add: target_of_def)
  define st3 where "st3 = st2\<lparr>printed := printed st2 @ env_lines st2 ''x86_64-linux'' ''OPENSSL_LIBS''\<rparr>"
  have "target_of st3 = Some ''x86_64-linux''" "env_lookup st3 ''x86_64-linux'' ''OPENSSL_STATIC'' = None"
    by (simp_all add: st3_def t2 look)
  then obtain st4 where mode: "determine_mode demo_tools ''/opt/ssl/lib'' [''ssl'', ''crypto''] st3 = (Ok ''dylib'', st4)"
    by (auto simp: determine_mode_def sys_env_run and_then_def files modes)
  have steps: "and_then (openssl_dirs demo_tools ''x86_64-linux'') f demo_script = f (''/opt/ssl/lib'', ''/opt/ssl/include'') demo_before"
    "and_then (validate_headers demo_tools [''/opt/ssl/include'']) g st1 = g Openssl110 st2"
    "and_then (sys_env ''OPENSSL_LIBS'') k st2 = k None st3"
    "and_then (determine_mode demo_tools ''/opt/ssl/lib'' [''ssl'', ''crypto'']) h st3 = h ''dylib'' st4"
    for f g h k
    by (simp_all add: and_then_def demo_dirs v mode sys_env_run [OF t2, of "''OPENSSL_LIBS''", folded st3_def] look)
  have "fst (sys_main demo_tools demo_script) = Ok ()"
    using pre(4,5) by (simp add: sys_main_def t steps(1,3,4) steps(2) [unfolded st1_def, simplified] libs)
  then show ?thesis unfolding demo_end_def by (simp add: prod_eq_iff)
qed


subsection \<open>Searching for an installation\<close>

text \<open>
  When \<open>pkg-config\<close> finds the library, the script exits with success or panics about the headers, but never goes on
  to report that nothing was found; when it does not, the script goes on with the variables of the
  environment changed at most for cross compilation.
\<close>

lemma validate_headers_never_exits: "validate_headers T dirs st \<noteq> (Err (Exit c), st')"
proof -
  have "triple (\<lambda>_. True) (report_version e) (\<lambda>r _. r \<noteq> Err (Exit c))" for e
    unfolding report_version_def libressl_found_def by (auto simp: triple_def panic_with_def)
  then have "report_version e s \<noteq> (Err (Exit c), s')" for e s s'
    by (auto simp: triple_def)
  then show ?thesis
    by (auto simp: validate_headers_def Let_def unwrap_some_def and_then_def write_file_def expand_def enabled_defines_run var_os_def
        split: option.splits if_splits prod.splits outcome.splits)
qed

lemma try_pkg_config_found:
  assumes "target_of st = Some target" "Option.bind (vars st ''HOST'') from_utf8 = Some host"
    and "\<not> contains target ''windows''"
    and "pkg_config_find T ''openssl'' (vars st) = (Inr include_paths, out)"
  shows "fst (try_pkg_config T st) \<noteq> Ok ()"
    and "try_pkg_config T st = (Err (Exit c), st') \<Longrightarrow> c = 0"
proof -
  have gnu: "\<not> contains target ''windows-gnu''"
    using assms(3) contains_trans [of target "''windows-gnu''" "''windows''"] by (auto simp: starts_with_def)
  define st1 where "st1 = st\<lparr>printed := printed st @ out\<rparr>"
  have run: "try_pkg_config T st =
      and_then (validate_headers T include_paths) (\<lambda>_.
        and_then (print_all (map (\<lambda>p. ''cargo:include='' @ to_string_lossy p) include_paths)) (\<lambda>_. throw (Exit 0))) st1"
    using assms gnu
    by (simp add: try_pkg_config_def target_of_def Let_def run_pkg_config_def and_then_def [of "run_pkg_config _ _"] st1_def)
  show "fst (try_pkg_config T st) \<noteq> Ok ()"
    unfolding run by (auto simp: and_then_def [of "validate_headers _ _"] split: prod.splits outcome.splits)
  show "try_pkg_config T st = (Err (Exit c), st') \<Longrightarrow> c = 0"
    unfolding run using validate_headers_never_exits [of T include_paths st1]
    by (auto simp: and_then_def [of "validate_headers _ _"] split: prod.splits outcome.splits)
qed

end
