(* ===== verification/Build_Config.thy ===== *)
theory Build_Config
  imports Build_Laws
begin

text \<open>
  The scripts in sequence. Cargo hands the lines \<open>cargo:key=value\<close> of one script to the scripts of dependent
  crates as variables; \<open>cargo_law\<close> states it. With it, the configuration of the crate \<open>openssl\<close> is that
  of \<open>openssl-sys\<close>.
\<close>

subsection \<open>Metadata\<close>

definition line_key :: "string \<Rightarrow> (string \<times> string) option" where
  "line_key l =
     (if starts_with l ''cargo:'' then
        (let r = drop 6 l in
         case find_char (CHR ''='') r of Some i \<Rightarrow> Some (take i r, drop (Suc i) r) | None \<Rightarrow> None)
      else None)"

definition meta_value :: "string \<Rightarrow> string \<Rightarrow> string option" where
  "meta_value K l = (case line_key l of Some (k, v) \<Rightarrow> if to_uppercase k = K then Some v else None | None \<Rightarrow> None)"

definition metadata :: "string \<Rightarrow> string list \<Rightarrow> string list" where
  "metadata K out = List.map_filter (meta_value K) out"

text \<open>
  A key becomes a variable in capitals, after the name the crate links to. Keys with a dash are
  instructions to Cargo. A key that is printed more than once is left open.
\<close>

definition cargo_law :: "(string list \<Rightarrow> string \<Rightarrow> string option) \<Rightarrow> bool" where
  "cargo_law cargo \<longleftrightarrow>
     (\<forall>out K. CHR ''-'' \<notin> set K \<longrightarrow>
        (metadata K out = [] \<longrightarrow> cargo out (''DEP_OPENSSL_'' @ K) = None) \<and>
        (\<forall>v. metadata K out = [v] \<longrightarrow> cargo out (''DEP_OPENSSL_'' @ K) = Some v))"

lemma cargo_lawD:
  assumes "cargo_law cargo" "CHR ''-'' \<notin> set K" "length (metadata K out) \<le> 1"
  shows "cargo out (''DEP_OPENSSL_'' @ K) = (case metadata K out of [] \<Rightarrow> None | v # _ \<Rightarrow> Some v)"
  using assms unfolding cargo_law_def by (cases "metadata K out") auto

lemma metadata_append [simp]: "metadata K (xs @ ys) = metadata K xs @ metadata K ys"
  by (simp add: metadata_def List.map_filter_def)

lemma metadata_Cons [simp]:
  "metadata K [] = []"
  "metadata K (l # ls) = (case meta_value K l of Some v \<Rightarrow> v # metadata K ls | None \<Rightarrow> metadata K ls)"
  by (simp_all add: metadata_def List.map_filter_simps split: option.split)

lemma line_key_eq: "CHR ''='' \<notin> set k \<Longrightarrow> line_key (''cargo:'' @ k @ ''='' @ v) = Some (k, v)"
  using find_char_append [of "CHR ''=''" k v] by (simp add: line_key_def starts_with_def)

lemma meta_value_eq:
  "CHR ''='' \<notin> set k \<Longrightarrow> meta_value K (''cargo:'' @ k @ ''='' @ v) = (if to_uppercase k = K then Some v else None)"
  by (simp add: meta_value_def line_key_eq del: append.simps)

lemma find_char_prefix: "c \<notin> set p \<Longrightarrow> find_char c (p @ t) = map_option ((+) (length p)) (find_char c t)"
  by (cases "find_char c t") (induction p, auto)+

lemma line_key_prefix:
  assumes "line_key (''cargo:'' @ p @ t) = Some (k, v)" "CHR ''='' \<notin> set p"
  shows "\<exists>k'. k = p @ k'"
  using assms by (auto simp: line_key_def starts_with_def Let_def find_char_prefix split: option.splits)

lemma dash_upper: "CHR ''-'' \<in> set k \<Longrightarrow> CHR ''-'' \<in> set (to_uppercase k)"
proof -
  have "ascii_upper (CHR ''-'') = CHR ''-''" by code_simp
  then show "CHR ''-'' \<in> set k \<Longrightarrow> CHR ''-'' \<in> set (to_uppercase k)"
    unfolding to_uppercase_def by (metis image_eqI set_map)
qed

lemma instruction_no_metadata:
  assumes "CHR ''-'' \<in> set p" "CHR ''='' \<notin> set p" "CHR ''-'' \<notin> set K"
  shows "meta_value K (''cargo:'' @ p @ t) = None"
proof (cases "line_key (''cargo:'' @ p @ t)")
  case (Some kv)
  obtain k v where kv: "kv = (k, v)" by fastforce
  obtain k' where "k = p @ k'" using line_key_prefix [OF Some [unfolded kv] assms(2)] by blast
  then have "CHR ''-'' \<in> set (to_uppercase k)" using assms(1) by (intro dash_upper) simp
  then have "to_uppercase k \<noteq> K" using assms(3) by blast
  then show ?thesis unfolding meta_value_def Some kv by simp
qed (simp add: meta_value_def)

lemma plain_no_metadata:
  assumes "plain_line l" "CHR ''-'' \<notin> set K" "K \<noteq> ''INCLUDE''"
  shows "meta_value K l = None"
proof -
  consider t where "l = ''cargo:'' @ ''rerun-if-'' @ t" | t where "l = ''cargo:'' @ ''rustc-'' @ t"
    | t where "l = ''cargo:'' @ ''include'' @ ''='' @ t"
    using assms(1) by (auto simp: plain_line_def starts_with_iff)
  then show ?thesis
  proof cases
    case 1
    show ?thesis unfolding 1 by (rule instruction_no_metadata) (use assms in simp_all)
  next
    case 2
    show ?thesis unfolding 2 by (rule instruction_no_metadata) (use assms in simp_all)
  next
    case 3
    have "to_uppercase ''include'' = ''INCLUDE''" by code_simp
    moreover have "meta_value K l = (if to_uppercase ''include'' = K then Some t else None)"
      unfolding 3 by (rule meta_value_eq) simp
    ultimately show ?thesis using assms(3) by simp
  qed
qed

lemma plain_metadata:
  "list_all plain_line ls \<Longrightarrow> CHR ''-'' \<notin> set K \<Longrightarrow> K \<noteq> ''INCLUDE'' \<Longrightarrow> metadata K ls = []"
  by (induction ls) (simp_all add: plain_no_metadata)

subsection \<open>What the first script exports\<close>

fun export_version :: "Version \<Rightarrow> string" where
  "export_version Openssl110 = ''110''"
| "export_version Openssl102 = ''102''"
| "export_version Openssl101 = ''101''"
| "export_version Libressl = ''101''"

fun libre_name :: "release \<Rightarrow> string option" where
  "libre_name (LibreRelease maj mnr fix) = Some (show_nat maj @ show_nat mnr @ show_nat fix)"
| "libre_name (OpensslRelease maj mnr fix patch) = None"

lemma conf_cfg_plain: "list_all plain_line (map conf_cfg ds)"
  using plain_lines(5) [of "''osslconf='' @ quoted x" for x] by (simp add: list_all_iff conf_cfg_def)

lemma supported_metadata:
  assumes "supported r = Some (v, ls)"
  shows "metadata ''VERSION'' ls = [export_version v]" "metadata ''CONF'' ls = []"
    "metadata ''LIBRESSL'' ls = (if v = Libressl then [''true''] else [])"
    "metadata ''LIBRESSL_VERSION'' ls = (case libre_name r of Some n \<Rightarrow> [n] | None \<Rightarrow> [])"
    "v = Libressl \<longleftrightarrow> libre_name r \<noteq> None"
proof -
  have K: "CHR ''-'' \<notin> set K \<and> K \<noteq> ''INCLUDE''" if "K \<in> {''VERSION'', ''CONF'', ''LIBRESSL'', ''LIBRESSL_VERSION''}" for K
    using that by auto
  have cfg: "meta_value K (''cargo:rustc-cfg='' @ x) = None" if "K \<in> {''VERSION'', ''CONF'', ''LIBRESSL'', ''LIBRESSL_VERSION''}" for K x
    using plain_no_metadata [OF plain_lines(5)] K [OF that] by blast
  have up: "to_uppercase ''version'' = ''VERSION''" "to_uppercase ''patch'' = ''PATCH''" "to_uppercase ''libressl'' = ''LIBRESSL''"
    "to_uppercase ''libressl_version'' = ''LIBRESSL_VERSION''"
    by code_simp+
  note vals = meta_value_eq [of "''version''" _ x for x] meta_value_eq [of "''patch''" _ x for x]
    meta_value_eq [of "''libressl''" _ x for x] meta_value_eq [of "''libressl_version''" _ x for x]
  show "metadata ''VERSION'' ls = [export_version v]" "metadata ''CONF'' ls = []"
    "metadata ''LIBRESSL'' ls = (if v = Libressl then [''true''] else [])"
    "metadata ''LIBRESSL_VERSION'' ls = (case libre_name r of Some n \<Rightarrow> [n] | None \<Rightarrow> [])"
    "v = Libressl \<longleftrightarrow> libre_name r \<noteq> None"
    using assms cfg
    by (cases r; auto simp: libressl_lines_def vals [simplified] up [simplified] split: if_splits)+
qed

definition ascii :: "string \<Rightarrow> bool" where
  "ascii s = list_all (\<lambda>c. of_char c < (128 :: nat)) s"

lemma ascii_append [simp]: "ascii (s @ t) \<longleftrightarrow> ascii s \<and> ascii t"
  by (simp add: ascii_def)

lemma ascii_show_nat: "ascii (show_nat n)"
  using show_nat_digits [of _ n] by (fastforce simp: ascii_def list_all_iff)

lemma ascii_join: "ascii sep \<Longrightarrow> list_all ascii xs \<Longrightarrow> ascii (join_with sep xs)"
  by (induction sep xs rule: join_with.induct) (auto simp: ascii_def)

lemma ascii_options: "ascii (join_with '','' (options m))"
proof (rule ascii_join)
  have "list_all ascii DEFINES" by code_simp
  then show "list_all ascii (options m)" by (auto simp: options_def list_all_iff)
qed (simp add: ascii_def)

lemma options_split:
  "split_on (CHR '','') (join_with '','' (options m)) = (if options m = [] then [''''] else options m)"
proof (cases "options m = []")
  case False
  have "list_all (\<lambda>d. CHR '','' \<notin> set d) DEFINES" by code_simp
  then have "\<forall>d \<in> set (options m). CHR '','' \<notin> set d" by (auto simp: options_def list_all_iff)
  from split_on_join [OF False this] False show ?thesis by simp
qed simp

lemma option_lines_metadata:
  assumes "CHR ''-'' \<notin> set K" "K \<noteq> ''INCLUDE''"
  shows "metadata K (option_lines m) = (if K = ''CONF'' then [join_with '','' (options m)] else [])"
proof -
  have up: "to_uppercase ''conf'' = ''CONF''" by code_simp
  have "meta_value K (''cargo:'' @ ''conf'' @ ''='' @ join_with '','' (options m)) =
      (if ''CONF'' = K then Some (join_with '','' (options m)) else None)"
    unfolding up [symmetric] by (rule meta_value_eq) simp
  then show ?thesis
    using plain_metadata [OF conf_cfg_plain assms] by (simp add: option_lines_def)
qed

subsection \<open>What the second script makes of it\<close>

fun version_cfgs :: "Version \<Rightarrow> string list" where
  "version_cfgs Openssl110 = [''cargo:rustc-cfg=ossl110'']"
| "version_cfgs Openssl102 = [''cargo:rustc-cfg=ossl102'', ''cargo:rustc-cfg=ossl10x'']"
| "version_cfgs Openssl101 = [''cargo:rustc-cfg=ossl101'', ''cargo:rustc-cfg=ossl10x'']"
| "version_cfgs Libressl = [''cargo:rustc-cfg=ossl101'', ''cargo:rustc-cfg=ossl10x'']"

definition libre_cfgs :: "release \<Rightarrow> string list" where
  "libre_cfgs r =
     (case libre_name r of
        Some n \<Rightarrow> [''cargo:rustc-cfg=libressl'', ''cargo:rustc-cfg=libressl'' @ n]
      | None \<Rightarrow> [])"

lemma openssl_main_run:
  assumes "vars st ''DEP_OPENSSL_VERSION'' = Some (export_version v)"
    "vars st ''DEP_OPENSSL_LIBRESSL'' = (if libre_name r \<noteq> None then Some ''true'' else None)"
    "vars st ''DEP_OPENSSL_LIBRESSL_VERSION'' = libre_name r"
    "vars st ''DEP_OPENSSL_CONF'' = Some (join_with '','' (options m))"
  shows "openssl_main st = (Ok (), st\<lparr>printed := printed st @ version_cfgs v @ libre_cfgs r @
    (if options m = [] then [conf_cfg ''''] else map conf_cfg (options m))\<rparr>)"
proof -
  have n: "libre_name r = Some a \<Longrightarrow> from_utf8 a = Some a" for a
    by (cases r) (auto simp: from_utf8_ascii [folded ascii_def] ascii_show_nat)
  have c: "from_utf8 (join_with '','' (options m)) = Some (join_with '','' (options m))"
    by (rule from_utf8_ascii [folded ascii_def, OF ascii_options])
  show ?thesis
    unfolding openssl_main_def
    by (cases v; cases "libre_name r")
      (simp_all add: assms from_utf8_ascii n c options_split libre_cfgs_def conf_cfg_def and_then_assoc)
qed

lemma validate_headers_Ok:
  assumes law: "cpp_law T hdr" and run: "validate_headers T dirs st = (Ok v, st')"
  obtains m ls where "hdr dirs = Some m" "supported (release_of m) = Some (v, ls)"
    "printed st' = printed st @ option_lines m @ ls"
proof -
  from run obtain out_dir where dir: "vars st ''OUT_DIR'' = Some out_dir"
    by (cases "vars st ''OUT_DIR''") (auto simp: validate_headers_def)
  have path: "path_join out_dir ''expando.c'' = expando_path st" by (simp add: expando_path_def dir)
  from run have create: "can_create T (expando_path st)"
    by (auto simp: validate_headers_def dir path Let_def write_file_def elim!: and_then_OkE split: if_splits)
  have "cc_expand T dirs (expando_path st) (written (expando_written st)) \<noteq> None"
    using run create
    by (cases "cc_expand T dirs (expando_path st) (written (expando_written st))")
      (auto simp: validate_headers_def dir path Let_def expando_written_def)
  then have "hdr dirs \<noteq> None"
    using cpp_law_None [OF law, of dirs "written (expando_written st)" "expando_path st"]
    by (cases "hdr dirs") (simp_all add: expando_written_def)
  then obtain m where m: "hdr dirs = Some m" by blast
  have "vars st ''OUT_DIR'' \<noteq> None" using dir by simp
  from validate_headers_run [OF law m this create] run that [OF m] show thesis
    by (auto simp: report_of_def split: option.splits)
qed

lemma sys_main_output:
  assumes law: "cpp_law T hdr" and run: "sys_main T st = (Ok (), st')" and start: "printed st = []"
  obtains include_dir m v ls a b where "''cargo:include='' @ to_string_lossy include_dir \<in> set a"
    "hdr [include_dir] = Some m" "supported (release_of m) = Some (v, ls)"
    "printed st' = a @ option_lines m @ ls @ b" "list_all plain_line a" "list_all plain_line b"
proof -
  obtain target lib_dir include_dir st1 version st2 libs st3 kind st4 where
    t: "target_of st = Some target" and p1: "prints_plain st st1"
    and v: "validate_headers T [include_dir] (st1\<lparr>printed := printed st1 @
       [''cargo:rustc-link-search=native='' @ to_string_lossy lib_dir, ''cargo:include='' @ to_string_lossy include_dir]\<rparr>)
     = (Ok version, st2)"
    and p3: "prints_plain st2 st3" and mode: "determine_mode T lib_dir libs st3 = (Ok kind, st4)"
    and st': "st' = st4\<lparr>printed := printed st4 @ map (\<lambda>l. ''cargo:rustc-link-lib='' @ kind @ ''='' @ l) libs\<rparr>"
    by (rule sys_main_Ok [OF run])
  obtain m ls where m: "hdr [include_dir] = Some m" "supported (release_of m) = Some (version, ls)"
    and out2: "printed st2 = printed st1 @ [''cargo:rustc-link-search=native='' @ to_string_lossy lib_dir,
      ''cargo:include='' @ to_string_lossy include_dir] @ option_lines m @ ls"
    by (rule validate_headers_Ok [OF law v]) simp
  obtain xs where xs: "list_all plain_line xs" "printed st1 = xs" "vars st1 = vars st"
    using p1 start by (auto simp: prints_plain_def)
  obtain ys where ys: "list_all plain_line ys" "printed st3 = printed st2 @ ys" "vars st3 = vars st"
    using p3 validate_headers_vars [OF v] xs(3) by (auto simp: prints_plain_def)
  have "target_of st3 = Some target" using t ys(3) by (simp add: target_of_def)
  note out4 = conjunct2 [OF determine_mode_Ok [OF this mode]]
  have a: "list_all plain_line (xs @ [''cargo:rustc-link-search=native='' @ to_string_lossy lib_dir,
      ''cargo:include='' @ to_string_lossy include_dir])"
    using xs(1) plain_lines(2,3) by (simp only: list_all_append list.pred_inject simp_thms)
  have b: "list_all plain_line (ys @ env_lines st3 target ''OPENSSL_STATIC'' @
      map (\<lambda>l. ''cargo:rustc-link-lib='' @ kind @ ''='' @ l) libs)"
    using ys(1) env_lines_plain [of st3 target] plain_lines(4) [of "kind @ ''='' @ l" for l]
    by (simp only: list_all_append list.pred_map comp_def list.pred_True simp_thms)
  show thesis
    by (rule that [OF _ m _ a b]) (simp_all add: st' out4 ys(2) out2 xs(2))
qed

text \<open>
  C38: Both crates are compiled for the same OpenSSL. When the build script of \<open>openssl-sys\<close> ends normally and
  Cargo hands its metadata on, the script of \<open>openssl\<close> ends normally and prints exactly the
  configuration of the release and of the options that the headers in the include directory declare: the
  version, for LibreSSL also its name, and the same \<open>osslconf\<close> values as the first script. The patch letter is
  not handed on, and where no option is set one empty \<open>osslconf\<close> is printed.
\<close>
theorem crates_agree_on_openssl:
  assumes "cpp_law T hdr" "cargo_law cargo"
    and "sys_main T st = (Ok (), st')" "printed st = []"
    and "vars dep = cargo (printed st')"
  shows "\<exists>include_dir m v ls a b.
    ''cargo:include='' @ to_string_lossy include_dir \<in> set a \<and>
    hdr [include_dir] = Some m \<and> supported (release_of m) = Some (v, ls) \<and>
    printed st' = a @ option_lines m @ ls @ b \<and>
    openssl_main dep = (Ok (), dep\<lparr>printed := printed dep @ version_cfgs v @ libre_cfgs (release_of m) @
      (if options m = [] then [conf_cfg ''''] else map conf_cfg (options m))\<rparr>)"
proof -
  obtain include_dir m v ls a b where inc: "''cargo:include='' @ to_string_lossy include_dir \<in> set a"
    and m: "hdr [include_dir] = Some m" and sup: "supported (release_of m) = Some (v, ls)"
    and out: "printed st' = a @ option_lines m @ ls @ b" and plain: "list_all plain_line a" "list_all plain_line b"
    by (rule sys_main_output [OF assms(1,3,4)])
  have meta: "metadata K (printed st') = (if K = ''CONF'' then [join_with '','' (options m)] else []) @ metadata K ls"
    if "CHR ''-'' \<notin> set K" "K \<noteq> ''INCLUDE''" for K
    using that by (simp add: out plain_metadata [OF plain(1)] plain_metadata [OF plain(2)] option_lines_metadata)
  note dep = cargo_lawD [OF assms(2), of _ "printed st'", folded assms(5)]
  have "openssl_main dep = (Ok (), dep\<lparr>printed := printed dep @ version_cfgs v @ libre_cfgs (release_of m) @
      (if options m = [] then [conf_cfg ''''] else map conf_cfg (options m))\<rparr>)"
  proof (rule openssl_main_run)
    show "vars dep ''DEP_OPENSSL_VERSION'' = Some (export_version v)"
      using dep [of "''VERSION''"] by (simp add: meta supported_metadata [OF sup])
    show "vars dep ''DEP_OPENSSL_LIBRESSL'' = (if libre_name (release_of m) \<noteq> None then Some ''true'' else None)"
      using dep [of "''LIBRESSL''"] supported_metadata(5) [OF sup] by (simp add: meta supported_metadata(3) [OF sup])
    show "vars dep ''DEP_OPENSSL_LIBRESSL_VERSION'' = libre_name (release_of m)"
      using dep [of "''LIBRESSL_VERSION''"] by (cases "libre_name (release_of m)") (simp_all add: meta supported_metadata [OF sup])
    show "vars dep ''DEP_OPENSSL_CONF'' = Some (join_with '','' (options m))"
      using dep [of "''CONF''"] by (simp add: meta supported_metadata [OF sup])
  qed
  with inc m sup out show ?thesis by blast
qed

text \<open>A Cargo that keeps the last value of a key.\<close>

definition demo_cargo :: "string list \<Rightarrow> string \<Rightarrow> string option" where
  "demo_cargo out n =
     (if starts_with n ''DEP_OPENSSL_'' then
        (case metadata (drop 12 n) out of [] \<Rightarrow> None | v # vs \<Rightarrow> Some (last (v # vs)))
      else None)"

lemma demo_cargo_law: "cargo_law demo_cargo"
  by (simp add: cargo_law_def demo_cargo_def starts_with_def)

definition demo_dep :: script where
  "demo_dep = \<lparr>printed = [], vars = demo_cargo (printed demo_end), written = Map.empty\<rparr>"

theorem crates_agree_on_openssl_witness:
  "openssl_main demo_dep = (Ok (), demo_dep\<lparr>printed :=
     [''cargo:rustc-cfg=ossl110'', ''cargo:rustc-cfg=osslconf='' @ quoted ''OPENSSL_NO_SSL3_METHOD'']\<rparr>)"
proof -
  have pre: "printed demo_script = []" "vars demo_dep = demo_cargo (printed demo_end)" "printed demo_dep = []"
    by (simp_all add: demo_script_def demo_dep_def)
  obtain d m v ls where m: "demo_hdr [d] = Some m" "supported (release_of m) = Some (v, ls)"
    and run: "openssl_main demo_dep = (Ok (), demo_dep\<lparr>printed := printed demo_dep @ version_cfgs v @
      libre_cfgs (release_of m) @ (if options m = [] then [conf_cfg ''''] else map conf_cfg (options m))\<rparr>)"
    using crates_agree_on_openssl [OF demo_cpp_law demo_cargo_law demo_main pre(1,2)] by blast
  have "m = demo_macros" using m(1) by (simp add: demo_hdr_def split: if_splits)
  moreover from this have "v = Openssl110" using m(2) by (simp add: demo_release)
  ultimately show ?thesis
    using run by (simp add: pre(3) demo_release demo_options libre_cfgs_def conf_cfg_def)
qed

end
