(* ===== verification/Ossl_Compat.thy ===== *)
theory Ossl_Compat
  imports Ossl_Sys Ossl_Ec Ossl_Connector
begin

text \<open>
  OpenSSL 1.0. Where version 1.1.0 has accessor functions, the crate has modules \<open>compat\<close> for 1.0 in which
  Rust code reads and writes the C structures of \<open>openssl-sys/src/ossl10x.rs\<close> itself. The structures are
  records here, with the fields Rust code can reach, in a memory by address. A shim is a
  function on that memory with the arguments of the C function it stands for; \<open>compat10\<close> is the
  library the rest of the crate then sees: a call that has a shim runs it, every other call goes to the C
  library, under its old name where the crate renames it. So every wrapper of the development is
  also one for 1.0, applied to \<open>compat10\<close>. A pointer that is not valid leaves the outcome to the C library, of
  which nothing is known.
\<close>

subsection \<open>Structures\<close>

record CRYPTO_EX_DATA =
  ex_sk :: cval
  ex_dummy :: int

record RSA =
  rsa_pad :: int
  rsa_version :: int
  rsa_meth :: cval
  rsa_engine :: cval
  rsa_n :: cval
  rsa_e :: cval
  rsa_d :: cval
  rsa_p :: cval
  rsa_q :: cval
  rsa_dmp1 :: cval
  rsa_dmq1 :: cval
  rsa_iqmp :: cval
  rsa_ex_data :: CRYPTO_EX_DATA
  rsa_references :: int
  rsa_flags :: int
  rsa_method_mod_n :: cval
  rsa_method_mod_p :: cval
  rsa_method_mod_q :: cval
  rsa_bignum_data :: cval
  rsa_blinding :: cval
  rsa_mt_blinding :: cval

record DSA =
  dsa_pad :: int
  dsa_version :: int
  dsa_write_params :: int
  dsa_p :: cval
  dsa_q :: cval
  dsa_g :: cval
  dsa_pub_key :: cval
  dsa_priv_key :: cval
  dsa_kinv :: cval
  dsa_r :: cval
  dsa_flags :: int
  dsa_method_mont_p :: cval
  dsa_references :: int
  dsa_ex_data :: CRYPTO_EX_DATA
  dsa_meth :: cval
  dsa_engine :: cval

record DH =
  dh_pad :: int
  dh_version :: int
  dh_p :: cval
  dh_g :: cval
  dh_length :: int
  dh_pub_key :: cval
  dh_priv_key :: cval
  dh_flags :: int
  dh_method_mont_p :: cval
  dh_q :: cval
  dh_j :: cval
  dh_seed :: cval
  dh_seedlen :: int
  dh_counter :: cval
  dh_references :: int
  dh_ex_data :: CRYPTO_EX_DATA
  dh_meth :: cval
  dh_engine :: cval

record BIGNUM =
  bn_d :: cval
  bn_top :: int
  bn_dmax :: int
  bn_neg :: int
  bn_flags :: int

record EVP_CIPHER =
  ci_nid :: int
  ci_block_size :: int
  ci_key_len :: int
  ci_iv_len :: int

record X509_VAL =
  val_notBefore :: cval
  val_notAfter :: cval

record X509_CINF =
  cinf_validity :: cval
  cinf_extensions :: cval

record X509_ALGOR =
  algor_algorithm :: cval

record X509_10 =
  x_cert_info :: cval
  x_sig_alg :: cval
  x_signature :: cval
  x_valid :: int
  x_references :: int

record X509_REQ_INFO =
  ri_version :: cval
  ri_subject :: cval
  ri_pubkey :: cval
  ri_attributes :: cval

record X509_REQ_10 =
  rq_req_info :: cval

record SSL_10 =
  ssl_server :: int

record SSL_CTX_10 =
  ctx_references :: int

record SSL_SESSION_10 =
  sess_master_key_length :: int
  sess_master_key :: "byte list"
  sess_references :: int

record BIO_10 =
  bio_init_field :: int
  bio_shutdown_field :: int
  bio_flags_field :: int
  bio_retry_reason_field :: int
  bio_num_field :: int
  bio_ptr_field :: cval

record BIO_METHOD_10 =
  bm_type :: int
  bm_name :: cval
  bm_bwrite :: cval
  bm_bread :: cval
  bm_bputs :: cval
  bm_bgets :: cval
  bm_ctrl :: cval
  bm_create :: cval
  bm_destroy :: cval
  bm_callback_ctrl :: cval

record mem10 =
  m_rsa :: "cval \<Rightarrow> RSA option"
  m_dsa :: "cval \<Rightarrow> DSA option"
  m_dh :: "cval \<Rightarrow> DH option"
  m_bn :: "cval \<Rightarrow> BIGNUM option"
  m_cipher :: "cval \<Rightarrow> EVP_CIPHER option"
  m_x509 :: "cval \<Rightarrow> X509_10 option"
  m_cinf :: "cval \<Rightarrow> X509_CINF option"
  m_val :: "cval \<Rightarrow> X509_VAL option"
  m_algor :: "cval \<Rightarrow> X509_ALGOR option"
  m_req :: "cval \<Rightarrow> X509_REQ_10 option"
  m_req_info :: "cval \<Rightarrow> X509_REQ_INFO option"
  m_ssl :: "cval \<Rightarrow> SSL_10 option"
  m_ctx :: "cval \<Rightarrow> SSL_CTX_10 option"
  m_session :: "cval \<Rightarrow> SSL_SESSION_10 option"
  m_bio :: "cval \<Rightarrow> BIO_10 option"
  m_method :: "cval \<Rightarrow> BIO_METHOD_10 option"
  m_next :: nat

text \<open>Where the memory is in the state of the outside.\<close>

record 'w window =
  look :: "'w \<Rightarrow> mem10"
  store :: "mem10 \<Rightarrow> 'w \<Rightarrow> 'w"

type_synonym 'w shim = "'w \<Rightarrow> (cret \<times> 'w) option"

definition load10 :: "'w window \<Rightarrow> (mem10 \<Rightarrow> 's option) \<Rightarrow> ('s \<Rightarrow> cret) \<Rightarrow> 'w shim" where
  "load10 M sel f w = (case sel (look M w) of Some s \<Rightarrow> Some (f s, w) | None \<Rightarrow> None)"

definition store10 :: "'w window \<Rightarrow> (mem10 \<Rightarrow> 's option) \<Rightarrow> ('s \<Rightarrow> mem10 \<Rightarrow> mem10) \<Rightarrow> cret \<Rightarrow> 'w shim" where
  "store10 M sel g r w =
     (case sel (look M w) of Some s \<Rightarrow> Some (r, store M (g s (look M w)) w) | None \<Rightarrow> None)"

subsection \<open>Keys: rsa.rs, dsa.rs, dh.rs, bn.rs\<close>

definition key10 :: "'w window \<Rightarrow> cval \<Rightarrow> 'w shim" where
  "key10 M r = load10 M (\<lambda>m. m_rsa m r) (\<lambda>s. (CNull, [rsa_n s, rsa_e s, rsa_d s]))"

definition factors10 :: "'w window \<Rightarrow> cval \<Rightarrow> 'w shim" where
  "factors10 M r = load10 M (\<lambda>m. m_rsa m r) (\<lambda>s. (CNull, [rsa_p s, rsa_q s]))"

definition set_key10 :: "'w window \<Rightarrow> cval \<Rightarrow> cval \<Rightarrow> cval \<Rightarrow> cval \<Rightarrow> 'w shim" where
  "set_key10 M r n e d =
     store10 M (\<lambda>m. m_rsa m r)
       (\<lambda>s m. m\<lparr>m_rsa := (m_rsa m)(r \<mapsto> s\<lparr>rsa_n := n, rsa_e := e, rsa_d := d\<rparr>)\<rparr>) (CInt 1, [])"

definition set_factors10 :: "'w window \<Rightarrow> cval \<Rightarrow> cval \<Rightarrow> cval \<Rightarrow> 'w shim" where
  "set_factors10 M r p q =
     store10 M (\<lambda>m. m_rsa m r)
       (\<lambda>s m. m\<lparr>m_rsa := (m_rsa m)(r \<mapsto> s\<lparr>rsa_p := p, rsa_q := q\<rparr>)\<rparr>) (CInt 1, [])"

definition set_crt_params10 :: "'w window \<Rightarrow> cval \<Rightarrow> cval \<Rightarrow> cval \<Rightarrow> cval \<Rightarrow> 'w shim" where
  "set_crt_params10 M r dmp1 dmq1 iqmp =
     store10 M (\<lambda>m. m_rsa m r)
       (\<lambda>s m. m\<lparr>m_rsa := (m_rsa m)(r \<mapsto> s\<lparr>rsa_dmp1 := dmp1, rsa_dmq1 := dmq1, rsa_iqmp := iqmp\<rparr>)\<rparr>)
       (CInt 1, [])"

definition pqg10 :: "'w window \<Rightarrow> cval \<Rightarrow> 'w shim" where
  "pqg10 M d = load10 M (\<lambda>m. m_dsa m d) (\<lambda>s. (CNull, [dsa_p s, dsa_q s, dsa_g s]))"

definition keys10 :: "'w window \<Rightarrow> cval \<Rightarrow> 'w shim" where
  "keys10 M d = load10 M (\<lambda>m. m_dsa m d) (\<lambda>s. (CNull, [dsa_pub_key s, dsa_priv_key s]))"

definition DH_set0_pqg10 :: "'w window \<Rightarrow> cval \<Rightarrow> cval \<Rightarrow> cval \<Rightarrow> cval \<Rightarrow> 'w shim" where
  "DH_set0_pqg10 M dh p q g =
     store10 M (\<lambda>m. m_dh m dh)
       (\<lambda>s m. m\<lparr>m_dh := (m_dh m)(dh \<mapsto> s\<lparr>dh_p := p, dh_q := q, dh_g := g\<rparr>)\<rparr>) (CInt 1, [])"

definition is_negative10 :: "'w window \<Rightarrow> cval \<Rightarrow> 'w shim" where
  "is_negative10 M a = load10 M (\<lambda>m. m_bn m a) (\<lambda>s. (CInt (bn_neg s), []))"

subsection \<open>Ciphers: symm.rs\<close>

definition EVP_CIPHER_iv_length10 :: "'w window \<Rightarrow> cval \<Rightarrow> 'w shim" where
  "EVP_CIPHER_iv_length10 M c = load10 M (\<lambda>m. m_cipher m c) (\<lambda>s. (CInt (ci_iv_len s), []))"

definition EVP_CIPHER_block_size10 :: "'w window \<Rightarrow> cval \<Rightarrow> 'w shim" where
  "EVP_CIPHER_block_size10 M c = load10 M (\<lambda>m. m_cipher m c) (\<lambda>s. (CInt (ci_block_size s), []))"

definition EVP_CIPHER_key_length10 :: "'w window \<Rightarrow> cval \<Rightarrow> 'w shim" where
  "EVP_CIPHER_key_length10 M c = load10 M (\<lambda>m. m_cipher m c) (\<lambda>s. (CInt (ci_key_len s), []))"

subsection \<open>References\<close>

text \<open>
  \<open>CRYPTO_add_lock\<close> is given a pointer to the counter, the amount, the number of the lock that protects the
  counter, and where it was called. The counter is passed as its value and comes back as the out-value.
\<close>

definition CRYPTO_LOCK_X509 :: int where "CRYPTO_LOCK_X509 = 3"
definition CRYPTO_LOCK_SSL_CTX :: int where "CRYPTO_LOCK_SSL_CTX = 12"
definition CRYPTO_LOCK_SSL_SESSION :: int where "CRYPTO_LOCK_SSL_SESSION = 14"

definition add_lock10 ::
  "'w window \<Rightarrow> 'w ffi \<Rightarrow> (mem10 \<Rightarrow> int option) \<Rightarrow> (int \<Rightarrow> mem10 \<Rightarrow> mem10) \<Rightarrow> int \<Rightarrow> int \<Rightarrow> int \<Rightarrow> cret \<Rightarrow> 'w shim" where
  "add_lock10 M F counter put amount lock line r w =
     (case counter (look M w) of
        None \<Rightarrow> None
      | Some n \<Rightarrow>
          (case F ''CRYPTO_add_lock'' [CInt n, CInt amount, CInt lock, CStr ''mod.rs'', CInt line] w of
             ((_, os), w1) \<Rightarrow> Some (r, store M (put (c_int (out os 0)) (look M w1)) w1)))"

definition SSL_CTX_up_ref10 :: "'w window \<Rightarrow> 'w ffi \<Rightarrow> cval \<Rightarrow> 'w shim" where
  "SSL_CTX_up_ref10 M F ssl =
     add_lock10 M F (\<lambda>m. map_option ctx_references (m_ctx m ssl))
       (\<lambda>n m. m\<lparr>m_ctx := (m_ctx m)(ssl := map_option (\<lambda>s. s\<lparr>ctx_references := n\<rparr>) (m_ctx m ssl))\<rparr>)
       1 CRYPTO_LOCK_SSL_CTX 1983 (CInt 0, [])"

definition SSL_SESSION_up_ref10 :: "'w window \<Rightarrow> 'w ffi \<Rightarrow> cval \<Rightarrow> 'w shim" where
  "SSL_SESSION_up_ref10 M F ses =
     add_lock10 M F (\<lambda>m. map_option sess_references (m_session m ses))
       (\<lambda>n m. m\<lparr>m_session := (m_session m)(ses := map_option (\<lambda>s. s\<lparr>sess_references := n\<rparr>) (m_session m ses))\<rparr>)
       1 CRYPTO_LOCK_SSL_CTX 2021 (CInt 0, [])"

definition X509_up_ref10 :: "'w window \<Rightarrow> 'w ffi \<Rightarrow> cval \<Rightarrow> 'w shim" where
  "X509_up_ref10 M F x =
     add_lock10 M F (\<lambda>m. map_option x_references (m_x509 m x))
       (\<lambda>n m. m\<lparr>m_x509 := (m_x509 m)(x := map_option (\<lambda>s. s\<lparr>x_references := n\<rparr>) (m_x509 m x))\<rparr>)
       1 CRYPTO_LOCK_X509 1188 (CNull, [])"

subsection \<open>TLS: ssl/mod.rs, ossl10x.rs\<close>

definition SSL_CTRL_GET_SESSION_REUSED :: int where "SSL_CTRL_GET_SESSION_REUSED = 8"
definition SSL_CTRL_OPTIONS :: int where "SSL_CTRL_OPTIONS = 32"
definition SSL_CTRL_CLEAR_OPTIONS :: int where "SSL_CTRL_CLEAR_OPTIONS = 77"
definition SSL_CTRL_SET_ECDH_AUTO :: int where "SSL_CTRL_SET_ECDH_AUTO = 94"

text \<open>\<open>as c_long\<close> and \<open>as c_ulong\<close>.\<close>

definition as_long :: "cval \<Rightarrow> cval" where
  "as_long v = CInt (sint (word_of_int (c_int v) :: u64))"

definition as_ulong :: "cval \<Rightarrow> cval" where
  "as_ulong v = CInt (uint (word_of_int (c_int v) :: u64))"

definition calls :: "'w ffi \<Rightarrow> string \<Rightarrow> cval list \<Rightarrow> (cval \<Rightarrow> cval) \<Rightarrow> 'w shim" where
  "calls F f args conv w = (case F f args w of ((r, os), w') \<Rightarrow> Some ((conv r, os), w'))"

definition SSL_CTX_get_options10 :: "'w ffi \<Rightarrow> cval \<Rightarrow> 'w shim" where
  "SSL_CTX_get_options10 F ctx = calls F ''SSL_CTX_ctrl'' [ctx, CInt SSL_CTRL_OPTIONS, CInt 0, CNull] as_ulong"

definition SSL_CTX_set_options10 :: "'w ffi \<Rightarrow> cval \<Rightarrow> cval \<Rightarrow> 'w shim" where
  "SSL_CTX_set_options10 F ctx op = calls F ''SSL_CTX_ctrl'' [ctx, CInt SSL_CTRL_OPTIONS, as_long op, CNull] as_ulong"

definition SSL_CTX_clear_options10 :: "'w ffi \<Rightarrow> cval \<Rightarrow> cval \<Rightarrow> 'w shim" where
  "SSL_CTX_clear_options10 F ctx op = calls F ''SSL_CTX_ctrl'' [ctx, CInt SSL_CTRL_CLEAR_OPTIONS, as_long op, CNull] as_ulong"

definition get_new_idx10 :: "'w ffi \<Rightarrow> cval \<Rightarrow> 'w shim" where
  "get_new_idx10 F f = calls F ''SSL_CTX_get_ex_new_index'' [CInt 0, CNull, CNull, CNull, f] (\<lambda>r. r)"

definition get_new_ssl_idx10 :: "'w ffi \<Rightarrow> cval \<Rightarrow> 'w shim" where
  "get_new_ssl_idx10 F f = calls F ''SSL_get_ex_new_index'' [CInt 0, CNull, CNull, CNull, f] (\<lambda>r. r)"

definition tls_method10 :: "'w ffi \<Rightarrow> 'w shim" where
  "tls_method10 F = calls F ''SSLv23_method'' [] (\<lambda>r. r)"

definition dtls_method10 :: "'w ffi \<Rightarrow> 'w shim" where
  "dtls_method10 F = calls F ''DTLSv1_method'' [] (\<lambda>r. r)"

text \<open>
  The copy reads the first \<open>outlen\<close> bytes of an array of 48; a longer read is not valid. The out-value is what is
  written to the front of the buffer.
\<close>

definition SSL_SESSION_get_master_key10 :: "'w window \<Rightarrow> cval \<Rightarrow> u64 \<Rightarrow> 'w shim" where
  "SSL_SESSION_get_master_key10 M ses outlen w =
     (case m_session (look M w) ses of
        None \<Rightarrow> None
      | Some s \<Rightarrow>
          (let len = word_of_int (sess_master_key_length s) :: u64 in
           if outlen = 0 then Some ((CInt (uint len), []), w)
           else
             (let n = (if len < outlen then len else outlen) in
              if unat n \<le> length (sess_master_key s)
              then Some ((CInt (uint n), [CBytes (take (unat n) (sess_master_key s))]), w)
              else None)))"

definition SSL_is_server10 :: "'w window \<Rightarrow> cval \<Rightarrow> 'w shim" where
  "SSL_is_server10 M s = load10 M (\<lambda>m. m_ssl m s) (\<lambda>s. (CInt (ssl_server s), []))"

definition SSL_session_reused10 :: "'w ffi \<Rightarrow> cval \<Rightarrow> 'w shim" where
  "SSL_session_reused10 F ssl =
     calls F ''SSL_ctrl'' [ssl, CInt SSL_CTRL_GET_SESSION_REUSED, CInt 0, CNull] (\<lambda>r. CInt (as_c_int (c_int r)))"

definition SSL_CTX_set_ecdh_auto :: "'w ffi \<Rightarrow> cval \<Rightarrow> int \<Rightarrow> ('w, 'e, cval) eff" where
  "SSL_CTX_set_ecdh_auto F ctx onoff =
     and_then (ccall F ''SSL_CTX_ctrl'' [ctx, CInt SSL_CTRL_SET_ECDH_AUTO, CInt onoff, CNull]) (\<lambda>(r, _).
     ret (CInt (as_c_int (c_int r))))"

definition SSL_set_ecdh_auto :: "'w ffi \<Rightarrow> cval \<Rightarrow> int \<Rightarrow> ('w, 'e, cval) eff" where
  "SSL_set_ecdh_auto F ssl onoff =
     and_then (ccall F ''SSL_ctrl'' [ssl, CInt SSL_CTRL_SET_ECDH_AUTO, CInt onoff, CNull]) (\<lambda>(r, _).
     ret (CInt (as_c_int (c_int r))))"

definition set_ecdh_auto :: "'w ffi \<Rightarrow> cval \<Rightarrow> bool \<Rightarrow> ('w, error_stack, unit) eff" where
  "set_ecdh_auto F ctx onoff =
     and_then (SSL_CTX_set_ecdh_auto F ctx (if onoff then 1 else 0)) (\<lambda>r. and_then (cvt F r) (\<lambda>_. ret ()))"

definition ssl_set_ecdh_auto :: "'w ffi \<Rightarrow> cval \<Rightarrow> bool \<Rightarrow> ('w, error_stack, unit) eff" where
  "ssl_set_ecdh_auto F ssl onoff =
     and_then (SSL_set_ecdh_auto F ssl (if onoff then 1 else 0)) (\<lambda>r. and_then (cvt F r) (\<lambda>_. ret ()))"

text \<open>The curves of the preconfigured server: for 1.0.1 one curve, whose key is dropped after it was copied, for 1.0.2 the automatic choice.\<close>

definition X9_62_PRIME256V1 :: nid where "X9_62_PRIME256V1 = 415"

definition setup_curves101 :: "'w ffi \<Rightarrow> cval \<Rightarrow> ('w, error_stack, unit) eff" where
  "setup_curves101 F ctx =
     and_then (EcKey_from_curve_name F X9_62_PRIME256V1) (\<lambda>curve.
     and_then (owning (call_v F ''EC_KEY_free'' [curve]) (set_tmp_ecdh F ctx curve)) (\<lambda>r.
     and_then (call_v F ''EC_KEY_free'' [curve]) (\<lambda>_. ret r)))"

definition setup_curves102 :: "'w ffi \<Rightarrow> cval \<Rightarrow> ('w, error_stack, unit) eff" where
  "setup_curves102 F ctx = set_ecdh_auto F ctx True"

subsection \<open>Certificates: x509/mod.rs\<close>

definition validity10 :: "mem10 \<Rightarrow> cval \<Rightarrow> X509_VAL option" where
  "validity10 m x =
     Option.bind (m_x509 m x) (\<lambda>s. Option.bind (m_cinf m (x_cert_info s)) (\<lambda>i. m_val m (cinf_validity i)))"

definition X509_get_notAfter10 :: "'w window \<Rightarrow> cval \<Rightarrow> 'w shim" where
  "X509_get_notAfter10 M x = load10 M (\<lambda>m. validity10 m x) (\<lambda>v. (val_notAfter v, []))"

definition X509_get_notBefore10 :: "'w window \<Rightarrow> cval \<Rightarrow> 'w shim" where
  "X509_get_notBefore10 M x = load10 M (\<lambda>m. validity10 m x) (\<lambda>v. (val_notBefore v, []))"

definition X509_get0_extensions10 :: "'w window \<Rightarrow> cval \<Rightarrow> 'w shim" where
  "X509_get0_extensions10 M cert =
     load10 M (\<lambda>m. Option.bind (m_x509 m cert) (\<lambda>s.
         if x_cert_info s = CNull then Some CNull
         else map_option cinf_extensions (m_cinf m (x_cert_info s))))
       (\<lambda>e. (e, []))"

definition req_info10 :: "mem10 \<Rightarrow> cval \<Rightarrow> X509_REQ_INFO option" where
  "req_info10 m x = Option.bind (m_req m x) (\<lambda>s. m_req_info m (rq_req_info s))"

definition X509_REQ_get_version10 :: "'w window \<Rightarrow> 'w ffi \<Rightarrow> cval \<Rightarrow> 'w shim" where
  "X509_REQ_get_version10 M F x w =
     (case req_info10 (look M w) x of
        None \<Rightarrow> None
      | Some i \<Rightarrow> calls F ''ASN1_INTEGER_get'' [ri_version i] (\<lambda>r. r) w)"

definition X509_REQ_get_subject_name10 :: "'w window \<Rightarrow> cval \<Rightarrow> 'w shim" where
  "X509_REQ_get_subject_name10 M x = load10 M (\<lambda>m. req_info10 m x) (\<lambda>i. (ri_subject i, []))"

text \<open>Defined for 1.0, but not used: \<open>X509Req::public_key\<close> calls the C function in both versions.\<close>

definition X509_REQ_get_pubkey10 :: "'w window \<Rightarrow> cval \<Rightarrow> 'w shim" where
  "X509_REQ_get_pubkey10 M x = load10 M (\<lambda>m. req_info10 m x) (\<lambda>i. (ri_pubkey i, []))"

definition X509_get0_signature10 :: "'w window \<Rightarrow> cval \<Rightarrow> 'w shim" where
  "X509_get0_signature10 M x = load10 M (\<lambda>m. m_x509 m x) (\<lambda>s. (CNull, [x_signature s, x_sig_alg s]))"

definition X509_ALGOR_get0_10 :: "'w window \<Rightarrow> cval \<Rightarrow> 'w shim" where
  "X509_ALGOR_get0_10 M alg = load10 M (\<lambda>m. m_algor m alg) (\<lambda>s. (CNull, [algor_algorithm s]))"

subsection \<open>Streams: ssl/bio.rs\<close>

definition bio_set10 :: "'w window \<Rightarrow> cval \<Rightarrow> (BIO_10 \<Rightarrow> BIO_10) \<Rightarrow> 'w shim" where
  "bio_set10 M bio g =
     store10 M (\<lambda>m. m_bio m bio) (\<lambda>s m. m\<lparr>m_bio := (m_bio m)(bio \<mapsto> g s)\<rparr>) (CNull, [])"

definition BIO_set_init10 :: "'w window \<Rightarrow> cval \<Rightarrow> cval \<Rightarrow> 'w shim" where
  "BIO_set_init10 M bio i = bio_set10 M bio (\<lambda>s. s\<lparr>bio_init_field := c_int i\<rparr>)"

definition BIO_set_flags10 :: "'w window \<Rightarrow> cval \<Rightarrow> cval \<Rightarrow> 'w shim" where
  "BIO_set_flags10 M bio flags = bio_set10 M bio (\<lambda>s. s\<lparr>bio_flags_field := c_int flags\<rparr>)"

definition BIO_get_data10 :: "'w window \<Rightarrow> cval \<Rightarrow> 'w shim" where
  "BIO_get_data10 M bio = load10 M (\<lambda>m. m_bio m bio) (\<lambda>s. (bio_ptr_field s, []))"

definition BIO_set_data10 :: "'w window \<Rightarrow> cval \<Rightarrow> cval \<Rightarrow> 'w shim" where
  "BIO_set_data10 M bio data = bio_set10 M bio (\<lambda>s. s\<lparr>bio_ptr_field := data\<rparr>)"

definition BIO_set_num10 :: "'w window \<Rightarrow> cval \<Rightarrow> cval \<Rightarrow> 'w shim" where
  "BIO_set_num10 M bio num = bio_set10 M bio (\<lambda>s. s\<lparr>bio_num_field := c_int num\<rparr>)"

text \<open>The method table is a box of Rust, at an address that is not in use.\<close>

definition BioMethod_new10 :: "'w window \<Rightarrow> ('w, 'e, cval) eff" where
  "BioMethod_new10 M w =
     (let m = look M w; p = CPtr (m_next m) in
      (Ok p, store M (m\<lparr>m_method := (m_method m)(p \<mapsto>
          \<lparr>bm_type = BIO_TYPE_NONE, bm_name = CStr ''rust'', bm_bwrite = CStr ''bwrite'', bm_bread = CStr ''bread'',
           bm_bputs = CStr ''bputs'', bm_bgets = CNull, bm_ctrl = CStr ''ctrl'', bm_create = CStr ''create'',
           bm_destroy = CStr ''destroy'', bm_callback_ctrl = CNull\<rparr>), m_next := Suc (m_next m)\<rparr>) w))"

definition BioMethod_drop10 :: "'w window \<Rightarrow> cval \<Rightarrow> ('w, 'e, unit) eff" where
  "BioMethod_drop10 M p w =
     (let m = look M w in (Ok (), store M (m\<lparr>m_method := (m_method m)(p := None)\<rparr>) w))"

subsection \<open>The library the crate sees\<close>

text \<open>Functions of 1.1.0 that the crate calls by the name they have in 1.0.\<close>

definition renamed10 :: "(string \<times> string) list" where
  "renamed10 =
     [(''OPENSSL_sk_pop'', ''sk_pop''), (''OPENSSL_sk_free'', ''sk_free''), (''OPENSSL_sk_num'', ''sk_num''),
      (''OPENSSL_sk_value'', ''sk_value''), (''OPENSSL_sk_new_null'', ''sk_new_null''), (''OPENSSL_sk_push'', ''sk_push''),
      (''EVP_MD_CTX_new'', ''EVP_MD_CTX_create''), (''EVP_MD_CTX_free'', ''EVP_MD_CTX_destroy''),
      (''ASN1_STRING_get0_data'', ''ASN1_STRING_data''), (''X509_STORE_CTX_get0_chain'', ''X509_STORE_CTX_get_chain''),
      (''OpenSSL_version_num'', ''SSLeay''),
      (''BN_get_rfc2409_prime_768'', ''get_rfc2409_prime_768''), (''BN_get_rfc2409_prime_1024'', ''get_rfc2409_prime_1024''),
      (''BN_get_rfc3526_prime_1536'', ''get_rfc3526_prime_1536''), (''BN_get_rfc3526_prime_2048'', ''get_rfc3526_prime_2048''),
      (''BN_get_rfc3526_prime_3072'', ''get_rfc3526_prime_3072''), (''BN_get_rfc3526_prime_4096'', ''get_rfc3526_prime_4096''),
      (''BN_get_rfc3526_prime_6144'', ''get_rfc3526_prime_6144''), (''BN_get_rfc3526_prime_8192'', ''get_rfc3526_prime_8192'')]"

definition rename10 :: "string \<Rightarrow> string" where
  "rename10 f = (case map_of renamed10 f of Some g \<Rightarrow> g | None \<Rightarrow> f)"

text \<open>The constants \<open>SSLEAY_VERSION\<close> and so on for \<open>OPENSSL_VERSION\<close> and so on.\<close>

definition version_part10 :: "int \<Rightarrow> int" where
  "version_part10 i = (if i = 0 then 0 else i + 1)"

definition no_shim :: "'w shim" where
  "no_shim w = None"

definition shim_of :: "'w window \<Rightarrow> 'w ffi \<Rightarrow> string \<Rightarrow> cval list \<Rightarrow> 'w shim" where
  "shim_of M F f args =
     (case args of
        [] \<Rightarrow>
          if f = ''TLS_method'' then tls_method10 F
          else if f = ''DTLS_method'' then dtls_method10 F
          else no_shim
      | [a] \<Rightarrow>
          if f = ''RSA_get0_key'' then key10 M a
          else if f = ''RSA_get0_factors'' then factors10 M a
          else if f = ''DSA_get0_pqg'' then pqg10 M a
          else if f = ''DSA_get0_key'' then keys10 M a
          else if f = ''BN_is_negative'' then is_negative10 M a
          else if f = ''EVP_CIPHER_iv_length'' then EVP_CIPHER_iv_length10 M a
          else if f = ''EVP_CIPHER_block_size'' then EVP_CIPHER_block_size10 M a
          else if f = ''EVP_CIPHER_key_length'' then EVP_CIPHER_key_length10 M a
          else if f = ''SSL_CTX_up_ref'' then SSL_CTX_up_ref10 M F a
          else if f = ''SSL_SESSION_up_ref'' then SSL_SESSION_up_ref10 M F a
          else if f = ''X509_up_ref'' then X509_up_ref10 M F a
          else if f = ''SSL_CTX_get_options'' then SSL_CTX_get_options10 F a
          else if f = ''SSL_is_server'' then SSL_is_server10 M a
          else if f = ''SSL_session_reused'' then SSL_session_reused10 F a
          else if f = ''X509_getm_notAfter'' then X509_get_notAfter10 M a
          else if f = ''X509_getm_notBefore'' then X509_get_notBefore10 M a
          else if f = ''X509_get0_extensions'' then X509_get0_extensions10 M a
          else if f = ''X509_REQ_get_version'' then X509_REQ_get_version10 M F a
          else if f = ''X509_REQ_get_subject_name'' then X509_REQ_get_subject_name10 M a
          else if f = ''X509_get0_signature'' then X509_get0_signature10 M a
          else if f = ''X509_ALGOR_get0'' then X509_ALGOR_get0_10 M a
          else if f = ''BIO_get_data'' then BIO_get_data10 M a
          else if f = ''OpenSSL_version'' then
            calls F ''SSLeay_version'' [CInt (version_part10 (c_int a))] (\<lambda>r. r)
          else no_shim
      | [a, b] \<Rightarrow>
          if f = ''SSL_CTX_set_options'' then SSL_CTX_set_options10 F a b
          else if f = ''SSL_CTX_clear_options'' then SSL_CTX_clear_options10 F a b
          else if f = ''BIO_set_init'' then BIO_set_init10 M a b
          else if f = ''BIO_set_flags'' then BIO_set_flags10 M a b
          else if f = ''BIO_set_data'' then BIO_set_data10 M a b
          else if f = ''BIO_set_num'' then BIO_set_num10 M a b
          else no_shim
      | [a, b, c] \<Rightarrow>
          if f = ''RSA_set0_factors'' then set_factors10 M a b c
          else if f = ''SSL_SESSION_get_master_key'' then SSL_SESSION_get_master_key10 M a (word_of_int (c_int c))
          else no_shim
      | [a, b, c, d] \<Rightarrow>
          if f = ''RSA_set0_key'' then set_key10 M a b c d
          else if f = ''RSA_set0_crt_params'' then set_crt_params10 M a b c d
          else if f = ''DH_set0_pqg'' then DH_set0_pqg10 M a b c d
          else no_shim
      | [a, b, c, d, e, g] \<Rightarrow>
          if f = ''CRYPTO_get_ex_new_index'' then
            (if a = CInt 1 then get_new_idx10 F g else if a = CInt 0 then get_new_ssl_idx10 F g else no_shim)
          else no_shim
      | _ \<Rightarrow> no_shim)"

definition compat10 :: "'w window \<Rightarrow> 'w ffi \<Rightarrow> 'w ffi" where
  "compat10 M F f args w = (case shim_of M F f args w of Some r \<Rightarrow> r | None \<Rightarrow> F (rename10 f) args w)"

end
