(* ===== verification/Compat_Laws.thy ===== *)
theory Compat_Laws
  imports Ossl_Compat Key_Laws
begin

text \<open>
  The wrappers on OpenSSL 1.0. The locale \<open>memory\<close> is what a window onto the C memory promises; inside it,
  the shims are shown to do what the functions of 1.1.0 are documented to do, and the wrappers of
  keys, certificates, sessions and ciphers are run on them. Its instances are a state with the memory beside it
  and the state of a TLS stream with the memory on the C side.
\<close>

definition rsa_filled :: "RSA \<Rightarrow> cval \<Rightarrow> cval \<Rightarrow> cval \<Rightarrow> cval \<Rightarrow> cval \<Rightarrow> cval \<Rightarrow> cval \<Rightarrow> cval \<Rightarrow> RSA" where
  "rsa_filled s n e d p q dp dq qi =
     s\<lparr>rsa_n := n, rsa_e := e, rsa_d := d, rsa_p := p, rsa_q := q, rsa_dmp1 := dp, rsa_dmq1 := dq, rsa_iqmp := qi\<rparr>"

lemma u64_of_nat:
  assumes "n < 2 ^ 64"
  shows "unat (word_of_nat n :: u64) = n" "uint (word_of_nat n :: u64) = int n"
  using assms by (simp_all add: unat_of_nat uint_nat)

locale memory =
  fixes M :: "'w window"
  assumes look_store [simp]: "look M (store M m w) = m"
    and store_look [simp]: "store M (look M w) w = w"
    and store_store [simp]: "store M m' (store M m w) = store M m' w"
begin

lemma compat_load:
  "shim_of M F f args = load10 M sel g \<Longrightarrow> sel (look M w) = Some s \<Longrightarrow> compat10 M F f args w = (g s, w)"
  by (simp add: compat10_def load10_def)

lemma rsa_getters:
  assumes "m_rsa (look M w) r = Some s"
  shows "compat10 M F ''RSA_get0_key'' [r] w = ((CNull, [rsa_n s, rsa_e s, rsa_d s]), w)"
    "compat10 M F ''RSA_get0_factors'' [r] w = ((CNull, [rsa_p s, rsa_q s]), w)"
  using assms by (simp_all add: compat10_def shim_of_def key10_def factors10_def load10_def)

lemma rsa_setters:
  assumes "m_rsa (look M w) r = Some s"
  shows "compat10 M F ''RSA_set0_key'' [r, n, e, d] w =
      ((CInt 1, []), store M ((look M w)\<lparr>m_rsa := (m_rsa (look M w))(r \<mapsto> s\<lparr>rsa_n := n, rsa_e := e, rsa_d := d\<rparr>)\<rparr>) w)"
    "compat10 M F ''RSA_set0_factors'' [r, p, q] w =
      ((CInt 1, []), store M ((look M w)\<lparr>m_rsa := (m_rsa (look M w))(r \<mapsto> s\<lparr>rsa_p := p, rsa_q := q\<rparr>)\<rparr>) w)"
    "compat10 M F ''RSA_set0_crt_params'' [r, dp, dq, qi] w =
      ((CInt 1, []), store M ((look M w)\<lparr>m_rsa := (m_rsa (look M w))(r \<mapsto>
         s\<lparr>rsa_dmp1 := dp, rsa_dmq1 := dq, rsa_iqmp := qi\<rparr>)\<rparr>) w)"
  using assms
  by (simp_all add: compat10_def shim_of_def set_key10_def set_factors10_def set_crt_params10_def store10_def)

lemma rsa_new_passes: "compat10 M F ''RSA_new'' [] w = F ''RSA_new'' [] w"
  by (simp add: compat10_def shim_of_def no_shim_def rename10_def renamed10_def)

text \<open>All eight numbers end in their fields; the setters cannot fail, so nothing is freed.\<close>

lemma components10:
  assumes new: "F ''RSA_new'' [] w = ((rsa, os), w1)" "rsa \<noteq> CNull" and s: "m_rsa (look M w1) rsa = Some s"
  shows "Rsa_from_private_components (compat10 M F) n e d p q dp dq qi w =
    (Ok rsa, store M ((look M w1)\<lparr>m_rsa := (m_rsa (look M w1))(rsa \<mapsto> rsa_filled s n e d p q dp dq qi)\<rparr>) w1)"
  unfolding Rsa_from_private_components_def rsa_filled_def
  using new s
  by (simp add: and_then_def owning_def call_p_def ccall_def cvt_p_def rsa_new_passes set_key_def set_factors_def
      set_crt_params_def cvt_def rsa_setters)

lemma rsa_reads:
  assumes "m_rsa (look M w) r = Some s"
  shows "Rsa_n (compat10 M F) r w = (Ok (non_null (rsa_n s)), w)" "Rsa_e (compat10 M F) r w = (Ok (non_null (rsa_e s)), w)"
    "Rsa_d (compat10 M F) r w = (Ok (non_null (rsa_d s)), w)" "Rsa_p (compat10 M F) r w = (Ok (non_null (rsa_p s)), w)"
    "Rsa_q (compat10 M F) r w = (Ok (non_null (rsa_q s)), w)"
  by (simp_all add: Rsa_n_def Rsa_e_def Rsa_d_def Rsa_p_def Rsa_q_def rsa_key_def rsa_factors_def and_then_def ccall_def
      rsa_getters [OF assms] out_def)

text \<open>
  The contract of the RSA functions that \<open>Key_Laws\<close> uses, for 1.0: the C functions as documented, and the
  fields say what the abstraction says. It gives the contract for 1.1.0 on \<open>compat10\<close>.
\<close>

definition rsa_law10 where
  "rsa_law10 F key dec \<longleftrightarrow>
     (\<forall>w rsa k priv. key w rsa = Some (k, priv) \<longrightarrow>
        (\<exists>s. m_rsa (look M w) rsa = Some s \<and> rsa_n s \<noteq> CNull \<and> (rsa_d s \<noteq> CNull \<longleftrightarrow> priv))) \<and>
     (\<forall>w rsa k priv. key w rsa = Some (k, priv) \<longrightarrow>
        (\<exists>os w'. F ''RSA_size'' [rsa] w = ((CInt (int k), os), w') \<and> key w' = key w)) \<and>
     (\<forall>w rsa k priv pad src dst. key w rsa = Some (k, priv) \<longrightarrow> length src < k \<longrightarrow> k \<le> length dst \<longrightarrow>
        (\<exists>c w'. F ''RSA_public_encrypt'' [CInt (int (length src)), CBytes src, CBytes dst, rsa, CInt pad] w =
           ((CInt (int k), [CBytes c]), w') \<and> length c = k \<and> dec rsa pad c = Some src \<and> key w' = key w)) \<and>
     (\<forall>w rsa k pad c dst m. key w rsa = Some (k, True) \<longrightarrow> length c = k \<longrightarrow> k \<le> length dst \<longrightarrow> dec rsa pad c = Some m \<longrightarrow>
        length m \<le> k \<and>
        (\<exists>w'. F ''RSA_private_decrypt'' [CInt (int (length c)), CBytes c, CBytes dst, rsa, CInt pad] w =
           ((CInt (int (length m)), [CBytes m]), w') \<and> key w' = key w))"

lemma passes:
  "compat10 M F ''RSA_size'' args w = F ''RSA_size'' args w"
  "compat10 M F ''RSA_public_encrypt'' args w = F ''RSA_public_encrypt'' args w"
  "compat10 M F ''RSA_private_decrypt'' args w = F ''RSA_private_decrypt'' args w"
  by (simp_all add: compat10_def shim_of_def no_shim_def rename10_def renamed10_def split: list.split)

lemma rsa_contract10:
  assumes "rsa_law10 F key dec"
  shows "rsa_law (compat10 M F) key dec"
proof -
  have "\<exists>n e d r w'. compat10 M F ''RSA_get0_key'' [rsa] w = ((r, [n, e, d]), w') \<and> n \<noteq> CNull \<and>
      (d \<noteq> CNull \<longleftrightarrow> priv) \<and> key w' = key w" if k: "key w rsa = Some (k, priv)" for w rsa k priv
  proof -
    obtain s where s: "m_rsa (look M w) rsa = Some s" "rsa_n s \<noteq> CNull" "rsa_d s \<noteq> CNull \<longleftrightarrow> priv"
      using conjunct1 [OF assms [unfolded rsa_law10_def]] k by blast
    show ?thesis using s(2,3) by (simp add: rsa_getters(1) [OF s(1)])
  qed
  then show ?thesis
    using assms [unfolded rsa_law10_def, THEN conjunct2] unfolding rsa_law_def passes by blast
qed

subsection \<open>References\<close>

definition adds10 where
  "adds10 F \<longleftrightarrow> (\<forall>n a l f k w. \<exists>r. F ''CRYPTO_add_lock'' [CInt n, CInt a, CInt l, f, k] w = ((r, [CInt (n + a)]), w))"

lemma up_refs10:
  assumes "adds10 F"
  shows "m_x509 (look M w) x = Some s \<Longrightarrow> X509_clone (compat10 M F) x w =
      (Ok x, store M ((look M w)\<lparr>m_x509 := (m_x509 (look M w))(x \<mapsto> s\<lparr>x_references := x_references s + 1\<rparr>)\<rparr>) w)"
    and "m_ctx (look M w) x = Some c \<Longrightarrow> SslContext_clone (compat10 M F) x w =
      (Ok x, store M ((look M w)\<lparr>m_ctx := (m_ctx (look M w))(x \<mapsto> c\<lparr>ctx_references := ctx_references c + 1\<rparr>)\<rparr>) w)"
    and "m_session (look M w) x = Some t \<Longrightarrow> SslSession_to_owned (compat10 M F) x w =
      (Ok x, store M ((look M w)\<lparr>m_session := (m_session (look M w))(x \<mapsto> t\<lparr>sess_references := sess_references t + 1\<rparr>)\<rparr>) w)"
proof -
  have add: "\<exists>r. F ''CRYPTO_add_lock'' [CInt n, CInt 1, CInt l, f, k] w = ((r, [CInt (n + 1)]), w)" for n l f k w
    using assms unfolding adds10_def by blast
  show "m_x509 (look M w) x = Some s \<Longrightarrow> X509_clone (compat10 M F) x w =
      (Ok x, store M ((look M w)\<lparr>m_x509 := (m_x509 (look M w))(x \<mapsto> s\<lparr>x_references := x_references s + 1\<rparr>)\<rparr>) w)"
    using add [of "x_references s" CRYPTO_LOCK_X509 "CStr ''mod.rs''" "CInt 1188" w]
    by (auto simp: X509_clone_def and_then_def call_v_def ccall_def compat10_def shim_of_def X509_up_ref10_def add_lock10_def out_def)
  show "m_ctx (look M w) x = Some c \<Longrightarrow> SslContext_clone (compat10 M F) x w =
      (Ok x, store M ((look M w)\<lparr>m_ctx := (m_ctx (look M w))(x \<mapsto> c\<lparr>ctx_references := ctx_references c + 1\<rparr>)\<rparr>) w)"
    using add [of "ctx_references c" CRYPTO_LOCK_SSL_CTX "CStr ''mod.rs''" "CInt 1983" w]
    by (auto simp: SslContext_clone_def and_then_def call_v_def ccall_def compat10_def shim_of_def SSL_CTX_up_ref10_def add_lock10_def out_def)
  show "m_session (look M w) x = Some t \<Longrightarrow> SslSession_to_owned (compat10 M F) x w =
      (Ok x, store M ((look M w)\<lparr>m_session := (m_session (look M w))(x \<mapsto> t\<lparr>sess_references := sess_references t + 1\<rparr>)\<rparr>) w)"
    using add [of "sess_references t" CRYPTO_LOCK_SSL_CTX "CStr ''mod.rs''" "CInt 2021" w]
    by (auto simp: SslSession_to_owned_def and_then_def call_v_def ccall_def compat10_def shim_of_def SSL_SESSION_up_ref10_def
        add_lock10_def out_def)
qed

subsection \<open>Sessions\<close>

lemma master_key10:
  assumes s: "m_session (look M w) x = Some t" and len: "sess_master_key_length t = int len" "len \<le> length (sess_master_key t)"
    "length (sess_master_key t) < 2 ^ 64" "length buf < 2 ^ 64"
  shows "SslSession_master_key_len (compat10 M F) x w = (Ok len, w)"
    and "SslSession_master_key (compat10 M F) x buf w =
      (Ok (if buf = [] then len else min len (length buf),
           take (length buf) (take len (sess_master_key t)) @ drop len buf), w)"
proof -
  have l: "len < 2 ^ 64" using len by linarith
  note u = u64_of_nat [OF l] u64_of_nat [OF len(4)]
  show "SslSession_master_key_len (compat10 M F) x w = (Ok len, w)"
    using s len u by (simp add: SslSession_master_key_len_def and_then_def ccall_def compat10_def shim_of_def
        SSL_SESSION_get_master_key10_def)
  have less: "(word_of_nat len :: u64) < word_of_nat (length buf) \<longleftrightarrow> len < length buf"
    by (simp add: word_less_nat_alt u)
  have zero: "(word_of_nat (length buf) :: u64) = 0 \<longleftrightarrow> buf = []"
    by (metis length_0_conv u(3) unat_eq_zero)
  show "SslSession_master_key (compat10 M F) x buf w =
      (Ok (if buf = [] then len else min len (length buf),
           take (length buf) (take len (sess_master_key t)) @ drop len buf), w)"
    using s len u less zero
    by (auto simp add: SslSession_master_key_def and_then_def ccall_def compat10_def shim_of_def
        SSL_SESSION_get_master_key10_def out_def Let_def min_def)
qed

subsection \<open>Ciphers and streams\<close>

lemma cipher_sizes10:
  assumes "m_cipher (look M w) c = Some s"
  shows "key_len (compat10 M F) c w = (Ok (nat (ci_key_len s)), w)" "block_size (compat10 M F) c w = (Ok (nat (ci_block_size s)), w)"
  using assms
  by (simp_all add: key_len_def block_size_def and_then_def ccall_def compat10_def shim_of_def load10_def
      EVP_CIPHER_key_length10_def EVP_CIPHER_block_size10_def)

text \<open>A BIO that was created and given its state returns that state, with the fields the crate sets.\<close>

lemma bio_fields10:
  assumes "m_bio (look M w) b = Some s"
  shows "\<exists>w'. and_then (bio_create (compat10 M F) b) (\<lambda>r.
       and_then (ccall (compat10 M F) ''BIO_set_data'' [b, st]) (\<lambda>_.
       and_then (ccall (compat10 M F) ''BIO_set_init'' [b, CInt 1]) (\<lambda>_.
       ccall (compat10 M F) ''BIO_get_data'' [b]))) w = (Ok (st, []), w') \<and>
     m_bio (look M w') b = Some (s\<lparr>bio_init_field := 1, bio_flags_field := 0, bio_ptr_field := st\<rparr>)"
  using assms
  by (simp add: bio_create_def and_then_def ccall_def compat10_def shim_of_def BIO_set_init10_def BIO_set_data10_def
      BIO_set_flags10_def BIO_get_data10_def bio_set10_def store10_def load10_def)

end

text \<open>The memory beside the rest of the state, and on the C side of a TLS stream.\<close>

definition pair_window :: "('w \<times> mem10) window" where
  "pair_window = \<lparr>look = snd, store = (\<lambda>m w. (fst w, m))\<rparr>"

definition tls_window :: "('u \<times> mem10, 's) tls window" where
  "tls_window = \<lparr>look = (\<lambda>w. snd (c_side w)), store = (\<lambda>m w. w\<lparr>c_side := (fst (c_side w), m)\<rparr>)\<rparr>"

lemma pair_window_simps [simp]: "look pair_window w = snd w" "store pair_window m w = (fst w, m)"
  by (simp_all add: pair_window_def)

interpretation beside: memory pair_window
  by unfold_locales simp_all

interpretation on_stream10: memory tls_window
  by unfold_locales (simp_all add: tls_window_def)

subsection \<open>Properties\<close>

text \<open>
  An RSA key built from its components on OpenSSL 1.0, where Rust code writes the C structure: all eight numbers
  end in their fields, nothing else in the memory changes and no C function but \<open>RSA_new\<close> is called, so nothing is
  freed; and the accessors return the numbers.
\<close>

lemma rsa_components_10:
  assumes new: "F ''RSA_new'' [] (w, m) = ((rsa, os), (w1, m1))" "rsa \<noteq> CNull" and s: "m_rsa m1 rsa = Some s"
  defines "L \<equiv> compat10 pair_window F"
  shows "\<exists>m2. Rsa_from_private_components L n e d p q dp dq qi (w, m) = (Ok rsa, (w1, m2)) \<and>
    m2 = m1\<lparr>m_rsa := (m_rsa m1)(rsa \<mapsto> rsa_filled s n e d p q dp dq qi)\<rparr> \<and>
    Rsa_n L rsa (w1, m2) = (Ok (non_null n), (w1, m2)) \<and> Rsa_e L rsa (w1, m2) = (Ok (non_null e), (w1, m2)) \<and>
    Rsa_d L rsa (w1, m2) = (Ok (non_null d), (w1, m2)) \<and> Rsa_p L rsa (w1, m2) = (Ok (non_null p), (w1, m2)) \<and>
    Rsa_q L rsa (w1, m2) = (Ok (non_null q), (w1, m2))"
proof -
  let ?m2 = "m1\<lparr>m_rsa := (m_rsa m1)(rsa \<mapsto> rsa_filled s n e d p q dp dq qi)\<rparr>"
  have built: "Rsa_from_private_components L n e d p q dp dq qi (w, m) = (Ok rsa, (w1, ?m2))"
    using beside.components10 [of F "(w, m)" rsa os "(w1, m1)" s n e d p q dp dq qi] new s by (simp add: L_def)
  have "m_rsa (look pair_window (w1, ?m2)) rsa = Some (rsa_filled s n e d p q dp dq qi)" by simp
  note reads = beside.rsa_reads [OF this, where F = F, folded L_def]
  show ?thesis
    by (rule exI [of _ ?m2]) (use built reads in \<open>simp add: rsa_filled_def\<close>)
qed

text \<open>
  C40: Reading the master key of a session on OpenSSL 1.0, where Rust code copies it out of the C structure, stays
  within both buffers: at most as many bytes as the caller's buffer has, and at most as many as the
  session has, are copied to the front of the buffer, the rest of the buffer is not touched, and the number of
  bytes copied is returned. An empty buffer is the exception: the length of the key is returned although
  nothing is copied.
\<close>
theorem master_key_in_bounds:
  assumes "m_session m x = Some t" "sess_master_key_length t = int len" "len \<le> length (sess_master_key t)"
    and "length (sess_master_key t) = 48" "length buf < 2 ^ 64"
  shows "\<exists>n out. SslSession_master_key (compat10 pair_window F) x buf (w, m) = (Ok (n, out), (w, m)) \<and>
    length out = length buf \<and>
    take (min len (length buf)) out = take (min len (length buf)) (sess_master_key t) \<and>
    drop (min len (length buf)) out = drop (min len (length buf)) buf \<and>
    (if buf = [] then n = len else n = min len (length buf))"
proof -
  define n where "n = (if buf = [] then len else min len (length buf))"
  define bytes where "bytes = take (length buf) (take len (sess_master_key t)) @ drop len buf"
  have "SslSession_master_key (compat10 pair_window F) x buf (w, m) = (Ok (n, bytes), (w, m))"
    unfolding n_def bytes_def by (rule beside.master_key10(2)) (use assms in simp_all)
  moreover have "length bytes = length buf" "take (min len (length buf)) bytes = take (min len (length buf)) (sess_master_key t)"
    "drop (min len (length buf)) bytes = drop (min len (length buf)) buf"
    using assms(3) by (auto simp: bytes_def min_def)
  moreover have "if buf = [] then n = len else n = min len (length buf)" by (simp add: n_def)
  ultimately show ?thesis by blast
qed

definition demo_memory :: mem10 where
  "demo_memory =
     \<lparr>m_rsa = Map.empty, m_dsa = Map.empty, m_dh = Map.empty, m_bn = Map.empty, m_cipher = Map.empty, m_x509 = Map.empty,
      m_cinf = Map.empty, m_val = Map.empty, m_algor = Map.empty, m_req = Map.empty, m_req_info = Map.empty, m_ssl = Map.empty,
      m_ctx = Map.empty,
      m_session = [CPtr 1 \<mapsto> \<lparr>sess_master_key_length = 48, sess_master_key = replicate 48 7, sess_references = 1\<rparr>],
      m_bio = Map.empty, m_method = Map.empty, m_next = 2\<rparr>"

definition demo_silent :: "(unit \<times> mem10) ffi" where
  "demo_silent f args w = ((CNull, []), w)"

theorem master_key_in_bounds_witness:
  "\<exists>n out. SslSession_master_key (compat10 pair_window demo_silent) (CPtr 1) [1, 2, 3] ((), demo_memory) =
     (Ok (n, out), ((), demo_memory)) \<and> length out = 3 \<and> take 3 out = [7, 7, 7] \<and> n = 3"
proof -
  have pre: "m_session demo_memory (CPtr 1) = Some \<lparr>sess_master_key_length = int 48, sess_master_key = replicate 48 7, sess_references = 1\<rparr>"
    by (simp add: demo_memory_def)
  show ?thesis
    using master_key_in_bounds [OF pre, of 48 "[1, 2, 3]" demo_silent "()"] by (auto simp: numeral_3_eq_3)
qed

end
