(* ===== verification/Ossl_Variants.thy ===== *)
theory Ossl_Variants
  imports Compat_Laws
begin

unbundle bit_operations_syntax

text \<open>
  The options of a context in every library the crate can be built for. The bits differ: 1.1.0 gave up the
  workarounds of 1.0, 1.1.0f has its own set of all workarounds, and LibreSSL, for which the crate also
  uses its modules for 1.0, has no SSL 2 and 3 and no compression to switch off. A constant of
  \<open>openssl-sys\<close> is a function of the library here, and the operations on options, which \<open>Ossl_Context\<close> and
  \<open>Ossl_Connector\<close> have for 1.1.0, take the library as an argument.
\<close>

subsection \<open>The bits\<close>

text \<open>\<open>Libre26\<close> is LibreSSL 2.6.1 and 2.6.2, \<open>Libre\<close> every other one.\<close>

datatype library = Ossl101 | Ossl102 | Ossl110 | Ossl110f | Libre | Libre26

definition libressl :: "library \<Rightarrow> bool" where
  "libressl L \<longleftrightarrow> L = Libre \<or> L = Libre26"

text \<open>A constant that LibreSSL declares as zero, and one that only the declarations for 1.0 have.\<close>

definition not_libre :: "library \<Rightarrow> u64 \<Rightarrow> u64" where
  "not_libre L b = (if libressl L then 0 else b)"

definition only10 :: "library \<Rightarrow> u64 \<Rightarrow> u64" where
  "only10 L b = (if L = Ossl101 \<or> L = Ossl102 then b else 0)"

definition TLSEXT_PADDING_in :: "library \<Rightarrow> u64" where
  "TLSEXT_PADDING_in L = (if L = Libre26 then 0 else 0x00000010)"

definition CRYPTOPRO_TLSEXT_BUG_in :: "library \<Rightarrow> u64" where
  "CRYPTOPRO_TLSEXT_BUG_in L = (if L = Libre26 then 0 else 0x80000000)"

definition LEGACY_SERVER_CONNECT :: u64 where "LEGACY_SERVER_CONNECT = 0x00000004"

definition SAFARI_ECDHE_ECDSA_BUG :: u64 where "SAFARI_ECDHE_ECDSA_BUG = 0x00000040"

definition OP_ALL_libre :: "library \<Rightarrow> u64" where
  "OP_ALL_libre L = (if L = Libre26 then 0x4 else 0x80000014)"

definition OP_ALL_in :: "library \<Rightarrow> u64" where
  "OP_ALL_in L =
     (case L of
        Libre26 \<Rightarrow> OP_ALL_libre L
      | Libre \<Rightarrow> OP_ALL_libre L
      | Ossl110f \<Rightarrow> CRYPTOPRO_TLSEXT_BUG_in L OR SSL_OP_DONT_INSERT_EMPTY_FRAGMENTS OR LEGACY_SERVER_CONNECT OR
          TLSEXT_PADDING_in L OR SAFARI_ECDHE_ECDSA_BUG
      | _ \<Rightarrow> 0x80000BFF)"

definition SINGLE_ECDH_USE_in :: "library \<Rightarrow> u64" where
  "SINGLE_ECDH_USE_in L = (if L = Libre then 0x00080000 else only10 L 0x00080000)"

definition SINGLE_DH_USE_in :: "library \<Rightarrow> u64" where
  "SINGLE_DH_USE_in L = (if libressl L then 0x00100000 else only10 L 0x00100000)"

definition NO_SSLV2_in :: "library \<Rightarrow> u64" where
  "NO_SSLV2_in L = only10 L 0x01000000"

definition NETSCAPE_REUSE_CIPHER_CHANGE_BUG_in :: "library \<Rightarrow> u64" where
  "NETSCAPE_REUSE_CIPHER_CHANGE_BUG_in L = only10 L 0x00000008"

definition workarounds_in :: "library \<Rightarrow> u64 list" where
  "workarounds_in L =
     [only10 L 0x00000001, only10 L 0x00000002, NETSCAPE_REUSE_CIPHER_CHANGE_BUG_in L, only10 L 0x00000020,
      only10 L 0x00000080, only10 L 0x00000100, only10 L 0x00000200]"

definition SslOption_in :: "library \<Rightarrow> u64 list" where
  "SslOption_in L = workarounds_in L @
     [SSL_OP_DONT_INSERT_EMPTY_FRAGMENTS, OP_ALL_in L, SSL_OP_NO_QUERY_MTU, SSL_OP_COOKIE_EXCHANGE, SSL_OP_NO_TICKET,
      not_libre L SSL_OP_CISCO_ANYCONNECT, SSL_OP_NO_SESSION_RESUMPTION_ON_RENEGOTIATION,
      not_libre L SSL_OP_NO_COMPRESSION, not_libre L SSL_OP_ALLOW_UNSAFE_LEGACY_RENEGOTIATION,
      SINGLE_ECDH_USE_in L, SINGLE_DH_USE_in L, SSL_OP_CIPHER_SERVER_PREFERENCE, SSL_OP_TLS_ROLLBACK_BUG,
      NO_SSLV2_in L, not_libre L SSL_OP_NO_SSLV3, SSL_OP_NO_TLSV1, SSL_OP_NO_TLSV1_2, SSL_OP_NO_TLSV1_1]"

definition SslOption_all_in :: "library \<Rightarrow> u64" where
  "SslOption_all_in L = foldr (OR) (SslOption_in L) 0"

subsection \<open>Operations\<close>

definition set_options_in :: "library \<Rightarrow> 'w ffi \<Rightarrow> cval \<Rightarrow> u64 \<Rightarrow> ('w, 'e, u64) eff" where
  "set_options_in L F ctx option =
     and_then (ccall F ''SSL_CTX_set_options'' [ctx, CInt (uint option)]) (\<lambda>(r, _). from_bits (SslOption_all_in L) (c_int r))"

definition clear_options_in :: "library \<Rightarrow> 'w ffi \<Rightarrow> cval \<Rightarrow> u64 \<Rightarrow> ('w, 'e, u64) eff" where
  "clear_options_in L F ctx option =
     and_then (ccall F ''SSL_CTX_clear_options'' [ctx, CInt (uint option)]) (\<lambda>(r, _). from_bits (SslOption_all_in L) (c_int r))"

definition options_in :: "library \<Rightarrow> 'w ffi \<Rightarrow> cval \<Rightarrow> ('w, 'e, u64) eff" where
  "options_in L F ctx = and_then (ccall F ''SSL_CTX_get_options'' [ctx]) (\<lambda>(r, _). from_bits (SslOption_all_in L) (c_int r))"

definition connector_options_in :: "library \<Rightarrow> u64" where
  "connector_options_in L =
     (let opts = OP_ALL_in L;
          opts = opts AND NOT (NETSCAPE_REUSE_CIPHER_CHANGE_BUG_in L);
          opts = opts AND NOT SSL_OP_DONT_INSERT_EMPTY_FRAGMENTS;
          opts = opts OR SSL_OP_NO_TICKET;
          opts = opts OR not_libre L SSL_OP_NO_COMPRESSION;
          opts = opts OR NO_SSLV2_in L;
          opts = opts OR not_libre L SSL_OP_NO_SSLV3;
          opts = opts OR SINGLE_DH_USE_in L;
          opts = opts OR SINGLE_ECDH_USE_in L;
          opts = opts OR SSL_OP_CIPHER_SERVER_PREFERENCE
      in opts)"

lemmas variant_defs = libressl_def not_libre_def only10_def TLSEXT_PADDING_in_def CRYPTOPRO_TLSEXT_BUG_in_def
  LEGACY_SERVER_CONNECT_def SAFARI_ECDHE_ECDSA_BUG_def OP_ALL_libre_def OP_ALL_in_def SINGLE_ECDH_USE_in_def SINGLE_DH_USE_in_def
  NO_SSLV2_in_def NETSCAPE_REUSE_CIPHER_CHANGE_BUG_in_def option_defs

subsection \<open>The bits of each library\<close>

text \<open>For 1.1.0 they are those of \<open>Ossl_Context\<close> and \<open>Ossl_Connector\<close>.\<close>

lemma options_110: "SslOption_all_in Ossl110 = SslOption_all" "connector_options_in Ossl110 = connector_options"
  by (simp_all add: SslOption_all_in_def SslOption_in_def workarounds_in_def SslOption_all_def connector_options_in_def
      connector_options_def variant_defs SSL_OP_NETSCAPE_REUSE_CIPHER_CHANGE_BUG_def SSL_OP_NO_SSLV2_def
      SSL_OP_SINGLE_DH_USE_def SSL_OP_SINGLE_ECDH_USE_def)

lemma connector_options_known: "connector_options_in L AND NOT (SslOption_all_in L) = 0"
  by (cases L) (simp_all add: SslOption_all_in_def SslOption_in_def workarounds_in_def connector_options_in_def variant_defs)

lemma connector_options_exclude:
  "connector_options_in L AND NO_SSLV2_in L = NO_SSLV2_in L"
  "connector_options_in L AND not_libre L SSL_OP_NO_SSLV3 = not_libre L SSL_OP_NO_SSLV3"
  "connector_options_in L AND not_libre L SSL_OP_NO_COMPRESSION = not_libre L SSL_OP_NO_COMPRESSION"
  "connector_options_in L AND SSL_OP_NO_TICKET = SSL_OP_NO_TICKET"
  "connector_options_in L AND SSL_OP_DONT_INSERT_EMPTY_FRAGMENTS = 0"
  by (cases L; simp add: connector_options_in_def variant_defs)+

subsection \<open>Setting and clearing\<close>

text \<open>
  The documented behaviour of the functions on options: options are added or taken away and the new mask is
  returned. OpenSSL 1.0 and LibreSSL have one function of the same behaviour, \<open>SSL_CTX_ctrl\<close>, with a signed mask.
\<close>

definition option_law :: "'w ffi \<Rightarrow> ('w \<Rightarrow> cval \<Rightarrow> u64) \<Rightarrow> bool" where
  "option_law F bits \<longleftrightarrow>
     (\<forall>w ctx a. \<exists>os w'. F ''SSL_CTX_set_options'' [ctx, CInt (uint a)] w = ((CInt (uint (bits w ctx OR a)), os), w') \<and>
        bits w' = (bits w)(ctx := bits w ctx OR a)) \<and>
     (\<forall>w ctx a. \<exists>os w'. F ''SSL_CTX_clear_options'' [ctx, CInt (uint a)] w = ((CInt (uint (bits w ctx AND NOT a)), os), w') \<and>
        bits w' = (bits w)(ctx := bits w ctx AND NOT a)) \<and>
     (\<forall>w ctx. \<exists>os w'. F ''SSL_CTX_get_options'' [ctx] w = ((CInt (uint (bits w ctx)), os), w') \<and> bits w' = bits w)"

definition ctrl_law :: "'w ffi \<Rightarrow> ('w \<Rightarrow> cval \<Rightarrow> u64) \<Rightarrow> bool" where
  "ctrl_law F bits \<longleftrightarrow>
     (\<forall>w ctx a. \<exists>os w'. F ''SSL_CTX_ctrl'' [ctx, CInt SSL_CTRL_OPTIONS, CInt (sint a), CNull] w =
          ((CInt (sint (bits w ctx OR a)), os), w') \<and> bits w' = (bits w)(ctx := bits w ctx OR a)) \<and>
     (\<forall>w ctx a. \<exists>os w'. F ''SSL_CTX_ctrl'' [ctx, CInt SSL_CTRL_CLEAR_OPTIONS, CInt (sint a), CNull] w =
          ((CInt (sint (bits w ctx AND NOT a)), os), w') \<and> bits w' = (bits w)(ctx := bits w ctx AND NOT a))"

text \<open>The casts of the shims lose nothing, so the crate sees the functions of 1.1.0.\<close>

lemma casts_exact [simp]: "as_long (CInt (uint (a :: u64))) = CInt (sint a)" "as_ulong (CInt (sint (a :: u64))) = CInt (uint a)"
  by (simp_all add: as_long_def as_ulong_def)

lemma compat_options:
  assumes "ctrl_law F bits"
  shows "option_law (compat10 M F) bits"
  unfolding option_law_def
proof (intro conjI allI)
  fix w ctx and a :: u64
  obtain os w' where "F ''SSL_CTX_ctrl'' [ctx, CInt SSL_CTRL_OPTIONS, CInt (sint a), CNull] w =
      ((CInt (sint (bits w ctx OR a)), os), w')" "bits w' = (bits w)(ctx := bits w ctx OR a)"
    using assms unfolding ctrl_law_def by blast
  then show "\<exists>os w'. compat10 M F ''SSL_CTX_set_options'' [ctx, CInt (uint a)] w = ((CInt (uint (bits w ctx OR a)), os), w') \<and>
      bits w' = (bits w)(ctx := bits w ctx OR a)"
    by (simp add: compat10_def shim_of_def SSL_CTX_set_options10_def calls_def)
next
  fix w ctx and a :: u64
  obtain os w' where "F ''SSL_CTX_ctrl'' [ctx, CInt SSL_CTRL_CLEAR_OPTIONS, CInt (sint a), CNull] w =
      ((CInt (sint (bits w ctx AND NOT a)), os), w')" "bits w' = (bits w)(ctx := bits w ctx AND NOT a)"
    using assms unfolding ctrl_law_def by blast
  then show "\<exists>os w'. compat10 M F ''SSL_CTX_clear_options'' [ctx, CInt (uint a)] w = ((CInt (uint (bits w ctx AND NOT a)), os), w') \<and>
      bits w' = (bits w)(ctx := bits w ctx AND NOT a)"
    by (simp add: compat10_def shim_of_def SSL_CTX_clear_options10_def calls_def)
next
  fix w ctx
  obtain os w' where "F ''SSL_CTX_ctrl'' [ctx, CInt SSL_CTRL_OPTIONS, CInt (sint (0 :: u64)), CNull] w =
      ((CInt (sint (bits w ctx OR 0)), os), w')" "bits w' = (bits w)(ctx := bits w ctx OR 0)"
    using assms unfolding ctrl_law_def by blast
  then show "\<exists>os w'. compat10 M F ''SSL_CTX_get_options'' [ctx] w = ((CInt (uint (bits w ctx)), os), w') \<and> bits w' = bits w"
    by (simp add: compat10_def shim_of_def SSL_CTX_get_options10_def calls_def)
qed

lemma known_bits: "(a :: u64) AND NOT k = 0 \<Longrightarrow> b AND NOT k = 0 \<Longrightarrow> (a OR b) AND NOT k = 0"
  "a AND NOT k = 0 \<Longrightarrow> (a AND b) AND NOT k = 0"
  by (auto simp: bit_eq_iff bit_and_iff bit_or_iff)

lemma set_options_known:
  assumes law: "option_law F bits" and known: "bits w ctx AND NOT (SslOption_all_in L) = 0" "a AND NOT (SslOption_all_in L) = 0"
  shows "\<exists>w'. set_options_in L F ctx a w = (Ok (bits w ctx OR a), w') \<and> bits w' = (bits w)(ctx := bits w ctx OR a)"
proof -
  obtain os w' where "F ''SSL_CTX_set_options'' [ctx, CInt (uint a)] w = ((CInt (uint (bits w ctx OR a)), os), w')"
    "bits w' = (bits w)(ctx := bits w ctx OR a)"
    using law unfolding option_law_def by blast
  then show ?thesis using known_bits(1) [OF known] by (simp add: set_options_in_def and_then_def ccall_def from_bits_def ret_def)
qed

lemma clear_options_known:
  assumes law: "option_law F bits" and known: "bits w ctx AND NOT (SslOption_all_in L) = 0"
  shows "\<exists>w'. clear_options_in L F ctx a w = (Ok (bits w ctx AND NOT a), w') \<and> bits w' = (bits w)(ctx := bits w ctx AND NOT a)"
proof -
  obtain os w' where "F ''SSL_CTX_clear_options'' [ctx, CInt (uint a)] w = ((CInt (uint (bits w ctx AND NOT a)), os), w')"
    "bits w' = (bits w)(ctx := bits w ctx AND NOT a)"
    using law unfolding option_law_def by blast
  then show ?thesis using known_bits(2) [OF known, of "NOT a"]
    by (simp add: clear_options_in_def and_then_def ccall_def from_bits_def ret_def)
qed

lemma options_known:
  assumes law: "option_law F bits" and known: "bits w ctx AND NOT (SslOption_all_in L) = 0"
  shows "\<exists>w'. options_in L F ctx w = (Ok (bits w ctx), w') \<and> bits w' = bits w"
proof -
  obtain os w' where "F ''SSL_CTX_get_options'' [ctx] w = ((CInt (uint (bits w ctx)), os), w')" "bits w' = bits w"
    using law unfolding option_law_def by blast
  then show ?thesis using known by (simp add: options_in_def and_then_def ccall_def from_bits_def ret_def)
qed

text \<open>
  The options of the preconfigured context, in every library: from a context whose options the crate knows, they
  are set without a panic, and what SSL 2, SSL 3 and compression the library has is switched off afterwards.
\<close>

lemma connector_hardens_every_library:
  assumes law: "option_law F bits" and known: "bits w ctx AND NOT (SslOption_all_in L) = 0"
  shows "\<exists>b w'. set_options_in L F ctx (connector_options_in L) w = (Ok b :: (error_stack, u64) outcome, w') \<and> bits w' ctx = b \<and>
    (\<forall>other. other \<noteq> ctx \<longrightarrow> bits w' other = bits w other) \<and>
    b AND NO_SSLV2_in L = NO_SSLV2_in L \<and> b AND not_libre L SSL_OP_NO_SSLV3 = not_libre L SSL_OP_NO_SSLV3 \<and>
    b AND not_libre L SSL_OP_NO_COMPRESSION = not_libre L SSL_OP_NO_COMPRESSION \<and>
    (\<exists>w''. options_in L F ctx w' = (Ok b :: (error_stack, u64) outcome, w'') \<and> bits w'' = bits w')"
proof -
  let ?b = "bits w ctx OR connector_options_in L"
  obtain w' where w': "set_options_in L F ctx (connector_options_in L) w = (Ok ?b :: (error_stack, u64) outcome, w')" "bits w' = (bits w)(ctx := ?b)"
    using set_options_known [OF law known connector_options_known] by blast
  have "bits w' ctx AND NOT (SslOption_all_in L) = 0"
    using known_bits(1) [OF known connector_options_known] w' by simp
  then have "\<exists>w''. options_in L F ctx w' = (Ok ?b :: (error_stack, u64) outcome, w'') \<and> bits w'' = bits w'"
    using options_known [OF law, of w' ctx L] w' by simp
  moreover have "?b AND c = c" if "connector_options_in L AND c = c" for c
    using that by (auto simp: bit_eq_iff bit_and_iff bit_or_iff)
  ultimately show ?thesis
    using w' connector_options_exclude [of L] by (intro exI [of _ ?b] exI [of _ w']) auto
qed

text \<open>A bit the crate has no name for, in the options of a context, makes every operation on them panic.\<close>

lemma unknown_option_panics:
  assumes "option_law F bits" "bits w ctx AND NOT (SslOption_all_in L) \<noteq> 0"
  shows "\<exists>w'. options_in L F ctx w = (Panic, w')"
proof -
  obtain os w' where "F ''SSL_CTX_get_options'' [ctx] w = ((CInt (uint (bits w ctx)), os), w')"
    using assms unfolding option_law_def by blast
  then show ?thesis using assms(2) by (simp add: options_in_def and_then_def ccall_def from_bits_def panic_def)
qed

text \<open>A library with \<open>SSL_CTX_ctrl\<close> that keeps one mask for each context, seen through the shims.\<close>

definition masks_lib :: "(cval \<Rightarrow> u64) ffi" where
  "masks_lib f args w =
     (if f = ''SSL_CTX_ctrl'' then
        (let a = word_of_int (c_int (args ! 2));
             b = (if args ! 1 = CInt SSL_CTRL_OPTIONS then w (hd args) OR a else w (hd args) AND NOT a)
         in ((CInt (sint b), []), w(hd args := b)))
      else ((CNull, []), w))"

lemma masks_ctrl: "ctrl_law masks_lib (\<lambda>w. w)"
  by (simp add: ctrl_law_def masks_lib_def Let_def SSL_CTRL_OPTIONS_def SSL_CTRL_CLEAR_OPTIONS_def)

lemma masks_hardened:
  "\<exists>b w'. set_options_in Ossl102 (compat10 M masks_lib) ctx (connector_options_in Ossl102) (\<lambda>_. 0) =
      (Ok b :: (error_stack, u64) outcome, w') \<and> w' ctx = b \<and> b AND 0x01000000 = 0x01000000 \<and> b AND 0x02000000 = 0x02000000"
  using connector_hardens_every_library [OF compat_options [OF masks_ctrl], of "\<lambda>_. 0" ctx Ossl102 M]
  by (auto simp: variant_defs)

end
