(* ===== verification/Spec2Isabelle.thy ===== *)
theory Spec2Isabelle
  imports Demo_Witnesses Ossl_Verify Ossl_Sha Symm_Laws Connector_Laws Client_Laws Ossl_Bn Callback_Laws
    Key_Laws Ossl_Sign Ossl_Derive Ossl_Sys Ossl_Locks Tolla_Proxy Build_Config Ossl_Variants
begin

text \<open>
  Tolla, a service that manages consent to the use of personal data, and the openssl crate it ships.

  \<^bold>\<open>The program.\<close> A tenant registers with purposes it consents to. The engine
  (\<open>tolla/src/consent.rs\<close>) then issues a server certificate (\<open>ca.rs\<close>), writes it to a directory,
  starts a container with it (\<open>docker.rs\<close>) and records the tenant's address and consent in MongoDB.
  Processes ask for a client certificate that carries their intent, and for the addresses of the
  tenants; a container asks, by the serial number of its certificate, whether an intent is covered by
  the consent. Requests come over HTTP (\<open>endpoints.rs\<close>) and over a Protobuf protocol (\<open>register.rs\<close>,
  \<open>tolla_proto\<close>); both front ends share one engine behind a mutex. \<open>client/src/main.rs\<close> is a process
  and \<open>src/src/main.rs\<close> starts the server. \<open>proxy.rs\<close> relays connections to the databases. All cryptography goes through \<open>rust-openssl\<close>, which is part
  of the repository: \<open>openssl\<close> wraps the C library, \<open>openssl-sys\<close> declares it.

  \<^bold>\<open>How it is modelled.\<close> \<open>Rust_Prelude\<close> has the effects of Rust code: a function takes the state of
  the outside and returns it with an outcome, which is a value, an error, a panic, or \<open>Diverge\<close> for a
  run that never returns or that reads an invalid pointer. \<open>Rust_Object\<close> adds methods on
  \<open>&mut self\<close>, scopes that end in \<open>Drop\<close>, and loops. Third-party code is a parameter: the C library is
  a function from the name and the arguments of a call (\<open>ffi\<close>, in \<open>Ossl_Error\<close>), the database, the
  Docker client, files and generators are the record \<open>env\<close> (\<open>Externals\<close>), those of the client the
  record \<open>client_env\<close>. Nothing is assumed of them in definitions. What a theorem needs is a named
  predicate of the theory that states it (\<open>err_queue_law\<close>, the store and certificate laws, \<open>tls_law\<close>,
  \<open>alpn_law\<close>, \<open>option_law\<close>, \<open>file_law\<close>, \<open>cpp_law\<close>, \<open>cargo_law\<close> and others), each a documented behaviour, and each shown to be satisfiable by a
  concrete library or world with which the witnesses run the model. Integers are words of their width.
  Pointers are opaque; a value that C code holds for Rust is passed as the value itself where the code
  only stores and reads it, and lives in \<open>boxes\<close> where it is changed behind the pointer.

  \<^bold>\<open>The service.\<close>
  \<^item> \<open>Tolla_Proto\<close>: the messages and both codecs; locale \<open>stream_decoder\<close>, with both codecs as
    instances. A request survives any cutting into chunks; one read delivers at most one message.
  \<^item> \<open>Tolla_Ca\<close>, \<open>Tolla_Docker\<close>, \<open>Tolla_Consent\<close>, \<open>Tolla_Service\<close>: the authority, the store manager,
    the engine with its serializers and builder, the front ends with mutex and poisoning; locale
    \<open>guarded_handler\<close>, with every handler as an instance, and the step relation \<open>served\<close>.
  \<^item> \<open>Consent_Laws\<close>, \<open>Ca_Laws\<close>, \<open>Service_Laws\<close>: what onboarding, deboarding, leases and requests do
    to the database, on success and on failure; the exact content of both kinds of certificate; the
    invariant of the store over all reachable states; that a panic inside the lock ends the service.
  \<^item> \<open>Demo_World\<close>, \<open>Demo_Witnesses\<close>: an executable world that satisfies those laws.
  \<^item> \<open>Tolla_Client\<close>, \<open>Client_Laws\<close>: both programs, and what the client leaves on disk.
  \<^item> \<open>Tolla_Proxy\<close>: the proxy over a record of tokio's operations. A relayed connection is transparent
    in any interleaving of its directions; the first client that cannot be routed ends the proxy.

  \<^bold>\<open>The openssl crate.\<close>
  \<^item> \<open>Ossl_Error\<close>: error codes, the error queue and its loop, return-code checks. \<open>ErrorStack::get\<close> is a
    partial function; with a finite queue it returns, in order, every entry.
  \<^item> \<open>Ossl_X509\<close>, \<open>Ossl_Extension\<close>, \<open>Extension_Laws\<close>: certificates, names, requests, extensions and
    their configuration texts; the collection of extensions refines a map by type.
  \<^item> \<open>Ossl_Verify\<close>: host name verification as the crate does it itself, with the parser of addresses;
    the wildcard matcher is characterised by a relation on strings.
  \<^item> \<open>Ossl_Hash\<close>, \<open>Ossl_Sha\<close>: \<open>Hasher\<close> as a state machine that restarts itself, refined to digests of
    the bytes since the last restart; clones are independent; the streaming SHA functions agree with
    the one-shot ones.
  \<^item> \<open>Ossl_Symm\<close>, \<open>Symm_Laws\<close>: ciphers, \<open>Crypter\<close>, one-shot and authenticated encryption: decryption
    undoes encryption, and a tampered message is refused.
  \<^item> \<open>Ossl_Stack\<close>: stacks and their iterators; locale \<open>list_stack\<close> and its instance. A stack behaves as
    a list and each element is freed exactly once.
  \<^item> \<open>Ossl_Tls\<close>, \<open>Tls_Laws\<close>: a Rust stream as a BIO, called back by the library, and the TLS stream on
    top of it. The relation \<open>driven\<close> is all the library may do to a stream. Panics are raised, errors
    come back, interrupted handshakes resume.
  \<^item> \<open>Ossl_Context\<close>, \<open>Ossl_Callbacks\<close>, \<open>Callback_Laws\<close>: the configuration of contexts and sessions, the
    registry of extra-data indexes, the callbacks, and the negotiation of protocols. The registry keeps
    closures of different types apart, so the casts in the callbacks are sound.
  \<^item> \<open>Ossl_Connector\<close>, \<open>Connector_Laws\<close>: the preconfigured client and server. The theorem reads the log
    of calls of an arbitrary library.
  \<^item> \<open>Ossl_Bn\<close>: numbers of any size. The operators refine integer arithmetic through the abstraction
    \<open>nums\<close>, the integer each number in C stands for.
  \<^item> \<open>Ossl_Passwd\<close>: password callbacks and the functions the macros generate for every key type. A C
    function that calls back is a finite program played against the callback; a panic in the callback
    is raised again in Rust, and a passphrase acts as the closure that copies it.
  \<^item> \<open>Ossl_Keys\<close>, \<open>Ossl_Ec\<close>, \<open>Key_Laws\<close>: keys of all kinds with the ownership of their numbers:
    each number has one owner on every path; encryption stays in its buffers and is undone by decryption.
  \<^item> \<open>Ossl_Sign\<close>: signatures, as instances of the locale \<open>absorber\<close> of \<open>Ossl_Hash\<close>: they do not depend on
    how the message is cut.
  \<^item> \<open>Ossl_Derive\<close>, \<open>Ossl_Containers\<close>: key derivation and small types; PKCS#12, CMS, OCSP, stores.
  \<^item> \<open>Ossl_Asn1\<close>: the rest of certificates and ASN.1 values; the loop over a chain in one PEM text ends and
    returns every certificate, or drops them all.
  \<^item> \<open>Ossl_Nid\<close>, \<open>Ossl_Sys\<close>: the numeric identifiers as tables, checked to be without duplicates and to
    carry the names of the C constants; the C macros, and that the wrappers are those macros.
  \<^item> \<open>Ossl_Locks\<close>: the locks lent to OpenSSL 1.0, a step relation over all interleavings of threads: no
    race on the vector of guards, no abort, and no lock is lost.
  \<^item> \<open>Ossl_Compat\<close>, \<open>Compat_Laws\<close>: OpenSSL 1.0, where the modules \<open>compat\<close> of the crate read and write the C
    structures themselves. The structures are records in a memory, each function of a \<open>compat\<close> module is a shim, and
    \<open>compat10\<close> is the library the wrappers then see, so that the wrappers above are also those for 1.0. For any
    place of the memory in the state (locale \<open>memory\<close>): a key gets its eight numbers and returns them, references
    are counted, a master key is read within its buffers.
  \<^item> \<open>Ossl_Variants\<close>: the options of a context, whose bits differ between the libraries, with the library as an
    argument: the shims for 1.0 lose no bit in their casts, and in every library the preconfigured context
    switches off what SSL 2, SSL 3 and compression there is, without a panic.
  \<^item> \<open>Rust_Text\<close>, \<open>Cargo_Script\<close>, \<open>Ossl_Build\<close>: strings, the state of a build script, and the scripts of
    \<open>openssl-sys\<close>, \<open>openssl\<close> and \<open>systest\<close>, with the texts they print and panic with.
  \<^item> \<open>Build_Cpp\<close>, \<open>Build_Version\<close>, \<open>Build_Laws\<close>, \<open>Build_Config\<close>: a semantics of the generated C file; the version
    test is exact for every version number; only files that are there are linked; the scripts of the
    two crates, run in sequence, configure them for the same library.
  \<^item> \<open>Demo_Heap\<close>: association lists as heaps for the libraries of the witnesses.

  \<^bold>\<open>Loops.\<close> Loops over data are recursion on the data. The loops nothing bounds, those over the error
  queue and over a PEM text, and \<open>while let\<close>, which empties a stack and accepts connections, are partial
  functions, and that they return is part of the theorems about them. There is no fuel.

  \<^bold>\<open>Configuration.\<close> Where the source has variants, the one for OpenSSL 1.1.0 on a platform with 64-bit
  \<open>long\<close> is modelled; the variants for 1.0 are in \<open>Ossl_Compat\<close>, its locks in \<open>Ossl_Locks\<close>, and its
  verification of host names in \<open>Ossl_Verify\<close>. Error texts of serde are abbreviated
  to their kind. In \<open>Ossl_X509\<close> the freeing of temporary C objects at the end of a scope is left out;
  from \<open>Ossl_Hash\<close> on it is modelled.

  \<^bold>\<open>Not modelled.\<close> The extern declarations in \<open>openssl-sys\<close> and the fields of C structures that Rust code never
  reads, which have no behaviour of their own; LibreSSL, which uses the modules for 1.0, but for its options; accessors that only cast a
  pointer (\<open>as_ptr\<close>, \<open>as_ref\<close>, \<open>deref\<close>), constructors that only wrap one; \<open>Display\<close> of handshake errors and
  \<open>Debug\<close> output; logging; the script of \<open>tolla_proto\<close>, one call
  of the Protobuf compiler; tests; the Go program under \<open>mongodb\<close>.
\<close>

end
